(* ===== verification/Prelude.thy ===== *)
theory Prelude
  imports Main "HOL-Library.Word"
begin

text \<open>
  Shared vocabulary of the development: the C integer types as words, the little-endian layout
  of 16- and 32-bit integers in memory (the SoCs of this repository are little-endian ARM cores),
  slices of arrays, partial overwriting of a buffer (\<open>overlay\<close>), the byte swaps behind
  \<open>htonl\<close>/\<open>ntohl\<close> and \<open>htons\<close>/\<open>ntohs\<close>, and the list lemmas the component theories rest on.
\<close>

unbundle bit_operations_syntax

type_synonym byte = "8 word"
type_synonym u16 = "16 word"
type_synonym u32 = "32 word"
type_synonym u64 = "64 word"

named_theorems wire_simps \<open>round-trip and length facts of the memory layout functions\<close>

section \<open>Little-endian layout of C integers\<close>

definition enc16 :: "u16 \<Rightarrow> byte list" where
  "enc16 w = [ucast w, ucast (drop_bit 8 w)]"

definition enc32 :: "u32 \<Rightarrow> byte list" where
  "enc32 w = [ucast w, ucast (drop_bit 8 w), ucast (drop_bit 16 w), ucast (drop_bit 24 w)]"

definition dec16 :: "byte \<Rightarrow> byte \<Rightarrow> u16" where
  "dec16 a b = ucast a OR push_bit 8 (ucast b)"

definition dec32 :: "byte \<Rightarrow> byte \<Rightarrow> byte \<Rightarrow> byte \<Rightarrow> u32" where
  "dec32 a b c d =
     ucast a OR push_bit 8 (ucast b) OR push_bit 16 (ucast c) OR push_bit 24 (ucast d)"

fun enc16s :: "u16 list \<Rightarrow> byte list" where
  "enc16s [] = []"
| "enc16s (w # ws) = enc16 w @ enc16s ws"

fun enc32s :: "u32 list \<Rightarrow> byte list" where
  "enc32s [] = []"
| "enc32s (w # ws) = enc32 w @ enc32s ws"

fun dec16s :: "byte list \<Rightarrow> u16 list" where
  "dec16s (a # b # bs) = dec16 a b # dec16s bs"
| "dec16s _ = []"

fun dec32s :: "byte list \<Rightarrow> u32 list" where
  "dec32s (a # b # c # d # bs) = dec32 a b c d # dec32s bs"
| "dec32s _ = []"

lemma not_bit_byte [simp]: "\<not> bit (b :: byte) (8 + n)" "\<not> bit (b :: byte) (16 + n)" "\<not> bit (b :: byte) (24 + n)"
  using bit_imp_le_length [of b "8 + n"] bit_imp_le_length [of b "16 + n"]
    bit_imp_le_length [of b "24 + n"] by auto

lemma dec16_enc16 [wire_simps]: "dec16 (ucast w) (ucast (drop_bit 8 w)) = w"
  by (rule bit_word_eqI) (auto simp: dec16_def bit_simps)

lemma dec32_enc32 [wire_simps]:
  "dec32 (ucast w) (ucast (drop_bit 8 w)) (ucast (drop_bit 16 w)) (ucast (drop_bit 24 w)) = w"
proof (rule bit_word_eqI)
  fix n assume "n < LENGTH(32)"
  then consider "n < 8" | "8 \<le> n" "n < 16" | "16 \<le> n" "n < 24" | "24 \<le> n" "n < 32" by fastforce
  then show "bit (dec32 (ucast w) (ucast (drop_bit 8 w)) (ucast (drop_bit 16 w))
      (ucast (drop_bit 24 w))) n = bit w n"
    by cases (auto simp: dec32_def bit_simps)
qed

lemma enc16_dec16 [wire_simps]: "enc16 (dec16 a b) = [a, b]"
  by (auto simp: enc16_def dec16_def bit_simps intro!: bit_word_eqI)

lemma enc32_dec32 [wire_simps]: "enc32 (dec32 a b c d) = [a, b, c, d]"
  by (auto simp: enc32_def dec32_def bit_simps intro!: bit_word_eqI)

lemma length_enc16 [simp]: "length (enc16 w) = 2"
  by (simp add: enc16_def)

lemma length_enc32 [simp]: "length (enc32 w) = 4"
  by (simp add: enc32_def)

lemma length_enc16s [simp]: "length (enc16s ws) = 2 * length ws"
  by (induction ws) auto

lemma length_enc32s [simp]: "length (enc32s ws) = 4 * length ws"
  by (induction ws) auto

lemma length_dec16s [simp]: "length (dec16s bs) = length bs div 2"
  by (induction bs rule: dec16s.induct) auto

lemma length_dec32s [simp]: "length (dec32s bs) = length bs div 4"
  by (induction bs rule: dec32s.induct) auto

lemma dec16s_append [simp]: "dec16s (enc16s ws @ bs) = ws @ dec16s bs"
  by (induction ws) (auto simp: enc16_def wire_simps)

lemma dec32s_append [simp]: "dec32s (enc32s ws @ bs) = ws @ dec32s bs"
  by (induction ws) (auto simp: enc32_def wire_simps)

lemma dec16s_enc16s [simp]: "dec16s (enc16s ws) = ws"
  using dec16s_append [of ws "[]"] by simp

lemma dec32s_enc32s [simp]: "dec32s (enc32s ws) = ws"
  using dec32s_append [of ws "[]"] by simp

lemma enc16s_dec16s [wire_simps]: "even (length bs) \<Longrightarrow> enc16s (dec16s bs) = bs"
  by (induction bs rule: dec16s.induct) (auto simp: wire_simps)

lemma enc32s_dec32s [wire_simps]: "4 dvd length bs \<Longrightarrow> enc32s (dec32s bs) = bs"
proof (induction bs rule: dec32s.induct)
  case (1 a b c d bs)
  then have "4 dvd length bs" by simp presburger
  with 1 show ?case by (simp add: wire_simps)
qed (auto dest: dvd_imp_le)

lemma enc16s_app [simp]: "enc16s (xs @ ys) = enc16s xs @ enc16s ys"
  by (induction xs) auto

lemma enc32s_app [simp]: "enc32s (xs @ ys) = enc32s xs @ enc32s ys"
  by (induction xs) auto

declare enc16s.simps(2) [simp del] enc32s.simps(2) [simp del] enc16s_app [simp del] enc32s_app [simp del]

section \<open>Slices and partial overwrites\<close>

text \<open>
  \<open>slice v i n\<close> is the array section \<open>v[i .. i+n-1]\<close>; \<open>overlay c bs\<close> is the buffer \<open>c\<close> after
  \<open>memcpy(c, bs, length bs)\<close>: bytes past the copied ones keep the caller's content.
\<close>

definition slice :: "'a list \<Rightarrow> nat \<Rightarrow> nat \<Rightarrow> 'a list" where
  "slice v i n = take n (drop i v)"

definition overlay :: "'a list \<Rightarrow> 'a list \<Rightarrow> 'a list" where
  "overlay c bs = bs @ drop (length bs) c"

lemma length_slice [simp]: "length (slice v i n) = min n (length v - i)"
  by (simp add: slice_def)

lemma slice_append: "slice v i n @ slice v (i + n) m = slice v i (n + m)"
  by (simp add: slice_def take_add) (simp add: add.commute)

lemma nth_slice1: "i < length v \<Longrightarrow> [v ! i] = slice v i 1"
  by (simp add: slice_def take_Suc_conv_app_nth Cons_nth_drop_Suc [symmetric])

lemma length_overlay [simp]: "length bs \<le> length c \<Longrightarrow> length (overlay c bs) = length c"
  by (simp add: overlay_def)

lemma overlay_full: "length bs = length c \<Longrightarrow> overlay c bs = bs"
  by (simp add: overlay_def)

lemma overlay_take [simp]: "overlay c (take n c) = c"
  by (simp add: overlay_def min_def)

text \<open>
  A struct read field by field from an array \<open>v\<close> of words is the array again: scalar members
  \<open>v ! i\<close> and array members \<open>slice v i n\<close> are fused from the right.
\<close>

named_theorems fuse \<open>fusing consecutive members of a struct\<close>

lemma fuse_last [fuse]: "i < length v \<Longrightarrow> [v ! i] = slice v i 1"
  by (rule nth_slice1)

lemma fuse_cons [fuse]:
  "j = Suc i \<Longrightarrow> i < length v \<Longrightarrow> v ! i # slice v j n = slice v i (Suc n)"
  by (simp add: slice_def Cons_nth_drop_Suc [symmetric])

lemma fuse_append [fuse]: "j = i + n \<Longrightarrow> slice v i n @ slice v j m = slice v i (n + m)"
  by (simp add: slice_append)

lemma slice_slice [fuse]: "j + m \<le> n \<Longrightarrow> slice (slice v i n) j m = slice v (i + j) m"
  by (simp add: slice_def drop_take add.commute)

lemma overlay_slice [simp]: "overlay c (slice c 0 n) = c"
  by (simp add: slice_def)

text \<open>Conversely, a member of a struct laid out member by member is found at its offset.\<close>

named_theorems layout \<open>finding a member of a struct in the concatenation of its members\<close>

declare overlay_def [layout]

lemma slice_full [layout]: "length v \<le> n \<Longrightarrow> slice v 0 n = v"
  by (simp add: slice_def)

lemma slice_head [layout]: "i + n \<le> length xs \<Longrightarrow> slice (xs @ ys) i n = slice xs i n"
  by (simp add: slice_def)

lemma slice_skip [layout]: "length xs \<le> i \<Longrightarrow> slice (xs @ ys) i n = slice ys (i - length xs) n"
  by (simp add: slice_def)

lemma slice_Cons [layout]: "0 < i \<Longrightarrow> slice (x # xs) i n = slice xs (i - 1) n"
  by (simp add: slice_def drop_Cons')

lemma list_all_update: "list_all P xs \<Longrightarrow> P x \<Longrightarrow> list_all P (xs[i := x])"
  by (simp add: list_all_iff) (metis insert_iff set_update_subset_insert subset_iff)

lemma drop_dec16s: "drop i (dec16s c) = dec16s (drop (2 * i) c)"
proof (induction i arbitrary: c)
  case (Suc i)
  show ?case by (cases c rule: dec16s.cases) (simp_all add: Suc)
qed simp

lemma drop_dec32s: "drop i (dec32s c) = dec32s (drop (4 * i) c)"
proof (induction i arbitrary: c)
  case (Suc i)
  show ?case by (cases c rule: dec32s.cases) (simp_all add: Suc numeral_eq_Suc)
qed simp

lemma take_dec16s: "take k (dec16s c) = dec16s (take (2 * k) c)"
proof (induction k arbitrary: c)
  case (Suc k)
  show ?case by (cases c rule: dec16s.cases) (simp_all add: Suc)
qed simp

lemma take_dec32s: "take k (dec32s c) = dec32s (take (4 * k) c)"
proof (induction k arbitrary: c)
  case (Suc k)
  show ?case
    by (cases c rule: dec32s.cases) (simp_all add: Suc numeral_eq_Suc)
qed simp

lemma enc16s_slice [wire_simps]:
  "2 * (i + n) \<le> length c \<Longrightarrow> enc16s (slice (dec16s c) i n) = slice c (2 * i) (2 * n)"
  by (simp add: slice_def drop_dec16s take_dec16s enc16s_dec16s)

lemma enc32s_slice [wire_simps]:
  "4 * (i + n) \<le> length c \<Longrightarrow> enc32s (slice (dec32s c) i n) = slice c (4 * i) (4 * n)"
  by (simp add: slice_def drop_dec32s take_dec32s enc32s_dec32s)

lemma dec32s_overlay [wire_simps]:
  "dec32s (overlay c (enc32s vs)) = vs @ dec32s (drop (4 * length vs) c)"
  by (simp add: overlay_def)

lemma overlay_self [simp]: "overlay c c = c"
  by (simp add: overlay_def)

section \<open>Byte order conversion\<close>

text \<open>\<open>htonl\<close>, \<open>ntohl\<close>, \<open>htons\<close> and \<open>ntohs\<close> reverse the bytes on a little-endian machine.\<close>

definition bswap16 :: "u16 \<Rightarrow> u16" where
  "bswap16 w = dec16 (ucast (drop_bit 8 w)) (ucast w)"

definition bswap32 :: "u32 \<Rightarrow> u32" where
  "bswap32 w = dec32 (ucast (drop_bit 24 w)) (ucast (drop_bit 16 w)) (ucast (drop_bit 8 w)) (ucast w)"

lemma bswap16_enc: "enc16 (bswap16 w) = rev (enc16 w)"
  unfolding bswap16_def enc16_dec16 by (simp add: enc16_def)

lemma bswap32_enc: "enc32 (bswap32 w) = rev (enc32 w)"
  unfolding bswap32_def enc32_dec32 by (simp add: enc32_def)

lemma enc16_inj: "enc16 v = enc16 w \<Longrightarrow> v = w"
  by (metis append_Nil2 dec16s_enc16s enc16s.simps(1) enc16s.simps(2) list.inject)

lemma enc32_inj: "enc32 v = enc32 w \<Longrightarrow> v = w"
  by (metis append_Nil2 dec32s_enc32s enc32s.simps(1) enc32s.simps(2) list.inject)

lemma bswap16_bswap16 [simp]: "bswap16 (bswap16 w) = w"
  by (rule enc16_inj) (simp add: bswap16_enc)

lemma bswap32_bswap32 [simp]: "bswap32 (bswap32 w) = w"
  by (rule enc32_inj) (simp add: bswap32_enc)

section \<open>State machines\<close>

text \<open>A property that every step keeps is kept by every run.\<close>

lemma rtranclp_keeps: "R\<^sup>*\<^sup>* a b \<Longrightarrow> P a \<Longrightarrow> (\<And>x y. R x y \<Longrightarrow> P x \<Longrightarrow> P y) \<Longrightarrow> P b"
  by (induction rule: rtranclp_induct) auto

text \<open>
  The contract of a state machine with an invariant: the components that are step relations provide it, and what is
  said about their reachable states rests on it.
\<close>

locale invariant_system =
  fixes step :: "'s \<Rightarrow> 's \<Rightarrow> bool" and start :: "'s \<Rightarrow> bool" and inv :: "'s \<Rightarrow> bool"
  assumes start_safe: "start s \<Longrightarrow> inv s"
    and step_safe: "step s s' \<Longrightarrow> inv s \<Longrightarrow> inv s'"
begin

lemma run_safe: "step\<^sup>*\<^sup>* s s' \<Longrightarrow> inv s \<Longrightarrow> inv s'"
  by (erule rtranclp_keeps[of step s s' inv]) (auto intro: step_safe)

lemma reachable_safe: "start s \<Longrightarrow> step\<^sup>*\<^sup>* s s' \<Longrightarrow> inv s'"
  by (blast intro: run_safe start_safe)

end

end
