(* ===== verification/CfgItems.thy ===== *)
theory CfgItems
  imports Prelude
begin

text \<open>
  The walk over a configuration group that \<open>isp_tuning_get_cfg\<close>, \<open>isp_tuning_set_cfg\<close>
  (\<open>isp_tuning.c\<close>) and \<open>convert_tuning_cfg_func\<close> (\<open>isp_handle.c\<close>) share. Each of the three is, per
  group, a sequence of blocks \<open>if (cfg_ids & ID) { ...; data_ptr += sizeof(struct); }\<close>. A block is
  an item: its id bit, the size of its wire struct, what it stores into the caller's buffer (get),
  and what it takes out of it (set; the set direction may also rewrite the buffer). The walk takes
  the items in order, skips those whose bit is clear, and fails (\<open>None\<close>) when a block would touch
  memory past the end of the caller's buffer, which the C code does not check.

  The locale \<open>cfg_group\<close> states what the blocks of one group promise; the round trips of a whole
  group are proved once inside it and the component theories interpret it per group.
\<close>

record 's cfg_item =
  cfg_id :: u32
  cfg_size :: nat
  cfg_get :: "'s \<Rightarrow> byte list \<Rightarrow> byte list"
  cfg_set :: "'s \<Rightarrow> byte list \<Rightarrow> 's \<times> byte list"

definition selected :: "u32 \<Rightarrow> u32 \<Rightarrow> bool" where
  "selected ids i \<longleftrightarrow> ids AND i \<noteq> 0"

fun get_items :: "'s cfg_item list \<Rightarrow> u32 \<Rightarrow> 's \<Rightarrow> byte list \<Rightarrow> (nat \<times> byte list) option" where
  "get_items [] ids s buf = Some (0, buf)"
| "get_items (it # its) ids s buf =
     (if selected ids (cfg_id it) then
        if length buf < cfg_size it then None
        else (case get_items its ids s (drop (cfg_size it) buf) of
                None \<Rightarrow> None
              | Some (n, rest) \<Rightarrow>
                  Some (cfg_size it + n, cfg_get it s (take (cfg_size it) buf) @ rest))
      else get_items its ids s buf)"

fun set_items :: "'s cfg_item list \<Rightarrow> u32 \<Rightarrow> 's \<Rightarrow> byte list \<Rightarrow> ('s \<times> nat \<times> byte list) option" where
  "set_items [] ids s buf = Some (s, 0, buf)"
| "set_items (it # its) ids s buf =
     (if selected ids (cfg_id it) then
        if length buf < cfg_size it then None
        else let (s', c) = cfg_set it s (take (cfg_size it) buf) in
          (case set_items its ids s' (drop (cfg_size it) buf) of
             None \<Rightarrow> None
           | Some (s'', n, rest) \<Rightarrow> Some (s'', cfg_size it + n, c @ rest))
      else set_items its ids s buf)"

text \<open>The bytes a request covers: the sum of the wire sizes of the selected items.\<close>

fun items_size :: "'s cfg_item list \<Rightarrow> u32 \<Rightarrow> nat" where
  "items_size [] ids = 0"
| "items_size (it # its) ids =
     (if selected ids (cfg_id it) then cfg_size it else 0) + items_size its ids"

text \<open>Every selected chunk of the buffer satisfies the condition \<open>ok\<close> of its item.\<close>

fun items_all :: "(u32 \<Rightarrow> byte list \<Rightarrow> bool) \<Rightarrow> 's cfg_item list \<Rightarrow> u32 \<Rightarrow> byte list \<Rightarrow> bool" where
  "items_all ok [] ids buf = True"
| "items_all ok (it # its) ids buf =
     (if selected ids (cfg_id it)
      then ok (cfg_id it) (take (cfg_size it) buf) \<and> items_all ok its ids (drop (cfg_size it) buf)
      else items_all ok its ids buf)"

lemma items_all_True [simp]: "items_all (\<lambda>_ _. True) its ids buf"
  by (induction its arbitrary: buf) auto

lemma get_items_size:
  "get_items its ids s buf = Some (n, buf') \<Longrightarrow> n = items_size its ids \<and> n \<le> length buf"
  by (induction its arbitrary: buf buf' n) (fastforce split: if_splits option.splits)+

lemma get_items_defined:
  "items_size its ids \<le> length buf \<Longrightarrow> \<exists>buf'. get_items its ids s buf = Some (items_size its ids, buf')"
proof (induction its arbitrary: buf)
  case (Cons it its)
  show ?case
  proof (cases "selected ids (cfg_id it)")
    case True
    with Cons.prems have "items_size its ids \<le> length (drop (cfg_size it) buf)" by simp
    from Cons.IH [OF this] True Cons.prems show ?thesis by auto
  qed (use Cons in auto)
qed simp

lemma set_items_size:
  "set_items its ids s buf = Some (s', n, buf') \<Longrightarrow> n = items_size its ids \<and> n \<le> length buf"
  by (induction its arbitrary: s buf s' buf' n)
    (fastforce split: if_splits option.splits prod.splits)+

lemma set_items_defined:
  "items_size its ids \<le> length buf \<Longrightarrow>
   \<exists>s' buf'. set_items its ids s buf = Some (s', items_size its ids, buf')"
proof (induction its arbitrary: s buf)
  case (Cons it its)
  show ?case
  proof (cases "selected ids (cfg_id it)")
    case True
    obtain s1 c where sc: "cfg_set it s (take (cfg_size it) buf) = (s1, c)" by fastforce
    from True Cons.prems have "items_size its ids \<le> length (drop (cfg_size it) buf)" by simp
    from Cons.IH [OF this, of s1] True Cons.prems sc show ?thesis by auto
  qed (use Cons in auto)
qed simp

section \<open>What the blocks of a group promise\<close>

text \<open>What item \<open>i\<close> reads is not affected by writing item \<open>j\<close>.\<close>

definition unaffected :: "('s \<Rightarrow> bool) \<Rightarrow> 's cfg_item \<Rightarrow> 's cfg_item \<Rightarrow> bool" where
  "unaffected good i j \<longleftrightarrow> (\<forall>s c c'. good s \<longrightarrow> length c = cfg_size j \<longrightarrow>
     cfg_get i (fst (cfg_set j s c)) c' = cfg_get i s c')"

lemma selected_disjoint:
  assumes "i \<in> set (map ((^) 2) [0..<32])" "selected a i" "selected b i"
  shows "a AND b \<noteq> 0"
proof -
  obtain k where i: "i = 2 ^ k" using assms(1) by auto
  have "bit a k" "bit b k" using assms(2,3) unfolding selected_def i and_exp_eq_0_iff_not_bit by auto
  then have "bit (a AND b) k" by (simp add: bit_and_iff)
  then show ?thesis by auto
qed

locale cfg_group =
  fixes items :: "'s cfg_item list"
    and wf :: "'s \<Rightarrow> bool"
    and ok :: "u32 \<Rightarrow> byte list \<Rightarrow> bool"
  assumes get_length: "it \<in> set items \<Longrightarrow> wf s \<Longrightarrow> length c = cfg_size it \<Longrightarrow>
      length (cfg_get it s c) = cfg_size it"
    and set_length: "it \<in> set items \<Longrightarrow> wf s \<Longrightarrow> length c = cfg_size it \<Longrightarrow>
      length (snd (cfg_set it s c)) = cfg_size it"
    and set_wf: "it \<in> set items \<Longrightarrow> wf s \<Longrightarrow> length c = cfg_size it \<Longrightarrow>
      wf (fst (cfg_set it s c))"
    and put_get: "it \<in> set items \<Longrightarrow> wf s \<Longrightarrow> length c = cfg_size it \<Longrightarrow> ok (cfg_id it) c \<Longrightarrow>
      cfg_get it (fst (cfg_set it s c)) (snd (cfg_set it s c)) = snd (cfg_set it s c)"
    and get_put: "it \<in> set items \<Longrightarrow> wf s \<Longrightarrow> length c = cfg_size it \<Longrightarrow>
      cfg_set it s (cfg_get it s c) = (s, cfg_get it s c)"
    and single_bit: "it \<in> set items \<Longrightarrow> cfg_id it \<in> set (map ((^) 2) [0..<32])"
    and independent: "sorted_wrt (\<lambda>i j. unaffected wf i j \<and> unaffected wf j i) items"
begin

lemma get_items_length:
  assumes "set its \<subseteq> set items" "wf s" "get_items its ids s buf = Some (n, buf')"
  shows "length buf' = length buf"
  using assms
proof (induction its arbitrary: buf buf' n)
  case (Cons it its)
  show ?case
  proof (cases "selected ids (cfg_id it)")
    case True
    from Cons.prems True obtain m rest where
      r: "get_items its ids s (drop (cfg_size it) buf) = Some (m, rest)"
      and b: "buf' = cfg_get it s (take (cfg_size it) buf) @ rest"
      and l: "cfg_size it \<le> length buf"
      by (auto split: if_splits option.splits)
    from Cons.IH [OF _ _ r] Cons.prems have "length rest = length buf - cfg_size it" by simp
    with b l Cons.prems show ?thesis by (simp add: get_length)
  qed (use Cons in auto)
qed simp

lemma set_items_keeps:
  assumes "set its \<subseteq> set items" "wf s" "set_items its ids s buf = Some (s', n, buf')"
  shows "wf s' \<and> length buf' = length buf"
  using assms
proof (induction its arbitrary: s buf s' buf' n)
  case (Cons it its)
  show ?case
  proof (cases "selected ids (cfg_id it)")
    case True
    obtain s1 c where sc: "cfg_set it s (take (cfg_size it) buf) = (s1, c)" by fastforce
    from Cons.prems True sc obtain m rest where
      r: "set_items its ids s1 (drop (cfg_size it) buf) = Some (s', m, rest)"
      and b: "buf' = c @ rest" and l: "cfg_size it \<le> length buf"
      by (auto split: if_splits option.splits)
    have it: "it \<in> set items" using Cons.prems by simp
    have lt: "length (take (cfg_size it) buf) = cfg_size it" using l by simp
    have "wf s1" "length c = cfg_size it"
      using set_wf [OF it Cons.prems(2) lt] set_length [OF it Cons.prems(2) lt] sc by simp_all
    with Cons.IH [OF _ _ r] Cons.prems b l show ?thesis by simp
  qed (use Cons in auto)
qed simp

lemma get_after_later_sets:
  assumes "set its \<subseteq> set items" "wf s" "set_items its ids s buf = Some (s', n, buf')"
    and "list_all (\<lambda>j. selected ids (cfg_id j) \<longrightarrow> unaffected wf i j) its"
  shows "cfg_get i s' c = cfg_get i s c"
  using assms
proof (induction its arbitrary: s buf s' buf' n)
  case (Cons it its)
  show ?case
  proof (cases "selected ids (cfg_id it)")
    case True
    obtain s1 c1 where sc: "cfg_set it s (take (cfg_size it) buf) = (s1, c1)" by fastforce
    from Cons.prems True sc obtain m rest where
      r: "set_items its ids s1 (drop (cfg_size it) buf) = Some (s', m, rest)"
      and l: "cfg_size it \<le> length buf"
      by (auto split: if_splits option.splits)
    have lt: "length (take (cfg_size it) buf) = cfg_size it" using l by simp
    have it: "it \<in> set items" using Cons.prems by simp
    have "wf s1" using set_wf [OF it Cons.prems(2) lt] sc by simp
    then have "cfg_get i s' c = cfg_get i s1 c"
      using Cons.IH [OF _ _ r] Cons.prems by simp
    also have "\<dots> = cfg_get i (fst (cfg_set it s (take (cfg_size it) buf))) c" using sc by simp
    also have "\<dots> = cfg_get i s c" using Cons.prems lt True by (simp add: unaffected_def)
    finally show ?thesis .
  qed (use Cons in auto)
qed simp

text \<open>
  Reading the items just written gives the buffer back: the buffer as the set walk leaves it is a
  fixed point of the get walk on the updated store.
\<close>

lemma get_after_set_items:
  assumes "set its \<subseteq> set items" "wf s" "set_items its ids s buf = Some (s', n, buf')"
    and "items_all ok its ids buf"
    and "sorted_wrt (\<lambda>i j. unaffected wf i j \<and> unaffected wf j i) its"
  shows "get_items its ids s' buf' = Some (n, buf')"
  using assms
proof (induction its arbitrary: s buf s' buf' n)
  case (Cons it its)
  show ?case
  proof (cases "selected ids (cfg_id it)")
    case True
    obtain s1 c where sc: "cfg_set it s (take (cfg_size it) buf) = (s1, c)" by fastforce
    from Cons.prems True sc obtain m rest where
      r: "set_items its ids s1 (drop (cfg_size it) buf) = Some (s', m, rest)"
      and b: "buf' = c @ rest" and n: "n = cfg_size it + m" and l: "cfg_size it \<le> length buf"
      by (auto split: if_splits option.splits)
    have lt: "length (take (cfg_size it) buf) = cfg_size it" using l by simp
    have it: "it \<in> set items" using Cons.prems by simp
    have w: "wf s1" and lc: "length c = cfg_size it"
      using set_wf [OF it Cons.prems(2) lt] set_length [OF it Cons.prems(2) lt] sc by simp_all
    have "get_items its ids s' rest = Some (m, rest)"
      using Cons.IH [OF _ w r] Cons.prems True by simp
    moreover have "cfg_get it s' c = cfg_get it s1 c"
      using get_after_later_sets [OF _ w r, of it c] Cons.prems(1,5) by (simp add: list_all_iff)
    moreover have "cfg_get it s1 c = c"
      using put_get [OF it Cons.prems(2) lt] Cons.prems(4) True sc by simp
    ultimately show ?thesis using True b n lc by simp
  qed (use Cons in auto)
qed simp

text \<open>Writing back what was read changes neither the store nor the buffer.\<close>

lemma set_after_get_items:
  assumes "set its \<subseteq> set items" "wf s" "get_items its ids s buf = Some (n, buf')"
  shows "set_items its ids s buf' = Some (s, n, buf')"
  using assms
proof (induction its arbitrary: buf buf' n)
  case (Cons it its)
  show ?case
  proof (cases "selected ids (cfg_id it)")
    case True
    from Cons.prems True obtain m rest where
      r: "get_items its ids s (drop (cfg_size it) buf) = Some (m, rest)"
      and b: "buf' = cfg_get it s (take (cfg_size it) buf) @ rest"
      and n: "n = cfg_size it + m" and l: "cfg_size it \<le> length buf"
      by (auto split: if_splits option.splits)
    have it: "it \<in> set items" using Cons.prems by simp
    have lt: "length (take (cfg_size it) buf) = cfg_size it" using l by simp
    from Cons.IH [OF _ _ r] Cons.prems have "set_items its ids s rest = Some (s, m, rest)" by simp
    with True b n get_put [OF it Cons.prems(2) lt] get_length [OF it Cons.prems(2) lt]
    show ?thesis by simp
  qed (use Cons in auto)
qed simp

text \<open>Items that were not written read as before, whatever was written.\<close>

lemma unaffected_others:
  assumes "sorted_wrt (\<lambda>i j. unaffected wf i j \<and> unaffected wf j i) its" "i \<in> set its" "j \<in> set its" "i \<noteq> j"
  shows "unaffected wf i j"
  using assms by (induction its) auto

lemma other_item_unchanged:
  assumes "wf s" "set_items items ids s buf = Some (s', n, buf')" "i \<in> set items" "\<not> selected ids (cfg_id i)"
  shows "cfg_get i s' c = cfg_get i s c"
proof (rule get_after_later_sets [OF subset_refl assms(1,2)])
  show "list_all (\<lambda>j. selected ids (cfg_id j) \<longrightarrow> unaffected wf i j) items"
    using unaffected_others [OF independent assms(3)] assms(4) by (auto simp: list_all_iff)
qed

lemma get_items_cong:
  "(\<And>i c. i \<in> set its \<Longrightarrow> selected ids (cfg_id i) \<Longrightarrow> cfg_get i s' c = cfg_get i s c) \<Longrightarrow>
   get_items its ids s' buf = get_items its ids s buf"
  by (induction its arbitrary: buf) (auto split: option.splits)

lemma group_other_ids:
  assumes "wf s" "set_items items ids s buf = Some (s', n, buf')" "ids AND ids' = 0"
  shows "get_items items ids' s' b = get_items items ids' s b"
proof (rule get_items_cong)
  fix i c assume i: "i \<in> set items" "selected ids' (cfg_id i)"
  then have "\<not> selected ids (cfg_id i)"
    using selected_disjoint [OF single_bit [OF i(1)]] assms(3) by blast
  then show "cfg_get i s' c = cfg_get i s c"
    by (rule other_item_unchanged [OF assms(1,2) i(1)])
qed

text \<open>A walk writes nothing past the bytes it covers.\<close>

lemma get_items_tail:
  assumes "set its \<subseteq> set items" "wf s" "get_items its ids s buf = Some (n, buf')"
  shows "drop n buf' = drop n buf"
  using assms
proof (induction its arbitrary: buf buf' n)
  case (Cons it its)
  show ?case
  proof (cases "selected ids (cfg_id it)")
    case True
    from Cons.prems True obtain m rest where
      r: "get_items its ids s (drop (cfg_size it) buf) = Some (m, rest)"
      and b: "buf' = cfg_get it s (take (cfg_size it) buf) @ rest"
      and n: "n = cfg_size it + m" and l: "cfg_size it \<le> length buf"
      by (auto split: if_splits option.splits)
    have "length (cfg_get it s (take (cfg_size it) buf)) = cfg_size it"
      using Cons.prems l by (simp add: get_length)
    moreover have "drop m rest = drop m (drop (cfg_size it) buf)"
      using Cons.IH [OF _ _ r] Cons.prems by simp
    ultimately show ?thesis using b n by (simp add: add.commute)
  qed (use Cons.IH [of buf n buf'] Cons.prems in simp)
qed simp

lemma set_items_tail:
  assumes "set its \<subseteq> set items" "wf s" "set_items its ids s buf = Some (s', n, buf')"
  shows "drop n buf' = drop n buf"
  using assms
proof (induction its arbitrary: s buf s' buf' n)
  case (Cons it its)
  show ?case
  proof (cases "selected ids (cfg_id it)")
    case True
    obtain s1 c where sc: "cfg_set it s (take (cfg_size it) buf) = (s1, c)" by fastforce
    from Cons.prems True sc obtain m rest where
      r: "set_items its ids s1 (drop (cfg_size it) buf) = Some (s', m, rest)"
      and b: "buf' = c @ rest" and n: "n = cfg_size it + m" and l: "cfg_size it \<le> length buf"
      by (auto split: if_splits option.splits)
    have it: "it \<in> set items" using Cons.prems by simp
    have lt: "length (take (cfg_size it) buf) = cfg_size it" using l by simp
    have w: "wf s1" "length c = cfg_size it"
      using set_wf [OF it Cons.prems(2) lt] set_length [OF it Cons.prems(2) lt] sc by simp_all
    have "drop m rest = drop m (drop (cfg_size it) buf)"
      using Cons.IH [OF _ w(1) r] Cons.prems by simp
    then show ?thesis using b n w by (simp add: add.commute)
  qed (use Cons.IH [of s buf s' n buf'] Cons.prems in simp)
qed simp

lemmas group_get_after_set = get_after_set_items [OF subset_refl _ _ _ independent]
lemmas group_set_after_get = set_after_get_items [OF subset_refl]
lemmas group_set_keeps = set_items_keeps [OF subset_refl]
lemmas group_get_length = get_items_length [OF subset_refl]

lemma group_get_tail:
  assumes "wf s" "get_items items ids s buf = Some (n, buf')"
  shows "drop (items_size items ids) buf' = drop (items_size items ids) buf"
  using get_items_tail [OF subset_refl assms] get_items_size [OF assms(2)] by simp

lemma group_set_tail:
  assumes "wf s" "set_items items ids s buf = Some (s', n, buf')"
  shows "drop (items_size items ids) buf' = drop (items_size items ids) buf"
  using set_items_tail [OF subset_refl assms] set_items_size [OF assms(2)] by simp

end

end
