(* ===== verification/IspParams.thy ===== *)
theory IspParams
  imports Prelude
begin

text \<open>
  The parameter store of the ISP tuning library: the C structs of
  \<open>libisp_new/isp_tuning/isp_tuning_priv.h\<close> as records, field by field, for the configured
  \<open>ISP_VERSION\<close> 522 (\<open>isp_version.h\<close>). A \<open>HW_S32\<close> or enum member is a 32-bit word, a
  \<open>HW_U16\<close>/\<open>HW_S16\<close> member a 16-bit word, a \<open>HW_U8\<close> member a byte; an array member is the list
  of its elements in memory order (a two-dimensional array row by row), and the \<open>wf\<close> predicates
  give every array its declared length. The group and item ids are those of
  \<open>libisp_new/include/isp_tuning.h\<close>.
\<close>

section \<open>The parameter structs\<close>

record isp_test_param =
  isp_test_mode :: "u32"
  isp_test_exptime :: "u32"
  exp_line_start :: "u32"
  exp_line_step :: "u32"
  exp_line_end :: "u32"
  exp_change_interval :: "u32"
  isp_test_gain :: "u32"
  gain_start :: "u32"
  gain_step :: "u32"
  gain_end :: "u32"
  gain_change_interval :: "u32"
  isp_test_focus :: "u32"
  focus_start :: "u32"
  focus_step :: "u32"
  focus_end :: "u32"
  focus_change_interval :: "u32"
  isp_log_param :: "u32"
  isp_gain :: "u32"
  isp_exp_line :: "u32"
  isp_color_temp :: "u32"
  ae_forced :: "u32"
  lum_forced :: "u32"
  manual_en :: "u32"
  afs_en :: "u32"
  sharp_en :: "u32"
  contrast_en :: "u32"
  denoise_en :: "u32"
  drc_en :: "u32"
  cem_en :: "u32"
  lsc_en :: "u32"
  msc_en :: "u32"
  gamma_en :: "u32"
  cm_en :: "u32"
  ae_en :: "u32"
  af_en :: "u32"
  awb_en :: "u32"
  hist_en :: "u32"
  blc_en :: "u32"
  so_en :: "u32"
  wb_en :: "u32"
  otf_dpc_en :: "u32"
  cfa_en :: "u32"
  tdf_en :: "u32"
  cnr_en :: "u32"
  lca_en :: "u32"
  gca_en :: "u32"
  satur_en :: "u32"
  defog_en :: "u32"
  linear_en :: "u32"
  gtm_en :: "u32"
  dig_gain_en :: "u32"
  pltm_en :: "u32"
  wdr_en :: "u32"
  ctc_en :: "u32"

record isp_3a_param =
  define_ae_table :: "u32"
  ae_max_lv :: "u32"
  ae_table_preview_length :: "u32"
  ae_table_capture_length :: "u32"
  ae_table_video_length :: "u32"
  ae_table_preview :: "u32 list"
  ae_table_capture :: "u32 list"
  ae_table_video :: "u32 list"
  ae_win_weight :: "u32 list"
  ae_gain_favor :: "u32"
  ae_analog_gain_range :: "u32 list"
  ae_digital_gain_range :: "u32 list"
  ae_gain_range :: "u32 list"
  ae_hist_mod_en :: "u32"
  ae_hist_sel :: "u32"
  ae_stat_sel :: "u32"
  ae_ki :: "u32"
  ae_ConvDataIndex :: "u32"
  ae_blowout_pre_en :: "u32"
  ae_blowout_attr :: "u32"
  ae_delay_frame :: "u32"
  exp_delay_frame :: "u32"
  gain_delay_frame :: "u32"
  exp_comp_step :: "u32"
  ae_touch_dist_ind :: "u32"
  ae_iso2gain_ratio :: "u32"
  ae_fno_step :: "u32 list"
  wdr_cfg :: "u32 list"
  gain_ratio :: "u32"
  awb_interval :: "u32"
  awb_speed :: "u32"
  awb_stat_sel :: "u32"
  awb_color_temper_low :: "u32"
  awb_color_temper_high :: "u32"
  awb_base_temper :: "u32"
  awb_green_zone_dist :: "u32"
  awb_blue_sky_dist :: "u32"
  awb_light_num :: "u32"
  awb_ext_light_num :: "u32"
  awb_skin_color_num :: "u32"
  awb_special_color_num :: "u32"
  awb_light_info :: "u32 list"
  awb_ext_light_info :: "u32 list"
  awb_skin_color_info :: "u32 list"
  awb_special_color_info :: "u32 list"
  awb_preset_gain :: "u32 list"
  awb_rgain_favor :: "u32"
  awb_bgain_favor :: "u32"
  af_use_otp :: "u32"
  vcm_min_code :: "u32"
  vcm_max_code :: "u32"
  af_interval_time :: "u32"
  af_speed_ind :: "u32"
  af_auto_fine_en :: "u32"
  af_single_fine_en :: "u32"
  af_fine_step :: "u32"
  af_move_cnt :: "u32"
  af_still_cnt :: "u32"
  af_move_monitor_cnt :: "u32"
  af_still_monitor_cnt :: "u32"
  af_stable_min :: "u32"
  af_stable_max :: "u32"
  af_low_light_lv :: "u32"
  af_near_tolerance :: "u32"
  af_far_tolerance :: "u32"
  af_tolerance_off :: "u32"
  af_peak_th :: "u32"
  af_dir_th :: "u32"
  af_change_ratio :: "u32"
  af_move_minus :: "u32"
  af_still_minus :: "u32"
  af_scene_motion_th :: "u32"
  af_tolerance_tbl_len :: "u32"
  af_std_code_tbl :: "u32 list"
  af_tolerance_value_tbl :: "u32 list"

record isp_rgb2rgb_gain_offset =
  matrix :: "u16 list"
  offset :: "u16 list"

record isp_dynamic_config =
  sharp_cfg :: "u32 list"
  contrast_cfg :: "u32 list"
  denoise_cfg :: "u32 list"
  sensor_offset :: "u32 list"
  black_level :: "u32 list"
  dpc_cfg :: "u32 list"
  pltm_dynamic_cfg :: "u32 list"
  defog_value :: "u32"
  brightness :: "u32"
  contrast :: "u32"
  saturation_cb :: "u32"
  saturation_cr :: "u32"
  saturation_cfg :: "u32 list"
  cem_ratio :: "u32"
  tdf_cfg :: "u32 list"
  color_denoise :: "u32"
  ae_cfg :: "u32 list"
  gtm_cfg :: "u32 list"
  lca_cfg :: "u32 list"

record isp_dynamic_triger_t =
  sharp_triger :: "u32"
  contrast_triger :: "u32"
  denoise_triger :: "u32"
  sensor_offset_triger :: "u32"
  black_level_triger :: "u32"
  dpc_triger :: "u32"
  defog_value_triger :: "u32"
  pltm_dynamic_triger :: "u32"
  brightness_triger :: "u32"
  gcontrast_triger :: "u32"
  saturation_triger :: "u32"
  cem_ratio_triger :: "u32"
  tdf_triger :: "u32"
  color_denoise_triger :: "u32"
  ae_cfg_triger :: "u32"
  gtm_cfg_triger :: "u32"
  lca_cfg_triger :: "u32"

record isp_dynamic_param =
  triger :: isp_dynamic_triger_t
  isp_lum_mapping_point :: "u32 list"
  isp_gain_mapping_point :: "u32 list"
  isp_dynamic_cfg :: "isp_dynamic_config list"

record isp_tunning_param =
  flash_gain :: "u32"
  flash_delay_frame :: "u32"
  flicker_type :: "u32"
  flicker_ratio :: "u32"
  hor_visual_angle :: "u32"
  ver_visual_angle :: "u32"
  focus_length :: "u32"
  gamma_num :: "u32"
  rolloff_ratio :: "u32"
  gtm_type :: "u32"
  gamma_type :: "u32"
  auto_alpha_en :: "u32"
  hist_pix_cnt :: "u32"
  dark_minval :: "u32"
  bright_minval :: "u32"
  plum_var :: "u16 list"
  cfa_dir_th :: "u32"
  cfa_interp_mode :: "u32"
  cfa_zig_zag :: "u32"
  ctc_th_max :: "u16"
  ctc_th_min :: "u16"
  ctc_th_slope :: "u16"
  ctc_dir_wt :: "u16"
  ctc_dir_th :: "u16"
  bayer_gain :: "u32 list"
  lsc_mode :: "u32"
  ff_mod :: "u32"
  lsc_center_x :: "u32"
  lsc_center_y :: "u32"
  lsc_tbl :: "u16 list"
  lsc_trig_cfg :: "u16 list"
  msc_mode :: "u32"
  mff_mod :: "u32"
  msc_blw_lut :: "u32 list"
  msc_blh_lut :: "u32 list"
  msc_blw_dlt_lut :: "u32 list"
  msc_blh_dlt_lut :: "u32 list"
  msc_trig_cfg :: "u16 list"
  msc_tbl :: "u16 list"
  gamma_tbl_ini :: "u16 list"
  gamma_trig_cfg :: "u16 list"
  linear_tbl :: "u16 list"
  disc_tbl :: "u16 list"
  color_matrix_ini :: "isp_rgb2rgb_gain_offset list"
  cm_trig_cfg :: "u16 list"
  gca_cfg :: "u32 list"
  lca_pf_satu_lut :: "u16 list"
  lca_gf_satu_lut :: "u16 list"
  pltm_cfg :: "u32 list"
  isp_bdnf_th :: "u16 list"
  isp_tdnf_th :: "u16 list"
  isp_tdnf_ref_noise :: "u16 list"
  isp_tdnf_k :: "byte list"
  isp_contrast_val :: "u16 list"
  isp_contrast_lum :: "u16 list"
  isp_sharp_val :: "u16 list"
  isp_sharp_lum :: "u16 list"
  isp_sharp_edge_lum :: "u16 list"
  isp_sharp_hfrq_lum :: "u16 list"
  isp_sharp_hsv :: "u16 list"
  isp_sharp_s_map :: "byte list"
  isp_d3d_k3d_incre_curve :: "byte list"
  isp_tdnf_diff :: "byte list"
  isp_contrat_pe :: "u16 list"
  isp_cem_table :: "byte list"
  isp_cem_table1 :: "byte list"
  isp_pltm_table :: "byte list"
  isp_wdr_table :: "byte list"

record isp_param_config =
  isp_test_settings :: isp_test_param
  isp_3a_settings :: isp_3a_param
  isp_tunning_settings :: isp_tunning_param
  isp_iso_settings :: isp_dynamic_param

section \<open>Array lengths\<close>

definition wf_3a :: "isp_3a_param \<Rightarrow> bool" where
  "wf_3a s \<longleftrightarrow>
     length (ae_table_preview s) = 42 \<and>
     length (ae_table_capture s) = 42 \<and>
     length (ae_table_video s) = 42 \<and>
     length (ae_win_weight s) = 64 \<and>
     length (ae_analog_gain_range s) = 2 \<and>
     length (ae_digital_gain_range s) = 2 \<and>
     length (ae_gain_range s) = 4 \<and>
     length (ae_fno_step s) = 16 \<and>
     length (wdr_cfg s) = 4 \<and>
     length (awb_light_info s) = 320 \<and>
     length (awb_ext_light_info s) = 320 \<and>
     length (awb_skin_color_info s) = 160 \<and>
     length (awb_special_color_info s) = 320 \<and>
     length (awb_preset_gain s) = 22 \<and>
     length (af_std_code_tbl s) = 20 \<and>
     length (af_tolerance_value_tbl s) = 20"

definition wf_dyn_cfg :: "isp_dynamic_config \<Rightarrow> bool" where
  "wf_dyn_cfg s \<longleftrightarrow>
     length (sharp_cfg s) = 29 \<and>
     length (contrast_cfg s) = 11 \<and>
     length (denoise_cfg s) = 20 \<and>
     length (sensor_offset s) = 4 \<and>
     length (black_level s) = 4 \<and>
     length (dpc_cfg s) = 6 \<and>
     length (pltm_dynamic_cfg s) = 4 \<and>
     length (saturation_cfg s) = 7 \<and>
     length (tdf_cfg s) = 22 \<and>
     length (ae_cfg s) = 14 \<and>
     length (gtm_cfg s) = 9 \<and>
     length (lca_cfg s) = 11"

definition wf_dynamic :: "isp_dynamic_param \<Rightarrow> bool" where
  "wf_dynamic s \<longleftrightarrow>
     length (isp_lum_mapping_point s) = 14 \<and>
     length (isp_gain_mapping_point s) = 14 \<and>
     length (isp_dynamic_cfg s) = 14 \<and>
     list_all wf_dyn_cfg (isp_dynamic_cfg s)"

definition wf_rgb2rgb :: "isp_rgb2rgb_gain_offset \<Rightarrow> bool" where
  "wf_rgb2rgb m \<longleftrightarrow> length (matrix m) = 9 \<and> length (offset m) = 3"

lemma rgb2rgb_eta [layout]: "\<lparr>matrix = matrix m, offset = offset m\<rparr> = m"
  by simp

definition wf_tunning :: "isp_tunning_param \<Rightarrow> bool" where
  "wf_tunning s \<longleftrightarrow>
     length (plum_var s) = 81 \<and>
     length (bayer_gain s) = 4 \<and>
     length (lsc_tbl s) = 9216 \<and>
     length (lsc_trig_cfg s) = 6 \<and>
     length (msc_blw_lut s) = 11 \<and>
     length (msc_blh_lut s) = 11 \<and>
     length (msc_blw_dlt_lut s) = 12 \<and>
     length (msc_blh_dlt_lut s) = 12 \<and>
     length (msc_trig_cfg s) = 6 \<and>
     length (msc_tbl s) = 17424 \<and>
     length (gamma_tbl_ini s) = 15360 \<and>
     length (gamma_trig_cfg s) = 5 \<and>
     length (linear_tbl s) = 768 \<and>
     length (disc_tbl s) = 512 \<and>
     length (color_matrix_ini s) = 3 \<and>
     length (cm_trig_cfg s) = 3 \<and>
     length (gca_cfg s) = 7 \<and>
     length (lca_pf_satu_lut s) = 33 \<and>
     length (lca_gf_satu_lut s) = 33 \<and>
     length (pltm_cfg s) = 19 \<and>
     length (isp_bdnf_th s) = 33 \<and>
     length (isp_tdnf_th s) = 33 \<and>
     length (isp_tdnf_ref_noise s) = 33 \<and>
     length (isp_tdnf_k s) = 32 \<and>
     length (isp_contrast_val s) = 33 \<and>
     length (isp_contrast_lum s) = 33 \<and>
     length (isp_sharp_val s) = 33 \<and>
     length (isp_sharp_lum s) = 33 \<and>
     length (isp_sharp_edge_lum s) = 33 \<and>
     length (isp_sharp_hfrq_lum s) = 33 \<and>
     length (isp_sharp_hsv s) = 46 \<and>
     length (isp_sharp_s_map s) = 33 \<and>
     length (isp_d3d_k3d_incre_curve s) = 256 \<and>
     length (isp_tdnf_diff s) = 256 \<and>
     length (isp_contrat_pe s) = 128 \<and>
     length (isp_cem_table s) = 5888 \<and>
     length (isp_cem_table1 s) = 5888 \<and>
     length (isp_pltm_table s) = 0 \<and>
     length (isp_wdr_table s) = 0 \<and>
     list_all wf_rgb2rgb (color_matrix_ini s)"

definition wf_params :: "isp_param_config \<Rightarrow> bool" where
  "wf_params p \<longleftrightarrow>
     wf_3a (isp_3a_settings p) \<and> wf_tunning (isp_tunning_settings p) \<and>
     wf_dynamic (isp_iso_settings p)"

section \<open>The parameters after \<open>memset\<close>\<close>

text \<open>All members zero, every array of its declared length.\<close>

definition zero_test :: isp_test_param where
  "zero_test = \<lparr>
     isp_test_mode = 0, isp_test_exptime = 0, exp_line_start = 0, exp_line_step = 0,
     exp_line_end = 0, exp_change_interval = 0, isp_test_gain = 0, gain_start = 0,
     gain_step = 0, gain_end = 0, gain_change_interval = 0, isp_test_focus = 0,
     focus_start = 0, focus_step = 0, focus_end = 0, focus_change_interval = 0,
     isp_log_param = 0, isp_gain = 0, isp_exp_line = 0, isp_color_temp = 0, ae_forced = 0,
     lum_forced = 0, manual_en = 0, afs_en = 0, sharp_en = 0, contrast_en = 0,
     denoise_en = 0, drc_en = 0, cem_en = 0, lsc_en = 0, msc_en = 0, gamma_en = 0,
     cm_en = 0, ae_en = 0, af_en = 0, awb_en = 0, hist_en = 0, blc_en = 0, so_en = 0,
     wb_en = 0, otf_dpc_en = 0, cfa_en = 0, tdf_en = 0, cnr_en = 0, lca_en = 0, gca_en = 0,
     satur_en = 0, defog_en = 0, linear_en = 0, gtm_en = 0, dig_gain_en = 0, pltm_en = 0,
     wdr_en = 0, ctc_en = 0\<rparr>"

definition zero_3a :: isp_3a_param where
  "zero_3a = \<lparr>
     define_ae_table = 0, ae_max_lv = 0, ae_table_preview_length = 0,
     ae_table_capture_length = 0, ae_table_video_length = 0,
     ae_table_preview = replicate 42 0, ae_table_capture = replicate 42 0,
     ae_table_video = replicate 42 0, ae_win_weight = replicate 64 0, ae_gain_favor = 0,
     ae_analog_gain_range = replicate 2 0, ae_digital_gain_range = replicate 2 0,
     ae_gain_range = replicate 4 0, ae_hist_mod_en = 0, ae_hist_sel = 0, ae_stat_sel = 0,
     ae_ki = 0, ae_ConvDataIndex = 0, ae_blowout_pre_en = 0, ae_blowout_attr = 0,
     ae_delay_frame = 0, exp_delay_frame = 0, gain_delay_frame = 0, exp_comp_step = 0,
     ae_touch_dist_ind = 0, ae_iso2gain_ratio = 0, ae_fno_step = replicate 16 0,
     wdr_cfg = replicate 4 0, gain_ratio = 0, awb_interval = 0, awb_speed = 0,
     awb_stat_sel = 0, awb_color_temper_low = 0, awb_color_temper_high = 0,
     awb_base_temper = 0, awb_green_zone_dist = 0, awb_blue_sky_dist = 0, awb_light_num = 0,
     awb_ext_light_num = 0, awb_skin_color_num = 0, awb_special_color_num = 0,
     awb_light_info = replicate 320 0, awb_ext_light_info = replicate 320 0,
     awb_skin_color_info = replicate 160 0, awb_special_color_info = replicate 320 0,
     awb_preset_gain = replicate 22 0, awb_rgain_favor = 0, awb_bgain_favor = 0,
     af_use_otp = 0, vcm_min_code = 0, vcm_max_code = 0, af_interval_time = 0,
     af_speed_ind = 0, af_auto_fine_en = 0, af_single_fine_en = 0, af_fine_step = 0,
     af_move_cnt = 0, af_still_cnt = 0, af_move_monitor_cnt = 0, af_still_monitor_cnt = 0,
     af_stable_min = 0, af_stable_max = 0, af_low_light_lv = 0, af_near_tolerance = 0,
     af_far_tolerance = 0, af_tolerance_off = 0, af_peak_th = 0, af_dir_th = 0,
     af_change_ratio = 0, af_move_minus = 0, af_still_minus = 0, af_scene_motion_th = 0,
     af_tolerance_tbl_len = 0, af_std_code_tbl = replicate 20 0,
     af_tolerance_value_tbl = replicate 20 0\<rparr>"

definition zero_tunning :: isp_tunning_param where
  "zero_tunning = \<lparr>
     flash_gain = 0, flash_delay_frame = 0, flicker_type = 0, flicker_ratio = 0,
     hor_visual_angle = 0, ver_visual_angle = 0, focus_length = 0, gamma_num = 0,
     rolloff_ratio = 0, gtm_type = 0, gamma_type = 0, auto_alpha_en = 0, hist_pix_cnt = 0,
     dark_minval = 0, bright_minval = 0, plum_var = replicate 81 0, cfa_dir_th = 0,
     cfa_interp_mode = 0, cfa_zig_zag = 0, ctc_th_max = 0, ctc_th_min = 0, ctc_th_slope = 0,
     ctc_dir_wt = 0, ctc_dir_th = 0, bayer_gain = replicate 4 0, lsc_mode = 0, ff_mod = 0,
     lsc_center_x = 0, lsc_center_y = 0, lsc_tbl = replicate 9216 0,
     lsc_trig_cfg = replicate 6 0, msc_mode = 0, mff_mod = 0, msc_blw_lut = replicate 11 0,
     msc_blh_lut = replicate 11 0, msc_blw_dlt_lut = replicate 12 0,
     msc_blh_dlt_lut = replicate 12 0, msc_trig_cfg = replicate 6 0,
     msc_tbl = replicate 17424 0, gamma_tbl_ini = replicate 15360 0,
     gamma_trig_cfg = replicate 5 0, linear_tbl = replicate 768 0,
     disc_tbl = replicate 512 0,
     color_matrix_ini = replicate 3 \<lparr>matrix = replicate 9 0, offset = replicate 3 0\<rparr>,
     cm_trig_cfg = replicate 3 0, gca_cfg = replicate 7 0, lca_pf_satu_lut = replicate 33 0,
     lca_gf_satu_lut = replicate 33 0, pltm_cfg = replicate 19 0,
     isp_bdnf_th = replicate 33 0, isp_tdnf_th = replicate 33 0,
     isp_tdnf_ref_noise = replicate 33 0, isp_tdnf_k = replicate 32 0,
     isp_contrast_val = replicate 33 0, isp_contrast_lum = replicate 33 0,
     isp_sharp_val = replicate 33 0, isp_sharp_lum = replicate 33 0,
     isp_sharp_edge_lum = replicate 33 0, isp_sharp_hfrq_lum = replicate 33 0,
     isp_sharp_hsv = replicate 46 0, isp_sharp_s_map = replicate 33 0,
     isp_d3d_k3d_incre_curve = replicate 256 0, isp_tdnf_diff = replicate 256 0,
     isp_contrat_pe = replicate 128 0, isp_cem_table = replicate 5888 0,
     isp_cem_table1 = replicate 5888 0, isp_pltm_table = replicate 0 0,
     isp_wdr_table = replicate 0 0\<rparr>"

definition zero_dyn_cfg :: isp_dynamic_config where
  "zero_dyn_cfg = \<lparr>
     sharp_cfg = replicate 29 0, contrast_cfg = replicate 11 0,
     denoise_cfg = replicate 20 0, sensor_offset = replicate 4 0,
     black_level = replicate 4 0, dpc_cfg = replicate 6 0, pltm_dynamic_cfg = replicate 4 0,
     defog_value = 0, brightness = 0, contrast = 0, saturation_cb = 0, saturation_cr = 0,
     saturation_cfg = replicate 7 0, cem_ratio = 0, tdf_cfg = replicate 22 0,
     color_denoise = 0, ae_cfg = replicate 14 0, gtm_cfg = replicate 9 0,
     lca_cfg = replicate 11 0\<rparr>"

definition zero_triger :: isp_dynamic_triger_t where
  "zero_triger = \<lparr>
     sharp_triger = 0, contrast_triger = 0, denoise_triger = 0, sensor_offset_triger = 0,
     black_level_triger = 0, dpc_triger = 0, defog_value_triger = 0,
     pltm_dynamic_triger = 0, brightness_triger = 0, gcontrast_triger = 0,
     saturation_triger = 0, cem_ratio_triger = 0, tdf_triger = 0, color_denoise_triger = 0,
     ae_cfg_triger = 0, gtm_cfg_triger = 0, lca_cfg_triger = 0\<rparr>"

definition zero_params :: isp_param_config where
  "zero_params = \<lparr>isp_test_settings = zero_test, isp_3a_settings = zero_3a,
     isp_tunning_settings = zero_tunning,
     isp_iso_settings = \<lparr>triger = zero_triger, isp_lum_mapping_point = replicate 14 0,
       isp_gain_mapping_point = replicate 14 0, isp_dynamic_cfg = replicate 14 zero_dyn_cfg\<rparr>\<rparr>"

lemma wf_zero_params: "wf_params zero_params"
  by (simp add: wf_params_def zero_params_def wf_3a_def zero_3a_def wf_tunning_def zero_tunning_def
      wf_dynamic_def wf_dyn_cfg_def zero_dyn_cfg_def wf_rgb2rgb_def list_all_length)

section \<open>Group and item ids\<close>

abbreviation (input) HW_ISP_CFG_TEST :: byte where "HW_ISP_CFG_TEST \<equiv> 1"
abbreviation (input) HW_ISP_CFG_3A :: byte where "HW_ISP_CFG_3A \<equiv> 2"
abbreviation (input) HW_ISP_CFG_TUNING :: byte where "HW_ISP_CFG_TUNING \<equiv> 3"
abbreviation (input) HW_ISP_CFG_TUNING_TABLES :: byte where "HW_ISP_CFG_TUNING_TABLES \<equiv> 4"
abbreviation (input) HW_ISP_CFG_DYNAMIC :: byte where "HW_ISP_CFG_DYNAMIC \<equiv> 5"
abbreviation (input) HW_ISP_CFG_TEST_PUB :: u32 where "HW_ISP_CFG_TEST_PUB \<equiv> 0x1"
abbreviation (input) HW_ISP_CFG_TEST_EXPTIME :: u32 where "HW_ISP_CFG_TEST_EXPTIME \<equiv> 0x2"
abbreviation (input) HW_ISP_CFG_TEST_GAIN :: u32 where "HW_ISP_CFG_TEST_GAIN \<equiv> 0x4"
abbreviation (input) HW_ISP_CFG_TEST_FOCUS :: u32 where "HW_ISP_CFG_TEST_FOCUS \<equiv> 0x8"
abbreviation (input) HW_ISP_CFG_TEST_FORCED :: u32 where "HW_ISP_CFG_TEST_FORCED \<equiv> 0x10"
abbreviation (input) HW_ISP_CFG_TEST_ENABLE :: u32 where "HW_ISP_CFG_TEST_ENABLE \<equiv> 0x20"
abbreviation (input) HW_ISP_CFG_AE_PUB :: u32 where "HW_ISP_CFG_AE_PUB \<equiv> 0x1"
abbreviation (input) HW_ISP_CFG_AE_PREVIEW_TBL :: u32 where "HW_ISP_CFG_AE_PREVIEW_TBL \<equiv> 0x2"
abbreviation (input) HW_ISP_CFG_AE_CAPTURE_TBL :: u32 where "HW_ISP_CFG_AE_CAPTURE_TBL \<equiv> 0x4"
abbreviation (input) HW_ISP_CFG_AE_VIDEO_TBL :: u32 where "HW_ISP_CFG_AE_VIDEO_TBL \<equiv> 0x8"
abbreviation (input) HW_ISP_CFG_AE_WIN_WEIGHT :: u32 where "HW_ISP_CFG_AE_WIN_WEIGHT \<equiv> 0x10"
abbreviation (input) HW_ISP_CFG_AE_DELAY :: u32 where "HW_ISP_CFG_AE_DELAY \<equiv> 0x20"
abbreviation (input) HW_ISP_CFG_AWB_PUB :: u32 where "HW_ISP_CFG_AWB_PUB \<equiv> 0x40"
abbreviation (input) HW_ISP_CFG_AWB_TEMP_RANGE :: u32 where "HW_ISP_CFG_AWB_TEMP_RANGE \<equiv> 0x80"
abbreviation (input) HW_ISP_CFG_AWB_DIST :: u32 where "HW_ISP_CFG_AWB_DIST \<equiv> 0x100"
abbreviation (input) HW_ISP_CFG_AWB_LIGHT_INFO :: u32 where "HW_ISP_CFG_AWB_LIGHT_INFO \<equiv> 0x200"
abbreviation (input) HW_ISP_CFG_AWB_EXT_LIGHT_INFO :: u32 where "HW_ISP_CFG_AWB_EXT_LIGHT_INFO \<equiv> 0x400"
abbreviation (input) HW_ISP_CFG_AWB_SKIN_INFO :: u32 where "HW_ISP_CFG_AWB_SKIN_INFO \<equiv> 0x800"
abbreviation (input) HW_ISP_CFG_AWB_SPECIAL_INFO :: u32 where "HW_ISP_CFG_AWB_SPECIAL_INFO \<equiv> 0x1000"
abbreviation (input) HW_ISP_CFG_AWB_PRESET_GAIN :: u32 where "HW_ISP_CFG_AWB_PRESET_GAIN \<equiv> 0x2000"
abbreviation (input) HW_ISP_CFG_AWB_FAVOR :: u32 where "HW_ISP_CFG_AWB_FAVOR \<equiv> 0x4000"
abbreviation (input) HW_ISP_CFG_AF_VCM_CODE :: u32 where "HW_ISP_CFG_AF_VCM_CODE \<equiv> 0x8000"
abbreviation (input) HW_ISP_CFG_AF_OTP :: u32 where "HW_ISP_CFG_AF_OTP \<equiv> 0x10000"
abbreviation (input) HW_ISP_CFG_AF_SPEED :: u32 where "HW_ISP_CFG_AF_SPEED \<equiv> 0x20000"
abbreviation (input) HW_ISP_CFG_AF_FINE_SEARCH :: u32 where "HW_ISP_CFG_AF_FINE_SEARCH \<equiv> 0x40000"
abbreviation (input) HW_ISP_CFG_AF_REFOCUS :: u32 where "HW_ISP_CFG_AF_REFOCUS \<equiv> 0x80000"
abbreviation (input) HW_ISP_CFG_AF_TOLERANCE :: u32 where "HW_ISP_CFG_AF_TOLERANCE \<equiv> 0x100000"
abbreviation (input) HW_ISP_CFG_AF_SCENE :: u32 where "HW_ISP_CFG_AF_SCENE \<equiv> 0x200000"
abbreviation (input) HW_ISP_CFG_TUNING_FLASH :: u32 where "HW_ISP_CFG_TUNING_FLASH \<equiv> 0x1"
abbreviation (input) HW_ISP_CFG_TUNING_FLICKER :: u32 where "HW_ISP_CFG_TUNING_FLICKER \<equiv> 0x2"
abbreviation (input) HW_ISP_CFG_TUNING_VISUAL_ANGLE :: u32 where "HW_ISP_CFG_TUNING_VISUAL_ANGLE \<equiv> 0x4"
abbreviation (input) HW_ISP_CFG_TUNING_GTM :: u32 where "HW_ISP_CFG_TUNING_GTM \<equiv> 0x8"
abbreviation (input) HW_ISP_CFG_TUNING_CFA :: u32 where "HW_ISP_CFG_TUNING_CFA \<equiv> 0x10"
abbreviation (input) HW_ISP_CFG_TUNING_CTC :: u32 where "HW_ISP_CFG_TUNING_CTC \<equiv> 0x20"
abbreviation (input) HW_ISP_CFG_TUNING_DIGITAL_GAIN :: u32 where "HW_ISP_CFG_TUNING_DIGITAL_GAIN \<equiv> 0x40"
abbreviation (input) HW_ISP_CFG_TUNING_CCM_LOW :: u32 where "HW_ISP_CFG_TUNING_CCM_LOW \<equiv> 0x80"
abbreviation (input) HW_ISP_CFG_TUNING_CCM_MID :: u32 where "HW_ISP_CFG_TUNING_CCM_MID \<equiv> 0x100"
abbreviation (input) HW_ISP_CFG_TUNING_CCM_HIGH :: u32 where "HW_ISP_CFG_TUNING_CCM_HIGH \<equiv> 0x200"
abbreviation (input) HW_ISP_CFG_TUNING_PLTM :: u32 where "HW_ISP_CFG_TUNING_PLTM \<equiv> 0x400"
abbreviation (input) HW_ISP_CFG_TUNING_GCA :: u32 where "HW_ISP_CFG_TUNING_GCA \<equiv> 0x800"
abbreviation (input) HW_ISP_CFG_TUNING_LSC :: u32 where "HW_ISP_CFG_TUNING_LSC \<equiv> 0x1"
abbreviation (input) HW_ISP_CFG_TUNING_GAMMA :: u32 where "HW_ISP_CFG_TUNING_GAMMA \<equiv> 0x2"
abbreviation (input) HW_ISP_CFG_TUNING_LINEARITY :: u32 where "HW_ISP_CFG_TUNING_LINEARITY \<equiv> 0x4"
abbreviation (input) HW_ISP_CFG_TUNING_DISTORTION :: u32 where "HW_ISP_CFG_TUNING_DISTORTION \<equiv> 0x8"
abbreviation (input) HW_ISP_CFG_TUNING_BDNF :: u32 where "HW_ISP_CFG_TUNING_BDNF \<equiv> 0x10"
abbreviation (input) HW_ISP_CFG_TUNING_TDNF :: u32 where "HW_ISP_CFG_TUNING_TDNF \<equiv> 0x20"
abbreviation (input) HW_ISP_CFG_TUNING_CONTRAST :: u32 where "HW_ISP_CFG_TUNING_CONTRAST \<equiv> 0x40"
abbreviation (input) HW_ISP_CFG_TUNING_SHARP :: u32 where "HW_ISP_CFG_TUNING_SHARP \<equiv> 0x80"
abbreviation (input) HW_ISP_CFG_TUNING_CEM :: u32 where "HW_ISP_CFG_TUNING_CEM \<equiv> 0x100"
abbreviation (input) HW_ISP_CFG_TUNING_CEM_1 :: u32 where "HW_ISP_CFG_TUNING_CEM_1 \<equiv> 0x200"
abbreviation (input) HW_ISP_CFG_TUNING_MSC :: u32 where "HW_ISP_CFG_TUNING_MSC \<equiv> 0x1000"
abbreviation (input) HW_ISP_CFG_TUNING_LCA_TBL :: u32 where "HW_ISP_CFG_TUNING_LCA_TBL \<equiv> 0x2000"
abbreviation (input) HW_ISP_CFG_DYNAMIC_LUM_POINT :: u32 where "HW_ISP_CFG_DYNAMIC_LUM_POINT \<equiv> 0x1"
abbreviation (input) HW_ISP_CFG_DYNAMIC_GAIN_POINT :: u32 where "HW_ISP_CFG_DYNAMIC_GAIN_POINT \<equiv> 0x2"
abbreviation (input) HW_ISP_CFG_DYNAMIC_SHARP :: u32 where "HW_ISP_CFG_DYNAMIC_SHARP \<equiv> 0x4"
abbreviation (input) HW_ISP_CFG_DYNAMIC_CONTRAST :: u32 where "HW_ISP_CFG_DYNAMIC_CONTRAST \<equiv> 0x8"
abbreviation (input) HW_ISP_CFG_DYNAMIC_DENOISE :: u32 where "HW_ISP_CFG_DYNAMIC_DENOISE \<equiv> 0x10"
abbreviation (input) HW_ISP_CFG_DYNAMIC_SENSOR_OFFSET :: u32 where "HW_ISP_CFG_DYNAMIC_SENSOR_OFFSET \<equiv> 0x20"
abbreviation (input) HW_ISP_CFG_DYNAMIC_BLACK_LV :: u32 where "HW_ISP_CFG_DYNAMIC_BLACK_LV \<equiv> 0x40"
abbreviation (input) HW_ISP_CFG_DYNAMIC_DPC :: u32 where "HW_ISP_CFG_DYNAMIC_DPC \<equiv> 0x80"
abbreviation (input) HW_ISP_CFG_DYNAMIC_PLTM :: u32 where "HW_ISP_CFG_DYNAMIC_PLTM \<equiv> 0x100"
abbreviation (input) HW_ISP_CFG_DYNAMIC_DEFOG :: u32 where "HW_ISP_CFG_DYNAMIC_DEFOG \<equiv> 0x200"
abbreviation (input) HW_ISP_CFG_DYNAMIC_HISTOGRAM :: u32 where "HW_ISP_CFG_DYNAMIC_HISTOGRAM \<equiv> 0x400"
abbreviation (input) HW_ISP_CFG_DYNAMIC_SATURATION :: u32 where "HW_ISP_CFG_DYNAMIC_SATURATION \<equiv> 0x800"
abbreviation (input) HW_ISP_CFG_DYNAMIC_CEM :: u32 where "HW_ISP_CFG_DYNAMIC_CEM \<equiv> 0x1000"
abbreviation (input) HW_ISP_CFG_DYNAMIC_TDF :: u32 where "HW_ISP_CFG_DYNAMIC_TDF \<equiv> 0x2000"
abbreviation (input) HW_ISP_CFG_DYNAMIC_AE :: u32 where "HW_ISP_CFG_DYNAMIC_AE \<equiv> 0x4000"
abbreviation (input) HW_ISP_CFG_DYNAMIC_GTM :: u32 where "HW_ISP_CFG_DYNAMIC_GTM \<equiv> 0x8000"
abbreviation (input) HW_ISP_CFG_DYNAMIC_LCA :: u32 where "HW_ISP_CFG_DYNAMIC_LCA \<equiv> 0x10000"

abbreviation (input) AW_ERR_VI_INVALID_PARA :: int where "AW_ERR_VI_INVALID_PARA \<equiv> - 1"
abbreviation (input) AW_ERR_VI_INVALID_NULL_PTR :: int where "AW_ERR_VI_INVALID_NULL_PTR \<equiv> - 4"

end
