(* ===== verification/Tuning3A.thy ===== *)
theory Tuning3A
  imports CfgItems IspParams
begin

text \<open>
  Test and 3A groups (auto exposure, white balance, focus) of \<open>isp_tuning_get_cfg\<close> and
  \<open>isp_tuning_set_cfg\<close>: one \<open>get\<close> and one \<open>set\<close> definition per block
  \<open>if (cfg_ids & HW_ISP_CFG_...)\<close> of the two functions, over the parameter sub-struct the block
  accesses and the chunk of the caller's buffer that the block's wire struct occupies. The members
  of the wire struct are listed in their memory order.
\<close>

section \<open>Test group\<close>

definition get_isp_test_pub :: "isp_test_param \<Rightarrow> byte list \<Rightarrow> byte list" where
  "get_isp_test_pub s c = overlay c (enc32s [isp_test_mode s, isp_gain s, isp_exp_line s,
     isp_color_temp s, isp_log_param s])"

definition set_isp_test_pub :: "isp_test_param \<Rightarrow> byte list \<Rightarrow> isp_test_param \<times> byte list" where
  "set_isp_test_pub s c = (let v = dec32s c in (s\<lparr>isp_test_mode := v ! 0,
     isp_gain := v ! 1, isp_exp_line := v ! 2, isp_color_temp := v ! 3,
     isp_log_param := v ! 4\<rparr>, c))"

definition get_isp_test_exptime :: "isp_test_param \<Rightarrow> byte list \<Rightarrow> byte list" where
  "get_isp_test_exptime s c = overlay c (enc32s [isp_test_exptime s, exp_line_start s,
     exp_line_step s, exp_line_end s, exp_change_interval s])"

definition set_isp_test_exptime :: "isp_test_param \<Rightarrow> byte list \<Rightarrow> isp_test_param \<times> byte list" where
  "set_isp_test_exptime s c = (let v = dec32s c in (s\<lparr>isp_test_exptime := v ! 0,
     exp_line_start := v ! 1, exp_line_step := v ! 2, exp_line_end := v ! 3,
     exp_change_interval := v ! 4\<rparr>, c))"

definition get_isp_test_gain :: "isp_test_param \<Rightarrow> byte list \<Rightarrow> byte list" where
  "get_isp_test_gain s c = overlay c (enc32s [isp_test_gain s, gain_start s, gain_step s,
     gain_end s, gain_change_interval s])"

definition set_isp_test_gain :: "isp_test_param \<Rightarrow> byte list \<Rightarrow> isp_test_param \<times> byte list" where
  "set_isp_test_gain s c = (let v = dec32s c in (s\<lparr>isp_test_gain := v ! 0,
     gain_start := v ! 1, gain_step := v ! 2, gain_end := v ! 3,
     gain_change_interval := v ! 4\<rparr>, c))"

definition get_isp_test_focus :: "isp_test_param \<Rightarrow> byte list \<Rightarrow> byte list" where
  "get_isp_test_focus s c = overlay c (enc32s [isp_test_focus s, focus_start s,
     focus_step s, focus_end s, focus_change_interval s])"

definition set_isp_test_focus :: "isp_test_param \<Rightarrow> byte list \<Rightarrow> isp_test_param \<times> byte list" where
  "set_isp_test_focus s c = (let v = dec32s c in (s\<lparr>isp_test_focus := v ! 0,
     focus_start := v ! 1, focus_step := v ! 2, focus_end := v ! 3,
     focus_change_interval := v ! 4\<rparr>, c))"

definition get_isp_test_forced :: "isp_test_param \<Rightarrow> byte list \<Rightarrow> byte list" where
  "get_isp_test_forced s c = overlay c (enc32s [ae_forced s, lum_forced s])"

definition set_isp_test_forced :: "isp_test_param \<Rightarrow> byte list \<Rightarrow> isp_test_param \<times> byte list" where
  "set_isp_test_forced s c = (let v = dec32s c in (s\<lparr>ae_forced := v ! 0,
     lum_forced := v ! 1\<rparr>, c))"

definition get_isp_test_enable :: "isp_test_param \<Rightarrow> byte list \<Rightarrow> byte list" where
  "get_isp_test_enable s c = overlay c (enc32s [manual_en s, afs_en s, sharp_en s,
     contrast_en s, denoise_en s, drc_en s, cem_en s, lsc_en s, msc_en s, gamma_en s,
     cm_en s, ae_en s, af_en s, awb_en s, hist_en s, blc_en s, so_en s, wb_en s,
     otf_dpc_en s, cfa_en s, tdf_en s, cnr_en s, lca_en s, gca_en s, satur_en s, defog_en s,
     linear_en s, gtm_en s, dig_gain_en s, pltm_en s, wdr_en s, ctc_en s])"

definition set_isp_test_enable :: "isp_test_param \<Rightarrow> byte list \<Rightarrow> isp_test_param \<times> byte list" where
  "set_isp_test_enable s c = (let v = dec32s c in (s\<lparr>manual_en := v ! 0,
     afs_en := v ! 1, sharp_en := v ! 2, contrast_en := v ! 3, denoise_en := v ! 4,
     drc_en := v ! 5, cem_en := v ! 6, lsc_en := v ! 7, msc_en := v ! 8, gamma_en := v ! 9,
     cm_en := v ! 10, ae_en := v ! 11, af_en := v ! 12, awb_en := v ! 13, hist_en := v ! 14,
     blc_en := v ! 15, so_en := v ! 16, wb_en := v ! 17, otf_dpc_en := v ! 18,
     cfa_en := v ! 19, tdf_en := v ! 20, cnr_en := v ! 21, lca_en := v ! 22,
     gca_en := v ! 23, satur_en := v ! 24, defog_en := v ! 25, linear_en := v ! 26,
     gtm_en := v ! 27, dig_gain_en := v ! 28, pltm_en := v ! 29, wdr_en := v ! 30,
     ctc_en := v ! 31\<rparr>, c))"

definition cfg_test_items :: "isp_test_param cfg_item list" where
  "cfg_test_items = [
     \<lparr>cfg_id = HW_ISP_CFG_TEST_PUB, cfg_size = 20,
      cfg_get = get_isp_test_pub, cfg_set = set_isp_test_pub\<rparr>,
     \<lparr>cfg_id = HW_ISP_CFG_TEST_EXPTIME, cfg_size = 20,
      cfg_get = get_isp_test_exptime, cfg_set = set_isp_test_exptime\<rparr>,
     \<lparr>cfg_id = HW_ISP_CFG_TEST_GAIN, cfg_size = 20,
      cfg_get = get_isp_test_gain, cfg_set = set_isp_test_gain\<rparr>,
     \<lparr>cfg_id = HW_ISP_CFG_TEST_FOCUS, cfg_size = 20,
      cfg_get = get_isp_test_focus, cfg_set = set_isp_test_focus\<rparr>,
     \<lparr>cfg_id = HW_ISP_CFG_TEST_FORCED, cfg_size = 8,
      cfg_get = get_isp_test_forced, cfg_set = set_isp_test_forced\<rparr>,
     \<lparr>cfg_id = HW_ISP_CFG_TEST_ENABLE, cfg_size = 128,
      cfg_get = get_isp_test_enable, cfg_set = set_isp_test_enable\<rparr>]"

lemmas test_get_defs =
  get_isp_test_pub_def
  get_isp_test_exptime_def
  get_isp_test_gain_def
  get_isp_test_focus_def
  get_isp_test_forced_def
  get_isp_test_enable_def

lemmas test_set_defs =
  set_isp_test_pub_def
  set_isp_test_exptime_def
  set_isp_test_gain_def
  set_isp_test_focus_def
  set_isp_test_forced_def
  set_isp_test_enable_def

interpretation test_group: cfg_group cfg_test_items "\<lambda>_. True" "\<lambda>_ _. True"
proof (unfold_locales, goal_cases)
  case (1 it s c) then show ?case
    by (auto simp: cfg_test_items_def test_get_defs)
next
  case (2 it s c) then show ?case
    by (auto simp: cfg_test_items_def test_set_defs Let_def)
next
  case (3 it s c) then show ?case by simp
next
  case (4 it s c) then show ?case
    by (auto simp: cfg_test_items_def test_get_defs test_set_defs Let_def fuse wire_simps)
next
  case (5 it s c) then show ?case
    by (auto simp: cfg_test_items_def test_get_defs test_set_defs Let_def wire_simps slice_def)
next
  case (6 it) then show ?case
    by (auto simp: cfg_test_items_def upt_rec)
next
  case 7 then show ?case
    by (simp add: cfg_test_items_def test_get_defs test_set_defs Let_def unaffected_def)
qed

section \<open>3A group\<close>

definition get_isp_ae_pub :: "isp_3a_param \<Rightarrow> byte list \<Rightarrow> byte list" where
  "get_isp_ae_pub s c = overlay c (enc32s ([define_ae_table s, ae_max_lv s,
     ae_hist_mod_en s, ae_hist_sel s, ae_stat_sel s, exp_comp_step s, ae_touch_dist_ind s,
     ae_iso2gain_ratio s] @ ae_fno_step s @ [ae_ki s, ae_ConvDataIndex s,
     ae_blowout_pre_en s, ae_blowout_attr s] @ take 3 (wdr_cfg s)))"

definition set_isp_ae_pub :: "isp_3a_param \<Rightarrow> byte list \<Rightarrow> isp_3a_param \<times> byte list" where
  "set_isp_ae_pub s c = (let v = dec32s c in (s\<lparr>define_ae_table := v ! 0,
     ae_max_lv := v ! 1, ae_hist_mod_en := v ! 2, ae_hist_sel := v ! 3,
     ae_stat_sel := v ! 4, exp_comp_step := v ! 5, ae_touch_dist_ind := v ! 6,
     ae_iso2gain_ratio := v ! 7, ae_fno_step := slice v 8 16, ae_ki := v ! 24,
     ae_ConvDataIndex := v ! 25, ae_blowout_pre_en := v ! 26, ae_blowout_attr := v ! 27,
     wdr_cfg := slice v 28 3 @ drop 3 (wdr_cfg s)\<rparr>, c))"

definition get_isp_ae_preview_tbl :: "isp_3a_param \<Rightarrow> byte list \<Rightarrow> byte list" where
  "get_isp_ae_preview_tbl s c = overlay c (enc32s ([ae_table_preview_length s] @
     ae_table_preview s))"

definition set_isp_ae_preview_tbl :: "isp_3a_param \<Rightarrow> byte list \<Rightarrow> isp_3a_param \<times> byte list" where
  "set_isp_ae_preview_tbl s c = (let v = dec32s c in
     (s\<lparr>ae_table_preview_length := v ! 0,
     ae_table_preview := slice v 1 42\<rparr>, c))"

definition get_isp_ae_capture_tbl :: "isp_3a_param \<Rightarrow> byte list \<Rightarrow> byte list" where
  "get_isp_ae_capture_tbl s c = overlay c (enc32s ([ae_table_capture_length s] @
     ae_table_capture s))"

definition set_isp_ae_capture_tbl :: "isp_3a_param \<Rightarrow> byte list \<Rightarrow> isp_3a_param \<times> byte list" where
  "set_isp_ae_capture_tbl s c = (let v = dec32s c in
     (s\<lparr>ae_table_capture_length := v ! 0,
     ae_table_capture := slice v 1 42\<rparr>, c))"

definition get_isp_ae_video_tbl :: "isp_3a_param \<Rightarrow> byte list \<Rightarrow> byte list" where
  "get_isp_ae_video_tbl s c = overlay c (enc32s ([ae_table_video_length s] @
     ae_table_video s))"

definition set_isp_ae_video_tbl :: "isp_3a_param \<Rightarrow> byte list \<Rightarrow> isp_3a_param \<times> byte list" where
  "set_isp_ae_video_tbl s c = (let v = dec32s c in (s\<lparr>ae_table_video_length := v ! 0,
     ae_table_video := slice v 1 42\<rparr>, c))"

definition get_isp_ae_win_weight :: "isp_3a_param \<Rightarrow> byte list \<Rightarrow> byte list" where
  "get_isp_ae_win_weight s c = overlay c (enc32s (ae_win_weight s))"

definition set_isp_ae_win_weight :: "isp_3a_param \<Rightarrow> byte list \<Rightarrow> isp_3a_param \<times> byte list" where
  "set_isp_ae_win_weight s c = (let v = dec32s c in
     (s\<lparr>ae_win_weight := slice v 0 64\<rparr>, c))"

definition get_isp_ae_delay :: "isp_3a_param \<Rightarrow> byte list \<Rightarrow> byte list" where
  "get_isp_ae_delay s c = overlay c (enc32s [ae_delay_frame s, exp_delay_frame s,
     gain_delay_frame s])"

definition set_isp_ae_delay :: "isp_3a_param \<Rightarrow> byte list \<Rightarrow> isp_3a_param \<times> byte list" where
  "set_isp_ae_delay s c = (let v = dec32s c in (s\<lparr>ae_delay_frame := v ! 0,
     exp_delay_frame := v ! 1, gain_delay_frame := v ! 2\<rparr>, c))"

definition get_isp_awb_pub :: "isp_3a_param \<Rightarrow> byte list \<Rightarrow> byte list" where
  "get_isp_awb_pub s c = overlay c (enc32s [awb_interval s, awb_speed s, awb_stat_sel s])"

definition set_isp_awb_pub :: "isp_3a_param \<Rightarrow> byte list \<Rightarrow> isp_3a_param \<times> byte list" where
  "set_isp_awb_pub s c = (let v = dec32s c in (s\<lparr>awb_interval := v ! 0,
     awb_speed := v ! 1, awb_stat_sel := v ! 2\<rparr>, c))"

definition get_isp_awb_temp_range :: "isp_3a_param \<Rightarrow> byte list \<Rightarrow> byte list" where
  "get_isp_awb_temp_range s c = overlay c (enc32s [awb_color_temper_low s,
     awb_color_temper_high s, awb_base_temper s])"

definition set_isp_awb_temp_range :: "isp_3a_param \<Rightarrow> byte list \<Rightarrow> isp_3a_param \<times> byte list" where
  "set_isp_awb_temp_range s c = (let v = dec32s c in
     (s\<lparr>awb_color_temper_low := v ! 0, awb_color_temper_high := v ! 1,
     awb_base_temper := v ! 2\<rparr>, c))"

definition get_isp_awb_dist :: "isp_3a_param \<Rightarrow> byte list \<Rightarrow> byte list" where
  "get_isp_awb_dist s c = overlay c (enc32s [awb_green_zone_dist s, awb_blue_sky_dist s])"

definition set_isp_awb_dist :: "isp_3a_param \<Rightarrow> byte list \<Rightarrow> isp_3a_param \<times> byte list" where
  "set_isp_awb_dist s c = (let v = dec32s c in (s\<lparr>awb_green_zone_dist := v ! 0,
     awb_blue_sky_dist := v ! 1\<rparr>, c))"

definition get_isp_awb_light_info :: "isp_3a_param \<Rightarrow> byte list \<Rightarrow> byte list" where
  "get_isp_awb_light_info s c = overlay c (enc32s ([awb_light_num s] @ awb_light_info s))"

definition set_isp_awb_light_info :: "isp_3a_param \<Rightarrow> byte list \<Rightarrow> isp_3a_param \<times> byte list" where
  "set_isp_awb_light_info s c = (let v = dec32s c in (s\<lparr>awb_light_num := v ! 0,
     awb_light_info := slice v 1 320\<rparr>, c))"

definition get_isp_awb_ext_light_info :: "isp_3a_param \<Rightarrow> byte list \<Rightarrow> byte list" where
  "get_isp_awb_ext_light_info s c = overlay c (enc32s ([awb_ext_light_num s] @
     awb_ext_light_info s))"

definition set_isp_awb_ext_light_info :: "isp_3a_param \<Rightarrow> byte list \<Rightarrow> isp_3a_param \<times> byte list" where
  "set_isp_awb_ext_light_info s c = (let v = dec32s c in
     (s\<lparr>awb_ext_light_num := v ! 0, awb_ext_light_info := slice v 1 320\<rparr>, c))"

definition get_isp_awb_skin_info :: "isp_3a_param \<Rightarrow> byte list \<Rightarrow> byte list" where
  "get_isp_awb_skin_info s c = overlay c (enc32s ([awb_skin_color_num s] @
     awb_skin_color_info s))"

definition set_isp_awb_skin_info :: "isp_3a_param \<Rightarrow> byte list \<Rightarrow> isp_3a_param \<times> byte list" where
  "set_isp_awb_skin_info s c = (let v = dec32s c in (s\<lparr>awb_skin_color_num := v ! 0,
     awb_skin_color_info := slice v 1 160\<rparr>, c))"

definition get_isp_awb_special_info :: "isp_3a_param \<Rightarrow> byte list \<Rightarrow> byte list" where
  "get_isp_awb_special_info s c = overlay c (enc32s ([awb_special_color_num s] @
     awb_special_color_info s))"

definition set_isp_awb_special_info :: "isp_3a_param \<Rightarrow> byte list \<Rightarrow> isp_3a_param \<times> byte list" where
  "set_isp_awb_special_info s c = (let v = dec32s c in
     (s\<lparr>awb_special_color_num := v ! 0,
     awb_special_color_info := slice v 1 320\<rparr>, c))"

definition get_isp_awb_preset_gain :: "isp_3a_param \<Rightarrow> byte list \<Rightarrow> byte list" where
  "get_isp_awb_preset_gain s c = overlay c (enc32s (awb_preset_gain s))"

definition set_isp_awb_preset_gain :: "isp_3a_param \<Rightarrow> byte list \<Rightarrow> isp_3a_param \<times> byte list" where
  "set_isp_awb_preset_gain s c = (let v = dec32s c in
     (s\<lparr>awb_preset_gain := slice v 0 22\<rparr>, c))"

definition get_isp_awb_favor :: "isp_3a_param \<Rightarrow> byte list \<Rightarrow> byte list" where
  "get_isp_awb_favor s c = overlay c (enc32s [awb_rgain_favor s, awb_bgain_favor s])"

definition set_isp_awb_favor :: "isp_3a_param \<Rightarrow> byte list \<Rightarrow> isp_3a_param \<times> byte list" where
  "set_isp_awb_favor s c = (let v = dec32s c in (s\<lparr>awb_rgain_favor := v ! 0,
     awb_bgain_favor := v ! 1\<rparr>, c))"

definition get_isp_af_vcm_code :: "isp_3a_param \<Rightarrow> byte list \<Rightarrow> byte list" where
  "get_isp_af_vcm_code s c = overlay c (enc32s [vcm_min_code s, vcm_max_code s])"

definition set_isp_af_vcm_code :: "isp_3a_param \<Rightarrow> byte list \<Rightarrow> isp_3a_param \<times> byte list" where
  "set_isp_af_vcm_code s c = (let v = dec32s c in (s\<lparr>vcm_min_code := v ! 0,
     vcm_max_code := v ! 1\<rparr>, c))"

definition get_isp_af_otp :: "isp_3a_param \<Rightarrow> byte list \<Rightarrow> byte list" where
  "get_isp_af_otp s c = overlay c (enc32s [af_use_otp s])"

definition set_isp_af_otp :: "isp_3a_param \<Rightarrow> byte list \<Rightarrow> isp_3a_param \<times> byte list" where
  "set_isp_af_otp s c = (let v = dec32s c in (s\<lparr>af_use_otp := v ! 0\<rparr>, c))"

definition get_isp_af_speed :: "isp_3a_param \<Rightarrow> byte list \<Rightarrow> byte list" where
  "get_isp_af_speed s c = overlay c (enc32s [af_interval_time s, af_speed_ind s])"

definition set_isp_af_speed :: "isp_3a_param \<Rightarrow> byte list \<Rightarrow> isp_3a_param \<times> byte list" where
  "set_isp_af_speed s c = (let v = dec32s c in (s\<lparr>af_interval_time := v ! 0,
     af_speed_ind := v ! 1\<rparr>, c))"

definition get_isp_af_fine_search :: "isp_3a_param \<Rightarrow> byte list \<Rightarrow> byte list" where
  "get_isp_af_fine_search s c = overlay c (enc32s [af_auto_fine_en s, af_single_fine_en s,
     af_fine_step s])"

definition set_isp_af_fine_search :: "isp_3a_param \<Rightarrow> byte list \<Rightarrow> isp_3a_param \<times> byte list" where
  "set_isp_af_fine_search s c = (let v = dec32s c in (s\<lparr>af_auto_fine_en := v ! 0,
     af_single_fine_en := v ! 1, af_fine_step := v ! 2\<rparr>, c))"

definition get_isp_af_refocus :: "isp_3a_param \<Rightarrow> byte list \<Rightarrow> byte list" where
  "get_isp_af_refocus s c = overlay c (enc32s [af_move_cnt s, af_still_cnt s,
     af_move_monitor_cnt s, af_still_monitor_cnt s])"

definition set_isp_af_refocus :: "isp_3a_param \<Rightarrow> byte list \<Rightarrow> isp_3a_param \<times> byte list" where
  "set_isp_af_refocus s c = (let v = dec32s c in (s\<lparr>af_move_cnt := v ! 0,
     af_still_cnt := v ! 1, af_move_monitor_cnt := v ! 2,
     af_still_monitor_cnt := v ! 3\<rparr>, c))"

definition get_isp_af_tolerance :: "isp_3a_param \<Rightarrow> byte list \<Rightarrow> byte list" where
  "get_isp_af_tolerance s c = overlay c (enc32s ([af_near_tolerance s, af_far_tolerance s,
     af_tolerance_off s, af_tolerance_tbl_len s] @ af_std_code_tbl s @
     af_tolerance_value_tbl s))"

definition set_isp_af_tolerance :: "isp_3a_param \<Rightarrow> byte list \<Rightarrow> isp_3a_param \<times> byte list" where
  "set_isp_af_tolerance s c = (let v = dec32s c in (s\<lparr>af_near_tolerance := v ! 0,
     af_far_tolerance := v ! 1, af_tolerance_off := v ! 2, af_tolerance_tbl_len := v ! 3,
     af_std_code_tbl := slice v 4 20, af_tolerance_value_tbl := slice v 24 20\<rparr>, c))"

definition get_isp_af_scene :: "isp_3a_param \<Rightarrow> byte list \<Rightarrow> byte list" where
  "get_isp_af_scene s c = overlay c (enc32s [af_stable_min s, af_stable_max s,
     af_low_light_lv s, af_peak_th s, af_dir_th s, af_change_ratio s, af_move_minus s,
     af_still_minus s, af_scene_motion_th s])"

definition set_isp_af_scene :: "isp_3a_param \<Rightarrow> byte list \<Rightarrow> isp_3a_param \<times> byte list" where
  "set_isp_af_scene s c = (let v = dec32s c in (s\<lparr>af_stable_min := v ! 0,
     af_stable_max := v ! 1, af_low_light_lv := v ! 2, af_peak_th := v ! 3,
     af_dir_th := v ! 4, af_change_ratio := v ! 5, af_move_minus := v ! 6,
     af_still_minus := v ! 7, af_scene_motion_th := v ! 8\<rparr>, c))"

definition cfg_3a_items :: "isp_3a_param cfg_item list" where
  "cfg_3a_items = [
     \<lparr>cfg_id = HW_ISP_CFG_AE_PUB, cfg_size = 124,
      cfg_get = get_isp_ae_pub, cfg_set = set_isp_ae_pub\<rparr>,
     \<lparr>cfg_id = HW_ISP_CFG_AE_PREVIEW_TBL, cfg_size = 172,
      cfg_get = get_isp_ae_preview_tbl, cfg_set = set_isp_ae_preview_tbl\<rparr>,
     \<lparr>cfg_id = HW_ISP_CFG_AE_CAPTURE_TBL, cfg_size = 172,
      cfg_get = get_isp_ae_capture_tbl, cfg_set = set_isp_ae_capture_tbl\<rparr>,
     \<lparr>cfg_id = HW_ISP_CFG_AE_VIDEO_TBL, cfg_size = 172,
      cfg_get = get_isp_ae_video_tbl, cfg_set = set_isp_ae_video_tbl\<rparr>,
     \<lparr>cfg_id = HW_ISP_CFG_AE_WIN_WEIGHT, cfg_size = 256,
      cfg_get = get_isp_ae_win_weight, cfg_set = set_isp_ae_win_weight\<rparr>,
     \<lparr>cfg_id = HW_ISP_CFG_AE_DELAY, cfg_size = 12,
      cfg_get = get_isp_ae_delay, cfg_set = set_isp_ae_delay\<rparr>,
     \<lparr>cfg_id = HW_ISP_CFG_AWB_PUB, cfg_size = 12,
      cfg_get = get_isp_awb_pub, cfg_set = set_isp_awb_pub\<rparr>,
     \<lparr>cfg_id = HW_ISP_CFG_AWB_TEMP_RANGE, cfg_size = 12,
      cfg_get = get_isp_awb_temp_range, cfg_set = set_isp_awb_temp_range\<rparr>,
     \<lparr>cfg_id = HW_ISP_CFG_AWB_DIST, cfg_size = 8,
      cfg_get = get_isp_awb_dist, cfg_set = set_isp_awb_dist\<rparr>,
     \<lparr>cfg_id = HW_ISP_CFG_AWB_LIGHT_INFO, cfg_size = 1284,
      cfg_get = get_isp_awb_light_info, cfg_set = set_isp_awb_light_info\<rparr>,
     \<lparr>cfg_id = HW_ISP_CFG_AWB_EXT_LIGHT_INFO, cfg_size = 1284,
      cfg_get = get_isp_awb_ext_light_info, cfg_set = set_isp_awb_ext_light_info\<rparr>,
     \<lparr>cfg_id = HW_ISP_CFG_AWB_SKIN_INFO, cfg_size = 1284,
      cfg_get = get_isp_awb_skin_info, cfg_set = set_isp_awb_skin_info\<rparr>,
     \<lparr>cfg_id = HW_ISP_CFG_AWB_SPECIAL_INFO, cfg_size = 1284,
      cfg_get = get_isp_awb_special_info, cfg_set = set_isp_awb_special_info\<rparr>,
     \<lparr>cfg_id = HW_ISP_CFG_AWB_PRESET_GAIN, cfg_size = 88,
      cfg_get = get_isp_awb_preset_gain, cfg_set = set_isp_awb_preset_gain\<rparr>,
     \<lparr>cfg_id = HW_ISP_CFG_AWB_FAVOR, cfg_size = 8,
      cfg_get = get_isp_awb_favor, cfg_set = set_isp_awb_favor\<rparr>,
     \<lparr>cfg_id = HW_ISP_CFG_AF_VCM_CODE, cfg_size = 8,
      cfg_get = get_isp_af_vcm_code, cfg_set = set_isp_af_vcm_code\<rparr>,
     \<lparr>cfg_id = HW_ISP_CFG_AF_OTP, cfg_size = 4,
      cfg_get = get_isp_af_otp, cfg_set = set_isp_af_otp\<rparr>,
     \<lparr>cfg_id = HW_ISP_CFG_AF_SPEED, cfg_size = 8,
      cfg_get = get_isp_af_speed, cfg_set = set_isp_af_speed\<rparr>,
     \<lparr>cfg_id = HW_ISP_CFG_AF_FINE_SEARCH, cfg_size = 12,
      cfg_get = get_isp_af_fine_search, cfg_set = set_isp_af_fine_search\<rparr>,
     \<lparr>cfg_id = HW_ISP_CFG_AF_REFOCUS, cfg_size = 16,
      cfg_get = get_isp_af_refocus, cfg_set = set_isp_af_refocus\<rparr>,
     \<lparr>cfg_id = HW_ISP_CFG_AF_TOLERANCE, cfg_size = 176,
      cfg_get = get_isp_af_tolerance, cfg_set = set_isp_af_tolerance\<rparr>,
     \<lparr>cfg_id = HW_ISP_CFG_AF_SCENE, cfg_size = 36,
      cfg_get = get_isp_af_scene, cfg_set = set_isp_af_scene\<rparr>]"

lemmas aaa_get_defs =
  get_isp_ae_pub_def
  get_isp_ae_preview_tbl_def
  get_isp_ae_capture_tbl_def
  get_isp_ae_video_tbl_def
  get_isp_ae_win_weight_def
  get_isp_ae_delay_def
  get_isp_awb_pub_def
  get_isp_awb_temp_range_def
  get_isp_awb_dist_def
  get_isp_awb_light_info_def
  get_isp_awb_ext_light_info_def
  get_isp_awb_skin_info_def
  get_isp_awb_special_info_def
  get_isp_awb_preset_gain_def
  get_isp_awb_favor_def
  get_isp_af_vcm_code_def
  get_isp_af_otp_def
  get_isp_af_speed_def
  get_isp_af_fine_search_def
  get_isp_af_refocus_def
  get_isp_af_tolerance_def
  get_isp_af_scene_def

lemmas aaa_set_defs =
  set_isp_ae_pub_def
  set_isp_ae_preview_tbl_def
  set_isp_ae_capture_tbl_def
  set_isp_ae_video_tbl_def
  set_isp_ae_win_weight_def
  set_isp_ae_delay_def
  set_isp_awb_pub_def
  set_isp_awb_temp_range_def
  set_isp_awb_dist_def
  set_isp_awb_light_info_def
  set_isp_awb_ext_light_info_def
  set_isp_awb_skin_info_def
  set_isp_awb_special_info_def
  set_isp_awb_preset_gain_def
  set_isp_awb_favor_def
  set_isp_af_vcm_code_def
  set_isp_af_otp_def
  set_isp_af_speed_def
  set_isp_af_fine_search_def
  set_isp_af_refocus_def
  set_isp_af_tolerance_def
  set_isp_af_scene_def

interpretation aaa_group: cfg_group cfg_3a_items wf_3a "\<lambda>_ _. True"
proof (unfold_locales, goal_cases)
  case (1 it s c) then show ?case
    by (auto simp: cfg_3a_items_def aaa_get_defs wf_3a_def)
next
  case (2 it s c) then show ?case
    by (auto simp: cfg_3a_items_def aaa_set_defs Let_def)
next
  case (3 it s c) then show ?case
    by (auto simp: cfg_3a_items_def aaa_set_defs wf_3a_def Let_def)
next
  case (4 it s c) then show ?case
    by (auto simp: cfg_3a_items_def aaa_get_defs aaa_set_defs wf_3a_def Let_def fuse wire_simps)
next
  case (5 it s c) then show ?case
    by (auto simp: cfg_3a_items_def aaa_get_defs aaa_set_defs wf_3a_def Let_def wire_simps
        slice_def nth_append)
next
  case (6 it) then show ?case
    by (auto simp: cfg_3a_items_def upt_rec)
next
  case 7 then show ?case
    by (simp add: cfg_3a_items_def aaa_get_defs aaa_set_defs Let_def unaffected_def)
qed

end
