(* ===== verification/TuningBasic.thy ===== *)
theory TuningBasic
  imports CfgItems IspParams
begin

text \<open>
  The group \<open>HW_ISP_CFG_TUNING\<close> of \<open>isp_tuning_get_cfg\<close> and \<open>isp_tuning_set_cfg\<close>: flash, flicker,
  visual angle, global tone mapping, colour filter array, cross talk, digital gain, the three
  colour matrices, local tone mapping and green-channel adjustment. One \<open>get\<close> and one \<open>set\<close>
  definition per block of the source, over the tuning sub-struct and the chunk of the caller's
  buffer; a wire struct that mixes member widths is read run by run (32-, 16- and 8-bit members),
  and padding at its end keeps the caller's bytes.
\<close>

definition get_isp_tuning_flash :: "isp_tunning_param \<Rightarrow> byte list \<Rightarrow> byte list" where
  "get_isp_tuning_flash s c = overlay c (enc32s [flash_gain s, flash_delay_frame s])"

definition set_isp_tuning_flash :: "isp_tunning_param \<Rightarrow> byte list \<Rightarrow> isp_tunning_param \<times> byte list" where
  "set_isp_tuning_flash s c = (let v = dec32s c in (s\<lparr>flash_gain := v ! 0,
     flash_delay_frame := v ! 1\<rparr>, c))"

definition get_isp_tuning_flicker :: "isp_tunning_param \<Rightarrow> byte list \<Rightarrow> byte list" where
  "get_isp_tuning_flicker s c = overlay c (enc32s [flicker_type s, flicker_ratio s])"

definition set_isp_tuning_flicker :: "isp_tunning_param \<Rightarrow> byte list \<Rightarrow> isp_tunning_param \<times> byte list" where
  "set_isp_tuning_flicker s c = (let v = dec32s c in (s\<lparr>flicker_type := v ! 0,
     flicker_ratio := v ! 1\<rparr>, c))"

definition get_isp_tuning_visual_angle :: "isp_tunning_param \<Rightarrow> byte list \<Rightarrow> byte list" where
  "get_isp_tuning_visual_angle s c = overlay c (enc32s [hor_visual_angle s,
     ver_visual_angle s, focus_length s])"

definition set_isp_tuning_visual_angle :: "isp_tunning_param \<Rightarrow> byte list \<Rightarrow> isp_tunning_param \<times> byte list" where
  "set_isp_tuning_visual_angle s c = (let v = dec32s c in
     (s\<lparr>hor_visual_angle := v ! 0, ver_visual_angle := v ! 1,
     focus_length := v ! 2\<rparr>, c))"

definition get_isp_tuning_gtm :: "isp_tunning_param \<Rightarrow> byte list \<Rightarrow> byte list" where
  "get_isp_tuning_gtm s c = overlay c (enc32s [gtm_type s, gamma_type s, auto_alpha_en s,
     hist_pix_cnt s, dark_minval s, bright_minval s] @ enc16s (plum_var s))"

definition set_isp_tuning_gtm :: "isp_tunning_param \<Rightarrow> byte list \<Rightarrow> isp_tunning_param \<times> byte list" where
  "set_isp_tuning_gtm s c = (let v = dec32s (slice c 0 24); h = dec16s (slice c 24 162) in
     (s\<lparr>gtm_type := v ! 0, gamma_type := v ! 1, auto_alpha_en := v ! 2,
     hist_pix_cnt := v ! 3, dark_minval := v ! 4, bright_minval := v ! 5,
     plum_var := slice h 0 81\<rparr>, c))"

definition get_isp_tuning_cfa :: "isp_tunning_param \<Rightarrow> byte list \<Rightarrow> byte list" where
  "get_isp_tuning_cfa s c = overlay c (enc32s [cfa_dir_th s, cfa_interp_mode s,
     cfa_zig_zag s])"

definition set_isp_tuning_cfa :: "isp_tunning_param \<Rightarrow> byte list \<Rightarrow> isp_tunning_param \<times> byte list" where
  "set_isp_tuning_cfa s c = (let v = dec32s c in (s\<lparr>cfa_dir_th := v ! 0,
     cfa_interp_mode := v ! 1, cfa_zig_zag := v ! 2\<rparr>, c))"

definition get_isp_tuning_ctc :: "isp_tunning_param \<Rightarrow> byte list \<Rightarrow> byte list" where
  "get_isp_tuning_ctc s c = overlay c (enc16s [ctc_th_min s, ctc_th_max s, ctc_th_slope s,
     ctc_dir_wt s, ctc_dir_th s])"

definition set_isp_tuning_ctc :: "isp_tunning_param \<Rightarrow> byte list \<Rightarrow> isp_tunning_param \<times> byte list" where
  "set_isp_tuning_ctc s c = (let h = dec16s c in (s\<lparr>ctc_th_min := h ! 0,
     ctc_th_max := h ! 1, ctc_th_slope := h ! 2, ctc_dir_wt := h ! 3,
     ctc_dir_th := h ! 4\<rparr>, c))"

definition get_isp_tuning_digital_gain :: "isp_tunning_param \<Rightarrow> byte list \<Rightarrow> byte list" where
  "get_isp_tuning_digital_gain s c = overlay c (enc32s (bayer_gain s))"

definition set_isp_tuning_digital_gain :: "isp_tunning_param \<Rightarrow> byte list \<Rightarrow> isp_tunning_param \<times> byte list" where
  "set_isp_tuning_digital_gain s c = (let v = dec32s c in
     (s\<lparr>bayer_gain := slice v 0 4\<rparr>, c))"

definition get_isp_tuning_ccm_low :: "isp_tunning_param \<Rightarrow> byte list \<Rightarrow> byte list" where
  "get_isp_tuning_ccm_low s c = overlay c (enc16s ([cm_trig_cfg s ! 0] @
     matrix (color_matrix_ini s ! 0) @ offset (color_matrix_ini s ! 0)))"

definition set_isp_tuning_ccm_low :: "isp_tunning_param \<Rightarrow> byte list \<Rightarrow> isp_tunning_param \<times> byte list" where
  "set_isp_tuning_ccm_low s c = (let h = dec16s c in (s\<lparr>cm_trig_cfg := (cm_trig_cfg s)[0 := h ! 0],
     color_matrix_ini := (color_matrix_ini s)[0 := \<lparr>matrix = slice h 1 9, offset = slice h 10 3\<rparr>]\<rparr>, c))"

definition get_isp_tuning_ccm_mid :: "isp_tunning_param \<Rightarrow> byte list \<Rightarrow> byte list" where
  "get_isp_tuning_ccm_mid s c = overlay c (enc16s ([cm_trig_cfg s ! 1] @
     matrix (color_matrix_ini s ! 1) @ offset (color_matrix_ini s ! 1)))"

definition set_isp_tuning_ccm_mid :: "isp_tunning_param \<Rightarrow> byte list \<Rightarrow> isp_tunning_param \<times> byte list" where
  "set_isp_tuning_ccm_mid s c = (let h = dec16s c in (s\<lparr>cm_trig_cfg := (cm_trig_cfg s)[1 := h ! 0],
     color_matrix_ini := (color_matrix_ini s)[1 := \<lparr>matrix = slice h 1 9, offset = slice h 10 3\<rparr>]\<rparr>, c))"

definition get_isp_tuning_ccm_high :: "isp_tunning_param \<Rightarrow> byte list \<Rightarrow> byte list" where
  "get_isp_tuning_ccm_high s c = overlay c (enc16s ([cm_trig_cfg s ! 2] @
     matrix (color_matrix_ini s ! 2) @ offset (color_matrix_ini s ! 2)))"

definition set_isp_tuning_ccm_high :: "isp_tunning_param \<Rightarrow> byte list \<Rightarrow> isp_tunning_param \<times> byte list" where
  "set_isp_tuning_ccm_high s c = (let h = dec16s c in (s\<lparr>cm_trig_cfg := (cm_trig_cfg s)[2 := h ! 0],
     color_matrix_ini := (color_matrix_ini s)[2 := \<lparr>matrix = slice h 1 9, offset = slice h 10 3\<rparr>]\<rparr>, c))"

definition get_isp_tuning_pltm :: "isp_tunning_param \<Rightarrow> byte list \<Rightarrow> byte list" where
  "get_isp_tuning_pltm s c = overlay c (enc32s (pltm_cfg s))"

definition set_isp_tuning_pltm :: "isp_tunning_param \<Rightarrow> byte list \<Rightarrow> isp_tunning_param \<times> byte list" where
  "set_isp_tuning_pltm s c = (let v = dec32s c in
     (s\<lparr>pltm_cfg := slice v 0 19\<rparr>, c))"

definition get_isp_tuning_gca :: "isp_tunning_param \<Rightarrow> byte list \<Rightarrow> byte list" where
  "get_isp_tuning_gca s c = overlay c (enc32s (gca_cfg s))"

definition set_isp_tuning_gca :: "isp_tunning_param \<Rightarrow> byte list \<Rightarrow> isp_tunning_param \<times> byte list" where
  "set_isp_tuning_gca s c = (let v = dec32s c in
     (s\<lparr>gca_cfg := slice v 0 7\<rparr>, c))"

definition cfg_tuning_items :: "isp_tunning_param cfg_item list" where
  "cfg_tuning_items = [
     \<lparr>cfg_id = HW_ISP_CFG_TUNING_FLASH, cfg_size = 8,
      cfg_get = get_isp_tuning_flash, cfg_set = set_isp_tuning_flash\<rparr>,
     \<lparr>cfg_id = HW_ISP_CFG_TUNING_FLICKER, cfg_size = 8,
      cfg_get = get_isp_tuning_flicker, cfg_set = set_isp_tuning_flicker\<rparr>,
     \<lparr>cfg_id = HW_ISP_CFG_TUNING_VISUAL_ANGLE, cfg_size = 12,
      cfg_get = get_isp_tuning_visual_angle, cfg_set = set_isp_tuning_visual_angle\<rparr>,
     \<lparr>cfg_id = HW_ISP_CFG_TUNING_GTM, cfg_size = 188,
      cfg_get = get_isp_tuning_gtm, cfg_set = set_isp_tuning_gtm\<rparr>,
     \<lparr>cfg_id = HW_ISP_CFG_TUNING_CFA, cfg_size = 12,
      cfg_get = get_isp_tuning_cfa, cfg_set = set_isp_tuning_cfa\<rparr>,
     \<lparr>cfg_id = HW_ISP_CFG_TUNING_CTC, cfg_size = 10,
      cfg_get = get_isp_tuning_ctc, cfg_set = set_isp_tuning_ctc\<rparr>,
     \<lparr>cfg_id = HW_ISP_CFG_TUNING_DIGITAL_GAIN, cfg_size = 16,
      cfg_get = get_isp_tuning_digital_gain, cfg_set = set_isp_tuning_digital_gain\<rparr>,
     \<lparr>cfg_id = HW_ISP_CFG_TUNING_CCM_LOW, cfg_size = 26,
      cfg_get = get_isp_tuning_ccm_low, cfg_set = set_isp_tuning_ccm_low\<rparr>,
     \<lparr>cfg_id = HW_ISP_CFG_TUNING_CCM_MID, cfg_size = 26,
      cfg_get = get_isp_tuning_ccm_mid, cfg_set = set_isp_tuning_ccm_mid\<rparr>,
     \<lparr>cfg_id = HW_ISP_CFG_TUNING_CCM_HIGH, cfg_size = 26,
      cfg_get = get_isp_tuning_ccm_high, cfg_set = set_isp_tuning_ccm_high\<rparr>,
     \<lparr>cfg_id = HW_ISP_CFG_TUNING_PLTM, cfg_size = 76,
      cfg_get = get_isp_tuning_pltm, cfg_set = set_isp_tuning_pltm\<rparr>,
     \<lparr>cfg_id = HW_ISP_CFG_TUNING_GCA, cfg_size = 28,
      cfg_get = get_isp_tuning_gca, cfg_set = set_isp_tuning_gca\<rparr>]"

lemmas tuning_get_defs =
  get_isp_tuning_flash_def
  get_isp_tuning_flicker_def
  get_isp_tuning_visual_angle_def
  get_isp_tuning_gtm_def
  get_isp_tuning_cfa_def
  get_isp_tuning_ctc_def
  get_isp_tuning_digital_gain_def
  get_isp_tuning_ccm_low_def
  get_isp_tuning_ccm_mid_def
  get_isp_tuning_ccm_high_def
  get_isp_tuning_pltm_def
  get_isp_tuning_gca_def

lemmas tuning_set_defs =
  set_isp_tuning_flash_def
  set_isp_tuning_flicker_def
  set_isp_tuning_visual_angle_def
  set_isp_tuning_gtm_def
  set_isp_tuning_cfa_def
  set_isp_tuning_ctc_def
  set_isp_tuning_digital_gain_def
  set_isp_tuning_ccm_low_def
  set_isp_tuning_ccm_mid_def
  set_isp_tuning_ccm_high_def
  set_isp_tuning_pltm_def
  set_isp_tuning_gca_def

interpretation tuning_group: cfg_group cfg_tuning_items wf_tunning "\<lambda>_ _. True"
proof (unfold_locales, goal_cases)
  case (1 it s c) then show ?case
    by (auto simp: cfg_tuning_items_def tuning_get_defs wf_tunning_def list_all_length wf_rgb2rgb_def)
next
  case (2 it s c) then show ?case
    by (auto simp: cfg_tuning_items_def tuning_set_defs Let_def)
next
  case (3 it s c) then show ?case
    by (simp add: cfg_tuning_items_def, elim disjE)
      (simp_all add: tuning_set_defs wf_tunning_def Let_def wf_rgb2rgb_def list_all_update)
next
  case (4 it s c) then show ?case
    by (auto simp: cfg_tuning_items_def tuning_get_defs tuning_set_defs wf_tunning_def Let_def fuse wire_simps)
next
  case (5 it s c) then show ?case
    by (auto simp: cfg_tuning_items_def tuning_get_defs tuning_set_defs wf_tunning_def Let_def wire_simps layout
        list_all_length wf_rgb2rgb_def)
next
  case (6 it) then show ?case
    by (auto simp: cfg_tuning_items_def upt_rec)
next
  case 7 then show ?case
    by (simp add: cfg_tuning_items_def tuning_get_defs tuning_set_defs Let_def unaffected_def)
qed

end
