(* ===== verification/TuningTables.thy ===== *)
theory TuningTables
  imports CfgItems IspParams
begin

text \<open>
  The group \<open>HW_ISP_CFG_TUNING_TABLES\<close> of \<open>isp_tuning_get_cfg\<close> and \<open>isp_tuning_set_cfg\<close>: the lens
  shading, gamma, linearity, distortion, noise, contrast, sharpness, colour enhancement, lateral
  chromatic aberration and mesh shading tables (the branches of \<open>ISP_VERSION\<close> 522, so neither
  \<open>PLTM_TBL\<close> nor \<open>WDR\<close>). Laid out like the group of theory \<open>TuningBasic\<close>.
\<close>

definition get_isp_tuning_lsc :: "isp_tunning_param \<Rightarrow> byte list \<Rightarrow> byte list" where
  "get_isp_tuning_lsc s c = overlay c (enc32s [ff_mod s, lsc_mode s, lsc_center_x s,
     lsc_center_y s, rolloff_ratio s] @ enc16s (lsc_tbl s @ lsc_trig_cfg s))"

definition set_isp_tuning_lsc :: "isp_tunning_param \<Rightarrow> byte list \<Rightarrow> isp_tunning_param \<times> byte list" where
  "set_isp_tuning_lsc s c = (let v = dec32s (slice c 0 20); h = dec16s (slice c 20 18444) in
     (s\<lparr>ff_mod := v ! 0, lsc_mode := v ! 1, lsc_center_x := v ! 2,
     lsc_center_y := v ! 3, rolloff_ratio := v ! 4, lsc_tbl := slice h 0 9216,
     lsc_trig_cfg := slice h 9216 6\<rparr>, c))"

definition get_isp_tuning_gamma :: "isp_tunning_param \<Rightarrow> byte list \<Rightarrow> byte list" where
  "get_isp_tuning_gamma s c = overlay c (enc32s [gamma_num s] @ enc16s (gamma_tbl_ini s @
     gamma_trig_cfg s))"

definition set_isp_tuning_gamma :: "isp_tunning_param \<Rightarrow> byte list \<Rightarrow> isp_tunning_param \<times> byte list" where
  "set_isp_tuning_gamma s c = (let v = dec32s (slice c 0 4); h = dec16s (slice c 4 30730) in
     (s\<lparr>gamma_num := v ! 0, gamma_tbl_ini := slice h 0 15360,
     gamma_trig_cfg := slice h 15360 5\<rparr>, c))"

definition get_isp_tuning_linearity :: "isp_tunning_param \<Rightarrow> byte list \<Rightarrow> byte list" where
  "get_isp_tuning_linearity s c = overlay c (enc16s (linear_tbl s))"

definition set_isp_tuning_linearity :: "isp_tunning_param \<Rightarrow> byte list \<Rightarrow> isp_tunning_param \<times> byte list" where
  "set_isp_tuning_linearity s c = (let h = dec16s c in
     (s\<lparr>linear_tbl := slice h 0 768\<rparr>, c))"

definition get_isp_tuning_distortion :: "isp_tunning_param \<Rightarrow> byte list \<Rightarrow> byte list" where
  "get_isp_tuning_distortion s c = overlay c (enc16s (disc_tbl s))"

definition set_isp_tuning_distortion :: "isp_tunning_param \<Rightarrow> byte list \<Rightarrow> isp_tunning_param \<times> byte list" where
  "set_isp_tuning_distortion s c = (let h = dec16s c in
     (s\<lparr>disc_tbl := slice h 0 512\<rparr>, c))"

definition get_isp_tuning_bdnf :: "isp_tunning_param \<Rightarrow> byte list \<Rightarrow> byte list" where
  "get_isp_tuning_bdnf s c = overlay c (enc16s (isp_bdnf_th s))"

definition set_isp_tuning_bdnf :: "isp_tunning_param \<Rightarrow> byte list \<Rightarrow> isp_tunning_param \<times> byte list" where
  "set_isp_tuning_bdnf s c = (let h = dec16s c in
     (s\<lparr>isp_bdnf_th := slice h 0 33\<rparr>, c))"

definition get_isp_tuning_tdnf :: "isp_tunning_param \<Rightarrow> byte list \<Rightarrow> byte list" where
  "get_isp_tuning_tdnf s c = overlay c (enc16s (isp_tdnf_th s @ isp_tdnf_ref_noise s) @
     (isp_tdnf_k s @ isp_tdnf_diff s @ isp_d3d_k3d_incre_curve s))"

definition set_isp_tuning_tdnf :: "isp_tunning_param \<Rightarrow> byte list \<Rightarrow> isp_tunning_param \<times> byte list" where
  "set_isp_tuning_tdnf s c = (let h = dec16s (slice c 0 132); b = slice c 132 544 in
     (s\<lparr>isp_tdnf_th := slice h 0 33, isp_tdnf_ref_noise := slice h 33 33,
     isp_tdnf_k := slice b 0 32, isp_tdnf_diff := slice b 32 256,
     isp_d3d_k3d_incre_curve := slice b 288 256\<rparr>, c))"

definition get_isp_tuning_contrast :: "isp_tunning_param \<Rightarrow> byte list \<Rightarrow> byte list" where
  "get_isp_tuning_contrast s c = overlay c (enc16s (isp_contrast_val s @ isp_contrast_lum s
     @ isp_contrat_pe s))"

definition set_isp_tuning_contrast :: "isp_tunning_param \<Rightarrow> byte list \<Rightarrow> isp_tunning_param \<times> byte list" where
  "set_isp_tuning_contrast s c = (let h = dec16s c in
     (s\<lparr>isp_contrast_val := slice h 0 33, isp_contrast_lum := slice h 33 33,
     isp_contrat_pe := slice h 66 128\<rparr>, c))"

definition get_isp_tuning_sharp :: "isp_tunning_param \<Rightarrow> byte list \<Rightarrow> byte list" where
  "get_isp_tuning_sharp s c = overlay c (enc16s (isp_sharp_val s @ isp_sharp_lum s @
     isp_sharp_edge_lum s @ isp_sharp_hfrq_lum s @ isp_sharp_hsv s) @ isp_sharp_s_map s)"

definition set_isp_tuning_sharp :: "isp_tunning_param \<Rightarrow> byte list \<Rightarrow> isp_tunning_param \<times> byte list" where
  "set_isp_tuning_sharp s c = (let h = dec16s (slice c 0 356); b = slice c 356 33 in
     (s\<lparr>isp_sharp_val := slice h 0 33, isp_sharp_lum := slice h 33 33,
     isp_sharp_edge_lum := slice h 66 33, isp_sharp_hfrq_lum := slice h 99 33,
     isp_sharp_hsv := slice h 132 46, isp_sharp_s_map := b\<rparr>, c))"

definition get_isp_tuning_cem :: "isp_tunning_param \<Rightarrow> byte list \<Rightarrow> byte list" where
  "get_isp_tuning_cem s c = overlay c (isp_cem_table s)"

definition set_isp_tuning_cem :: "isp_tunning_param \<Rightarrow> byte list \<Rightarrow> isp_tunning_param \<times> byte list" where
  "set_isp_tuning_cem s c = (s\<lparr>isp_cem_table := c\<rparr>, c)"

definition get_isp_tuning_cem_1 :: "isp_tunning_param \<Rightarrow> byte list \<Rightarrow> byte list" where
  "get_isp_tuning_cem_1 s c = overlay c (isp_cem_table1 s)"

definition set_isp_tuning_cem_1 :: "isp_tunning_param \<Rightarrow> byte list \<Rightarrow> isp_tunning_param \<times> byte list" where
  "set_isp_tuning_cem_1 s c = (s\<lparr>isp_cem_table1 := c\<rparr>, c)"

definition get_isp_tuning_lca_tbl :: "isp_tunning_param \<Rightarrow> byte list \<Rightarrow> byte list" where
  "get_isp_tuning_lca_tbl s c = overlay c (enc16s (lca_pf_satu_lut s) @ enc16s (lca_gf_satu_lut s))"

definition set_isp_tuning_lca_tbl :: "isp_tunning_param \<Rightarrow> byte list \<Rightarrow> isp_tunning_param \<times> byte list" where
  "set_isp_tuning_lca_tbl s c = (s\<lparr>lca_pf_satu_lut := dec16s (slice c 0 66),
     lca_gf_satu_lut := dec16s (slice c 66 66)\<rparr>, c)"

definition get_isp_tuning_msc :: "isp_tunning_param \<Rightarrow> byte list \<Rightarrow> byte list" where
  "get_isp_tuning_msc s c = overlay c (enc32s ([mff_mod s, msc_mode s] @ msc_blw_lut s @
     msc_blh_lut s @ msc_blw_dlt_lut s @ msc_blh_dlt_lut s) @ enc16s (msc_tbl s @
     msc_trig_cfg s))"

definition set_isp_tuning_msc :: "isp_tunning_param \<Rightarrow> byte list \<Rightarrow> isp_tunning_param \<times> byte list" where
  "set_isp_tuning_msc s c = (let v = dec32s (slice c 0 192);
     h = dec16s (slice c 192 34860) in (s\<lparr>mff_mod := v ! 0, msc_mode := v ! 1,
     msc_blw_lut := slice v 2 11, msc_blh_lut := slice v 13 11,
     msc_blw_dlt_lut := slice v 24 12, msc_blh_dlt_lut := slice v 36 12,
     msc_tbl := slice h 0 17424, msc_trig_cfg := slice h 17424 6\<rparr>, c))"

definition cfg_tables_items :: "isp_tunning_param cfg_item list" where
  "cfg_tables_items = [
     \<lparr>cfg_id = HW_ISP_CFG_TUNING_LSC, cfg_size = 18464,
      cfg_get = get_isp_tuning_lsc, cfg_set = set_isp_tuning_lsc\<rparr>,
     \<lparr>cfg_id = HW_ISP_CFG_TUNING_GAMMA, cfg_size = 30736,
      cfg_get = get_isp_tuning_gamma, cfg_set = set_isp_tuning_gamma\<rparr>,
     \<lparr>cfg_id = HW_ISP_CFG_TUNING_LINEARITY, cfg_size = 1536,
      cfg_get = get_isp_tuning_linearity, cfg_set = set_isp_tuning_linearity\<rparr>,
     \<lparr>cfg_id = HW_ISP_CFG_TUNING_DISTORTION, cfg_size = 1024,
      cfg_get = get_isp_tuning_distortion, cfg_set = set_isp_tuning_distortion\<rparr>,
     \<lparr>cfg_id = HW_ISP_CFG_TUNING_BDNF, cfg_size = 66,
      cfg_get = get_isp_tuning_bdnf, cfg_set = set_isp_tuning_bdnf\<rparr>,
     \<lparr>cfg_id = HW_ISP_CFG_TUNING_TDNF, cfg_size = 676,
      cfg_get = get_isp_tuning_tdnf, cfg_set = set_isp_tuning_tdnf\<rparr>,
     \<lparr>cfg_id = HW_ISP_CFG_TUNING_CONTRAST, cfg_size = 388,
      cfg_get = get_isp_tuning_contrast, cfg_set = set_isp_tuning_contrast\<rparr>,
     \<lparr>cfg_id = HW_ISP_CFG_TUNING_SHARP, cfg_size = 390,
      cfg_get = get_isp_tuning_sharp, cfg_set = set_isp_tuning_sharp\<rparr>,
     \<lparr>cfg_id = HW_ISP_CFG_TUNING_CEM, cfg_size = 5888,
      cfg_get = get_isp_tuning_cem, cfg_set = set_isp_tuning_cem\<rparr>,
     \<lparr>cfg_id = HW_ISP_CFG_TUNING_CEM_1, cfg_size = 5888,
      cfg_get = get_isp_tuning_cem_1, cfg_set = set_isp_tuning_cem_1\<rparr>,
     \<lparr>cfg_id = HW_ISP_CFG_TUNING_LCA_TBL, cfg_size = 132,
      cfg_get = get_isp_tuning_lca_tbl, cfg_set = set_isp_tuning_lca_tbl\<rparr>,
     \<lparr>cfg_id = HW_ISP_CFG_TUNING_MSC, cfg_size = 35052,
      cfg_get = get_isp_tuning_msc, cfg_set = set_isp_tuning_msc\<rparr>]"

lemmas tables_get_defs =
  get_isp_tuning_lsc_def
  get_isp_tuning_gamma_def
  get_isp_tuning_linearity_def
  get_isp_tuning_distortion_def
  get_isp_tuning_bdnf_def
  get_isp_tuning_tdnf_def
  get_isp_tuning_contrast_def
  get_isp_tuning_sharp_def
  get_isp_tuning_cem_def
  get_isp_tuning_cem_1_def
  get_isp_tuning_lca_tbl_def
  get_isp_tuning_msc_def

lemmas tables_set_defs =
  set_isp_tuning_lsc_def
  set_isp_tuning_gamma_def
  set_isp_tuning_linearity_def
  set_isp_tuning_distortion_def
  set_isp_tuning_bdnf_def
  set_isp_tuning_tdnf_def
  set_isp_tuning_contrast_def
  set_isp_tuning_sharp_def
  set_isp_tuning_cem_def
  set_isp_tuning_cem_1_def
  set_isp_tuning_lca_tbl_def
  set_isp_tuning_msc_def

interpretation tables_group: cfg_group cfg_tables_items wf_tunning "\<lambda>_ _. True"
proof (unfold_locales, goal_cases)
  case (1 it s c) then show ?case
    by (auto simp: cfg_tables_items_def tables_get_defs wf_tunning_def list_all_length wf_rgb2rgb_def)
next
  case (2 it s c) then show ?case
    by (auto simp: cfg_tables_items_def tables_set_defs Let_def)
next
  case (3 it s c) then show ?case
    by (simp add: cfg_tables_items_def, elim disjE)
      (simp_all add: tables_set_defs wf_tunning_def Let_def wf_rgb2rgb_def list_all_update)
next
  case (4 it s c) then show ?case
    by (auto simp: cfg_tables_items_def tables_get_defs tables_set_defs wf_tunning_def Let_def fuse wire_simps)
next
  case (5 it s c) then show ?case
    by (auto simp: cfg_tables_items_def tables_get_defs tables_set_defs wf_tunning_def Let_def wire_simps layout
        list_all_length wf_rgb2rgb_def)
next
  case (6 it) then show ?case
    by (auto simp: cfg_tables_items_def upt_rec)
next
  case 7 then show ?case
    by (simp add: cfg_tables_items_def tables_get_defs tables_set_defs Let_def unaffected_def)
qed

end
