(* ===== verification/TuningDynamic.thy ===== *)
theory TuningDynamic
  imports CfgItems IspParams
begin

text \<open>
  The group \<open>HW_ISP_CFG_DYNAMIC\<close> of \<open>isp_tuning_get_cfg\<close> and \<open>isp_tuning_set_cfg\<close>: the two mapping
  tables and, per image module, a trigger selector with one row of values for each of the
  \<open>ISP_DYNAMIC_GROUP_COUNT\<close> = 14 light levels. The \<open>for\<close> loops over the rows are \<open>set_rows\<close> (store the
  consecutive rows of the wire array into the rows of the parameters) and \<open>concat\<close> (lay the rows
  out one after the other).
\<close>

section \<open>Rows\<close>

fun set_rows :: "nat \<Rightarrow> ('b list \<Rightarrow> 'a \<Rightarrow> 'a) \<Rightarrow> 'b list \<Rightarrow> 'a list \<Rightarrow> 'a list" where
  "set_rows k f v [] = []"
| "set_rows k f v (d # ds) = f (take k v) d # set_rows k f (drop k v) ds"

fun chunks :: "nat \<Rightarrow> nat \<Rightarrow> 'a list \<Rightarrow> 'a list list" where
  "chunks 0 k v = []"
| "chunks (Suc n) k v = take k v # chunks n k (drop k v)"

lemma length_set_rows [simp]: "length (set_rows k f v ds) = length ds"
  by (induction ds arbitrary: v) auto

lemma set_rows_get:
  assumes "\<And>r d. length r = k \<Longrightarrow> g (f r d) = r" "i + k * length ds \<le> length v"
  shows "concat (map g (set_rows k f (drop i v) ds)) = slice v i (k * length ds)"
  using assms(2)
proof (induction ds arbitrary: i)
  case (Cons d ds)
  then have "concat (map g (set_rows k f (drop (i + k) v) ds)) = slice v (i + k) (k * length ds)"
    by simp
  with Cons.prems show ?case
    by (simp add: assms(1) slice_append [symmetric, of v i k] slice_def [of v i k] add.commute)
qed (simp add: slice_def)

lemma set_rows_self:
  assumes "list_all P ds" "\<And>d. P d \<Longrightarrow> length (g d) = k \<and> f (g d) d = d"
  shows "set_rows k f (concat (map g ds) @ v) ds = ds"
  using assms(1) by (induction ds) (auto simp: assms(2))

lemma set_rows_other:
  "(\<And>r d. h (f r d) = h d) \<Longrightarrow> map h (set_rows k f v ds) = map h ds"
  by (induction ds arbitrary: v) auto

lemma set_rows_wf:
  assumes "\<And>r d. P d \<Longrightarrow> length r = k \<Longrightarrow> P (f r d)" "list_all P ds" "k * length ds \<le> length v"
  shows "list_all P (set_rows k f v ds)"
  using assms(2,3) by (induction ds arbitrary: v) (auto simp: assms(1))

lemma length_rows:
  "list_all P ds \<Longrightarrow> (\<And>d. P d \<Longrightarrow> length (g d) = k) \<Longrightarrow> length (concat (map g ds)) = k * length ds"
  by (induction ds) auto

lemma set_rows_concat:
  "length rs = length ds \<Longrightarrow> list_all (\<lambda>r. length r = k) rs \<Longrightarrow>
   set_rows k f (concat rs) ds = map2 f rs ds"
  by (induction rs ds rule: list_induct2) auto

lemma length_chunks [simp]: "length (chunks n k v) = n"
  by (induction n arbitrary: v) auto

lemma chunks_length: "n * k \<le> length v \<Longrightarrow> list_all (\<lambda>r. length r = k) (chunks n k v)"
  by (induction n arbitrary: v) auto

lemma chunks_concat:
  "list_all (\<lambda>r. length r = k) rs \<Longrightarrow> chunks (length rs) k (concat rs @ v) = rs"
  by (induction rs) auto

lemma map2_get:
  "length rs = length ds \<Longrightarrow> (\<And>r d. r \<in> set rs \<Longrightarrow> g (f r d) = h r) \<Longrightarrow> map g (map2 f rs ds) = map h rs"
  by (induction rs ds rule: list_induct2) auto

lemma map2_self:
  "list_all P ds \<Longrightarrow> (\<And>d. P d \<Longrightarrow> f (g d) d = d) \<Longrightarrow> map2 f (map g ds) ds = ds"
  by (induction ds) auto

section \<open>The blocks\<close>

definition get_isp_dynamic_lum_point :: "isp_dynamic_param \<Rightarrow> byte list \<Rightarrow> byte list" where
  "get_isp_dynamic_lum_point s c = overlay c (enc32s (isp_lum_mapping_point s))"

definition set_isp_dynamic_lum_point :: "isp_dynamic_param \<Rightarrow> byte list \<Rightarrow> isp_dynamic_param \<times> byte list" where
  "set_isp_dynamic_lum_point s c = (s\<lparr>isp_lum_mapping_point := dec32s c\<rparr>, c)"

definition get_isp_dynamic_gain_point :: "isp_dynamic_param \<Rightarrow> byte list \<Rightarrow> byte list" where
  "get_isp_dynamic_gain_point s c = overlay c (enc32s (isp_gain_mapping_point s))"

definition set_isp_dynamic_gain_point :: "isp_dynamic_param \<Rightarrow> byte list \<Rightarrow> isp_dynamic_param \<times> byte list" where
  "set_isp_dynamic_gain_point s c = (s\<lparr>isp_gain_mapping_point := dec32s c\<rparr>,
     c)"

definition get_isp_dynamic_sharp :: "isp_dynamic_param \<Rightarrow> byte list \<Rightarrow> byte list" where
  "get_isp_dynamic_sharp s c = overlay c (enc32s ([sharp_triger (triger s)] @
     concat (map sharp_cfg (isp_dynamic_cfg s))))"

definition set_isp_dynamic_sharp :: "isp_dynamic_param \<Rightarrow> byte list \<Rightarrow> isp_dynamic_param \<times> byte list" where
  "set_isp_dynamic_sharp s c = (let v = dec32s c in
     (s\<lparr>triger := (triger s)\<lparr>sharp_triger := v ! 0\<rparr>,
     isp_dynamic_cfg := set_rows 29 (\<lambda>r d. d\<lparr>sharp_cfg := r\<rparr>)
     (drop 1 v) (isp_dynamic_cfg s)\<rparr>, c))"

definition get_isp_dynamic_contrast :: "isp_dynamic_param \<Rightarrow> byte list \<Rightarrow> byte list" where
  "get_isp_dynamic_contrast s c = overlay c (enc32s ([contrast_triger (triger s)] @
     concat (map contrast_cfg (isp_dynamic_cfg s))))"

definition set_isp_dynamic_contrast :: "isp_dynamic_param \<Rightarrow> byte list \<Rightarrow> isp_dynamic_param \<times> byte list" where
  "set_isp_dynamic_contrast s c = (let v = dec32s c in
     (s\<lparr>triger := (triger s)\<lparr>contrast_triger := v ! 0\<rparr>,
     isp_dynamic_cfg := set_rows 11 (\<lambda>r d. d\<lparr>contrast_cfg := r\<rparr>)
     (drop 1 v) (isp_dynamic_cfg s)\<rparr>, c))"

text \<open>
  The set direction scales each row in place: a ratio of 0 counts as 1, every one of the
  \<open>ISP_DENOISE_MAX\<close> values is multiplied by the ratio in the caller's buffer (a 32-bit product),
  and the scaled values are then copied to the parameters. The get direction always reports the
  ratio 1.
\<close>

definition denoise_row :: "u32 list \<Rightarrow> u32 list" where
  "denoise_row r = (let ratio = if r ! 21 = 0 then 1 else r ! 21 in
     map (\<lambda>x. x * ratio) (take 20 r) @ [r ! 20, ratio])"

definition denoise_scale :: "u32 list \<Rightarrow> u32 list" where
  "denoise_scale v = take 2 v @ concat (map denoise_row (chunks 14 22 (drop 2 v)))"

definition get_isp_dynamic_denoise :: "isp_dynamic_param \<Rightarrow> byte list \<Rightarrow> byte list" where
  "get_isp_dynamic_denoise s c = overlay c (enc32s ([denoise_triger (triger s),
     color_denoise_triger (triger s)] @
     concat (map (\<lambda>d. denoise_cfg d @ [color_denoise d, 1]) (isp_dynamic_cfg s))))"

definition set_isp_dynamic_denoise :: "isp_dynamic_param \<Rightarrow> byte list \<Rightarrow> isp_dynamic_param \<times> byte list" where
  "set_isp_dynamic_denoise s c = (let v = denoise_scale (dec32s c) in
     (s\<lparr>triger := (triger s)\<lparr>denoise_triger := v ! 0, color_denoise_triger := v ! 1\<rparr>,
        isp_dynamic_cfg := set_rows 22 (\<lambda>r d. d\<lparr>denoise_cfg := slice r 0 20, color_denoise := r ! 20\<rparr>)
          (drop 2 v) (isp_dynamic_cfg s)\<rparr>, enc32s v))"

definition get_isp_dynamic_sensor_offset :: "isp_dynamic_param \<Rightarrow> byte list \<Rightarrow> byte list" where
  "get_isp_dynamic_sensor_offset s c = overlay c (enc32s ([sensor_offset_triger (triger s)]
     @ concat (map sensor_offset (isp_dynamic_cfg s))))"

definition set_isp_dynamic_sensor_offset :: "isp_dynamic_param \<Rightarrow> byte list \<Rightarrow> isp_dynamic_param \<times> byte list" where
  "set_isp_dynamic_sensor_offset s c = (let v = dec32s c in
     (s\<lparr>triger := (triger s)\<lparr>sensor_offset_triger := v ! 0\<rparr>,
     isp_dynamic_cfg := set_rows 4 (\<lambda>r d. d\<lparr>sensor_offset := r\<rparr>)
     (drop 1 v) (isp_dynamic_cfg s)\<rparr>, c))"

definition get_isp_dynamic_black_lv :: "isp_dynamic_param \<Rightarrow> byte list \<Rightarrow> byte list" where
  "get_isp_dynamic_black_lv s c = overlay c (enc32s ([black_level_triger (triger s)] @
     concat (map black_level (isp_dynamic_cfg s))))"

definition set_isp_dynamic_black_lv :: "isp_dynamic_param \<Rightarrow> byte list \<Rightarrow> isp_dynamic_param \<times> byte list" where
  "set_isp_dynamic_black_lv s c = (let v = dec32s c in
     (s\<lparr>triger := (triger s)\<lparr>black_level_triger := v ! 0\<rparr>,
     isp_dynamic_cfg := set_rows 4 (\<lambda>r d. d\<lparr>black_level := r\<rparr>)
     (drop 1 v) (isp_dynamic_cfg s)\<rparr>, c))"

definition get_isp_dynamic_dpc :: "isp_dynamic_param \<Rightarrow> byte list \<Rightarrow> byte list" where
  "get_isp_dynamic_dpc s c = overlay c (enc32s ([dpc_triger (triger s)] @
     concat (map dpc_cfg (isp_dynamic_cfg s))))"

definition set_isp_dynamic_dpc :: "isp_dynamic_param \<Rightarrow> byte list \<Rightarrow> isp_dynamic_param \<times> byte list" where
  "set_isp_dynamic_dpc s c = (let v = dec32s c in
     (s\<lparr>triger := (triger s)\<lparr>dpc_triger := v ! 0\<rparr>,
     isp_dynamic_cfg := set_rows 6 (\<lambda>r d. d\<lparr>dpc_cfg := r\<rparr>)
     (drop 1 v) (isp_dynamic_cfg s)\<rparr>, c))"

definition get_isp_dynamic_pltm :: "isp_dynamic_param \<Rightarrow> byte list \<Rightarrow> byte list" where
  "get_isp_dynamic_pltm s c = overlay c (enc32s ([pltm_dynamic_triger (triger s)] @
     concat (map pltm_dynamic_cfg (isp_dynamic_cfg s))))"

definition set_isp_dynamic_pltm :: "isp_dynamic_param \<Rightarrow> byte list \<Rightarrow> isp_dynamic_param \<times> byte list" where
  "set_isp_dynamic_pltm s c = (let v = dec32s c in
     (s\<lparr>triger := (triger s)\<lparr>pltm_dynamic_triger := v ! 0\<rparr>,
     isp_dynamic_cfg := set_rows 4 (\<lambda>r d. d\<lparr>pltm_dynamic_cfg := r\<rparr>)
     (drop 1 v) (isp_dynamic_cfg s)\<rparr>, c))"

definition get_isp_dynamic_defog :: "isp_dynamic_param \<Rightarrow> byte list \<Rightarrow> byte list" where
  "get_isp_dynamic_defog s c = overlay c (enc32s ([defog_value_triger (triger s)] @
     concat (map (\<lambda>d. [defog_value d]) (isp_dynamic_cfg s))))"

definition set_isp_dynamic_defog :: "isp_dynamic_param \<Rightarrow> byte list \<Rightarrow> isp_dynamic_param \<times> byte list" where
  "set_isp_dynamic_defog s c = (let v = dec32s c in
     (s\<lparr>triger := (triger s)\<lparr>defog_value_triger := v ! 0\<rparr>,
     isp_dynamic_cfg := set_rows 1 (\<lambda>r d. d\<lparr>defog_value := r ! 0\<rparr>)
     (drop 1 v) (isp_dynamic_cfg s)\<rparr>, c))"

definition get_isp_dynamic_histogram :: "isp_dynamic_param \<Rightarrow> byte list \<Rightarrow> byte list" where
  "get_isp_dynamic_histogram s c = overlay c (enc32s ([brightness_triger (triger s),
     gcontrast_triger (triger s)] @ concat (map (\<lambda>d. [brightness d, contrast d])
     (isp_dynamic_cfg s))))"

definition set_isp_dynamic_histogram :: "isp_dynamic_param \<Rightarrow> byte list \<Rightarrow> isp_dynamic_param \<times> byte list" where
  "set_isp_dynamic_histogram s c = (let v = dec32s c in
     (s\<lparr>triger := (triger s)\<lparr>brightness_triger := v ! 0,
     gcontrast_triger := v ! 1\<rparr>,
     isp_dynamic_cfg := set_rows 2 (\<lambda>r d. d\<lparr>brightness := r ! 0, contrast := r ! 1\<rparr>)
     (drop 2 v) (isp_dynamic_cfg s)\<rparr>, c))"

definition get_isp_dynamic_saturation :: "isp_dynamic_param \<Rightarrow> byte list \<Rightarrow> byte list" where
  "get_isp_dynamic_saturation s c = overlay c (enc32s ([saturation_triger (triger s)] @
     concat (map (\<lambda>d. [saturation_cb d, saturation_cr d] @ saturation_cfg d)
     (isp_dynamic_cfg s))))"

definition set_isp_dynamic_saturation :: "isp_dynamic_param \<Rightarrow> byte list \<Rightarrow> isp_dynamic_param \<times> byte list" where
  "set_isp_dynamic_saturation s c = (let v = dec32s c in
     (s\<lparr>triger := (triger s)\<lparr>saturation_triger := v ! 0\<rparr>,
     isp_dynamic_cfg := set_rows 9 (\<lambda>r d. d\<lparr>saturation_cb := r ! 0,
     saturation_cr := r ! 1, saturation_cfg := slice r 2 7\<rparr>)
     (drop 1 v) (isp_dynamic_cfg s)\<rparr>, c))"

definition get_isp_dynamic_cem :: "isp_dynamic_param \<Rightarrow> byte list \<Rightarrow> byte list" where
  "get_isp_dynamic_cem s c = overlay c (enc32s ([cem_ratio_triger (triger s)] @
     concat (map (\<lambda>d. [cem_ratio d]) (isp_dynamic_cfg s))))"

definition set_isp_dynamic_cem :: "isp_dynamic_param \<Rightarrow> byte list \<Rightarrow> isp_dynamic_param \<times> byte list" where
  "set_isp_dynamic_cem s c = (let v = dec32s c in
     (s\<lparr>triger := (triger s)\<lparr>cem_ratio_triger := v ! 0\<rparr>,
     isp_dynamic_cfg := set_rows 1 (\<lambda>r d. d\<lparr>cem_ratio := r ! 0\<rparr>)
     (drop 1 v) (isp_dynamic_cfg s)\<rparr>, c))"

definition get_isp_dynamic_tdf :: "isp_dynamic_param \<Rightarrow> byte list \<Rightarrow> byte list" where
  "get_isp_dynamic_tdf s c = overlay c (enc32s ([tdf_triger (triger s)] @
     concat (map tdf_cfg (isp_dynamic_cfg s))))"

definition set_isp_dynamic_tdf :: "isp_dynamic_param \<Rightarrow> byte list \<Rightarrow> isp_dynamic_param \<times> byte list" where
  "set_isp_dynamic_tdf s c = (let v = dec32s c in
     (s\<lparr>triger := (triger s)\<lparr>tdf_triger := v ! 0\<rparr>,
     isp_dynamic_cfg := set_rows 22 (\<lambda>r d. d\<lparr>tdf_cfg := r\<rparr>)
     (drop 1 v) (isp_dynamic_cfg s)\<rparr>, c))"

definition get_isp_dynamic_ae :: "isp_dynamic_param \<Rightarrow> byte list \<Rightarrow> byte list" where
  "get_isp_dynamic_ae s c = overlay c (enc32s ([ae_cfg_triger (triger s)] @
     concat (map ae_cfg (isp_dynamic_cfg s))))"

definition set_isp_dynamic_ae :: "isp_dynamic_param \<Rightarrow> byte list \<Rightarrow> isp_dynamic_param \<times> byte list" where
  "set_isp_dynamic_ae s c = (let v = dec32s c in
     (s\<lparr>triger := (triger s)\<lparr>ae_cfg_triger := v ! 0\<rparr>,
     isp_dynamic_cfg := set_rows 14 (\<lambda>r d. d\<lparr>ae_cfg := r\<rparr>)
     (drop 1 v) (isp_dynamic_cfg s)\<rparr>, c))"

definition get_isp_dynamic_gtm :: "isp_dynamic_param \<Rightarrow> byte list \<Rightarrow> byte list" where
  "get_isp_dynamic_gtm s c = overlay c (enc32s ([gtm_cfg_triger (triger s)] @
     concat (map gtm_cfg (isp_dynamic_cfg s))))"

definition set_isp_dynamic_gtm :: "isp_dynamic_param \<Rightarrow> byte list \<Rightarrow> isp_dynamic_param \<times> byte list" where
  "set_isp_dynamic_gtm s c = (let v = dec32s c in
     (s\<lparr>triger := (triger s)\<lparr>gtm_cfg_triger := v ! 0\<rparr>,
     isp_dynamic_cfg := set_rows 9 (\<lambda>r d. d\<lparr>gtm_cfg := r\<rparr>)
     (drop 1 v) (isp_dynamic_cfg s)\<rparr>, c))"

definition get_isp_dynamic_lca :: "isp_dynamic_param \<Rightarrow> byte list \<Rightarrow> byte list" where
  "get_isp_dynamic_lca s c = overlay c (enc32s ([lca_cfg_triger (triger s)] @
     concat (map lca_cfg (isp_dynamic_cfg s))))"

definition set_isp_dynamic_lca :: "isp_dynamic_param \<Rightarrow> byte list \<Rightarrow> isp_dynamic_param \<times> byte list" where
  "set_isp_dynamic_lca s c = (let v = dec32s c in
     (s\<lparr>triger := (triger s)\<lparr>lca_cfg_triger := v ! 0\<rparr>,
     isp_dynamic_cfg := set_rows 11 (\<lambda>r d. d\<lparr>lca_cfg := r\<rparr>)
     (drop 1 v) (isp_dynamic_cfg s)\<rparr>, c))"

definition cfg_dynamic_items :: "isp_dynamic_param cfg_item list" where
  "cfg_dynamic_items = [
     \<lparr>cfg_id = HW_ISP_CFG_DYNAMIC_LUM_POINT, cfg_size = 56,
      cfg_get = get_isp_dynamic_lum_point, cfg_set = set_isp_dynamic_lum_point\<rparr>,
     \<lparr>cfg_id = HW_ISP_CFG_DYNAMIC_GAIN_POINT, cfg_size = 56,
      cfg_get = get_isp_dynamic_gain_point, cfg_set = set_isp_dynamic_gain_point\<rparr>,
     \<lparr>cfg_id = HW_ISP_CFG_DYNAMIC_SHARP, cfg_size = 1628,
      cfg_get = get_isp_dynamic_sharp, cfg_set = set_isp_dynamic_sharp\<rparr>,
     \<lparr>cfg_id = HW_ISP_CFG_DYNAMIC_CONTRAST, cfg_size = 620,
      cfg_get = get_isp_dynamic_contrast, cfg_set = set_isp_dynamic_contrast\<rparr>,
     \<lparr>cfg_id = HW_ISP_CFG_DYNAMIC_DENOISE, cfg_size = 1240,
      cfg_get = get_isp_dynamic_denoise, cfg_set = set_isp_dynamic_denoise\<rparr>,
     \<lparr>cfg_id = HW_ISP_CFG_DYNAMIC_SENSOR_OFFSET, cfg_size = 228,
      cfg_get = get_isp_dynamic_sensor_offset, cfg_set = set_isp_dynamic_sensor_offset\<rparr>,
     \<lparr>cfg_id = HW_ISP_CFG_DYNAMIC_BLACK_LV, cfg_size = 228,
      cfg_get = get_isp_dynamic_black_lv, cfg_set = set_isp_dynamic_black_lv\<rparr>,
     \<lparr>cfg_id = HW_ISP_CFG_DYNAMIC_DPC, cfg_size = 340,
      cfg_get = get_isp_dynamic_dpc, cfg_set = set_isp_dynamic_dpc\<rparr>,
     \<lparr>cfg_id = HW_ISP_CFG_DYNAMIC_PLTM, cfg_size = 228,
      cfg_get = get_isp_dynamic_pltm, cfg_set = set_isp_dynamic_pltm\<rparr>,
     \<lparr>cfg_id = HW_ISP_CFG_DYNAMIC_DEFOG, cfg_size = 60,
      cfg_get = get_isp_dynamic_defog, cfg_set = set_isp_dynamic_defog\<rparr>,
     \<lparr>cfg_id = HW_ISP_CFG_DYNAMIC_HISTOGRAM, cfg_size = 120,
      cfg_get = get_isp_dynamic_histogram, cfg_set = set_isp_dynamic_histogram\<rparr>,
     \<lparr>cfg_id = HW_ISP_CFG_DYNAMIC_SATURATION, cfg_size = 508,
      cfg_get = get_isp_dynamic_saturation, cfg_set = set_isp_dynamic_saturation\<rparr>,
     \<lparr>cfg_id = HW_ISP_CFG_DYNAMIC_CEM, cfg_size = 60,
      cfg_get = get_isp_dynamic_cem, cfg_set = set_isp_dynamic_cem\<rparr>,
     \<lparr>cfg_id = HW_ISP_CFG_DYNAMIC_TDF, cfg_size = 1236,
      cfg_get = get_isp_dynamic_tdf, cfg_set = set_isp_dynamic_tdf\<rparr>,
     \<lparr>cfg_id = HW_ISP_CFG_DYNAMIC_AE, cfg_size = 788,
      cfg_get = get_isp_dynamic_ae, cfg_set = set_isp_dynamic_ae\<rparr>,
     \<lparr>cfg_id = HW_ISP_CFG_DYNAMIC_GTM, cfg_size = 508,
      cfg_get = get_isp_dynamic_gtm, cfg_set = set_isp_dynamic_gtm\<rparr>,
     \<lparr>cfg_id = HW_ISP_CFG_DYNAMIC_LCA, cfg_size = 620,
      cfg_get = get_isp_dynamic_lca, cfg_set = set_isp_dynamic_lca\<rparr>]"

lemmas dynamic_get_defs =
  get_isp_dynamic_lum_point_def
  get_isp_dynamic_gain_point_def
  get_isp_dynamic_sharp_def
  get_isp_dynamic_contrast_def
  get_isp_dynamic_denoise_def
  get_isp_dynamic_sensor_offset_def
  get_isp_dynamic_black_lv_def
  get_isp_dynamic_dpc_def
  get_isp_dynamic_pltm_def
  get_isp_dynamic_defog_def
  get_isp_dynamic_histogram_def
  get_isp_dynamic_saturation_def
  get_isp_dynamic_cem_def
  get_isp_dynamic_tdf_def
  get_isp_dynamic_ae_def
  get_isp_dynamic_gtm_def
  get_isp_dynamic_lca_def

lemmas dynamic_set_defs =
  set_isp_dynamic_lum_point_def
  set_isp_dynamic_gain_point_def
  set_isp_dynamic_sharp_def
  set_isp_dynamic_contrast_def
  set_isp_dynamic_denoise_def
  set_isp_dynamic_sensor_offset_def
  set_isp_dynamic_black_lv_def
  set_isp_dynamic_dpc_def
  set_isp_dynamic_pltm_def
  set_isp_dynamic_defog_def
  set_isp_dynamic_histogram_def
  set_isp_dynamic_saturation_def
  set_isp_dynamic_cem_def
  set_isp_dynamic_tdf_def
  set_isp_dynamic_ae_def
  set_isp_dynamic_gtm_def
  set_isp_dynamic_lca_def

section \<open>What the blocks promise\<close>

lemma wf_dyn_cfg_lengths:
  assumes "wf_dyn_cfg d"
  shows
    "length (sharp_cfg d) = 29"
    "length (contrast_cfg d) = 11"
    "length (denoise_cfg d) = 20"
    "length (sensor_offset d) = 4"
    "length (black_level d) = 4"
    "length (dpc_cfg d) = 6"
    "length (pltm_dynamic_cfg d) = 4"
    "length (saturation_cfg d) = 7"
    "length (tdf_cfg d) = 22"
    "length (ae_cfg d) = 14"
    "length (gtm_cfg d) = 9"
    "length (lca_cfg d) = 11"
  using assms by (simp_all add: wf_dyn_cfg_def)

text \<open>The denoise rows: their shape, and what is read back after they were stored.\<close>

definition denoise_report :: "u32 list \<Rightarrow> u32 list" where
  "denoise_report r = slice (denoise_row r) 0 21 @ [1]"

lemma length_denoise_row [simp]: "20 \<le> length r \<Longrightarrow> length (denoise_row r) = 22"
  by (simp add: denoise_row_def Let_def)

lemma denoise_row_one: "length r = 22 \<Longrightarrow> r ! 21 = 1 \<Longrightarrow> denoise_row r = r"
proof -
  assume "length r = 22" "r ! 21 = 1"
  then have "[r ! 20, 1] = drop 20 r"
    by (simp add: list_eq_iff_nth_eq less_Suc_eq nth_Cons')
  with \<open>r ! 21 = 1\<close> show ?thesis
    by (simp add: denoise_row_def)
qed

lemma denoise_rows_length:
  "length v = 310 \<Longrightarrow> list_all (\<lambda>r. length r = 22) (map denoise_row (chunks 14 22 (drop 2 v)))"
  using chunks_length [of 14 22 "drop 2 v"] by (simp add: list_all_iff)

lemma length_denoise_scale [simp]: "length v = 310 \<Longrightarrow> length (denoise_scale v) = 310"
  using length_rows [of "\<lambda>r. length r = 22" "map denoise_row (chunks 14 22 (drop 2 v))" id 22]
    denoise_rows_length [of v]
  by (simp add: denoise_scale_def)

lemma denoise_scale_nth [simp]: "length v = 310 \<Longrightarrow> i < 2 \<Longrightarrow> denoise_scale v ! i = v ! i"
  by (simp add: denoise_scale_def nth_append)

lemma denoise_set_rows:
  assumes "length v = 310" "length ds = 14"
  shows "set_rows 22 f (drop 2 (denoise_scale v)) ds = map2 f (map denoise_row (chunks 14 22 (drop 2 v))) ds"
  using set_rows_concat [OF _ denoise_rows_length [OF assms(1)], of ds f] assms
  by (simp add: denoise_scale_def)

lemma get_set_isp_dynamic_denoise:
  assumes "wf_dynamic s" "length c = 1240"
  shows "get_isp_dynamic_denoise (fst (set_isp_dynamic_denoise s c)) c' = overlay c' (enc32s
    (slice (dec32s c) 0 2 @ concat (map denoise_report (chunks 14 22 (drop 2 (dec32s c))))))"
proof -
  let ?v = "dec32s c" let ?rs = "map denoise_row (chunks 14 22 (drop 2 ?v))"
  let ?f = "\<lambda>r d. d\<lparr>denoise_cfg := slice r 0 20, color_denoise := r ! 20\<rparr>"
  have lv: "length ?v = 310" using assms by simp
  have row: "(\<lambda>d. denoise_cfg d @ [color_denoise d, 1]) (?f r d) = slice r 0 21 @ [1]"
    if "r \<in> set ?rs" for r d
  proof -
    have "length r = 22" using denoise_rows_length [OF lv] that by (auto simp: list_all_iff)
    then show ?thesis by (simp add: slice_def take_Suc_conv_app_nth numeral_eq_Suc)
  qed
  have "map (\<lambda>d. denoise_cfg d @ [color_denoise d, 1]) (map2 ?f ?rs (isp_dynamic_cfg s)) =
    map (\<lambda>r. slice r 0 21 @ [1]) ?rs"
    by (rule map2_get) (use assms row in \<open>simp_all add: wf_dynamic_def\<close>)
  moreover have "isp_dynamic_cfg (fst (set_isp_dynamic_denoise s c)) = map2 ?f ?rs (isp_dynamic_cfg s)"
    using denoise_set_rows [OF lv, of "isp_dynamic_cfg s"] assms unfolding set_isp_dynamic_denoise_def Let_def by (simp add: wf_dynamic_def del: map_map)
  moreover have "slice ?v 0 2 = [?v ! 0, ?v ! 1]"
    using lv by (simp add: fuse numeral_2_eq_2)
  ultimately show ?thesis
    using lv by (simp add: get_isp_dynamic_denoise_def set_isp_dynamic_denoise_def Let_def
        denoise_report_def [abs_def] comp_def)
qed

text \<open>A stored block reads back as the buffer was left exactly when every ratio was 0 or 1.\<close>

definition dynamic_ok :: "u32 \<Rightarrow> byte list \<Rightarrow> bool" where
  "dynamic_ok i c \<longleftrightarrow> (i = HW_ISP_CFG_DYNAMIC_DENOISE \<longrightarrow>
     list_all (\<lambda>r. r ! 21 = 0 \<or> r ! 21 = 1) (chunks 14 22 (drop 2 (dec32s c))))"

lemma denoise_report_row:
  assumes "length r = 22" "r ! 21 = 0 \<or> r ! 21 = 1"
  shows "denoise_report r = denoise_row r"
proof -
  have "length (map ((*) 1) (take 20 r)) = 20" using assms by simp
  with assms show ?thesis
    by (auto simp: denoise_report_def denoise_row_def slice_def take_Cons')
qed

lemma denoise_put_get:
  assumes "wf_dynamic s" "length c = 1240" "dynamic_ok HW_ISP_CFG_DYNAMIC_DENOISE c"
  shows "get_isp_dynamic_denoise (fst (set_isp_dynamic_denoise s c)) (snd (set_isp_dynamic_denoise s c)) =
    snd (set_isp_dynamic_denoise s c)"
proof -
  let ?rs = "chunks 14 22 (drop 2 (dec32s c))"
  have "list_all (\<lambda>r. length r = 22) ?rs" using assms(2) by (simp add: chunks_length)
  then have rep: "map denoise_report ?rs = map denoise_row ?rs"
    using assms(3) by (auto simp: dynamic_ok_def list_all_iff denoise_report_row)
  show ?thesis
    unfolding get_set_isp_dynamic_denoise [OF assms(1,2)] rep
    by (simp add: set_isp_dynamic_denoise_def Let_def denoise_scale_def slice_def)
qed

lemma denoise_get_put:
  assumes "wf_dynamic s" "length c = 1240"
  shows "set_isp_dynamic_denoise s (get_isp_dynamic_denoise s c) = (s, get_isp_dynamic_denoise s c)"
proof -
  let ?ds = "isp_dynamic_cfg s" let ?g = "\<lambda>d. denoise_cfg d @ [color_denoise d, 1]"
  let ?v = "[denoise_triger (triger s), color_denoise_triger (triger s)] @ concat (map ?g ?ds)"
  have ds: "length ?ds = 14" "list_all wf_dyn_cfg ?ds" using assms by (simp_all add: wf_dynamic_def)
  have row: "list_all (\<lambda>r. length r = 22) (map ?g ?ds)"
    using ds(2) by (auto simp: list_all_iff wf_dyn_cfg_def)
  have len: "length ?v = 310"
    using length_rows [OF ds(2), of ?g 22] ds(1) by (simp add: wf_dyn_cfg_def)
  have ch: "chunks 14 22 (drop 2 ?v) = map ?g ?ds"
    using chunks_concat [OF row, of "[]"] ds(1) by simp
  have id: "map denoise_row (map ?g ?ds) = map ?g ?ds"
    using ds(2) by (auto simp: list_all_iff wf_dyn_cfg_def denoise_row_one nth_append)
  have sc: "denoise_scale ?v = ?v"
    unfolding denoise_scale_def ch id by simp
  have get: "get_isp_dynamic_denoise s c = enc32s ?v"
    unfolding get_isp_dynamic_denoise_def using len assms(2) by (intro overlay_full) simp
  have "set_rows 22 (\<lambda>r d. d\<lparr>denoise_cfg := slice r 0 20, color_denoise := r ! 20\<rparr>)
      (drop 2 ?v) ?ds = ?ds"
    using set_rows_self [OF ds(2), of ?g 22 _ "[]"]
    by (simp add: wf_dyn_cfg_def layout nth_append)
  then show ?thesis
    unfolding get set_isp_dynamic_denoise_def Let_def dec32s_enc32s sc by simp
qed

lemma denoise_set_wf:
  assumes "wf_dynamic s" "length c = 1240"
  shows "wf_dynamic (fst (set_isp_dynamic_denoise s c))"
  using assms set_rows_wf [of wf_dyn_cfg 22
      "\<lambda>r d. d\<lparr>denoise_cfg := slice r 0 20, color_denoise := r ! 20\<rparr>" "isp_dynamic_cfg s"
      "drop 2 (denoise_scale (dec32s c))"]
  by (simp add: wf_dynamic_def set_isp_dynamic_denoise_def Let_def wf_dyn_cfg_def)

lemma denoise_lengths:
  "length c = 1240 \<Longrightarrow> length (snd (set_isp_dynamic_denoise s c)) = 1240"
  by (simp add: set_isp_dynamic_denoise_def Let_def)

lemmas dyn_set_wf = set_rows_wf [where P = wf_dyn_cfg]
lemmas dyn_set_self = set_rows_self [where P = wf_dyn_cfg]

lemma dyn_length_rows:
  assumes "list_all wf_dyn_cfg ds"
  shows
    "length (concat (map sharp_cfg ds)) = 29 * length ds"
    "length (concat (map contrast_cfg ds)) = 11 * length ds"
    "length (concat (map sensor_offset ds)) = 4 * length ds"
    "length (concat (map black_level ds)) = 4 * length ds"
    "length (concat (map dpc_cfg ds)) = 6 * length ds"
    "length (concat (map pltm_dynamic_cfg ds)) = 4 * length ds"
    "length (concat (map tdf_cfg ds)) = 22 * length ds"
    "length (concat (map ae_cfg ds)) = 14 * length ds"
    "length (concat (map gtm_cfg ds)) = 9 * length ds"
    "length (concat (map lca_cfg ds)) = 11 * length ds"
    "length (concat (map (\<lambda>d. denoise_cfg d @ [color_denoise d, 1]) ds)) = 22 * length ds"
    "length (concat (map (\<lambda>d. [brightness d, contrast d]) ds)) = 2 * length ds"
    "length (concat (map (\<lambda>d. saturation_cb d # saturation_cr d # saturation_cfg d) ds)) = 9 * length ds"
  by (rule length_rows [OF assms]; simp add: wf_dyn_cfg_def)+

interpretation dynamic_group: cfg_group cfg_dynamic_items wf_dynamic dynamic_ok
proof (unfold_locales, goal_cases)
  case (1 it s c) then show ?case
    by (simp add: cfg_dynamic_items_def, elim disjE)
      (simp_all add: dynamic_get_defs wf_dynamic_def wf_dyn_cfg_def dyn_length_rows)
next
  case (2 it s c) then show ?case
    by (simp add: cfg_dynamic_items_def, elim disjE)
      (simp_all add: denoise_lengths, simp_all add: dynamic_set_defs Let_def)
next
  case (3 it s c) then show ?case
    by (simp add: cfg_dynamic_items_def, elim disjE)
      (simp_all add: denoise_set_wf,
       auto simp: dynamic_set_defs wf_dynamic_def Let_def wf_dyn_cfg_def intro!: dyn_set_wf)
next
  case (4 it s c) then show ?case
    by (simp add: cfg_dynamic_items_def, elim disjE)
      (simp_all add: denoise_put_get,
       simp_all add: dynamic_get_defs dynamic_set_defs wf_dynamic_def Let_def set_rows_get fuse
         layout wire_simps del: concat_map_singleton)
next
  case (5 it s c) then show ?case
    by (simp add: cfg_dynamic_items_def, elim disjE)
      (simp_all add: denoise_get_put,
       simp_all add: dynamic_get_defs dynamic_set_defs wf_dynamic_def Let_def dyn_set_self
         wf_dyn_cfg_lengths layout wire_simps del: concat_map_singleton)
next
  case (6 it) then show ?case
    by (auto simp: cfg_dynamic_items_def upt_rec)
next
  case 7 then show ?case
    by (simp add: cfg_dynamic_items_def dynamic_get_defs dynamic_set_defs Let_def set_rows_other
        unaffected_def)
qed

end
