(* ===== verification/IspTuning.thy ===== *)
theory IspTuning
  imports Tuning3A TuningBasic TuningTables TuningDynamic
begin

text \<open>
  \<open>isp_tuning.c\<close>: the tuning object of an ISP device and its operations. The device holds two
  pointers, \<open>isp->ctx\<close> (to the static context object of the device, or \<open>NULL\<close>) and \<open>isp->tuning\<close>;
  the tuning object holds its own context pointer and the parameters. The context object is the
  configuration copy \<open>isp_ini_cfg\<close> the image pipeline runs from, and the rest of
  \<open>struct isp_lib_context\<close>, kept abstract: what \<open>isp_ctx_config_init\<close> and \<open>isp_ctx_config_update\<close>
  compute in it (with the closed algorithm libraries) is the parameter \<open>config_fn\<close> of the operations
  that call them.

  A request whose blocks would read or write past the end of the caller's buffer is \<open>None\<close>.
\<close>

section \<open>State\<close>

record 'm isp_lib_context =
  isp_ini_cfg :: isp_param_config
  ctx_rest :: 'm

record isp_tuning =
  tuning_ctx :: bool \<comment> \<open>\<open>tuning->ctx != NULL\<close>\<close>
  params :: isp_param_config
  frame_count :: u32
  pix_max :: u32

record 'm hw_isp_device =
  ctx_object :: "'m isp_lib_context"
  dev_ctx :: bool \<comment> \<open>\<open>isp->ctx != NULL\<close>\<close>
  dev_tuning :: "isp_tuning option"

section \<open>Operations\<close>

definition isp_dev_get_tuning :: "'m hw_isp_device \<Rightarrow> isp_tuning option" where
  "isp_dev_get_tuning isp = dev_tuning isp"

definition isp_dev_banding_tuning :: "'m hw_isp_device \<Rightarrow> isp_tuning \<Rightarrow> 'm hw_isp_device" where
  "isp_dev_banding_tuning isp t = isp\<lparr>dev_tuning := Some t\<rparr>"

definition isp_dev_unbanding_tuning :: "'m hw_isp_device \<Rightarrow> 'm hw_isp_device" where
  "isp_dev_unbanding_tuning isp = isp\<lparr>dev_tuning := None\<rparr>"

definition isp_dev_banding_ctx :: "'m hw_isp_device \<Rightarrow> 'm hw_isp_device" where
  "isp_dev_banding_ctx isp = isp\<lparr>dev_ctx := True\<rparr>"

definition isp_dev_unbanding_ctx :: "'m hw_isp_device \<Rightarrow> 'm hw_isp_device" where
  "isp_dev_unbanding_ctx isp = isp\<lparr>dev_ctx := False\<rparr>"

definition isp_dev_get_ctx :: "'m hw_isp_device \<Rightarrow> bool" where
  "isp_dev_get_ctx isp = dev_ctx isp"

definition isp_tuning_update ::
  "('m isp_lib_context \<Rightarrow> 'm isp_lib_context) \<Rightarrow> 'm hw_isp_device \<Rightarrow> int \<times> 'm hw_isp_device" where
  "isp_tuning_update config_fn isp =
     (case isp_dev_get_tuning isp of
        None \<Rightarrow> (- 1, isp)
      | Some t \<Rightarrow>
          if \<not> tuning_ctx t then (- 1, isp)
          else (0, isp\<lparr>ctx_object := config_fn ((ctx_object isp)\<lparr>isp_ini_cfg := params t\<rparr>)\<rparr>))"

definition isp_tuning_reset ::
  "('m isp_lib_context \<Rightarrow> 'm isp_lib_context) \<Rightarrow> 'm hw_isp_device \<Rightarrow> isp_param_config \<Rightarrow>
   int \<times> 'm hw_isp_device" where
  "isp_tuning_reset config_fn isp param =
     (case isp_dev_get_tuning isp of
        None \<Rightarrow> (- 1, isp)
      | Some t \<Rightarrow>
          if \<not> tuning_ctx t then (- 1, isp)
          else (0, isp\<lparr>dev_tuning := Some (t\<lparr>params := param\<rparr>),
                       ctx_object := config_fn (ctx_object isp)\<rparr>))"

text \<open>\<open>malloc_ok\<close> is whether \<open>malloc\<close> returned a block; the result is whether a pointer is returned.\<close>

definition isp_tuning_init ::
  "('m isp_lib_context \<Rightarrow> 'm isp_lib_context) \<Rightarrow> bool \<Rightarrow> 'm hw_isp_device \<Rightarrow> isp_param_config \<Rightarrow>
   bool \<times> 'm hw_isp_device" where
  "isp_tuning_init config_fn malloc_ok isp ps =
     (if \<not> malloc_ok then (False, isp)
      else if \<not> isp_dev_get_ctx isp then (False, isp)
      else (True, isp_dev_banding_tuning (isp\<lparr>ctx_object := config_fn (ctx_object isp)\<rparr>)
              \<lparr>tuning_ctx = True, params = ps, frame_count = 0, pix_max = 0\<rparr>))"

definition isp_tuning_exit :: "'m hw_isp_device \<Rightarrow> 'm hw_isp_device" where
  "isp_tuning_exit isp =
     (case isp_dev_get_tuning isp of None \<Rightarrow> isp | Some t \<Rightarrow> isp_dev_unbanding_tuning isp)"

text \<open>The \<open>switch (group_id)\<close> of the two functions.\<close>

definition get_group :: "byte \<Rightarrow> u32 \<Rightarrow> isp_param_config \<Rightarrow> byte list \<Rightarrow> (int \<times> byte list) option" where
  "get_group group_id cfg_ids p buf =
     (if group_id = HW_ISP_CFG_TEST then
        map_option (map_prod int id) (get_items cfg_test_items cfg_ids (isp_test_settings p) buf)
      else if group_id = HW_ISP_CFG_3A then
        map_option (map_prod int id) (get_items cfg_3a_items cfg_ids (isp_3a_settings p) buf)
      else if group_id = HW_ISP_CFG_TUNING then
        map_option (map_prod int id) (get_items cfg_tuning_items cfg_ids (isp_tunning_settings p) buf)
      else if group_id = HW_ISP_CFG_TUNING_TABLES then
        map_option (map_prod int id) (get_items cfg_tables_items cfg_ids (isp_tunning_settings p) buf)
      else if group_id = HW_ISP_CFG_DYNAMIC then
        map_option (map_prod int id) (get_items cfg_dynamic_items cfg_ids (isp_iso_settings p) buf)
      else Some (AW_ERR_VI_INVALID_PARA, buf))"

definition set_group ::
  "byte \<Rightarrow> u32 \<Rightarrow> isp_param_config \<Rightarrow> byte list \<Rightarrow> (int \<times> isp_param_config \<times> byte list) option" where
  "set_group group_id cfg_ids p buf =
     (if group_id = HW_ISP_CFG_TEST then
        map_option (\<lambda>(s, n, b). (int n, p\<lparr>isp_test_settings := s\<rparr>, b))
          (set_items cfg_test_items cfg_ids (isp_test_settings p) buf)
      else if group_id = HW_ISP_CFG_3A then
        map_option (\<lambda>(s, n, b). (int n, p\<lparr>isp_3a_settings := s\<rparr>, b))
          (set_items cfg_3a_items cfg_ids (isp_3a_settings p) buf)
      else if group_id = HW_ISP_CFG_TUNING then
        map_option (\<lambda>(s, n, b). (int n, p\<lparr>isp_tunning_settings := s\<rparr>, b))
          (set_items cfg_tuning_items cfg_ids (isp_tunning_settings p) buf)
      else if group_id = HW_ISP_CFG_TUNING_TABLES then
        map_option (\<lambda>(s, n, b). (int n, p\<lparr>isp_tunning_settings := s\<rparr>, b))
          (set_items cfg_tables_items cfg_ids (isp_tunning_settings p) buf)
      else if group_id = HW_ISP_CFG_DYNAMIC then
        map_option (\<lambda>(s, n, b). (int n, p\<lparr>isp_iso_settings := s\<rparr>, b))
          (set_items cfg_dynamic_items cfg_ids (isp_iso_settings p) buf)
      else Some (AW_ERR_VI_INVALID_PARA, p, buf))"

definition isp_tuning_get_cfg ::
  "'m hw_isp_device option \<Rightarrow> byte \<Rightarrow> u32 \<Rightarrow> byte list option \<Rightarrow> (int \<times> byte list option) option" where
  "isp_tuning_get_cfg isp group_id cfg_ids cfg_data =
     (case (isp, cfg_data) of
        (Some dev, Some buf) \<Rightarrow>
          (case isp_dev_get_tuning dev of
             None \<Rightarrow> Some (AW_ERR_VI_INVALID_NULL_PTR, cfg_data)
           | Some t \<Rightarrow> map_option (map_prod id Some) (get_group group_id cfg_ids (params t) buf))
      | _ \<Rightarrow> Some (AW_ERR_VI_INVALID_PARA, cfg_data))"

definition isp_tuning_set_cfg ::
  "'m hw_isp_device option \<Rightarrow> byte \<Rightarrow> u32 \<Rightarrow> byte list option \<Rightarrow>
   (int \<times> 'm hw_isp_device option \<times> byte list option) option" where
  "isp_tuning_set_cfg isp group_id cfg_ids cfg_data =
     (case (isp, cfg_data) of
        (Some dev, Some buf) \<Rightarrow>
          (case isp_dev_get_tuning dev of
             None \<Rightarrow> Some (AW_ERR_VI_INVALID_NULL_PTR, isp, cfg_data)
           | Some t \<Rightarrow>
               if \<not> tuning_ctx t then Some (AW_ERR_VI_INVALID_NULL_PTR, isp, cfg_data)
               else map_option (\<lambda>(r, p, b). (r, Some (dev\<lparr>dev_tuning := Some (t\<lparr>params := p\<rparr>)\<rparr>), Some b))
                      (set_group group_id cfg_ids (params t) buf))
      | _ \<Rightarrow> Some (AW_ERR_VI_INVALID_PARA, isp, cfg_data))"

section \<open>What a request covers\<close>

text \<open>
  \<open>group_size\<close> is the number of bytes a request covers: the sum of the wire structs of the selected
  items. \<open>group_ok\<close> is the condition of the round trip: a denoise block carries ratios 0 or 1 only.
\<close>

definition group_size :: "byte \<Rightarrow> u32 \<Rightarrow> nat" where
  "group_size group_id cfg_ids =
     (if group_id = HW_ISP_CFG_TEST then items_size cfg_test_items cfg_ids
      else if group_id = HW_ISP_CFG_3A then items_size cfg_3a_items cfg_ids
      else if group_id = HW_ISP_CFG_TUNING then items_size cfg_tuning_items cfg_ids
      else if group_id = HW_ISP_CFG_TUNING_TABLES then items_size cfg_tables_items cfg_ids
      else if group_id = HW_ISP_CFG_DYNAMIC then items_size cfg_dynamic_items cfg_ids
      else 0)"

definition known_group :: "byte \<Rightarrow> bool" where
  "known_group g \<longleftrightarrow> g \<in> {HW_ISP_CFG_TEST, HW_ISP_CFG_3A, HW_ISP_CFG_TUNING,
     HW_ISP_CFG_TUNING_TABLES, HW_ISP_CFG_DYNAMIC}"

definition group_ok :: "byte \<Rightarrow> u32 \<Rightarrow> byte list \<Rightarrow> bool" where
  "group_ok group_id cfg_ids buf \<longleftrightarrow>
     (group_id = HW_ISP_CFG_DYNAMIC \<longrightarrow> items_all dynamic_ok cfg_dynamic_items cfg_ids buf)"

text \<open>The return value of a request that stays inside the buffer.\<close>

definition group_ret :: "byte \<Rightarrow> u32 \<Rightarrow> int" where
  "group_ret g ids = (if known_group g then int (group_size g ids) else AW_ERR_VI_INVALID_PARA)"

lemmas group_defs = get_group_def set_group_def group_size_def known_group_def group_ok_def group_ret_def

lemma get_items_cases:
  "get_items its ids s buf = None \<and> length buf < items_size its ids \<or>
   (\<exists>b. get_items its ids s buf = Some (items_size its ids, b) \<and> items_size its ids \<le> length buf)"
proof (cases "get_items its ids s buf")
  case None
  with get_items_defined [of its ids buf s] show ?thesis by fastforce
next
  case (Some nb)
  with get_items_size [of its ids s buf "fst nb" "snd nb"] show ?thesis by (cases nb) auto
qed

lemma set_items_cases:
  "set_items its ids s buf = None \<and> length buf < items_size its ids \<or>
   (\<exists>s' b. set_items its ids s buf = Some (s', items_size its ids, b) \<and> items_size its ids \<le> length buf)"
proof (cases "set_items its ids s buf")
  case None
  with set_items_defined [of its ids buf s] show ?thesis by fastforce
next
  case (Some r)
  obtain s' n b where r: "r = (s', n, b)" by (cases r) auto
  with Some set_items_size [of its ids s buf s' n b] show ?thesis by auto
qed

lemma get_group_cases:
  "(\<exists>b. get_group g ids p buf = Some (group_ret g ids, b) \<and> group_size g ids \<le> length buf) \<or>
   get_group g ids p buf = None \<and> length buf < group_size g ids"
  using get_items_cases [of cfg_test_items ids "isp_test_settings p" buf]
    get_items_cases [of cfg_3a_items ids "isp_3a_settings p" buf]
    get_items_cases [of cfg_tuning_items ids "isp_tunning_settings p" buf]
    get_items_cases [of cfg_tables_items ids "isp_tunning_settings p" buf]
    get_items_cases [of cfg_dynamic_items ids "isp_iso_settings p" buf]
  by (auto simp: group_defs)

lemma set_group_cases:
  "(\<exists>p' b. set_group g ids p buf = Some (group_ret g ids, p', b) \<and> group_size g ids \<le> length buf) \<or>
   set_group g ids p buf = None \<and> length buf < group_size g ids"
  using set_items_cases [of cfg_test_items ids "isp_test_settings p" buf]
    set_items_cases [of cfg_3a_items ids "isp_3a_settings p" buf]
    set_items_cases [of cfg_tuning_items ids "isp_tunning_settings p" buf]
    set_items_cases [of cfg_tables_items ids "isp_tunning_settings p" buf]
    set_items_cases [of cfg_dynamic_items ids "isp_iso_settings p" buf]
  by (auto simp: group_defs)

section \<open>The groups together\<close>

lemma set_group_wf:
  assumes "wf_params p" "set_group g ids p buf = Some (r, p', buf')"
  shows "wf_params p' \<and> length buf' = length buf"
  using assms
  by (auto simp: set_group_def wf_params_def split: if_splits
      dest!: test_group.group_set_keeps [OF TrueI] aaa_group.group_set_keeps [rotated] tuning_group.group_set_keeps [rotated]
        tables_group.group_set_keeps [rotated] dynamic_group.group_set_keeps [rotated])

lemma get_group_length:
  assumes "wf_params p" "get_group g ids p buf = Some (r, buf')"
  shows "length buf' = length buf"
  using assms
  by (auto simp: get_group_def wf_params_def split: if_splits
      dest!: test_group.group_get_length [OF TrueI] aaa_group.group_get_length [rotated] tuning_group.group_get_length [rotated]
        tables_group.group_get_length [rotated] dynamic_group.group_get_length [rotated])

lemma get_after_set_group:
  assumes "wf_params p" "group_ok g ids buf" "set_group g ids p buf = Some (r, p', buf')"
  shows "get_group g ids p' buf' = Some (r, buf')"
  using assms
  by (auto simp: get_group_def set_group_def wf_params_def group_ok_def split: if_splits
      dest!: test_group.group_get_after_set [OF TrueI] aaa_group.group_get_after_set [rotated]
        tuning_group.group_get_after_set [rotated] tables_group.group_get_after_set [rotated]
        dynamic_group.group_get_after_set [rotated])

lemma set_after_get_group:
  assumes "wf_params p" "get_group g ids p buf = Some (r, buf')"
  shows "set_group g ids p buf' = Some (r, p, buf')"
  using assms
  by (auto simp: get_group_def set_group_def wf_params_def split: if_splits
      dest!: test_group.group_set_after_get [OF TrueI] aaa_group.group_set_after_get [rotated]
        tuning_group.group_set_after_get [rotated] tables_group.group_set_after_get [rotated]
        dynamic_group.group_set_after_get [rotated])

lemma get_group_tail:
  assumes "wf_params p" "get_group g ids p buf = Some (r, buf')"
  shows "drop (group_size g ids) buf' = drop (group_size g ids) buf"
  using assms
  by (auto simp: get_group_def wf_params_def group_size_def split: if_splits
      dest!: test_group.group_get_tail [OF TrueI] aaa_group.group_get_tail [rotated]
        tuning_group.group_get_tail [rotated] tables_group.group_get_tail [rotated]
        dynamic_group.group_get_tail [rotated])

lemma set_group_tail:
  assumes "wf_params p" "set_group g ids p buf = Some (r, p', buf')"
  shows "drop (group_size g ids) buf' = drop (group_size g ids) buf"
  using assms
  by (auto simp: set_group_def wf_params_def group_size_def split: if_splits
      dest!: test_group.group_set_tail [OF TrueI] aaa_group.group_set_tail [rotated]
        tuning_group.group_set_tail [rotated] tables_group.group_set_tail [rotated]
        dynamic_group.group_set_tail [rotated])

lemma set_group_other_ids:
  assumes "wf_params p" "set_group g ids p buf = Some (r, p', buf')" "ids AND ids' = 0"
  shows "get_group g ids' p' b = get_group g ids' p b"
  using assms
  by (auto simp: get_group_def set_group_def wf_params_def split: if_splits
      intro!: arg_cong [where f = "map_option (map_prod int id)"]
      intro: test_group.group_other_ids [OF TrueI] aaa_group.group_other_ids
        tuning_group.group_other_ids tables_group.group_other_ids dynamic_group.group_other_ids)

lemma set_group_frame:
  assumes "set_group g ids p buf = Some (r, p', buf')"
  shows "(g \<noteq> HW_ISP_CFG_TEST \<longrightarrow> isp_test_settings p' = isp_test_settings p) \<and>
    (g \<noteq> HW_ISP_CFG_3A \<longrightarrow> isp_3a_settings p' = isp_3a_settings p) \<and>
    (g \<noteq> HW_ISP_CFG_TUNING \<and> g \<noteq> HW_ISP_CFG_TUNING_TABLES \<longrightarrow>
       isp_tunning_settings p' = isp_tunning_settings p) \<and>
    (g \<noteq> HW_ISP_CFG_DYNAMIC \<longrightarrow> isp_iso_settings p' = isp_iso_settings p)"
  using assms by (auto simp: set_group_def split: if_splits)

lemma set_cfg_Some:
  assumes "isp_tuning_set_cfg (Some dev) g ids (Some buf) = Some (r, dev', buf')"
    "dev_tuning dev = Some t" "tuning_ctx t"
  obtains p b where "set_group g ids (params t) buf = Some (r, p, b)"
    "dev' = Some (dev\<lparr>dev_tuning := Some (t\<lparr>params := p\<rparr>)\<rparr>)" "buf' = Some b"
  using assms by (auto simp: isp_tuning_set_cfg_def isp_dev_get_tuning_def)

section \<open>Properties\<close>

text \<open>A device whose tuning object holds the zeroed parameters, used to apply the properties.\<close>

definition tuning_with :: "isp_param_config \<Rightarrow> isp_tuning" where
  "tuning_with p = \<lparr>tuning_ctx = True, params = p, frame_count = 0, pix_max = 0\<rparr>"

definition device_with :: "isp_param_config \<Rightarrow> unit hw_isp_device" where
  "device_with p = \<lparr>ctx_object = \<lparr>isp_ini_cfg = zero_params, ctx_rest = ()\<rparr>, dev_ctx = True,
     dev_tuning = Some (tuning_with p)\<rparr>"

abbreviation (input) forced_params :: isp_param_config where
  "forced_params \<equiv> zero_params\<lparr>isp_test_settings := zero_test\<lparr>ae_forced := 1, lum_forced := 7\<rparr>\<rparr>"

lemma set_forced:
  "isp_tuning_set_cfg (Some (device_with zero_params)) HW_ISP_CFG_TEST HW_ISP_CFG_TEST_FORCED
     (Some [1, 0, 0, 0, 7, 0, 0, 0]) =
   Some (8, Some (device_with forced_params), Some [1, 0, 0, 0, 7, 0, 0, 0])"
  by (simp add: isp_tuning_set_cfg_def device_with_def tuning_with_def isp_dev_get_tuning_def
      set_group_def cfg_test_items_def selected_def set_isp_test_forced_def Let_def dec32_def
      zero_params_def)

lemma chunks_numeral:
  "chunks (numeral k) n v = take n v # chunks (pred_numeral k) n (drop n v)"
  by (simp add: numeral_eq_Suc)

lemma get_forced:
  "isp_tuning_get_cfg (Some (device_with forced_params)) HW_ISP_CFG_TEST HW_ISP_CFG_TEST_FORCED
     (Some [0, 0, 0, 0, 0, 0, 0, 0, 9]) = Some (8, Some [1, 0, 0, 0, 7, 0, 0, 0, 9])"
  by (simp add: isp_tuning_get_cfg_def device_with_def tuning_with_def isp_dev_get_tuning_def
      get_group_def cfg_test_items_def selected_def get_isp_test_forced_def Let_def overlay_def
      enc32s.simps enc32_def)

lemma wf_forced: "wf_params forced_params"
  using wf_zero_params by (simp add: wf_params_def)



text \<open>
  C26. Writing back what was read changes neither the parameters nor the buffer, and returns the
  same size.
\<close>

theorem set_cfg_after_get_cfg:
  assumes "dev_tuning dev = Some t" "tuning_ctx t" "wf_params (params t)"
    and "isp_tuning_get_cfg (Some dev) g ids (Some buf) = Some (r, buf')"
  shows "isp_tuning_set_cfg (Some dev) g ids buf' = Some (r, Some dev, buf')"
proof -
  obtain b where b: "get_group g ids (params t) buf = Some (r, b)" "buf' = Some b"
    using assms(1,4) by (auto simp: isp_tuning_get_cfg_def isp_dev_get_tuning_def)
  from set_after_get_group [OF assms(3) b(1)] assms(1,2) b(2) show ?thesis
    by (simp add: isp_tuning_set_cfg_def isp_dev_get_tuning_def)
qed

theorem set_cfg_after_get_cfg_witness:
  "isp_tuning_set_cfg (Some (device_with forced_params)) HW_ISP_CFG_TEST HW_ISP_CFG_TEST_FORCED
     (Some [1, 0, 0, 0, 7, 0, 0, 0, 9]) =
   Some (8, Some (device_with forced_params), Some [1, 0, 0, 0, 7, 0, 0, 0, 9])"
  by (rule set_cfg_after_get_cfg [OF _ _ _ get_forced, of "tuning_with forced_params"])
    (simp_all add: device_with_def tuning_with_def wf_forced)



text \<open>
  A write stays inside the buffer exactly when the buffer holds the selected wire structs; it
  then returns their total size, the parameters keep every array at its declared length, and no
  byte of the buffer past that size changes.
\<close>

theorem set_cfg_bounds:
  assumes "dev_tuning dev = Some t" "tuning_ctx t" "wf_params (params t)"
  shows "case isp_tuning_set_cfg (Some dev) g ids (Some buf) of
      None \<Rightarrow> length buf < group_size g ids
    | Some (r, dev', buf') \<Rightarrow> group_size g ids \<le> length buf \<and> r = group_ret g ids \<and>
        (\<exists>p b. dev' = Some (dev\<lparr>dev_tuning := Some (t\<lparr>params := p\<rparr>)\<rparr>) \<and> wf_params p \<and>
           buf' = Some b \<and> length b = length buf \<and>
           drop (group_size g ids) b = drop (group_size g ids) buf)"
  using set_group_cases [of g ids "params t" buf] assms set_group_wf [OF assms(3)]
    set_group_tail [OF assms(3)]
  by (auto simp: isp_tuning_set_cfg_def isp_dev_get_tuning_def) blast

theorem set_cfg_bounds_witness:
  "isp_tuning_set_cfg (Some (device_with zero_params)) HW_ISP_CFG_TEST HW_ISP_CFG_TEST_FORCED (Some [1, 2, 3]) = None \<longleftrightarrow>
   length [1, 2, 3 :: byte] < group_size HW_ISP_CFG_TEST HW_ISP_CFG_TEST_FORCED"
  using set_cfg_bounds [where dev = "device_with zero_params" and t = "tuning_with zero_params" and
      g = HW_ISP_CFG_TEST and ids = HW_ISP_CFG_TEST_FORCED and buf = "[1, 2, 3]"]
  by (auto simp: device_with_def tuning_with_def wf_zero_params split: option.splits)

text \<open>
  C33. Writing some items does not disturb the others: a read of ids disjoint from the written ones
  gives the same result before and after, and the other groups and the running context are
  unchanged.
\<close>

theorem set_cfg_others_unchanged:
  assumes "dev_tuning dev = Some t" "tuning_ctx t" "wf_params (params t)"
    and "isp_tuning_set_cfg (Some dev) g ids (Some buf) = Some (r, Some dev', buf')"
    and "ids AND ids' = 0"
  shows "isp_tuning_get_cfg (Some dev') g ids' (Some b) = isp_tuning_get_cfg (Some dev) g ids' (Some b) \<and>
    ctx_object dev' = ctx_object dev"
proof -
  obtain p c where s: "set_group g ids (params t) buf = Some (r, p, c)"
    "Some dev' = Some (dev\<lparr>dev_tuning := Some (t\<lparr>params := p\<rparr>)\<rparr>)" "buf' = Some c"
    by (rule set_cfg_Some [OF assms(4,1,2)])
  from set_group_other_ids [OF assms(3) s(1) assms(5), of b] s(2) assms(1) show ?thesis
    by (simp add: isp_tuning_get_cfg_def isp_dev_get_tuning_def)
qed

theorem set_cfg_others_unchanged_witness:
  "isp_tuning_get_cfg (Some (device_with forced_params)) HW_ISP_CFG_TEST HW_ISP_CFG_TEST_GAIN (Some (replicate 20 3)) =
   isp_tuning_get_cfg (Some (device_with zero_params)) HW_ISP_CFG_TEST HW_ISP_CFG_TEST_GAIN (Some (replicate 20 3))"
  by (rule set_cfg_others_unchanged [OF _ _ _ set_forced, THEN conjunct1, of "tuning_with zero_params"])
    (simp_all add: device_with_def tuning_with_def wf_zero_params)

text \<open>
  The image pipeline sees a write only after \<open>isp_tuning_update\<close>: the update succeeds, copies
  the written parameters into the context configuration it hands to the recomputation, and leaves
  the tuning object as the write left it.
\<close>

theorem set_cfg_published_by_update:
  assumes "dev_tuning dev = Some t" "tuning_ctx t"
    and "isp_tuning_set_cfg (Some dev) g ids (Some buf) = Some (r, Some dev', buf')"
  shows "\<exists>p. dev_tuning dev' = Some (t\<lparr>params := p\<rparr>) \<and> isp_tuning_update config_fn dev' =
    (0, dev'\<lparr>ctx_object := config_fn ((ctx_object dev)\<lparr>isp_ini_cfg := p\<rparr>)\<rparr>)"
proof -
  obtain p c where s: "set_group g ids (params t) buf = Some (r, p, c)"
    "Some dev' = Some (dev\<lparr>dev_tuning := Some (t\<lparr>params := p\<rparr>)\<rparr>)" "buf' = Some c"
    by (rule set_cfg_Some [OF assms(3,1,2)])
  with assms(2) show ?thesis
    by (intro exI [of _ p]) (simp add: isp_tuning_update_def isp_dev_get_tuning_def)
qed

theorem set_cfg_published_by_update_witness:
  "\<exists>p. dev_tuning (device_with forced_params) = Some ((tuning_with zero_params)\<lparr>params := p\<rparr>) \<and>
     isp_tuning_update id (device_with forced_params) =
       (0, (device_with forced_params)\<lparr>ctx_object := (ctx_object (device_with zero_params))\<lparr>isp_ini_cfg := p\<rparr>\<rparr>)"
  using set_cfg_published_by_update [OF _ _ set_forced, of "tuning_with zero_params" id]
  by (simp add: device_with_def tuning_with_def)

text \<open>
  The error branches: a null device or buffer is \<open>AW_ERR_VI_INVALID_PARA\<close>, a device without a
  tuning object \<open>AW_ERR_VI_INVALID_NULL_PTR\<close> for both directions, and so is a tuning object without
  a context for the write, while the read does not look at the context; an unknown group is
  \<open>AW_ERR_VI_INVALID_PARA\<close>. No error branch changes the device or the buffer.
\<close>

theorem cfg_error_branches:
  "(isp = None \<or> data = None \<longrightarrow>
      isp_tuning_get_cfg isp g ids data = Some (AW_ERR_VI_INVALID_PARA, data) \<and>
      isp_tuning_set_cfg isp g ids data = Some (AW_ERR_VI_INVALID_PARA, isp, data)) \<and>
   (isp = Some dev \<and> data = Some buf \<and> dev_tuning dev = None \<longrightarrow>
      isp_tuning_get_cfg isp g ids data = Some (AW_ERR_VI_INVALID_NULL_PTR, data) \<and>
      isp_tuning_set_cfg isp g ids data = Some (AW_ERR_VI_INVALID_NULL_PTR, isp, data)) \<and>
   (isp = Some dev \<and> data = Some buf \<and> dev_tuning dev = Some t \<and> \<not> tuning_ctx t \<longrightarrow>
      isp_tuning_set_cfg isp g ids data = Some (AW_ERR_VI_INVALID_NULL_PTR, isp, data)) \<and>
   (isp = Some dev \<and> data = Some buf \<and> dev_tuning dev = Some t \<and> \<not> known_group g \<longrightarrow>
      isp_tuning_get_cfg isp g ids data = Some (AW_ERR_VI_INVALID_PARA, data) \<and>
      (tuning_ctx t \<longrightarrow> isp_tuning_set_cfg isp g ids data = Some (AW_ERR_VI_INVALID_PARA, isp, data)))"
  by (cases isp; cases data)
    (auto simp: isp_tuning_get_cfg_def isp_tuning_set_cfg_def isp_dev_get_tuning_def known_group_def
      get_group_def set_group_def)

theorem cfg_error_branches_witness:
  "isp_tuning_get_cfg (None :: unit hw_isp_device option) HW_ISP_CFG_TEST 1 (Some [5]) = Some (AW_ERR_VI_INVALID_PARA, Some [5]) \<and>
   isp_tuning_get_cfg (Some (device_with zero_params)) 9 1 (Some [5]) = Some (AW_ERR_VI_INVALID_PARA, Some [5])"
  using cfg_error_branches [of "None :: unit hw_isp_device option" "Some [5]" HW_ISP_CFG_TEST 1
      "device_with zero_params" "[5]" "tuning_with zero_params"]
    cfg_error_branches [of "Some (device_with zero_params)" "Some [5]" 9 1
      "device_with zero_params" "[5]" "tuning_with zero_params"]
  by (simp add: device_with_def tuning_with_def known_group_def)

text \<open>
  A denoise block is scaled when it is written: after the write, the read reports for each of
  the 14 rows the values multiplied by the row's ratio (0 counting as 1), the colour value, and
  the ratio 1.
\<close>

theorem denoise_write_scales:
  assumes "wf_dynamic s" "length c = 1240" "length c' = 1240"
  shows "dec32s (get_isp_dynamic_denoise (fst (set_isp_dynamic_denoise s c)) c') =
    slice (dec32s c) 0 2 @ concat (map (\<lambda>r.
      map (\<lambda>x. x * (if r ! 21 = 0 then 1 else r ! 21)) (slice r 0 20) @ [r ! 20, 1])
      (chunks 14 22 (drop 2 (dec32s c))))"
proof -
  let ?rs = "chunks 14 22 (drop 2 (dec32s c))"
  have l: "list_all (\<lambda>r. length r = 22) ?rs" using assms(2) by (simp add: chunks_length)
  have rep: "map denoise_report ?rs = map (\<lambda>r.
      map (\<lambda>x. x * (if r ! 21 = 0 then 1 else r ! 21)) (slice r 0 20) @ [r ! 20, 1]) ?rs"
    using l by (auto simp: list_all_iff denoise_report_def denoise_row_def Let_def slice_def)
  have "length (concat (map denoise_report ?rs)) = 22 * 14"
    using length_rows [OF l, of denoise_report 22] by (simp add: denoise_report_def)
  then have "length (enc32s (slice (dec32s c) 0 2 @ concat (map denoise_report ?rs))) = length c'"
    using assms(2,3) by simp
  then show ?thesis
    unfolding get_set_isp_dynamic_denoise [OF assms(1,2)] rep by (simp add: overlay_full)
qed

theorem denoise_write_scales_witness:
  "dec32s (get_isp_dynamic_denoise (fst (set_isp_dynamic_denoise (isp_iso_settings zero_params)
      (enc32s (replicate 310 3)))) (replicate 1240 0)) ! 2 = 9"
  using denoise_write_scales [of "isp_iso_settings zero_params" "enc32s (replicate 310 3)" "replicate 1240 0"]
    wf_zero_params
  by (simp add: wf_params_def slice_def nth_append chunks_numeral)

end
