(* ===== verification/IspEvents.thy ===== *)
theory IspEvents
  imports Prelude
begin

text \<open>
  \<open>isp_events/events.c\<close>: the event list of an ISP device and the loop its server thread runs. A
  callback is a value of type \<open>'cb\<close>; what running it does is the parameter \<open>run\<close>, which changes
  the state \<open>'s\<close> behind the callbacks and says whether the callback called \<open>events_stop\<close> (as the
  stream-off handler does). No callback of the library adds or removes list entries.

  \<open>FD_SET\<close> and \<open>FD_CLR\<close> are undefined outside \<open>0 \<le> fd < FD_SETSIZE\<close>: \<open>None\<close>. \<open>events_loop\<close> may run
  forever; it is run here against a finite script of rounds (what \<open>select\<close> returns, and whether another
  thread stopped the events before the round), and \<open>None\<close> says that it is still running when
  the script ends.
\<close>

section \<open>State\<close>

datatype hw_isp_event_type = HW_ISP_EVENT_READ | HW_ISP_EVENT_WRITE | HW_ISP_EVENT_EXCEPTION

record 'cb event_fd =
  ev_fd :: int
  ev_type :: hw_isp_event_type
  ev_callback :: 'cb

record 'cb event_list =
  ev_events :: "'cb event_fd list"
  ev_done :: bool
  ev_isp_id :: int
  ev_maxfd :: int
  ev_rfds :: "int set"
  ev_wfds :: "int set"
  ev_efds :: "int set"

definition FD_SETSIZE :: int where
  "FD_SETSIZE = 1024"

definition fd_valid :: "int \<Rightarrow> bool" where
  "fd_valid fd \<longleftrightarrow> 0 \<le> fd \<and> fd < FD_SETSIZE"

section \<open>Operations\<close>

text \<open>The \<open>switch (event->type)\<close> of the two registration functions, applied to one of the fd sets.\<close>

definition upd_fds :: "(int set \<Rightarrow> int set) \<Rightarrow> hw_isp_event_type \<Rightarrow> 'cb event_list \<Rightarrow> 'cb event_list" where
  "upd_fds f ty evs =
     (case ty of
        HW_ISP_EVENT_READ \<Rightarrow> evs\<lparr>ev_rfds := f (ev_rfds evs)\<rparr>
      | HW_ISP_EVENT_WRITE \<Rightarrow> evs\<lparr>ev_wfds := f (ev_wfds evs)\<rparr>
      | HW_ISP_EVENT_EXCEPTION \<Rightarrow> evs\<lparr>ev_efds := f (ev_efds evs)\<rparr>)"

definition events_monitor_fd ::
  "bool \<Rightarrow> 'cb event_list \<Rightarrow> int \<Rightarrow> hw_isp_event_type \<Rightarrow> 'cb \<Rightarrow> 'cb event_list option" where
  "events_monitor_fd malloc_ok evs fd ty cb =
     (if \<not> malloc_ok then Some evs
      else if \<not> fd_valid fd then None
      else let evs1 = upd_fds (insert fd) ty evs in
        Some (evs1\<lparr>ev_maxfd := max (ev_maxfd evs1) fd,
                   ev_events := ev_events evs1 @ [\<lparr>ev_fd = fd, ev_type = ty, ev_callback = cb\<rparr>]\<rparr>))"

text \<open>The scan of \<open>events_unmonitor_fd\<close>: the last entry of the descriptor, the maximum of the others.\<close>

fun unmonitor_scan :: "int \<Rightarrow> nat \<Rightarrow> 'cb event_fd list \<Rightarrow> (nat \<times> 'cb event_fd) option \<Rightarrow> int \<Rightarrow>
  (nat \<times> 'cb event_fd) option \<times> int" where
  "unmonitor_scan fd i [] found m = (found, m)"
| "unmonitor_scan fd i (e # es) found m =
     (if ev_fd e = fd then unmonitor_scan fd (Suc i) es (Some (i, e)) m
      else unmonitor_scan fd (Suc i) es found (max m (ev_fd e)))"

definition events_unmonitor_fd :: "'cb event_list \<Rightarrow> int \<Rightarrow> 'cb event_list option" where
  "events_unmonitor_fd evs fd =
     (case unmonitor_scan fd 0 (ev_events evs) None 0 of
        (None, _) \<Rightarrow> Some evs
      | (Some (i, e), m) \<Rightarrow>
          if \<not> fd_valid fd then None
          else Some ((upd_fds (\<lambda>s. s - {fd}) (ev_type e) evs)
                 \<lparr>ev_maxfd := m, ev_events := take i (ev_events evs) @ drop (Suc i) (ev_events evs)\<rparr>))"

definition ev_ready :: "int set \<Rightarrow> int set \<Rightarrow> int set \<Rightarrow> 'cb event_fd \<Rightarrow> bool" where
  "ev_ready r w x e =
     (case ev_type e of
        HW_ISP_EVENT_READ \<Rightarrow> ev_fd e \<in> r
      | HW_ISP_EVENT_WRITE \<Rightarrow> ev_fd e \<in> w
      | HW_ISP_EVENT_EXCEPTION \<Rightarrow> ev_fd e \<in> x)"

text \<open>\<open>events_dispatch\<close>: the result is the state and \<open>events->done\<close>.\<close>

fun events_dispatch :: "('cb \<Rightarrow> 's \<Rightarrow> 's \<times> bool) \<Rightarrow> int set \<Rightarrow> int set \<Rightarrow> int set \<Rightarrow>
  'cb event_fd list \<Rightarrow> 's \<Rightarrow> bool \<Rightarrow> 's \<times> bool" where
  "events_dispatch run r w x [] s d = (s, d)"
| "events_dispatch run r w x (e # es) s d =
     (let (s1, d1) = (if ev_ready r w x e then (case run (ev_callback e) s of (s', st) \<Rightarrow> (s', d \<or> st)) else (s, d))
      in if d1 then (s1, d1) else events_dispatch run r w x es s1 d1)"

datatype select_ret = EvErr (interrupted: bool) | EvTimeout | EvReady "int set" "int set" "int set"

record loop_round =
  stopped_meanwhile :: bool
  round_sel :: select_ret

fun events_loop :: "('cb \<Rightarrow> 's \<Rightarrow> 's \<times> bool) \<Rightarrow> loop_round list \<Rightarrow> 'cb event_list \<Rightarrow> 's \<Rightarrow>
  (bool \<times> 'cb event_list \<times> 's) option" where
  "events_loop run rs evs s =
     (if ev_done evs then Some (False, evs, s)
      else case rs of
        [] \<Rightarrow> None
      | r # rs' \<Rightarrow>
          (case round_sel r of
             EvErr intr \<Rightarrow>
               let evs1 = evs\<lparr>ev_done := stopped_meanwhile r\<rparr> in
               if intr then events_loop run rs' evs1 s else Some (\<not> ev_done evs1, evs1, s)
           | EvTimeout \<Rightarrow>
               let evs1 = evs\<lparr>ev_done := stopped_meanwhile r\<rparr> in Some (\<not> ev_done evs1, evs1, s)
           | EvReady fr fw fx \<Rightarrow>
               (case events_dispatch run (fr \<inter> ev_rfds evs) (fw \<inter> ev_wfds evs) (fx \<inter> ev_efds evs)
                       (ev_events evs) s (stopped_meanwhile r) of
                  (s1, d1) \<Rightarrow> events_loop run rs' (evs\<lparr>ev_done := d1\<rparr>) s1)))"

declare events_loop.simps [simp del]

definition events_star :: "'cb event_list \<Rightarrow> 'cb event_list" where
  "events_star evs = evs\<lparr>ev_done := False\<rparr>"

definition events_stop :: "'cb event_list \<Rightarrow> 'cb event_list" where
  "events_stop evs = evs\<lparr>ev_done := True\<rparr>"

definition events_init :: "'cb event_list" where
  "events_init = \<lparr>ev_events = [], ev_done = False, ev_isp_id = 0, ev_maxfd = 0,
     ev_rfds = {}, ev_wfds = {}, ev_efds = {}\<rparr>"

section \<open>The event list mirrors the fd sets\<close>

definition fds_of :: "hw_isp_event_type \<Rightarrow> 'cb event_fd list \<Rightarrow> int set" where
  "fds_of ty es = ev_fd ` {e \<in> set es. ev_type e = ty}"

text \<open>
  Well-formed lists: one entry per descriptor, the three sets are what \<open>select\<close> has to watch, and
  \<open>maxfd\<close> is their exact maximum.
\<close>

definition events_wf :: "'cb event_list \<Rightarrow> bool" where
  "events_wf evs \<longleftrightarrow>
     distinct (map ev_fd (ev_events evs)) \<and>
     (\<forall>e \<in> set (ev_events evs). fd_valid (ev_fd e)) \<and>
     ev_rfds evs = fds_of HW_ISP_EVENT_READ (ev_events evs) \<and>
     ev_wfds evs = fds_of HW_ISP_EVENT_WRITE (ev_events evs) \<and>
     ev_efds evs = fds_of HW_ISP_EVENT_EXCEPTION (ev_events evs) \<and>
     ev_maxfd evs = Max (insert 0 (ev_fd ` set (ev_events evs)))"

lemma events_init_wf: "events_wf events_init"
  by (simp add: events_wf_def events_init_def fds_of_def)

lemma upd_fds_frame [simp]:
  "ev_events (upd_fds f ty evs) = ev_events evs" "ev_maxfd (upd_fds f ty evs) = ev_maxfd evs"
  "ev_done (upd_fds f ty evs) = ev_done evs"
  "ev_rfds (upd_fds f ty evs) = (if ty = HW_ISP_EVENT_READ then f (ev_rfds evs) else ev_rfds evs)"
  "ev_wfds (upd_fds f ty evs) = (if ty = HW_ISP_EVENT_WRITE then f (ev_wfds evs) else ev_wfds evs)"
  "ev_efds (upd_fds f ty evs) = (if ty = HW_ISP_EVENT_EXCEPTION then f (ev_efds evs) else ev_efds evs)"
  by (simp_all add: upd_fds_def split: hw_isp_event_type.split)

lemma fds_of_append [simp]: "fds_of ty (es @ es') = fds_of ty es \<union> fds_of ty es'"
  by (auto simp: fds_of_def)

lemma fds_of_Cons: "fds_of ty (e # es) = (if ev_type e = ty then insert (ev_fd e) (fds_of ty es) else fds_of ty es)"
  by (auto simp: fds_of_def)

lemma fds_of_Nil [simp]: "fds_of ty [] = {}"
  by (simp add: fds_of_def)

lemma fds_of_sub: "fds_of ty es \<subseteq> ev_fd ` set es"
  by (auto simp: fds_of_def)

lemma monitor_wf:
  assumes "events_wf evs" "fd \<notin> ev_fd ` set (ev_events evs)" "events_monitor_fd ok evs fd ty cb = Some evs'"
  shows "events_wf evs'"
proof (cases ok)
  case False
  then show ?thesis using assms by (simp add: events_monitor_fd_def)
next
  case True
  then have fv: "fd_valid fd" and e: "evs' = (upd_fds (insert fd) ty evs)
      \<lparr>ev_maxfd := max (ev_maxfd evs) fd,
       ev_events := ev_events evs @ [\<lparr>ev_fd = fd, ev_type = ty, ev_callback = cb\<rparr>]\<rparr>"
    using assms(3) by (simp_all add: events_monitor_fd_def Let_def split: if_splits)
  have "max (Max (insert 0 (ev_fd ` set (ev_events evs)))) fd =
      Max (insert 0 (insert fd (ev_fd ` set (ev_events evs))))"
    by (subst insert_commute, subst Max.insert) (auto simp: max.commute)
  then show ?thesis
    using assms(1,2) fv by (cases ty) (simp_all add: e events_wf_def fds_of_Cons)
qed

text \<open>The scan finds the one entry of the descriptor and the maximum of the others.\<close>

lemma unmonitor_scan_absent:
  "fd \<notin> ev_fd ` set es \<Longrightarrow> finite A \<Longrightarrow> m = Max (insert 0 A) \<Longrightarrow>
   unmonitor_scan fd i es found m = (found, Max (insert 0 (A \<union> ev_fd ` set es)))"
proof (induction es arbitrary: i m A)
  case (Cons e es)
  have "max m (ev_fd e) = Max (insert 0 (insert (ev_fd e) A))"
    using Cons.prems by (subst insert_commute, subst Max.insert) (auto simp: max.commute)
  with Cons.IH [of "insert (ev_fd e) A" "max m (ev_fd e)"] Cons.prems show ?case by auto
qed simp

lemma unmonitor_scan_split:
  assumes "fd \<notin> ev_fd ` set xs" "ev_fd e = fd" "fd \<notin> ev_fd ` set ys" "finite A" "m = Max (insert 0 A)"
  shows "unmonitor_scan fd i (xs @ e # ys) None m =
    (Some (i + length xs, e), Max (insert 0 (A \<union> ev_fd ` (set xs \<union> set ys))))"
  using assms
proof (induction xs arbitrary: i m A)
  case Nil
  then show ?case using unmonitor_scan_absent [of fd ys A m "Suc i" "Some (i, e)"] by simp
next
  case (Cons a xs)
  have "max m (ev_fd a) = Max (insert 0 (insert (ev_fd a) A))"
    using Cons.prems by (subst insert_commute, subst Max.insert) (auto simp: max.commute)
  with Cons.IH [of "insert (ev_fd a) A" "max m (ev_fd a)" "Suc i"] Cons.prems show ?case by auto
qed

lemma unmonitor_split:
  assumes "events_wf evs" "ev_events evs = xs @ e # ys"
  shows "events_unmonitor_fd evs (ev_fd e) =
    Some ((upd_fds (\<lambda>s. s - {ev_fd e}) (ev_type e) evs)
      \<lparr>ev_maxfd := Max (insert 0 (ev_fd ` (set xs \<union> set ys))), ev_events := xs @ ys\<rparr>)"
proof -
  have "ev_fd e \<notin> ev_fd ` set xs" "ev_fd e \<notin> ev_fd ` set ys" "fd_valid (ev_fd e)"
    using assms by (auto simp: events_wf_def)
  then show ?thesis
    using assms(2) unmonitor_scan_split [of "ev_fd e" xs e ys "{}" 0 0]
    by (simp add: events_unmonitor_fd_def)
qed

lemma unmonitor_absent:
  "fd \<notin> ev_fd ` set (ev_events evs) \<Longrightarrow> events_unmonitor_fd evs fd = Some evs"
  using unmonitor_scan_absent [of fd "ev_events evs" "{}" 0 0 None]
  by (simp add: events_unmonitor_fd_def)

lemma unmonitor_wf:
  assumes "events_wf evs" "ev_events evs = xs @ e # ys" "events_unmonitor_fd evs (ev_fd e) = Some evs'"
  shows "events_wf evs' \<and> ev_events evs' = xs @ ys"
proof -
  have n: "ev_fd e \<notin> ev_fd ` set xs" "ev_fd e \<notin> ev_fd ` set ys"
    using assms(1,2) by (auto simp: events_wf_def)
  have f: "ev_fd e \<notin> fds_of ty xs" "ev_fd e \<notin> fds_of ty ys" for ty
    using n fds_of_sub by blast+
  show ?thesis
    using assms f
    by (cases "ev_type e")
      (auto simp: unmonitor_split [OF assms(1,2)] events_wf_def image_Un fds_of_Cons)
qed

section \<open>Dispatch and the loop\<close>

lemma dispatch_True: "events_dispatch run r w x es s True = (s1, d1) \<Longrightarrow> d1"
  by (cases es) (auto split: prod.splits if_splits)

text \<open>The callbacks one round runs, in list order, and the first of them that stops the events.\<close>

fun run_all :: "('cb \<Rightarrow> 's \<Rightarrow> 's \<times> bool) \<Rightarrow> 'cb list \<Rightarrow> 's \<Rightarrow> 's \<times> bool" where
  "run_all run [] s = (s, False)"
| "run_all run (c # cs) s = (case run c s of (s', st) \<Rightarrow> if st then (s', True) else run_all run cs s')"

lemma dispatch_run_all:
  "events_dispatch run r w x es s False =
   run_all run (map ev_callback (filter (ev_ready r w x) es)) s"
  by (induction es arbitrary: s) (auto split: prod.split)

lemma loop_stopped: "ev_done evs \<Longrightarrow> events_loop run rs evs s = Some (False, evs, s)"
  by (simp add: events_loop.simps)

lemma loop_None_not_done:
  "events_loop run rs evs s = None \<Longrightarrow> \<not> ev_done evs"
  by (auto simp: events_loop.simps)

lemma loop_result:
  assumes "events_loop run rs evs s = Some (b, evs', s')"
  shows "b = (\<not> ev_done evs') \<and> ev_events evs' = ev_events evs \<and> ev_maxfd evs' = ev_maxfd evs"
  using assms
proof (induction rs arbitrary: evs s)
  case Nil
  then show ?case by (subst (asm) events_loop.simps) (auto split: if_splits)
next
  case (Cons r rs)
  then show ?case
    by (subst (asm) (2) events_loop.simps)
      (fastforce split: if_splits select_ret.splits prod.splits simp: Let_def)
qed

lemma loop_wf:
  "events_loop run rs evs s = Some (b, evs', s') \<Longrightarrow> events_wf evs \<Longrightarrow>
   events_wf evs' \<and> ev_events evs' = ev_events evs"
proof (induction rs arbitrary: evs s)
  case Nil
  then show ?case by (subst (asm) events_loop.simps) (auto split: if_splits)
next
  case (Cons r rs)
  have d: "events_wf (evs\<lparr>ev_done := x\<rparr>)" for x
    using Cons.prems(2) by (simp add: events_wf_def)
  show ?case
    using Cons.prems(1) Cons.IH [OF _ d] d Cons.prems(2)
    by (subst (asm) events_loop.simps) (fastforce split: if_splits select_ret.splits prod.splits simp: Let_def)
qed

lemma loop_total:
  "\<exists>r \<in> set rs. stopped_meanwhile r \<or> round_sel r = EvTimeout \<or> round_sel r = EvErr False \<Longrightarrow>
   \<exists>b evs' s'. events_loop run rs evs s = Some (b, evs', s')"
proof (induction rs arbitrary: evs s)
  case (Cons r rs)
  show ?case
  proof (cases "stopped_meanwhile r")
    case True
    then show ?thesis
      by (subst events_loop.simps)
        (auto simp: Let_def loop_stopped split: select_ret.split prod.split dest!: dispatch_True)
  next
    case False
    show ?thesis
    proof (cases "round_sel r = EvTimeout \<or> round_sel r = EvErr False")
      case True
      then show ?thesis by (subst events_loop.simps) (auto simp: Let_def)
    next
      case nt: False
      then have "\<exists>r \<in> set rs. stopped_meanwhile r \<or> round_sel r = EvTimeout \<or> round_sel r = EvErr False"
        using Cons.prems False by auto
      then have ih: "\<exists>b evs' s'. events_loop run rs evs s = Some (b, evs', s')" for evs s
        by (rule Cons.IH)
      show ?thesis
        using nt by (subst events_loop.simps) (auto simp: Let_def ih split: select_ret.split prod.split)
    qed
  qed
qed simp

lemma loop_round_ready:
  "\<not> ev_done evs \<Longrightarrow> events_loop run (\<lparr>stopped_meanwhile = False, round_sel = EvReady fr fw fx\<rparr> # rs) evs s =
     (case run_all run (map ev_callback (filter
         (ev_ready (fr \<inter> ev_rfds evs) (fw \<inter> ev_wfds evs) (fx \<inter> ev_efds evs)) (ev_events evs))) s of
       (s1, d1) \<Rightarrow> events_loop run rs (evs\<lparr>ev_done := d1\<rparr>) s1)"
  by (subst events_loop.simps) (simp add: dispatch_run_all)

section \<open>Properties\<close>

text \<open>
  C23. Registering descriptors with \<open>events_monitor_fd\<close> and removing them with \<open>events_unmonitor_fd\<close>
  keeps the three fd sets equal to the registered descriptors of their type and \<open>maxfd\<close> equal to their
  maximum, so \<open>select(maxfd + 1, ...)\<close> always watches exactly the registered descriptors; removing
  a descriptor deletes its entry and keeps the order of the others.
\<close>

theorem event_sets_follow_list:
  assumes "events_wf evs"
  shows "(fd \<notin> ev_fd ` set (ev_events evs) \<longrightarrow>
            events_unmonitor_fd evs fd = Some evs \<and>
            (\<forall>evs1. events_monitor_fd ok evs fd ty cb = Some evs1 \<longrightarrow> events_wf evs1)) \<and>
         (\<forall>xs e ys. ev_events evs = xs @ e # ys \<longrightarrow>
            (\<exists>evs2. events_unmonitor_fd evs (ev_fd e) = Some evs2 \<and> events_wf evs2 \<and> ev_events evs2 = xs @ ys))"
proof (intro conjI impI allI)
  assume "fd \<notin> ev_fd ` set (ev_events evs)"
  then show "events_unmonitor_fd evs fd = Some evs"
    by (rule unmonitor_absent)
next
  fix evs1
  assume "fd \<notin> ev_fd ` set (ev_events evs)" "events_monitor_fd ok evs fd ty cb = Some evs1"
  then show "events_wf evs1" by (rule monitor_wf [OF assms])
next
  fix xs e ys
  assume "ev_events evs = xs @ e # ys"
  then show "\<exists>evs2. events_unmonitor_fd evs (ev_fd e) = Some evs2 \<and> events_wf evs2 \<and> ev_events evs2 = xs @ ys"
    using unmonitor_wf [OF assms] unmonitor_split [OF assms] by meson
qed

text \<open>A list with the two descriptors of a device registered, as \<open>isp_dev_start\<close> leaves it.\<close>

definition two_events :: "nat event_list" where
  "two_events = \<lparr>ev_events = [\<lparr>ev_fd = 7, ev_type = HW_ISP_EVENT_EXCEPTION, ev_callback = 0\<rparr>,
       \<lparr>ev_fd = 9, ev_type = HW_ISP_EVENT_EXCEPTION, ev_callback = 1\<rparr>],
     ev_done = False, ev_isp_id = 0, ev_maxfd = 9, ev_rfds = {}, ev_wfds = {}, ev_efds = {7, 9}\<rparr>"

theorem event_sets_follow_list_witness:
  "events_wf two_events \<and>
   (\<exists>evs2. events_unmonitor_fd two_events 7 = Some evs2 \<and> events_wf evs2 \<and> map ev_fd (ev_events evs2) = [9])"
proof -
  have "fds_of ty (ev_events two_events) = (if ty = HW_ISP_EVENT_EXCEPTION then {7, 9} else {})" for ty
    by (auto simp: two_events_def fds_of_Cons)
  then have wf: "events_wf two_events"
    by (simp add: events_wf_def two_events_def fd_valid_def FD_SETSIZE_def)
  have "ev_events two_events = [] @ \<lparr>ev_fd = 7, ev_type = HW_ISP_EVENT_EXCEPTION, ev_callback = 0\<rparr> #
      [\<lparr>ev_fd = 9, ev_type = HW_ISP_EVENT_EXCEPTION, ev_callback = 1\<rparr>]"
    by (simp add: two_events_def)
  then have "\<exists>evs2. events_unmonitor_fd two_events (ev_fd \<lparr>ev_fd = 7, ev_type = HW_ISP_EVENT_EXCEPTION, ev_callback = 0 :: nat\<rparr>) = Some evs2 \<and>
      events_wf evs2 \<and> ev_events evs2 = [] @ [\<lparr>ev_fd = 9, ev_type = HW_ISP_EVENT_EXCEPTION, ev_callback = 1\<rparr>]"
    using event_sets_follow_list [OF wf, of 0 True HW_ISP_EVENT_READ 0] by blast
  with wf show ?thesis by auto
qed

text \<open>
  C21. \<open>events_loop\<close> returns as soon as the events are stopped, and says so. For every script in which
  some round is stopped, by another thread or by a callback it runs, or in which \<open>select\<close>
  times out or fails, the loop returns; it never runs a callback of a descriptor that is not ready, and
  within a round the callbacks run in registration order up to the one that stops. The result is
  \<open>false\<close> exactly when the events were stopped, \<open>true\<close> when \<open>select\<close> failed or timed out.
\<close>

theorem events_loop_returns:
  "((\<exists>r \<in> set rs. stopped_meanwhile r \<or> round_sel r = EvTimeout \<or> round_sel r = EvErr False) \<longrightarrow>
      (\<exists>b evs' s'. events_loop run rs evs s = Some (b, evs', s'))) \<and>
   (\<forall>b evs' s'. events_loop run rs evs s = Some (b, evs', s') \<longrightarrow> b = (\<not> ev_done evs')) \<and>
   (\<not> ev_done evs \<longrightarrow> events_loop run (\<lparr>stopped_meanwhile = False, round_sel = EvReady fr fw fx\<rparr> # rs) evs s =
      (case run_all run (map ev_callback (filter
          (ev_ready (fr \<inter> ev_rfds evs) (fw \<inter> ev_wfds evs) (fx \<inter> ev_efds evs)) (ev_events evs))) s of
        (s1, d1) \<Rightarrow> events_loop run rs (evs\<lparr>ev_done := d1\<rparr>) s1))"
  by (intro conjI impI allI loop_total loop_round_ready) (auto dest: loop_result)

text \<open>
  Two rounds: the statistics descriptor is ready in the first, both in the second, where the
  first callback stops the events; the second callback does not run any more.
\<close>

theorem events_loop_returns_witness:
  "\<exists>evs' tr. events_loop (\<lambda>c tr. (tr @ [c], c = 0))
     [\<lparr>stopped_meanwhile = False, round_sel = EvReady {} {} {9}\<rparr>,
      \<lparr>stopped_meanwhile = False, round_sel = EvReady {} {} {7, 9}\<rparr>] two_events [] = Some (False, evs', tr) \<and>
   ev_done evs' \<and> tr = [1, 0]"
  by (simp add: events_loop_returns [THEN conjunct2, THEN conjunct2, rule_format]
      two_events_def ev_ready_def loop_stopped)

end
