(* ===== verification/IspDevice.thy ===== *)
theory IspDevice
  imports IspTuning IspEvents
begin

text \<open>
  \<open>isp.c\<close> and \<open>isp_dev/isp_dev.c\<close>: the life of an ISP device. \<open>media_params\<close> keeps, for each of the
  \<open>HW_ISP_DEVICE_NUM\<close> devices, a use count, the opened device or \<open>NULL\<close>, and the server thread; the
  device owns three V4L2 nodes and the statistics buffer. A slot below is one index of those arrays together
  with the static context of the device (inside \<open>isp_hw\<close>) and its event list.

  What the kernel and the closed libraries answer is an \<open>isp_env\<close>: whether the opens and allocations succeed, what
  the parameter file parses to, what the algorithm set-up computes, and whether the server thread ends by
  itself. \<open>Ub\<close> is undefined behaviour (an index outside an array, joining no thread); \<open>Blocks\<close> is a call that does
  not return because the thread it joins keeps running.
\<close>

section \<open>State and environment\<close>

datatype 'a outcome = Ret 'a | Ub | Blocks

definition HW_ISP_DEVICE_NUM :: int where
  "HW_ISP_DEVICE_NUM = 2"

datatype isp_callback = isp_subdev_handle_event | isp_stat_process_buffer

record 'm isp_slot =
  isp_use_cnt :: u32
  isp_opened :: bool \<comment> \<open>\<open>isp_dev[dev_id] != NULL\<close>\<close>
  isp_hw :: "'m hw_isp_device"
  hw_stat_fd :: int
  hw_subdev_fd :: int
  hw_sensor_fd :: int
  hw_buffer :: bool
  isp_tid :: bool \<comment> \<open>a created thread that is not joined\<close>
  isp_evs :: "isp_callback event_list"
  open_fds :: "int list" \<comment> \<open>the descriptors of this slot the process has open\<close>
  stat_bufs :: nat \<comment> \<open>the statistics buffers that are allocated\<close>

record 'm isp_media =
  isp_slots :: "'m isp_slot list"
  isp_mdev :: bool
  isp_sync_mode :: int

record 'm isp_env =
  media_ok :: bool
  dev_malloc_ok :: bool
  stat_ret :: int \<comment> \<open>the descriptor, or a negative error code\<close>
  h3a_cfg_ok :: bool
  stat_buf_ok :: bool
  subdev_ret :: int
  sensor_ret :: int
  params_parse :: "int \<Rightarrow> isp_param_config \<Rightarrow> int \<times> isp_param_config"
  ctx_setup :: "'m isp_lib_context \<Rightarrow> 'm isp_lib_context"
  algo_init :: "'m isp_lib_context \<Rightarrow> 'm isp_lib_context"
  algo_exit :: "'m isp_lib_context \<Rightarrow> 'm isp_lib_context"
  config_of :: "'m isp_lib_context \<Rightarrow> 'm isp_lib_context"
  tuning_malloc_ok :: bool
  create_ret :: int \<comment> \<open>what \<open>pthread_create\<close> returns\<close>
  thread_ends :: bool \<comment> \<open>the event loop ends without \<open>events_stop\<close>\<close>

definition isp_slot_at :: "'m isp_media \<Rightarrow> int \<Rightarrow> 'm isp_slot" where
  "isp_slot_at st dev_id = isp_slots st ! nat dev_id"

definition upd_slot :: "int \<Rightarrow> ('m isp_slot \<Rightarrow> 'm isp_slot) \<Rightarrow> 'm isp_media \<Rightarrow> 'm isp_media" where
  "upd_slot dev_id f st = st\<lparr>isp_slots := (isp_slots st)[nat dev_id := f (isp_slot_at st dev_id)]\<rparr>"

definition isp_dev_at :: "'m isp_media \<Rightarrow> int \<Rightarrow> 'm hw_isp_device option" where
  "isp_dev_at st dev_id =
     (if isp_opened (isp_slot_at st dev_id) then Some (isp_hw (isp_slot_at st dev_id)) else None)"

section \<open>Opening and closing the device nodes\<close>

text \<open>
  \<open>isp_dev_open\<close> on a slot. Every failure frees the device object, but none closes a node that is
  already open or frees the statistics buffer.
\<close>

definition isp_dev_open :: "'m isp_env \<Rightarrow> 'm isp_slot \<Rightarrow> int \<times> 'm isp_slot" where
  "isp_dev_open env sl =
     (if isp_opened sl then (0, sl)
      else if \<not> dev_malloc_ok env then (- 1, sl\<lparr>isp_opened := False\<rparr>)
      else if stat_ret env < 0 then (- 1, sl\<lparr>isp_opened := False\<rparr>)
      else let sl1 = sl\<lparr>open_fds := open_fds sl @ [stat_ret env]\<rparr> in
        if \<not> h3a_cfg_ok env \<or> \<not> stat_buf_ok env then (- 1, sl1\<lparr>isp_opened := False\<rparr>)
        else let sl2 = sl1\<lparr>stat_bufs := stat_bufs sl1 + 1\<rparr> in
          if subdev_ret env < 0 then (- 1, sl2\<lparr>isp_opened := False\<rparr>)
          else let sl3 = sl2\<lparr>open_fds := open_fds sl2 @ [subdev_ret env]\<rparr> in
            if sensor_ret env < 0 then (- 1, sl3\<lparr>isp_opened := False\<rparr>)
            else (0, sl3\<lparr>open_fds := open_fds sl3 @ [sensor_ret env],
                         hw_stat_fd := stat_ret env, hw_subdev_fd := subdev_ret env,
                         hw_sensor_fd := sensor_ret env, hw_buffer := True,
                         isp_hw := (isp_hw sl)\<lparr>dev_ctx := False, dev_tuning := None\<rparr>,
                         isp_opened := True\<rparr>))"

definition isp_dev_close :: "'m isp_slot \<Rightarrow> 'm isp_slot" where
  "isp_dev_close sl =
     (if \<not> isp_opened sl then sl
      else sl\<lparr>stat_bufs := (if hw_buffer sl then stat_bufs sl - 1 else stat_bufs sl), hw_buffer := False,
              open_fds := remove1 (hw_sensor_fd sl) (remove1 (hw_subdev_fd sl) (remove1 (hw_stat_fd sl) (open_fds sl))),
              isp_opened := False\<rparr>)"

section \<open>The server thread\<close>

text \<open>
  \<open>isp_dev_start\<close>: the subscriptions of the ISP node, its registration, the subscriptions of the
  statistics node and its registration; the first failing \<open>ioctl\<close> ends it. \<open>malloc1\<close> and \<open>malloc2\<close> are the
  allocations of the two registrations.
\<close>

definition isp_dev_start :: "int list \<Rightarrow> int list \<Rightarrow> bool \<Rightarrow> bool \<Rightarrow> int \<Rightarrow> int \<Rightarrow>
  isp_callback event_list \<Rightarrow> (int \<times> isp_callback event_list) option" where
  "isp_dev_start subdev_rets stat_rets malloc1 malloc2 subdev_fd stat_fd evs =
     (case find (\<lambda>r. r < 0) subdev_rets of
        Some r \<Rightarrow> Some (r, evs)
      | None \<Rightarrow>
          (case events_monitor_fd malloc1 evs subdev_fd HW_ISP_EVENT_EXCEPTION isp_subdev_handle_event of
             None \<Rightarrow> None
           | Some evs1 \<Rightarrow>
               (case find (\<lambda>r. r < 0) stat_rets of
                  Some r \<Rightarrow> Some (r, evs1)
                | None \<Rightarrow> map_option (\<lambda>e. (0, e))
                    (events_monitor_fd malloc2 evs1 stat_fd HW_ISP_EVENT_EXCEPTION isp_stat_process_buffer))))"

definition isp_dev_stop :: "int \<Rightarrow> int \<Rightarrow> isp_callback event_list \<Rightarrow> isp_callback event_list option" where
  "isp_dev_stop subdev_fd stat_fd evs =
     (case events_unmonitor_fd evs subdev_fd of
        None \<Rightarrow> None
      | Some evs1 \<Rightarrow> events_unmonitor_fd evs1 stat_fd)"

text \<open>
  \<open>__isp_thread\<close> on the rounds its loop sees. The outer option is the defined behaviour, the inner
  one whether the thread ended.
\<close>

definition isp_thread :: "(isp_callback \<Rightarrow> 's \<Rightarrow> 's \<times> bool) \<Rightarrow> int list \<Rightarrow> int list \<Rightarrow> bool \<Rightarrow> bool \<Rightarrow> loop_round list \<Rightarrow>
  int \<Rightarrow> int \<Rightarrow> isp_callback event_list \<Rightarrow> 's \<Rightarrow> (isp_callback event_list \<times> 's) option option" where
  "isp_thread run subdev_rets stat_rets malloc1 malloc2 rounds subdev_fd stat_fd evs s =
     (case isp_dev_start subdev_rets stat_rets malloc1 malloc2 subdev_fd stat_fd evs of
        None \<Rightarrow> None
      | Some (ret, evs1) \<Rightarrow>
          if ret < 0 then map_option (\<lambda>e. Some (e, s)) (isp_dev_stop subdev_fd stat_fd evs1)
          else (case events_loop run rounds evs1 s of
                  None \<Rightarrow> Some None
                | Some (_, evs2, s2) \<Rightarrow> map_option (\<lambda>e. Some (e, s2)) (isp_dev_stop subdev_fd stat_fd evs2)))"

section \<open>The life cycle calls\<close>

definition isp_set_sync :: "int \<Rightarrow> 'm isp_media \<Rightarrow> int \<times> 'm isp_media" where
  "isp_set_sync mode st = (if mode = 0 \<or> mode = 1 then (0, st\<lparr>isp_sync_mode := mode\<rparr>) else (- 1, st))"

definition media_dev_exit :: "'m isp_media \<Rightarrow> 'm isp_media" where
  "media_dev_exit st =
     (if isp_use_cnt (isp_slot_at st 0) = 0 \<and> isp_use_cnt (isp_slot_at st 1) = 0 then st\<lparr>isp_mdev := False\<rparr> else st)"

definition isp_reset :: "'m isp_env \<Rightarrow> int \<Rightarrow> 'm isp_media \<Rightarrow> (int \<times> 'm isp_media) outcome" where
  "isp_reset env dev_id st =
     (if dev_id \<ge> HW_ISP_DEVICE_NUM then Ret (- 1, st)
      else if dev_id < 0 then Ub
      else case isp_dev_at st dev_id of
        None \<Rightarrow> Ret (- 1, st)
      | Some isp \<Rightarrow>
          (let cfg = snd (params_parse env (isp_sync_mode st) (isp_ini_cfg (ctx_object isp)));
               isp1 = isp\<lparr>ctx_object := (ctx_object isp)\<lparr>isp_ini_cfg := cfg\<rparr>\<rparr>;
               (ret, isp2) = isp_tuning_reset (config_of env) isp1 cfg
           in Ret (ret, upd_slot dev_id (\<lambda>sl. sl\<lparr>isp_hw := isp2\<rparr>) st)))"

text \<open>The part of \<open>isp_init\<close> after the device is open: the context, its configuration and the tuning object.\<close>

definition isp_configure :: "'m isp_env \<Rightarrow> int \<Rightarrow> 'm isp_media \<Rightarrow> bool \<times> 'm hw_isp_device" where
  "isp_configure env dev_id st =
     (let isp = isp_dev_banding_ctx (isp_hw (isp_slot_at st dev_id));
          ctx1 = ctx_setup env (ctx_object isp);
          (ret, cfg) = params_parse env (isp_sync_mode st) (isp_ini_cfg ctx1);
          cfg1 = (if ret < 0 \<and> dev_id \<ge> 1 then isp_ini_cfg (ctx_object (isp_hw (isp_slot_at st 0))) else cfg);
          ctx2 = algo_init env (ctx1\<lparr>isp_ini_cfg := cfg1\<rparr>)
      in isp_tuning_init (config_of env) (tuning_malloc_ok env) (isp\<lparr>ctx_object := ctx2\<rparr>) (isp_ini_cfg ctx2))"

definition isp_init :: "'m isp_env \<Rightarrow> int \<Rightarrow> 'm isp_media \<Rightarrow> (int \<times> 'm isp_media) outcome" where
  "isp_init env dev_id st =
     (if dev_id \<ge> HW_ISP_DEVICE_NUM then Ret (- 1, st)
      else if dev_id < 0 then Ub
      else let cnt = isp_use_cnt (isp_slot_at st dev_id);
               st1 = upd_slot dev_id (\<lambda>sl. sl\<lparr>isp_use_cnt := cnt + 1\<rparr>) st
        in if cnt > 0 then Ret (0, st1)
           else let st2 = st1\<lparr>isp_mdev := media_ok env\<rparr> in
             if \<not> media_ok env then Ret (- 1, st2)
             else let (ret, sl) = isp_dev_open env (isp_slot_at st2 dev_id);
                      st3 = upd_slot dev_id (\<lambda>_. sl) st2
               in if ret < 0 then Ret (ret, st3)
                  else if \<not> isp_opened sl then Ret (- 1, st3)
                  else let (ok, isp) = isp_configure env dev_id st3;
                           st4 = upd_slot dev_id (\<lambda>sl. sl\<lparr>isp_hw := isp\<rparr>) st3
                    in if \<not> ok then Ret (- 1, st4)
                       else Ret (0, upd_slot dev_id (\<lambda>sl. sl\<lparr>isp_evs := events_star events_init\<rparr>) st4))"

definition isp_update :: "'m isp_env \<Rightarrow> int \<Rightarrow> 'm isp_media \<Rightarrow> (int \<times> 'm isp_media) outcome" where
  "isp_update env dev_id st =
     (if dev_id \<ge> HW_ISP_DEVICE_NUM then Ret (- 1, st)
      else if dev_id < 0 then Ub
      else case isp_dev_at st dev_id of
        None \<Rightarrow> Ret (- 1, st)
      | Some isp \<Rightarrow>
          (case isp_tuning_update (config_of env) isp of
             (ret, isp1) \<Rightarrow> Ret (ret, upd_slot dev_id (\<lambda>sl. sl\<lparr>isp_hw := isp1\<rparr>) st)))"

definition isp_stop :: "int \<Rightarrow> 'm isp_media \<Rightarrow> (int \<times> 'm isp_media) outcome" where
  "isp_stop dev_id st =
     (if dev_id \<ge> HW_ISP_DEVICE_NUM then Ret (- 1, st)
      else if dev_id < 0 then Ub
      else if isp_use_cnt (isp_slot_at st dev_id) = 1
        then Ret (0, upd_slot dev_id (\<lambda>sl. sl\<lparr>isp_evs := events_stop (isp_evs sl)\<rparr>) st)
        else Ret (0, st))"

definition isp_exit :: "'m isp_env \<Rightarrow> int \<Rightarrow> 'm isp_media \<Rightarrow> (int \<times> 'm isp_media) outcome" where
  "isp_exit env dev_id st =
     (if dev_id \<ge> HW_ISP_DEVICE_NUM then Ret (- 1, st)
      else if dev_id < 0 then Ub
      else let cnt = isp_use_cnt (isp_slot_at st dev_id) in
        if cnt = 0 then Ret (0, st)
        else let st1 = upd_slot dev_id (\<lambda>sl. sl\<lparr>isp_use_cnt := cnt - 1\<rparr>) st in
          if cnt - 1 > 0 then Ret (0, st1)
          else case isp_dev_at st1 dev_id of
            None \<Rightarrow> Ret (- 1, st1)
          | Some isp \<Rightarrow>
              if \<not> isp_tid (isp_slot_at st1 dev_id) then Ub
              else if \<not> thread_ends env \<and> \<not> ev_done (isp_evs (isp_slot_at st1 dev_id)) then Blocks
              else let isp1 = isp_tuning_exit isp;
                       isp2 = isp1\<lparr>ctx_object := algo_exit env (ctx_object isp1)\<rparr>
                in Ret (0, upd_slot dev_id (\<lambda>sl. isp_dev_close (sl\<lparr>isp_tid := False, isp_hw := isp2\<rparr>)) st1))"

definition isp_run :: "'m isp_env \<Rightarrow> int \<Rightarrow> 'm isp_media \<Rightarrow> (int \<times> 'm isp_media) outcome" where
  "isp_run env dev_id st =
     (if dev_id \<ge> HW_ISP_DEVICE_NUM then Ret (- 1, st)
      else if dev_id < 0 then Ub
      else if isp_use_cnt (isp_slot_at st dev_id) > 1 then Ret (0, st)
      else case isp_dev_at st dev_id of
        None \<Rightarrow> Ret (- 1, st)
      | Some isp \<Rightarrow>
          if create_ret env \<noteq> 0 then Ret (create_ret env, st)
          else Ret (0, upd_slot dev_id (\<lambda>sl. sl\<lparr>isp_tid := True\<rparr>) st))"

definition isp_get_cfg :: "int \<Rightarrow> byte \<Rightarrow> u32 \<Rightarrow> byte list option \<Rightarrow> 'm isp_media \<Rightarrow>
  (int \<times> byte list option) outcome" where
  "isp_get_cfg dev_id group_id cfg_ids cfg_data st =
     (if dev_id \<ge> HW_ISP_DEVICE_NUM then Ret (- 1, cfg_data)
      else if dev_id < 0 then Ub
      else case isp_dev_at st dev_id of
        None \<Rightarrow> Ret (- 1, cfg_data)
      | Some isp \<Rightarrow>
          (case isp_tuning_get_cfg (Some isp) group_id cfg_ids cfg_data of None \<Rightarrow> Ub | Some r \<Rightarrow> Ret r))"

definition isp_set_cfg :: "int \<Rightarrow> byte \<Rightarrow> u32 \<Rightarrow> byte list option \<Rightarrow> 'm isp_media \<Rightarrow>
  (int \<times> 'm isp_media \<times> byte list option) outcome" where
  "isp_set_cfg dev_id group_id cfg_ids cfg_data st =
     (if dev_id \<ge> HW_ISP_DEVICE_NUM then Ret (- 1, st, cfg_data)
      else if dev_id < 0 then Ub
      else case isp_dev_at st dev_id of
        None \<Rightarrow> Ret (- 1, st, cfg_data)
      | Some isp \<Rightarrow>
          (case isp_tuning_set_cfg (Some isp) group_id cfg_ids cfg_data of
             None \<Rightarrow> Ub
           | Some (ret, isp1, data) \<Rightarrow>
               Ret (ret, upd_slot dev_id (\<lambda>sl. sl\<lparr>isp_hw := the isp1\<rparr>) st, data)))"

text \<open>
  The two calls the camera HAL makes (\<open>AWIspApi.cpp\<close>); the result is the last return value, of which
  the API reports only the sign. \<open>isp_pthread_join\<close> returns 0 and does nothing else.
\<close>

definition awIspStart :: "'m isp_env \<Rightarrow> int \<Rightarrow> 'm isp_media \<Rightarrow> (int \<times> 'm isp_media) outcome" where
  "awIspStart env isp_id st =
     (case isp_init env isp_id st of Ret (_, st1) \<Rightarrow> isp_run env isp_id st1 | r \<Rightarrow> r)"

definition awIspStop :: "'m isp_env \<Rightarrow> int \<Rightarrow> 'm isp_media \<Rightarrow> (int \<times> 'm isp_media) outcome" where
  "awIspStop env isp_id st =
     (case isp_stop isp_id st of Ret (_, st1) \<Rightarrow> isp_exit env isp_id st1 | r \<Rightarrow> r)"

section \<open>Slots\<close>

lemma slot_at_upd_same [simp]:
  "length (isp_slots st) = 2 \<Longrightarrow> 0 \<le> d \<Longrightarrow> d < 2 \<Longrightarrow> isp_slot_at (upd_slot d f st) d = f (isp_slot_at st d)"
  by (simp add: isp_slot_at_def upd_slot_def)

lemma slot_at_upd_other [simp]:
  "0 \<le> d \<Longrightarrow> 0 \<le> k \<Longrightarrow> d \<noteq> k \<Longrightarrow> isp_slot_at (upd_slot d f st) k = isp_slot_at st k"
  by (simp add: isp_slot_at_def upd_slot_def)

lemma upd_slot_frame [simp]:
  "length (isp_slots (upd_slot d f st)) = length (isp_slots st)"
  "isp_mdev (upd_slot d f st) = isp_mdev st" "isp_sync_mode (upd_slot d f st) = isp_sync_mode st"
  by (simp_all add: upd_slot_def)

lemma slot_at_mdev [simp]: "isp_slot_at (st\<lparr>isp_mdev := b\<rparr>) d = isp_slot_at st d"
  by (simp add: isp_slot_at_def)

lemma upd_slot_upd_slot [simp]:
  "length (isp_slots st) = 2 \<Longrightarrow> 0 \<le> d \<Longrightarrow> d < 2 \<Longrightarrow> upd_slot d f (upd_slot d g st) = upd_slot d (f \<circ> g) st"
  by (simp add: upd_slot_def isp_slot_at_def)

lemma slots_two:
  assumes "length (isp_slots st) = 2" "0 \<le> k" "k < 2"
  shows "isp_slot_at st k \<in> set (isp_slots st)"
  using assms by (simp add: isp_slot_at_def)

lemma all_slots:
  assumes "length (isp_slots st) = 2"
  shows "(\<forall>sl \<in> set (isp_slots st). P sl) \<longleftrightarrow> P (isp_slot_at st 0) \<and> P (isp_slot_at st 1)"
  using assms by (auto simp: isp_slot_at_def set_conv_nth less_2_cases_iff)

lemma dev_cases:
  assumes "0 \<le> (d :: int)" "d < HW_ISP_DEVICE_NUM"
  obtains "d = 0" | "d = 1"
  using assms by (fastforce simp: HW_ISP_DEVICE_NUM_def)

section \<open>Counted use of a device\<close>

text \<open>
  The contract of a counted resource: \<open>acquire\<close> and \<open>release\<close> of a key succeed in a healthy
  environment, and move only the count of their key.
\<close>

datatype ('k, 'e) use_op = Start 'k 'e | Stop 'k 'e

fun run_uses :: "('k \<Rightarrow> 'e \<Rightarrow> 's \<Rightarrow> (int \<times> 's) outcome) \<Rightarrow> ('k \<Rightarrow> 'e \<Rightarrow> 's \<Rightarrow> (int \<times> 's) outcome) \<Rightarrow>
  ('k, 'e) use_op list \<Rightarrow> 's \<Rightarrow> (int list \<times> 's) outcome" where
  "run_uses acq rel [] s = Ret ([], s)"
| "run_uses acq rel (u # us) s =
     (case (case u of Start k e \<Rightarrow> acq k e s | Stop k e \<Rightarrow> rel k e s) of
        Ret (r, s1) \<Rightarrow> (case run_uses acq rel us s1 of Ret (rs, s2) \<Rightarrow> Ret (r # rs, s2) | Ub \<Rightarrow> Ub | Blocks \<Rightarrow> Blocks)
      | Ub \<Rightarrow> Ub
      | Blocks \<Rightarrow> Blocks)"

fun count_uses :: "('k, 'e) use_op list \<Rightarrow> ('k \<Rightarrow> nat) \<Rightarrow> 'k \<Rightarrow> nat" where
  "count_uses [] c = c"
| "count_uses (Start k e # us) c = count_uses us (c(k := Suc (c k)))"
| "count_uses (Stop k e # us) c = count_uses us (c(k := c k - 1))"

fun use_key :: "('k, 'e) use_op \<Rightarrow> 'k" where
  "use_key (Start k e) = k"
| "use_key (Stop k e) = k"

fun use_env :: "('k, 'e) use_op \<Rightarrow> 'e" where
  "use_env (Start k e) = e"
| "use_env (Stop k e) = e"

locale counted_use =
  fixes acquire release :: "'k \<Rightarrow> 'e \<Rightarrow> 's \<Rightarrow> (int \<times> 's) outcome"
    and key :: "'k \<Rightarrow> bool" and healthy :: "'e \<Rightarrow> bool" and inv :: "'s \<Rightarrow> bool"
    and count :: "'s \<Rightarrow> 'k \<Rightarrow> nat" and limit :: nat
  assumes acquire_ok: "inv s \<Longrightarrow> key k \<Longrightarrow> healthy e \<Longrightarrow> Suc (count s k) < limit \<Longrightarrow>
      \<exists>s'. acquire k e s = Ret (0, s') \<and> inv s' \<and> (\<forall>j. key j \<longrightarrow> count s' j = ((count s)(k := Suc (count s k))) j)"
    and release_ok: "inv s \<Longrightarrow> key k \<Longrightarrow> healthy e \<Longrightarrow> count s k < limit \<Longrightarrow>
      \<exists>s'. release k e s = Ret (0, s') \<and> inv s' \<and> (\<forall>j. key j \<longrightarrow> count s' j = ((count s)(k := count s k - 1)) j)"
begin

lemma uses_simulate:
  assumes "inv s" "\<forall>u \<in> set us. key (use_key u) \<and> healthy (use_env u)"
    and "\<forall>j. key j \<longrightarrow> c j = count s j \<and> c j + length us < limit"
  shows "\<exists>s'. run_uses acquire release us s = Ret (replicate (length us) 0, s') \<and> inv s' \<and>
    (\<forall>j. key j \<longrightarrow> count s' j = count_uses us c j)"
  using assms
proof (induction us arbitrary: s c)
  case (Cons u us)
  define c' where "c' = count_uses [u] c"
  have k: "key (use_key u)" "healthy (use_env u)" and l: "Suc (c (use_key u)) < limit" "c (use_key u) = count s (use_key u)"
    using Cons.prems by auto
  have "\<exists>s'. (case u of Start k e \<Rightarrow> acquire k e s | Stop k e \<Rightarrow> release k e s) = Ret (0, s') \<and> inv s' \<and>
      (\<forall>j. key j \<longrightarrow> count s' j = c' j)"
    using acquire_ok [OF Cons.prems(1) k] release_ok [OF Cons.prems(1) k] l Cons.prems(3)
    by (cases u) (fastforce simp: c'_def)+
  then obtain s' where s': "(case u of Start k e \<Rightarrow> acquire k e s | Stop k e \<Rightarrow> release k e s) = Ret (0, s')"
    "inv s'" "\<forall>j. key j \<longrightarrow> count s' j = c' j" by blast
  have "\<forall>j. key j \<longrightarrow> c' j = count s' j \<and> c' j + length us < limit"
    using s'(3) Cons.prems(3) by (cases u) (fastforce simp: c'_def)+
  moreover have "count_uses (u # us) c = count_uses us c'"
    by (cases u) (simp_all add: c'_def)
  moreover have "\<forall>u \<in> set us. key (use_key u) \<and> healthy (use_env u)"
    using Cons.prems(2) by simp
  ultimately show ?case
    using Cons.IH [OF s'(2), of c'] s'(1) by fastforce
qed auto

end

section \<open>The device invariant\<close>

text \<open>
  A slot that is not in use holds no device, no thread, no descriptor and no buffer; a slot in use holds a device
  bound to its context and tuning object, a server thread, exactly its three descriptors and one buffer.
\<close>

definition slot_inv :: "'m isp_slot \<Rightarrow> bool" where
  "slot_inv sl \<longleftrightarrow>
     (if isp_use_cnt sl = 0 then \<not> isp_opened sl \<and> \<not> isp_tid sl \<and> open_fds sl = [] \<and> stat_bufs sl = 0
      else isp_opened sl \<and> isp_tid sl \<and> hw_buffer sl \<and> stat_bufs sl = 1 \<and>
        open_fds sl = [hw_stat_fd sl, hw_subdev_fd sl, hw_sensor_fd sl] \<and>
        dev_ctx (isp_hw sl) \<and> (\<exists>t. dev_tuning (isp_hw sl) = Some t \<and> tuning_ctx t))"

definition media_inv :: "'m isp_media \<Rightarrow> bool" where
  "media_inv st \<longleftrightarrow> length (isp_slots st) = 2 \<and> slot_inv (isp_slot_at st 0) \<and> slot_inv (isp_slot_at st 1)"

definition healthy_env :: "'m isp_env \<Rightarrow> bool" where
  "healthy_env env \<longleftrightarrow> media_ok env \<and> dev_malloc_ok env \<and> 0 \<le> stat_ret env \<and> h3a_cfg_ok env \<and>
     stat_buf_ok env \<and> 0 \<le> subdev_ret env \<and> 0 \<le> sensor_ret env \<and> tuning_malloc_ok env \<and> create_ret env = 0"

definition use_count :: "'m isp_media \<Rightarrow> int \<Rightarrow> nat" where
  "use_count st d = unat (isp_use_cnt (isp_slot_at st d))"

abbreviation (input) isp_key :: "int \<Rightarrow> bool" where
  "isp_key d \<equiv> 0 \<le> d \<and> d < HW_ISP_DEVICE_NUM"

lemma unat_Suc_word:
  assumes "Suc (unat (w :: u32)) < 2 ^ 32"
  shows "unat (w + 1) = Suc (unat w) \<and> w + 1 \<noteq> 0"
proof -
  have "unat (w + 1) = Suc (unat w)"
    using assms by (simp add: unat_word_ariths)
  then show ?thesis by (metis nat.distinct(1) unat_0)
qed

lemma unat_pred_word: "(w :: u32) \<noteq> 0 \<Longrightarrow> unat (w - 1) = unat w - 1"
  by (simp add: unat_minus_one)

lemma isp_configure_healthy:
  assumes "tuning_malloc_ok env"
  shows "\<exists>hw t. isp_configure env d st = (True, hw) \<and> dev_ctx hw \<and> dev_tuning hw = Some t \<and> tuning_ctx t"
  using assms
  by (auto simp: isp_configure_def isp_tuning_init_def isp_dev_banding_ctx_def isp_dev_get_ctx_def
      isp_dev_banding_tuning_def Let_def split: prod.split)

lemma media_inv_upd:
  assumes "media_inv st" "isp_key d" "slot_inv (f (isp_slot_at st d))"
  shows "media_inv (upd_slot d f st)"
  using assms by (auto simp: media_inv_def elim!: dev_cases)

lemma media_inv_slot: "media_inv st \<Longrightarrow> isp_key d \<Longrightarrow> slot_inv (isp_slot_at st d)"
  by (auto simp: media_inv_def elim: dev_cases)

text \<open>Starting and stopping a slot in one step each, in a healthy environment.\<close>

lemma isp_init_first:
  assumes "media_inv st" "isp_key d" "healthy_env env" "isp_use_cnt (isp_slot_at st d) = 0"
  obtains st3 sl hw where "isp_init env d st =
      Ret (0, upd_slot d (\<lambda>sl. sl\<lparr>isp_hw := hw, isp_evs := events_star events_init\<rparr>) st3)"
    "isp_configure env d st3 = (True, hw)" "isp_slot_at st3 d = sl"
    "isp_opened sl" "isp_use_cnt sl = 1" "hw_buffer sl" "stat_bufs sl = 1"
    "open_fds sl = [hw_stat_fd sl, hw_subdev_fd sl, hw_sensor_fd sl]"
    "isp_hw sl = (isp_hw (isp_slot_at st d))\<lparr>dev_ctx := False, dev_tuning := None\<rparr>"
    "length (isp_slots st3) = 2" "isp_sync_mode st3 = isp_sync_mode st"
    "\<And>j. 0 \<le> j \<Longrightarrow> j \<noteq> d \<Longrightarrow> isp_slot_at st3 j = isp_slot_at st j"
proof -
  define st2 where "st2 = (upd_slot d (\<lambda>sl. sl\<lparr>isp_use_cnt := 1\<rparr>) st)\<lparr>isp_mdev := True\<rparr>"
  define sl where "sl = snd (isp_dev_open env (isp_slot_at st2 d))"
  define st3 where "st3 = upd_slot d (\<lambda>_. sl) st2"
  have d: "0 \<le> d" "d < 2" and len: "length (isp_slots st) = 2" "length (isp_slots st2) = 2" "length (isp_slots st3) = 2"
    using assms(1,2) by (simp_all add: media_inv_def HW_ISP_DEVICE_NUM_def st2_def st3_def)
  have sl0: "slot_inv (isp_slot_at st d)" by (rule media_inv_slot [OF assms(1,2)])
  have op: "isp_dev_open env (isp_slot_at st2 d) = (0, sl)" "isp_opened sl" "isp_use_cnt sl = 1" "hw_buffer sl"
    "open_fds sl = [hw_stat_fd sl, hw_subdev_fd sl, hw_sensor_fd sl]" "stat_bufs sl = 1"
    "isp_hw sl = (isp_hw (isp_slot_at st d))\<lparr>dev_ctx := False, dev_tuning := None\<rparr>"
    using assms(3,4) sl0 d len
    by (auto simp: sl_def isp_dev_open_def healthy_env_def slot_inv_def st2_def Let_def)
  obtain hw where cf: "isp_configure env d st3 = (True, hw)"
    using isp_configure_healthy assms(3) unfolding healthy_env_def by blast
  have "isp_init env d st =
      Ret (0, upd_slot d ((\<lambda>sl. sl\<lparr>isp_evs := events_star events_init\<rparr>) \<circ> (\<lambda>sl. sl\<lparr>isp_hw := hw\<rparr>)) st3)"
    using d len(1) assms(3,4) op(1) [unfolded st2_def] op(2) cf [unfolded st3_def st2_def]
    unfolding st3_def st2_def
    by (simp add: isp_init_def HW_ISP_DEVICE_NUM_def healthy_env_def Let_def comp_assoc)
  then show ?thesis
    using that [of hw st3 sl] cf op len d
    by (simp add: comp_def st3_def st2_def)
qed

lemma awIspStart_first:
  assumes "media_inv st" "isp_key d" "healthy_env env" "isp_use_cnt (isp_slot_at st d) = 0"
  shows "\<exists>st'. awIspStart env d st = Ret (0, st') \<and> media_inv st' \<and>
    isp_use_cnt (isp_slot_at st' d) = 1 \<and> (\<forall>j. 0 \<le> j \<and> j \<noteq> d \<longrightarrow> isp_slot_at st' j = isp_slot_at st j)"
proof -
  from isp_init_first [OF assms] obtain st3 sl hw where i: "isp_init env d st =
      Ret (0, upd_slot d (\<lambda>sl. sl\<lparr>isp_hw := hw, isp_evs := events_star events_init\<rparr>) st3)"
    "isp_configure env d st3 = (True, hw)" "isp_slot_at st3 d = sl"
    "isp_opened sl" "isp_use_cnt sl = 1" "hw_buffer sl" "stat_bufs sl = 1"
    "open_fds sl = [hw_stat_fd sl, hw_subdev_fd sl, hw_sensor_fd sl]"
    and len: "length (isp_slots st3) = 2"
    and other: "\<And>j. 0 \<le> j \<Longrightarrow> j \<noteq> d \<Longrightarrow> isp_slot_at st3 j = isp_slot_at st j" by metis
  have d: "0 \<le> d" "d < 2" using assms(2) by (simp_all add: HW_ISP_DEVICE_NUM_def)
  obtain t where hw: "dev_ctx hw" "dev_tuning hw = Some t" "tuning_ctx t"
    using isp_configure_healthy [of env d st3] assms(3) i(2) unfolding healthy_env_def by auto
  let ?st' = "upd_slot d (\<lambda>sl. sl\<lparr>isp_hw := hw, isp_evs := events_star events_init, isp_tid := True\<rparr>) st3"
  have "awIspStart env d st = Ret (0, ?st')"
    using d len assms(3) i(3-5)
    by (simp add: awIspStart_def i(1) isp_run_def HW_ISP_DEVICE_NUM_def isp_dev_at_def healthy_env_def comp_def)
  moreover have "slot_inv (isp_slot_at ?st' d)" "isp_use_cnt (isp_slot_at ?st' d) = 1"
    using d len i hw by (simp_all add: slot_inv_def)
  moreover have oth: "0 \<le> j \<and> j \<noteq> d \<longrightarrow> isp_slot_at ?st' j = isp_slot_at st j" for j
    using d other by simp
  moreover have "media_inv ?st'"
    using assms(1,2) calculation(2) oth [of 0] oth [of 1] len by (auto simp: media_inv_def elim!: dev_cases)
  ultimately show ?thesis by blast
qed

lemma awIspStart_next:
  assumes "media_inv st" "isp_key d" "isp_use_cnt (isp_slot_at st d) \<noteq> 0" "Suc (use_count st d) < 2 ^ 32"
  shows "awIspStart env d st = Ret (0, upd_slot d (\<lambda>sl. sl\<lparr>isp_use_cnt := isp_use_cnt sl + 1\<rparr>) st)"
proof -
  let ?c = "isp_use_cnt (isp_slot_at st d)"
  have d: "0 \<le> d" "d < 2" "length (isp_slots st) = 2"
    using assms(1,2) by (simp_all add: media_inv_def HW_ISP_DEVICE_NUM_def)
  have "1 < ?c + 1"
    using assms(3,4) unat_Suc_word [of ?c] by (simp add: use_count_def word_less_nat_alt unat_gt_0)
  moreover have "0 < ?c" using assms(3) by (simp add: word_neq_0_conv)
  ultimately show ?thesis
    using d by (simp add: awIspStart_def isp_init_def isp_run_def HW_ISP_DEVICE_NUM_def upd_slot_def isp_slot_at_def)
qed

lemma awIspStop_last:
  assumes "media_inv st" "isp_key d" "isp_use_cnt (isp_slot_at st d) = 1"
  shows "\<exists>st'. awIspStop env d st = Ret (0, st') \<and> media_inv st' \<and>
    isp_use_cnt (isp_slot_at st' d) = 0 \<and> (\<forall>j. 0 \<le> j \<and> j \<noteq> d \<longrightarrow> isp_slot_at st' j = isp_slot_at st j)"
proof -
  have d: "0 \<le> d" "d < 2" "length (isp_slots st) = 2"
    using assms(1,2) by (simp_all add: media_inv_def HW_ISP_DEVICE_NUM_def)
  have inv: "slot_inv (isp_slot_at st d)" by (rule media_inv_slot [OF assms(1,2)])
  obtain f where e: "awIspStop env d st = Ret (0, upd_slot d f st)" and
    f: "slot_inv (f (isp_slot_at st d))" "isp_use_cnt (f (isp_slot_at st d)) = 0"
    using d assms(3) inv
    by (simp add: awIspStop_def isp_stop_def isp_exit_def HW_ISP_DEVICE_NUM_def isp_dev_at_def slot_inv_def Let_def
        events_stop_def isp_dev_close_def)
  show ?thesis
    using e media_inv_upd [of st d f] assms(1,2) f d by auto
qed

lemma awIspStop_more:
  assumes "media_inv st" "isp_key d" "isp_use_cnt (isp_slot_at st d) \<noteq> 0" "isp_use_cnt (isp_slot_at st d) \<noteq> 1"
  shows "awIspStop env d st = Ret (0, upd_slot d (\<lambda>sl. sl\<lparr>isp_use_cnt := isp_use_cnt sl - 1\<rparr>) st)"
proof -
  have d: "0 \<le> d" "d < 2" "length (isp_slots st) = 2"
    using assms(1,2) by (simp_all add: media_inv_def HW_ISP_DEVICE_NUM_def)
  have "0 < isp_use_cnt (isp_slot_at st d) - 1"
    using assms(4) by (metis eq_iff_diff_eq_0 word_neq_0_conv)
  then show ?thesis
    using d assms(3,4) by (simp add: awIspStop_def isp_stop_def isp_exit_def HW_ISP_DEVICE_NUM_def upd_slot_def isp_slot_at_def)
qed

lemma awIspStop_none:
  assumes "isp_key d" "isp_use_cnt (isp_slot_at st d) = 0"
  shows "awIspStop env d st = Ret (0, st)"
  using assms by (simp add: awIspStop_def isp_stop_def isp_exit_def)

lemma start_simulates:
  assumes "media_inv st" "isp_key d" "healthy_env env" "Suc (use_count st d) < 2 ^ 32"
  shows "\<exists>st'. awIspStart env d st = Ret (0, st') \<and> media_inv st' \<and>
    (\<forall>j. isp_key j \<longrightarrow> use_count st' j = ((use_count st)(d := Suc (use_count st d))) j)"
proof (cases "isp_use_cnt (isp_slot_at st d) = 0")
  case True
  then show ?thesis
    using awIspStart_first [OF assms(1-3)] by (fastforce simp: use_count_def)
next
  case False
  have w: "unat (isp_use_cnt (isp_slot_at st d) + 1) = Suc (use_count st d)" "isp_use_cnt (isp_slot_at st d) + 1 \<noteq> 0"
    using unat_Suc_word assms(4) by (auto simp: use_count_def)
  have "slot_inv ((isp_slot_at st d)\<lparr>isp_use_cnt := isp_use_cnt (isp_slot_at st d) + 1\<rparr>)"
    using media_inv_slot [OF assms(1,2)] False w(2) by (simp add: slot_inv_def)
  moreover have "0 \<le> d" "d < 2" "length (isp_slots st) = 2"
    using assms(1,2) by (simp_all add: media_inv_def HW_ISP_DEVICE_NUM_def)
  ultimately show ?thesis
    using awIspStart_next [OF assms(1,2) False assms(4)] media_inv_upd [OF assms(1,2)] w(1)
    by (auto simp: use_count_def)
qed

lemma stop_simulates:
  assumes "media_inv st" "isp_key d"
  shows "\<exists>st'. awIspStop env d st = Ret (0, st') \<and> media_inv st' \<and>
    (\<forall>j. isp_key j \<longrightarrow> use_count st' j = ((use_count st)(d := use_count st d - 1)) j)"
proof -
  consider "isp_use_cnt (isp_slot_at st d) = 0" | "isp_use_cnt (isp_slot_at st d) = 1"
    | "isp_use_cnt (isp_slot_at st d) \<noteq> 0" "isp_use_cnt (isp_slot_at st d) \<noteq> 1" by blast
  then show ?thesis
  proof cases
    case 1
    then show ?thesis using awIspStop_none [OF assms(2) 1, of env] assms(1) by (auto simp: use_count_def)
  next
    case 2
    then show ?thesis using awIspStop_last [OF assms, of env] by (fastforce simp: use_count_def)
  next
    case 3
    have "slot_inv ((isp_slot_at st d)\<lparr>isp_use_cnt := isp_use_cnt (isp_slot_at st d) - 1\<rparr>)"
      using media_inv_slot [OF assms] 3 by (simp add: slot_inv_def)
    moreover have "0 \<le> d" "d < 2" "length (isp_slots st) = 2"
      using assms by (simp_all add: media_inv_def HW_ISP_DEVICE_NUM_def)
    ultimately show ?thesis
      using awIspStop_more [OF assms 3] media_inv_upd [OF assms] unat_pred_word [OF 3(1)]
      by (auto simp: use_count_def)
  qed
qed

interpretation isp_use: counted_use "\<lambda>d env. awIspStart env d" "\<lambda>d env. awIspStop env d"
  isp_key healthy_env media_inv use_count "2 ^ 32"
  using start_simulates stop_simulates by unfold_locales blast+

section \<open>The server thread leaves no registration behind\<close>

lemma find_neg_Some: "find (\<lambda>r. r < 0) rs = Some (r :: int) \<Longrightarrow> r < 0"
  by (auto simp: find_Some_iff)

lemma stop_two:
  assumes "fd_valid a" "fd_valid b" "a \<noteq> b"
    and "events_wf evs" "ev_events evs = xs @ ys"
    and "xs = [] \<or> map ev_fd xs = [a]" "ys = [] \<or> map ev_fd ys = [b]"
  shows "\<exists>evs'. isp_dev_stop a b evs = Some evs' \<and> events_wf evs' \<and> ev_events evs' = []"
proof -
  have one: "\<exists>evs'. events_unmonitor_fd evs c = Some evs' \<and> events_wf evs' \<and> ev_events evs' = us @ ws"
    if "events_wf evs" "ev_events evs = us @ vs @ ws" "vs = [] \<or> map ev_fd vs = [c]" "c \<notin> ev_fd ` set (us @ ws)"
    for evs :: "isp_callback event_list" and c us vs ws
  proof (cases vs)
    case Nil
    then show ?thesis
      using that unmonitor_absent [of c evs] by auto
  next
    case (Cons v vs')
    then have "ev_events evs = us @ v # ws" "ev_fd v = c" using that by auto
    then show ?thesis using unmonitor_wf [OF that(1)] unmonitor_split [OF that(1)] by metis
  qed
  have "a \<notin> ev_fd ` set ([] @ ys)" using assms(3,7) by auto
  then obtain evs1 where 1: "events_unmonitor_fd evs a = Some evs1" "events_wf evs1" "ev_events evs1 = ys"
    using one [of evs "[]" xs ys a] assms by auto
  obtain evs2 where "events_unmonitor_fd evs1 b = Some evs2" "events_wf evs2" "ev_events evs2 = []"
    using one [of evs1 "[]" ys "[]" b] 1 assms by auto
  then show ?thesis using 1 by (simp add: isp_dev_stop_def)
qed

lemma start_shape:
  assumes "fd_valid a" "fd_valid b" "a \<noteq> b" "events_wf evs" "ev_events evs = []"
  shows "\<exists>r evs1 xs ys. isp_dev_start rs1 rs2 m1 m2 a b evs = Some (r, evs1) \<and> events_wf evs1 \<and>
    ev_events evs1 = xs @ ys \<and> (xs = [] \<or> map ev_fd xs = [a]) \<and> (ys = [] \<or> map ev_fd ys = [b])"
proof (cases "find (\<lambda>r. r < 0) rs1")
  case (Some r)
  then have "isp_dev_start rs1 rs2 m1 m2 a b evs = Some (r, evs)" by (simp add: isp_dev_start_def)
  then show ?thesis using assms(4,5) by auto
next
  case None
  obtain evs1 where 1: "events_monitor_fd m1 evs a HW_ISP_EVENT_EXCEPTION isp_subdev_handle_event = Some evs1"
    "ev_events evs1 = [] \<or> map ev_fd (ev_events evs1) = [a]"
    using assms by (cases m1) (auto simp: events_monitor_fd_def Let_def)
  have w1: "events_wf evs1" using monitor_wf [OF assms(4) _ 1(1)] assms(5) by simp
  show ?thesis
  proof (cases "find (\<lambda>r. r < 0) rs2")
    case (Some r)
    then have "isp_dev_start rs1 rs2 m1 m2 a b evs = Some (r, evs1)"
      using None 1(1) by (simp add: isp_dev_start_def)
    then show ?thesis
      using 1(2) w1 by (intro exI [of _ r] exI [of _ evs1] exI [of _ "ev_events evs1"] exI [of _ "[]"]) simp
  next
    case n2: None
    obtain evs2 ys where 2: "events_monitor_fd m2 evs1 b HW_ISP_EVENT_EXCEPTION isp_stat_process_buffer = Some evs2"
      "ev_events evs2 = ev_events evs1 @ ys" "ys = [] \<or> map ev_fd ys = [b]"
      using assms by (cases m2) (auto simp: events_monitor_fd_def Let_def)
    have "b \<notin> ev_fd ` set (ev_events evs1)" using 1(2) assms(3) by (metis empty_iff empty_set image_set list.simps(15) list.simps(8) singletonD)
    then have "events_wf evs2" using monitor_wf [OF w1 _ 2(1)] by simp
    moreover have "isp_dev_start rs1 rs2 m1 m2 a b evs = Some (0, evs2)"
      using None n2 1(1) 2(1) by (simp add: isp_dev_start_def)
    ultimately show ?thesis
      using 1(2) 2(2,3) by (intro exI [of _ 0] exI [of _ evs2] exI [of _ "ev_events evs1"] exI [of _ ys]) simp
  qed
qed

lemma thread_result:
  assumes "fd_valid a" "fd_valid b" "a \<noteq> b" "events_wf evs" "ev_events evs = []"
  shows "isp_thread run rs1 rs2 m1 m2 rounds a b evs s = Some None \<or>
    (\<exists>evs' s'. isp_thread run rs1 rs2 m1 m2 rounds a b evs s = Some (Some (evs', s')) \<and>
       events_wf evs' \<and> ev_events evs' = [])"
proof -
  obtain r evs1 xs ys where st: "isp_dev_start rs1 rs2 m1 m2 a b evs = Some (r, evs1)" "events_wf evs1"
    "ev_events evs1 = xs @ ys" "xs = [] \<or> map ev_fd xs = [a]" "ys = [] \<or> map ev_fd ys = [b]"
    using start_shape [OF assms, of rs1 rs2 m1 m2] by (elim exE conjE)
  show ?thesis
  proof (cases "r < 0")
    case True
    then show ?thesis
      using st(1) stop_two [OF assms(1-3) st(2-5)] by (auto simp: isp_thread_def)
  next
    case False
    show ?thesis
    proof (cases "events_loop run rounds evs1 s")
      case None
      then show ?thesis using False st(1) by (simp add: isp_thread_def)
    next
      case (Some q)
      obtain bb evs2 s2 where q: "q = (bb, evs2, s2)" by (cases q) auto
      have "events_wf evs2" "ev_events evs2 = xs @ ys"
        using loop_wf [of run rounds evs1 s] Some q st(2,3) by auto
      then show ?thesis
        using Some q False st(1) stop_two [OF assms(1-3) _ _ st(4,5)] by (auto simp: isp_thread_def)
    qed
  qed
qed

section \<open>Properties\<close>

text \<open>A system with two unused devices and an environment in which every call succeeds.\<close>

definition idle_slot :: "unit isp_slot" where
  "idle_slot = \<lparr>isp_use_cnt = 0, isp_opened = False,
     isp_hw = \<lparr>ctx_object = \<lparr>isp_ini_cfg = zero_params, ctx_rest = ()\<rparr>, dev_ctx = False, dev_tuning = None\<rparr>,
     hw_stat_fd = 0, hw_subdev_fd = 0, hw_sensor_fd = 0, hw_buffer = False, isp_tid = False,
     isp_evs = events_init, open_fds = [], stat_bufs = 0\<rparr>"

definition idle_media :: "unit isp_media" where
  "idle_media = \<lparr>isp_slots = [idle_slot, idle_slot], isp_mdev = False, isp_sync_mode = 0\<rparr>"

definition good_env :: "unit isp_env" where
  "good_env = \<lparr>media_ok = True, dev_malloc_ok = True, stat_ret = 5, h3a_cfg_ok = True, stat_buf_ok = True,
     subdev_ret = 6, sensor_ret = 7, params_parse = (\<lambda>_ p. (0, p)), ctx_setup = (\<lambda>c. c), algo_init = (\<lambda>c. c),
     algo_exit = (\<lambda>c. c), config_of = (\<lambda>c. c), tuning_malloc_ok = True, create_ret = 0, thread_ends = False\<rparr>"

lemma idle_media_inv: "media_inv idle_media"
  by (simp add: media_inv_def idle_media_def idle_slot_def slot_inv_def isp_slot_at_def)

lemma good_env_healthy: "healthy_env good_env"
  by (simp add: healthy_env_def good_env_def)



text \<open>
  A failed start is not undone, and the next start reports success without a device. When the device of
  an idle slot cannot be opened, \<open>isp_init\<close> fails but keeps the incremented use count; from then on \<open>awIspStart\<close> returns
  \<open>NO_ERROR\<close> whatever the kernel would now grant, without opening the device or creating the
  thread, and every \<open>isp_get_cfg\<close> fails.
\<close>

theorem failed_start_poisons_slot:
  assumes "length (isp_slots st) = 2" "isp_key d" "isp_use_cnt (isp_slot_at st d) = 0"
    "\<not> isp_opened (isp_slot_at st d)" "\<not> media_ok env"
  shows "\<exists>st1. isp_init env d st = Ret (- 1, st1) \<and> awIspStart env d st = Ret (- 1, st1) \<and>
    (\<forall>env'. \<exists>st2. awIspStart env' d st1 = Ret (0, st2) \<and> isp_dev_at st2 d = None \<and>
       isp_tid (isp_slot_at st2 d) = isp_tid (isp_slot_at st d) \<and>
       isp_get_cfg d g ids buf st2 = Ret (- 1, buf))"
  using assms
  by (auto simp: awIspStart_def isp_init_def isp_run_def isp_get_cfg_def isp_dev_at_def Let_def HW_ISP_DEVICE_NUM_def)

theorem failed_start_poisons_slot_witness:
  "\<exists>st1 st2. awIspStart (good_env\<lparr>media_ok := False\<rparr>) 0 idle_media = Ret (- 1, st1) \<and>
     awIspStart good_env 0 st1 = Ret (0, st2) \<and> isp_dev_at st2 0 = None"
proof -
  have "length (isp_slots idle_media) = 2" "isp_use_cnt (isp_slot_at idle_media 0) = 0"
    "\<not> isp_opened (isp_slot_at idle_media 0)"
    by (simp_all add: idle_media_def idle_slot_def isp_slot_at_def)
  then show ?thesis
    using failed_start_poisons_slot [of idle_media 0 "good_env\<lparr>media_ok := False\<rparr>"]
    by (fastforce simp: HW_ISP_DEVICE_NUM_def)
qed

text \<open>
  A device whose sensor cannot be opened leaks: \<open>isp_dev_open\<close> fails and the device object is freed, but
  the descriptors of the statistics and ISP nodes stay open and the statistics buffer stays allocated,
  while no device refers to them any more.
\<close>

theorem failed_open_leaks:
  assumes "\<not> isp_opened sl" "dev_malloc_ok env" "0 \<le> stat_ret env" "h3a_cfg_ok env" "stat_buf_ok env"
    "0 \<le> subdev_ret env" "sensor_ret env < 0"
  shows "\<exists>sl'. isp_dev_open env sl = (- 1, sl') \<and> \<not> isp_opened sl' \<and>
    open_fds sl' = open_fds sl @ [stat_ret env, subdev_ret env] \<and> stat_bufs sl' = stat_bufs sl + 1 \<and>
    isp_dev_close sl' = sl'"
  using assms by (simp add: isp_dev_open_def isp_dev_close_def Let_def)

theorem failed_open_leaks_witness:
  "\<exists>sl'. isp_dev_open (good_env\<lparr>sensor_ret := - 2\<rparr>) idle_slot = (- 1, sl') \<and> open_fds sl' = [5, 6] \<and> stat_bufs sl' = 1"
  using failed_open_leaks [of idle_slot "good_env\<lparr>sensor_ret := - 2\<rparr>"]
  by (fastforce simp: good_env_def idle_slot_def)

text \<open>
  The parameters a fresh device runs with: after \<open>isp_init\<close> on an idle slot the tuning object
  holds the parsed parameter file of the device; the second device falls back to the running configuration
  of the first when its own file does not parse.
\<close>

theorem init_loads_parameters:
  assumes "media_inv st" "isp_key d" "isp_use_cnt (isp_slot_at st d) = 0" "healthy_env env"
    and "\<forall>c. isp_ini_cfg (ctx_setup env c) = isp_ini_cfg c" "\<forall>c. isp_ini_cfg (algo_init env c) = isp_ini_cfg c"
  shows "\<exists>st' isp t. isp_init env d st = Ret (0, st') \<and> isp_dev_at st' d = Some isp \<and> dev_tuning isp = Some t \<and>
    params t =
      (case params_parse env (isp_sync_mode st) (isp_ini_cfg (ctx_object (isp_hw (isp_slot_at st d)))) of
         (r, p) \<Rightarrow> if r < 0 \<and> d = 1 then isp_ini_cfg (ctx_object (isp_hw (isp_slot_at st 0))) else p)"
proof -
  from isp_init_first [OF assms(1,2,4,3)] obtain st3 sl hw where i: "isp_init env d st =
      Ret (0, upd_slot d (\<lambda>sl. sl\<lparr>isp_hw := hw, isp_evs := events_star events_init\<rparr>) st3)"
    "isp_configure env d st3 = (True, hw)" "isp_slot_at st3 d = sl" "isp_opened sl"
    "isp_hw sl = (isp_hw (isp_slot_at st d))\<lparr>dev_ctx := False, dev_tuning := None\<rparr>"
    "length (isp_slots st3) = 2" "isp_sync_mode st3 = isp_sync_mode st"
    and other: "\<And>j. 0 \<le> j \<Longrightarrow> j \<noteq> d \<Longrightarrow> isp_slot_at st3 j = isp_slot_at st j" by metis
  have d: "0 \<le> d" "d < 2" "d \<ge> 1 \<longleftrightarrow> d = 1" using assms(2) by (auto simp: HW_ISP_DEVICE_NUM_def)
  have "dev_tuning hw = Some (tuning_with (case params_parse env (isp_sync_mode st) (isp_ini_cfg (ctx_object (isp_hw (isp_slot_at st d)))) of
         (r, p) \<Rightarrow> if r < 0 \<and> d = 1 then isp_ini_cfg (ctx_object (isp_hw (isp_slot_at st 0))) else p))"
    using i(2) assms(5,6) other [of 0] d
    by (auto simp: isp_configure_def isp_tuning_init_def isp_dev_banding_ctx_def isp_dev_get_ctx_def i(3,5,7)
        isp_dev_banding_tuning_def tuning_with_def Let_def split: prod.splits if_splits)
  then show ?thesis
    using d i by (simp add: isp_dev_at_def tuning_with_def)
qed

theorem init_loads_parameters_witness:
  "\<exists>st' isp t. isp_init (good_env\<lparr>params_parse := (\<lambda>_ p. (- 1, p))\<rparr>) 1 idle_media = Ret (0, st') \<and>
     isp_dev_at st' 1 = Some isp \<and> dev_tuning isp = Some t \<and> params t = zero_params"
proof -
  have "healthy_env (good_env\<lparr>params_parse := (\<lambda>_ p. (- 1, p))\<rparr>)"
    by (simp add: healthy_env_def good_env_def)
  then show ?thesis
    using init_loads_parameters [OF idle_media_inv, of 1 "good_env\<lparr>params_parse := (\<lambda>_ p. (- 1, p))\<rparr>"]
    by (simp add: HW_ISP_DEVICE_NUM_def good_env_def idle_media_def idle_slot_def isp_slot_at_def)
qed

text \<open>
  The server thread unregisters what it registered: whichever subscription fails, and however its
  loop ends, the thread leaves an event list with no entries, so the descriptors closed after the join are not watched
  any more. It ends whenever its loop is stopped, times out or fails.
\<close>

theorem thread_leaves_no_events:
  assumes "fd_valid subdev_fd" "fd_valid stat_fd" "subdev_fd \<noteq> stat_fd"
    and "\<exists>r \<in> set rounds. stopped_meanwhile r \<or> round_sel r = EvTimeout \<or> round_sel r = EvErr False"
  shows "\<exists>evs' s'. isp_thread run subdev_rets stat_rets malloc1 malloc2 rounds subdev_fd stat_fd
      (events_star events_init) s = Some (Some (evs', s')) \<and> events_wf evs' \<and> ev_events evs' = []"
proof -
  have w: "events_wf (events_star events_init)" "ev_events (events_star events_init) = []"
    using events_init_wf by (simp_all add: events_star_def events_init_def)
  have "isp_thread run subdev_rets stat_rets malloc1 malloc2 rounds subdev_fd stat_fd
      (events_star events_init) s \<noteq> Some None"
  proof -
    have "events_loop run rounds evs s \<noteq> None" for evs
      using loop_total [OF assms(4), of run evs s] by auto
    then show ?thesis
      unfolding isp_thread_def
      by (cases "isp_dev_start subdev_rets stat_rets malloc1 malloc2 subdev_fd stat_fd (events_star events_init)")
        (auto simp del: not_None_eq split: option.split prod.split)
  qed
  then show ?thesis
    using thread_result [OF assms(1-3) w, of run subdev_rets stat_rets malloc1 malloc2 rounds s] by simp
qed

theorem thread_leaves_no_events_witness:
  "\<exists>evs' s'. isp_thread (\<lambda>c s. (s, False)) [0, 0] [- 5] True True
      [\<lparr>stopped_meanwhile = False, round_sel = EvTimeout\<rparr>] 6 5 (events_star events_init) () = Some (Some (evs', s')) \<and>
    ev_events evs' = []"
  using thread_leaves_no_events [of 6 5 "[\<lparr>stopped_meanwhile = False, round_sel = EvTimeout\<rparr>]" "\<lambda>c s. (s, False)"
      "[0, 0]" "[- 5]" True True "()"]
  by (auto simp: fd_valid_def FD_SETSIZE_def)

end
