(* ===== verification/IspHandle.thy ===== *)
theory IspHandle
  imports IspDevice
begin

text \<open>
  The ISP selection of the tuning server (\<open>server/isp_handle.c\<close>): the module flag, the selected ISP and
  the status of each ISP, on top of the device life cycle of \<open>isp.c\<close>. The three operations are the steps of a state
  machine that the server's connection threads drive; a step whose call has undefined behaviour or
  does not return has no successor. \<open>get_vich_status\<close> (whether a video channel is open) is an argument.
\<close>

section \<open>State and operations\<close>

record 'm isp_handle =
  g_module_init :: bool
  g_cur_isp_sel :: int
  g_isp_status :: "bool list" \<comment> \<open>\<open>ISP_RUNNING\<close>\<close>
  h_media :: "'m isp_media"

definition VALID_ISP_SEL :: "int \<Rightarrow> bool" where
  "VALID_ISP_SEL ident \<longleftrightarrow> ident \<ge> 0 \<and> ident \<le> HW_ISP_DEVICE_NUM"

text \<open>The loop of \<open>exit_isp_module\<close> over the remaining device numbers.\<close>

fun exit_running :: "'m isp_env \<Rightarrow> nat list \<Rightarrow> 'm isp_handle \<Rightarrow> 'm isp_handle outcome" where
  "exit_running env [] h = Ret h"
| "exit_running env (i # is) h =
     (if g_isp_status h ! i
      then (case isp_exit env (int i) (h_media h) of
              Ret (_, st) \<Rightarrow> exit_running env is (h\<lparr>h_media := st, g_isp_status := (g_isp_status h)[i := False]\<rparr>)
            | Ub \<Rightarrow> Ub
            | Blocks \<Rightarrow> Blocks)
      else exit_running env is h)"

definition exit_isp_module :: "'m isp_env \<Rightarrow> 'm isp_handle \<Rightarrow> (int \<times> 'm isp_handle) outcome" where
  "exit_isp_module env h =
     (if g_module_init h
      then (case exit_running env [0..<nat HW_ISP_DEVICE_NUM] h of
              Ret h1 \<Rightarrow> Ret (0, h1\<lparr>h_media := media_dev_exit (h_media h1), g_cur_isp_sel := - 1, g_module_init := False\<rparr>)
            | Ub \<Rightarrow> Ub
            | Blocks \<Rightarrow> Blocks)
      else Ret (0, h))"

text \<open>\<open>media_dev_init\<close> prints the version and returns 0.\<close>

definition init_isp_module :: "'m isp_env \<Rightarrow> 'm isp_handle \<Rightarrow> (int \<times> 'm isp_handle) outcome" where
  "init_isp_module env h =
     (case (if g_module_init h then exit_isp_module env h else Ret (0, h)) of
        Ret (_, h1) \<Rightarrow> Ret (0, h1\<lparr>g_isp_status := replicate (nat HW_ISP_DEVICE_NUM) False, g_module_init := True\<rparr>)
      | Ub \<Rightarrow> Ub
      | Blocks \<Rightarrow> Blocks)"

text \<open>The part of \<open>select_isp\<close> after the module is initialised.\<close>

definition select_ready :: "'m isp_env \<Rightarrow> bool \<Rightarrow> int \<Rightarrow> 'm isp_handle \<Rightarrow> (int \<times> 'm isp_handle) outcome" where
  "select_ready env vich ident h =
     (if \<not> vich then Ret (- 1, h)
      else if nat ident \<ge> length (g_isp_status h) then Ub
      else if \<not> g_isp_status h ! nat ident
        then (case isp_init env ident (h_media h) of
                Ret (ret, st) \<Rightarrow>
                  if ret \<noteq> 0 then Ret (- 1, h\<lparr>h_media := st\<rparr>)
                  else (case isp_run env ident st of
                          Ret (ret1, st1) \<Rightarrow>
                            if ret1 \<noteq> 0
                            then (case isp_exit env ident st1 of
                                    Ret (_, st2) \<Rightarrow> Ret (- 1, h\<lparr>h_media := st2\<rparr>)
                                  | Ub \<Rightarrow> Ub
                                  | Blocks \<Rightarrow> Blocks)
                            else Ret (0, h\<lparr>h_media := st1, g_cur_isp_sel := ident,
                                           g_isp_status := (g_isp_status h)[nat ident := True]\<rparr>)
                        | Ub \<Rightarrow> Ub
                        | Blocks \<Rightarrow> Blocks)
              | Ub \<Rightarrow> Ub
              | Blocks \<Rightarrow> Blocks)
        else Ret (0, h\<lparr>g_cur_isp_sel := ident\<rparr>))"

definition select_isp :: "'m isp_env \<Rightarrow> bool \<Rightarrow> int \<Rightarrow> 'm isp_handle \<Rightarrow> (int \<times> 'm isp_handle) outcome" where
  "select_isp env vich ident h =
     (if VALID_ISP_SEL ident
      then (case (if g_module_init h then Ret (0, h) else init_isp_module env h) of
              Ret (ret, h1) \<Rightarrow> if ret < 0 then Ret (- 1, h1) else select_ready env vich ident h1
            | Ub \<Rightarrow> Ub
            | Blocks \<Rightarrow> Blocks)
      else Ret (- 1, h))"

definition get_isp_id :: "'m isp_handle \<Rightarrow> int" where
  "get_isp_id h = g_cur_isp_sel h"

section \<open>The state machine\<close>

inductive handle_step :: "'m isp_handle \<Rightarrow> 'm isp_handle \<Rightarrow> bool" where
  select: "select_isp env vich ident h = Ret (r, h') \<Longrightarrow> handle_step h h'"
| init: "init_isp_module env h = Ret (r, h') \<Longrightarrow> handle_step h h'"
| exit: "exit_isp_module env h = Ret (r, h') \<Longrightarrow> handle_step h h'"

inductive_cases handle_stepE: "handle_step h h'"

text \<open>
  What a slot can be in. A stopped slot is closed, or was left behind by a failed start; a running
  slot has a device with a server thread, or (started again after a failure) a count of 2 and no thread.
\<close>

definition slot_usable :: "'m isp_slot \<Rightarrow> bool" where
  "slot_usable sl \<longleftrightarrow> isp_opened sl \<and> isp_tid sl \<and> dev_ctx (isp_hw sl) \<and>
     (\<exists>t. dev_tuning (isp_hw sl) = Some t \<and> tuning_ctx t)"

definition slot_ok :: "bool \<Rightarrow> 'm isp_slot \<Rightarrow> bool" where
  "slot_ok running sl \<longleftrightarrow>
     (if running then isp_use_cnt sl = 1 \<and> slot_usable sl \<or> isp_use_cnt sl = 2 \<and> \<not> isp_tid sl
      else isp_use_cnt sl = 0 \<and> \<not> isp_opened sl \<and> \<not> isp_tid sl \<or> isp_use_cnt sl = 1 \<and> \<not> isp_tid sl)"

definition handle_inv :: "'m isp_handle \<Rightarrow> bool" where
  "handle_inv h \<longleftrightarrow> length (isp_slots (h_media h)) = 2 \<and> length (g_isp_status h) = 2 \<and>
     slot_ok (g_isp_status h ! 0) (isp_slot_at (h_media h) 0) \<and>
     slot_ok (g_isp_status h ! 1) (isp_slot_at (h_media h) 1) \<and>
     (g_cur_isp_sel h = - 1 \<or> isp_key (g_cur_isp_sel h) \<and> g_isp_status h ! nat (g_cur_isp_sel h)) \<and>
     (\<not> g_module_init h \<longrightarrow> g_isp_status h = [False, False] \<and> g_cur_isp_sel h = - 1)"

lemma slot_ok_at:
  assumes "handle_inv h" "isp_key d"
  shows "slot_ok (g_isp_status h ! nat d) (isp_slot_at (h_media h) d)"
  using assms by (auto simp: handle_inv_def elim!: dev_cases)

text \<open>What \<open>isp_init\<close> and \<open>isp_exit\<close> do to the slots of the invariant.\<close>

lemma isp_configure_ok:
  "isp_configure env d st = (True, hw) \<Longrightarrow> dev_ctx hw \<and> (\<exists>t. dev_tuning hw = Some t \<and> tuning_ctx t)"
  by (auto simp: isp_configure_def isp_tuning_init_def isp_dev_banding_ctx_def isp_dev_get_ctx_def
      isp_dev_banding_tuning_def Let_def split: prod.splits if_splits)

lemma isp_dev_open_cases:
  assumes "\<not> isp_opened sl"
  shows "(\<exists>sl'. isp_dev_open env sl = (- 1, sl') \<and> \<not> healthy_env env \<and> \<not> isp_opened sl' \<and> isp_use_cnt sl' = isp_use_cnt sl \<and> isp_tid sl' = isp_tid sl) \<or>
    (\<exists>sl'. isp_dev_open env sl = (0, sl') \<and> isp_opened sl' \<and> isp_use_cnt sl' = isp_use_cnt sl \<and> isp_tid sl' = isp_tid sl)"
  using assms by (auto simp: isp_dev_open_def healthy_env_def Let_def)

lemma isp_init_idle:
  assumes "length (isp_slots st) = 2" "isp_key d" "isp_use_cnt (isp_slot_at st d) = 0"
    "\<not> isp_opened (isp_slot_at st d)" "\<not> isp_tid (isp_slot_at st d)"
  obtains r sl st' where "isp_init env d st = Ret (r, st')" "length (isp_slots st') = 2" "isp_slot_at st' d = sl"
    "\<And>j. 0 \<le> j \<Longrightarrow> j \<noteq> d \<Longrightarrow> isp_slot_at st' j = isp_slot_at st j"
    "isp_use_cnt sl = 1" "\<not> isp_tid sl"
    "r = 0 \<Longrightarrow> isp_opened sl \<and> dev_ctx (isp_hw sl) \<and> (\<exists>t. dev_tuning (isp_hw sl) = Some t \<and> tuning_ctx t)"
    "healthy_env env \<Longrightarrow> r = 0"
proof -
  define st2 where "st2 = (upd_slot d (\<lambda>sl. sl\<lparr>isp_use_cnt := 1\<rparr>) st)\<lparr>isp_mdev := media_ok env\<rparr>"
  have d: "0 \<le> d" "d < 2" and key: "\<not> HW_ISP_DEVICE_NUM \<le> d" "\<not> d < 0" using assms(2) by (simp_all add: HW_ISP_DEVICE_NUM_def)
  have l2: "length (isp_slots st2) = 2" and o2: "\<And>j. 0 \<le> j \<Longrightarrow> j \<noteq> d \<Longrightarrow> isp_slot_at st2 j = isp_slot_at st j"
    and s2: "isp_slot_at st2 d = (isp_slot_at st d)\<lparr>isp_use_cnt := 1\<rparr>"
    using assms(1) d by (simp_all add: st2_def)
  obtain ret sl1 where op: "isp_dev_open env (isp_slot_at st2 d) = (ret, sl1)" by (cases "isp_dev_open env (isp_slot_at st2 d)")
  have sl1: "isp_use_cnt sl1 = 1" "\<not> isp_tid sl1" "ret = 0 \<and> isp_opened sl1 \<or> ret = - 1 \<and> \<not> healthy_env env"
    using isp_dev_open_cases [of "isp_slot_at st2 d" env] op s2 assms(4,5) by auto
  define st3 where "st3 = upd_slot d (\<lambda>_. sl1) st2"
  obtain ok hw where cf: "isp_configure env d st3 = (ok, hw)" by (cases "isp_configure env d st3")
  have okh: "healthy_env env \<Longrightarrow> ok"
    using isp_configure_healthy [of env d st3] cf by (auto simp: healthy_env_def)
  have mh: "\<not> media_ok env \<Longrightarrow> \<not> healthy_env env" by (simp add: healthy_env_def)
  have init: "isp_init env d st =
    (if \<not> media_ok env then Ret (- 1, st2)
     else if ret < 0 then Ret (ret, st3)
     else if \<not> ok then Ret (- 1, upd_slot d (\<lambda>sl. sl\<lparr>isp_hw := hw\<rparr>) st3)
     else Ret (0, upd_slot d (\<lambda>sl. sl\<lparr>isp_evs := events_star events_init\<rparr>) (upd_slot d (\<lambda>sl. sl\<lparr>isp_hw := hw\<rparr>) st3)))"
    using sl1(3) key
    by (auto simp: isp_init_def Let_def assms(3) st2_def [symmetric] op st3_def [symmetric] cf)
  have at3: "isp_slot_at st3 d = sl1" "length (isp_slots st3) = 2" "\<And>j. 0 \<le> j \<Longrightarrow> j \<noteq> d \<Longrightarrow> isp_slot_at st3 j = isp_slot_at st j"
    using d l2 o2 by (simp_all add: st3_def)
  show ?thesis
  proof (cases "media_ok env \<and> \<not> ret < 0 \<and> ok")
    case True
    then show ?thesis
      using that [OF _ _ refl, of 0 "upd_slot d (\<lambda>sl. sl\<lparr>isp_hw := hw, isp_evs := events_star events_init\<rparr>) st3"]
        init at3 d sl1 isp_configure_ok [of env d st3 hw] cf by (simp add: comp_def)
  next
    case False
    then consider "\<not> media_ok env" | "media_ok env" "ret < 0" | "media_ok env" "\<not> ret < 0" "\<not> ok" by blast
    then show ?thesis
    proof cases
      case 1
      then show ?thesis using that [OF _ _ refl, of "- 1" st2] init l2 o2 s2 assms(5) mh by simp
    next
      case 2
      then show ?thesis using that [OF _ _ refl, of ret st3] init at3 sl1 by auto
    next
      case 3
      then show ?thesis
        using that [OF _ _ refl, of "- 1" "upd_slot d (\<lambda>sl. sl\<lparr>isp_hw := hw\<rparr>) st3"] init at3 sl1 d okh by auto
    qed
  qed
qed

lemma isp_exit_running:
  assumes "length (isp_slots st) = 2" "isp_key d" "slot_ok True (isp_slot_at st d)" "isp_exit env d st = Ret (r, st')"
  shows "length (isp_slots st') = 2 \<and> slot_ok False (isp_slot_at st' d) \<and>
    (\<forall>j. 0 \<le> j \<and> j \<noteq> d \<longrightarrow> isp_slot_at st' j = isp_slot_at st j)"
  using assms
  by (auto simp: isp_exit_def slot_ok_def slot_usable_def HW_ISP_DEVICE_NUM_def isp_dev_at_def isp_dev_close_def Let_def
      split: if_splits)

lemma isp_init_again:
  assumes "length (isp_slots st) = 2" "isp_key d" "isp_use_cnt (isp_slot_at st d) = 1"
  shows "isp_init env d st = Ret (0, upd_slot d (\<lambda>sl. sl\<lparr>isp_use_cnt := 2\<rparr>) st)"
    "isp_run env d (upd_slot d (\<lambda>sl. sl\<lparr>isp_use_cnt := 2\<rparr>) st) = Ret (0, upd_slot d (\<lambda>sl. sl\<lparr>isp_use_cnt := 2\<rparr>) st)"
  using assms by (simp_all add: isp_init_def isp_run_def HW_ISP_DEVICE_NUM_def)

text \<open>The three ways an idle slot goes on.\<close>

lemma select_idle_cases:
  assumes "handle_inv h" "isp_key d" "\<not> g_isp_status h ! nat d"
  obtains (fails) st where "select_ready env True d h = Ret (- 1, h\<lparr>h_media := st\<rparr>)"
      "length (isp_slots st) = 2" "slot_ok False (isp_slot_at st d)" "isp_use_cnt (isp_slot_at st d) = 1"
      "\<And>j. 0 \<le> j \<Longrightarrow> j \<noteq> d \<Longrightarrow> isp_slot_at st j = isp_slot_at (h_media h) j"
      "isp_use_cnt (isp_slot_at (h_media h) d) = 0" "\<not> healthy_env env"
  | (no_thread) "select_ready env True d h = Ub" "create_ret env \<noteq> 0"
      "isp_use_cnt (isp_slot_at (h_media h) d) = 0"
  | (starts) st where "select_ready env True d h = Ret (0, h\<lparr>h_media := st, g_cur_isp_sel := d,
        g_isp_status := (g_isp_status h)[nat d := True]\<rparr>)"
      "length (isp_slots st) = 2" "slot_ok True (isp_slot_at st d)"
      "isp_use_cnt (isp_slot_at st d) = isp_use_cnt (isp_slot_at (h_media h) d) + 1"
      "\<And>j. 0 \<le> j \<Longrightarrow> j \<noteq> d \<Longrightarrow> isp_slot_at st j = isp_slot_at (h_media h) j"
proof -
  have d: "0 \<le> d" "d < 2" "\<not> HW_ISP_DEVICE_NUM \<le> d" "\<not> d < 0" "nat d < 2"
    and len: "length (isp_slots (h_media h)) = 2" "length (g_isp_status h) = 2"
    using assms(1,2) by (auto simp: HW_ISP_DEVICE_NUM_def handle_inv_def)
  have "slot_ok False (isp_slot_at (h_media h) d)" using slot_ok_at [OF assms(1,2)] assms(3) by simp
  then consider "isp_use_cnt (isp_slot_at (h_media h) d) = 0" "\<not> isp_opened (isp_slot_at (h_media h) d)"
      "\<not> isp_tid (isp_slot_at (h_media h) d)"
    | "isp_use_cnt (isp_slot_at (h_media h) d) = 1" "\<not> isp_tid (isp_slot_at (h_media h) d)"
    by (auto simp: slot_ok_def)
  then show ?thesis
  proof cases
    case 1
    obtain r sl st' where i: "isp_init env d (h_media h) = Ret (r, st')" "length (isp_slots st') = 2" "isp_slot_at st' d = sl"
      "\<And>j. 0 \<le> j \<Longrightarrow> j \<noteq> d \<Longrightarrow> isp_slot_at st' j = isp_slot_at (h_media h) j"
      "isp_use_cnt sl = 1" "\<not> isp_tid sl"
      "r = 0 \<Longrightarrow> isp_opened sl \<and> dev_ctx (isp_hw sl) \<and> (\<exists>t. dev_tuning (isp_hw sl) = Some t \<and> tuning_ctx t)" "healthy_env env \<Longrightarrow> r = 0"
      using isp_init_idle [OF len(1) assms(2) 1, of env] by metis
    show ?thesis
    proof (cases "r = 0")
      case False
      then show ?thesis
        using fails [of st'] i d len assms(3) 1(1) by (auto simp: select_ready_def slot_ok_def)
    next
      case True
      have run: "isp_run env d st' = (if create_ret env \<noteq> 0 then Ret (create_ret env, st')
          else Ret (0, upd_slot d (\<lambda>sl. sl\<lparr>isp_tid := True\<rparr>) st'))"
        using i(3,5) i(7) [OF True] d by (simp add: isp_run_def isp_dev_at_def)
      show ?thesis
      proof (cases "create_ret env = 0")
        case False
        have "isp_exit env d st' = Ub"
          using i d by (simp add: isp_exit_def isp_dev_at_def Let_def True)
        then show ?thesis
          using no_thread i(1) run False True d len assms(3) 1(1) by (simp add: select_ready_def)
      next
        case c: True
        then show ?thesis
          using starts [of "upd_slot d (\<lambda>sl. sl\<lparr>isp_tid := True\<rparr>) st'"] i(1-6) i(7) [OF True] run True d len assms(3) 1(1)
          by (simp add: select_ready_def slot_ok_def slot_usable_def)
      qed
    qed
  next
    case 2
    then show ?thesis
      using starts [of "upd_slot d (\<lambda>sl. sl\<lparr>isp_use_cnt := 2\<rparr>) (h_media h)"] isp_init_again [OF len(1) assms(2) 2(1)]
        d len assms(3) by (simp add: select_ready_def slot_ok_def)
  qed
qed

lemma handle_inv_media:
  assumes "handle_inv h" "isp_key d" "length (isp_slots st) = 2"
    "\<And>j. 0 \<le> j \<Longrightarrow> j \<noteq> d \<Longrightarrow> isp_slot_at st j = isp_slot_at (h_media h) j"
  shows "slot_ok False (isp_slot_at st d) \<and> \<not> g_isp_status h ! nat d \<Longrightarrow> handle_inv (h\<lparr>h_media := st\<rparr>)"
    and "slot_ok True (isp_slot_at st d) \<and> g_module_init h \<Longrightarrow>
      handle_inv (h\<lparr>h_media := st, g_cur_isp_sel := d, g_isp_status := (g_isp_status h)[nat d := True]\<rparr>)"
  using assms by (auto simp: handle_inv_def elim!: dev_cases)

lemma select_ready_inv:
  assumes "handle_inv h" "g_module_init h" "0 \<le> d" "d \<le> HW_ISP_DEVICE_NUM" "select_ready env vich d h = Ret (r, h')"
  shows "handle_inv h' \<and> g_module_init h'"
proof -
  have len: "length (g_isp_status h) = 2" using assms(1) by (simp add: handle_inv_def)
  show ?thesis
  proof (cases "vich \<and> nat d < 2")
    case False
    then show ?thesis using assms len by (auto simp: select_ready_def split: if_splits)
  next
    case True
    then have key: "isp_key d" using assms(3) by (auto simp: HW_ISP_DEVICE_NUM_def)
    show ?thesis
    proof (cases "g_isp_status h ! nat d")
      case running: True
      then have "h' = h\<lparr>g_cur_isp_sel := d\<rparr>"
        using assms(5) True len by (simp add: select_ready_def)
      then show ?thesis using assms(1,2) running key by (auto simp: handle_inv_def)
    next
      case False
      show ?thesis
        using assms(2,5) True handle_inv_media [OF assms(1) key] False
        by (cases rule: select_idle_cases [OF assms(1) key False, of env]) auto
    qed
  qed
qed

lemma exit_running_inv:
  assumes "length (isp_slots (h_media h)) = 2" "length (g_isp_status h) = 2" "set is \<subseteq> {0, 1}"
    "slot_ok (g_isp_status h ! 0) (isp_slot_at (h_media h) 0)" "slot_ok (g_isp_status h ! 1) (isp_slot_at (h_media h) 1)"
    "exit_running env is h = Ret h'"
  shows "length (isp_slots (h_media h')) = 2 \<and> length (g_isp_status h') = 2 \<and>
    slot_ok (g_isp_status h' ! 0) (isp_slot_at (h_media h') 0) \<and> slot_ok (g_isp_status h' ! 1) (isp_slot_at (h_media h') 1) \<and>
    g_isp_status h' ! 0 = (g_isp_status h ! 0 \<and> 0 \<notin> set is) \<and>
    g_isp_status h' ! 1 = (g_isp_status h ! 1 \<and> 1 \<notin> set is)"
  using assms
proof (induction "is" arbitrary: h)
  case (Cons i "is")
  show ?case
  proof (cases "g_isp_status h ! i")
    case False
    then show ?thesis using Cons.IH [of h] Cons.prems by auto
  next
    case True
    then obtain r st where e: "isp_exit env (int i) (h_media h) = Ret (r, st)" and
      rest: "exit_running env is (h\<lparr>h_media := st, g_isp_status := (g_isp_status h)[i := False]\<rparr>) = Ret h'"
      using Cons.prems(6) by (auto split: outcome.splits)
    have i: "i = 0 \<or> i = 1" using Cons.prems(3) by auto
    then have ok: "slot_ok True (isp_slot_at (h_media h) (int i))" and key: "isp_key (int i)"
      using Cons.prems(4,5) True by (auto simp: HW_ISP_DEVICE_NUM_def)
    note x = isp_exit_running [OF Cons.prems(1) key ok e]
    define h1 where "h1 = h\<lparr>h_media := st, g_isp_status := (g_isp_status h)[i := False]\<rparr>"
    have s1: "g_isp_status h1 ! j = (g_isp_status h ! j \<and> j \<noteq> i)" if "j < 2" for j
      using Cons.prems(2) that i by (cases "j = i") (auto simp: h1_def)
    have ok1: "slot_ok (g_isp_status h1 ! 0) (isp_slot_at (h_media h1) 0)"
      "slot_ok (g_isp_status h1 ! 1) (isp_slot_at (h_media h1) 1)"
      using Cons.prems(4,5) x i s1 [of 0] s1 [of 1] by (auto simp: h1_def)
    have "length (isp_slots (h_media h1)) = 2" "length (g_isp_status h1) = 2" "set is \<subseteq> {0, 1}"
      using x Cons.prems(2,3) by (auto simp: h1_def)
    note Cons.IH [OF this ok1 rest [folded h1_def]]
    then show ?thesis
      using s1 [of 0] s1 [of 1] by auto
  qed
qed auto

lemma status_two: "length bs = 2 \<Longrightarrow> \<not> bs ! 0 \<Longrightarrow> \<not> bs ! 1 \<Longrightarrow> bs = [False, False]"
  by (cases bs; cases "tl bs") auto

lemma idle_status: "replicate (nat HW_ISP_DEVICE_NUM) False = [False, False]" "[0..<nat HW_ISP_DEVICE_NUM] = [0, 1]"
  by (simp_all add: HW_ISP_DEVICE_NUM_def numeral_2_eq_2)

lemma media_dev_exit_frame [simp]:
  "isp_slots (media_dev_exit st) = isp_slots st" "isp_slot_at (media_dev_exit st) d = isp_slot_at st d"
  by (simp_all add: media_dev_exit_def isp_slot_at_def)

lemma exit_module_inv:
  assumes "handle_inv h" "exit_isp_module env h = Ret (r, h')"
  shows "handle_inv h' \<and> \<not> g_module_init h' \<and> r = 0"
proof (cases "g_module_init h")
  case False
  then show ?thesis using assms by (simp add: exit_isp_module_def)
next
  case True
  then obtain h1 where h1: "exit_running env [0..<nat HW_ISP_DEVICE_NUM] h = Ret h1"
    "h' = h1\<lparr>h_media := media_dev_exit (h_media h1), g_cur_isp_sel := - 1, g_module_init := False\<rparr>" "r = 0"
    using assms(2) by (auto simp: exit_isp_module_def split: outcome.splits)
  have e: "exit_running env [0, 1] h = Ret h1" using h1(1) by (simp add: idle_status)
  have "\<not> g_isp_status h1 ! 0" "\<not> g_isp_status h1 ! 1" "length (g_isp_status h1) = 2" "length (isp_slots (h_media h1)) = 2"
    "slot_ok (g_isp_status h1 ! 0) (isp_slot_at (h_media h1) 0)" "slot_ok (g_isp_status h1 ! 1) (isp_slot_at (h_media h1) 1)"
    using exit_running_inv [OF _ _ _ _ _ e] assms(1) by (auto simp: handle_inv_def)
  then show ?thesis
    using status_two [of "g_isp_status h1"] h1(2,3) by (simp add: handle_inv_def)
qed

lemma init_module_inv:
  assumes "handle_inv h" "init_isp_module env h = Ret (r, h')"
  shows "handle_inv h' \<and> g_module_init h'"
proof -
  obtain h1 where h1: "handle_inv h1" "\<not> g_module_init h1"
    "h' = h1\<lparr>g_isp_status := replicate (nat HW_ISP_DEVICE_NUM) False, g_module_init := True\<rparr>"
    using assms exit_module_inv [OF assms(1)]
    by (auto simp: init_isp_module_def split: outcome.splits if_splits)
  then show ?thesis by (auto simp: handle_inv_def idle_status)
qed

lemma select_isp_inv:
  assumes "handle_inv h" "select_isp env vich d h = Ret (r, h')"
  shows "handle_inv h'"
proof (cases "VALID_ISP_SEL d")
  case False
  then show ?thesis using assms by (simp add: select_isp_def)
next
  case True
  show ?thesis
  proof (cases "g_module_init h")
    case init: True
    then show ?thesis
      using assms True select_ready_inv [OF assms(1) init, of d env vich r h'] by (simp add: select_isp_def VALID_ISP_SEL_def)
  next
    case False
    then obtain h1 where h1: "init_isp_module env h = Ret (0, h1)"
      by (simp add: init_isp_module_def)
    then have "handle_inv h1 \<and> g_module_init h1" by (rule init_module_inv [OF assms(1)])
    then show ?thesis
      using assms(2) False True h1 select_ready_inv [of h1 d env vich r h']
      by (simp add: select_isp_def VALID_ISP_SEL_def)
  qed
qed

lemma step_inv: "handle_step h h' \<Longrightarrow> handle_inv h \<Longrightarrow> handle_inv h'"
  by (erule handle_stepE) (auto dest: select_isp_inv exit_module_inv init_module_inv)

section \<open>Slots lost to a failed start\<close>

definition slot_dead :: "int \<Rightarrow> 'm isp_handle \<Rightarrow> bool" where
  "slot_dead d h \<longleftrightarrow> \<not> isp_tid (isp_slot_at (h_media h) d) \<and>
     isp_use_cnt (isp_slot_at (h_media h) d) = (if g_isp_status h ! nat d then 2 else 1)"

lemma isp_exit_frame:
  assumes "isp_exit env d st = Ret (r, st')" "0 \<le> d" "0 \<le> j" "j \<noteq> d"
  shows "isp_slot_at st' j = isp_slot_at st j"
  using assms by (auto simp: isp_exit_def Let_def split: if_splits option.splits)

lemma isp_exit_two:
  assumes "length (isp_slots st) = 2" "isp_key d" "isp_use_cnt (isp_slot_at st d) = 2"
  shows "isp_exit env d st = Ret (0, upd_slot d (\<lambda>sl. sl\<lparr>isp_use_cnt := 1\<rparr>) st)"
  using assms by (simp add: isp_exit_def HW_ISP_DEVICE_NUM_def Let_def)

lemma exit_length: "isp_exit env d st = Ret (r, st') \<Longrightarrow> length (isp_slots st') = length (isp_slots st)"
  by (auto simp: isp_exit_def Let_def split: if_splits option.splits)

lemma exit_running_dead:
  assumes "exit_running env is h = Ret h'" "slot_dead d h" "isp_key d" "length (isp_slots (h_media h)) = 2"
    "length (g_isp_status h) = 2" "set is \<subseteq> {0, 1}"
  shows "slot_dead d h'"
  using assms
proof (induction "is" arbitrary: h)
  case (Cons i "is")
  show ?case
  proof (cases "g_isp_status h ! i")
    case False
    then show ?thesis using Cons by simp
  next
    case True
    then obtain r st where e: "isp_exit env (int i) (h_media h) = Ret (r, st)" and
      rest: "exit_running env is (h\<lparr>h_media := st, g_isp_status := (g_isp_status h)[i := False]\<rparr>) = Ret h'"
      using Cons.prems(1) by (auto split: outcome.splits)
    have i: "i < 2" and d: "0 \<le> d" "d < 2" using Cons.prems(3,6) by (auto simp: HW_ISP_DEVICE_NUM_def)
    have "slot_dead d (h\<lparr>h_media := st, g_isp_status := (g_isp_status h)[i := False]\<rparr>)"
    proof (cases "d = int i")
      case di: True
      then have "isp_use_cnt (isp_slot_at (h_media h) d) = 2" "\<not> isp_tid (isp_slot_at (h_media h) d)"
        using Cons.prems(2) True by (simp_all add: slot_dead_def)
      then show ?thesis
        using isp_exit_two [OF Cons.prems(4,3)] e di i d Cons.prems(4,5) by (auto simp: slot_dead_def)
    next
      case False
      then have "nat d \<noteq> i" using d by auto
      then show ?thesis
        using isp_exit_frame [OF e _ d(1) False] Cons.prems(2) by (simp add: slot_dead_def)
    qed
    then show ?thesis
      using Cons.IH [OF rest] Cons.prems(3-6) exit_length [OF e] by simp
  qed
qed simp

lemma select_ready_dead:
  assumes "handle_inv h" "slot_dead d h" "isp_key d" "0 \<le> e" "e \<le> HW_ISP_DEVICE_NUM"
    "select_ready env vich e h = Ret (r, h')"
  shows "slot_dead d h'"
proof -
  have len: "length (g_isp_status h) = 2" using assms(1) by (simp add: handle_inv_def)
  show ?thesis
  proof (cases "vich \<and> nat e < 2 \<and> \<not> g_isp_status h ! nat e")
    case False
    then have "h' = h \<or> h' = h\<lparr>g_cur_isp_sel := e\<rparr>"
      using assms(6) len by (auto simp: select_ready_def split: if_splits)
    then show ?thesis using assms(2) by (auto simp: slot_dead_def)
  next
    case True
    then have key: "isp_key e" using assms(4) by (auto simp: HW_ISP_DEVICE_NUM_def)
    have d: "0 \<le> d" and idle: "\<not> g_isp_status h ! nat e" using assms(3) True by simp_all
    from assms(1) key idle show ?thesis
    proof (cases rule: select_idle_cases [where env = env])
      case (fails st)
      have "d \<noteq> e" using fails(6) assms(2) True by (auto simp: slot_dead_def split: if_splits)
      then show ?thesis
        using fails(1) fails(5) [OF d] assms(2,6) True by (auto simp: slot_dead_def)
    next
      case no_thread
      then show ?thesis using assms(6) True by simp
    next
      case (starts st)
      show ?thesis
      proof (cases "d = e")
        case de: True
        then have "isp_use_cnt (isp_slot_at st d) = 2" using starts(4) assms(2) True by (simp add: slot_dead_def)
        moreover have "\<not> isp_tid (isp_slot_at st d)" using starts(3) calculation de by (auto simp: slot_ok_def)
        ultimately show ?thesis using starts(1) assms(6) True len de by (auto simp: slot_dead_def)
      next
        case False
        then have "nat d \<noteq> nat e" using d assms(4) by auto
        then show ?thesis
          using starts(1) starts(5) [OF d False] assms(2,6) True by (auto simp: slot_dead_def)
      qed
    qed
  qed
qed

lemma exit_module_dead:
  assumes "handle_inv h" "slot_dead d h" "isp_key d" "exit_isp_module env h = Ret (r, h')"
  shows "slot_dead d h'"
  using assms exit_running_dead [of env "[0, 1]" h _ d]
  by (auto simp: exit_isp_module_def idle_status handle_inv_def slot_dead_def split: if_splits outcome.splits)

lemma init_module_dead:
  assumes "handle_inv h" "slot_dead d h" "isp_key d" "init_isp_module env h = Ret (r, h')"
  shows "slot_dead d h'"
proof -
  have "\<exists>r1 h1. (if g_module_init h then exit_isp_module env h else Ret (0, h)) = Ret (r1, h1) \<and>
      h' = h1\<lparr>g_isp_status := replicate (nat HW_ISP_DEVICE_NUM) False, g_module_init := True\<rparr>"
    using assms(4) unfolding init_isp_module_def
    by (cases "if g_module_init h then exit_isp_module env h else Ret (0, h)") (auto split: prod.splits)
  then obtain r1 h1 where h1: "(if g_module_init h then exit_isp_module env h else Ret (0, h)) = Ret (r1, h1)"
    "h' = h1\<lparr>g_isp_status := replicate (nat HW_ISP_DEVICE_NUM) False, g_module_init := True\<rparr>" by blast
  have "handle_inv h1 \<and> \<not> g_module_init h1 \<and> slot_dead d h1"
    using h1(1) assms(1,2) exit_module_inv [OF assms(1), of env r1 h1] exit_module_dead [OF assms(1-3), of env r1 h1]
    by (simp split: if_splits)
  then show ?thesis by (simp add: h1(2) handle_inv_def idle_status slot_dead_def)
qed

lemma dead_step:
  assumes "handle_step h h'" "handle_inv h" "slot_dead d h" "isp_key d"
  shows "slot_dead d h'"
  using assms(1)
proof cases
  case (select env vich e r)
  show ?thesis
  proof (cases "VALID_ISP_SEL e")
    case False
    then show ?thesis using select assms(3) by (simp add: select_isp_def)
  next
    case True
    then have e: "0 \<le> e" "e \<le> HW_ISP_DEVICE_NUM" by (simp_all add: VALID_ISP_SEL_def)
    show ?thesis
    proof (cases "g_module_init h")
      case init: True
      then show ?thesis
        using select True select_ready_dead [OF assms(2-4) e, of env vich r h'] by (simp add: select_isp_def)
    next
      case False
      then obtain h1 where h1: "init_isp_module env h = Ret (0, h1)" by (simp add: init_isp_module_def)
      have "handle_inv h1" "slot_dead d h1"
        using init_module_inv [OF assms(2) h1] init_module_dead [OF assms(2-4) h1] by simp_all
      then show ?thesis
        using select True False h1 select_ready_dead [OF _ _ assms(4) e, of h1 env vich r h'] by (simp add: select_isp_def)
    qed
  qed
qed (auto intro: init_module_dead [OF assms(2-4)] exit_module_dead [OF assms(2-4)])

lemma dead_steps:
  "handle_step\<^sup>*\<^sup>* h h' \<Longrightarrow> handle_inv h \<Longrightarrow> slot_dead d h \<Longrightarrow> isp_key d \<Longrightarrow> handle_inv h' \<and> slot_dead d h'"
  by (induction rule: rtranclp_induct) (auto intro: dead_step step_inv)

section \<open>Properties\<close>

text \<open>The tuning server as it starts: the module is not initialised and no device is in use.\<close>

definition first_handle :: "'m isp_media \<Rightarrow> 'm isp_handle" where
  "first_handle st = \<lparr>g_module_init = False, g_cur_isp_sel = - 1, g_isp_status = [False, False], h_media = st\<rparr>"

definition idle_slots :: "'m isp_media \<Rightarrow> bool" where
  "idle_slots st \<longleftrightarrow> length (isp_slots st) = 2 \<and>
     (\<forall>d \<in> {0, 1}. isp_use_cnt (isp_slot_at st d) = 0 \<and> \<not> isp_opened (isp_slot_at st d) \<and> \<not> isp_tid (isp_slot_at st d))"

lemma first_handle_inv: "idle_slots st \<Longrightarrow> handle_inv (first_handle st)"
  by (simp add: first_handle_def handle_inv_def idle_slots_def slot_ok_def)

interpretation handle: invariant_system handle_step "\<lambda>h. \<exists>st. idle_slots st \<and> h = first_handle st" handle_inv
  by unfold_locales (auto intro: first_handle_inv step_inv)

lemma idle_media_slots: "idle_slots idle_media"
  by (simp add: idle_slots_def idle_media_def idle_slot_def isp_slot_at_def)

text \<open>
  C7. The bookkeeping of the tuning server stays consistent. In every state reachable from the start by any sequence
  of \<open>select_isp\<close>, \<open>init_isp_module\<close> and \<open>exit_isp_module\<close> calls, whatever the kernel answers, the
  selected ISP is \<open>-1\<close> or a running one; a running ISP has use count 1 and an open device with its tuning object and its
  server thread, or use count 2 and no server thread; an ISP that is not running has use count 0 and no device, or
  use count 1 and no thread. The second alternatives are the traces of failed starts.
\<close>

theorem handle_reachable:
  assumes "idle_slots st" "handle_step\<^sup>*\<^sup>* (first_handle st) h" "d \<in> {0, 1}"
  shows "(get_isp_id h = - 1 \<or> get_isp_id h \<in> {0, 1} \<and> g_isp_status h ! nat (get_isp_id h)) \<and>
    slot_ok (g_isp_status h ! nat d) (isp_slot_at (h_media h) d)"
proof -
  have inv: "handle_inv h" using assms(1) by (intro handle.reachable_safe [OF _ assms(2)]) blast
  moreover have "isp_key d" using assms(3) by (auto simp: HW_ISP_DEVICE_NUM_def)
  ultimately show ?thesis
    using slot_ok_at [of h d] by (auto simp: handle_inv_def get_isp_id_def HW_ISP_DEVICE_NUM_def)
qed

theorem handle_reachable_witness:
  "\<exists>h. handle_step\<^sup>*\<^sup>* (first_handle idle_media) h \<and> g_module_init h \<and>
     slot_ok (g_isp_status h ! nat 1) (isp_slot_at (h_media h) 1)"
proof -
  obtain h where h: "init_isp_module good_env (first_handle idle_media) = Ret (0, h)" "g_module_init h"
    by (simp add: init_isp_module_def first_handle_def)
  then have "handle_step\<^sup>*\<^sup>* (first_handle idle_media) h"
    by (auto intro: handle_step.init)
  with h(2) handle_reachable [OF idle_media_slots this, of 1] show ?thesis by auto
qed

text \<open>
  Selecting an ISP makes it usable. If no start of the ISP has failed before and the kernel grants
  every request, \<open>select_isp\<close> of ISP 0 or 1 with an open video channel returns 0, makes it the selected ISP and
  leaves it running with an open device; the configuration requests on it then reach its tuning object.
\<close>

theorem select_isp_usable:
  assumes "handle_inv h" "g_module_init h" "d \<in> {0, 1}" "healthy_env env"
    and "isp_use_cnt (isp_slot_at (h_media h) d) = (if g_isp_status h ! nat d then 1 else 0)"
  shows "\<exists>h'. select_isp env True d h = Ret (0, h') \<and> get_isp_id h' = d \<and> g_isp_status h' ! nat d \<and>
    slot_usable (isp_slot_at (h_media h') d)"
proof -
  have key: "isp_key d" "VALID_ISP_SEL d" using assms(3) by (auto simp: HW_ISP_DEVICE_NUM_def VALID_ISP_SEL_def)
  have len: "length (g_isp_status h) = 2" using assms(1) by (simp add: handle_inv_def)
  have sel: "select_isp env True d h = select_ready env True d h"
    using key assms(2) by (simp add: select_isp_def)
  show ?thesis
  proof (cases "g_isp_status h ! nat d")
    case True
    then show ?thesis
      using slot_ok_at [OF assms(1) key(1)] assms(3,5) len
      by (auto simp: sel select_ready_def get_isp_id_def slot_ok_def)
  next
    case False
    from assms(1) key(1) False show ?thesis
    proof (cases rule: select_idle_cases [where env = env])
      case (starts st)
      have "slot_usable (isp_slot_at st d)"
        using starts(3,4) assms(5) False by (auto simp: slot_ok_def)
      then show ?thesis using starts(1) sel len assms(3) by (auto simp: get_isp_id_def)
    qed (use assms(4) in \<open>simp_all add: healthy_env_def\<close>)
  qed
qed

theorem select_isp_usable_witness:
  "\<exists>h. select_isp good_env True 1 ((first_handle idle_media)\<lparr>g_module_init := True\<rparr>) = Ret (0, h) \<and>
     get_isp_id h = 1 \<and> slot_usable (isp_slot_at (h_media h) 1)"
proof -
  have "handle_inv ((first_handle idle_media)\<lparr>g_module_init := True\<rparr>)"
    using first_handle_inv [OF idle_media_slots] by (simp add: handle_inv_def first_handle_def)
  then show ?thesis
    using select_isp_usable [of "(first_handle idle_media)\<lparr>g_module_init := True\<rparr>" 1 good_env] good_env_healthy
    by (auto simp: first_handle_def idle_media_def idle_slot_def isp_slot_at_def)
qed

text \<open>
  An ISP whose first start failed is lost for the rest of the process. Once an ISP that is not running has
  been left with use count 1, in every state reachable from there it has no server thread; with a video channel open,
  \<open>select_isp\<close> nevertheless reports it as selected and running.
\<close>

theorem failed_isp_never_recovers:
  assumes "handle_inv h" "d \<in> {0, 1}" "isp_use_cnt (isp_slot_at (h_media h) d) = 1" "\<not> g_isp_status h ! nat d"
    and "handle_step\<^sup>*\<^sup>* h h'"
  shows "\<not> isp_tid (isp_slot_at (h_media h') d) \<and>
    (g_module_init h' \<longrightarrow> (\<exists>h''. select_isp env True d h' = Ret (0, h'') \<and> get_isp_id h'' = d))"
proof -
  have key: "isp_key d" "VALID_ISP_SEL d" using assms(2) by (auto simp: HW_ISP_DEVICE_NUM_def VALID_ISP_SEL_def)
  have "slot_dead d h" using slot_ok_at [OF assms(1) key(1)] assms(3,4) by (auto simp: slot_dead_def slot_ok_def)
  then have inv: "handle_inv h'" and dead: "slot_dead d h'" using dead_steps [OF assms(5,1) _ key(1)] by simp_all
  have "\<exists>h''. select_ready env True d h' = Ret (0, h'') \<and> get_isp_id h'' = d"
  proof (cases "g_isp_status h' ! nat d")
    case True
    then show ?thesis using inv assms(2) by (auto simp: select_ready_def handle_inv_def get_isp_id_def)
  next
    case False
    from inv key(1) False show ?thesis
    proof (cases rule: select_idle_cases [where env = env])
      case (starts st)
      then show ?thesis by (auto simp: get_isp_id_def)
    qed (use dead False in \<open>auto simp: slot_dead_def\<close>)
  qed
  with dead key(2) show ?thesis by (auto simp: slot_dead_def select_isp_def)
qed

text \<open>The first \<open>select_isp\<close> fails because the media device cannot be opened; the second one, with a healthy kernel, reports success.\<close>

theorem failed_isp_never_recovers_witness:
  "\<exists>h h2. select_isp (good_env\<lparr>media_ok := False\<rparr>) True 0 (first_handle idle_media) = Ret (- 1, h) \<and>
     select_isp good_env True 0 h = Ret (0, h2) \<and> get_isp_id h2 = 0 \<and> \<not> isp_tid (isp_slot_at (h_media h) 0)"
proof -
  obtain h where h: "select_isp (good_env\<lparr>media_ok := False\<rparr>) True 0 (first_handle idle_media) = Ret (- 1, h)"
    "isp_use_cnt (isp_slot_at (h_media h) 0) = 1" "\<not> g_isp_status h ! nat 0" "g_module_init h"
    by (simp add: select_isp_def VALID_ISP_SEL_def HW_ISP_DEVICE_NUM_def init_isp_module_def first_handle_def
        select_ready_def isp_init_def idle_media_def idle_slot_def isp_slot_at_def upd_slot_def Let_def)
  have inv: "handle_inv h" by (rule select_isp_inv [OF first_handle_inv [OF idle_media_slots] h(1)])
  show ?thesis
    using failed_isp_never_recovers [OF inv _ h(2,3) rtranclp.rtrancl_refl, of good_env] h(1,4) by auto
qed

text \<open>
  The bounds check of \<open>select_isp\<close> admits one id too many: with the module initialised and a video
  channel open, \<open>select_isp(HW_ISP_DEVICE_NUM)\<close> reads past the end of \<open>g_isp_status\<close>; every other id
  outside \<open>0 .. HW_ISP_DEVICE_NUM - 1\<close> is rejected with \<open>-1\<close> and changes nothing.
\<close>

theorem select_isp_bounds:
  assumes "handle_inv h"
  shows "(g_module_init h \<longrightarrow> select_isp env True HW_ISP_DEVICE_NUM h = Ub) \<and>
    (ident < 0 \<or> ident > HW_ISP_DEVICE_NUM \<longrightarrow> select_isp env vich ident h = Ret (- 1, h))"
  using assms by (auto simp: select_isp_def VALID_ISP_SEL_def select_ready_def handle_inv_def HW_ISP_DEVICE_NUM_def)

theorem select_isp_bounds_witness:
  "select_isp good_env True 2 ((first_handle idle_media)\<lparr>g_module_init := True\<rparr>) = Ub"
proof -
  have "handle_inv ((first_handle idle_media)\<lparr>g_module_init := True\<rparr>)"
    using first_handle_inv [OF idle_media_slots] by (simp add: handle_inv_def first_handle_def)
  then show ?thesis
    using select_isp_bounds [of "(first_handle idle_media)\<lparr>g_module_init := True\<rparr>" good_env 0 True]
    by (simp add: HW_ISP_DEVICE_NUM_def)
qed

text \<open>
  \<open>exit_isp_module\<close> waits for a thread nobody stops. It calls \<open>isp_exit\<close> without \<open>isp_stop\<close>, so with an
  ISP running normally, whose events have not been stopped and whose loop does not end by itself, the call joins the
  server thread and does not return.
\<close>

theorem exit_module_blocks:
  assumes "handle_inv h" "g_module_init h" "g_isp_status h ! 0"
    "isp_use_cnt (isp_slot_at (h_media h) 0) = 1" "\<not> ev_done (isp_evs (isp_slot_at (h_media h) 0))" "\<not> thread_ends env"
  shows "exit_isp_module env h = Blocks"
proof -
  have "slot_usable (isp_slot_at (h_media h) 0)"
    using assms(1,3,4) by (auto simp: handle_inv_def slot_ok_def)
  then have "isp_exit env 0 (h_media h) = Blocks"
    using assms by (simp add: isp_exit_def HW_ISP_DEVICE_NUM_def isp_dev_at_def slot_usable_def handle_inv_def Let_def)
  then show ?thesis using assms(2,3) by (simp add: exit_isp_module_def idle_status)
qed

theorem exit_module_blocks_witness:
  "\<exists>h. select_isp good_env True 0 ((first_handle idle_media)\<lparr>g_module_init := True\<rparr>) = Ret (0, h) \<and>
     exit_isp_module good_env h = Blocks"
proof -
  let ?h0 = "(first_handle idle_media)\<lparr>g_module_init := True\<rparr>"
  have inv: "handle_inv ?h0"
    using first_handle_inv [OF idle_media_slots] by (simp add: handle_inv_def first_handle_def)
  obtain h where h: "select_isp good_env True 0 ?h0 = Ret (0, h)" "g_isp_status h ! 0" "g_module_init h"
    "isp_use_cnt (isp_slot_at (h_media h) 0) = 1" "\<not> ev_done (isp_evs (isp_slot_at (h_media h) 0))"
    by (simp add: select_isp_def VALID_ISP_SEL_def HW_ISP_DEVICE_NUM_def first_handle_def select_ready_def isp_init_def
        isp_run_def isp_dev_at_def isp_dev_open_def isp_configure_def isp_tuning_init_def isp_dev_banding_ctx_def
        isp_dev_get_ctx_def isp_dev_banding_tuning_def idle_media_def idle_slot_def good_env_def isp_slot_at_def
        upd_slot_def events_star_def events_init_def Let_def)
  then show ?thesis
    using exit_module_blocks [OF select_isp_inv [OF inv h(1)], of good_env] by (auto simp: good_env_def)
qed

end
