(* ===== verification/TuningConvert.thy ===== *)
theory TuningConvert
  imports IspTuning
begin

text \<open>
  \<open>convert_tuning_cfg_func\<close> (\<open>isp_handle.c\<close>): the tuning server converts the byte order of a
  configuration buffer in place, after receiving it (\<open>convert_tuning_cfg_to_local\<close>) and before
  sending it (\<open>convert_tuning_cfg_to_network\<close>). The function walks the same groups and items as
  \<open>isp_tuning_get_cfg\<close> and applies the two conversion functions it is given to the 32-bit and 16-bit
  members it believes each wire struct has. The blocks of the form "convert the whole struct as an
  array of \<open>HW_S32\<close> (or \<open>HW_U16\<close>)" are \<open>cvt_longs\<close> and \<open>cvt_shorts\<close>; every other block has a
  definition of its own.

  The locale \<open>byte_order\<close> is the contract of a pair of converters that undo each other; in it the
  walk is shown to be undone by the walk with the other pair.
\<close>

section \<open>Conversion of blocks\<close>

definition hton_long :: "u32 \<Rightarrow> u32" where
  "hton_long = bswap32"

definition ntoh_long :: "u32 \<Rightarrow> u32" where
  "ntoh_long = bswap32"

definition hton_short :: "u16 \<Rightarrow> u16" where
  "hton_short = bswap16"

definition ntoh_short :: "u16 \<Rightarrow> u16" where
  "ntoh_short = bswap16"

type_synonym block_cvt = "(u32 \<Rightarrow> u32) \<Rightarrow> (u16 \<Rightarrow> u16) \<Rightarrow> byte list \<Rightarrow> byte list"

definition cvt_longs :: block_cvt where
  "cvt_longs cvt_long cvt_short c = overlay c (enc32s (map cvt_long (dec32s c)))"

definition cvt_shorts :: block_cvt where
  "cvt_shorts cvt_long cvt_short c = overlay c (enc16s (map cvt_short (dec16s c)))"

definition cvt_none :: block_cvt where
  "cvt_none cvt_long cvt_short c = c"

text \<open>
  The tone mapping block passes its 16-bit members to the 32-bit converter: the short is
  sign-extended to an \<open>int\<close>, converted, and the low 16 bits of the result are stored.
\<close>

definition cvt_short_as_long :: "(u32 \<Rightarrow> u32) \<Rightarrow> u16 \<Rightarrow> u16" where
  "cvt_short_as_long cvt_long w = ucast (cvt_long (scast w))"

definition cvt_tuning_gtm :: block_cvt where
  "cvt_tuning_gtm cvt_long cvt_short c =
     overlay c (cvt_longs cvt_long cvt_short (slice c 0 24) @
       enc16s (map (cvt_short_as_long cvt_long) (dec16s (slice c 24 162))))"

definition cvt_tuning_ccm :: block_cvt where
  "cvt_tuning_ccm cvt_long cvt_short c =
     overlay c (cvt_shorts cvt_long cvt_short (slice c 0 2) @
       cvt_shorts cvt_long cvt_short (slice c 2 24))"

text \<open>
  The lens shading block converts the first word twice (its pointer is not advanced before the loop
  over four words), so that the rolloff word and the last triggers are out of step with the struct.
\<close>

definition cvt_tuning_lsc :: block_cvt where
  "cvt_tuning_lsc cvt_long cvt_short c =
     (let c1 = overlay c (cvt_longs cvt_long cvt_short (slice c 0 4)) in
      overlay c1 (cvt_longs cvt_long cvt_short (slice c1 0 16) @
        cvt_shorts cvt_long cvt_short (slice c1 16 18432) @
        cvt_shorts cvt_long cvt_short (slice c1 18448 12)))"

definition cvt_tuning_gamma :: block_cvt where
  "cvt_tuning_gamma cvt_long cvt_short c =
     overlay c (cvt_longs cvt_long cvt_short (slice c 0 4) @
       cvt_shorts cvt_long cvt_short (slice c 4 30720) @
       cvt_shorts cvt_long cvt_short (slice c 30724 10))"

definition cvt_tuning_tdnf :: block_cvt where
  "cvt_tuning_tdnf cvt_long cvt_short c = overlay c (cvt_shorts cvt_long cvt_short (slice c 0 132))"

definition cvt_tuning_lca :: block_cvt where
  "cvt_tuning_lca cvt_long cvt_short c =
     overlay c (cvt_shorts cvt_long cvt_short (slice c 0 66) @
       cvt_shorts cvt_long cvt_short (slice c 66 66))"

definition cvt_tuning_msc :: block_cvt where
  "cvt_tuning_msc cvt_long cvt_short c =
     overlay c (cvt_longs cvt_long cvt_short (slice c 0 8) @
       cvt_longs cvt_long cvt_short (slice c 8 88) @
       cvt_longs cvt_long cvt_short (slice c 96 96) @
       cvt_shorts cvt_long cvt_short (slice c 192 34848) @
       cvt_shorts cvt_long cvt_short (slice c 35040 12))"

section \<open>The walk\<close>

record conv_item =
  cv_id :: u32
  cv_size :: nat
  cv_fun :: block_cvt

fun convert_items ::
  "conv_item list \<Rightarrow> u32 \<Rightarrow> (u32 \<Rightarrow> u32) \<Rightarrow> (u16 \<Rightarrow> u16) \<Rightarrow> byte list \<Rightarrow> byte list option" where
  "convert_items [] ids cvt_long cvt_short buf = Some buf"
| "convert_items (it # its) ids cvt_long cvt_short buf =
     (if selected ids (cv_id it) then
        if length buf < cv_size it then None
        else map_option (\<lambda>rest. cv_fun it cvt_long cvt_short (take (cv_size it) buf) @ rest)
               (convert_items its ids cvt_long cvt_short (drop (cv_size it) buf))
      else convert_items its ids cvt_long cvt_short buf)"

definition convert_test_items :: "conv_item list" where
  "convert_test_items = [
     \<lparr>cv_id = HW_ISP_CFG_TEST_PUB, cv_size = 20, cv_fun = cvt_longs\<rparr>,
     \<lparr>cv_id = HW_ISP_CFG_TEST_EXPTIME, cv_size = 20, cv_fun = cvt_longs\<rparr>,
     \<lparr>cv_id = HW_ISP_CFG_TEST_GAIN, cv_size = 20, cv_fun = cvt_longs\<rparr>,
     \<lparr>cv_id = HW_ISP_CFG_TEST_FOCUS, cv_size = 20, cv_fun = cvt_longs\<rparr>,
     \<lparr>cv_id = HW_ISP_CFG_TEST_FORCED, cv_size = 8, cv_fun = cvt_longs\<rparr>,
     \<lparr>cv_id = HW_ISP_CFG_TEST_ENABLE, cv_size = 128, cv_fun = cvt_longs\<rparr>]"

definition convert_3a_items :: "conv_item list" where
  "convert_3a_items = [
     \<lparr>cv_id = HW_ISP_CFG_AE_PUB, cv_size = 124, cv_fun = cvt_longs\<rparr>,
     \<lparr>cv_id = HW_ISP_CFG_AE_PREVIEW_TBL, cv_size = 172, cv_fun = cvt_longs\<rparr>,
     \<lparr>cv_id = HW_ISP_CFG_AE_CAPTURE_TBL, cv_size = 172, cv_fun = cvt_longs\<rparr>,
     \<lparr>cv_id = HW_ISP_CFG_AE_VIDEO_TBL, cv_size = 172, cv_fun = cvt_longs\<rparr>,
     \<lparr>cv_id = HW_ISP_CFG_AE_WIN_WEIGHT, cv_size = 256, cv_fun = cvt_longs\<rparr>,
     \<lparr>cv_id = HW_ISP_CFG_AE_DELAY, cv_size = 12, cv_fun = cvt_longs\<rparr>,
     \<lparr>cv_id = HW_ISP_CFG_AWB_PUB, cv_size = 12, cv_fun = cvt_longs\<rparr>,
     \<lparr>cv_id = HW_ISP_CFG_AWB_TEMP_RANGE, cv_size = 12, cv_fun = cvt_longs\<rparr>,
     \<lparr>cv_id = HW_ISP_CFG_AWB_DIST, cv_size = 8, cv_fun = cvt_longs\<rparr>,
     \<lparr>cv_id = HW_ISP_CFG_AWB_LIGHT_INFO, cv_size = 1284, cv_fun = cvt_longs\<rparr>,
     \<lparr>cv_id = HW_ISP_CFG_AWB_EXT_LIGHT_INFO, cv_size = 1284, cv_fun = cvt_longs\<rparr>,
     \<lparr>cv_id = HW_ISP_CFG_AWB_SKIN_INFO, cv_size = 1284, cv_fun = cvt_longs\<rparr>,
     \<lparr>cv_id = HW_ISP_CFG_AWB_SPECIAL_INFO, cv_size = 1284, cv_fun = cvt_longs\<rparr>,
     \<lparr>cv_id = HW_ISP_CFG_AWB_PRESET_GAIN, cv_size = 88, cv_fun = cvt_longs\<rparr>,
     \<lparr>cv_id = HW_ISP_CFG_AWB_FAVOR, cv_size = 8, cv_fun = cvt_longs\<rparr>,
     \<lparr>cv_id = HW_ISP_CFG_AF_VCM_CODE, cv_size = 8, cv_fun = cvt_longs\<rparr>,
     \<lparr>cv_id = HW_ISP_CFG_AF_OTP, cv_size = 4, cv_fun = cvt_longs\<rparr>,
     \<lparr>cv_id = HW_ISP_CFG_AF_SPEED, cv_size = 8, cv_fun = cvt_longs\<rparr>,
     \<lparr>cv_id = HW_ISP_CFG_AF_FINE_SEARCH, cv_size = 12, cv_fun = cvt_longs\<rparr>,
     \<lparr>cv_id = HW_ISP_CFG_AF_REFOCUS, cv_size = 16, cv_fun = cvt_longs\<rparr>,
     \<lparr>cv_id = HW_ISP_CFG_AF_TOLERANCE, cv_size = 176, cv_fun = cvt_longs\<rparr>,
     \<lparr>cv_id = HW_ISP_CFG_AF_SCENE, cv_size = 36, cv_fun = cvt_longs\<rparr>]"

definition convert_tuning_items :: "conv_item list" where
  "convert_tuning_items = [
     \<lparr>cv_id = HW_ISP_CFG_TUNING_FLASH, cv_size = 8, cv_fun = cvt_longs\<rparr>,
     \<lparr>cv_id = HW_ISP_CFG_TUNING_FLICKER, cv_size = 8, cv_fun = cvt_longs\<rparr>,
     \<lparr>cv_id = HW_ISP_CFG_TUNING_VISUAL_ANGLE, cv_size = 12, cv_fun = cvt_longs\<rparr>,
     \<lparr>cv_id = HW_ISP_CFG_TUNING_GTM, cv_size = 188, cv_fun = cvt_tuning_gtm\<rparr>,
     \<lparr>cv_id = HW_ISP_CFG_TUNING_CFA, cv_size = 12, cv_fun = cvt_longs\<rparr>,
     \<lparr>cv_id = HW_ISP_CFG_TUNING_CTC, cv_size = 10, cv_fun = cvt_shorts\<rparr>,
     \<lparr>cv_id = HW_ISP_CFG_TUNING_DIGITAL_GAIN, cv_size = 16, cv_fun = cvt_longs\<rparr>,
     \<lparr>cv_id = HW_ISP_CFG_TUNING_CCM_LOW, cv_size = 26, cv_fun = cvt_tuning_ccm\<rparr>,
     \<lparr>cv_id = HW_ISP_CFG_TUNING_CCM_MID, cv_size = 26, cv_fun = cvt_tuning_ccm\<rparr>,
     \<lparr>cv_id = HW_ISP_CFG_TUNING_CCM_HIGH, cv_size = 26, cv_fun = cvt_tuning_ccm\<rparr>,
     \<lparr>cv_id = HW_ISP_CFG_TUNING_PLTM, cv_size = 76, cv_fun = cvt_longs\<rparr>,
     \<lparr>cv_id = HW_ISP_CFG_TUNING_GCA, cv_size = 28, cv_fun = cvt_longs\<rparr>]"

definition convert_tables_items :: "conv_item list" where
  "convert_tables_items = [
     \<lparr>cv_id = HW_ISP_CFG_TUNING_LSC, cv_size = 18464, cv_fun = cvt_tuning_lsc\<rparr>,
     \<lparr>cv_id = HW_ISP_CFG_TUNING_GAMMA, cv_size = 30736, cv_fun = cvt_tuning_gamma\<rparr>,
     \<lparr>cv_id = HW_ISP_CFG_TUNING_LINEARITY, cv_size = 1536, cv_fun = cvt_shorts\<rparr>,
     \<lparr>cv_id = HW_ISP_CFG_TUNING_DISTORTION, cv_size = 1024, cv_fun = cvt_shorts\<rparr>,
     \<lparr>cv_id = HW_ISP_CFG_TUNING_BDNF, cv_size = 66, cv_fun = cvt_shorts\<rparr>,
     \<lparr>cv_id = HW_ISP_CFG_TUNING_TDNF, cv_size = 676, cv_fun = cvt_tuning_tdnf\<rparr>,
     \<lparr>cv_id = HW_ISP_CFG_TUNING_CONTRAST, cv_size = 388, cv_fun = cvt_shorts\<rparr>,
     \<lparr>cv_id = HW_ISP_CFG_TUNING_SHARP, cv_size = 390, cv_fun = cvt_shorts\<rparr>,
     \<lparr>cv_id = HW_ISP_CFG_TUNING_CEM, cv_size = 5888, cv_fun = cvt_none\<rparr>,
     \<lparr>cv_id = HW_ISP_CFG_TUNING_CEM_1, cv_size = 5888, cv_fun = cvt_none\<rparr>,
     \<lparr>cv_id = HW_ISP_CFG_TUNING_LCA_TBL, cv_size = 132, cv_fun = cvt_tuning_lca\<rparr>,
     \<lparr>cv_id = HW_ISP_CFG_TUNING_MSC, cv_size = 35052, cv_fun = cvt_tuning_msc\<rparr>]"

definition convert_dynamic_items :: "conv_item list" where
  "convert_dynamic_items = [
     \<lparr>cv_id = HW_ISP_CFG_DYNAMIC_LUM_POINT, cv_size = 56, cv_fun = cvt_longs\<rparr>,
     \<lparr>cv_id = HW_ISP_CFG_DYNAMIC_GAIN_POINT, cv_size = 56, cv_fun = cvt_longs\<rparr>,
     \<lparr>cv_id = HW_ISP_CFG_DYNAMIC_SHARP, cv_size = 1628, cv_fun = cvt_longs\<rparr>,
     \<lparr>cv_id = HW_ISP_CFG_DYNAMIC_CONTRAST, cv_size = 620, cv_fun = cvt_longs\<rparr>,
     \<lparr>cv_id = HW_ISP_CFG_DYNAMIC_DENOISE, cv_size = 1240, cv_fun = cvt_longs\<rparr>,
     \<lparr>cv_id = HW_ISP_CFG_DYNAMIC_SENSOR_OFFSET, cv_size = 228, cv_fun = cvt_longs\<rparr>,
     \<lparr>cv_id = HW_ISP_CFG_DYNAMIC_BLACK_LV, cv_size = 228, cv_fun = cvt_longs\<rparr>,
     \<lparr>cv_id = HW_ISP_CFG_DYNAMIC_DPC, cv_size = 340, cv_fun = cvt_longs\<rparr>,
     \<lparr>cv_id = HW_ISP_CFG_DYNAMIC_PLTM, cv_size = 228, cv_fun = cvt_longs\<rparr>,
     \<lparr>cv_id = HW_ISP_CFG_DYNAMIC_DEFOG, cv_size = 60, cv_fun = cvt_longs\<rparr>,
     \<lparr>cv_id = HW_ISP_CFG_DYNAMIC_HISTOGRAM, cv_size = 120, cv_fun = cvt_longs\<rparr>,
     \<lparr>cv_id = HW_ISP_CFG_DYNAMIC_SATURATION, cv_size = 508, cv_fun = cvt_longs\<rparr>,
     \<lparr>cv_id = HW_ISP_CFG_DYNAMIC_CEM, cv_size = 60, cv_fun = cvt_longs\<rparr>,
     \<lparr>cv_id = HW_ISP_CFG_DYNAMIC_TDF, cv_size = 1236, cv_fun = cvt_longs\<rparr>,
     \<lparr>cv_id = HW_ISP_CFG_DYNAMIC_AE, cv_size = 788, cv_fun = cvt_longs\<rparr>,
     \<lparr>cv_id = HW_ISP_CFG_DYNAMIC_GTM, cv_size = 508, cv_fun = cvt_longs\<rparr>,
     \<lparr>cv_id = HW_ISP_CFG_DYNAMIC_LCA, cv_size = 620, cv_fun = cvt_longs\<rparr>]"

definition convert_tuning_cfg_func ::
  "byte \<Rightarrow> u32 \<Rightarrow> byte list \<Rightarrow> (u32 \<Rightarrow> u32) \<Rightarrow> (u16 \<Rightarrow> u16) \<Rightarrow> byte list option" where
  "convert_tuning_cfg_func group_id cfg_ids cfg_data cvt_long cvt_short =
     (if group_id = HW_ISP_CFG_TEST then
        convert_items convert_test_items cfg_ids cvt_long cvt_short cfg_data
      else if group_id = HW_ISP_CFG_3A then
        convert_items convert_3a_items cfg_ids cvt_long cvt_short cfg_data
      else if group_id = HW_ISP_CFG_TUNING then
        convert_items convert_tuning_items cfg_ids cvt_long cvt_short cfg_data
      else if group_id = HW_ISP_CFG_TUNING_TABLES then
        convert_items convert_tables_items cfg_ids cvt_long cvt_short cfg_data
      else if group_id = HW_ISP_CFG_DYNAMIC then
        convert_items convert_dynamic_items cfg_ids cvt_long cvt_short cfg_data
      else Some cfg_data)"

definition convert_tuning_cfg_to_local :: "byte \<Rightarrow> u32 \<Rightarrow> byte list \<Rightarrow> byte list option" where
  "convert_tuning_cfg_to_local group_id cfg_ids cfg_data =
     convert_tuning_cfg_func group_id cfg_ids cfg_data ntoh_long ntoh_short"

definition convert_tuning_cfg_to_network :: "byte \<Rightarrow> u32 \<Rightarrow> byte list \<Rightarrow> byte list option" where
  "convert_tuning_cfg_to_network group_id cfg_ids cfg_data =
     convert_tuning_cfg_func group_id cfg_ids cfg_data hton_long hton_short"

lemmas convert_tables = convert_test_items_def convert_3a_items_def convert_tuning_items_def
  convert_tables_items_def convert_dynamic_items_def

lemmas block_cvt_defs = cvt_tuning_gtm_def cvt_tuning_ccm_def cvt_tuning_lsc_def cvt_tuning_gamma_def
  cvt_tuning_tdnf_def cvt_tuning_lca_def cvt_tuning_msc_def cvt_none_def

section \<open>Lengths, and agreement with the get and set walks\<close>

lemma enc_fits: "2 * (length c div 2) \<le> length c" "4 * (length c div 4) \<le> length c" for c :: "'a list"
  by simp_all

lemma length_cvt_longs [simp]: "length (cvt_longs f g c) = length c"
  by (simp add: cvt_longs_def enc_fits)

lemma length_cvt_shorts [simp]: "length (cvt_shorts f g c) = length c"
  by (simp add: cvt_shorts_def enc_fits)

lemma convert_items_same_walk:
  "map (\<lambda>it. (cv_id it, cv_size it)) its = map (\<lambda>it. (cfg_id it, cfg_size it)) its' \<Longrightarrow>
   (convert_items its ids f g buf = None) = (length buf < items_size its' ids)"
proof (induction its arbitrary: its' buf)
  case (Cons it its)
  then obtain it' its2 where i: "its' = it' # its2" "cv_id it = cfg_id it'" "cv_size it = cfg_size it'"
    "map (\<lambda>it. (cv_id it, cv_size it)) its = map (\<lambda>it. (cfg_id it, cfg_size it)) its2"
    by (cases its') auto
  from i Cons.IH [OF i(4)] show ?case by auto
qed simp

lemma same_walks:
  "map (\<lambda>it. (cv_id it, cv_size it)) convert_test_items = map (\<lambda>it. (cfg_id it, cfg_size it)) cfg_test_items"
  "map (\<lambda>it. (cv_id it, cv_size it)) convert_3a_items = map (\<lambda>it. (cfg_id it, cfg_size it)) cfg_3a_items"
  "map (\<lambda>it. (cv_id it, cv_size it)) convert_tuning_items = map (\<lambda>it. (cfg_id it, cfg_size it)) cfg_tuning_items"
  "map (\<lambda>it. (cv_id it, cv_size it)) convert_tables_items = map (\<lambda>it. (cfg_id it, cfg_size it)) cfg_tables_items"
  "map (\<lambda>it. (cv_id it, cv_size it)) convert_dynamic_items = map (\<lambda>it. (cfg_id it, cfg_size it)) cfg_dynamic_items"
  by (simp_all add: convert_tables cfg_test_items_def cfg_3a_items_def cfg_tuning_items_def
      cfg_tables_items_def cfg_dynamic_items_def)

lemma convert_None_iff:
  "(convert_tuning_cfg_func g ids buf f h = None) = (length buf < group_size g ids)"
  using same_walks [THEN convert_items_same_walk]
  by (simp add: convert_tuning_cfg_func_def group_size_def)

lemma slice_overlay: "i + n \<le> length bs \<Longrightarrow> slice (overlay c bs) i n = slice bs i n"
  by (simp add: overlay_def slice_head)

lemma slice_overlay_past: "length bs \<le> i \<Longrightarrow> slice (overlay c bs) i n = slice c i n"
  by (simp add: overlay_def slice_skip) (simp add: slice_def)

lemma slice_overlay_over:
  "length bs = k \<Longrightarrow> slice (overlay c bs) 0 (k + n) = bs @ slice c k n"
  by (simp add: overlay_def slice_def)

lemma overlay_overlay: "length bs \<le> length bs' \<Longrightarrow> overlay (overlay c bs) bs' = overlay c bs'"
  by (simp add: overlay_def)

lemmas member_simps = slice_overlay overlay_overlay slice_head slice_skip slice_full

lemma block_cvt_length:
  assumes "it \<in> set convert_test_items \<union> set convert_3a_items \<union> set convert_tuning_items \<union>
      set convert_tables_items \<union> set convert_dynamic_items" "length c = cv_size it"
  shows "length (cv_fun it f g c) = cv_size it"
  using assms unfolding convert_tables
  by (simp, elim disjE) (simp_all add: block_cvt_defs Let_def)

lemma convert_items_length:
  assumes "list_all (\<lambda>it. \<forall>c. length c = cv_size it \<longrightarrow> length (cv_fun it f g c) = cv_size it) its"
    "convert_items its ids f g buf = Some buf'"
  shows "length buf' = length buf"
  using assms
proof (induction its arbitrary: buf buf')
  case (Cons it its)
  show ?case
  proof (cases "selected ids (cv_id it)")
    case True
    with Cons.prems(2) obtain rest where
      "convert_items its ids f g (drop (cv_size it) buf) = Some rest" "cv_size it \<le> length buf"
      "buf' = cv_fun it f g (take (cv_size it) buf) @ rest"
      by (auto split: if_splits)
    with Cons.IH [of "drop (cv_size it) buf" rest] Cons.prems(1) show ?thesis by simp
  qed (use Cons.IH [of buf buf'] Cons.prems in simp)
qed simp

section \<open>Converters that undo each other\<close>

lemma dec32s_short: "length bs < 4 \<Longrightarrow> dec32s bs = []"
  by (cases bs rule: dec32s.cases) auto

lemma dec16s_short: "length bs < 2 \<Longrightarrow> dec16s bs = []"
  by (cases bs rule: dec16s.cases) auto

lemma enc32s_dec32s_prefix: "overlay c (enc32s (dec32s c)) = c"
  using enc32s_slice [of 0 "length c div 4" c] by (simp add: slice_full)

lemma enc16s_dec16s_prefix: "overlay c (enc16s (dec16s c)) = c"
  using enc16s_slice [of 0 "length c div 2" c] by (simp add: slice_full)

lemma dec32s_cvt_longs: "dec32s (cvt_longs f g c) = map f (dec32s c)"
proof -
  have "dec32s (drop (4 * (length c div 4)) c) = []"
    by (rule dec32s_short) (simp add: minus_mult_div_eq_mod)
  then show ?thesis by (simp add: cvt_longs_def dec32s_overlay)
qed

lemma dec16s_cvt_shorts: "dec16s (cvt_shorts f g c) = map g (dec16s c)"
proof -
  have "dec16s (drop (2 * (length c div 2)) c) = []"
    by (rule dec16s_short) (simp add: minus_mult_div_eq_mod)
  then show ?thesis by (simp add: cvt_shorts_def overlay_def)
qed

lemma cvt_longs_append: "4 dvd length xs \<Longrightarrow> cvt_longs f g (xs @ ys) = cvt_longs f g xs @ cvt_longs f g ys"
proof -
  assume a: "4 dvd length xs"
  then have e: "enc32s (dec32s xs) = xs" by (rule enc32s_dec32s)
  have "dec32s (xs @ ys) = dec32s xs @ dec32s ys" using dec32s_append [of "dec32s xs" ys] e by simp
  moreover have "length (enc32s (map f (dec32s xs))) = length xs" using a by simp
  ultimately show ?thesis by (simp add: cvt_longs_def overlay_def enc32s_app)
qed

lemma cvt_tuning_lsc_members:
  assumes "length c = 18464"
  shows "cvt_tuning_lsc f g c = overlay c (cvt_longs f g (cvt_longs f g (slice c 0 4)) @
    cvt_longs f g (slice c 4 12) @ cvt_shorts f g (slice c 16 18432) @ cvt_shorts f g (slice c 18448 12))"
  using assms slice_overlay_over [of "cvt_longs f g (slice c 0 4)" 4 c 12]
  by (simp add: cvt_tuning_lsc_def Let_def slice_overlay_past overlay_overlay cvt_longs_append)

lemma length_cvt_tuning_lsc [simp]: "length c = 18464 \<Longrightarrow> length (cvt_tuning_lsc f g c) = 18464"
  by (simp add: cvt_tuning_lsc_members)

locale byte_order =
  fixes cl :: "u32 \<Rightarrow> u32" and cs :: "u16 \<Rightarrow> u16" and cl' :: "u32 \<Rightarrow> u32" and cs' :: "u16 \<Rightarrow> u16"
  assumes long_inv: "cl' (cl w) = w"
    and short_inv: "cs' (cs h) = h"
begin

lemma longs_inv [simp]: "cvt_longs cl' cs' (cvt_longs cl cs c) = c"
proof -
  have "cvt_longs cl' cs' (cvt_longs cl cs c) = overlay (cvt_longs cl cs c) (enc32s (dec32s c))"
    unfolding cvt_longs_def [of cl' cs'] dec32s_cvt_longs by (simp add: long_inv comp_def)
  also have "\<dots> = overlay c (enc32s (dec32s c))"
    unfolding cvt_longs_def by (rule overlay_overlay) simp
  finally show ?thesis by (simp only: enc32s_dec32s_prefix)
qed

lemma shorts_inv [simp]: "cvt_shorts cl' cs' (cvt_shorts cl cs c) = c"
proof -
  have "cvt_shorts cl' cs' (cvt_shorts cl cs c) = overlay (cvt_shorts cl cs c) (enc16s (dec16s c))"
    unfolding cvt_shorts_def [of cl' cs'] dec16s_cvt_shorts by (simp add: short_inv comp_def)
  also have "\<dots> = overlay c (enc16s (dec16s c))"
    unfolding cvt_shorts_def by (rule overlay_overlay) simp
  finally show ?thesis by (simp only: enc16s_dec16s_prefix)
qed

lemma lsc_inverse:
  assumes "length c = 18464"
  shows "cvt_tuning_lsc cl' cs' (cvt_tuning_lsc cl cs c) = c"
proof -
  have "length (cvt_tuning_lsc cl cs c) = 18464" using assms by simp
  from cvt_tuning_lsc_members [OF this, of cl' cs'] cvt_tuning_lsc_members [OF assms, of cl cs] assms
  show ?thesis by (simp add: member_simps fuse)
qed

lemma block_inverse:
  assumes "it \<in> set convert_test_items \<union> set convert_3a_items \<union> set convert_tables_items \<union>
      set convert_dynamic_items" "length c = cv_size it"
  shows "cv_fun it cl' cs' (cv_fun it cl cs c) = c"
  using assms unfolding convert_tables
  by (simp, elim disjE) (simp_all add: lsc_inverse,
      simp_all add: block_cvt_defs Let_def member_simps fuse)

lemma tuning_block_inverse:
  assumes "it \<in> set convert_tuning_items" "cv_id it \<noteq> HW_ISP_CFG_TUNING_GTM" "length c = cv_size it"
  shows "cv_fun it cl' cs' (cv_fun it cl cs c) = c"
  using assms unfolding convert_tables
  by (simp, elim disjE) (simp_all add: block_cvt_defs member_simps fuse)

lemma items_inverse:
  assumes "list_all (\<lambda>it. selected ids (cv_id it) \<longrightarrow> (\<forall>c. length c = cv_size it \<longrightarrow>
      cv_fun it cl' cs' (cv_fun it cl cs c) = c \<and> length (cv_fun it cl cs c) = cv_size it)) its"
    "convert_items its ids cl cs buf = Some buf'"
  shows "convert_items its ids cl' cs' buf' = Some buf"
  using assms
proof (induction its arbitrary: buf buf')
  case (Cons it its)
  show ?case
  proof (cases "selected ids (cv_id it)")
    case True
    with Cons.prems(2) obtain rest where r:
      "convert_items its ids cl cs (drop (cv_size it) buf) = Some rest" "cv_size it \<le> length buf"
      "buf' = cv_fun it cl cs (take (cv_size it) buf) @ rest"
      by (auto split: if_splits)
    moreover have "convert_items its ids cl' cs' rest = Some (drop (cv_size it) buf)"
      using Cons.IH [of "drop (cv_size it) buf" rest] Cons.prems(1) r(1) by simp
    moreover have "cv_fun it cl' cs' (cv_fun it cl cs (take (cv_size it) buf)) = take (cv_size it) buf"
      "length (cv_fun it cl cs (take (cv_size it) buf)) = cv_size it"
      using Cons.prems(1) True r(2) by simp_all
    ultimately show ?thesis using True by simp
  qed (use Cons in simp)
qed simp

lemma func_inverse:
  assumes "g = HW_ISP_CFG_TUNING \<Longrightarrow> \<not> selected ids HW_ISP_CFG_TUNING_GTM"
    "convert_tuning_cfg_func g ids buf cl cs = Some buf'"
  shows "convert_tuning_cfg_func g ids buf' cl' cs' = Some buf"
proof -
  let ?ok = "list_all (\<lambda>it. selected ids (cv_id it) \<longrightarrow> (\<forall>c. length c = cv_size it \<longrightarrow>
      cv_fun it cl' cs' (cv_fun it cl cs c) = c \<and> length (cv_fun it cl cs c) = cv_size it))"
  have "?ok convert_test_items" "?ok convert_3a_items" "?ok convert_tables_items"
    "?ok convert_dynamic_items"
    unfolding list_all_iff by (auto intro: block_inverse block_cvt_length)
  moreover have "?ok convert_tuning_items" if "g = HW_ISP_CFG_TUNING"
    using assms(1) [OF that] unfolding list_all_iff
    by (auto intro!: tuning_block_inverse block_cvt_length)
  ultimately show ?thesis
    using assms(2) items_inverse [of ids _ buf buf'] unfolding convert_tuning_cfg_func_def
    by (simp split: if_split_asm)
qed

end

interpretation to_net: byte_order hton_long hton_short ntoh_long ntoh_short
  by unfold_locales (simp_all add: hton_long_def ntoh_long_def hton_short_def ntoh_short_def)

interpretation to_loc: byte_order ntoh_long ntoh_short hton_long hton_short
  by unfold_locales (simp_all add: hton_long_def ntoh_long_def hton_short_def ntoh_short_def)

section \<open>Properties\<close>

lemma short_as_long_swap: "cvt_short_as_long bswap32 w = (if bit w 15 then 0xFFFF else 0)"
proof (rule bit_word_eqI)
  have "(0xFFFF :: u16) = mask 16" by (simp add: mask_eq_exp_minus_1)
  then have m: "bit (0xFFFF :: u16) k" if "k < 16" for k
    using that by (simp only: bit_mask_iff) simp
  fix n assume "n < LENGTH(16)"
  then consider "n < 8" | "8 \<le> n" "n < 16" by fastforce
  then show "bit (cvt_short_as_long bswap32 w) n = bit (if bit w 15 then 0xFFFF else 0 :: u16) n"
  proof cases
    case 1
    then have "bit (cvt_short_as_long bswap32 w) n = bit w 15"
      by (auto simp: cvt_short_as_long_def bswap32_def dec32_def bit_simps min_def)
    with 1 m show ?thesis by simp
  next
    case 2
    then have "bit (cvt_short_as_long bswap32 w) n = bit w 15"
      by (auto simp: cvt_short_as_long_def bswap32_def dec32_def bit_simps min_def)
    with 2 m show ?thesis by simp
  qed
qed

text \<open>
  C15. Converting a buffer to network order and back, or from network order and back, restores every
  byte, for every group and every combination of ids except the tone mapping item, whose loss the next property states.
\<close>

theorem convert_round_trip:
  assumes "g = HW_ISP_CFG_TUNING \<Longrightarrow> \<not> selected ids HW_ISP_CFG_TUNING_GTM"
  shows "(convert_tuning_cfg_to_network g ids buf = Some buf' \<longrightarrow>
      convert_tuning_cfg_to_local g ids buf' = Some buf) \<and>
    (convert_tuning_cfg_to_local g ids buf = Some buf' \<longrightarrow>
      convert_tuning_cfg_to_network g ids buf' = Some buf)"
  unfolding convert_tuning_cfg_to_network_def convert_tuning_cfg_to_local_def
  using to_net.func_inverse [OF assms, of g buf buf'] to_loc.func_inverse [OF assms, of g buf buf']
  by blast

theorem convert_round_trip_witness:
  "convert_tuning_cfg_to_local HW_ISP_CFG_TEST HW_ISP_CFG_TEST_FORCED [0, 0, 0, 1, 0, 0, 0, 7] =
     Some [1, 0, 0, 0, 7, 0, 0, 0] \<and>
   convert_tuning_cfg_to_network HW_ISP_CFG_TEST HW_ISP_CFG_TEST_FORCED [1, 0, 0, 0, 7, 0, 0, 0] =
     Some [0, 0, 0, 1, 0, 0, 0, 7]"
proof -
  have "convert_tuning_cfg_to_local HW_ISP_CFG_TEST HW_ISP_CFG_TEST_FORCED [0, 0, 0, 1, 0, 0, 0, 7] =
     Some [1, 0, 0, 0, 7, 0, 0, 0]"
    by (simp add: convert_tuning_cfg_to_local_def convert_tuning_cfg_func_def convert_test_items_def
        selected_def cvt_longs_def ntoh_long_def bswap32_def dec32_def enc32_def enc32s.simps overlay_def)
  with convert_round_trip [of HW_ISP_CFG_TEST HW_ISP_CFG_TEST_FORCED "[0, 0, 0, 1, 0, 0, 0, 7]"
      "[1, 0, 0, 0, 7, 0, 0, 0]"] show ?thesis by simp
qed

text \<open>
  The tone mapping item does not survive the conversion: every entry of \<open>plum_var\<close> that the
  server stores after \<open>convert_tuning_cfg_to_local\<close> is 0 or -1, the sign of what the client sent.
\<close>

theorem gtm_plum_var_lost:
  assumes "length buf = 188"
  shows "\<exists>out. convert_tuning_cfg_to_local HW_ISP_CFG_TUNING HW_ISP_CFG_TUNING_GTM buf = Some out \<and>
    dec16s (slice out 24 162) = map (\<lambda>w. if bit w 15 then 0xFFFF else 0) (dec16s (slice buf 24 162))"
proof -
  have s: "cvt_short_as_long ntoh_long = (\<lambda>w. if bit w 15 then 0xFFFF else 0)"
    by (simp add: fun_eq_iff ntoh_long_def short_as_long_swap)
  show ?thesis
    using assms by (simp add: convert_tuning_cfg_to_local_def convert_tuning_cfg_func_def
        convert_tuning_items_def selected_def cvt_tuning_gtm_def member_simps s)
qed

theorem gtm_plum_var_lost_witness:
  "\<exists>out. convert_tuning_cfg_to_local HW_ISP_CFG_TUNING HW_ISP_CFG_TUNING_GTM (replicate 188 1) = Some out \<and>
    dec16s (slice out 24 162) = replicate 81 0"
proof -
  have d: "dec16s (replicate (2 * n) 1) = replicate n 0x101" for n
    by (induction n) (simp_all add: dec16_def)
  have "dec16s (slice (replicate 188 1) 24 162) = replicate 81 0x101"
    using d [of 81] by (simp add: slice_def)
  moreover have "\<not> bit (0x101 :: u16) 15" by (simp add: bit_numeral_simps numeral_eq_Suc)
  ultimately show ?thesis
    using gtm_plum_var_lost [of "replicate 188 1"] by simp
qed

text \<open>
  In the lens shading item the conversion is out of step with the struct by one word: the bytes
  of \<open>ff_mod\<close> and of the last two colour temperature triggers come out as they went in (the
  double conversion of the first word cancels), while the three following words are swapped.
\<close>

theorem lsc_ff_mod_not_converted:
  assumes "length buf = 18464"
  shows "\<exists>out. convert_tuning_cfg_to_network HW_ISP_CFG_TUNING_TABLES HW_ISP_CFG_TUNING_LSC buf = Some out \<and>
    slice out 0 4 = slice buf 0 4 \<and> slice out 18460 4 = slice buf 18460 4 \<and>
    dec32s (slice out 4 12) = map bswap32 (dec32s (slice buf 4 12))"
proof -
  have inv: "cvt_longs hton_long hton_short (cvt_longs hton_long hton_short c) = c" for c
    using to_loc.longs_inv [of c] by (simp add: hton_long_def ntoh_long_def hton_short_def ntoh_short_def)
  show ?thesis
    using assms
    by (simp add: convert_tuning_cfg_to_network_def convert_tuning_cfg_func_def convert_tables_items_def
        selected_def cvt_tuning_lsc_members inv member_simps slice_overlay_past dec32s_cvt_longs)
      (simp add: hton_long_def)
qed

theorem lsc_ff_mod_not_converted_witness:
  "\<exists>out. convert_tuning_cfg_to_network HW_ISP_CFG_TUNING_TABLES HW_ISP_CFG_TUNING_LSC
     (1 # replicate 18463 0) = Some out \<and> slice out 0 4 = [1, 0, 0, 0]"
  using lsc_ff_mod_not_converted [of "1 # replicate 18463 0"]
  by (auto simp: slice_def numeral_3_eq_3)

text \<open>
  The conversion reads and writes exactly the bytes that the read and write of the same request
  cover: it leaves the buffer exactly when that request would, and otherwise keeps its length.
\<close>

theorem convert_bounds:
  "case convert_tuning_cfg_func g ids buf f h of
     None \<Rightarrow> length buf < group_size g ids
   | Some buf' \<Rightarrow> group_size g ids \<le> length buf \<and> length buf' = length buf"
proof (cases "convert_tuning_cfg_func g ids buf f h")
  case None
  then show ?thesis using convert_None_iff [of g ids buf f h] by simp
next
  case (Some buf')
  have len: "convert_items its ids f h buf = Some buf' \<Longrightarrow> length buf' = length buf"
    if "set its \<subseteq> set convert_test_items \<union> set convert_3a_items \<union> set convert_tuning_items \<union>
      set convert_tables_items \<union> set convert_dynamic_items" for its
    by (rule convert_items_length [where f = f and g = h and its = its and ids = ids])
      (use that block_cvt_length in \<open>auto simp: list_all_iff\<close>)
  have "length buf' = length buf"
    using Some len unfolding convert_tuning_cfg_func_def
    by (auto split: if_splits)
  with Some convert_None_iff [of g ids buf f h] show ?thesis by simp
qed

end
