(* ===== verification/SockProtocol.thy ===== *)
theory SockProtocol
  imports Prelude
begin

text \<open>
  \<open>socket_protocol.c\<close>: the packets of the tuning server and the loops that move bytes over a socket.
  The operating system is an environment given in advance: \<open>sel\<close> lists what successive calls of
  \<open>select\<close> report, the I/O events list what successive calls of \<open>recv\<close> or \<open>send\<close> do (how many bytes
  are ready, or the error), \<open>inp\<close> holds the bytes the peer has sent and this side has not yet
  consumed, \<open>outp\<close> the bytes this side has sent. A call that would have to wait for an event beyond
  the given ones does not return (\<open>None\<close>).
\<close>

section \<open>Packets\<close>

record sock_packet =
  head_flag :: "byte list"
  cmd_ids :: "byte list"
  ret :: u32
  data_length :: u32
  reserved :: "u32 list"
  framecount :: u32
  index :: u32

definition wf_packet :: "sock_packet \<Rightarrow> bool" where
  "wf_packet p \<longleftrightarrow> length (head_flag p) = 4 \<and> length (cmd_ids p) = 8 \<and> length (reserved p) = 4"

abbreviation (input) PACKET_SIZE :: nat where "PACKET_SIZE \<equiv> 44"

definition enc_packet :: "sock_packet \<Rightarrow> byte list" where
  "enc_packet p = head_flag p @ cmd_ids p @
     enc32s ([ret p, data_length p] @ reserved p @ [framecount p, index p])"

definition dec_packet :: "byte list \<Rightarrow> sock_packet" where
  "dec_packet bs = (let v = dec32s (slice bs 12 32) in
     \<lparr>head_flag = slice bs 0 4, cmd_ids = slice bs 4 8, ret = v ! 0, data_length = v ! 1,
      reserved = slice v 2 4, framecount = v ! 6, index = v ! 7\<rparr>)"

lemma length_enc_packet [simp]: "wf_packet p \<Longrightarrow> length (enc_packet p) = PACKET_SIZE"
  by (simp add: wf_packet_def enc_packet_def)

lemma wf_dec_packet [simp]: "length bs = PACKET_SIZE \<Longrightarrow> wf_packet (dec_packet bs)"
  by (simp add: wf_packet_def dec_packet_def Let_def)

lemma dec_enc_packet [simp]: "wf_packet p \<Longrightarrow> dec_packet (enc_packet p @ bs) = p"
  by (simp add: wf_packet_def enc_packet_def dec_packet_def Let_def layout nth_append
      del: overlay_def)

lemma enc_dec_packet [simp]: "length bs = PACKET_SIZE \<Longrightarrow> enc_packet (dec_packet bs) = bs"
  by (simp add: enc_packet_def dec_packet_def Let_def fuse wire_simps)
    (simp add: slice_full)

section \<open>Command codes\<close>

abbreviation (input) SOCK_CMD_TUNING :: byte where "SOCK_CMD_TUNING \<equiv> 0x01"
abbreviation (input) SOCK_CMD_GET_CFG :: byte where "SOCK_CMD_GET_CFG \<equiv> 0x02"
abbreviation (input) SOCK_CMD_SET_CFG :: byte where "SOCK_CMD_SET_CFG \<equiv> 0x03"
abbreviation (input) SOCK_CMD_UPDATE_CFG :: byte where "SOCK_CMD_UPDATE_CFG \<equiv> 0x04"
abbreviation (input) SOCK_CMD_ISP_SEL :: byte where "SOCK_CMD_ISP_SEL \<equiv> 0x05"
abbreviation (input) SOCK_CMD_HEART_JUMP :: byte where "SOCK_CMD_HEART_JUMP \<equiv> 0x0D"
abbreviation (input) SOCK_CMD_CLOSE :: byte where "SOCK_CMD_CLOSE \<equiv> 0x0E"
abbreviation (input) SOCK_CMD_ACK :: byte where "SOCK_CMD_ACK \<equiv> 0x10"
abbreviation (input) SOCK_CMD_ACK_STATUS :: byte where "SOCK_CMD_ACK_STATUS \<equiv> 0x14"

abbreviation (input) SOCK_CMD_RET_OK :: u32 where "SOCK_CMD_RET_OK \<equiv> 1"
abbreviation (input) SOCK_CMD_RET_FAILED :: u32 where "SOCK_CMD_RET_FAILED \<equiv> 2"

datatype sock_rw_check_ret =
    SOCK_RW_CHECK_OK
  | SOCK_RW_WRITE_ERROR
  | SOCK_RW_READ_ERROR
  | SOCK_RW_CHECK_ERROR
  | SOCK_RW_RECV_CLOSE
  | SOCK_RW_RET_ERROR
  | SOCK_RW_TRY_AGAIN
  | SOCK_RW_ACK_STATUS

abbreviation (input) EINTR :: int where "EINTR \<equiv> 4"
abbreviation (input) EAGAIN :: int where "EAGAIN \<equiv> 11"
abbreviation (input) ENOTCONN :: int where "ENOTCONN \<equiv> 107"
abbreviation (input) ETIMEDOUT :: int where "ETIMEDOUT \<equiv> 110"

definition SHOULD_TRY_AGAIN :: "int \<Rightarrow> bool" where
  "SHOULD_TRY_AGAIN errno \<longleftrightarrow> errno = 0 \<or> errno = EAGAIN \<or> errno = EINTR \<or> errno = ETIMEDOUT"

definition SHOULD_CLOSE_SOCK :: "sock_rw_check_ret \<Rightarrow> bool" where
  "SHOULD_CLOSE_SOCK r \<longleftrightarrow> r = SOCK_RW_RECV_CLOSE \<or> r = SOCK_RW_WRITE_ERROR \<or> r = SOCK_RW_READ_ERROR"

section \<open>The socket\<close>

datatype sel_ev = SelReady | SelTimeout | SelError int
datatype io_ev = IoOk nat | IoError int

record sock =
  sel :: "sel_ev list"
  inp :: "byte list"
  outp :: "byte list"
  errno :: int

text \<open>\<open>select\<close> is retried while it is interrupted; a timeout that is not positive does not wait at all.\<close>

fun select_loop :: "sel_ev list \<Rightarrow> sock \<Rightarrow> (int \<times> sock) option" where
  "select_loop [] s = None"
| "select_loop (SelReady # evs) s = Some (0, s\<lparr>sel := evs\<rparr>)"
| "select_loop (SelTimeout # evs) s = Some (- 1, s\<lparr>sel := evs, errno := ETIMEDOUT\<rparr>)"
| "select_loop (SelError e # evs) s =
     (if e = EINTR then select_loop evs s else Some (- 1, s\<lparr>sel := evs, errno := e\<rparr>))"

definition read_timeout :: "int \<Rightarrow> sock \<Rightarrow> (int \<times> sock) option" where
  "read_timeout timeout s = (if 0 < timeout then select_loop (sel s) s else Some (0, s))"

definition write_timeout :: "int \<Rightarrow> sock \<Rightarrow> (int \<times> sock) option" where
  "write_timeout timeout s = (if 0 < timeout then select_loop (sel s) s else Some (0, s))"

abbreviation (input) BLOCK_MAX_LENGTH :: nat where "BLOCK_MAX_LENGTH \<equiv> 4096"

text \<open>
  \<open>sock_read\<close>: the result is the bytes stored at \<open>buf\<close> (their number is what the function returns),
  the remaining I/O events and the socket. \<open>recv\<close> returns at most the requested bytes, and 0 when
  the peer has shut down.
\<close>

definition recv_data :: "nat \<Rightarrow> nat \<Rightarrow> byte list \<Rightarrow> byte list" where
  "recv_data k len bytes = take (min k (min len BLOCK_MAX_LENGTH)) bytes"

fun sock_read :: "int \<Rightarrow> io_ev list \<Rightarrow> nat \<Rightarrow> sock \<Rightarrow> (byte list \<times> io_ev list \<times> sock) option" where
  "sock_read timeout io len s =
     (if len = 0 then Some ([], io, s)
      else case read_timeout timeout s of
        None \<Rightarrow> None
      | Some (r, s1) \<Rightarrow>
          if r \<noteq> 0 then Some ([], io, s1)
          else case io of
            [] \<Rightarrow> None
          | IoError e # io' \<Rightarrow> Some ([], io', s1\<lparr>errno := e\<rparr>)
          | IoOk k # io' \<Rightarrow>
              (let data = recv_data k len (inp s1) in
               if data = [] then Some ([], io', s1\<lparr>errno := ENOTCONN\<rparr>)
               else map_option (\<lambda>(rest, x). (data @ rest, x))
                 (sock_read timeout io' (len - length data) (s1\<lparr>inp := drop (length data) (inp s1)\<rparr>))))"

text \<open>\<open>sock_write\<close>: the result is the number of bytes sent; they are the first ones of the buffer.\<close>

fun sock_write :: "int \<Rightarrow> io_ev list \<Rightarrow> byte list \<Rightarrow> sock \<Rightarrow> (nat \<times> io_ev list \<times> sock) option" where
  "sock_write timeout io buf s =
     (if buf = [] then Some (0, io, s)
      else case write_timeout timeout s of
        None \<Rightarrow> None
      | Some (r, s1) \<Rightarrow>
          if r \<noteq> 0 then Some (0, io, s1)
          else case io of
            [] \<Rightarrow> None
          | IoError e # io' \<Rightarrow> Some (0, io', s1\<lparr>errno := e\<rparr>)
          | IoOk k # io' \<Rightarrow>
              (let send_ret = min k (min (length buf) BLOCK_MAX_LENGTH) in
               if send_ret = 0 then Some (0, io', s1)
               else map_option (\<lambda>(n, x). (send_ret + n, x))
                 (sock_write timeout io' (drop send_ret buf) (s1\<lparr>outp := outp s1 @ take send_ret buf\<rparr>))))"

declare sock_read.simps [simp del] sock_write.simps [simp del]

section \<open>Checking packets\<close>

text \<open>\<open>strncmp\<close> compared with 0: equal up to \<open>n\<close> characters or a common terminating zero.\<close>

fun strncmp_eq :: "nat \<Rightarrow> byte list \<Rightarrow> byte list \<Rightarrow> bool" where
  "strncmp_eq 0 as bs = True"
| "strncmp_eq (Suc n) (a # as) (b # bs) = (a = b \<and> (a = 0 \<or> strncmp_eq n as bs))"
| "strncmp_eq (Suc n) _ _ = False"

definition SERVER_SOCK_HEAD :: "byte list" where
  "SERVER_SOCK_HEAD = [65, 87, 104, 119]"

definition check_sock_packet :: "sock_packet \<Rightarrow> byte \<Rightarrow> int" where
  "check_sock_packet packet sock_cmd =
     (if \<not> strncmp_eq 4 (head_flag packet) SERVER_SOCK_HEAD then - 1
      else if cmd_ids packet ! 0 \<noteq> sock_cmd then - 2
      else 0)"

definition zero_packet :: sock_packet where
  "zero_packet = \<lparr>head_flag = replicate 4 0, cmd_ids = replicate 8 0, ret = 0, data_length = 0,
     reserved = replicate 4 0, framecount = 0, index = 0\<rparr>"

definition pack_packet :: "sock_packet \<Rightarrow> sock_packet" where
  "pack_packet packet = zero_packet\<lparr>head_flag := SERVER_SOCK_HEAD\<rparr>"

text \<open>A short transfer is reported as "try again" or as an error, by the value of \<open>errno\<close>.\<close>

definition sock_read_check_packet ::
  "int \<Rightarrow> io_ev list \<Rightarrow> byte \<Rightarrow> sock \<Rightarrow> (sock_rw_check_ret \<times> sock_packet \<times> io_ev list \<times> sock) option" where
  "sock_read_check_packet timeout io sock_cmd s =
     (case sock_read timeout io PACKET_SIZE s of
        None \<Rightarrow> None
      | Some (data, io1, s1) \<Rightarrow>
          (let p = dec_packet (overlay (enc_packet zero_packet) data) in
           if length data \<noteq> PACKET_SIZE then
             Some (if SHOULD_TRY_AGAIN (errno s1) then SOCK_RW_TRY_AGAIN else SOCK_RW_READ_ERROR, p, io1, s1)
           else if check_sock_packet p SOCK_CMD_CLOSE = 0 then Some (SOCK_RW_RECV_CLOSE, p, io1, s1)
           else if check_sock_packet p SOCK_CMD_ACK = 0 \<and> cmd_ids p ! 1 = SOCK_CMD_ACK_STATUS then
             (case sock_write timeout io1 (enc_packet p) s1 of
                None \<Rightarrow> None
              | Some (n, io2, s2) \<Rightarrow>
                  Some (if n \<noteq> PACKET_SIZE then
                          if SHOULD_TRY_AGAIN (errno s2) then SOCK_RW_TRY_AGAIN else SOCK_RW_WRITE_ERROR
                        else SOCK_RW_ACK_STATUS, p, io2, s2))
           else if check_sock_packet p sock_cmd < 0 then Some (SOCK_RW_CHECK_ERROR, p, io1, s1)
           else if bswap32 (ret p) \<noteq> SOCK_CMD_RET_OK then Some (SOCK_RW_RET_ERROR, p, io1, s1)
           else Some (SOCK_RW_CHECK_OK, p, io1, s1)))"

definition sock_write_check_packet ::
  "int \<Rightarrow> io_ev list \<Rightarrow> sock_packet \<Rightarrow> byte \<Rightarrow> sock \<Rightarrow>
   (sock_rw_check_ret \<times> sock_packet \<times> io_ev list \<times> sock) option" where
  "sock_write_check_packet timeout io packet sock_cmd s =
     (case sock_write timeout io (enc_packet packet) s of
        None \<Rightarrow> None
      | Some (n, io1, s1) \<Rightarrow>
          if n \<noteq> PACKET_SIZE then
            Some (if SHOULD_TRY_AGAIN (errno s1) then SOCK_RW_TRY_AGAIN else SOCK_RW_WRITE_ERROR,
              packet, io1, s1)
          else sock_read_check_packet timeout io1 sock_cmd s1)"

section \<open>What the loops transfer\<close>

lemma select_loop_keeps:
  "select_loop evs s = Some (r, s') \<Longrightarrow> inp s' = inp s \<and> outp s' = outp s"
  by (induction evs s rule: select_loop.induct) (auto split: if_splits)

lemma timeout_keeps:
  "read_timeout t s = Some (r, s') \<Longrightarrow> inp s' = inp s \<and> outp s' = outp s"
  "write_timeout t s = Some (r, s') \<Longrightarrow> inp s' = inp s \<and> outp s' = outp s"
  by (auto simp: read_timeout_def write_timeout_def split: if_splits dest: select_loop_keeps)

lemma recv_data_prefix: "recv_data k len bs @ drop (length (recv_data k len bs)) bs = bs"
  "length (recv_data k len bs) \<le> len"
  by (simp_all add: recv_data_def min_def)

lemma sock_read_prefix:
  "sock_read t io len s = Some (d, io', s') \<Longrightarrow> d @ inp s' = inp s \<and> length d \<le> len \<and> outp s' = outp s"
proof (induction io arbitrary: len s d io' s')
  case Nil
  then show ?case
    by (subst (asm) sock_read.simps) (auto split: if_splits option.splits dest: timeout_keeps)
next
  case (Cons ev io)
  show ?case
  proof (cases "len = 0 \<or> read_timeout t s = None")
    case True
    with Cons.prems show ?thesis by (subst (asm) sock_read.simps) (auto split: if_splits)
  next
    case False
    then obtain r s1 where w: "read_timeout t s = Some (r, s1)" and len: "len \<noteq> 0" by auto
    note keep = timeout_keeps(1) [OF w]
    show ?thesis
    proof (cases "\<exists>k. ev = IoOk k \<and> r = 0 \<and> recv_data k len (inp s1) \<noteq> []")
      case True
      then obtain k where k: "ev = IoOk k" "r = 0" "recv_data k len (inp s1) \<noteq> []" by auto
      let ?data = "recv_data k len (inp s1)"
      from Cons.prems w len k obtain rest where d: "d = ?data @ rest" and
        rec: "sock_read t io (len - length ?data) (s1\<lparr>inp := drop (length ?data) (inp s1)\<rparr>) = Some (rest, io', s')"
        by (subst (asm) sock_read.simps) (auto simp: Let_def)
      from Cons.IH [OF rec] keep recv_data_prefix [of k len "inp s1"] d show ?thesis
        by auto
    next
      case False
      with Cons.prems w len keep show ?thesis
        by (subst (asm) sock_read.simps) (auto simp: Let_def split: io_ev.splits if_splits)
    qed
  qed
qed

lemma sock_write_prefix:
  "sock_write t io buf s = Some (n, io', s') \<Longrightarrow>
   n \<le> length buf \<and> outp s' = outp s @ take n buf \<and> inp s' = inp s"
proof (induction io arbitrary: buf s n io' s')
  case Nil
  then show ?case
    by (subst (asm) sock_write.simps) (auto split: if_splits option.splits dest: timeout_keeps)
next
  case (Cons ev io)
  show ?case
  proof (cases "buf = [] \<or> write_timeout t s = None")
    case True
    with Cons.prems show ?thesis by (subst (asm) sock_write.simps) (auto split: if_splits)
  next
    case False
    then obtain r s1 where w: "write_timeout t s = Some (r, s1)" and b: "buf \<noteq> []" by auto
    note keep = timeout_keeps(2) [OF w]
    show ?thesis
    proof (cases "\<exists>k. ev = IoOk k \<and> r = 0 \<and> k \<noteq> 0")
      case True
      then obtain k where k: "ev = IoOk k" "r = 0" "k \<noteq> 0" by auto
      define m where "m = min k (min (length buf) 4096)"
      have m: "m \<noteq> 0" "m \<le> length buf" using k b by (auto simp: m_def)
      from Cons.prems w b k m obtain n' where n: "n = m + n'" and
        rec: "sock_write t io (drop m buf) (s1\<lparr>outp := outp s1 @ take m buf\<rparr>) = Some (n', io', s')"
        by (subst (asm) sock_write.simps) (auto simp: Let_def m_def [symmetric])
      from Cons.IH [OF rec] keep n m show ?thesis by (auto simp: take_add)
    next
      case False
      with Cons.prems w b keep show ?thesis
        by (subst (asm) sock_write.simps) (auto simp: Let_def split: io_ev.splits if_splits)
    qed
  qed
qed

text \<open>
  An environment that makes progress: \<open>select\<close> always reports the socket ready, and every transfer
  moves at least one byte. With one event per byte (the worst case) a transfer completes.
\<close>

definition flowing :: "nat \<Rightarrow> io_ev list \<Rightarrow> sock \<Rightarrow> bool" where
  "flowing n io s \<longleftrightarrow> n \<le> length io \<and> n \<le> length (sel s) \<and>
     list_all (\<lambda>e. e = SelReady) (sel s) \<and> list_all (\<lambda>e. \<exists>k. e = IoOk (Suc k)) io"

lemma flowing_wait:
  assumes "flowing (Suc n) io s"
  shows "\<exists>evs. read_timeout t s = Some (0, s\<lparr>sel := evs\<rparr>) \<and> write_timeout t s = Some (0, s\<lparr>sel := evs\<rparr>) \<and>
    flowing n (tl io) (s\<lparr>sel := evs\<rparr>) \<and> (\<exists>k. io = IoOk (Suc k) # tl io)"
proof -
  obtain evs where e: "sel s = SelReady # evs" "n \<le> length evs" "list_all (\<lambda>e. e = SelReady) evs"
    using assms by (cases "sel s") (auto simp: flowing_def)
  obtain k io' where i: "io = IoOk (Suc k) # io'" "n \<le> length io'" "list_all (\<lambda>e. \<exists>k. e = IoOk (Suc k)) io'"
    using assms by (cases io) (auto simp: flowing_def)
  show ?thesis
  proof (cases "0 < t")
    case True
    with e i show ?thesis
      by (intro exI [of _ evs]) (simp add: read_timeout_def write_timeout_def flowing_def)
  next
    case False
    with e i show ?thesis
      by (intro exI [of _ "sel s"]) (simp add: read_timeout_def write_timeout_def flowing_def)
  qed
qed

lemma flowing_mono: "flowing n io s \<Longrightarrow> m \<le> n \<Longrightarrow> flowing m io s"
  by (simp add: flowing_def)

lemma flowing_cong: "sel s = sel s' \<Longrightarrow> flowing n io s = flowing n io s'"
  by (simp add: flowing_def)

lemma sock_read_complete:
  "flowing (len + n) io s \<Longrightarrow> len \<le> length (inp s) \<Longrightarrow>
   \<exists>io' s'. sock_read t io len s = Some (take len (inp s), io', s') \<and> flowing n io' s' \<and>
     errno s' = errno s"
proof (induction io arbitrary: len s)
  case Nil
  then show ?case by (auto simp: flowing_def sock_read.simps)
next
  case (Cons ev io)
  show ?case
  proof (cases len)
    case 0
    with Cons.prems show ?thesis by (auto simp: sock_read.simps)
  next
    case (Suc m)
    obtain evs k where w: "read_timeout t s = Some (0, s\<lparr>sel := evs\<rparr>)"
      "flowing (m + n) io (s\<lparr>sel := evs\<rparr>)" "ev = IoOk (Suc k)"
      using flowing_wait [of "m + n" "ev # io" s t] Cons.prems Suc by auto
    define d where "d = recv_data (Suc k) len (inp s)"
    have d: "d \<noteq> []" "length d \<le> len" "length d = min (Suc k) (min len 4096)" "d = take (length d) (inp s)"
      using Cons.prems(2) Suc by (auto simp: d_def recv_data_def min_def)
    let ?s = "s\<lparr>sel := evs, inp := drop (length d) (inp s)\<rparr>"
    have "length d \<noteq> 0" using d(1) by simp
    then have "len - length d \<le> m" using Suc by linarith
    then have "flowing (len - length d + n) io ?s"
      using w(2) by (simp add: flowing_def)
    moreover have "len - length d \<le> length (inp ?s)" using Cons.prems(2) by simp
    ultimately obtain io' s' where
      "sock_read t io (len - length d) ?s = Some (take (len - length d) (inp ?s), io', s')"
      "flowing n io' s'" "errno s' = errno ?s"
      using Cons.IH [of "len - length d" ?s] by blast
    moreover have "d @ take (len - length d) (drop (length d) (inp s)) = take len (inp s)"
      using d(2,4) by (metis le_add_diff_inverse take_add)
    moreover have "len \<noteq> 0" using Suc by simp
    ultimately show ?thesis
      using w d(1) by (subst sock_read.simps) (simp add: d_def [symmetric] Let_def)
  qed
qed

lemma sock_write_complete:
  "flowing (length buf + n) io s \<Longrightarrow>
   \<exists>io' s'. sock_write t io buf s = Some (length buf, io', s') \<and> flowing n io' s' \<and> errno s' = errno s"
proof (induction io arbitrary: buf s)
  case Nil
  then show ?case by (auto simp: flowing_def sock_write.simps)
next
  case (Cons ev io)
  show ?case
  proof (cases "length buf")
    case 0
    with Cons.prems show ?thesis by (auto simp: sock_write.simps)
  next
    case (Suc m)
    obtain evs k where w: "write_timeout t s = Some (0, s\<lparr>sel := evs\<rparr>)"
      "flowing (m + n) io (s\<lparr>sel := evs\<rparr>)" "ev = IoOk (Suc k)"
      using flowing_wait [of "m + n" "ev # io" s t] Cons.prems Suc by auto
    define j where "j = min (Suc k) (min (length buf) 4096)"
    have j: "j \<noteq> 0" "j \<le> length buf" using Suc by (auto simp: j_def)
    let ?s = "s\<lparr>sel := evs, outp := outp s @ take j buf\<rparr>"
    have "flowing (length (drop j buf) + n) io ?s"
      using w(2) j Suc by (auto simp: flowing_def)
    then obtain io' s' where
      "sock_write t io (drop j buf) ?s = Some (length (drop j buf), io', s')"
      "flowing n io' s'" "errno s' = errno ?s"
      using Cons.IH [of "drop j buf" ?s] by blast
    moreover have "buf \<noteq> []" using Suc by auto
    ultimately show ?thesis
      using w j by (subst sock_write.simps) (simp add: j_def [symmetric] Let_def)
  qed
qed

section \<open>Properties\<close>

lemma strncmp_eq_head: "length h = 4 \<Longrightarrow> strncmp_eq 4 h SERVER_SOCK_HEAD = (h = SERVER_SOCK_HEAD)"
  by (simp add: SERVER_SOCK_HEAD_def numeral_eq_Suc length_Suc_conv) auto

lemma length_zero_packet: "length (enc_packet zero_packet) = PACKET_SIZE"
  by (simp add: enc_packet_def zero_packet_def)

text \<open>What a packet means to a reader that expects the command \<open>sock_cmd\<close>.\<close>

definition classify :: "sock_packet \<Rightarrow> byte \<Rightarrow> sock_rw_check_ret" where
  "classify p sock_cmd =
     (if head_flag p \<noteq> SERVER_SOCK_HEAD then SOCK_RW_CHECK_ERROR
      else if cmd_ids p ! 0 = SOCK_CMD_CLOSE then SOCK_RW_RECV_CLOSE
      else if cmd_ids p ! 0 = SOCK_CMD_ACK \<and> cmd_ids p ! 1 = SOCK_CMD_ACK_STATUS then SOCK_RW_ACK_STATUS
      else if cmd_ids p ! 0 \<noteq> sock_cmd then SOCK_RW_CHECK_ERROR
      else if ret p = bswap32 SOCK_CMD_RET_OK then SOCK_RW_CHECK_OK
      else SOCK_RW_RET_ERROR)"

lemma bswap32_eq: "(bswap32 a = b) = (a = bswap32 b)"
  by (metis bswap32_bswap32)

text \<open>
  C18. \<open>sock_read\<close> delivers the bytes of the stream in order and loses none: what it stored, followed
  by what is left, is what was there; it stores at most the requested number of bytes and sends
  nothing. \<open>sock_write\<close> sends a prefix of the buffer whose length it returns.
\<close>

theorem sock_transfer_in_order:
  "(sock_read t io len s = Some (d, io', s') \<longrightarrow>
      d @ inp s' = inp s \<and> length d \<le> len \<and> outp s' = outp s) \<and>
   (sock_write t io buf s = Some (n, io2, s2) \<longrightarrow>
      n \<le> length buf \<and> outp s2 = outp s @ take n buf \<and> inp s2 = inp s)"
  using sock_read_prefix sock_write_prefix by blast

definition demo_sock :: "byte list \<Rightarrow> sock" where
  "demo_sock bs = \<lparr>sel = replicate 200 SelReady, inp = bs, outp = [], errno = 0\<rparr>"

theorem sock_transfer_in_order_witness:
  "sock_read 30 [IoOk 2, IoOk 9] 3 \<lparr>sel = [SelReady, SelReady], inp = [7, 8, 9, 1], outp = [], errno = 0\<rparr> =
     Some ([7, 8, 9], [], \<lparr>sel = [], inp = [1], outp = [], errno = 0\<rparr>) \<and>
   [7, 8, 9] @ [1 :: byte] = [7, 8, 9, 1]"
proof -
  have "sock_read 30 [IoOk 2, IoOk 9] 3 \<lparr>sel = [SelReady, SelReady], inp = [7, 8, 9, 1], outp = [], errno = 0\<rparr> =
     Some ([7, 8, 9], [], \<lparr>sel = [], inp = [1], outp = [], errno = 0\<rparr>)"
    by (simp add: sock_read.simps read_timeout_def recv_data_def)
  with sock_transfer_in_order [of 30 "[IoOk 2, IoOk 9]" 3
      "\<lparr>sel = [SelReady, SelReady], inp = [7, 8, 9, 1], outp = [], errno = 0\<rparr>" "[7, 8, 9]" "[]"
      "\<lparr>sel = [], inp = [1], outp = [], errno = 0\<rparr>" "[]" 0 "[]" "demo_sock []"]
  show ?thesis by simp
qed

lemma packet_delivered:
  assumes "wf_packet p" "inp s = enc_packet p @ rest" "flowing (2 * PACKET_SIZE) io s"
  shows "\<exists>io' s'. sock_read_check_packet t io sock_cmd s = Some (classify p sock_cmd, p, io', s') \<and>
    inp s' = rest \<and> errno s' = errno s \<and>
    outp s' = outp s @ (if classify p sock_cmd = SOCK_RW_ACK_STATUS then enc_packet p else [])"
proof -
  have lp: "length (enc_packet p) = 44" using assms(1) by simp
  have fl: "flowing (44 + 44) io s" using assms(3) by simp
  obtain io1 s1 where r: "sock_read t io 44 s = Some (enc_packet p, io1, s1)" "flowing 44 io1 s1" "errno s1 = errno s"
    using sock_read_complete [OF fl, of t] assms(2) lp by auto
  have keep: "inp s1 = rest" "outp s1 = outp s" using sock_read_prefix [OF r(1)] assms(2) by auto
  obtain io2 s2 where w: "sock_write t io1 (enc_packet p) s1 = Some (44, io2, s2)" "errno s2 = errno s"
    using sock_write_complete [of "enc_packet p" 0 io1 s1 t] r(2,3) lp by auto
  have keep2: "inp s2 = rest" "outp s2 = outp s @ enc_packet p"
    using sock_write_prefix [OF w(1)] keep lp by auto
  have ov: "overlay (enc_packet zero_packet) (enc_packet p) = enc_packet p"
    by (rule overlay_full) (simp add: lp length_zero_packet)
  have dec: "dec_packet (enc_packet p) = p" using dec_enc_packet [OF assms(1), of "[]"] by simp
  have h: "length (head_flag p) = 4" using assms(1) by (simp add: wf_packet_def)
  show ?thesis
    unfolding sock_read_check_packet_def r(1) option.case prod.case ov dec Let_def
    using w keep keep2 lp h r(3)
    by (auto simp: classify_def check_sock_packet_def strncmp_eq_head bswap32_eq)
qed

text \<open>
  C17. Over a connection that makes progress, a packet of the peer is received whole and classified
  by its contents: close and acknowledgement requests first, then the expected command, then the
  return code; the packet is handed over unchanged, exactly its bytes are consumed, and a status
  acknowledgement is echoed.
\<close>

theorem delivered_packet_classified:
  assumes "wf_packet p" "inp s = enc_packet p @ rest" "flowing (2 * PACKET_SIZE) io s"
  shows "\<exists>io' s'. sock_read_check_packet t io sock_cmd s = Some (classify p sock_cmd, p, io', s') \<and>
    inp s' = rest \<and>
    outp s' = outp s @ (if classify p sock_cmd = SOCK_RW_ACK_STATUS then enc_packet p else [])"
  using packet_delivered [OF assms, of t sock_cmd] by blast

theorem delivered_packet_classified_witness:
  "\<exists>io' s'. sock_read_check_packet 30 (replicate 88 (IoOk 1)) SOCK_CMD_TUNING (demo_sock (enc_packet zero_packet)) =
     Some (SOCK_RW_CHECK_ERROR, zero_packet, io', s')"
proof -
  have "replicate 4 (0 :: byte) = [0, 0, 0, 0]" by (simp add: numeral_eq_Suc)
  then have c: "classify zero_packet SOCK_CMD_TUNING = SOCK_RW_CHECK_ERROR"
    by (simp add: classify_def zero_packet_def SERVER_SOCK_HEAD_def)
  have "wf_packet zero_packet" by (simp add: wf_packet_def zero_packet_def)
  moreover have "inp (demo_sock (enc_packet zero_packet)) = enc_packet zero_packet @ []"
    by (simp add: demo_sock_def)
  moreover have "flowing (2 * PACKET_SIZE) (replicate 88 (IoOk 1)) (demo_sock (enc_packet zero_packet))"
    by (simp add: flowing_def demo_sock_def list_all_iff)
  ultimately show ?thesis
    using delivered_packet_classified [of zero_packet "demo_sock (enc_packet zero_packet)" "[]"
        "replicate 88 (IoOk 1)" 30 SOCK_CMD_TUNING] unfolding c by auto
qed

text \<open>
  A read that times out in the middle of a packet reports "try again", but the bytes it took are
  gone: the next read starts in the middle of the packet.
\<close>

theorem timed_out_read_drops_bytes:
  assumes "sock_read t io PACKET_SIZE s = Some (d, io', s')" "length d < PACKET_SIZE" "errno s' = ETIMEDOUT"
  shows "\<exists>p. sock_read_check_packet t io sock_cmd s = Some (SOCK_RW_TRY_AGAIN, p, io', s') \<and>
    inp s' = drop (length d) (inp s)"
  using assms sock_read_prefix [OF assms(1)]
  by (auto simp: sock_read_check_packet_def SHOULD_TRY_AGAIN_def Let_def)
    (metis append_eq_conv_conj)

theorem timed_out_read_drops_bytes_witness:
  "\<exists>p. sock_read_check_packet 30 [IoOk 2] SOCK_CMD_TUNING
      \<lparr>sel = [SelReady, SelTimeout], inp = [65, 87, 104, 119], outp = [], errno = 0\<rparr> =
    Some (SOCK_RW_TRY_AGAIN, p, [], \<lparr>sel = [], inp = [104, 119], outp = [], errno = ETIMEDOUT\<rparr>)"
proof -
  have "sock_read 30 [IoOk 2] PACKET_SIZE
      \<lparr>sel = [SelReady, SelTimeout], inp = [65, 87, 104, 119], outp = [], errno = 0\<rparr> =
    Some ([65, 87], [], \<lparr>sel = [], inp = [104, 119], outp = [], errno = ETIMEDOUT\<rparr>)"
    by (simp add: sock_read.simps read_timeout_def recv_data_def)
  from timed_out_read_drops_bytes [OF this] show ?thesis by auto
qed

end
