(* ===== verification/TuningServer.thy ===== *)
theory TuningServer
  imports IspHandle TuningConvert SockProtocol
begin

text \<open>
  \<open>server/server_core.c\<close>: the threads of the tuning server that answer heart beats and tuning requests, and the
  clean-up of shell output. A connection is its socket (with the environment of
  \<open>SockProtocol\<close>), the heap block the requests share, and the ISP bookkeeping of \<open>IspHandle\<close> below it.
  A request is the whole branch of \<open>sock_handle_tuning_thread\<close> for its type, including the replies;
  The operations are declared on all extensions of the record, since the other threads of the
  server keep more state. \<open>Ub\<close> covers reads and writes outside the block, \<open>Blocks\<close> a socket call that waits for ever.
\<close>

section \<open>State\<close>

abbreviation (input) SOCK_DEFAULT_TIMEOUT :: int where "SOCK_DEFAULT_TIMEOUT \<equiv> 30"
abbreviation (input) SERVER_TIMEOUT_MAX :: nat where "SERVER_TIMEOUT_MAX \<equiv> 10"

text \<open>
  \<open>sizeof(struct isp_params_cfg)\<close> for \<open>ISP_VERSION\<close> 522: the test (216), 3A (6432), tuning (65600) and
  dynamic (7904) parameter structs of \<open>isp_tuning.h\<close>. The tuning struct has no member for the
  mesh shading and the colour aberration gain items, the dynamic one none for the chromatic aberration item.
\<close>

definition PARAMS_CFG_SIZE :: nat where
  "PARAMS_CFG_SIZE = 216 + 6432 + 65600 + 7904"

record 'm tuning_conn =
  tc_handle :: "'m isp_handle"
  tc_buffer :: "byte list"
  tc_sock :: sock
  tc_io :: "io_ev list"
  tc_timeouts :: nat

fun bind_outcome :: "'a outcome \<Rightarrow> ('a \<Rightarrow> 'b outcome) \<Rightarrow> 'b outcome" where
  "bind_outcome (Ret a) f = f a"
| "bind_outcome Ub f = Ub"
| "bind_outcome Blocks f = Blocks"

section \<open>Requests\<close>

definition tc_send :: "byte list \<Rightarrow> ('m, 'x) tuning_conn_scheme \<Rightarrow> (nat \<times> ('m, 'x) tuning_conn_scheme) outcome" where
  "tc_send bs tc =
     (case sock_write SOCK_DEFAULT_TIMEOUT (tc_io tc) bs (tc_sock tc) of
        None \<Rightarrow> Blocks
      | Some (n, io, s) \<Rightarrow> Ret (n, tc\<lparr>tc_io := io, tc_sock := s\<rparr>))"

definition tc_reply :: "u32 \<Rightarrow> sock_packet \<Rightarrow> ('m, 'x) tuning_conn_scheme \<Rightarrow> ('m, 'x) tuning_conn_scheme outcome" where
  "tc_reply code p tc = bind_outcome (tc_send (enc_packet (p\<lparr>ret := bswap32 code\<rparr>)) tc) (\<lambda>(_, tc1). Ret tc1)"

definition pkt_group :: "sock_packet \<Rightarrow> byte" where
  "pkt_group p = cmd_ids p ! 2"

definition pkt_cfg_ids :: "sock_packet \<Rightarrow> u32" where
  "pkt_cfg_ids p = dec32 (cmd_ids p ! 6) (cmd_ids p ! 5) (cmd_ids p ! 4) (cmd_ids p ! 3)"

definition pkt_length :: "sock_packet \<Rightarrow> int" where
  "pkt_length p = sint (bswap32 (data_length p))"

definition pkt_isp_sel :: "sock_packet \<Rightarrow> int" where
  "pkt_isp_sel p = sint (bswap32 (reserved p ! 0))"

text \<open>Every request first selects its ISP; a failure is answered with \<open>SOCK_CMD_RET_FAILED\<close>.\<close>

definition with_isp :: "'m isp_env \<Rightarrow> bool \<Rightarrow> sock_packet \<Rightarrow> (('m, 'x) tuning_conn_scheme \<Rightarrow> ('m, 'x) tuning_conn_scheme outcome) \<Rightarrow>
  ('m, 'x) tuning_conn_scheme \<Rightarrow> ('m, 'x) tuning_conn_scheme outcome" where
  "with_isp env vich p f tc =
     bind_outcome (select_isp env vich (pkt_isp_sel p) (tc_handle tc)) (\<lambda>(r, h).
       let tc1 = tc\<lparr>tc_handle := h\<rparr> in if r < 0 then tc_reply SOCK_CMD_RET_FAILED p tc1 else f tc1)"

definition tuning_get :: "sock_packet \<Rightarrow> ('m, 'x) tuning_conn_scheme \<Rightarrow> ('m, 'x) tuning_conn_scheme outcome" where
  "tuning_get p tc =
     bind_outcome (isp_get_cfg (pkt_isp_sel p) (pkt_group p) (pkt_cfg_ids p) (Some (tc_buffer tc)) (h_media (tc_handle tc)))
       (\<lambda>(r, data).
         let tc1 = tc\<lparr>tc_buffer := the data\<rparr> in
         if r > 0 then
           (case convert_tuning_cfg_to_network (pkt_group p) (pkt_cfg_ids p) (tc_buffer tc1) of
              None \<Rightarrow> Ub
            | Some buf \<Rightarrow>
                (case sock_write_check_packet SOCK_DEFAULT_TIMEOUT (tc_io tc1)
                        (p\<lparr>data_length := bswap32 (word_of_int r)\<rparr>) SOCK_CMD_TUNING (tc_sock tc1) of
                   None \<Rightarrow> Blocks
                 | Some (c, _, io, s) \<Rightarrow>
                     let tc2 = tc1\<lparr>tc_buffer := buf, tc_io := io, tc_sock := s\<rparr> in
                     if c = SOCK_RW_CHECK_OK
                     then bind_outcome (tc_send (take (nat r) buf) tc2) (\<lambda>(_, tc3). Ret tc3)
                     else Ret tc2))
         else tc_reply SOCK_CMD_RET_FAILED p tc1)"

text \<open>
  \<open>sock_read\<close> stores what it receives from the start of the block; more bytes than the block holds is
  out of bounds, whatever the request announced.
\<close>

definition tuning_set :: "sock_packet \<Rightarrow> ('m, 'x) tuning_conn_scheme \<Rightarrow> ('m, 'x) tuning_conn_scheme outcome" where
  "tuning_set p tc =
     bind_outcome (tc_send (enc_packet p) tc) (\<lambda>(n, tc1).
       if n \<noteq> PACKET_SIZE then Ret tc1
       else case sock_read SOCK_DEFAULT_TIMEOUT (tc_io tc1) (nat (pkt_length p)) (tc_sock tc1) of
         None \<Rightarrow> Blocks
       | Some (data, io, s) \<Rightarrow>
           if length data > length (tc_buffer tc1) then Ub
           else let tc2 = tc1\<lparr>tc_buffer := overlay (tc_buffer tc1) data, tc_io := io, tc_sock := s\<rparr> in
             if int (length data) \<noteq> pkt_length p then Ret tc2
             else (case convert_tuning_cfg_to_local (pkt_group p) (pkt_cfg_ids p) (tc_buffer tc2) of
                None \<Rightarrow> Ub
              | Some buf \<Rightarrow>
                  bind_outcome (isp_set_cfg (pkt_isp_sel p) (pkt_group p) (pkt_cfg_ids p) (Some buf) (h_media (tc_handle tc2)))
                    (\<lambda>(r, st, data1).
                      tc_reply (if r > 0 then SOCK_CMD_RET_OK else SOCK_CMD_RET_FAILED) p
                        (tc2\<lparr>tc_buffer := the data1, tc_handle := (tc_handle tc2)\<lparr>h_media := st\<rparr>\<rparr>))))"

definition tuning_update :: "'m isp_env \<Rightarrow> sock_packet \<Rightarrow> ('m, 'x) tuning_conn_scheme \<Rightarrow> ('m, 'x) tuning_conn_scheme outcome" where
  "tuning_update env p tc =
     bind_outcome (isp_update env (pkt_isp_sel p) (h_media (tc_handle tc))) (\<lambda>(r, st).
       tc_reply (if r < 0 then SOCK_CMD_RET_FAILED else SOCK_CMD_RET_OK) p
         (tc\<lparr>tc_handle := (tc_handle tc)\<lparr>h_media := st\<rparr>\<rparr>))"

definition tuning_request :: "'m isp_env \<Rightarrow> bool \<Rightarrow> sock_packet \<Rightarrow> ('m, 'x) tuning_conn_scheme \<Rightarrow> ('m, 'x) tuning_conn_scheme outcome" where
  "tuning_request env vich p tc =
     (if cmd_ids p ! 1 = SOCK_CMD_GET_CFG then with_isp env vich p (tuning_get p) tc
      else if cmd_ids p ! 1 = SOCK_CMD_SET_CFG then with_isp env vich p (tuning_set p) tc
      else if cmd_ids p ! 1 = SOCK_CMD_UPDATE_CFG then with_isp env vich p (tuning_update env p) tc
      else if cmd_ids p ! 1 = SOCK_CMD_ISP_SEL then with_isp env vich p (tc_reply SOCK_CMD_RET_OK p) tc
      else tc_reply SOCK_CMD_RET_FAILED p tc)"

section \<open>The connection threads\<close>

text \<open>
  One round of the thread: the result says whether the loop goes on. A round gets the stop flag, the answers of the
  kernel and the video channel status as they are when it runs.
\<close>

record 'm server_round =
  stop_flag :: bool
  round_env :: "'m isp_env"
  vich_open :: bool

definition count_timeout :: "('m, 'x) tuning_conn_scheme \<Rightarrow> bool \<times> ('m, 'x) tuning_conn_scheme" where
  "count_timeout tc =
     (if errno (tc_sock tc) = ETIMEDOUT
      then (tc_timeouts tc + 1 \<le> SERVER_TIMEOUT_MAX, tc\<lparr>tc_timeouts := tc_timeouts tc + 1\<rparr>)
      else (True, tc\<lparr>tc_timeouts := 0\<rparr>))"

definition tuning_round :: "('m, 'y) server_round_scheme \<Rightarrow> ('m, 'x) tuning_conn_scheme \<Rightarrow> (bool \<times> ('m, 'x) tuning_conn_scheme) outcome" where
  "tuning_round r tc =
     (if stop_flag r then Ret (False, tc)
      else case sock_read_check_packet SOCK_DEFAULT_TIMEOUT (tc_io tc) SOCK_CMD_TUNING (tc_sock tc) of
        None \<Rightarrow> Blocks
      | Some (c, p, io, s) \<Rightarrow>
          let tc1 = tc\<lparr>tc_io := io, tc_sock := s\<rparr> in
          if SHOULD_CLOSE_SOCK c then Ret (False, tc1)
          else if c = SOCK_RW_CHECK_OK
            then bind_outcome (tuning_request (round_env r) (vich_open r) p (tc1\<lparr>tc_timeouts := 0\<rparr>)) (\<lambda>tc2. Ret (True, tc2))
            else Ret (count_timeout tc1))"

text \<open>The thread over a list of rounds; \<open>Blocks\<close> when it is still running at its end.\<close>

fun sock_handle_tuning_thread :: "('m, 'y) server_round_scheme list \<Rightarrow> ('m, 'x) tuning_conn_scheme \<Rightarrow> ('m, 'x) tuning_conn_scheme outcome" where
  "sock_handle_tuning_thread [] tc = Blocks"
| "sock_handle_tuning_thread (r # rs) tc =
     bind_outcome (tuning_round r tc) (\<lambda>(go, tc1). if go then sock_handle_tuning_thread rs tc1 else Ret tc1)"

text \<open>\<open>sock_read_check_reply\<close> and a round of the heart-beat thread, which clears \<open>errno\<close> after a timeout.\<close>

definition sock_read_check_reply :: "int \<Rightarrow> io_ev list \<Rightarrow> byte \<Rightarrow> sock \<Rightarrow>
  (sock_rw_check_ret \<times> sock_packet \<times> io_ev list \<times> sock) option" where
  "sock_read_check_reply timeout io sock_cmd s =
     (case sock_read_check_packet timeout io sock_cmd s of
        None \<Rightarrow> None
      | Some (c, p, io1, s1) \<Rightarrow>
          if c = SOCK_RW_CHECK_OK \<or> c = SOCK_RW_RET_ERROR then
            (let p1 = p\<lparr>ret := bswap32 (if c = SOCK_RW_CHECK_OK then SOCK_CMD_RET_OK else SOCK_CMD_RET_FAILED)\<rparr> in
             case sock_write timeout io1 (enc_packet p1) s1 of
               None \<Rightarrow> None
             | Some (n, io2, s2) \<Rightarrow>
                 Some (if n \<noteq> PACKET_SIZE then
                         if SHOULD_TRY_AGAIN (errno s2) then SOCK_RW_TRY_AGAIN else SOCK_RW_WRITE_ERROR
                       else c, p1, io2, s2))
          else Some (c, p, io1, s1))"

definition heart_jump_round :: "bool \<Rightarrow> (nat \<times> io_ev list \<times> sock) \<Rightarrow> (bool \<times> nat \<times> io_ev list \<times> sock) option" where
  "heart_jump_round stop st =
     (case st of (timeouts, io, s) \<Rightarrow>
        if stop then Some (False, timeouts, io, s)
        else case sock_read_check_reply SOCK_DEFAULT_TIMEOUT io SOCK_CMD_HEART_JUMP s of
          None \<Rightarrow> None
        | Some (c, _, io1, s1) \<Rightarrow>
            if SHOULD_CLOSE_SOCK c then Some (False, timeouts, io1, s1)
            else if errno s1 = ETIMEDOUT
              then Some (timeouts + 1 \<le> SERVER_TIMEOUT_MAX, timeouts + 1, io1, s1\<lparr>errno := 0\<rparr>)
              else Some (True, 0, io1, s1))"

section \<open>Shell output\<close>

text \<open>
  \<open>shell_format\<close> on a memory block that starts at \<open>buffer\<close>: \<open>None\<close> is a read past the end of the block or a write past
  the end of \<open>tmp_buf\<close> (1024 bytes). \<open>skip_escape\<close> is the inner loop.
\<close>

fun skip_escape :: "byte list \<Rightarrow> byte list option" where
  "skip_escape [] = None"
| "skip_escape (c # cs) = (if c \<noteq> 109 then skip_escape cs else Some cs)"

lemma skip_escape_length [termination_simp]: "skip_escape cs = Some cs' \<Longrightarrow> length cs' < length cs"
  by (induction cs) (auto split: if_splits)

function shell_copy :: "byte list \<Rightarrow> byte list option" where
  "shell_copy [] = None"
| "shell_copy (c # cs) =
     (if c = 0 then Some []
      else if c = 27 \<and> cs = [] then None
      else if c = 27 \<and> cs ! 0 = 91
        then (case skip_escape (c # cs) of None \<Rightarrow> None | Some cs' \<Rightarrow> shell_copy cs')
        else map_option ((#) c) (shell_copy cs))"
  by pat_completeness auto
termination
  by (relation "measure length") (auto dest: skip_escape_length)

definition shell_format :: "byte list \<Rightarrow> (nat \<times> byte list) option" where
  "shell_format buffer =
     (case shell_copy buffer of
        None \<Rightarrow> None
      | Some cs \<Rightarrow> if length cs < 1024 then Some (length cs, overlay buffer (cs @ [0])) else None)"

section \<open>Requests that leave the buffer alone\<close>

text \<open>Only the denoise block rewrites the buffer it takes its values from.\<close>

lemma set_items_buf:
  assumes "\<forall>it \<in> set its. selected ids (cfg_id it) \<longrightarrow> (\<forall>s c. snd (cfg_set it s c) = c)"
    "set_items its ids s buf = Some (s', n, buf')"
  shows "buf' = buf"
  using assms
proof (induction its arbitrary: s buf s' n buf')
  case (Cons it its)
  show ?case
  proof (cases "selected ids (cfg_id it)")
    case False
    then show ?thesis using Cons.IH [of s buf s' n buf'] Cons.prems by simp
  next
    case True
    obtain s1 where sc: "cfg_set it s (take (cfg_size it) buf) = (s1, take (cfg_size it) buf)"
      using True Cons.prems(1) by (metis list.set_intros(1) prod.collapse)
    from Cons.prems(2) True sc obtain m rest where
      r: "set_items its ids s1 (drop (cfg_size it) buf) = Some (s', m, rest)"
      and b: "buf' = take (cfg_size it) buf @ rest"
      by (auto split: if_splits option.splits)
    show ?thesis using Cons.IH [OF _ r] Cons.prems(1) b by simp
  qed
qed simp

lemma set_group_buf:
  assumes "g = HW_ISP_CFG_DYNAMIC \<longrightarrow> \<not> selected ids HW_ISP_CFG_DYNAMIC_DENOISE" "set_group g ids p buf = Some (r, p', b)"
  shows "b = buf"
proof -
  have t: "\<forall>it \<in> set cfg_test_items. selected ids (cfg_id it) \<longrightarrow> (\<forall>s c. snd (cfg_set it s c) = c)"
    by (simp add: cfg_test_items_def test_set_defs Let_def)
  have a: "\<forall>it \<in> set cfg_3a_items. selected ids (cfg_id it) \<longrightarrow> (\<forall>s c. snd (cfg_set it s c) = c)"
    by (simp add: cfg_3a_items_def aaa_set_defs Let_def)
  have u: "\<forall>it \<in> set cfg_tuning_items. selected ids (cfg_id it) \<longrightarrow> (\<forall>s c. snd (cfg_set it s c) = c)"
    by (simp add: cfg_tuning_items_def tuning_set_defs Let_def)
  have l: "\<forall>it \<in> set cfg_tables_items. selected ids (cfg_id it) \<longrightarrow> (\<forall>s c. snd (cfg_set it s c) = c)"
    by (simp add: cfg_tables_items_def tables_set_defs Let_def)
  have d: "g = HW_ISP_CFG_DYNAMIC \<Longrightarrow> \<forall>it \<in> set cfg_dynamic_items. selected ids (cfg_id it) \<longrightarrow> (\<forall>s c. snd (cfg_set it s c) = c)"
    using assms(1) by (simp add: cfg_dynamic_items_def dynamic_set_defs Let_def)
  show ?thesis
    using assms(2) d set_items_buf [OF t] set_items_buf [OF a] set_items_buf [OF u] set_items_buf [OF l]
      set_items_buf [of cfg_dynamic_items ids]
    unfolding set_group_def by (auto split: if_splits)
qed

lemma items_all_unselected:
  "\<forall>it \<in> set its. selected ids (cfg_id it) \<longrightarrow> (\<forall>c. ok (cfg_id it) c) \<Longrightarrow> items_all ok its ids buf"
  by (induction its arbitrary: buf) auto

lemma group_ok_no_denoise:
  assumes "g = HW_ISP_CFG_DYNAMIC \<longrightarrow> \<not> selected ids HW_ISP_CFG_DYNAMIC_DENOISE"
  shows "group_ok g ids buf"
  using assms unfolding group_ok_def
  by (intro impI items_all_unselected) (auto simp: dynamic_ok_def)

section \<open>Connections that make progress\<close>

lemma tc_send_complete:
  assumes "flowing (length bs + n) (tc_io tc) (tc_sock tc)"
  shows "\<exists>io s. tc_send bs tc = Ret (length bs, tc\<lparr>tc_io := io, tc_sock := s\<rparr>) \<and> flowing n io s \<and>
    outp s = outp (tc_sock tc) @ bs \<and> inp s = inp (tc_sock tc)"
proof -
  obtain io s where w: "sock_write SOCK_DEFAULT_TIMEOUT (tc_io tc) bs (tc_sock tc) = Some (length bs, io, s)" "flowing n io s"
    using sock_write_complete [OF assms, of SOCK_DEFAULT_TIMEOUT] by auto
  from sock_write_prefix [OF w(1)] w show ?thesis by (intro exI [of _ io] exI [of _ s]) (simp add: tc_send_def)
qed

lemma tc_reply_complete:
  assumes "flowing (PACKET_SIZE + n) (tc_io tc) (tc_sock tc)" "wf_packet p"
  shows "\<exists>io s. tc_reply code p tc = Ret (tc\<lparr>tc_io := io, tc_sock := s\<rparr>) \<and> flowing n io s \<and>
    outp s = outp (tc_sock tc) @ enc_packet (p\<lparr>ret := bswap32 code\<rparr>) \<and> inp s = inp (tc_sock tc)"
proof -
  have "length (enc_packet (p\<lparr>ret := bswap32 code\<rparr>)) = PACKET_SIZE"
    using assms(2) by (intro length_enc_packet) (simp add: wf_packet_def)
  then obtain io s where "tc_send (enc_packet (p\<lparr>ret := bswap32 code\<rparr>)) tc = Ret (PACKET_SIZE, tc\<lparr>tc_io := io, tc_sock := s\<rparr>)"
    "flowing n io s" "outp s = outp (tc_sock tc) @ enc_packet (p\<lparr>ret := bswap32 code\<rparr>)" "inp s = inp (tc_sock tc)"
    using tc_send_complete [of "enc_packet (p\<lparr>ret := bswap32 code\<rparr>)" n tc] assms(1) by auto
  then show ?thesis by (intro exI [of _ io] exI [of _ s]) (simp add: tc_reply_def)
qed

lemma read_check_ok:
  assumes "wf_packet p" "inp s = enc_packet p @ rest" "flowing (PACKET_SIZE + n) io s" "classify p sock_cmd = SOCK_RW_CHECK_OK"
  shows "\<exists>io' s'. sock_read_check_packet t io sock_cmd s = Some (SOCK_RW_CHECK_OK, p, io', s') \<and>
    flowing n io' s' \<and> inp s' = rest \<and> outp s' = outp s"
proof -
  have lp: "length (enc_packet p) = 44" using assms(1) by simp
  obtain io1 s1 where r: "sock_read t io 44 s = Some (enc_packet p, io1, s1)" "flowing n io1 s1"
    using sock_read_complete [OF assms(3), of t] assms(2) lp by auto
  have keep: "inp s1 = rest" "outp s1 = outp s" using sock_read_prefix [OF r(1)] assms(2) by auto
  have ov: "overlay (enc_packet zero_packet) (enc_packet p) = enc_packet p"
    by (rule overlay_full) (simp add: lp length_zero_packet)
  have dec: "dec_packet (enc_packet p) = p" using dec_enc_packet [OF assms(1), of "[]"] by simp
  have h: "length (head_flag p) = 4" using assms(1) by (simp add: wf_packet_def)
  show ?thesis
    unfolding sock_read_check_packet_def r(1) option.case prod.case ov dec Let_def
    using keep r(2) lp h assms(4)
    by (auto simp: classify_def check_sock_packet_def strncmp_eq_head bswap32_eq split: if_splits)
qed

section \<open>Requests on a running ISP\<close>

definition isp_ready :: "int \<Rightarrow> 'm isp_handle \<Rightarrow> isp_tuning \<Rightarrow> bool" where
  "isp_ready d h t \<longleftrightarrow> d \<in> {0, 1} \<and> g_module_init h \<and> length (g_isp_status h) = 2 \<and> g_isp_status h ! nat d \<and>
     length (isp_slots (h_media h)) = 2 \<and>
     (\<exists>isp. isp_dev_at (h_media h) d = Some isp \<and> dev_tuning isp = Some t) \<and> tuning_ctx t \<and> wf_params (params t)"

lemma select_ready_isp:
  "isp_ready d h t \<Longrightarrow> select_isp env True d h = Ret (0, h\<lparr>g_cur_isp_sel := d\<rparr>)"
  "isp_ready d h t \<Longrightarrow> isp_ready d (h\<lparr>g_cur_isp_sel := d\<rparr>) t"
  by (auto simp: isp_ready_def select_isp_def VALID_ISP_SEL_def HW_ISP_DEVICE_NUM_def select_ready_def)

lemma set_cfg_ready:
  assumes "isp_ready d h t" "set_group g ids (params t) buf = Some (r, p, b)"
  shows "\<exists>st. isp_set_cfg d g ids (Some buf) (h_media h) = Ret (r, st, Some b) \<and>
    isp_ready d (h\<lparr>h_media := st\<rparr>) (t\<lparr>params := p\<rparr>)"
proof -
  obtain isp where i: "isp_dev_at (h_media h) d = Some isp" "dev_tuning isp = Some t" "tuning_ctx t"
    and d: "0 \<le> d" "d < 2" and len: "length (isp_slots (h_media h)) = 2"
    using assms(1) by (auto simp: isp_ready_def)
  let ?st = "upd_slot d (\<lambda>sl. sl\<lparr>isp_hw := isp\<lparr>dev_tuning := Some (t\<lparr>params := p\<rparr>)\<rparr>\<rparr>) (h_media h)"
  have "isp_set_cfg d g ids (Some buf) (h_media h) = Ret (r, ?st, Some b)"
    using i d assms(2) by (simp add: isp_set_cfg_def HW_ISP_DEVICE_NUM_def isp_tuning_set_cfg_def isp_dev_get_tuning_def)
  moreover have "isp_dev_at ?st d = Some (isp\<lparr>dev_tuning := Some (t\<lparr>params := p\<rparr>)\<rparr>)"
    using i(1) d len by (simp add: isp_dev_at_def split: if_splits)
  moreover have "wf_params p" using assms set_group_wf by (auto simp: isp_ready_def)
  ultimately show ?thesis using assms(1) by (auto simp: isp_ready_def)
qed

lemma get_cfg_ready:
  assumes "isp_ready d h t"
  shows "isp_get_cfg d g ids (Some buf) (h_media h) =
    (case get_group g ids (params t) buf of None \<Rightarrow> Ub | Some (r, b) \<Rightarrow> Ret (r, Some b))"
  using assms
  by (auto simp: isp_ready_def isp_get_cfg_def HW_ISP_DEVICE_NUM_def isp_tuning_get_cfg_def isp_dev_get_tuning_def
      split: option.split)

text \<open>A tuning request of type \<open>code\<close> for items \<open>ids\<close> of group \<open>g\<close> of ISP \<open>d\<close>.\<close>

definition tuning_packet :: "byte \<Rightarrow> int \<Rightarrow> byte \<Rightarrow> u32 \<Rightarrow> sock_packet \<Rightarrow> bool" where
  "tuning_packet code d g ids p \<longleftrightarrow> wf_packet p \<and> cmd_ids p ! 1 = code \<and> pkt_isp_sel p = d \<and>
     pkt_group p = g \<and> pkt_cfg_ids p = ids"

text \<open>The items whose bytes survive the way through the server: all but tone mapping and denoise.\<close>

definition plain_items :: "byte \<Rightarrow> u32 \<Rightarrow> bool" where
  "plain_items g ids \<longleftrightarrow> (g = HW_ISP_CFG_TUNING \<longrightarrow> \<not> selected ids HW_ISP_CFG_TUNING_GTM) \<and>
     (g = HW_ISP_CFG_DYNAMIC \<longrightarrow> \<not> selected ids HW_ISP_CFG_DYNAMIC_DENOISE)"

lemma request_ready:
  assumes "isp_ready d (tc_handle tc) t" "tuning_packet code d g ids p"
  shows "code = SOCK_CMD_GET_CFG \<Longrightarrow> tuning_request env True p tc =
      tuning_get p (tc\<lparr>tc_handle := (tc_handle tc)\<lparr>g_cur_isp_sel := d\<rparr>\<rparr>)"
    and "code = SOCK_CMD_SET_CFG \<Longrightarrow> tuning_request env True p tc =
      tuning_set p (tc\<lparr>tc_handle := (tc_handle tc)\<lparr>g_cur_isp_sel := d\<rparr>\<rparr>)"
  using assms select_ready_isp(1) [OF assms(1), of env]
  by (simp_all add: tuning_request_def tuning_packet_def with_isp_def)

lemma convert_local_total:
  assumes "plain_items g ids" "group_size g ids \<le> length buf"
  obtains loc where "convert_tuning_cfg_to_local g ids buf = Some loc" "convert_tuning_cfg_to_network g ids loc = Some buf"
    "group_size g ids \<le> length loc"
proof -
  have gtm: "g = HW_ISP_CFG_TUNING \<Longrightarrow> \<not> selected ids HW_ISP_CFG_TUNING_GTM"
    using assms(1) by (simp add: plain_items_def)
  obtain loc where l: "convert_tuning_cfg_to_local g ids buf = Some loc"
    using convert_None_iff [of g ids buf ntoh_long ntoh_short] assms(2)
    by (auto simp: convert_tuning_cfg_to_local_def)
  then have n: "convert_tuning_cfg_to_network g ids loc = Some buf"
    using to_loc.func_inverse [of g ids buf loc] gtm
    by (simp add: convert_tuning_cfg_to_network_def convert_tuning_cfg_to_local_def)
  then have "group_size g ids \<le> length loc"
    using convert_None_iff [of g ids loc hton_long hton_short]
    by (simp add: convert_tuning_cfg_to_network_def)
  with l n show ?thesis by (rule that)
qed

lemma tuning_set_stores:
  assumes "isp_ready d (tc_handle tc) t" "tuning_packet SOCK_CMD_SET_CFG d g ids p" "plain_items g ids" "known_group g"
    and "0 < group_size g ids" "group_size g ids \<le> length (tc_buffer tc)"
    and "pkt_length p = int (group_size g ids)" "length net = group_size g ids"
    and "inp (tc_sock tc) = net @ rest" "flowing (2 * PACKET_SIZE + group_size g ids + n) (tc_io tc) (tc_sock tc)"
  obtains tc' loc q where "tuning_set p tc = Ret tc'" "tc_buffer tc' = loc"
    "isp_ready d (tc_handle tc') (t\<lparr>params := q\<rparr>)" "flowing n (tc_io tc') (tc_sock tc')" "inp (tc_sock tc') = rest"
    "outp (tc_sock tc') = outp (tc_sock tc) @ enc_packet p @ enc_packet (p\<lparr>ret := bswap32 SOCK_CMD_RET_OK\<rparr>)"
    "get_group g ids q loc = Some (int (group_size g ids), loc)"
    "convert_tuning_cfg_to_network g ids loc = Some (overlay (tc_buffer tc) net)"
proof -
  let ?N = "group_size g ids"
  have p: "wf_packet p" "pkt_isp_sel p = d" "pkt_group p = g" "pkt_cfg_ids p = ids"
    using assms(2) by (simp_all add: tuning_packet_def)
  have lp: "length (enc_packet p) = 44" using p(1) by simp
  have f0: "flowing (length (enc_packet p) + (?N + (44 + n))) (tc_io tc) (tc_sock tc)"
    using assms(10) lp by (simp add: ac_simps)
  obtain io1 s1 where 1: "tc_send (enc_packet p) tc = Ret (44, tc\<lparr>tc_io := io1, tc_sock := s1\<rparr>)"
    "flowing (?N + (44 + n)) io1 s1" "outp s1 = outp (tc_sock tc) @ enc_packet p" "inp s1 = net @ rest"
    using tc_send_complete [OF f0] lp assms(9) by auto
  obtain io2 s2 where 2: "sock_read 30 io1 ?N s1 = Some (net, io2, s2)" "flowing (44 + n) io2 s2"
    using sock_read_complete [OF 1(2), of 30] 1(4) assms(8) by auto
  have s2: "inp s2 = rest" "outp s2 = outp s1" using sock_read_prefix [OF 2(1)] 1(4) by auto
  let ?B = "overlay (tc_buffer tc) net"
  have lB: "?N \<le> length ?B" using assms(6,8) by (simp add: overlay_def)
  obtain loc where c: "convert_tuning_cfg_to_local g ids ?B = Some loc" "convert_tuning_cfg_to_network g ids loc = Some ?B"
    "?N \<le> length loc" by (rule convert_local_total [OF assms(3) lB])
  have dn: "g = HW_ISP_CFG_DYNAMIC \<longrightarrow> \<not> selected ids HW_ISP_CFG_DYNAMIC_DENOISE"
    using assms(3) by (simp add: plain_items_def)
  obtain q b where sg: "set_group g ids (params t) loc = Some (int ?N, q, b)"
    using set_group_cases [of g ids "params t" loc] c(3) assms(4) by (auto simp: group_ret_def)
  have b: "b = loc" by (rule set_group_buf [OF dn sg])
  have wfp: "wf_params (params t)" using assms(1) by (simp add: isp_ready_def)
  have gg: "get_group g ids q loc = Some (int ?N, loc)"
    using get_after_set_group [OF wfp group_ok_no_denoise [OF dn] sg] b by simp
  obtain st where set: "isp_set_cfg d g ids (Some loc) (h_media (tc_handle tc)) = Ret (int ?N, st, Some loc)"
    "isp_ready d ((tc_handle tc)\<lparr>h_media := st\<rparr>) (t\<lparr>params := q\<rparr>)"
    using set_cfg_ready [OF assms(1) sg] b by auto
  let ?h = "(tc_handle tc)\<lparr>h_media := st\<rparr>"
  let ?tc = "tc\<lparr>tc_io := io2, tc_sock := s2, tc_buffer := loc, tc_handle := ?h\<rparr>"
  obtain io3 s3 where 3: "tc_reply SOCK_CMD_RET_OK p ?tc = Ret (?tc\<lparr>tc_io := io3, tc_sock := s3\<rparr>)" "flowing n io3 s3"
    "outp s3 = outp s2 @ enc_packet (p\<lparr>ret := bswap32 SOCK_CMD_RET_OK\<rparr>)" "inp s3 = inp s2"
    using tc_reply_complete [of n ?tc p SOCK_CMD_RET_OK] 2(2) p(1) by auto
  have "tuning_set p tc = tc_reply SOCK_CMD_RET_OK p ?tc"
    using assms(5,6,7,8) 1(1) 2(1) c(1) set(1) p
    by (simp add: tuning_set_def)
  then show ?thesis
    using that [of "?tc\<lparr>tc_io := io3, tc_sock := s3\<rparr>" loc q] 3 set(2) s2 1(3) gg c(2) by simp
qed

lemma tuning_get_reports:
  assumes "isp_ready d (tc_handle tc) t" "tuning_packet SOCK_CMD_GET_CFG d g ids p"
    and "0 < group_size g ids" "get_group g ids (params t) (tc_buffer tc) = Some (int (group_size g ids), loc)"
    and "convert_tuning_cfg_to_network g ids loc = Some buf" "group_size g ids \<le> length buf"
    and "wf_packet ack" "classify ack SOCK_CMD_TUNING = SOCK_RW_CHECK_OK" "inp (tc_sock tc) = enc_packet ack @ rest"
    and "flowing (2 * PACKET_SIZE + group_size g ids + n) (tc_io tc) (tc_sock tc)"
  shows "\<exists>tc'. tuning_get p tc = Ret tc' \<and> inp (tc_sock tc') = rest \<and>
    outp (tc_sock tc') = outp (tc_sock tc) @
      enc_packet (p\<lparr>data_length := bswap32 (word_of_int (int (group_size g ids)))\<rparr>) @ take (group_size g ids) buf"
proof -
  let ?N = "group_size g ids"
  let ?q = "p\<lparr>data_length := bswap32 (word_of_int (int ?N))\<rparr>"
  have p: "wf_packet p" "pkt_isp_sel p = d" "pkt_group p = g" "pkt_cfg_ids p = ids"
    using assms(2) by (simp_all add: tuning_packet_def)
  have lq: "length (enc_packet ?q) = 44" using p(1) by (intro length_enc_packet) (simp add: wf_packet_def)
  have f: "flowing (length (enc_packet ?q) + (44 + (?N + n))) (tc_io tc) (tc_sock tc)"
    using assms(10) lq by (simp add: ac_simps)
  obtain io1 s1 where 1: "sock_write 30 (tc_io tc) (enc_packet ?q) (tc_sock tc) = Some (44, io1, s1)" "flowing (44 + (?N + n)) io1 s1"
    using sock_write_complete [OF f, of 30] lq by auto
  have s1: "inp s1 = enc_packet ack @ rest" "outp s1 = outp (tc_sock tc) @ enc_packet ?q"
    using sock_write_prefix [OF 1(1)] lq assms(9) by auto
  obtain io2 s2 where 2: "sock_read_check_packet 30 io1 SOCK_CMD_TUNING s1 = Some (SOCK_RW_CHECK_OK, ack, io2, s2)"
    "flowing (?N + n) io2 s2" "inp s2 = rest" "outp s2 = outp s1"
    using read_check_ok [OF assms(7) s1(1) 1(2) assms(8), of 30] by auto
  let ?tc = "tc\<lparr>tc_buffer := buf, tc_io := io2, tc_sock := s2\<rparr>"
  have lb: "length (take ?N buf) = ?N" using assms(6) by simp
  obtain io3 s3 where 3: "tc_send (take ?N buf) ?tc = Ret (?N, ?tc\<lparr>tc_io := io3, tc_sock := s3\<rparr>)"
    "outp s3 = outp s2 @ take ?N buf" "inp s3 = inp s2"
    using tc_send_complete [of "take ?N buf" n ?tc] 2(2) lb by auto
  have "tuning_get p tc = Ret (?tc\<lparr>tc_io := io3, tc_sock := s3\<rparr>)"
    using get_cfg_ready [OF assms(1), of g ids "tc_buffer tc"] assms(3,4,5) 1(1) 2(1) 3(1) p
    by (simp add: tuning_get_def sock_write_check_packet_def)
  then show ?thesis using 3 2(3,4) s1 by simp
qed

section \<open>Properties\<close>


text \<open>A connection to a server whose two ISPs run with zeroed parameters, and packets for it.\<close>

definition ready_slot :: "unit isp_slot" where
  "ready_slot = idle_slot\<lparr>isp_use_cnt := 1, isp_opened := True, isp_hw := device_with zero_params, isp_tid := True\<rparr>"

definition ready_handle :: "unit isp_handle" where
  "ready_handle = \<lparr>g_module_init = True, g_cur_isp_sel = 0, g_isp_status = [True, True],
     h_media = \<lparr>isp_slots = [ready_slot, ready_slot], isp_mdev = True, isp_sync_mode = 0\<rparr>\<rparr>"

definition demo_conn :: "byte list \<Rightarrow> unit tuning_conn" where
  "demo_conn bs = \<lparr>tc_handle = ready_handle, tc_buffer = replicate PARAMS_CFG_SIZE 0,
     tc_sock = demo_sock bs, tc_io = replicate 200 (IoOk 1), tc_timeouts = 0\<rparr>"

definition demo_packet :: "byte \<Rightarrow> byte \<Rightarrow> byte list \<Rightarrow> u32 \<Rightarrow> sock_packet" where
  "demo_packet code g ids n = zero_packet\<lparr>head_flag := SERVER_SOCK_HEAD,
     cmd_ids := [SOCK_CMD_TUNING, code, g] @ ids @ [0], ret := bswap32 SOCK_CMD_RET_OK, data_length := bswap32 n\<rparr>"

lemma replicate_four: "replicate 4 x = [x, x, x, x]"
  by (simp add: numeral_eq_Suc)

lemma wf_demo_packet: "length ids = 4 \<Longrightarrow> wf_packet (demo_packet code g ids n)"
  by (simp add: wf_packet_def demo_packet_def zero_packet_def SERVER_SOCK_HEAD_def)

lemma demo_packet_tuning: "tuning_packet code 0 g (dec32 d c b a) (demo_packet code g [a, b, c, d] n)"
  by (simp add: tuning_packet_def wf_demo_packet)
    (simp add: demo_packet_def zero_packet_def pkt_isp_sel_def pkt_group_def pkt_cfg_ids_def replicate_four
      bswap32_def dec32_def)

lemma demo_ready: "isp_ready 0 (tc_handle (demo_conn bs)) (tuning_with zero_params)"
  by (simp add: isp_ready_def demo_conn_def ready_handle_def isp_dev_at_def isp_slot_at_def ready_slot_def
      device_with_def tuning_with_def wf_zero_params)

lemma demo_flowing: "n \<le> 200 \<Longrightarrow> flowing n (tc_io (demo_conn bs)) (tc_sock (demo_conn bs))"
  by (simp add: flowing_def demo_conn_def demo_sock_def list_all_iff)

lemma forced_ids: "dec32 0x10 0 0 0 = HW_ISP_CFG_TEST_FORCED"
  by (simp add: dec32_def)

lemma forced_size: "group_size HW_ISP_CFG_TEST HW_ISP_CFG_TEST_FORCED = 8"
  by (simp add: group_size_def cfg_test_items_def selected_def)


lemma items_size_le: "items_size its ids \<le> sum_list (map cfg_size its)"
  by (induction its) auto

lemma other_groups_fit: "g \<noteq> HW_ISP_CFG_TUNING_TABLES \<Longrightarrow> group_size g ids \<le> PARAMS_CFG_SIZE"
  using items_size_le [of cfg_test_items ids] items_size_le [of cfg_3a_items ids] items_size_le [of cfg_tuning_items ids]
    items_size_le [of cfg_dynamic_items ids]
  by (simp add: group_size_def PARAMS_CFG_SIZE_def cfg_test_items_def cfg_3a_items_def cfg_tuning_items_def cfg_dynamic_items_def)

lemma all_tables_size: "group_size HW_ISP_CFG_TUNING_TABLES 0xFFFFFFFF = 100240"
  by (simp add: group_size_def cfg_tables_items_def selected_def)

text \<open>
  Only table requests are too large for the server's buffer. A \<open>GET_CFG\<close> request on a running ISP
  leaves the block of \<open>sizeof(struct isp_params_cfg)\<close> bytes exactly when its items are larger than the
  block; the items of the other groups always fit, while a request for all tables needs 100240 bytes and writes past the end.
\<close>

theorem get_request_bounds:
  assumes "isp_ready d (tc_handle tc) t" "length (tc_buffer tc) = PARAMS_CFG_SIZE"
    and "tuning_packet SOCK_CMD_GET_CFG d g ids p"
  shows "(group_size g ids > PARAMS_CFG_SIZE \<longrightarrow> tuning_request env True p tc = Ub) \<and>
    (group_size g ids \<le> PARAMS_CFG_SIZE \<longrightarrow> tuning_request env True p tc \<noteq> Ub) \<and>
    (g \<noteq> HW_ISP_CFG_TUNING_TABLES \<longrightarrow> group_size g ids \<le> PARAMS_CFG_SIZE) \<and>
    group_size HW_ISP_CFG_TUNING_TABLES 0xFFFFFFFF = 100240"
proof (intro conjI impI)
  let ?tc = "tc\<lparr>tc_handle := (tc_handle tc)\<lparr>g_cur_isp_sel := d\<rparr>\<rparr>"
  have p: "pkt_isp_sel p = d" "pkt_group p = g" "pkt_cfg_ids p = ids" using assms(3) by (simp_all add: tuning_packet_def)
  have r: "isp_ready d (tc_handle ?tc) t" using select_ready_isp(2) [OF assms(1)] by simp
  have e: "tuning_request env True p tc = tuning_get p ?tc"
    by (rule request_ready(1) [OF assms(1,3) refl])
  note get = get_cfg_ready [OF r, of g ids "tc_buffer tc"]
  have wfp: "wf_params (params t)" using assms(1) by (simp add: isp_ready_def)
  show "tuning_request env True p tc = Ub" if "group_size g ids > PARAMS_CFG_SIZE"
    using get_group_cases [of g ids "params t" "tc_buffer tc"] that assms(2) get p
    by (auto simp: e tuning_get_def)
  show "tuning_request env True p tc \<noteq> Ub" if sz: "group_size g ids \<le> PARAMS_CFG_SIZE"
  proof -
    obtain b where b: "get_group g ids (params t) (tc_buffer tc) = Some (group_ret g ids, b)"
      using get_group_cases [of g ids "params t" "tc_buffer tc"] sz assms(2) by auto
    then have "length b = PARAMS_CFG_SIZE" using get_group_length [OF wfp] assms(2) by simp
    then have "convert_tuning_cfg_to_network g ids b \<noteq> None"
      using convert_None_iff [of g ids b hton_long hton_short] sz by (simp add: convert_tuning_cfg_to_network_def)
    then show ?thesis
      using get b p by (auto simp: e tuning_get_def tc_reply_def tc_send_def Let_def split: option.split)
  qed
  show "group_size g ids \<le> PARAMS_CFG_SIZE" if "g \<noteq> HW_ISP_CFG_TUNING_TABLES"
    by (rule other_groups_fit [OF that])
qed (rule all_tables_size)

theorem get_request_bounds_witness:
  "tuning_request good_env True (demo_packet SOCK_CMD_GET_CFG HW_ISP_CFG_TUNING_TABLES [0xFF, 0xFF, 0xFF, 0xFF] 0)
     (demo_conn []) = Ub"
proof -
  have ids: "dec32 0xFF 0xFF 0xFF 0xFF = 0xFFFFFFFF" by (simp add: dec32_def)
  have b: "length (tc_buffer (demo_conn [])) = PARAMS_CFG_SIZE" by (simp add: demo_conn_def)
  have p: "tuning_packet SOCK_CMD_GET_CFG 0 HW_ISP_CFG_TUNING_TABLES 0xFFFFFFFF
      (demo_packet SOCK_CMD_GET_CFG HW_ISP_CFG_TUNING_TABLES [0xFF, 0xFF, 0xFF, 0xFF] 0)"
    using demo_packet_tuning [of SOCK_CMD_GET_CFG HW_ISP_CFG_TUNING_TABLES "0xFF" "0xFF" "0xFF" "0xFF" 0] unfolding ids .
  show ?thesis
    using get_request_bounds [OF demo_ready b p, of good_env] by (simp add: PARAMS_CFG_SIZE_def)
qed

text \<open>
  C36. A client can write past the server's buffer: the length of a \<open>SET_CFG\<close> request is taken from its
  header without a check. Whatever the items, when it announces more than the block holds and the bytes arrive, \<open>sock_read\<close>
  stores them past the end.
\<close>

theorem set_request_overflow:
  assumes "isp_ready d (tc_handle tc) t" "length (tc_buffer tc) = PARAMS_CFG_SIZE"
    and "tuning_packet SOCK_CMD_SET_CFG d g ids p" "pkt_length p > int PARAMS_CFG_SIZE"
    and "length (inp (tc_sock tc)) \<ge> nat (pkt_length p)" "flowing (PACKET_SIZE + nat (pkt_length p)) (tc_io tc) (tc_sock tc)"
  shows "tuning_request env True p tc = Ub"
proof -
  let ?tc = "tc\<lparr>tc_handle := (tc_handle tc)\<lparr>g_cur_isp_sel := d\<rparr>\<rparr>"
  have lp: "length (enc_packet p) = 44" using assms(3) by (simp add: tuning_packet_def)
  obtain io1 s1 where 1: "tc_send (enc_packet p) ?tc = Ret (44, ?tc\<lparr>tc_io := io1, tc_sock := s1\<rparr>)"
    "flowing (nat (pkt_length p) + 0) io1 s1" "inp s1 = inp (tc_sock tc)"
    using tc_send_complete [of "enc_packet p" "nat (pkt_length p)" ?tc] assms(6) lp by auto
  obtain io2 s2 where 2: "sock_read 30 io1 (nat (pkt_length p)) s1 = Some (take (nat (pkt_length p)) (inp s1), io2, s2)"
    using sock_read_complete [OF 1(2), of 30] assms(5) 1(3) by auto
  have "length (take (nat (pkt_length p)) (inp s1)) > PARAMS_CFG_SIZE"
    using assms(4,5) 1(3) by simp
  then have "tuning_set p ?tc = Ub"
    using 1(1) 2 assms(2) by (simp add: tuning_set_def)
  then show ?thesis using request_ready(2) [OF assms(1,3) refl] by simp
qed

theorem set_request_overflow_witness:
  "tuning_request good_env True (demo_packet SOCK_CMD_SET_CFG HW_ISP_CFG_TEST [0, 0, 0, 0x10] 80153)
     ((demo_conn [])\<lparr>tc_io := replicate 90000 (IoOk 1),
        tc_sock := \<lparr>sel = replicate 90000 SelReady, inp = replicate 80153 0, outp = [], errno = 0\<rparr>\<rparr>) = Ub"
proof -
  let ?p = "demo_packet SOCK_CMD_SET_CFG HW_ISP_CFG_TEST [0, 0, 0, 0x10] 80153"
  let ?tc = "(demo_conn [])\<lparr>tc_io := replicate 90000 (IoOk 1),
        tc_sock := \<lparr>sel = replicate 90000 SelReady, inp = replicate 80153 0, outp = [], errno = 0\<rparr>\<rparr>"
  have n: "pkt_length ?p = 80153" by (simp add: pkt_length_def demo_packet_def)
  have r: "isp_ready 0 (tc_handle ?tc) (tuning_with zero_params)" using demo_ready [of "[]"] by simp
  have b: "length (tc_buffer ?tc) = PARAMS_CFG_SIZE" by (simp add: demo_conn_def)
  have f: "flowing (PACKET_SIZE + nat (pkt_length ?p)) (tc_io ?tc) (tc_sock ?tc)" unfolding n
    by (simp add: flowing_def list_all_iff)
  have l: "pkt_length ?p > int PARAMS_CFG_SIZE" "length (inp (tc_sock ?tc)) \<ge> nat (pkt_length ?p)"
    unfolding n by (simp_all add: PARAMS_CFG_SIZE_def)
  show ?thesis
    by (rule set_request_overflow [OF r b demo_packet_tuning l f])
qed

text \<open>
  Requests the server cannot serve are answered and change nothing: a request of an unknown type, or for an ISP id
  below 0 or above \<open>HW_ISP_DEVICE_NUM\<close>, gets its own packet back with \<open>SOCK_CMD_RET_FAILED\<close>;
  neither the ISPs nor the buffer change and no input is consumed.
\<close>

theorem bad_request_refused:
  assumes "wf_packet p" "flowing PACKET_SIZE (tc_io tc) (tc_sock tc)"
    and "cmd_ids p ! 1 \<notin> {SOCK_CMD_GET_CFG, SOCK_CMD_SET_CFG, SOCK_CMD_UPDATE_CFG, SOCK_CMD_ISP_SEL} \<or>
      pkt_isp_sel p < 0 \<or> pkt_isp_sel p > HW_ISP_DEVICE_NUM"
  shows "\<exists>tc'. tuning_request env vich p tc = Ret tc' \<and> tc_handle tc' = tc_handle tc \<and> tc_buffer tc' = tc_buffer tc \<and>
    inp (tc_sock tc') = inp (tc_sock tc) \<and>
    outp (tc_sock tc') = outp (tc_sock tc) @ enc_packet (p\<lparr>ret := bswap32 SOCK_CMD_RET_FAILED\<rparr>)"
proof -
  have sel: "select_isp env vich (pkt_isp_sel p) (tc_handle tc) = Ret (- 1, tc_handle tc)"
    if "pkt_isp_sel p < 0 \<or> pkt_isp_sel p > HW_ISP_DEVICE_NUM"
    using that by (auto simp: select_isp_def VALID_ISP_SEL_def)
  have "tuning_request env vich p tc = tc_reply SOCK_CMD_RET_FAILED p tc"
    using assms(3) sel by (auto simp: tuning_request_def with_isp_def)
  then show ?thesis
    using tc_reply_complete [of 0 tc p SOCK_CMD_RET_FAILED] assms(1,2) by auto
qed

theorem bad_request_refused_witness:
  "\<exists>tc'. tuning_request good_env True (demo_packet 0x77 HW_ISP_CFG_TEST [0, 0, 0, 0x10] 0) (demo_conn []) = Ret tc' \<and>
     tc_handle tc' = ready_handle"
proof -
  have "wf_packet (demo_packet 0x77 HW_ISP_CFG_TEST [0, 0, 0, 0x10] 0)" by (simp add: wf_demo_packet)
  moreover have "flowing PACKET_SIZE (tc_io (demo_conn [])) (tc_sock (demo_conn []))" by (rule demo_flowing) simp
  moreover have "cmd_ids (demo_packet 0x77 HW_ISP_CFG_TEST [0, 0, 0, 0x10] 0) ! 1 \<notin>
      {SOCK_CMD_GET_CFG, SOCK_CMD_SET_CFG, SOCK_CMD_UPDATE_CFG, SOCK_CMD_ISP_SEL}"
    by (simp add: demo_packet_def)
  ultimately show ?thesis
    using bad_request_refused [of "demo_packet 0x77 HW_ISP_CFG_TEST [0, 0, 0, 0x10] 0" "demo_conn []" good_env True]
    by (auto simp: demo_conn_def)
qed

lemma idle_round:
  assumes "\<not> stop_flag r" "sel (tc_sock tc) = SelTimeout # evs"
  shows "tuning_round r tc = Ret (tc_timeouts tc + 1 \<le> SERVER_TIMEOUT_MAX,
    tc\<lparr>tc_sock := (tc_sock tc)\<lparr>sel := evs, errno := ETIMEDOUT\<rparr>, tc_timeouts := tc_timeouts tc + 1\<rparr>)"
proof -
  have "sock_read 30 (tc_io tc) 44 (tc_sock tc) = Some ([], tc_io tc, (tc_sock tc)\<lparr>sel := evs, errno := ETIMEDOUT\<rparr>)"
    using assms(2) by (simp add: sock_read.simps read_timeout_def)
  then show ?thesis
    using assms(1)
    by (simp add: tuning_round_def sock_read_check_packet_def SHOULD_TRY_AGAIN_def SHOULD_CLOSE_SOCK_def count_timeout_def Let_def)
qed

lemma idle_rounds:
  "\<forall>r \<in> set rs. \<not> stop_flag r \<Longrightarrow> sel (tc_sock tc) = replicate (length rs) SelTimeout @ evs \<Longrightarrow>
   tc_timeouts tc \<le> 10 \<Longrightarrow>
   (if length rs + tc_timeouts tc \<le> 10 then sock_handle_tuning_thread rs tc = Blocks
    else \<exists>tc'. sock_handle_tuning_thread rs tc = Ret tc' \<and> tc_handle tc' = tc_handle tc \<and>
      sel (tc_sock tc') = replicate (length rs - (11 - tc_timeouts tc)) SelTimeout @ evs)"
proof (induction rs arbitrary: tc)
  case (Cons r rs)
  let ?tc = "tc\<lparr>tc_sock := (tc_sock tc)\<lparr>sel := replicate (length rs) SelTimeout @ evs, errno := ETIMEDOUT\<rparr>,
    tc_timeouts := tc_timeouts tc + 1\<rparr>"
  have r: "tuning_round r tc = Ret (tc_timeouts tc + 1 \<le> 10, ?tc)"
    using Cons.prems by (intro idle_round) simp_all
  show ?case
  proof (cases "tc_timeouts tc + 1 \<le> 10")
    case True
    then show ?thesis using Cons.IH [of ?tc] Cons.prems r by (auto split: if_splits)
  next
    case False
    then show ?thesis using Cons.prems(3) r by simp
  qed
qed simp

text \<open>
  A silent connection is closed: while the client sends nothing and the server is not stopped, the tuning thread
  survives ten timeouts of \<open>select\<close> in a row and ends at the eleventh, without touching the ISPs.
\<close>

theorem silent_connection_closed:
  assumes "\<forall>r \<in> set rs. \<not> stop_flag r" "sel (tc_sock tc) = replicate (length rs) SelTimeout @ evs" "tc_timeouts tc = 0"
  shows "if length rs \<le> SERVER_TIMEOUT_MAX then sock_handle_tuning_thread rs tc = Blocks
    else \<exists>tc'. sock_handle_tuning_thread rs tc = Ret tc' \<and> tc_handle tc' = tc_handle tc \<and>
      sel (tc_sock tc') = replicate (length rs - 11) SelTimeout @ evs"
  using idle_rounds [OF assms(1,2), unfolded assms(3)] by (auto split: if_splits)

theorem silent_connection_closed_witness:
  "\<exists>tc'. sock_handle_tuning_thread (replicate 12 \<lparr>stop_flag = False, round_env = good_env, vich_open = True\<rparr>)
     ((demo_conn [])\<lparr>tc_sock := \<lparr>sel = replicate 12 SelTimeout, inp = [], outp = [], errno = 0\<rparr>\<rparr>) = Ret tc' \<and>
   tc_handle tc' = ready_handle \<and> sel (tc_sock tc') = [SelTimeout]"
  using silent_connection_closed [of "replicate 12 \<lparr>stop_flag = False, round_env = good_env, vich_open = True\<rparr>"
      "(demo_conn [])\<lparr>tc_sock := \<lparr>sel = replicate 12 SelTimeout, inp = [], outp = [], errno = 0\<rparr>\<rparr>" "[]"]
  by (simp add: demo_conn_def)

text \<open>
  A client that only asks for acknowledgements is dropped as silent: the tuning thread never clears
  \<open>errno\<close>, so after one timeout every packet that is answered with a status acknowledgement (or rejected) counts as a
  further timeout, although it arrived.
\<close>

theorem stale_errno_counts_as_timeout:
  assumes "\<not> stop_flag r" "errno (tc_sock tc) = ETIMEDOUT" "wf_packet p" "inp (tc_sock tc) = enc_packet p @ rest"
    and "flowing (2 * PACKET_SIZE) (tc_io tc) (tc_sock tc)"
    and "classify p SOCK_CMD_TUNING \<in> {SOCK_RW_ACK_STATUS, SOCK_RW_CHECK_ERROR, SOCK_RW_RET_ERROR}"
  shows "\<exists>tc'. tuning_round r tc = Ret (tc_timeouts tc + 1 \<le> SERVER_TIMEOUT_MAX, tc') \<and>
    tc_timeouts tc' = tc_timeouts tc + 1 \<and> inp (tc_sock tc') = rest"
proof -
  obtain io s where d: "sock_read_check_packet 30 (tc_io tc) SOCK_CMD_TUNING (tc_sock tc) =
      Some (classify p SOCK_CMD_TUNING, p, io, s)" "inp s = rest" "errno s = ETIMEDOUT"
    using packet_delivered [OF assms(3,4,5), of 30 SOCK_CMD_TUNING] assms(2) by auto
  then show ?thesis
    using assms(1,6) by (auto simp: tuning_round_def SHOULD_CLOSE_SOCK_def count_timeout_def Let_def)
qed

theorem stale_errno_counts_as_timeout_witness:
  "\<exists>tc'. tuning_round \<lparr>stop_flag = False, round_env = good_env, vich_open = True\<rparr>
     ((demo_conn [])\<lparr>tc_sock := (demo_sock (enc_packet zero_packet))\<lparr>errno := ETIMEDOUT\<rparr>\<rparr>) = Ret (True, tc') \<and>
   tc_timeouts tc' = 1"
proof -
  let ?tc = "(demo_conn [])\<lparr>tc_sock := (demo_sock (enc_packet zero_packet))\<lparr>errno := ETIMEDOUT\<rparr>\<rparr>"
  have w: "wf_packet zero_packet" by (simp add: wf_packet_def zero_packet_def)
  have c: "classify zero_packet SOCK_CMD_TUNING = SOCK_RW_CHECK_ERROR"
    by (simp add: classify_def zero_packet_def SERVER_SOCK_HEAD_def replicate_four)
  have i: "inp (tc_sock ?tc) = enc_packet zero_packet @ []" "errno (tc_sock ?tc) = ETIMEDOUT"
    by (simp_all add: demo_sock_def)
  have f: "flowing (2 * PACKET_SIZE) (tc_io ?tc) (tc_sock ?tc)"
    by (simp add: flowing_def demo_conn_def demo_sock_def list_all_iff)
  show ?thesis
    using stale_errno_counts_as_timeout [OF _ i(2) w i(1) f,
        of "\<lparr>stop_flag = False, round_env = good_env, vich_open = True\<rparr>"] c
    by (auto simp: demo_conn_def)
qed

section \<open>Shell output without escape sequences\<close>

text \<open>Output as a sequence of plain characters and terminated escape sequences.\<close>

datatype shell_piece = Plain byte | Escape "byte list"

fun piece_ok :: "shell_piece \<Rightarrow> bool" where
  "piece_ok (Plain c) = (c \<noteq> 0 \<and> c \<noteq> 27)"
| "piece_ok (Escape cs) = (109 \<notin> set cs)"

fun piece_bytes :: "shell_piece \<Rightarrow> byte list" where
  "piece_bytes (Plain c) = [c]"
| "piece_bytes (Escape cs) = [27, 91] @ cs @ [109]"

fun plain_bytes :: "shell_piece \<Rightarrow> byte list" where
  "plain_bytes (Plain c) = [c]"
| "plain_bytes (Escape cs) = []"

lemma skip_escape_app: "109 \<notin> set cs \<Longrightarrow> skip_escape (cs @ 109 # rest) = Some rest"
  by (induction cs) auto

lemma shell_copy_pieces:
  "list_all piece_ok ps \<Longrightarrow> shell_copy (concat (map piece_bytes ps) @ 0 # rest) = Some (concat (map plain_bytes ps))"
proof (induction ps)
  case (Cons p ps)
  then show ?case
    by (cases p) (auto simp: skip_escape_app)
qed simp

lemma skip_escape_None: "109 \<notin> set cs \<Longrightarrow> skip_escape cs = None"
  by (induction cs) auto

lemma shell_copy_unterminated:
  "list_all piece_ok ps \<Longrightarrow> 109 \<notin> set cs \<Longrightarrow> shell_copy (concat (map piece_bytes ps) @ 27 # 91 # cs) = None"
proof (induction ps)
  case Nil
  then show ?case by (simp add: skip_escape_None)
next
  case (Cons p ps)
  then show ?case by (cases p) (auto simp: skip_escape_app)
qed

text \<open>
  \<open>shell_format\<close> deletes the escape sequences and nothing else: for a terminated string of plain characters and
  complete escape sequences with fewer than 1024 plain characters, the buffer then starts with
  the plain characters in order and a terminating zero, and their number is returned. With 1024 or more plain characters, or with an
  escape sequence that is not terminated by an \<open>m\<close>, it leaves its buffers: a final zero does not end the inner loop.
\<close>

theorem shell_format_spec:
  assumes "list_all piece_ok ps"
  shows "(let plain = concat (map plain_bytes ps); buffer = concat (map piece_bytes ps) @ 0 # rest in
      shell_format buffer = (if length plain < 1024 then Some (length plain, overlay buffer (plain @ [0])) else None)) \<and>
    (109 \<notin> set cs \<longrightarrow> shell_format (concat (map piece_bytes ps) @ 27 # 91 # cs @ [0]) = None)"
  using shell_copy_pieces [OF assms] shell_copy_unterminated [OF assms, of "cs @ [0]"]
  by (simp add: shell_format_def Let_def)

theorem shell_format_spec_witness:
  "shell_format [72, 27, 91, 49, 59, 51, 50, 109, 105, 0] = Some (2, [72, 105, 0, 49, 59, 51, 50, 109, 105, 0]) \<and>
   shell_format [72, 27, 91, 49, 0] = None"
  using shell_format_spec [of "[Plain 72, Escape [49, 59, 51, 50], Plain 105]" "[]" "[49]"]
    shell_format_spec [of "[Plain 72]" "[]" "[49]"]
  by (simp add: Let_def overlay_def)

end
