(* ===== verification/Stats3A.thy ===== *)
theory Stats3A
  imports Prelude
begin

text \<open>
  \<open>hton_3a_info\<close> and \<open>ntoh_3a_info\<close> (\<open>isp_handle.c\<close>): the byte order of the exposure, white balance
  and focus statistics that the tuning server sends. The focus counters are 64 bits wide, but the
  code passes them to the 32-bit \<open>htonl\<close>, and converts only five of the ten arrays that the struct
  has for \<open>ISP_VERSION\<close> 522. A two-dimensional array is the list of its elements row by row.
\<close>

record isp_ae_stats_s =
  win_pix_n :: u32
  accum_r :: "u32 list"
  accum_g :: "u32 list"
  accum_b :: "u32 list"
  ae_avg :: "u32 list"
  hist :: "u32 list"

record isp_awb_stats_s =
  awb_sum_r :: "u32 list"
  awb_sum_g :: "u32 list"
  awb_sum_b :: "u32 list"
  awb_sum_cnt :: "u32 list"
  awb_avg_r :: "u32 list"
  awb_avg_g :: "u32 list"
  awb_avg_b :: "u32 list"
  awb_avg :: "u32 list"

record isp_af_stats_s =
  af_iir :: "u64 list"
  af_fir :: "u64 list"
  af_iir_cnt :: "u64 list"
  af_fir_cnt :: "u64 list"
  af_hlt_cnt :: "u64 list"
  af_count :: "u64 list"
  af_h_d1 :: "u64 list"
  af_h_d2 :: "u64 list"
  af_v_d1 :: "u64 list"
  af_v_d2 :: "u64 list"

datatype stat_info = StatAE isp_ae_stats_s | StatAWB isp_awb_stats_s | StatAF isp_af_stats_s

text \<open>The 64-bit member is truncated to the argument type of \<open>htonl\<close> and the result is widened.\<close>

definition swap_low32 :: "u64 \<Rightarrow> u64" where
  "swap_low32 w = ucast (bswap32 (ucast w))"

fun hton_3a_info :: "stat_info \<Rightarrow> stat_info" where
  "hton_3a_info (StatAE s) = StatAE (s\<lparr>win_pix_n := bswap32 (win_pix_n s),
     accum_r := map bswap32 (accum_r s), accum_g := map bswap32 (accum_g s),
     accum_b := map bswap32 (accum_b s), ae_avg := map bswap32 (ae_avg s),
     hist := map bswap32 (hist s)\<rparr>)"
| "hton_3a_info (StatAWB s) = StatAWB (s\<lparr>awb_sum_r := map bswap32 (awb_sum_r s),
     awb_sum_g := map bswap32 (awb_sum_g s), awb_sum_b := map bswap32 (awb_sum_b s),
     awb_sum_cnt := map bswap32 (awb_sum_cnt s), awb_avg_r := map bswap32 (awb_avg_r s),
     awb_avg_g := map bswap32 (awb_avg_g s), awb_avg_b := map bswap32 (awb_avg_b s),
     awb_avg := map bswap32 (awb_avg s)\<rparr>)"
| "hton_3a_info (StatAF s) = StatAF (s\<lparr>af_count := map swap_low32 (af_count s),
     af_h_d1 := map swap_low32 (af_h_d1 s), af_h_d2 := map swap_low32 (af_h_d2 s),
     af_v_d1 := map swap_low32 (af_v_d1 s), af_v_d2 := map swap_low32 (af_v_d2 s)\<rparr>)"

fun ntoh_3a_info :: "stat_info \<Rightarrow> stat_info" where
  "ntoh_3a_info (StatAE s) = StatAE (s\<lparr>win_pix_n := bswap32 (win_pix_n s),
     accum_r := map bswap32 (accum_r s), accum_g := map bswap32 (accum_g s),
     accum_b := map bswap32 (accum_b s), ae_avg := map bswap32 (ae_avg s),
     hist := map bswap32 (hist s)\<rparr>)"
| "ntoh_3a_info (StatAWB s) = StatAWB (s\<lparr>awb_sum_r := map bswap32 (awb_sum_r s),
     awb_sum_g := map bswap32 (awb_sum_g s), awb_sum_b := map bswap32 (awb_sum_b s),
     awb_sum_cnt := map bswap32 (awb_sum_cnt s), awb_avg_r := map bswap32 (awb_avg_r s),
     awb_avg_g := map bswap32 (awb_avg_g s), awb_avg_b := map bswap32 (awb_avg_b s),
     awb_avg := map bswap32 (awb_avg s)\<rparr>)"
| "ntoh_3a_info (StatAF s) = StatAF (s\<lparr>af_count := map swap_low32 (af_count s),
     af_h_d1 := map swap_low32 (af_h_d1 s), af_h_d2 := map swap_low32 (af_h_d2 s),
     af_v_d1 := map swap_low32 (af_v_d1 s), af_v_d2 := map swap_low32 (af_v_d2 s)\<rparr>)"

text \<open>What is left of focus statistics after the journey: the low halves of five counters.\<close>

definition low32 :: "u64 \<Rightarrow> u64" where
  "low32 w = take_bit 32 w"

definition af_low32 :: "isp_af_stats_s \<Rightarrow> isp_af_stats_s" where
  "af_low32 s = s\<lparr>af_count := map low32 (af_count s), af_h_d1 := map low32 (af_h_d1 s),
     af_h_d2 := map low32 (af_h_d2 s), af_v_d1 := map low32 (af_v_d1 s), af_v_d2 := map low32 (af_v_d2 s)\<rparr>"

lemma ucast_ucast_u32 [simp]: "ucast (ucast (w :: u32) :: u64) = w"
  by (rule bit_word_eqI) (auto simp: bit_simps)

lemma swap_low32_twice [simp]: "swap_low32 (swap_low32 w) = low32 w"
  by (rule bit_word_eqI) (auto simp: swap_low32_def low32_def bit_simps)

lemma swap_twice [simp]: "bswap32 \<circ> bswap32 = id" "swap_low32 \<circ> swap_low32 = low32"
  by (simp_all add: fun_eq_iff)

text \<open>
  The client that converts received statistics back obtains the exposure and white balance
  statistics unchanged; of the focus statistics it obtains the low 32 bits of the five converted
  counters, while the five filter arrays pass unconverted.
\<close>

theorem stats_round_trip:
  "ntoh_3a_info (hton_3a_info st) = (case st of StatAF s \<Rightarrow> StatAF (af_low32 s) | _ \<Rightarrow> st)"
  by (cases st) (simp_all add: af_low32_def)

end
