(* ===== verification/VideoDevice.thy ===== *)
theory VideoDevice
  imports Prelude "HOL-Library.Monad_Syntax"
begin

text \<open>
  \<open>isp_dev/video.c\<close> and the two functions of \<open>isp_dev/isp_dev.c\<close> that open and close a video node: the life of one
  video channel, from its descriptor over the pool of mapped frame buffers to the exchange of buffers with the driver.
  What the kernel answers to each call is a record of results; \<open>v_maps\<close>, \<open>v_queued\<close> and \<open>v_stream\<close> are
  the kernel's side of the channel (live mappings, buffers the driver holds, oldest first, and whether it is streaming),
  and \<open>v_lost\<close> counts heap blocks that are allocated and no longer referenced. \<open>None\<close> is
  undefined behaviour: a null or released pool, an index outside an array, a failed assertion, freeing an array on the stack.
\<close>

section \<open>State\<close>

record pix_format =
  pf_width :: u32
  pf_height :: u32
  pf_pixelformat :: u32
  pf_field :: u32
  pf_num_planes :: nat
  pf_bytesperline :: "u32 list"

record video_fmt =
  vf_type :: int
  vf_memtype :: int
  vf_format :: pix_format
  vf_nbufs :: nat
  vf_nplanes :: nat
  vf_fps :: u32
  vf_capturemode :: int
  vf_use_current_win :: int
  vf_wdr_mode :: u32
  vf_index :: int

text \<open>The address of a plane: \<open>NULL\<close>, \<open>MAP_FAILED\<close>, or a mapping of the driver's buffer.\<close>

datatype plane_mem = MemNull | MemFailed | MemMapped

record video_plane =
  vp_size :: u32
  vp_mem :: plane_mem
  vp_mem_phy :: u32

record video_buffer =
  vb_index :: nat
  vb_bytesused :: u32
  vb_frame_cnt :: u32
  vb_exp_time :: u32
  vb_timestamp :: int
  vb_error :: bool
  vb_allocated :: bool
  vb_planes :: "video_plane list"

record isp_video_device =
  vd_isp_id :: int
  vd_type :: int
  vd_memtype :: int
  vd_format :: pix_format
  vd_nbufs :: nat
  vd_nplanes :: nat
  vd_fps :: u32
  vd_pool :: "video_buffer list option"

record vchan =
  video_dev :: "isp_video_device option"
  entity_fd :: int
  v_maps :: nat
  v_queued :: "nat list"
  v_stream :: bool
  v_lost :: nat

text \<open>What \<open>VIDIOC_DQBUF\<close> reports.\<close>

record dq_data =
  dq_index :: nat
  dq_bytesused :: u32
  dq_reserved :: u32
  dq_reserved2 :: u32
  dq_timestamp :: int
  dq_error :: bool
  dq_offsets :: "u32 list"

text \<open>The kernel's answers.\<close>

record vid_env =
  dev_alloc :: bool
  entity_found :: bool
  open_fd :: int
  vid_errno :: int
  found_isp_id :: int
  s_input_ok :: bool
  s_parm_ok :: bool
  s_fmt_ok :: bool
  g_fmt :: "pix_format option"
  pool_alloc :: bool
  buffers_alloc :: bool
  planes_alloc :: "nat \<Rightarrow> bool"
  reqbufs :: "nat \<Rightarrow> nat option"
  querybuf :: "nat \<Rightarrow> u32 list option"
  mmap_ok :: "nat \<Rightarrow> nat \<Rightarrow> bool"
  munmap_ok :: "nat \<Rightarrow> nat \<Rightarrow> bool"
  relbufs_ok :: bool
  qbuf_ok :: "nat \<Rightarrow> bool"
  stream_on_ok :: bool
  stream_off_ok :: bool
  select_ret :: int
  dqbuf :: "dq_data option"
  plane_byte :: "nat \<Rightarrow> nat \<Rightarrow> nat \<Rightarrow> byte"

abbreviation (input) VIDEO_MAX_PLANES :: nat where "VIDEO_MAX_PLANES \<equiv> 8"
abbreviation (input) ENOENT :: int where "ENOENT \<equiv> 2"
abbreviation (input) V4L2_MEMORY_MMAP :: int where "V4L2_MEMORY_MMAP \<equiv> 1"

text \<open>\<open>-errno\<close>: \<open>errno\<close> is positive after a call has failed.\<close>

definition neg_errno :: "vid_env \<Rightarrow> int" where
  "neg_errno env = - max 1 (vid_errno env)"

definition zero_pix_format :: pix_format where
  "zero_pix_format = \<lparr>pf_width = 0, pf_height = 0, pf_pixelformat = 0, pf_field = 0, pf_num_planes = 0,
     pf_bytesperline = replicate VIDEO_MAX_PLANES 0\<rparr>"

definition zero_video :: isp_video_device where
  "zero_video = \<lparr>vd_isp_id = 0, vd_type = 0, vd_memtype = 0, vd_format = zero_pix_format, vd_nbufs = 0, vd_nplanes = 0,
     vd_fps = 0, vd_pool = None\<rparr>"

definition zero_plane :: video_plane where
  "zero_plane = \<lparr>vp_size = 0, vp_mem = MemNull, vp_mem_phy = 0\<rparr>"

definition set_video :: "isp_video_device \<Rightarrow> vchan \<Rightarrow> vchan" where
  "set_video vd c = c\<lparr>video_dev := Some vd\<rparr>"

section \<open>Opening and closing\<close>

definition video_init :: "vid_env \<Rightarrow> vchan \<Rightarrow> int \<times> vchan" where
  "video_init env c =
     (if \<not> entity_found env then (- ENOENT, c)
      else if entity_fd c \<noteq> - 1 then (0, c)
      else if open_fd env = - 1 then (neg_errno env, c)
      else (0, c\<lparr>entity_fd := open_fd env\<rparr>))"

text \<open>Closing the descriptor ends streaming and takes the buffers back from the driver; mappings stay.\<close>

definition video_cleanup :: "vchan \<Rightarrow> vchan" where
  "video_cleanup c = (if entity_fd c = - 1 then c else c\<lparr>entity_fd := - 1, v_stream := False, v_queued := []\<rparr>)"

text \<open>A node without an ISP is closed again, but the result is still the 0 of \<open>video_init\<close>.\<close>

definition isp_video_open :: "vid_env \<Rightarrow> vchan \<Rightarrow> int \<times> vchan" where
  "isp_video_open env c =
     (if video_dev c \<noteq> None then (0, c)
      else if \<not> dev_alloc env then (- 1, c\<lparr>video_dev := None\<rparr>)
      else case video_init env c of (ret, c1) \<Rightarrow>
        if ret < 0 then (ret, c1\<lparr>video_dev := None\<rparr>)
        else if found_isp_id env = - 1 then (ret, (video_cleanup c1)\<lparr>video_dev := None\<rparr>)
        else (0, set_video (zero_video\<lparr>vd_isp_id := found_isp_id env\<rparr>) c1))"

text \<open>Freeing the device drops the only reference to its pool: the pool, its buffers and their plane arrays.\<close>

definition pool_blocks :: "video_buffer list option \<Rightarrow> nat" where
  "pool_blocks p = (case p of None \<Rightarrow> 0 | Some bs \<Rightarrow> 2 + length bs)"

definition isp_video_close :: "vchan \<Rightarrow> vchan" where
  "isp_video_close c =
     (case video_dev c of
        None \<Rightarrow> c
      | Some vd \<Rightarrow> (video_cleanup c)\<lparr>video_dev := None, v_lost := v_lost c + pool_blocks (vd_pool vd)\<rparr>)"

section \<open>Formats\<close>

definition video_set_fmt :: "vid_env \<Rightarrow> video_fmt \<Rightarrow> isp_video_device \<Rightarrow> int \<times> isp_video_device" where
  "video_set_fmt env vfmt video =
     (if \<not> s_input_ok env \<or> \<not> s_parm_ok env \<or> \<not> s_fmt_ok env then (- 1, video)
      else case g_fmt env of
        None \<Rightarrow> (- 1, video)
      | Some pix \<Rightarrow> (0, video\<lparr>vd_nplanes := pf_num_planes pix, vd_format := pix, vd_type := vf_type vfmt,
          vd_memtype := vf_memtype vfmt, vd_nbufs := vf_nbufs vfmt, vd_fps := vf_fps vfmt\<rparr>))"

definition video_get_fmt :: "isp_video_device \<Rightarrow> video_fmt \<Rightarrow> video_fmt" where
  "video_get_fmt video vfmt = vfmt\<lparr>vf_type := vd_type video, vf_memtype := vd_memtype video, vf_format := vd_format video,
     vf_nbufs := vd_nbufs video, vf_nplanes := vd_nplanes video, vf_fps := vd_fps video\<rparr>"

section \<open>Buffers\<close>

text \<open>\<open>buffers_pool_new\<close>: when a plane array cannot be allocated, the arrays of the earlier buffers are not freed.\<close>

definition new_buffer :: "nat \<Rightarrow> nat \<Rightarrow> video_buffer" where
  "new_buffer nplanes i = \<lparr>vb_index = i, vb_bytesused = 0, vb_frame_cnt = 0, vb_exp_time = 0, vb_timestamp = 0,
     vb_error = False, vb_allocated = False, vb_planes = replicate nplanes zero_plane\<rparr>"

definition buffers_pool_new :: "vid_env \<Rightarrow> isp_video_device \<Rightarrow> video_buffer list option \<times> nat" where
  "buffers_pool_new env video =
     (if \<not> pool_alloc env \<or> \<not> buffers_alloc env then (None, 0)
      else case find (\<lambda>i. \<not> planes_alloc env i) [0..<vd_nbufs video] of
        Some i \<Rightarrow> (None, i)
      | None \<Rightarrow> (Some (map (new_buffer (vd_nplanes video)) [0..<vd_nbufs video]), 0))"

definition buffers_pool_delete :: "vchan \<Rightarrow> vchan" where
  "buffers_pool_delete c =
     (case video_dev c of
        None \<Rightarrow> c
      | Some vd \<Rightarrow>
          (case vd_pool vd of
             None \<Rightarrow> c
           | Some bs \<Rightarrow> (set_video (vd\<lparr>vd_pool := None\<rparr>) c)
               \<lparr>v_lost := v_lost c + length (filter (\<lambda>b. \<not> vb_allocated b) bs)\<rparr>))"

text \<open>
  Unmapping the planes \<open>js\<close> of buffer \<open>i\<close>, then those of the buffers \<open>is\<close>; the flag says whether every call succeeded.
  The loop stops at the first failure, and \<open>munmap\<close> always fails on \<open>MAP_FAILED\<close>.
\<close>

fun unmap_planes :: "vid_env \<Rightarrow> nat \<Rightarrow> nat list \<Rightarrow> video_plane list \<Rightarrow> nat \<Rightarrow> (bool \<times> video_plane list \<times> nat) option" where
  "unmap_planes env i [] ps maps = Some (True, ps, maps)"
| "unmap_planes env i (j # js) ps maps =
     (if j \<ge> length ps then None
      else if vp_mem (ps ! j) = MemNull then unmap_planes env i js ps maps
      else if vp_mem (ps ! j) = MemFailed \<or> \<not> munmap_ok env i j then Some (False, ps, maps)
      else unmap_planes env i js (ps[j := (ps ! j)\<lparr>vp_mem := MemNull, vp_size := 0\<rparr>]) (maps - 1))"

fun unmap_buffers :: "vid_env \<Rightarrow> nat \<Rightarrow> nat list \<Rightarrow> video_buffer list \<Rightarrow> nat \<Rightarrow> (bool \<times> video_buffer list \<times> nat) option" where
  "unmap_buffers env nplanes [] bs maps = Some (True, bs, maps)"
| "unmap_buffers env nplanes (i # is) bs maps =
     (if i \<ge> length bs then None
      else do {
        (ok, ps, maps1) \<leftarrow> unmap_planes env i [0..<nplanes] (vb_planes (bs ! i)) maps;
        let bs1 = bs[i := (bs ! i)\<lparr>vb_planes := ps\<rparr>];
        if ok then unmap_buffers env nplanes is bs1 maps1 else Some (False, bs1, maps1)
      })"

definition video_free_buffers :: "vid_env \<Rightarrow> isp_video_device \<Rightarrow> vchan \<Rightarrow> (int \<times> vchan) option" where
  "video_free_buffers env vd c =
     (case vd_pool vd of
        None \<Rightarrow> Some (0, set_video vd c)
      | Some bs \<Rightarrow> do {
          (ok, bs1, maps) \<leftarrow> (if vd_memtype vd = V4L2_MEMORY_MMAP
                            then unmap_buffers env (vd_nplanes vd) [0..<vd_nbufs vd] bs (v_maps c)
                            else Some (True, bs, v_maps c));
          let vd1 = vd\<lparr>vd_pool := Some bs1\<rparr>;
          let c1 = c\<lparr>v_maps := maps\<rparr>;
          Some (if \<not> ok \<or> \<not> relbufs_ok env then (neg_errno env, set_video vd1 c1)
                else (0, set_video (vd1\<lparr>vd_nbufs := 0, vd_nplanes := 0\<rparr>) c1))
        })"

text \<open>
  Mapping the planes of one buffer (\<open>lens\<close> are the lengths \<open>VIDIOC_QUERYBUF\<close> reported) and of all buffers.
  After a failed query the code frees the array of plane descriptors, which is on the stack: \<open>None\<close>.
\<close>

fun map_planes :: "vid_env \<Rightarrow> nat \<Rightarrow> u32 list \<Rightarrow> nat list \<Rightarrow> video_plane list \<Rightarrow> nat \<Rightarrow> bool \<times> video_plane list \<times> nat" where
  "map_planes env i lens [] ps maps = (True, ps, maps)"
| "map_planes env i lens (j # js) ps maps =
     (if mmap_ok env i j
      then map_planes env i lens js (ps[j := (ps ! j)\<lparr>vp_size := lens ! j, vp_mem := MemMapped\<rparr>]) (maps + 1)
      else (False, ps[j := (ps ! j)\<lparr>vp_size := lens ! j, vp_mem := MemFailed\<rparr>], maps))"

fun map_buffers :: "vid_env \<Rightarrow> bool \<Rightarrow> nat \<Rightarrow> nat list \<Rightarrow> video_buffer list \<Rightarrow> nat \<Rightarrow> (bool \<times> video_buffer list \<times> nat) option" where
  "map_buffers env mmapped nplanes [] bs maps = Some (True, bs, maps)"
| "map_buffers env mmapped nplanes (i # is) bs maps =
     (case querybuf env i of
        None \<Rightarrow> None
      | Some lens \<Rightarrow>
          if \<not> mmapped then map_buffers env mmapped nplanes is bs maps
          else if i \<ge> length bs \<or> nplanes > length (vb_planes (bs ! i)) then None
          else case map_planes env i lens [0..<nplanes] (vb_planes (bs ! i)) maps of (ok, ps, maps1) \<Rightarrow>
            let bs1 = bs[i := (bs ! i)\<lparr>vb_planes := ps\<rparr>] in
            if ok then map_buffers env mmapped nplanes is bs1 maps1 else Some (False, bs1, maps1))"

definition video_req_buffers :: "vid_env \<Rightarrow> video_buffer list \<Rightarrow> isp_video_device \<Rightarrow> vchan \<Rightarrow> (int \<times> vchan) option" where
  "video_req_buffers env pool vd c =
     (if vd_nplanes vd > VIDEO_MAX_PLANES \<or> vd_nplanes vd \<le> 0
      then Some (- 1, (set_video vd c)\<lparr>v_lost := v_lost c + pool_blocks (Some pool)\<rparr>)
      else
        let vd1 = vd\<lparr>vd_pool := Some pool\<rparr> in
        case reqbufs env (length pool) of
          None \<Rightarrow> map_option (\<lambda>(_, c1). (- 1, c1)) (video_free_buffers env vd1 c)
        | Some n \<Rightarrow>
            if n > length pool then map_option (\<lambda>(_, c1). (- 1, c1)) (video_free_buffers env vd1 c)
            else do {
              (ok, bs, maps) \<leftarrow> map_buffers env (vd_memtype vd = V4L2_MEMORY_MMAP) (vd_nplanes vd) [0..<n] pool (v_maps c);
              let vd2 = vd1\<lparr>vd_nbufs := n, vd_pool := Some bs\<rparr>;
              let c1 = c\<lparr>v_maps := maps\<rparr>;
              if ok then Some (0, set_video vd2 c1)
              else map_option (\<lambda>(_, c2). (- 1, c2)) (video_free_buffers env vd2 c1)
            })"

section \<open>Streaming\<close>

definition video_wait_buffer :: "vid_env \<Rightarrow> int" where
  "video_wait_buffer env = (if select_ret env = - 1 \<or> select_ret env = 0 then - 1 else 0)"

text \<open>
  The copy of the pool's buffer shares its plane array, so the physical addresses are stored in the pool as well.
\<close>

definition video_dequeue_buffer :: "vid_env \<Rightarrow> isp_video_device \<Rightarrow> vchan \<Rightarrow> (int \<times> video_buffer option \<times> vchan) option" where
  "video_dequeue_buffer env vd c =
     (if vd_nplanes vd > VIDEO_MAX_PLANES \<or> vd_nplanes vd \<le> 0 then Some (- 1, None, c)
      else case dqbuf env of
        None \<Rightarrow> Some (- 1, None, c)
      | Some d \<Rightarrow>
          (case vd_pool vd of
             None \<Rightarrow> None
           | Some bs \<Rightarrow>
               if dq_index d \<ge> vd_nbufs vd \<or> dq_index d \<ge> length bs \<or> vd_nplanes vd > length (vb_planes (bs ! dq_index d)) then None
               else
                 let b = bs ! dq_index d;
                     ps = map (\<lambda>j. if j < vd_nplanes vd then (vb_planes b ! j)\<lparr>vp_mem_phy := dq_offsets d ! j\<rparr> else vb_planes b ! j)
                            [0..<length (vb_planes b)];
                     b1 = b\<lparr>vb_planes := ps\<rparr>
                 in Some (0, Some (b1\<lparr>vb_bytesused := dq_bytesused d, vb_frame_cnt := dq_reserved d,
                        vb_exp_time := dq_reserved2 d, vb_timestamp := dq_timestamp d, vb_error := dq_error d\<rparr>),
                      (set_video (vd\<lparr>vd_pool := Some (bs[dq_index d := b1])\<rparr>) c)
                        \<lparr>v_queued := remove1 (dq_index d) (v_queued c)\<rparr>)))"

definition video_queue_buffer :: "vid_env \<Rightarrow> nat \<Rightarrow> isp_video_device \<Rightarrow> vchan \<Rightarrow> (int \<times> vchan) option" where
  "video_queue_buffer env buf_id vd c =
     (case vd_pool vd of
        None \<Rightarrow> None
      | Some bs \<Rightarrow>
          if buf_id \<ge> length bs then None
          else if vb_index (bs ! buf_id) \<ge> vd_nbufs vd then Some (- 1, c)
          else if vd_nplanes vd > VIDEO_MAX_PLANES \<or> vd_nplanes vd \<le> 0 then Some (- 1, c)
          else if qbuf_ok env (vb_index (bs ! buf_id))
            then Some (0, c\<lparr>v_queued := v_queued c @ [vb_index (bs ! buf_id)]\<rparr>)
            else Some (- 1, c))"

definition video_stream_on :: "vid_env \<Rightarrow> vchan \<Rightarrow> int \<times> vchan" where
  "video_stream_on env c = (if stream_on_ok env then (0, c\<lparr>v_stream := True\<rparr>) else (neg_errno env, c))"

definition video_stream_off :: "vid_env \<Rightarrow> vchan \<Rightarrow> int \<times> vchan" where
  "video_stream_off env c =
     (if stream_off_ok env then (0, c\<lparr>v_stream := False, v_queued := []\<rparr>) else (neg_errno env, c))"

lemma neg_errno_less [simp]: "neg_errno env < 0" "neg_errno env \<noteq> 0"
  by (simp_all add: neg_errno_def)

section \<open>Pools\<close>

text \<open>The shape of a pool: each buffer knows its index and has the same number of planes.\<close>

definition pool_ok :: "nat \<Rightarrow> video_buffer list \<Rightarrow> bool" where
  "pool_ok n bs \<longleftrightarrow> (\<forall>i<length bs. vb_index (bs ! i) = i \<and> length (vb_planes (bs ! i)) = n \<and> \<not> vb_allocated (bs ! i))"

text \<open>The planes of the first \<open>k\<close> buffers are mapped, the others are not.\<close>

definition pool_mapped :: "nat \<Rightarrow> nat \<Rightarrow> video_buffer list \<Rightarrow> bool" where
  "pool_mapped k n bs \<longleftrightarrow>
     (\<forall>i<length bs. \<forall>j<n. vp_mem (vb_planes (bs ! i) ! j) = (if i < k then MemMapped else MemNull))"

text \<open>A channel that is streaming from a pool of its own.\<close>

definition vid_ready :: "vchan \<Rightarrow> bool" where
  "vid_ready c \<longleftrightarrow> (\<exists>vd bs. video_dev c = Some vd \<and> vd_pool vd = Some bs \<and> vd_nbufs vd \<le> length bs \<and> 0 < vd_nplanes vd \<and>
     vd_nplanes vd \<le> VIDEO_MAX_PLANES \<and> pool_ok (vd_nplanes vd) bs \<and> v_stream c \<and> entity_fd c \<noteq> - 1)"

lemma pool_ok_update:
  "pool_ok n bs \<Longrightarrow> length ps = n \<Longrightarrow> pool_ok n (bs[i := (bs ! i)\<lparr>vb_planes := ps\<rparr>])"
  by (cases "i < length bs") (auto simp: pool_ok_def nth_list_update)

lemma new_pool_ok:
  "pool_ok n (map (new_buffer n) [0..<k])" "pool_mapped 0 n (map (new_buffer n) [0..<k])"
  by (simp_all add: pool_ok_def pool_mapped_def new_buffer_def zero_plane_def)

lemma map_planes_result:
  assumes "map_planes env i lens js ps maps = (ok, ps', maps')" "\<forall>j \<in> set js. j < length ps"
  shows "length ps' = length ps \<and> (ok \<longrightarrow> maps' = maps + length js \<and>
    (\<forall>j<length ps. vp_mem (ps' ! j) = (if j \<in> set js then MemMapped else vp_mem (ps ! j))))"
  using assms
proof (induction js arbitrary: ps maps)
  case (Cons j js)
  show ?case
  proof (cases "mmap_ok env i j")
    case True
    then show ?thesis
      using Cons.IH[of "ps[j := (ps ! j)\<lparr>vp_size := lens ! j, vp_mem := MemMapped\<rparr>]" "maps + 1"] Cons.prems
      by (auto simp: nth_list_update)
  next
    case False
    then show ?thesis using Cons.prems by auto
  qed
qed simp

lemma map_buffers_result:
  assumes "map_buffers env True n [a..<k] bs maps = Some (ok, bs', maps')" "pool_ok n bs" "pool_mapped a n bs" "a \<le> k"
  shows "pool_ok n bs' \<and> length bs' = length bs \<and> (ok \<longrightarrow> maps' = maps + (k - a) * n \<and> pool_mapped k n bs')"
  using assms
proof (induction "k - a" arbitrary: a bs maps)
  case (Suc d)
  then have lt: "a < k" "d = k - Suc a" by auto
  obtain lens ok1 ps maps1 where q: "querybuf env a = Some lens" "a < length bs" "n \<le> length (vb_planes (bs ! a))"
    and m: "map_planes env a lens [0..<n] (vb_planes (bs ! a)) maps = (ok1, ps, maps1)"
    and rest: "(if ok1 then map_buffers env True n [Suc a..<k] (bs[a := (bs ! a)\<lparr>vb_planes := ps\<rparr>]) maps1
       else Some (False, bs[a := (bs ! a)\<lparr>vb_planes := ps\<rparr>], maps1)) = Some (ok, bs', maps')"
    using Suc.prems(1) lt(1)
    by (simp add: upt_conv_Cons Let_def split: option.splits prod.splits if_splits)
  have "\<forall>j \<in> set [0..<n]. j < length (vb_planes (bs ! a))" using q by simp
  note r = map_planes_result[OF m this]
  let ?b = "bs[a := (bs ! a)\<lparr>vb_planes := ps\<rparr>]"
  have len: "length ps = n" using r Suc.prems(2) q by (simp add: pool_ok_def)
  have ok': "pool_ok n ?b" by (rule pool_ok_update[OF Suc.prems(2) len])
  show ?case
  proof (cases ok1)
    case True
    have "pool_mapped (Suc a) n ?b"
      using True r q Suc.prems(2,3) by (auto simp: pool_mapped_def pool_ok_def nth_list_update)
    moreover have "maps1 = maps + n" using True r by simp
    ultimately show ?thesis
      using Suc.hyps(1)[OF lt(2) _ ok', of maps1] rest True lt by (auto simp: Suc_diff_Suc[symmetric])
  qed (use rest ok' in auto)
qed simp

lemma unmap_planes_shape:
  "unmap_planes env i js ps maps = Some (ok, ps', maps') \<Longrightarrow> length ps' = length ps"
  by (induction js arbitrary: ps maps) (auto split: if_splits)

lemma unmap_buffers_shape:
  "unmap_buffers env n is bs maps = Some (ok, bs', maps') \<Longrightarrow> pool_ok n bs \<Longrightarrow> pool_ok n bs' \<and> length bs' = length bs"
proof (induction "is" arbitrary: bs maps)
  case (Cons i "is")
  obtain ok1 ps m where p: "i < length bs" "unmap_planes env i [0..<n] (vb_planes (bs ! i)) maps = Some (ok1, ps, m)"
    and r: "(if ok1 then unmap_buffers env n is (bs[i := (bs ! i)\<lparr>vb_planes := ps\<rparr>]) m
       else Some (False, bs[i := (bs ! i)\<lparr>vb_planes := ps\<rparr>], m)) = Some (ok, bs', maps')"
    using Cons.prems(1) by (auto simp: bind_eq_Some_conv Let_def split: if_splits)
  have "length ps = n" using unmap_planes_shape[OF p(2)] Cons.prems(2) p(1) by (simp add: pool_ok_def)
  with Cons.prems(2) have "pool_ok n (bs[i := (bs ! i)\<lparr>vb_planes := ps\<rparr>])" by (intro pool_ok_update)
  then show ?case using Cons.IH r by (auto split: if_splits)
qed simp

text \<open>A pool with the right shape is unmapped without undefined behaviour.\<close>

lemma unmap_planes_defined:
  "\<forall>j \<in> set js. j < length ps \<Longrightarrow> unmap_planes env i js ps maps \<noteq> None"
  by (induction js arbitrary: ps maps) auto

lemma unmap_buffers_defined:
  "pool_ok n bs \<Longrightarrow> \<forall>i \<in> set is. i < length bs \<Longrightarrow> unmap_buffers env n is bs maps \<noteq> None"
proof (induction "is" arbitrary: bs maps)
  case (Cons i "is")
  have "\<forall>j \<in> set [0..<n]. j < length (vb_planes (bs ! i))" using Cons.prems by (simp add: pool_ok_def)
  then obtain ok ps m where p: "unmap_planes env i [0..<n] (vb_planes (bs ! i)) maps = Some (ok, ps, m)"
    using unmap_planes_defined by (metis not_None_eq prod_cases3)
  have "length ps = n" using unmap_planes_shape[OF p] Cons.prems by (simp add: pool_ok_def)
  with Cons.prems(1) have "pool_ok n (bs[i := (bs ! i)\<lparr>vb_planes := ps\<rparr>])" by (intro pool_ok_update)
  then show ?case using Cons.IH[of "bs[i := (bs ! i)\<lparr>vb_planes := ps\<rparr>]" m] Cons.prems p by (auto simp: Let_def)
qed simp

lemma unmap_planes_all:
  assumes "distinct js" "\<forall>j \<in> set js. j < length ps \<and> vp_mem (ps ! j) = MemMapped \<and> munmap_ok env i j"
  shows "\<exists>ps'. unmap_planes env i js ps maps = Some (True, ps', maps - length js)"
  using assms
proof (induction js arbitrary: ps maps)
  case (Cons j js)
  let ?ps = "ps[j := (ps ! j)\<lparr>vp_mem := MemNull, vp_size := 0\<rparr>]"
  have "\<forall>k \<in> set js. k < length ?ps \<and> vp_mem (?ps ! k) = MemMapped \<and> munmap_ok env i k"
    using Cons.prems by (auto simp: nth_list_update)
  then obtain ps' where "unmap_planes env i js ?ps (maps - 1) = Some (True, ps', maps - 1 - length js)"
    using Cons.IH[of ?ps "maps - 1"] Cons.prems(1) by auto
  then show ?case using Cons.prems(2) by simp
qed simp

lemma unmap_buffers_all:
  assumes "distinct is" "pool_ok n bs" "\<forall>i j. munmap_ok env i j"
    and "\<forall>i \<in> set is. i < length bs \<and> (\<forall>j<n. vp_mem (vb_planes (bs ! i) ! j) = MemMapped)"
  shows "\<exists>bs'. unmap_buffers env n is bs maps = Some (True, bs', maps - length is * n)"
  using assms
proof (induction "is" arbitrary: bs maps)
  case (Cons i "is")
  have i: "i < length bs" "length (vb_planes (bs ! i)) = n" using Cons.prems by (auto simp: pool_ok_def)
  then have "\<forall>j \<in> set [0..<n]. j < length (vb_planes (bs ! i)) \<and> vp_mem (vb_planes (bs ! i) ! j) = MemMapped \<and> munmap_ok env i j"
    using Cons.prems by simp
  then obtain ps where p: "unmap_planes env i [0..<n] (vb_planes (bs ! i)) maps = Some (True, ps, maps - n)"
    using unmap_planes_all[of "[0..<n]" "vb_planes (bs ! i)" env i maps] by auto
  let ?b = "bs[i := (bs ! i)\<lparr>vb_planes := ps\<rparr>]"
  have "pool_ok n ?b" using unmap_planes_shape[OF p] i Cons.prems(2) by (intro pool_ok_update) simp_all
  then obtain bs' where "unmap_buffers env n is ?b (maps - n) = Some (True, bs', maps - n - length is * n)"
    using Cons.IH[of ?b "maps - n"] Cons.prems by (fastforce simp: nth_list_update)
  then show ?case using p i by (simp add: algebra_simps)
qed simp

end
