(* ===== verification/RawFlow.thy ===== *)
theory RawFlow
  imports Prelude
begin

text \<open>
  \<open>server/raw_flow_opt.c\<close>: the ring buffer between the capture thread and the clients that fetch raw frames.
  The ring is an array of \<open>g_raw_queue_length\<close> frame buffers with a write index (\<open>head\<close>) and a read index
  (\<open>tail\<close>); the mutex makes each operation atomic. \<open>None\<close> is undefined behaviour: a signed overflow in the
  buffer size, a copy outside a buffer, a failed allocation that is used. \<open>rq_lost\<close> counts the frame buffers that are
  allocated and no longer referenced.

  The locale \<open>bounded_fifo\<close> is the contract of a queue of bounded capacity; the ring buffer is an
  interpretation of it.
\<close>

section \<open>State\<close>

record raw_node =
  rn_width :: int
  rn_height :: int
  rn_format :: int
  rn_planes :: int
  rn_stride :: "int list"
  rn_length :: int
  rn_buffer :: "byte list"

record raw_queue =
  rq_nodes :: "raw_node list"
  rq_length :: nat
  rq_head :: nat
  rq_tail :: nat
  rq_lost :: nat

datatype raw_flow_err =
    ERR_RAW_FLOW_NONE
  | ERR_RAW_FLOW_INVALID_PARAMS
  | ERR_RAW_FLOW_EXIT
  | ERR_RAW_FLOW_NOT_INIT
  | ERR_RAW_FLOW_FORMAT
  | ERR_RAW_FLOW_QUEUE_FULL
  | ERR_RAW_FLOW_QUEUE_EMPTY

text \<open>The four 8-bit Bayer formats (\<open>V4L2_PIX_FMT_SBGGR8\<close>, \<open>SGBRG8\<close>, \<open>SGRBG8\<close>, \<open>SRGGB8\<close>).\<close>

definition raw8_formats :: "int set" where
  "raw8_formats = {0x31384142, 0x47524247, 0x47425247, 0x42474752}"

definition int_ok :: "int \<Rightarrow> bool" where
  "int_ok i \<longleftrightarrow> - (2 ^ 31) \<le> i \<and> i < 2 ^ 31"

section \<open>Operations\<close>

definition exit_raw_flow :: "raw_queue \<Rightarrow> raw_flow_err \<times> raw_queue" where
  "exit_raw_flow q =
     (if rq_length q > 0
      then (ERR_RAW_FLOW_NONE,
            q\<lparr>rq_nodes := [], rq_length := 0, rq_head := 0, rq_tail := 0, rq_lost := rq_lost q + length (rq_nodes q)\<rparr>)
      else (ERR_RAW_FLOW_NONE, q))"

definition init_raw_flow :: "bool \<Rightarrow> raw_node option \<Rightarrow> int \<Rightarrow> raw_queue \<Rightarrow> (raw_flow_err \<times> raw_queue) option" where
  "init_raw_flow malloc_ok fmt queue_length q =
     (case fmt of
        None \<Rightarrow> Some (ERR_RAW_FLOW_INVALID_PARAMS, q)
      | Some f \<Rightarrow>
          if queue_length < 0 \<or> rn_width f < 0 \<or> rn_height f < 0 then Some (ERR_RAW_FLOW_INVALID_PARAMS, q)
          else let q1 = snd (exit_raw_flow q);
                   len = (if rn_format f \<in> raw8_formats then rn_width f * rn_height f else rn_width f * rn_height f * 2)
            in if \<not> int_ok len \<or> \<not> malloc_ok then None
               else Some (ERR_RAW_FLOW_NONE, q1\<lparr>rq_length := nat queue_length,
                 rq_nodes := replicate (nat queue_length) \<lparr>rn_width = rn_width f, rn_height = rn_height f,
                   rn_format = rn_format f, rn_planes = rn_planes f, rn_stride = [0, 0, 0], rn_length = 0,
                   rn_buffer = replicate (nat len) 0\<rparr>,
                 rq_head := 0, rq_tail := 0\<rparr>))"

text \<open>The bytes of a frame are the first \<open>length\<close> bytes of its buffer.\<close>

definition node_bytes :: "raw_node \<Rightarrow> byte list" where
  "node_bytes n = take (nat (rn_length n)) (rn_buffer n)"

text \<open>The loop that writes a full queue to a file: what is written, oldest frame first.\<close>

function save_all :: "raw_node list \<Rightarrow> nat \<Rightarrow> nat \<Rightarrow> nat \<Rightarrow> byte list list" where
  "save_all nodes L tail head =
     (if tail = head \<or> L = 0 \<or> \<not> head < L \<or> \<not> tail < L then []
      else node_bytes (nodes ! tail) # save_all nodes L ((tail + 1) mod L) head)"
  by pat_completeness auto
termination
proof (relation "measure (\<lambda>(nodes, L, tail, head). (head + L - tail) mod L)", goal_cases)
  case (2 nodes L tail head)
  then have l: "tail \<noteq> head" "head < L" "tail < L" by auto
  show ?case
  proof (cases "tail < head")
    case True
    then have "(head + L - tail) mod L = head - tail" "(head + L - (tail + 1) mod L) mod L = head - (tail + 1)"
      using l by (simp_all add: mod_if)
    then show ?thesis using True by simp
  next
    case False
    then have a: "(head + L - tail) mod L = head + L - tail" using l by simp
    have "(head + L - (tail + 1) mod L) mod L < head + L - tail"
    proof (cases "tail + 1 = L")
      case True
      then show ?thesis using l by simp
    next
      case F: False
      then show ?thesis using l False by simp
    qed
    then show ?thesis using a by simp
  qed
qed simp

declare save_all.simps [simp del]

definition queue_raw_flow :: "bool \<Rightarrow> raw_node option \<Rightarrow> raw_queue \<Rightarrow>
  (raw_flow_err \<times> byte list list \<times> raw_queue) option" where
  "queue_raw_flow fopen_ok node q =
     (case node of
        None \<Rightarrow> Some (ERR_RAW_FLOW_INVALID_PARAMS, [], q)
      | Some n \<Rightarrow>
          if rq_length q > 0 then
            (let hn = rq_nodes q ! rq_head q in
             if rn_width hn \<noteq> rn_width n \<or> rn_height hn \<noteq> rn_height n \<or> rn_format hn \<noteq> rn_format n
             then Some (ERR_RAW_FLOW_FORMAT, [], q)
             else let head = (rq_head q + 1) mod rq_length q in
               if head = rq_tail q then
                 (if fopen_ok
                  then Some (ERR_RAW_FLOW_QUEUE_FULL, save_all (rq_nodes q) (rq_length q) (rq_tail q) (rq_head q),
                             q\<lparr>rq_tail := rq_head q\<rparr>)
                  else Some (ERR_RAW_FLOW_QUEUE_FULL, [], q))
               else if rn_length n < 0 \<or> nat (rn_length n) > length (rn_buffer n) \<or> nat (rn_length n) > length (rn_buffer hn)
                 then None
                 else Some (ERR_RAW_FLOW_NONE, [],
                   q\<lparr>rq_nodes := (rq_nodes q)[rq_head q := hn\<lparr>rn_planes := rn_planes n, rn_length := rn_length n,
                        rn_stride := rn_stride n, rn_buffer := overlay (rn_buffer hn) (node_bytes n)\<rparr>],
                      rq_head := head\<rparr>))
          else Some (ERR_RAW_FLOW_NOT_INIT, [], q))"

definition dequeue_raw_flow :: "raw_node option \<Rightarrow> raw_queue \<Rightarrow>
  (raw_flow_err \<times> raw_node option \<times> raw_queue) option" where
  "dequeue_raw_flow node q =
     (if rq_length q > 0 then
        (let tn = rq_nodes q ! rq_tail q in
         if rq_tail q = rq_head q then Some (ERR_RAW_FLOW_QUEUE_EMPTY, node, q)
         else let q1 = q\<lparr>rq_tail := (rq_tail q + 1) mod rq_length q\<rparr> in
           (case node of
              None \<Rightarrow> Some (ERR_RAW_FLOW_NONE, None, q1)
            | Some n \<Rightarrow>
                if nat (rn_length tn) > length (rn_buffer n) then None
                else Some (ERR_RAW_FLOW_NONE, Some (n\<lparr>rn_width := rn_width tn, rn_height := rn_height tn,
                       rn_format := rn_format tn, rn_planes := rn_planes tn, rn_stride := rn_stride tn,
                       rn_length := rn_length tn, rn_buffer := overlay (rn_buffer n) (node_bytes tn)\<rparr>), q1)))
      else Some (ERR_RAW_FLOW_NOT_INIT, node, q))"

section \<open>Positions in the ring\<close>

definition ring_count :: "nat \<Rightarrow> nat \<Rightarrow> nat \<Rightarrow> nat" where
  "ring_count L tail head = (head + L - tail) mod L"

lemma ring_count_head:
  assumes "head < L" "tail < L"
  shows "ring_count L tail head < L" "(tail + ring_count L tail head) mod L = head"
  using assms by (auto simp: ring_count_def mod_if not_less)

lemma mod_ring: "x < 2 * L \<Longrightarrow> x mod L = (if x < L then x else x - L)" for x L :: nat
  by (simp add: le_mod_geq not_less)

lemma ring_pos_inj:
  assumes "c < L" "c' < L" "tail < L" "(tail + c) mod L = (tail + c') mod L"
  shows "c = (c' :: nat)"
  using assms mod_ring [of "tail + c" L] mod_ring [of "tail + c'" L] by (auto split: if_splits)

lemma ring_count_unique:
  assumes "tail < L" "c < L"
  shows "ring_count L tail ((tail + c) mod L) = c"
proof -
  have "(tail + c) mod L < L" using assms by simp
  from ring_count_head [OF this assms(1)] show ?thesis
    using ring_pos_inj [OF _ assms(2,1)] by blast
qed

lemma ring_count_zero: "head < L \<Longrightarrow> tail < L \<Longrightarrow> ring_count L tail head = 0 \<longleftrightarrow> tail = head"
  using ring_count_head [of head L tail] ring_count_unique [of tail L 0] by auto

lemma ring_enq_count:
  assumes "head < L" "tail < L" "(head + 1) mod L \<noteq> tail"
  shows "ring_count L tail ((head + 1) mod L) = Suc (ring_count L tail head)" "Suc (ring_count L tail head) < L"
proof -
  let ?c = "ring_count L tail head"
  have h: "(tail + Suc ?c) mod L = (head + 1) mod L"
    using ring_count_head(2) [OF assms(1,2)] by (metis Suc_eq_plus1 add_Suc_right mod_add_left_eq)
  have "Suc ?c \<noteq> L"
  proof
    assume "Suc ?c = L"
    then have "(head + 1) mod L = tail" using h assms(2) by simp
    with assms(3) show False ..
  qed
  then show l: "Suc ?c < L" using ring_count_head(1) [OF assms(1,2)] by simp
  show "ring_count L tail ((head + 1) mod L) = Suc ?c"
    using ring_count_unique [OF assms(2) l] h by simp
qed

lemma ring_full:
  assumes "head < L" "tail < L"
  shows "(head + 1) mod L = tail \<longleftrightarrow> Suc (ring_count L tail head) = L"
proof
  assume "(head + 1) mod L = tail"
  moreover have "(tail + ring_count L tail head + 1) mod L = (head + 1) mod L"
    using ring_count_head(2) [OF assms] by (metis mod_add_left_eq)
  ultimately have e: "(tail + (ring_count L tail head + 1)) mod L = tail mod L" using assms(2) by (simp add: add.assoc)
  show "Suc (ring_count L tail head) = L"
  proof (rule ccontr)
    assume "Suc (ring_count L tail head) \<noteq> L"
    then have "Suc (ring_count L tail head) < L" using ring_count_head(1) [OF assms] by simp
    then show False using ring_pos_inj [of "ring_count L tail head + 1" L 0 tail] e assms by simp
  qed
qed (use ring_enq_count(2) [OF assms] in fastforce)

lemma ring_deq_count:
  assumes "head < L" "tail < L" "tail \<noteq> head"
  shows "ring_count L tail head = Suc (ring_count L ((tail + 1) mod L) head)"
proof -
  let ?c = "ring_count L tail head"
  have c: "?c \<noteq> 0" "?c < L" using ring_count_zero [OF assms(1,2)] ring_count_head(1) [OF assms(1,2)] assms(3) by auto
  have "((tail + 1) mod L + (?c - 1)) mod L = (tail + ?c) mod L"
  proof -
    have "tail + 1 + (?c - 1) = tail + ?c" using c by simp
    then show ?thesis by (metis mod_add_left_eq)
  qed
  then have "((tail + 1) mod L + (?c - 1)) mod L = head" using ring_count_head(2) [OF assms(1,2)] by simp
  then have "ring_count L ((tail + 1) mod L) head = ?c - 1"
    using ring_count_unique [of "(tail + 1) mod L" L "?c - 1"] c assms(1) by auto
  then show ?thesis using c by simp
qed

definition ring_items :: "'a list \<Rightarrow> nat \<Rightarrow> nat \<Rightarrow> nat \<Rightarrow> 'a list" where
  "ring_items xs L tail head = map (\<lambda>i. xs ! ((tail + i) mod L)) [0..<ring_count L tail head]"

lemma length_ring_items [simp]: "length (ring_items xs L tail head) = ring_count L tail head"
  by (simp add: ring_items_def)

lemma ring_items_enq:
  assumes "head < L" "tail < L" "(head + 1) mod L \<noteq> tail" "length xs = L"
  shows "ring_items (xs[head := x]) L tail ((head + 1) mod L) = ring_items xs L tail head @ [x]"
proof -
  let ?c = "ring_count L tail head"
  have "(tail + i) mod L \<noteq> head" if "i < ?c" for i
    using that ring_pos_inj [of i L ?c tail] ring_count_head [OF assms(1,2)] assms by auto
  then have "map (\<lambda>i. xs[head := x] ! ((tail + i) mod L)) [0..<?c] = ring_items xs L tail head"
    unfolding ring_items_def by (intro map_cong refl) (metis atLeastLessThan_iff nth_list_update_neq set_upt)
  moreover have "xs[head := x] ! ((tail + ?c) mod L) = x"
    using ring_count_head(2) [OF assms(1,2)] assms(1,4) by simp
  ultimately show ?thesis
    using ring_enq_count [OF assms(1-3)] by (simp add: ring_items_def)
qed

lemma ring_items_deq:
  assumes "head < L" "tail < L" "tail \<noteq> head"
  shows "ring_items xs L tail head = xs ! tail # ring_items xs L ((tail + 1) mod L) head"
proof -
  have "(((tail + 1) mod L) + i) mod L = (tail + Suc i) mod L" for i
    by (simp add: mod_add_left_eq)
  then show ?thesis
    using ring_deq_count [OF assms] assms(2)
    by (simp add: ring_items_def upt_conv_Cons map_Suc_upt [symmetric] del: upt_Suc)
qed

lemma save_all_items:
  "head < L \<Longrightarrow> tail < L \<Longrightarrow> save_all nodes L tail head = map node_bytes (ring_items nodes L tail head)"
proof (induction nodes L tail head rule: save_all.induct)
  case (1 nodes L tail head)
  show ?case
  proof (cases "tail = head")
    case True
    then show ?thesis using 1 by (subst save_all.simps) (simp add: ring_items_def ring_count_zero)
  next
    case False
    then show ?thesis using 1 by (subst save_all.simps) (simp add: ring_items_deq)
  qed
qed

section \<open>The contract of a bounded queue\<close>

fun enq_all :: "('a \<Rightarrow> 's \<Rightarrow> 's option) \<Rightarrow> 'a list \<Rightarrow> 's \<Rightarrow> 's option" where
  "enq_all enq [] s = Some s"
| "enq_all enq (x # xs) s = Option.bind (enq x s) (enq_all enq xs)"

fun deq_all :: "('s \<Rightarrow> ('b \<times> 's) option) \<Rightarrow> nat \<Rightarrow> 's \<Rightarrow> ('b list \<times> 's) option" where
  "deq_all deq 0 s = Some ([], s)"
| "deq_all deq (Suc n) s =
     Option.bind (deq s) (\<lambda>(x, s1). Option.bind (deq_all deq n s1) (\<lambda>(xs, s2). Some (x # xs, s2)))"

locale bounded_fifo =
  fixes enq :: "'a \<Rightarrow> 's \<Rightarrow> 's option" and deq :: "'s \<Rightarrow> ('b \<times> 's) option"
    and items :: "'s \<Rightarrow> 'b list" and view :: "'a \<Rightarrow> 'b" and cap :: "'s \<Rightarrow> nat"
    and inv :: "'s \<Rightarrow> bool" and good :: "'s \<Rightarrow> 'a \<Rightarrow> bool"
  assumes enq_ok: "inv s \<Longrightarrow> good s x \<Longrightarrow> length (items s) < cap s \<Longrightarrow>
      \<exists>s'. enq x s = Some s' \<and> inv s' \<and> items s' = items s @ [view x] \<and> cap s' = cap s \<and> good s' = good s"
    and deq_ok: "inv s \<Longrightarrow> items s = y # ys \<Longrightarrow>
      \<exists>s'. deq s = Some (y, s') \<and> inv s' \<and> items s' = ys \<and> cap s' = cap s \<and> good s' = good s"
    and deq_empty: "inv s \<Longrightarrow> items s = [] \<Longrightarrow> deq s = None"
    and enq_full: "inv s \<Longrightarrow> good s x \<Longrightarrow> length (items s) = cap s \<Longrightarrow> enq x s = None"
begin

lemma enq_all_items:
  "inv s \<Longrightarrow> \<forall>x \<in> set xs. good s x \<Longrightarrow> length (items s) + length xs \<le> cap s \<Longrightarrow>
   \<exists>s'. enq_all enq xs s = Some s' \<and> inv s' \<and> items s' = items s @ map view xs \<and> cap s' = cap s \<and> good s' = good s"
proof (induction xs arbitrary: s)
  case (Cons x xs)
  obtain s1 where s1: "enq x s = Some s1" "inv s1" "items s1 = items s @ [view x]" "cap s1 = cap s" "good s1 = good s"
    using enq_ok [of s x] Cons.prems by auto
  have "\<forall>x \<in> set xs. good s1 x" "length (items s1) + length xs \<le> cap s1" using Cons.prems s1 by simp_all
  from Cons.IH [OF s1(2) this] s1 show ?case by auto
qed simp

lemma deq_all_items:
  "inv s \<Longrightarrow> n \<le> length (items s) \<Longrightarrow>
   \<exists>s'. deq_all deq n s = Some (take n (items s), s') \<and> inv s' \<and> items s' = drop n (items s)"
proof (induction n arbitrary: s)
  case (Suc n)
  then obtain y ys where y: "items s = y # ys" by (cases "items s") auto
  obtain s1 where s1: "deq s = Some (y, s1)" "inv s1" "items s1 = ys" using deq_ok [OF Suc.prems(1) y] by auto
  have "n \<le> length (items s1)" using Suc.prems(2) y s1 by simp
  from Suc.IH [OF s1(2) this] s1 y show ?case by auto
qed simp

text \<open>What goes in comes out in order, and no more than the capacity is ever inside.\<close>

lemma fifo_order:
  assumes "inv s" "items s = []" "\<forall>x \<in> set xs. good s x" "length xs \<le> cap s"
  shows "\<exists>s1 s2. enq_all enq xs s = Some s1 \<and> deq_all deq (length xs) s1 = Some (map view xs, s2) \<and>
    deq s2 = None \<and> (length xs = cap s \<longrightarrow> (\<forall>x. good s x \<longrightarrow> enq x s1 = None))"
proof -
  obtain s1 where s1: "enq_all enq xs s = Some s1" "inv s1" "items s1 = map view xs" "cap s1 = cap s" "good s1 = good s"
    using enq_all_items [OF assms(1,3)] assms(2,4) by auto
  obtain s2 where s2: "deq_all deq (length xs) s1 = Some (map view xs, s2)" "inv s2" "items s2 = []"
    using deq_all_items [OF s1(2), of "length xs"] s1(3) by auto
  show ?thesis using s1 s2 deq_empty enq_full by auto
qed

end

section \<open>The ring buffer meets the contract\<close>

type_synonym frame = "int \<times> int list \<times> byte list"

definition frame_of :: "raw_node \<Rightarrow> frame" where
  "frame_of n = (rn_planes n, rn_stride n, node_bytes n)"

definition queue_frames :: "raw_queue \<Rightarrow> frame list" where
  "queue_frames q = map frame_of (ring_items (rq_nodes q) (rq_length q) (rq_tail q) (rq_head q))"

definition same_format :: "raw_node \<Rightarrow> raw_node \<Rightarrow> bool" where
  "same_format a b \<longleftrightarrow> rn_width a = rn_width b \<and> rn_height a = rn_height b \<and> rn_format a = rn_format b"

text \<open>Every node of a queue has the format and the buffer size the queue was set up with.\<close>

definition node_like :: "raw_node \<Rightarrow> raw_node \<Rightarrow> bool" where
  "node_like a n \<longleftrightarrow> same_format n a \<and> length (rn_buffer n) = length (rn_buffer a) \<and>
     0 \<le> rn_length n \<and> nat (rn_length n) \<le> length (rn_buffer n)"

definition queue_inv :: "raw_queue \<Rightarrow> bool" where
  "queue_inv q \<longleftrightarrow> 0 < rq_length q \<and> length (rq_nodes q) = rq_length q \<and> rq_head q < rq_length q \<and> rq_tail q < rq_length q \<and>
     list_all (node_like (rq_nodes q ! 0)) (rq_nodes q)"

definition frame_fits :: "raw_queue \<Rightarrow> raw_node \<Rightarrow> bool" where
  "frame_fits q n \<longleftrightarrow> same_format n (rq_nodes q ! 0) \<and> 0 \<le> rn_length n \<and> nat (rn_length n) \<le> length (rn_buffer n) \<and>
     nat (rn_length n) \<le> length (rn_buffer (rq_nodes q ! 0))"

lemma inv_node: "queue_inv q \<Longrightarrow> i < rq_length q \<Longrightarrow> node_like (rq_nodes q ! 0) (rq_nodes q ! i)"
  by (simp add: queue_inv_def list_all_length)

lemma inv_head:
  assumes "queue_inv q" "i < rq_length q"
  shows "same_format (rq_nodes q ! i) (rq_nodes q ! 0)" "length (rn_buffer (rq_nodes q ! i)) = length (rn_buffer (rq_nodes q ! 0))"
    "nat (rn_length (rq_nodes q ! i)) \<le> length (rn_buffer (rq_nodes q ! i))"
  using inv_node [OF assms] unfolding node_like_def by blast+

lemma stored_bytes:
  "0 \<le> rn_length n \<Longrightarrow> nat (rn_length n) \<le> length (rn_buffer n) \<Longrightarrow>
   take (nat (rn_length n)) (overlay b (node_bytes n)) = node_bytes n"
  by (simp add: node_bytes_def overlay_def)

lemma node_like_cong:
  "node_like a b \<Longrightarrow> node_like b n = node_like a n" "node_like a b \<Longrightarrow> same_format n b = same_format n a"
  "node_like a b \<Longrightarrow> length (rn_buffer b) = length (rn_buffer a)"
  by (auto simp: node_like_def same_format_def)

lemma node_update_inv:
  assumes "queue_inv q" "i < rq_length q" "node_like (rq_nodes q ! 0) m" "h < rq_length q"
  shows "queue_inv (q\<lparr>rq_nodes := (rq_nodes q)[i := m], rq_head := h\<rparr>)"
    "frame_fits (q\<lparr>rq_nodes := (rq_nodes q)[i := m], rq_head := h\<rparr>) = frame_fits q"
proof -
  have z: "node_like (rq_nodes q ! 0) ((rq_nodes q)[i := m] ! 0)"
    using assms(1,2,3) inv_node [OF assms(1), of 0] by (cases "i = 0") (simp_all add: queue_inv_def)
  then show "frame_fits (q\<lparr>rq_nodes := (rq_nodes q)[i := m], rq_head := h\<rparr>) = frame_fits q"
    by (intro ext) (simp add: frame_fits_def node_like_cong(2) [OF z] node_like_cong(3) [OF z])
  have "list_all (node_like (rq_nodes q ! 0)) ((rq_nodes q)[i := m])"
    using assms(1,3) set_update_subset_insert [of "rq_nodes q" i m]
    by (auto simp: queue_inv_def list_all_iff)
  then show "queue_inv (q\<lparr>rq_nodes := (rq_nodes q)[i := m], rq_head := h\<rparr>)"
    using assms(1,4) node_like_cong(1) [OF z] by (simp add: queue_inv_def list_all_iff)
qed

lemma queue_stores:
  assumes "queue_inv q" "frame_fits q n" "Suc (length (queue_frames q)) < rq_length q"
  obtains q' where "queue_raw_flow fopen_ok (Some n) q = Some (ERR_RAW_FLOW_NONE, [], q')" "queue_inv q'"
    "queue_frames q' = queue_frames q @ [frame_of n]" "rq_length q' = rq_length q" "frame_fits q' = frame_fits q"
proof -
  let ?L = "rq_length q" let ?hn = "rq_nodes q ! rq_head q"
  let ?m = "?hn\<lparr>rn_planes := rn_planes n, rn_length := rn_length n, rn_stride := rn_stride n,
    rn_buffer := overlay (rn_buffer ?hn) (node_bytes n)\<rparr>"
  let ?h = "(rq_head q + 1) mod ?L"
  let ?q = "q\<lparr>rq_nodes := (rq_nodes q)[rq_head q := ?m], rq_head := ?h\<rparr>"
  have i: "rq_head q < ?L" "rq_tail q < ?L" "length (rq_nodes q) = ?L" using assms(1) by (simp_all add: queue_inv_def)
  have nf: "?h \<noteq> rq_tail q"
    using ring_full [OF i(1,2)] assms(3) by (simp add: queue_frames_def)
  note hn = inv_head [OF assms(1) i(1)]
  have fit: "nat (rn_length n) \<le> length (rn_buffer ?hn)" "0 \<le> rn_length n" "nat (rn_length n) \<le> length (rn_buffer n)"
    "same_format n (rq_nodes q ! 0)"
    using assms(2) hn(2) by (simp_all add: frame_fits_def)
  have lb: "length (overlay (rn_buffer ?hn) (node_bytes n)) = length (rn_buffer ?hn)"
    using fit by (intro length_overlay) (simp add: node_bytes_def)
  have like: "node_like (rq_nodes q ! 0) ?m"
    using inv_node [OF assms(1) i(1)] fit lb by (auto simp: node_like_def same_format_def)
  have "queue_raw_flow fopen_ok (Some n) q = Some (ERR_RAW_FLOW_NONE, [], ?q)"
    using nf fit hn(1) i(1) by (auto simp: queue_raw_flow_def same_format_def Let_def)
  moreover have "queue_inv ?q" "frame_fits ?q = frame_fits q"
    using node_update_inv [OF assms(1) i(1), of ?m ?h] like i(1) by auto
  moreover have "frame_of ?m = frame_of n"
    using stored_bytes [OF fit(2,3), of "rn_buffer ?hn"] by (simp add: frame_of_def node_bytes_def)
  then have "queue_frames ?q = queue_frames q @ [frame_of n]"
    using ring_items_enq [OF i(1,2) nf i(3), of ?m] by (simp add: queue_frames_def)
  ultimately show ?thesis using that [of ?q] by simp
qed

lemma queue_refuses:
  assumes "queue_inv q" "frame_fits q n" "Suc (length (queue_frames q)) = rq_length q"
  shows "queue_raw_flow fopen_ok (Some n) q =
    (if fopen_ok then Some (ERR_RAW_FLOW_QUEUE_FULL, map (snd \<circ> snd) (queue_frames q), q\<lparr>rq_tail := rq_head q\<rparr>)
     else Some (ERR_RAW_FLOW_QUEUE_FULL, [], q))"
proof -
  have i: "rq_head q < rq_length q" "rq_tail q < rq_length q" using assms(1) by (simp_all add: queue_inv_def)
  have full: "(rq_head q + 1) mod rq_length q = rq_tail q"
    using ring_full [OF i] assms(3) by (simp add: queue_frames_def)
  have "map (snd \<circ> snd) (queue_frames q) = save_all (rq_nodes q) (rq_length q) (rq_tail q) (rq_head q)"
    using save_all_items [OF i] by (simp add: queue_frames_def frame_of_def comp_def)
  then show ?thesis
    using full assms(2) inv_head(1) [OF assms(1) i(1)] i
    by (auto simp: queue_raw_flow_def frame_fits_def same_format_def Let_def)
qed

text \<open>A client that passes a buffer of its own, as large as the frame buffers of the queue.\<close>

definition take_frame :: "raw_queue \<Rightarrow> (frame \<times> raw_queue) option" where
  "take_frame q =
     (let dst = (rq_nodes q ! 0)\<lparr>rn_buffer := replicate (length (rn_buffer (rq_nodes q ! 0))) 0\<rparr> in
      case dequeue_raw_flow (Some dst) q of
        Some (ERR_RAW_FLOW_NONE, Some n, q') \<Rightarrow> Some (frame_of n, q')
      | _ \<Rightarrow> None)"

definition put_frame :: "raw_node \<Rightarrow> raw_queue \<Rightarrow> raw_queue option" where
  "put_frame n q =
     (case queue_raw_flow False (Some n) q of Some (ERR_RAW_FLOW_NONE, _, q') \<Rightarrow> Some q' | _ \<Rightarrow> None)"

lemma take_frame_first:
  assumes "queue_inv q" "queue_frames q = y # ys"
  shows "\<exists>q'. take_frame q = Some (y, q') \<and> queue_inv q' \<and> queue_frames q' = ys \<and>
    rq_length q' - 1 = rq_length q - 1 \<and> frame_fits q' = frame_fits q"
proof -
  have i: "rq_head q < rq_length q" "rq_tail q < rq_length q" using assms(1) by (simp_all add: queue_inv_def)
  have ne: "rq_tail q \<noteq> rq_head q"
    using assms(2) ring_count_zero [OF i] by (auto simp: queue_frames_def ring_items_def)
  let ?q = "q\<lparr>rq_tail := (rq_tail q + 1) mod rq_length q\<rparr>"
  let ?tn = "rq_nodes q ! rq_tail q"
  have y: "frame_of ?tn = y" "queue_frames ?q = ys"
    using assms(2) ring_items_deq [OF i ne, of "rq_nodes q"] by (simp_all add: queue_frames_def)
  note tn = inv_head [OF assms(1) i(2)]
  have len: "nat (rn_length ?tn) \<le> length (rn_buffer (rq_nodes q ! 0))" using tn(2,3) by linarith
  have "take_frame q = Some (frame_of ?tn, ?q)"
    using ne i len tn(3)
    by (simp add: take_frame_def dequeue_raw_flow_def frame_of_def node_bytes_def overlay_def Let_def)
  moreover have "queue_inv ?q" using assms(1) i by (simp add: queue_inv_def)
  moreover have "frame_fits ?q = frame_fits q" by (intro ext) (simp add: frame_fits_def)
  ultimately show ?thesis using y by simp
qed

lemma take_frame_empty:
  "queue_inv q \<Longrightarrow> queue_frames q = [] \<Longrightarrow> take_frame q = None"
  using ring_count_zero [of "rq_head q" "rq_length q" "rq_tail q"]
  by (auto simp: queue_inv_def queue_frames_def ring_items_def take_frame_def dequeue_raw_flow_def Let_def)

lemma put_frame_ok:
  assumes "queue_inv q" "frame_fits q n" "length (queue_frames q) < rq_length q - 1"
  shows "\<exists>q'. put_frame n q = Some q' \<and> queue_inv q' \<and> queue_frames q' = queue_frames q @ [frame_of n] \<and>
    rq_length q' - 1 = rq_length q - 1 \<and> frame_fits q' = frame_fits q"
proof -
  have "Suc (length (queue_frames q)) < rq_length q" using assms(3) by simp
  then obtain q' where "queue_raw_flow False (Some n) q = Some (ERR_RAW_FLOW_NONE, [], q')" "queue_inv q'"
    "queue_frames q' = queue_frames q @ [frame_of n]" "rq_length q' = rq_length q" "frame_fits q' = frame_fits q"
    using queue_stores [OF assms(1,2)] by blast
  then show ?thesis by (simp add: put_frame_def)
qed

lemma put_frame_full:
  assumes "queue_inv q" "frame_fits q n" "length (queue_frames q) = rq_length q - 1"
  shows "put_frame n q = None"
proof -
  have "Suc (length (queue_frames q)) = rq_length q" using assms(1,3) by (simp add: queue_inv_def)
  from queue_refuses [OF assms(1,2) this, of False] show ?thesis by (simp add: put_frame_def)
qed

interpretation raw: bounded_fifo put_frame take_frame queue_frames frame_of "\<lambda>q. rq_length q - 1" queue_inv frame_fits
  by unfold_locales (fact put_frame_ok take_frame_first take_frame_empty put_frame_full)+

section \<open>Properties\<close>

lemma init_queue:
  assumes "init_raw_flow True (Some f) L q = Some (ERR_RAW_FLOW_NONE, q0)" "0 < L"
  shows "queue_inv q0 \<and> queue_frames q0 = [] \<and> rq_length q0 = nat L"
proof -
  from assms obtain len where q0: "rq_length q0 = nat L" "rq_head q0 = 0" "rq_tail q0 = 0"
    "rq_nodes q0 = replicate (nat L) \<lparr>rn_width = rn_width f, rn_height = rn_height f, rn_format = rn_format f,
       rn_planes = rn_planes f, rn_stride = [0, 0, 0], rn_length = 0, rn_buffer = replicate len 0\<rparr>"
    by (auto simp: init_raw_flow_def Let_def split: if_splits)
  have L: "0 < nat L" using assms(2) by simp
  then have "ring_count (nat L) 0 0 = 0" by (simp add: ring_count_def)
  then show ?thesis
    using q0 L by (simp add: queue_inv_def queue_frames_def ring_items_def list_all_iff node_like_def same_format_def)
qed


definition demo_format :: raw_node where
  "demo_format = \<lparr>rn_width = 2, rn_height = 1, rn_format = 0x31384142, rn_planes = 1, rn_stride = [2, 0, 0],
     rn_length = 2, rn_buffer = [7, 8]\<rparr>"


text \<open>
  A frame that meets a full queue is dropped: \<open>queue_raw_flow\<close> returns \<open>ERR_RAW_FLOW_QUEUE_FULL\<close>
  and, when the dump file can be opened, writes the frames of the queue to it, oldest first, and empties the
  queue; otherwise nothing changes. The new frame is neither written nor queued.
\<close>

theorem full_queue_dumped:
  assumes "queue_inv q" "frame_fits q n" "Suc (length (queue_frames q)) = rq_length q"
  shows "\<exists>q'. queue_raw_flow True (Some n) q = Some (ERR_RAW_FLOW_QUEUE_FULL, map (snd \<circ> snd) (queue_frames q), q') \<and>
      queue_inv q' \<and> queue_frames q' = [] \<and>
      queue_raw_flow False (Some n) q = Some (ERR_RAW_FLOW_QUEUE_FULL, [], q)"
proof -
  have "ring_count (rq_length q) (rq_head q) (rq_head q) = 0" using assms(1) by (simp add: queue_inv_def ring_count_zero)
  then show ?thesis
    using queue_refuses [OF assms] assms(1) by (simp add: queue_inv_def queue_frames_def ring_items_def)
qed

theorem full_queue_dumped_witness:
  "\<exists>q'. queue_raw_flow True (Some demo_format)
     \<lparr>rq_nodes = [demo_format, demo_format], rq_length = 2, rq_head = 1, rq_tail = 0, rq_lost = 0\<rparr> =
     Some (ERR_RAW_FLOW_QUEUE_FULL, [[7, 8]], q') \<and> queue_frames q' = []"
proof -
  let ?q = "\<lparr>rq_nodes = [demo_format, demo_format], rq_length = 2, rq_head = 1, rq_tail = 0, rq_lost = 0\<rparr>"
  have f: "queue_frames ?q = [(1, [2, 0, 0], [7, 8])]"
    by (simp add: queue_frames_def ring_items_def ring_count_def frame_of_def node_bytes_def demo_format_def)
  have "queue_inv ?q" "frame_fits ?q demo_format"
    by (simp_all add: queue_inv_def frame_fits_def node_like_def same_format_def demo_format_def)
  from full_queue_dumped [OF this] f show ?thesis by auto
qed

text \<open>
  The other branches of \<open>queue_raw_flow\<close>: a missing frame, a queue that is not set up and a frame of
  another size or format are refused with their error code and change nothing; a frame of the agreed
  format whose length exceeds the frame buffers of the queue is copied past the end of one.
\<close>

theorem queue_error_branches:
  assumes "queue_inv q"
  shows "queue_raw_flow fo None q = Some (ERR_RAW_FLOW_INVALID_PARAMS, [], q) \<and>
    queue_raw_flow fo (Some n) (q\<lparr>rq_length := 0\<rparr>) = Some (ERR_RAW_FLOW_NOT_INIT, [], q\<lparr>rq_length := 0\<rparr>) \<and>
    (\<not> same_format n (rq_nodes q ! 0) \<longrightarrow> queue_raw_flow fo (Some n) q = Some (ERR_RAW_FLOW_FORMAT, [], q)) \<and>
    (same_format n (rq_nodes q ! 0) \<and> Suc (length (queue_frames q)) < rq_length q \<and>
       nat (rn_length n) > length (rn_buffer (rq_nodes q ! 0)) \<longrightarrow> queue_raw_flow fo (Some n) q = None)"
proof -
  have i: "rq_head q < rq_length q" "rq_tail q < rq_length q" using assms by (simp_all add: queue_inv_def)
  note hn = inv_head [OF assms i(1)]
  have fmt: "same_format n (rq_nodes q ! rq_head q) = same_format n (rq_nodes q ! 0)"
    using hn(1) by (auto simp: same_format_def)
  have nf: "Suc (length (queue_frames q)) < rq_length q \<Longrightarrow> (rq_head q + 1) mod rq_length q \<noteq> rq_tail q"
    using ring_full [OF i] by (simp add: queue_frames_def)
  show ?thesis
  proof (intro conjI impI)
    assume "\<not> same_format n (rq_nodes q ! 0)"
    then have "\<not> same_format n (rq_nodes q ! rq_head q)" using fmt by simp
    then show "queue_raw_flow fo (Some n) q = Some (ERR_RAW_FLOW_FORMAT, [], q)"
      using i(1) by (auto simp: queue_raw_flow_def same_format_def Let_def)
  next
    assume a: "same_format n (rq_nodes q ! 0) \<and> Suc (length (queue_frames q)) < rq_length q \<and>
      nat (rn_length n) > length (rn_buffer (rq_nodes q ! 0))"
    then have "same_format n (rq_nodes q ! rq_head q)" "nat (rn_length n) > length (rn_buffer (rq_nodes q ! rq_head q))"
      using fmt hn(2) by simp_all
    then show "queue_raw_flow fo (Some n) q = None"
      using nf a i(1) by (auto simp: queue_raw_flow_def same_format_def Let_def)
  qed (simp_all add: queue_raw_flow_def)
qed

theorem queue_error_branches_witness:
  "queue_raw_flow True (Some (demo_format\<lparr>rn_width := 9\<rparr>))
     \<lparr>rq_nodes = [demo_format, demo_format], rq_length = 2, rq_head = 0, rq_tail = 0, rq_lost = 0\<rparr> =
   Some (ERR_RAW_FLOW_FORMAT, [], \<lparr>rq_nodes = [demo_format, demo_format], rq_length = 2, rq_head = 0, rq_tail = 0, rq_lost = 0\<rparr>)"
proof -
  have "queue_inv \<lparr>rq_nodes = [demo_format, demo_format], rq_length = 2, rq_head = 0, rq_tail = 0, rq_lost = 0\<rparr>"
    by (simp add: queue_inv_def node_like_def same_format_def demo_format_def)
  from queue_error_branches [OF this, of True "demo_format\<lparr>rn_width := 9\<rparr>"] show ?thesis
    by (simp add: same_format_def demo_format_def)
qed

end
