(* ===== verification/CaptureImage.thy ===== *)
theory CaptureImage
  imports VideoDevice RawFlow
begin

text \<open>
  \<open>server/capture_image.c\<close>: the video channels of the tuning server. Each channel has a status word, a video node
  (\<open>VideoDevice\<close>) and a frame thread that the thread pool runs; the clients of the module are serialised by
  \<open>g_cap_locker\<close>, which a call keeps while it waits for the frame thread. A step of the module is one critical section
  of a channel's lock: of the client that holds \<open>g_cap_locker\<close>, or of a frame thread.

  The status word is the set of its flags. \<open>priv_cap.vich\<close> is the index of the channel (it is stored before the
  channel is used) and \<open>priv_cap.timeout\<close> a constant; both are left out, as is \<open>frame_count\<close>, which only
  appears in log messages. \<open>ch_threads\<close> lists the frame threads of a channel that were handed to the thread pool
  and have not ended: \<open>None\<close> before the first section, \<open>Some k\<close> after \<open>k\<close> failures in a row. The result \<open>None\<close>
  is undefined behaviour, as in \<open>VideoDevice\<close> and \<open>RawFlow\<close>.
\<close>

section \<open>State\<close>

datatype capture_error =
    CAP_ERR_NONE
  | CAP_ERR_MPI_INIT
  | CAP_ERR_CH_INIT
  | CAP_ERR_CH_SET_FMT
  | CAP_ERR_CH_GET_FMT
  | CAP_ERR_CH_ENABLE
  | CAP_ERR_GET_FRAME
  | CAP_ERR_INVALID_PARAMS
  | CAP_ERR_NOT_SET_INPUT
  | CAP_ERR_START_RAW_FLOW
  | CAP_ERR_STOP_RAW_FLOW
  | CAP_ERR_RAW_FLOW_NOT_RUN
  | CAP_ERR_GET_RAW_FLOW
  | CAP_ERR_OTHER \<comment> \<open>\<open>-1\<close>\<close>

datatype cap_flag = CAP_STATUS_ON | CAP_THREAD_RUNNING | CAP_THREAD_STOP | CAP_RAW_FLOW_RUNNING | CAP_RAW_FLOW_START

record capture_format = raw_node +
  cf_channel :: int
  cf_fps :: int
  cf_wdr :: int
  cf_framecount :: int
  cf_index :: int

record sensor_input =
  si_channel :: int
  si_width :: int
  si_height :: int
  si_fps :: int
  si_wdr :: int
  si_index :: int

text \<open>The frame a channel has dequeued: the buffer, and for each plane the address (buffer and plane) and size.\<close>

record frame_buf_info =
  fi_pool_id :: nat
  fi_vir_addr :: "(nat \<times> nat) option list"
  fi_stride :: "u32 list"
  fi_phy_addr :: "u32 list"
  fi_width :: u32
  fi_height :: u32
  fi_pixelformat :: u32
  fi_field :: u32
  fi_timestamp :: int

record channel =
  ch_vid :: vchan
  ch_fmt :: video_fmt
  ch_frame :: frame_buf_info
  ch_status :: "cap_flag set"
  ch_threads :: "nat option list"

abbreviation (input) CAPTURE_CHANNEL_MAX :: nat where "CAPTURE_CHANNEL_MAX \<equiv> 4"
abbreviation (input) CAPTURE_RAW_FLOW_QUEUE_SIZE :: int where "CAPTURE_RAW_FLOW_QUEUE_SIZE \<equiv> 201"

definition VALID_VIDEO_SEL :: "int \<Rightarrow> bool" where
  "VALID_VIDEO_SEL i \<longleftrightarrow> i \<ge> 0 \<and> i < int CAPTURE_CHANNEL_MAX"

definition zero_frame :: frame_buf_info where
  "zero_frame = \<lparr>fi_pool_id = 0, fi_vir_addr = [None, None, None], fi_stride = [0, 0, 0], fi_phy_addr = [0, 0, 0],
     fi_width = 0, fi_height = 0, fi_pixelformat = 0, fi_field = 0, fi_timestamp = 0\<rparr>"

definition zero_video_fmt :: video_fmt where
  "zero_video_fmt = \<lparr>vf_type = 0, vf_memtype = 0, vf_format = zero_pix_format, vf_nbufs = 0, vf_nplanes = 0, vf_fps = 0,
     vf_capturemode = 0, vf_use_current_win = 0, vf_wdr_mode = 0, vf_index = 0\<rparr>"

definition reset_cap_params :: "channel \<Rightarrow> channel" where
  "reset_cap_params ch = ch\<lparr>ch_fmt := zero_video_fmt, ch_frame := zero_frame, ch_status := {}\<rparr>"

section \<open>Operations on the video node\<close>

definition set_chan_fmt :: "vid_env \<Rightarrow> video_fmt \<Rightarrow> vchan \<Rightarrow> int \<times> vchan" where
  "set_chan_fmt env vfmt c =
     (case video_dev c of
        None \<Rightarrow> (- 1, c)
      | Some vd \<Rightarrow> (case video_set_fmt env vfmt vd of (ret, vd1) \<Rightarrow> (ret, set_video vd1 c)))"

definition get_chan_fmt :: "vchan \<Rightarrow> video_fmt option" where
  "get_chan_fmt c = map_option (\<lambda>vd. video_get_fmt vd zero_video_fmt) (video_dev c)"

fun queue_all :: "vid_env \<Rightarrow> nat list \<Rightarrow> isp_video_device \<Rightarrow> vchan \<Rightarrow> vchan option" where
  "queue_all env [] vd c = Some c"
| "queue_all env (i # is) vd c = do { (_, c1) \<leftarrow> video_queue_buffer env i vd c; queue_all env is vd c1 }"

definition enable_video :: "vid_env \<Rightarrow> vchan \<Rightarrow> (int \<times> vchan) option" where
  "enable_video env c =
     (case video_dev c of
        None \<Rightarrow> Some (- 1, c)
      | Some vd \<Rightarrow>
          (case buffers_pool_new env vd of
             (None, lost) \<Rightarrow> Some (- 1, c\<lparr>v_lost := v_lost c + lost\<rparr>)
           | (Some pool, _) \<Rightarrow> do {
               (ret, c1) \<leftarrow> video_req_buffers env pool vd c;
               if ret < 0 then Some (- 1, c1)
               else case video_dev c1 of
                 None \<Rightarrow> None
               | Some vd1 \<Rightarrow> do {
                   c2 \<leftarrow> queue_all env [0..<vd_nbufs vd1] vd1 c1;
                   Some (video_stream_on env c2)
                 }
             }))"

definition disable_video :: "vid_env \<Rightarrow> vchan \<Rightarrow> (int \<times> vchan) option" where
  "disable_video env c =
     (case video_dev c of
        None \<Rightarrow> Some (- 1, c)
      | Some vd \<Rightarrow>
          (case video_stream_off env c of (ret, c1) \<Rightarrow>
             if ret < 0 then Some (- 1, c1)
             else do {
               (ret2, c2) \<leftarrow> video_free_buffers env vd c1;
               Some (if ret2 < 0 then (- 1, c2) else (0, buffers_pool_delete c2))
             }))"

text \<open>\<open>disable_video\<close> followed by \<open>exit_video\<close>, whatever the first returns.\<close>

definition shut_video :: "vid_env \<Rightarrow> vchan \<Rightarrow> vchan option" where
  "shut_video env c = do { (_, c1) \<leftarrow> disable_video env c; Some (isp_video_close c1) }"

text \<open>The frame information has room for three planes; a format with more overruns it.\<close>

definition get_video_frame :: "vid_env \<Rightarrow> frame_buf_info \<Rightarrow> vchan \<Rightarrow> (int \<times> frame_buf_info \<times> vchan) option" where
  "get_video_frame env fi c =
     (case video_dev c of
        None \<Rightarrow> Some (- 1, fi, c)
      | Some vd \<Rightarrow>
          if video_wait_buffer env < 0 then Some (- 1, fi, c)
          else do {
            (ret, buf, c1) \<leftarrow> video_dequeue_buffer env vd c;
            case buf of
              None \<Rightarrow> Some (- 1, fi, c1)
            | Some b \<Rightarrow>
                if vd_nplanes vd > 3 then None
                else let n = vd_nplanes vd; ps = vb_planes b; pix = vd_format vd in
                  Some (0, fi\<lparr>fi_vir_addr := map (\<lambda>j. Some (vb_index b, j)) [0..<n] @ drop n (fi_vir_addr fi),
                     fi_stride := map (\<lambda>j. vp_size (ps ! j)) [0..<n] @ drop n (fi_stride fi),
                     fi_phy_addr := map (\<lambda>j. vp_mem_phy (ps ! j)) [0..<n] @ drop n (fi_phy_addr fi),
                     fi_width := pf_width pix, fi_height := pf_height pix, fi_field := pf_field pix,
                     fi_pixelformat := pf_pixelformat pix, fi_timestamp := vb_timestamp b, fi_pool_id := vb_index b\<rparr>, c1)
          })"

definition release_video_frame :: "vid_env \<Rightarrow> frame_buf_info \<Rightarrow> vchan \<Rightarrow> (int \<times> vchan) option" where
  "release_video_frame env fi c =
     (case video_dev c of
        None \<Rightarrow> Some (- 1, c)
      | Some vd \<Rightarrow> map_option (\<lambda>(ret, c1). (if ret < 0 then - 1 else 0, c1)) (video_queue_buffer env (fi_pool_id fi) vd c))"

text \<open>The bytes of the first \<open>n\<close> planes of a frame, as the driver left them.\<close>

definition plane_bytes :: "vid_env \<Rightarrow> frame_buf_info \<Rightarrow> nat \<Rightarrow> byte list" where
  "plane_bytes env fi j =
     (case fi_vir_addr fi ! j of
        None \<Rightarrow> []
      | Some (b, p) \<Rightarrow> map (plane_byte env b p) [0..<unat (fi_stride fi ! j)])"

definition frame_bytes :: "vid_env \<Rightarrow> frame_buf_info \<Rightarrow> nat \<Rightarrow> byte list" where
  "frame_bytes env fi n = concat (map (plane_bytes env fi) [0..<n])"

definition planes_readable :: "frame_buf_info \<Rightarrow> nat \<Rightarrow> bool" where
  "planes_readable fi n \<longleftrightarrow> n \<le> 3 \<and> (\<forall>j<n. fi_vir_addr fi ! j = None \<longrightarrow> fi_stride fi ! j = 0)"

text \<open>Copying the planes to offset \<open>off\<close> of a buffer.\<close>

definition copy_frame :: "vid_env \<Rightarrow> frame_buf_info \<Rightarrow> nat \<Rightarrow> nat \<Rightarrow> byte list \<Rightarrow> (nat \<times> byte list) option" where
  "copy_frame env fi n off buf =
     (let bs = frame_bytes env fi n in
      if \<not> planes_readable fi n \<or> off + length bs > length buf then None
      else Some (length bs, take off buf @ bs @ drop (off + length bs) buf))"

section \<open>Starting a channel\<close>

text \<open>The formats the two entry points ask for.\<close>

abbreviation (input) V4L2_BUF_TYPE_VIDEO_CAPTURE_MPLANE :: int where "V4L2_BUF_TYPE_VIDEO_CAPTURE_MPLANE \<equiv> 9"
abbreviation (input) V4L2_MODE_VIDEO :: int where "V4L2_MODE_VIDEO \<equiv> 2"
abbreviation (input) V4L2_PIX_FMT_NV12M :: u32 where "V4L2_PIX_FMT_NV12M \<equiv> 0x32314D4E"

definition start_fmt :: "capture_format \<Rightarrow> video_fmt \<Rightarrow> video_fmt" where
  "start_fmt f v = v\<lparr>vf_type := V4L2_BUF_TYPE_VIDEO_CAPTURE_MPLANE, vf_memtype := V4L2_MEMORY_MMAP,
     vf_format := (vf_format v)\<lparr>pf_pixelformat := word_of_int (rn_format f), pf_field := 1,
       pf_width := word_of_int (rn_width f), pf_height := word_of_int (rn_height f)\<rparr>,
     vf_nbufs := 6, vf_nplanes := nat (rn_planes f), vf_capturemode := V4L2_MODE_VIDEO, vf_fps := word_of_int (cf_fps f),
     vf_wdr_mode := word_of_int (cf_wdr f), vf_use_current_win := 1, vf_index := cf_index f\<rparr>"

definition input_fmt :: "sensor_input \<Rightarrow> video_fmt \<Rightarrow> video_fmt" where
  "input_fmt si v = v\<lparr>vf_type := V4L2_BUF_TYPE_VIDEO_CAPTURE_MPLANE, vf_memtype := V4L2_MEMORY_MMAP,
     vf_format := (vf_format v)\<lparr>pf_pixelformat := V4L2_PIX_FMT_NV12M, pf_field := 1,
       pf_width := word_of_int (si_width si), pf_height := word_of_int (si_height si)\<rparr>,
     vf_nbufs := 6, vf_nplanes := 2, vf_capturemode := V4L2_MODE_VIDEO, vf_fps := word_of_int (si_fps si),
     vf_wdr_mode := word_of_int (si_wdr si), vf_use_current_win := 0, vf_index := si_index si\<rparr>"

text \<open>The part both share: set the format and start streaming; a failure closes the node.\<close>

definition bring_up :: "vid_env \<Rightarrow> video_fmt \<Rightarrow> vchan \<Rightarrow> (capture_error \<times> vchan) option" where
  "bring_up env vfmt c =
     (case set_chan_fmt env vfmt c of (ret, c1) \<Rightarrow>
        if ret \<noteq> 0 then Some (CAP_ERR_CH_SET_FMT, isp_video_close c1)
        else do {
          (ret2, c2) \<leftarrow> enable_video env c1;
          Some (if ret2 \<noteq> 0 then (CAP_ERR_CH_ENABLE, isp_video_close c2) else (CAP_ERR_NONE, c2))
        })"

text \<open>The end of both: read the format back, switch the channel on and start a frame thread if none runs.\<close>

definition switch_on :: "vid_env \<Rightarrow> channel \<Rightarrow> (capture_error \<times> channel) option" where
  "switch_on env ch =
     (case get_chan_fmt (ch_vid ch) of
        None \<Rightarrow> map_option (\<lambda>c. (CAP_ERR_CH_GET_FMT, ch\<lparr>ch_vid := c\<rparr>)) (shut_video env (ch_vid ch))
      | Some v \<Rightarrow> Some (CAP_ERR_NONE, ch\<lparr>ch_fmt := v, ch_status := insert CAP_STATUS_ON (ch_status ch),
          ch_threads := ch_threads ch @ (if CAP_THREAD_RUNNING \<in> ch_status ch then [] else [None])\<rparr>))"

definition report_fmt :: "video_fmt \<Rightarrow> capture_format \<Rightarrow> capture_format" where
  "report_fmt v f = f\<lparr>rn_width := sint (pf_width (vf_format v)), rn_height := sint (pf_height (vf_format v)),
     rn_format := sint (pf_pixelformat (vf_format v)), rn_planes := int (vf_nplanes v),
     rn_stride := map sint (take 3 (pf_bytesperline (vf_format v)))\<rparr>"

definition same_fmt :: "capture_format \<Rightarrow> video_fmt \<Rightarrow> bool" where
  "same_fmt f v \<longleftrightarrow> pf_pixelformat (vf_format v) = word_of_int (rn_format f) \<and>
     pf_width (vf_format v) = word_of_int (rn_width f) \<and> pf_height (vf_format v) = word_of_int (rn_height f)"

text \<open>\<open>start_video\<close> up to the release of the channel's lock; the wait for the frame thread is a separate step.\<close>

definition start_video :: "vid_env \<Rightarrow> bool \<Rightarrow> capture_format \<Rightarrow> channel \<Rightarrow> (capture_error \<times> capture_format \<times> channel) option" where
  "start_video env sensor_set f ch =
     (if \<not> sensor_set then Some (CAP_ERR_NOT_SET_INPUT, f, ch)
      else if CAP_STATUS_ON \<in> ch_status ch \<and> same_fmt f (ch_fmt ch)
      then map_option (\<lambda>(e, ch1). (e, if e = CAP_ERR_NONE then report_fmt (ch_fmt ch1) f else f, ch1)) (switch_on env ch)
      else do {
        c \<leftarrow> (if CAP_STATUS_ON \<in> ch_status ch then shut_video env (ch_vid ch) else Some (ch_vid ch));
        let ch1 = ch\<lparr>ch_vid := c, ch_status := ch_status ch - {CAP_STATUS_ON}\<rparr>;
        case isp_video_open env c of (ret, c1) \<Rightarrow>
          if ret \<noteq> 0 then Some (CAP_ERR_CH_INIT, f, ch1\<lparr>ch_vid := c1\<rparr>)
          else do {
            let v = start_fmt f (ch_fmt ch1);
            (e, c2) \<leftarrow> bring_up env v c1;
            let ch2 = ch1\<lparr>ch_vid := c2, ch_fmt := v\<rparr>;
            if e \<noteq> CAP_ERR_NONE then Some (e, f, ch2)
            else map_option (\<lambda>(e, ch3). (e, if e = CAP_ERR_NONE then report_fmt (ch_fmt ch3) f else f, ch3)) (switch_on env ch2)
          }
      })"

text \<open>
  \<open>set_sensor_input\<close> up to the release of the lock. The status is cleared only after the node was opened
  again, so a failure there leaves the channel marked as on.
\<close>

definition set_sensor_input :: "vid_env \<Rightarrow> sensor_input \<Rightarrow> channel \<Rightarrow> (capture_error \<times> channel) option" where
  "set_sensor_input env si ch = do {
     c \<leftarrow> (if CAP_STATUS_ON \<in> ch_status ch then shut_video env (ch_vid ch) else Some (ch_vid ch));
     case isp_video_open env c of (ret, c1) \<Rightarrow>
       if ret \<noteq> 0 then Some (CAP_ERR_CH_INIT, ch\<lparr>ch_vid := c1\<rparr>)
       else do {
         let v = input_fmt si (ch_fmt ch);
         (e, c2) \<leftarrow> bring_up env v c1;
         let ch1 = ch\<lparr>ch_vid := c2, ch_fmt := v, ch_status := ch_status ch - {CAP_STATUS_ON}\<rparr>;
         if e \<noteq> CAP_ERR_NONE then Some (e, ch1) else switch_on env ch1
       }
   }"

section \<open>Frames\<close>

text \<open>The section of \<open>get_capture_buffer\<close> that fetches one frame.\<close>

definition fetch_frame :: "vid_env \<Rightarrow> capture_format \<Rightarrow> channel \<Rightarrow> (capture_error \<times> capture_format \<times> channel) option" where
  "fetch_frame env f ch = do {
     (ret, fi, c) \<leftarrow> get_video_frame env (ch_frame ch) (ch_vid ch);
     let ch1 = ch\<lparr>ch_vid := c, ch_frame := fi\<rparr>;
     if ret < 0 then Some (CAP_ERR_GET_FRAME, f, ch1)
     else do {
       (len, buf) \<leftarrow> copy_frame env fi (nat (rn_planes f)) 0 (rn_buffer f);
       if \<not> int_ok (int len) \<or> \<not> int_ok (rn_width f * rn_height f) then None
       else do {
         (_, c1) \<leftarrow> release_video_frame env fi c;
         Some (if int len < rn_width f * rn_height f then CAP_ERR_GET_FRAME else CAP_ERR_NONE,
           f\<lparr>rn_length := int len, rn_buffer := buf\<rparr>, ch1\<lparr>ch_vid := c1\<rparr>)
       }
     }
   }"

text \<open>
  The loop of \<open>get_capture_buffer_transfer\<close> over the remaining frames: the result is that of the last frame. Each
  frame comes with the kernel's answers when it is fetched.
\<close>

fun fetch_frames :: "vid_env list \<Rightarrow> capture_error \<Rightarrow> capture_format \<Rightarrow> channel \<Rightarrow> (capture_error \<times> capture_format \<times> channel) option" where
  "fetch_frames [] e f ch = Some (e, f, ch)"
| "fetch_frames (env # envs) e f ch = do {
     (ret, fi, c) \<leftarrow> get_video_frame env (ch_frame ch) (ch_vid ch);
     let ch1 = ch\<lparr>ch_vid := c, ch_frame := fi\<rparr>;
     if ret < 0 then fetch_frames envs CAP_ERR_GET_FRAME f ch1
     else if \<not> int_ok (rn_width f * rn_height f * 2) \<or> \<not> int_ok (rn_length f + rn_width f * rn_height f * 2) then None
     else do {
       (e1, f1) \<leftarrow> (if rn_length f + rn_width f * rn_height f * 2 < 2 ^ 29 then do {
           (len, buf) \<leftarrow> copy_frame env fi (nat (rn_planes f)) (nat (rn_length f)) (rn_buffer f);
           if \<not> int_ok (rn_length f + int len) then None
           else Some (if rn_length f + int len < rn_width f * rn_height f then CAP_ERR_GET_FRAME else CAP_ERR_NONE,
             f\<lparr>rn_length := rn_length f + int len, rn_buffer := buf\<rparr>)
         } else Some (CAP_ERR_NONE, f));
       (_, c1) \<leftarrow> release_video_frame env fi c;
       fetch_frames envs e1 f1 (ch1\<lparr>ch_vid := c1\<rparr>)
     }
   }"

text \<open>
  One round of \<open>frame_loop_thread\<close> that got the lock: the number of failures in a row while the thread goes
  on, and \<open>None\<close> when it ends. \<open>FRAME_BUFFER_SIZE\<close> is the size of the thread's own buffer.
\<close>

definition FRAME_BUFFER_SIZE :: nat where
  "FRAME_BUFFER_SIZE = 2 ^ 24"

definition give_up :: "vid_env \<Rightarrow> channel \<Rightarrow> channel option" where
  "give_up env ch = map_option (\<lambda>c. ch\<lparr>ch_vid := c, ch_status := ch_status ch - {CAP_STATUS_ON, CAP_THREAD_RUNNING}\<rparr>)
     (shut_video env (ch_vid ch))"

definition raw_frame :: "vid_env \<Rightarrow> channel \<Rightarrow> raw_node option" where
  "raw_frame env ch =
     (let v = ch_fmt ch; n = vf_nplanes v; bs = frame_bytes env (ch_frame ch) n in
      if \<not> planes_readable (ch_frame ch) n \<or> length bs > FRAME_BUFFER_SIZE then None
      else Some \<lparr>rn_width = sint (pf_width (vf_format v)), rn_height = sint (pf_height (vf_format v)),
        rn_format = sint (pf_pixelformat (vf_format v)), rn_planes = int n,
        rn_stride = map sint (take 3 (pf_bytesperline (vf_format v))), rn_length = int (length bs),
        rn_buffer = bs @ replicate (FRAME_BUFFER_SIZE - length bs) 0\<rparr>)"

definition raw_flow_frame :: "vid_env \<Rightarrow> bool \<Rightarrow> channel \<Rightarrow> raw_queue \<Rightarrow> raw_queue option" where
  "raw_flow_frame env fopen_ok ch q = do {
     n \<leftarrow> raw_frame env ch;
     if \<not> int_ok (rn_width n * rn_height n) then None
     else if rn_length n < rn_width n * rn_height n then Some q
     else map_option (\<lambda>(_, _, q1). q1) (queue_raw_flow fopen_ok (Some n) q)
   }"

definition frame_loop_round :: "vid_env \<Rightarrow> bool \<Rightarrow> nat \<Rightarrow> channel \<Rightarrow> raw_queue \<Rightarrow> (nat option \<times> channel \<times> raw_queue) option" where
  "frame_loop_round env fopen_ok failed_times ch q =
     (if CAP_STATUS_ON \<notin> ch_status ch then Some (None, ch\<lparr>ch_status := ch_status ch - {CAP_THREAD_RUNNING}\<rparr>, q)
      else if CAP_THREAD_STOP \<in> ch_status ch then map_option (\<lambda>ch1. (None, ch1, q)) (give_up env ch)
      else do {
        (ret, fi, c) \<leftarrow> get_video_frame env (ch_frame ch) (ch_vid ch);
        let ch1 = ch\<lparr>ch_vid := c, ch_frame := fi\<rparr>;
        if ret < 0 then
          if failed_times + 1 \<ge> 10 then map_option (\<lambda>ch2. (None, ch2, q)) (give_up env ch1)
          else Some (Some (failed_times + 1), ch1, q)
        else do {
          q1 \<leftarrow> (if CAP_RAW_FLOW_START \<in> ch_status ch then raw_flow_frame env fopen_ok ch1 q else Some q);
          (_, c1) \<leftarrow> release_video_frame env fi c;
          Some (Some 0, ch1\<lparr>ch_vid := c1, ch_status :=
            (if CAP_RAW_FLOW_START \<in> ch_status ch then insert CAP_RAW_FLOW_RUNNING (ch_status ch)
             else ch_status ch - {CAP_RAW_FLOW_RUNNING})\<rparr>, q1)
        }
      })"

section \<open>The module\<close>

text \<open>
  The client that holds \<open>g_cap_locker\<close>, by what it does next: wait until the frame thread of a channel runs, fetch
  one frame or several, set up the raw queue, raise the raw flow flag, wait for the raw flow to run or to stop, or wait
  for the threads of the channels from \<open>i\<close> on to end (and initialise again, or not).
\<close>

datatype after_start = AfterInput | AfterFrame capture_format | AfterFrames capture_format | AfterRaw capture_format

datatype cap_client =
    Idle
  | WaitStarted nat after_start
  | FetchOne nat capture_format
  | FetchMany nat capture_format
  | RawSetup nat capture_format
  | RawArm nat
  | WaitRawOn nat
  | WaitRawOff nat
  | StopChan nat bool

record cap_module =
  channels :: "channel list"
  client :: cap_client
  g_cap_init :: bool
  g_media_dev :: bool
  g_sensor_set :: "nat set"
  raw_q :: raw_queue
  raw_exits :: nat \<comment> \<open>stopped raw flows whose queue is still to be freed\<close>
  cap_ret :: "capture_error \<times> capture_format option" \<comment> \<open>what the last call returned\<close>

datatype request =
    ReqInput sensor_input
  | ReqFrame capture_format
  | ReqFrames capture_format
  | ReqStartRaw capture_format
  | ReqStopRaw int
  | ReqTakeRaw capture_format
  | ReqExit
  | ReqInit bool

datatype cap_move =
    Call vid_env request
  | Resume "vid_env list" bool
  | FrameThread vid_env bool nat nat
  | FreeRaw

definition put_channel :: "nat \<Rightarrow> channel \<Rightarrow> cap_module \<Rightarrow> cap_module" where
  "put_channel i ch s = s\<lparr>channels := (channels s)[i := ch]\<rparr>"

definition finish :: "capture_error \<Rightarrow> capture_format option \<Rightarrow> cap_module \<Rightarrow> cap_module" where
  "finish e f s = s\<lparr>client := Idle, cap_ret := (e, f)\<rparr>"

definition call_start :: "vid_env \<Rightarrow> (capture_format \<Rightarrow> after_start) \<Rightarrow> capture_format \<Rightarrow> cap_module \<Rightarrow> cap_module option" where
  "call_start env after f s =
     (if \<not> VALID_VIDEO_SEL (cf_channel f) then Some (finish CAP_ERR_INVALID_PARAMS (Some f) s)
      else if \<not> g_media_dev s \<and> g_sensor_set s \<noteq> {} then None
      else let i = nat (cf_channel f) in do {
        (e, f1, ch) \<leftarrow> start_video env (g_sensor_set s \<noteq> {}) f (channels s ! i);
        let s1 = put_channel i ch s;
        Some (if e = CAP_ERR_NONE then s1\<lparr>client := WaitStarted i (after f1)\<rparr> else finish e (Some f1) s1)
      })"

definition call_input :: "vid_env \<Rightarrow> sensor_input \<Rightarrow> cap_module \<Rightarrow> cap_module option" where
  "call_input env si s =
     (if \<not> VALID_VIDEO_SEL (si_channel si) then Some (finish CAP_ERR_OTHER None s)
      else if \<not> g_media_dev s then None
      else let i = nat (si_channel si) in do {
        (e, ch) \<leftarrow> set_sensor_input env si (channels s ! i);
        let s1 = put_channel i ch s;
        Some (if e = CAP_ERR_NONE
              then s1\<lparr>g_sensor_set := insert i (g_sensor_set s), client := WaitStarted i AfterInput\<rparr>
              else finish e None s1)
      })"

text \<open>The twelve Bayer formats with 8, 10 and 12 bits.\<close>

definition bayer_formats :: "int set" where
  "bayer_formats = raw8_formats \<union>
     {0x30314742, 0x30314247, 0x30314142, 0x30314752, 0x32314742, 0x32314247, 0x32314142, 0x32314752}"

definition start_raw_flow :: "vid_env \<Rightarrow> capture_format \<Rightarrow> cap_module \<Rightarrow> cap_module option" where
  "start_raw_flow env f s =
     (if VALID_VIDEO_SEL (cf_channel f) \<and> rn_format f \<notin> bayer_formats then Some (finish CAP_ERR_INVALID_PARAMS (Some f) s)
      else call_start env AfterRaw f s)"

definition stop_raw_flow :: "int \<Rightarrow> cap_module \<Rightarrow> cap_module" where
  "stop_raw_flow c s =
     (if \<not> VALID_VIDEO_SEL c then finish CAP_ERR_INVALID_PARAMS None s
      else let i = nat c; ch = channels s ! i in
        (put_channel i (ch\<lparr>ch_status := ch_status ch - {CAP_RAW_FLOW_START}\<rparr>) s)\<lparr>client := WaitRawOff i\<rparr>)"

text \<open>The check of \<open>get_raw_flow_frame\<close> and the dequeue after it, which is protected by the lock of the queue only.\<close>

definition get_raw_flow_frame :: "capture_format \<Rightarrow> cap_module \<Rightarrow> cap_module option" where
  "get_raw_flow_frame f s =
     (if \<not> VALID_VIDEO_SEL (cf_channel f) then Some (finish CAP_ERR_INVALID_PARAMS (Some f) s)
      else if CAP_RAW_FLOW_RUNNING \<notin> ch_status (channels s ! nat (cf_channel f))
      then Some (finish CAP_ERR_RAW_FLOW_NOT_RUN (Some f) s)
      else do {
        (e, n, q) \<leftarrow> dequeue_raw_flow (Some (raw_node.truncate f)) (raw_q s);
        Some (finish (if e = ERR_RAW_FLOW_NONE then CAP_ERR_NONE else CAP_ERR_GET_RAW_FLOW)
          (map_option (\<lambda>n. raw_node.extend n (capture_format.fields (cf_channel f) (cf_fps f) (cf_wdr f) (cf_framecount f) (cf_index f))) n)
          (s\<lparr>raw_q := q\<rparr>))
      })"

definition fresh_channel :: "channel \<Rightarrow> channel" where
  "fresh_channel ch = (reset_cap_params ch)\<lparr>ch_vid := (ch_vid ch)\<lparr>video_dev := None, entity_fd := - 1\<rparr>\<rparr>"

definition init_capture :: "bool \<Rightarrow> cap_module \<Rightarrow> cap_module" where
  "init_capture media_ok s =
     (if \<not> media_ok then finish CAP_ERR_MPI_INIT None (s\<lparr>g_media_dev := False\<rparr>)
      else finish CAP_ERR_NONE None (s\<lparr>g_media_dev := True, g_cap_init := True, channels := map fresh_channel (channels s)\<rparr>))"

definition init_capture_module :: "bool \<Rightarrow> cap_module \<Rightarrow> cap_module" where
  "init_capture_module media_ok s =
     (if g_cap_init s
      then s\<lparr>channels := map (\<lambda>ch. ch\<lparr>ch_status := insert CAP_THREAD_STOP (ch_status ch)\<rparr>) (channels s), client := StopChan 0 True\<rparr>
      else init_capture media_ok s)"

definition exit_capture_module :: "cap_module \<Rightarrow> cap_module" where
  "exit_capture_module s =
     (if g_cap_init s
      then s\<lparr>channels := map (\<lambda>ch. ch\<lparr>ch_status := insert CAP_THREAD_STOP (ch_status ch)\<rparr>) (channels s), client := StopChan 0 False\<rparr>
      else finish CAP_ERR_NONE None s)"

text \<open>One turn of the loop of \<open>exit_capture_module\<close> over the channels, after the thread of channel \<open>i\<close> has ended.\<close>

definition stop_channel :: "vid_env \<Rightarrow> bool \<Rightarrow> nat \<Rightarrow> bool \<Rightarrow> cap_module \<Rightarrow> cap_module option" where
  "stop_channel env media_ok i again s =
     (let ch = channels s ! i in do {
       c \<leftarrow> (if CAP_STATUS_ON \<in> ch_status ch then shut_video env (ch_vid ch) else Some (ch_vid ch));
       let s1 = put_channel i (ch\<lparr>ch_vid := c, ch_status := ch_status ch - {CAP_STATUS_ON}\<rparr>) s;
       Some (if i + 1 < CAPTURE_CHANNEL_MAX then s1\<lparr>client := StopChan (i + 1) again\<rparr>
             else let s2 = s1\<lparr>g_media_dev := False, g_cap_init := False\<rparr> in
               if again then init_capture media_ok s2 else finish CAP_ERR_NONE None s2)
     })"

fun cap_call :: "vid_env \<Rightarrow> request \<Rightarrow> cap_module \<Rightarrow> cap_module option" where
  "cap_call env (ReqInput si) s = call_input env si s"
| "cap_call env (ReqFrame f) s = call_start env AfterFrame f s"
| "cap_call env (ReqFrames f) s = call_start env AfterFrames f s"
| "cap_call env (ReqStartRaw f) s = start_raw_flow env f s"
| "cap_call env (ReqStopRaw c) s = Some (stop_raw_flow c s)"
| "cap_call env (ReqTakeRaw f) s = get_raw_flow_frame f s"
| "cap_call env ReqExit s = Some (exit_capture_module s)"
| "cap_call env (ReqInit media_ok) s = Some (init_capture_module media_ok s)"

text \<open>The next section of the client's call. A client that polls a flag goes on when it sees it.\<close>

definition raw_setup :: "bool \<Rightarrow> nat \<Rightarrow> capture_format \<Rightarrow> cap_module \<Rightarrow> cap_module option" where
  "raw_setup malloc_ok i f s =
     (if CAP_RAW_FLOW_RUNNING \<in> ch_status (channels s ! i) then Some (finish CAP_ERR_NONE (Some f) s)
      else do {
        (e, q) \<leftarrow> init_raw_flow malloc_ok (Some (raw_node.truncate f)) CAPTURE_RAW_FLOW_QUEUE_SIZE (raw_q s);
        let s1 = s\<lparr>raw_q := q\<rparr>;
        Some (if e \<noteq> ERR_RAW_FLOW_NONE then finish CAP_ERR_START_RAW_FLOW (Some f) s1 else s1\<lparr>client := RawArm i\<rparr>)
      })"

definition raw_arm :: "nat \<Rightarrow> cap_module \<Rightarrow> cap_module" where
  "raw_arm i s =
     (let ch = channels s ! i in
      (put_channel i (ch\<lparr>ch_status := insert CAP_RAW_FLOW_START (ch_status ch)\<rparr>) s)\<lparr>client := WaitRawOn i\<rparr>)"

definition fetched :: "nat \<Rightarrow> (capture_error \<times> capture_format \<times> channel) option \<Rightarrow> cap_module \<Rightarrow> cap_module option" where
  "fetched i r s = map_option (\<lambda>(e, f, ch). finish e (Some f) (put_channel i ch s)) r"

definition client_enabled :: "vid_env list \<Rightarrow> cap_module \<Rightarrow> bool" where
  "client_enabled envs s =
     (case client s of
        Idle \<Rightarrow> False
      | WaitStarted i a \<Rightarrow> CAP_THREAD_RUNNING \<in> ch_status (channels s ! i)
      | FetchMany i f \<Rightarrow> length envs = nat (cf_framecount f)
      | WaitRawOn i \<Rightarrow> CAP_RAW_FLOW_RUNNING \<in> ch_status (channels s ! i)
      | WaitRawOff i \<Rightarrow> CAP_RAW_FLOW_RUNNING \<notin> ch_status (channels s ! i)
      | StopChan i again \<Rightarrow> envs \<noteq> [] \<and> CAP_THREAD_RUNNING \<notin> ch_status (channels s ! i)
      | FetchOne i f \<Rightarrow> envs \<noteq> []
      | _ \<Rightarrow> True)"

definition cap_resume :: "vid_env list \<Rightarrow> bool \<Rightarrow> cap_module \<Rightarrow> cap_module option" where
  "cap_resume envs ok s =
     (case client s of
        Idle \<Rightarrow> Some s
      | WaitStarted i a \<Rightarrow>
          Some (case a of
             AfterInput \<Rightarrow> finish CAP_ERR_NONE None s
           | AfterFrame f \<Rightarrow> s\<lparr>client := FetchOne i f\<rparr>
           | AfterFrames f \<Rightarrow> s\<lparr>client := FetchMany i f\<rparr>
           | AfterRaw f \<Rightarrow> s\<lparr>client := RawSetup i f\<rparr>)
      | FetchOne i f \<Rightarrow> fetched i (fetch_frame (hd envs) f (channels s ! i)) s
      | FetchMany i f \<Rightarrow> fetched i (fetch_frames envs CAP_ERR_NONE (f\<lparr>rn_length := 0\<rparr>) (channels s ! i)) s
      | RawSetup i f \<Rightarrow> raw_setup ok i f s
      | RawArm i \<Rightarrow> Some (raw_arm i s)
      | WaitRawOn i \<Rightarrow> Some (finish CAP_ERR_NONE None s)
      | WaitRawOff i \<Rightarrow> Some (finish CAP_ERR_NONE None (s\<lparr>raw_exits := raw_exits s + 1\<rparr>))
      | StopChan i again \<Rightarrow> stop_channel (hd envs) ok i again s)"

text \<open>The first section of a frame thread, and a round of its loop; a thread that ends is removed.\<close>

definition drop_at :: "nat \<Rightarrow> 'a list \<Rightarrow> 'a list" where
  "drop_at i xs = take i xs @ drop (i + 1) xs"

definition thread_step :: "vid_env \<Rightarrow> bool \<Rightarrow> nat \<Rightarrow> nat \<Rightarrow> cap_module \<Rightarrow> cap_module option" where
  "thread_step env fopen_ok i t s =
     (let ch = channels s ! i in
      case ch_threads ch ! t of
        None \<Rightarrow>
          Some (put_channel i (if g_media_dev s
            then ch\<lparr>ch_threads := (ch_threads ch)[t := Some 0], ch_status := insert CAP_THREAD_RUNNING (ch_status ch)\<rparr>
            else ch\<lparr>ch_threads := drop_at t (ch_threads ch)\<rparr>) s)
      | Some k \<Rightarrow> do {
          (r, ch1, q) \<leftarrow> frame_loop_round env fopen_ok k ch (raw_q s);
          Some (put_channel i (ch1\<lparr>ch_threads := (case r of None \<Rightarrow> drop_at t (ch_threads ch1)
            | Some k1 \<Rightarrow> (ch_threads ch1)[t := Some k1])\<rparr>) (s\<lparr>raw_q := q\<rparr>))
        })"

fun move_enabled :: "cap_move \<Rightarrow> cap_module \<Rightarrow> bool" where
  "move_enabled (Call env r) s \<longleftrightarrow> client s = Idle"
| "move_enabled (Resume envs ok) s \<longleftrightarrow> client_enabled envs s"
| "move_enabled (FrameThread env fopen_ok i t) s \<longleftrightarrow> i < length (channels s) \<and> t < length (ch_threads (channels s ! i))"
| "move_enabled FreeRaw s \<longleftrightarrow> raw_exits s > 0"

fun run_move :: "cap_move \<Rightarrow> cap_module \<Rightarrow> cap_module option" where
  "run_move (Call env r) s = cap_call env r s"
| "run_move (Resume envs ok) s = cap_resume envs ok s"
| "run_move (FrameThread env fopen_ok i t) s = thread_step env fopen_ok i t s"
| "run_move FreeRaw s = Some (s\<lparr>raw_q := snd (exit_raw_flow (raw_q s)), raw_exits := raw_exits s - 1\<rparr>)"

inductive cap_step :: "cap_module \<Rightarrow> cap_module \<Rightarrow> bool" where
  cap_stepI: "move_enabled m s \<Longrightarrow> run_move m s = Some s' \<Longrightarrow> cap_step s s'"

definition first_channel :: channel where
  "first_channel = \<lparr>ch_vid = \<lparr>video_dev = None, entity_fd = - 1, v_maps = 0, v_queued = [], v_stream = False, v_lost = 0\<rparr>,
     ch_fmt = zero_video_fmt, ch_frame = zero_frame, ch_status = {}, ch_threads = []\<rparr>"

definition first_module :: cap_module where
  "first_module = \<lparr>channels = replicate CAPTURE_CHANNEL_MAX first_channel, client = Idle, g_cap_init = False, g_media_dev = False,
     g_sensor_set = {}, raw_q = \<lparr>rq_nodes = [], rq_length = 0, rq_head = 0, rq_tail = 0, rq_lost = 0\<rparr>, raw_exits = 0,
     cap_ret = (CAP_ERR_NONE, None)\<rparr>"

section \<open>The video node between two sections\<close>

text \<open>A node is open only while its channel is on, and then it streams from a pool of its own.\<close>

definition vnode_inv :: "channel \<Rightarrow> bool" where
  "vnode_inv ch \<longleftrightarrow> (video_dev (ch_vid ch) \<noteq> None \<longrightarrow> CAP_STATUS_ON \<in> ch_status ch \<and> vid_ready (ch_vid ch))"

text \<open>A node that was just opened.\<close>

definition vid_fresh :: "vchan \<Rightarrow> bool" where
  "vid_fresh c \<longleftrightarrow> (\<exists>vd. video_dev c = Some vd \<and> entity_fd c \<noteq> - 1)"

lemma set_video_sel [simp]:
  "video_dev (set_video vd c) = Some vd" "entity_fd (set_video vd c) = entity_fd c" "v_stream (set_video vd c) = v_stream c"
  "v_maps (set_video vd c) = v_maps c" "v_queued (set_video vd c) = v_queued c" "v_lost (set_video vd c) = v_lost c"
  by (simp_all add: set_video_def)

lemma isp_video_close_None [simp]: "video_dev (isp_video_close c) = None"
  by (simp add: isp_video_close_def split: option.split)

lemma shut_video_closed: "shut_video env c = Some c' \<Longrightarrow> video_dev c' = None"
  by (auto simp: shut_video_def bind_eq_Some_conv)

lemma isp_video_open_result:
  "isp_video_open env c = (ret, c') \<Longrightarrow> video_dev c = None \<Longrightarrow> video_dev c' = None \<or> ret = 0 \<and> vid_fresh c'"
  by (auto simp: isp_video_open_def video_init_def vid_fresh_def split: if_splits)

lemma queue_all_frame: "queue_all env is vd c = Some c' \<Longrightarrow> \<exists>q. c' = c\<lparr>v_queued := q\<rparr>"
proof (induction "is" arbitrary: c)
  case (Cons i "is")
  then obtain r c1 where c1: "video_queue_buffer env i vd c = Some (r, c1)" "queue_all env is vd c1 = Some c'"
    by (auto simp: bind_eq_Some_conv)
  have "\<exists>q. c1 = c\<lparr>v_queued := q\<rparr>"
    using c1(1) by (auto simp: video_queue_buffer_def split: option.splits if_splits intro: exI[of _ "v_queued c"])
  then show ?case using Cons.IH[OF c1(2)] by auto
next
  case Nil
  then show ?case by (cases c') auto
qed

lemma pool_new_result:
  "buffers_pool_new env vd = (Some pool, lost) \<Longrightarrow> pool = map (new_buffer (vd_nplanes vd)) [0..<vd_nbufs vd]"
  by (auto simp: buffers_pool_new_def split: if_splits option.splits)

text \<open>A successful request for buffers: the pool has its shape and the planes of the granted buffers are mapped.\<close>

lemma req_buffers_result:
  assumes "video_req_buffers env pool vd c = Some (ret, c')" "\<not> ret < 0" "vd_memtype vd = V4L2_MEMORY_MMAP"
    and "pool = map (new_buffer (vd_nplanes vd)) [0..<m]"
  obtains n bs where "n \<le> length pool" "length bs = length pool" "0 < vd_nplanes vd" "vd_nplanes vd \<le> VIDEO_MAX_PLANES"
    "pool_ok (vd_nplanes vd) bs" "pool_mapped n (vd_nplanes vd) bs"
    "c' = set_video (vd\<lparr>vd_nbufs := n, vd_pool := Some bs\<rparr>) (c\<lparr>v_maps := v_maps c + n * vd_nplanes vd\<rparr>)"
proof -
  obtain n bs maps where n: "n \<le> length pool" "0 < vd_nplanes vd" "vd_nplanes vd \<le> VIDEO_MAX_PLANES"
    and b: "map_buffers env True (vd_nplanes vd) [0..<n] pool (v_maps c) = Some (True, bs, maps)"
    and c: "c' = set_video (vd\<lparr>vd_nbufs := n, vd_pool := Some bs\<rparr>) (c\<lparr>v_maps := maps\<rparr>)"
    using assms(1-3)
    by (fastforce simp: video_req_buffers_def Let_def bind_eq_Some_conv not_less split: if_splits option.splits)
  from map_buffers_result[OF b] new_pool_ok[of "vd_nplanes vd" m] assms(4)
  have "pool_ok (vd_nplanes vd) bs \<and> length bs = length pool \<and> maps = v_maps c + n * vd_nplanes vd \<and>
    pool_mapped n (vd_nplanes vd) bs" by simp
  with n c show ?thesis by (intro that) auto
qed

lemma enable_video_ready:
  assumes "enable_video env c = Some (0, c')" "video_dev c = Some vd" "vd_memtype vd = V4L2_MEMORY_MMAP" "entity_fd c \<noteq> - 1"
  shows "vid_ready c'"
proof -
  obtain pool lost ret c1 where p: "buffers_pool_new env vd = (Some pool, lost)"
    and r: "video_req_buffers env pool vd c = Some (ret, c1)" "\<not> ret < 0"
    using assms(1,2) by (auto simp: enable_video_def bind_eq_Some_conv split: prod.splits option.splits if_splits)
  note pool = pool_new_result[OF p]
  from req_buffers_result[OF r assms(3) pool] obtain n bs where b: "n \<le> length pool" "length bs = length pool"
    "0 < vd_nplanes vd" "vd_nplanes vd \<le> VIDEO_MAX_PLANES" "pool_ok (vd_nplanes vd) bs"
    "c1 = set_video (vd\<lparr>vd_nbufs := n, vd_pool := Some bs\<rparr>) (c\<lparr>v_maps := v_maps c + n * vd_nplanes vd\<rparr>)" by metis
  obtain c2 where q: "queue_all env [0..<n] (vd\<lparr>vd_nbufs := n, vd_pool := Some bs\<rparr>) c1 = Some c2"
    and s: "video_stream_on env c2 = (0, c')"
    using assms(1,2) p r b(6) by (auto simp: enable_video_def bind_eq_Some_conv)
  from queue_all_frame[OF q] obtain qs where "c2 = c1\<lparr>v_queued := qs\<rparr>" by blast
  then show ?thesis using s b assms(4) by (auto simp: video_stream_on_def vid_ready_def split: if_splits)
qed

lemma bring_up_result:
  assumes "bring_up env v c = Some (e, c')" "vf_memtype v = V4L2_MEMORY_MMAP" "video_dev c = None \<or> vid_fresh c"
  shows "if e = CAP_ERR_NONE then vid_ready c' else video_dev c' = None"
proof (cases "video_dev c")
  case None
  then show ?thesis using assms(1) by (auto simp: bring_up_def set_chan_fmt_def)
next
  case (Some vd)
  obtain ret vd1 where s: "video_set_fmt env v vd = (ret, vd1)" by fastforce
  show ?thesis
  proof (cases "ret = 0")
    case True
    then obtain ret2 c2 where e: "enable_video env (set_video vd1 c) = Some (ret2, c2)"
      and r: "(e, c') = (if ret2 \<noteq> 0 then (CAP_ERR_CH_ENABLE, isp_video_close c2) else (CAP_ERR_NONE, c2))"
      using assms(1) s Some by (auto simp: bring_up_def set_chan_fmt_def bind_eq_Some_conv)
    have "vd_memtype vd1 = V4L2_MEMORY_MMAP"
      using s True assms(2) by (auto simp: video_set_fmt_def split: if_splits option.splits)
    then have "ret2 = 0 \<Longrightarrow> vid_ready c2"
      using enable_video_ready[of env "set_video vd1 c" c2 vd1] e assms(3) Some by (auto simp: vid_fresh_def)
    then show ?thesis using r by (auto split: if_splits)
  next
    case False
    then show ?thesis using assms(1) s Some by (auto simp: bring_up_def set_chan_fmt_def)
  qed
qed

section \<open>What the sections keep\<close>

lemma memtypes [simp]: "vf_memtype (start_fmt f v) = V4L2_MEMORY_MMAP" "vf_memtype (input_fmt si v) = V4L2_MEMORY_MMAP"
  by (simp_all add: start_fmt_def input_fmt_def)

lemma switch_on_result:
  assumes "switch_on env ch = Some (e, ch')"
  shows "e = CAP_ERR_NONE \<Longrightarrow> ch_vid ch' = ch_vid ch \<and> ch_status ch' = insert CAP_STATUS_ON (ch_status ch) \<and>
      ch_threads ch' = ch_threads ch @ (if CAP_THREAD_RUNNING \<in> ch_status ch then [] else [None])"
    and "e \<noteq> CAP_ERR_NONE \<Longrightarrow> video_dev (ch_vid ch') = None \<and> ch_status ch' = ch_status ch \<and> ch_threads ch' = ch_threads ch"
  using assms by (auto simp: switch_on_def shut_video_closed split: option.splits)

lemma switch_on_keeps:
  assumes "switch_on env ch = Some (e, ch')" "video_dev (ch_vid ch) = None \<or> vid_ready (ch_vid ch)"
  shows "vnode_inv ch' \<and> (CAP_THREAD_RUNNING \<in> ch_status ch' \<longleftrightarrow> CAP_THREAD_RUNNING \<in> ch_status ch) \<and>
    ch_threads ch' = ch_threads ch @ (if e = CAP_ERR_NONE \<and> CAP_THREAD_RUNNING \<notin> ch_status ch then [None] else [])"
proof (cases "e = CAP_ERR_NONE")
  case True
  note r = switch_on_result(1)[OF assms(1) this]
  then have "vnode_inv ch'" using assms(2) unfolding vnode_inv_def by (metis insertI1)
  with r True show ?thesis by simp
next
  case False
  from switch_on_result(2)[OF assms(1) this] False show ?thesis by (simp add: vnode_inv_def)
qed

text \<open>The node before \<open>isp_video_open\<close>: closed by the code when the channel is on, closed anyway when it is off.\<close>

lemma reopened_node:
  assumes "(if CAP_STATUS_ON \<in> ch_status ch then shut_video env (ch_vid ch) else Some (ch_vid ch)) = Some c" "vnode_inv ch"
  shows "video_dev c = None"
  using assms by (auto simp: vnode_inv_def shut_video_closed split: if_splits)

lemma start_video_keeps:
  assumes "start_video env b f ch = Some (e, f', ch')" "vnode_inv ch"
  shows "vnode_inv ch' \<and> (CAP_THREAD_RUNNING \<in> ch_status ch' \<longleftrightarrow> CAP_THREAD_RUNNING \<in> ch_status ch) \<and>
    ch_threads ch' = ch_threads ch @ (if e = CAP_ERR_NONE \<and> CAP_THREAD_RUNNING \<notin> ch_status ch then [None] else [])"
proof -
  consider (unset) "\<not> b" | (same) "b" "CAP_STATUS_ON \<in> ch_status ch \<and> same_fmt f (ch_fmt ch)"
    | (new) "b" "\<not> (CAP_STATUS_ON \<in> ch_status ch \<and> same_fmt f (ch_fmt ch))" by blast
  then show ?thesis
  proof cases
    case unset
    then show ?thesis using assms by (simp add: start_video_def)
  next
    case same
    then have "switch_on env ch = Some (e, ch')" using assms(1) by (auto simp: start_video_def)
    then show ?thesis using switch_on_keeps assms(2) by (fastforce simp: vnode_inv_def)
  next
    case new
    define g where "g = (if CAP_STATUS_ON \<in> ch_status ch then shut_video env (ch_vid ch) else Some (ch_vid ch))"
    obtain c where c: "g = Some c" using assms(1) new by (cases g) (auto simp: start_video_def g_def)
    have cn: "video_dev c = None" using reopened_node c assms(2) unfolding g_def by blast
    obtain ret c1 where o: "isp_video_open env c = (ret, c1)" by fastforce
    let ?v = "start_fmt f (ch_fmt ch)"
    show ?thesis
    proof (cases "ret = 0")
      case True
      note assms(1)[unfolded start_video_def, folded g_def]
      then obtain e2 c2 where u: "bring_up env ?v c1 = Some (e2, c2)"
        and r: "(if e2 \<noteq> CAP_ERR_NONE then Some (e2, f, ch\<lparr>ch_status := ch_status ch - {CAP_STATUS_ON}, ch_vid := c2, ch_fmt := ?v\<rparr>)
          else map_option (\<lambda>(e, ch3). (e, if e = CAP_ERR_NONE then report_fmt (ch_fmt ch3) f else f, ch3))
            (switch_on env (ch\<lparr>ch_status := ch_status ch - {CAP_STATUS_ON}, ch_vid := c2, ch_fmt := ?v\<rparr>))) = Some (e, f', ch')"
        using new c o True by (auto simp: Let_def bind_eq_Some_conv)
      have n: "if e2 = CAP_ERR_NONE then vid_ready c2 else video_dev c2 = None"
        using bring_up_result[OF u] isp_video_open_result[OF o cn] by auto
      show ?thesis
      proof (cases "e2 = CAP_ERR_NONE")
        case True
        then have "switch_on env (ch\<lparr>ch_status := ch_status ch - {CAP_STATUS_ON}, ch_vid := c2, ch_fmt := ?v\<rparr>) = Some (e, ch')" using r by auto
        from switch_on_keeps[OF this] n True show ?thesis by auto
      next
        case False
        then show ?thesis using r n by (auto simp: vnode_inv_def)
      qed
    next
      case False
      then have "video_dev c1 = None" using isp_video_open_result[OF o cn] by auto
      moreover have "e = CAP_ERR_CH_INIT" "ch' = ch\<lparr>ch_status := ch_status ch - {CAP_STATUS_ON}, ch_vid := c1\<rparr>"
        using assms(1)[unfolded start_video_def, folded g_def] new c o False by (auto simp: Let_def)
      ultimately show ?thesis by (auto simp: vnode_inv_def)
    qed
  qed
qed

lemma set_sensor_input_keeps:
  assumes "set_sensor_input env si ch = Some (e, ch')" "vnode_inv ch"
  shows "vnode_inv ch' \<and> (CAP_THREAD_RUNNING \<in> ch_status ch' \<longleftrightarrow> CAP_THREAD_RUNNING \<in> ch_status ch) \<and>
    ch_threads ch' = ch_threads ch @ (if e = CAP_ERR_NONE \<and> CAP_THREAD_RUNNING \<notin> ch_status ch then [None] else [])"
proof -
  define g where "g = (if CAP_STATUS_ON \<in> ch_status ch then shut_video env (ch_vid ch) else Some (ch_vid ch))"
  note def = assms(1)[unfolded set_sensor_input_def, folded g_def]
  obtain c where c: "g = Some c" using def by (cases g) auto
  have cn: "video_dev c = None" using reopened_node c assms(2) unfolding g_def by blast
  obtain ret c1 where o: "isp_video_open env c = (ret, c1)" by fastforce
  let ?v = "input_fmt si (ch_fmt ch)"
  show ?thesis
  proof (cases "ret = 0")
    case True
    then obtain e2 c2 where u: "bring_up env ?v c1 = Some (e2, c2)"
      and r: "(let ch1 = ch\<lparr>ch_vid := c2, ch_fmt := ?v, ch_status := ch_status ch - {CAP_STATUS_ON}\<rparr> in
        if e2 \<noteq> CAP_ERR_NONE then Some (e2, ch1) else switch_on env ch1) = Some (e, ch')"
      using def c o by (auto simp: Let_def bind_eq_Some_conv)
    have n: "if e2 = CAP_ERR_NONE then vid_ready c2 else video_dev c2 = None"
      using bring_up_result[OF u] isp_video_open_result[OF o cn] by auto
    show ?thesis
    proof (cases "e2 = CAP_ERR_NONE")
      case True
      then have "switch_on env (ch\<lparr>ch_vid := c2, ch_fmt := ?v, ch_status := ch_status ch - {CAP_STATUS_ON}\<rparr>) = Some (e, ch')"
        using r by (simp add: Let_def)
      from switch_on_keeps[OF this] n True show ?thesis by auto
    next
      case False
      then show ?thesis using r n by (auto simp: vnode_inv_def Let_def)
    qed
  next
    case False
    then have "video_dev c1 = None" using isp_video_open_result[OF o cn] by auto
    then show ?thesis using def c o False by (auto simp: vnode_inv_def)
  qed
qed

text \<open>Fetching a frame and giving it back keep a node as it is: closed, or streaming from its pool.\<close>

definition node_ok :: "vchan \<Rightarrow> bool" where
  "node_ok c \<longleftrightarrow> video_dev c = None \<or> vid_ready c"

lemma dequeue_pool_ok:
  assumes "pool_ok n bs" "i < length bs" "length ps = n"
  shows "pool_ok n (bs[i := (bs ! i)\<lparr>vb_planes := ps\<rparr>])"
  by (rule pool_ok_update[OF assms(1,3)])

lemma dequeue_keeps:
  assumes "video_dequeue_buffer env vd c = Some (r, b, c')" "video_dev c = Some vd" "vid_ready c"
  shows "vid_ready c'"
proof (cases "b = None")
  case True
  then show ?thesis using assms by (auto simp: video_dequeue_buffer_def Let_def split: if_splits option.splits)
next
  case False
  obtain bs where p: "vd_pool vd = Some bs" "pool_ok (vd_nplanes vd) bs" "vd_nbufs vd \<le> length bs"
    using assms(2,3) by (auto simp: vid_ready_def)
  obtain i ps q where "c' = (set_video (vd\<lparr>vd_pool := Some (bs[i := (bs ! i)\<lparr>vb_planes := ps\<rparr>])\<rparr>) c)\<lparr>v_queued := q\<rparr>"
    "i < length bs" "length ps = length (vb_planes (bs ! i))"
    using assms(1) False p by (auto simp: video_dequeue_buffer_def Let_def split: if_splits option.splits)
  moreover from this have "pool_ok (vd_nplanes vd) (bs[i := (bs ! i)\<lparr>vb_planes := ps\<rparr>])"
    using p by (intro dequeue_pool_ok) (auto simp: pool_ok_def)
  ultimately show ?thesis using assms(2,3) p by (auto simp: vid_ready_def)
qed

lemma get_frame_keeps:
  assumes "get_video_frame env fi c = Some (r, fi', c')" "node_ok c"
  shows "node_ok c'" "video_dev c = None \<Longrightarrow> c' = c"
proof -
  show "node_ok c'"
  proof (cases "video_dev c")
    case None
    then show ?thesis using assms by (simp add: get_video_frame_def)
  next
    case (Some vd)
    then have "vid_ready c" using assms(2) by (simp add: node_ok_def)
    moreover have "c' = c \<or> (\<exists>r b. video_dequeue_buffer env vd c = Some (r, b, c'))"
      using assms(1) Some by (auto simp: get_video_frame_def bind_eq_Some_conv Let_def split: if_splits option.splits)
    ultimately show ?thesis using dequeue_keeps Some by (auto simp: node_ok_def)
  qed
  show "video_dev c = None \<Longrightarrow> c' = c" using assms(1) by (simp add: get_video_frame_def)
qed

lemma release_keeps:
  assumes "release_video_frame env fi c = Some (r, c')"
  shows "node_ok c' = node_ok c" "video_dev c' = video_dev c"
  using assms
  by (auto simp: release_video_frame_def video_queue_buffer_def node_ok_def vid_ready_def split: option.splits if_splits)

lemma get_frame_None: "get_video_frame env fi c = Some (r, fi', c') \<Longrightarrow> node_ok c \<Longrightarrow> video_dev c' = None \<longleftrightarrow> video_dev c = None"
  by (auto simp: get_video_frame_def video_dequeue_buffer_def bind_eq_Some_conv Let_def split: if_splits option.splits)

lemma vnode_inv_vid:
  "vnode_inv ch \<Longrightarrow> node_ok c \<Longrightarrow> video_dev c = None \<longleftrightarrow> video_dev (ch_vid ch) = None \<Longrightarrow> vnode_inv (ch\<lparr>ch_vid := c, ch_frame := fi\<rparr>)"
  "vnode_inv ch \<Longrightarrow> node_ok (ch_vid ch)"
  by (auto simp: vnode_inv_def node_ok_def)

lemma frame_round_trip:
  assumes "get_video_frame env (ch_frame ch) (ch_vid ch) = Some (r, fi, c)" "release_video_frame env' fi c = Some (r', c1)" "vnode_inv ch"
  shows "vnode_inv (ch\<lparr>ch_vid := c1, ch_frame := fi\<rparr>)"
  using assms get_frame_keeps[OF assms(1)] get_frame_None[OF assms(1)] release_keeps[OF assms(2)] vnode_inv_vid
  by metis

lemma fetch_frame_keeps:
  assumes "fetch_frame env f ch = Some (e, f', ch')" "vnode_inv ch"
  shows "vnode_inv ch' \<and> ch_status ch' = ch_status ch \<and> ch_threads ch' = ch_threads ch"
proof -
  obtain r fi c where g: "get_video_frame env (ch_frame ch) (ch_vid ch) = Some (r, fi, c)"
    using assms(1) by (auto simp: fetch_frame_def bind_eq_Some_conv)
  have "ch' = ch\<lparr>ch_vid := c, ch_frame := fi\<rparr> \<or>
    (\<exists>r' c1. release_video_frame env fi c = Some (r', c1) \<and> ch' = ch\<lparr>ch_vid := c1, ch_frame := fi\<rparr>)"
    using assms(1) g by (auto simp: fetch_frame_def bind_eq_Some_conv Let_def split: if_splits)
  then show ?thesis
  proof
    assume "ch' = ch\<lparr>ch_vid := c, ch_frame := fi\<rparr>"
    then show ?thesis using get_frame_keeps[OF g] get_frame_None[OF g] vnode_inv_vid assms(2) by auto
  next
    assume "\<exists>r' c1. release_video_frame env fi c = Some (r', c1) \<and> ch' = ch\<lparr>ch_vid := c1, ch_frame := fi\<rparr>"
    then show ?thesis using frame_round_trip[OF g _ assms(2)] by auto
  qed
qed

lemma fetch_frames_keeps:
  "fetch_frames envs e f ch = Some (e', f', ch') \<Longrightarrow> vnode_inv ch \<Longrightarrow>
   vnode_inv ch' \<and> ch_status ch' = ch_status ch \<and> ch_threads ch' = ch_threads ch"
proof (induction envs arbitrary: e f ch)
  case (Cons env envs)
  obtain r fi c where g: "get_video_frame env (ch_frame ch) (ch_vid ch) = Some (r, fi, c)"
    using Cons.prems(1) by (auto simp: bind_eq_Some_conv)
  have "(\<exists>e1 f1. fetch_frames envs e1 f1 (ch\<lparr>ch_vid := c, ch_frame := fi\<rparr>) = Some (e', f', ch')) \<or>
    (\<exists>r' c1 e1 f1. release_video_frame env fi c = Some (r', c1) \<and>
      fetch_frames envs e1 f1 (ch\<lparr>ch_frame := fi, ch_vid := c1\<rparr>) = Some (e', f', ch'))"
    using Cons.prems(1) g by (auto simp: bind_eq_Some_conv Let_def split: if_splits)
  then show ?case
  proof (elim disjE exE conjE)
    fix e1 f1 assume f: "fetch_frames envs e1 f1 (ch\<lparr>ch_vid := c, ch_frame := fi\<rparr>) = Some (e', f', ch')"
    have "vnode_inv (ch\<lparr>ch_vid := c, ch_frame := fi\<rparr>)"
      using get_frame_keeps[OF g] get_frame_None[OF g] vnode_inv_vid Cons.prems(2) by auto
    from Cons.IH[OF f this] show ?thesis by simp
  next
    fix r' c1 e1 f1 assume r: "release_video_frame env fi c = Some (r', c1)"
      and f: "fetch_frames envs e1 f1 (ch\<lparr>ch_frame := fi, ch_vid := c1\<rparr>) = Some (e', f', ch')"
    have "vnode_inv (ch\<lparr>ch_frame := fi, ch_vid := c1\<rparr>)"
      using frame_round_trip[OF g r Cons.prems(2)] by (simp add: vnode_inv_def)
    from Cons.IH[OF f this] show ?thesis by simp
  qed
qed simp

lemma give_up_result:
  "give_up env ch = Some ch' \<Longrightarrow> vnode_inv ch' \<and> ch_status ch' = ch_status ch - {CAP_STATUS_ON, CAP_THREAD_RUNNING} \<and>
    ch_threads ch' = ch_threads ch"
  by (auto simp: give_up_def vnode_inv_def shut_video_closed)

text \<open>A round keeps the node; the thread ends exactly when it takes its running flag back.\<close>

lemma loop_round_keeps:
  assumes "frame_loop_round env w k ch q = Some (r, ch', q')" "vnode_inv ch" "k < 10"
  shows "vnode_inv ch' \<and> ch_threads ch' = ch_threads ch \<and>
    (case r of None \<Rightarrow> CAP_THREAD_RUNNING \<notin> ch_status ch'
     | Some k' \<Rightarrow> k' < 10 \<and> (CAP_THREAD_RUNNING \<in> ch_status ch' \<longleftrightarrow> CAP_THREAD_RUNNING \<in> ch_status ch))"
proof -
  consider (off) "CAP_STATUS_ON \<notin> ch_status ch"
    | (stop) "CAP_STATUS_ON \<in> ch_status ch" "CAP_THREAD_STOP \<in> ch_status ch"
    | (on) "CAP_STATUS_ON \<in> ch_status ch" "CAP_THREAD_STOP \<notin> ch_status ch" by blast
  then show ?thesis
  proof cases
    case off
    then have "video_dev (ch_vid ch) = None" using assms(2) by (auto simp: vnode_inv_def)
    then show ?thesis using off assms(1) by (auto simp: frame_loop_round_def vnode_inv_def)
  next
    case stop
    then show ?thesis using assms(1) by (auto simp: frame_loop_round_def dest: give_up_result)
  next
    case on
    obtain ret fi c where g: "get_video_frame env (ch_frame ch) (ch_vid ch) = Some (ret, fi, c)"
      using assms(1) on by (auto simp: frame_loop_round_def bind_eq_Some_conv)
    let ?ch1 = "ch\<lparr>ch_vid := c, ch_frame := fi\<rparr>"
    have i1: "vnode_inv ?ch1" using get_frame_keeps[OF g] get_frame_None[OF g] vnode_inv_vid assms(2) by auto
    show ?thesis
    proof (cases "ret < 0")
      case True
      then show ?thesis using assms(1) on g i1
        by (auto simp: frame_loop_round_def Let_def split: if_splits dest: give_up_result)
    next
      case False
      then obtain r' c1 where rel: "release_video_frame env fi c = Some (r', c1)" and r: "r = Some 0"
        and c: "ch_vid ch' = c1" "ch_frame ch' = fi" "ch_threads ch' = ch_threads ch"
        and st: "ch_status ch' = (if CAP_RAW_FLOW_START \<in> ch_status ch then insert CAP_RAW_FLOW_RUNNING (ch_status ch)
             else ch_status ch - {CAP_RAW_FLOW_RUNNING})"
        using assms(1) on g by (auto simp: frame_loop_round_def Let_def bind_eq_Some_conv split: if_splits)
      have "vnode_inv ch'" using frame_round_trip[OF g rel assms(2)] c st by (auto simp: vnode_inv_def)
      then show ?thesis using r c st by simp
    qed
  qed
qed

section \<open>Reachable states of the module\<close>

definition starting :: "cap_client \<Rightarrow> nat \<Rightarrow> bool" where
  "starting cl i \<longleftrightarrow> (\<exists>a. cl = WaitStarted i a)"

definition chan_inv :: "cap_client \<Rightarrow> nat \<Rightarrow> channel \<Rightarrow> bool" where
  "chan_inv cl i ch \<longleftrightarrow> vnode_inv ch \<and>
     (ch_threads ch = [] \<or> ch_threads ch = [None] \<and> starting cl i \<or> (\<exists>k<10. ch_threads ch = [Some k])) \<and>
     (CAP_THREAD_RUNNING \<in> ch_status ch \<longleftrightarrow> (\<exists>k. ch_threads ch = [Some k]))"

fun client_chan :: "cap_client \<Rightarrow> nat option" where
  "client_chan Idle = None"
| "client_chan (WaitStarted i a) = Some i"
| "client_chan (FetchOne i f) = Some i"
| "client_chan (FetchMany i f) = Some i"
| "client_chan (RawSetup i f) = Some i"
| "client_chan (RawArm i) = Some i"
| "client_chan (WaitRawOn i) = Some i"
| "client_chan (WaitRawOff i) = Some i"
| "client_chan (StopChan i b) = Some i"

text \<open>A channel that is off and has no thread.\<close>

definition quiet_chan :: "channel \<Rightarrow> bool" where
  "quiet_chan ch \<longleftrightarrow> ch_threads ch = [] \<and> CAP_STATUS_ON \<notin> ch_status ch"

definition quiet :: "nat set \<Rightarrow> cap_module \<Rightarrow> bool" where
  "quiet A s \<longleftrightarrow> (\<forall>i \<in> A. quiet_chan (channels s ! i))"

definition cap_inv :: "cap_module \<Rightarrow> bool" where
  "cap_inv s \<longleftrightarrow> length (channels s) = CAPTURE_CHANNEL_MAX \<and>
     (\<forall>i<CAPTURE_CHANNEL_MAX. chan_inv (client s) i (channels s ! i)) \<and>
     (g_media_dev s \<longleftrightarrow> g_cap_init s) \<and> (\<not> g_cap_init s \<longrightarrow> quiet {..<CAPTURE_CHANNEL_MAX} s) \<and>
     (\<forall>i. client_chan (client s) = Some i \<longrightarrow> i < CAPTURE_CHANNEL_MAX) \<and>
     (\<forall>i b. client s = StopChan i b \<longrightarrow> quiet {..<i} s)"

text \<open>No frame thread is waiting for its first section.\<close>

definition settled :: "cap_module \<Rightarrow> bool" where
  "settled s \<longleftrightarrow> (\<forall>j<CAPTURE_CHANNEL_MAX. ch_threads (channels s ! j) \<noteq> [None])"

lemma settledI:
  assumes "cap_inv s" "\<forall>i a. client s = WaitStarted i a \<longrightarrow> CAP_THREAD_RUNNING \<in> ch_status (channels s ! i)"
  shows "settled s"
  using assms by (fastforce simp: settled_def cap_inv_def chan_inv_def starting_def)

lemma settled_chan_inv:
  "cap_inv s \<Longrightarrow> settled s \<Longrightarrow> j < CAPTURE_CHANNEL_MAX \<Longrightarrow> chan_inv cl j (channels s ! j)"
  by (fastforce simp: settled_def cap_inv_def chan_inv_def)

lemma put_channel_sel [simp]:
  "channels (put_channel i ch s) = (channels s)[i := ch]" "client (put_channel i ch s) = client s"
  "g_media_dev (put_channel i ch s) = g_media_dev s" "g_cap_init (put_channel i ch s) = g_cap_init s"
  by (simp_all add: put_channel_def)

text \<open>The client goes on to \<open>cl\<close>, after changing channel \<open>i\<close> at most.\<close>

lemma client_step_inv:
  assumes "cap_inv s" "settled s" "i < CAPTURE_CHANNEL_MAX" "chan_inv cl i ch"
    and "g_cap_init s \<or> (quiet_chan (channels s ! i) \<longrightarrow> quiet_chan ch)"
    and "channels s' = (channels s)[i := ch]" "client s' = cl" "g_media_dev s' = g_media_dev s" "g_cap_init s' = g_cap_init s"
    and "\<forall>j. client_chan cl = Some j \<longrightarrow> j < CAPTURE_CHANNEL_MAX" "\<forall>j b. cl = StopChan j b \<longrightarrow> quiet {..<j} s'"
  shows "cap_inv s'"
  using assms settled_chan_inv[OF assms(1,2), of _ cl] by (auto simp: cap_inv_def quiet_def nth_list_update)

lemma client_only_inv:
  assumes "cap_inv s" "settled s" "channels s' = channels s" "client s' = cl" "g_media_dev s' = g_media_dev s"
    and "g_cap_init s' = g_cap_init s"
    and "\<forall>j. client_chan cl = Some j \<longrightarrow> j < CAPTURE_CHANNEL_MAX" "\<forall>j b. cl = StopChan j b \<longrightarrow> quiet {..<j} s'"
  shows "cap_inv s'"
  using assms settled_chan_inv[OF assms(1,2), of _ cl] by (auto simp: cap_inv_def quiet_def)

lemma finish_sel [simp]:
  "channels (finish e f s) = channels s" "client (finish e f s) = Idle" "g_media_dev (finish e f s) = g_media_dev s"
  "g_cap_init (finish e f s) = g_cap_init s" "raw_exits (finish e f s) = raw_exits s"
  by (simp_all add: finish_def)

lemma finish_inv: "cap_inv s \<Longrightarrow> settled s \<Longrightarrow> cap_inv (finish e f s)"
  by (rule client_only_inv[of s _ Idle]) simp_all

lemma started_inv:
  assumes "cap_inv s" "settled s" "i < CAPTURE_CHANNEL_MAX" "g_cap_init s" "vnode_inv ch'"
    and "CAP_THREAD_RUNNING \<in> ch_status ch' \<longleftrightarrow> CAP_THREAD_RUNNING \<in> ch_status (channels s ! i)"
    and "ch_threads ch' = ch_threads (channels s ! i) @
      (if e = CAP_ERR_NONE \<and> CAP_THREAD_RUNNING \<notin> ch_status (channels s ! i) then [None] else [])"
  shows "e = CAP_ERR_NONE \<Longrightarrow> chan_inv (WaitStarted i a) i ch'" "e \<noteq> CAP_ERR_NONE \<Longrightarrow> chan_inv Idle i ch'"
  using settled_chan_inv[OF assms(1,2,3), of Idle] assms(5-)
  by (auto simp: chan_inv_def starting_def split: if_splits)

lemma valid_sel_nat: "VALID_VIDEO_SEL c \<Longrightarrow> nat c < CAPTURE_CHANNEL_MAX"
  by (auto simp: VALID_VIDEO_SEL_def)

lemma call_start_inv:
  assumes "call_start env after f s = Some s'" "cap_inv s" "settled s"
  shows "cap_inv s'"
proof (cases "VALID_VIDEO_SEL (cf_channel f) \<and> g_sensor_set s \<noteq> {}")
  case True
  let ?i = "nat (cf_channel f)"
  note i = valid_sel_nat[OF conjunct1[OF True]]
  have m: "g_media_dev s" "g_cap_init s" using assms(1,2) True by (auto simp: call_start_def cap_inv_def split: if_splits)
  obtain e f1 ch where v: "start_video env True f (channels s ! ?i) = Some (e, f1, ch)"
    and s': "s' = (if e = CAP_ERR_NONE then (put_channel ?i ch s)\<lparr>client := WaitStarted ?i (after f1)\<rparr> else finish e (Some f1) (put_channel ?i ch s))"
    using assms(1) True m by (auto simp: call_start_def Let_def bind_eq_Some_conv)
  have "vnode_inv (channels s ! ?i)" using assms(2) i by (auto simp: cap_inv_def chan_inv_def)
  from start_video_keeps[OF v this] started_inv[OF assms(2,3) i m(2), of ch e] s' show ?thesis
    by (cases "e = CAP_ERR_NONE") (intro client_step_inv[OF assms(2,3) i _ disjI1[OF m(2)], of "client s'" ch s']; simp add: i)+
next
  case False
  then consider "\<not> VALID_VIDEO_SEL (cf_channel f)" | "VALID_VIDEO_SEL (cf_channel f)" "g_sensor_set s = {}" by blast
  then show ?thesis
  proof cases
    case 1
    then show ?thesis using assms finish_inv by (auto simp: call_start_def)
  next
    case 2
    then have s': "s' = finish CAP_ERR_NOT_SET_INPUT (Some f) (put_channel (nat (cf_channel f)) (channels s ! nat (cf_channel f)) s)"
      using assms(1) by (auto simp: call_start_def start_video_def Let_def)
    show ?thesis by (rule client_only_inv[OF assms(2,3), of _ Idle]) (simp_all add: s')
  qed
qed

lemma call_input_inv:
  assumes "call_input env si s = Some s'" "cap_inv s" "settled s"
  shows "cap_inv s'"
proof (cases "VALID_VIDEO_SEL (si_channel si)")
  case True
  let ?i = "nat (si_channel si)"
  note i = valid_sel_nat[OF True]
  have m: "g_media_dev s" "g_cap_init s" using assms(1,2) True by (auto simp: call_input_def cap_inv_def split: if_splits)
  obtain e ch where v: "set_sensor_input env si (channels s ! ?i) = Some (e, ch)"
    and s': "s' = (if e = CAP_ERR_NONE then (put_channel ?i ch s)\<lparr>g_sensor_set := insert ?i (g_sensor_set s), client := WaitStarted ?i AfterInput\<rparr>
      else finish e None (put_channel ?i ch s))"
    using assms(1) True m by (auto simp: call_input_def Let_def bind_eq_Some_conv)
  have "vnode_inv (channels s ! ?i)" using assms(2) i by (auto simp: cap_inv_def chan_inv_def)
  from set_sensor_input_keeps[OF v this] started_inv[OF assms(2,3) i m(2), of ch e] s' show ?thesis
    by (cases "e = CAP_ERR_NONE") (intro client_step_inv[OF assms(2,3) i _ disjI1[OF m(2)], of "client s'" ch s']; simp add: i)+
next
  case False
  then show ?thesis using assms finish_inv by (auto simp: call_input_def)
qed

lemma status_chan_inv:
  "chan_inv cl i ch \<Longrightarrow> CAP_STATUS_ON \<in> A \<longleftrightarrow> CAP_STATUS_ON \<in> ch_status ch \<Longrightarrow>
   CAP_THREAD_RUNNING \<in> A \<longleftrightarrow> CAP_THREAD_RUNNING \<in> ch_status ch \<Longrightarrow> chan_inv cl i (ch\<lparr>ch_status := A\<rparr>)"
  by (auto simp: chan_inv_def vnode_inv_def)

lemma stop_all_inv:
  assumes "cap_inv s" "settled s" "g_cap_init s"
  shows "cap_inv (s\<lparr>channels := map (\<lambda>ch. ch\<lparr>ch_status := insert CAP_THREAD_STOP (ch_status ch)\<rparr>) (channels s), client := StopChan 0 b\<rparr>)"
proof -
  have "chan_inv (StopChan 0 b) i ((channels s ! i)\<lparr>ch_status := insert CAP_THREAD_STOP (ch_status (channels s ! i))\<rparr>)"
    if "i < CAPTURE_CHANNEL_MAX" for i
    using settled_chan_inv[OF assms(1,2) that] by (intro status_chan_inv) auto
  then show ?thesis using assms by (auto simp: cap_inv_def quiet_def)
qed

lemma init_capture_inv:
  assumes "length (channels s) = CAPTURE_CHANNEL_MAX" "quiet {..<CAPTURE_CHANNEL_MAX} s" "\<not> g_cap_init s" "\<not> g_media_dev s"
    and "\<forall>i<CAPTURE_CHANNEL_MAX. chan_inv Idle i (channels s ! i)"
  shows "cap_inv (init_capture ok s)"
proof (cases ok)
  case True
  then show ?thesis using assms
    by (auto simp: init_capture_def cap_inv_def chan_inv_def vnode_inv_def fresh_channel_def reset_cap_params_def quiet_def quiet_chan_def)
next
  case False
  then show ?thesis using assms by (auto simp: init_capture_def cap_inv_def quiet_def)
qed

lemma stop_raw_flow_inv:
  assumes "cap_inv s" "settled s"
  shows "cap_inv (stop_raw_flow c s)"
proof (cases "VALID_VIDEO_SEL c")
  case True
  let ?ch = "channels s ! nat c"
  note i = valid_sel_nat[OF True]
  have "chan_inv (WaitRawOff (nat c)) (nat c) (?ch\<lparr>ch_status := ch_status ?ch - {CAP_RAW_FLOW_START}\<rparr>)"
    using settled_chan_inv[OF assms i] by (intro status_chan_inv) auto
  then show ?thesis using True
    by (intro client_step_inv[OF assms i, of "WaitRawOff (nat c)"]) (auto simp: stop_raw_flow_def Let_def quiet_chan_def i)
next
  case False
  then show ?thesis using finish_inv[OF assms] by (simp add: stop_raw_flow_def)
qed

lemma take_raw_inv:
  assumes "get_raw_flow_frame f s = Some s'" "cap_inv s" "settled s"
  shows "cap_inv s'"
proof (rule client_only_inv[OF assms(2,3), of _ Idle])
  show "channels s' = channels s" "client s' = Idle" "g_media_dev s' = g_media_dev s" "g_cap_init s' = g_cap_init s"
    using assms(1) by (auto simp: get_raw_flow_frame_def bind_eq_Some_conv split: if_splits)
qed simp_all

lemma call_inv:
  assumes "cap_call env r s = Some s'" "cap_inv s" "client s = Idle"
  shows "cap_inv s'"
proof -
  have st: "settled s" using assms(2,3) by (intro settledI) auto
  have idle: "\<forall>i<CAPTURE_CHANNEL_MAX. chan_inv Idle i (channels s ! i)" using settled_chan_inv[OF assms(2) st] by blast
  have init: "cap_inv (init_capture_module ok s)" for ok
    using stop_all_inv[OF assms(2) st] init_capture_inv[OF _ _ _ _ idle] assms(2)
    by (auto simp: init_capture_module_def cap_inv_def)
  have exit: "cap_inv (exit_capture_module s)"
    using stop_all_inv[OF assms(2) st] finish_inv[OF assms(2) st] by (auto simp: exit_capture_module_def)
  show ?thesis
    using assms(1) call_input_inv[OF _ assms(2) st] call_start_inv[OF _ assms(2) st] stop_raw_flow_inv[OF assms(2) st]
      take_raw_inv[OF _ assms(2) st] init exit finish_inv[OF assms(2) st]
    by (cases r) (auto simp: start_raw_flow_def split: if_splits)
qed

lemma stop_channel_inv:
  assumes "stop_channel env ok i again s = Some s'" "cap_inv s" "client s = StopChan i again"
    and "CAP_THREAD_RUNNING \<notin> ch_status (channels s ! i)"
  shows "cap_inv s'"
proof -
  have i: "i < CAPTURE_CHANNEL_MAX" and q: "quiet {..<i} s" using assms(2,3) by (auto simp: cap_inv_def)
  have st: "settled s" using assms(2,3) by (intro settledI) auto
  let ?ch = "channels s ! i"
  obtain c where c: "(if CAP_STATUS_ON \<in> ch_status ?ch then shut_video env (ch_vid ?ch) else Some (ch_vid ?ch)) = Some c"
    using assms(1) by (auto simp: stop_channel_def Let_def bind_eq_Some_conv)
  let ?ch1 = "?ch\<lparr>ch_vid := c, ch_status := ch_status ?ch - {CAP_STATUS_ON}\<rparr>"
  let ?s1 = "put_channel i ?ch1 s"
  have ci: "chan_inv cl i ?ch" for cl by (rule settled_chan_inv[OF assms(2) st i])
  have th: "ch_threads ?ch = []" using ci[of Idle] assms(4) by (auto simp: chan_inv_def starting_def)
  have "video_dev c = None" using reopened_node[OF c] ci[of Idle] by (simp add: chan_inv_def)
  then have ch1: "chan_inv cl i ?ch1" "quiet_chan ?ch1" for cl
    using th assms(4) by (auto simp: chan_inv_def vnode_inv_def quiet_chan_def)
  have len: "length (channels s) = CAPTURE_CHANNEL_MAX" using assms(2) by (simp add: cap_inv_def)
  have q1: "quiet {..i} ?s1" using q ch1 i len by (auto simp: quiet_def nth_list_update)
  have all: "\<forall>j<CAPTURE_CHANNEL_MAX. chan_inv cl j (channels ?s1 ! j)" for cl
    using settled_chan_inv[OF assms(2) st] ch1 len i by (auto simp: nth_list_update)
  show ?thesis
  proof (cases "i + 1 < CAPTURE_CHANNEL_MAX")
    case True
    then have s': "s' = ?s1\<lparr>client := StopChan (i + 1) again\<rparr>"
      using assms(1) c by (auto simp: stop_channel_def Let_def)
    have "quiet {..<i + 1} s'" using q1 by (auto simp: s' quiet_def)
    then show ?thesis using True ch1
      by (intro client_step_inv[OF assms(2) st i, of "StopChan (i + 1) again" ?ch1]) (auto simp: s')
  next
    case False
    let ?s2 = "?s1\<lparr>g_media_dev := False, g_cap_init := False\<rparr>"
    have s': "s' = (if again then init_capture ok ?s2 else finish CAP_ERR_NONE None ?s2)"
      using assms(1) c False by (auto simp: stop_channel_def Let_def)
    have "i = 3" using i False by simp
    then have q2: "quiet {..<CAPTURE_CHANNEL_MAX} ?s2" using q1 by (auto simp: quiet_def)
    show ?thesis
    proof (cases again)
      case True
      then show ?thesis using s' init_capture_inv[of ?s2] q2 all len by simp
    next
      case False
      then have s': "s' = finish CAP_ERR_NONE None ?s2" using s' by simp
      show ?thesis using q2 all[of Idle] len unfolding cap_inv_def s' by (simp add: quiet_def)
    qed
  qed
qed

lemma fetched_inv:
  assumes "fetched i r s = Some s'" "cap_inv s" "settled s" "i < CAPTURE_CHANNEL_MAX"
    and "\<And>e f ch. r = Some (e, f, ch) \<Longrightarrow> vnode_inv ch \<and> ch_status ch = ch_status (channels s ! i) \<and> ch_threads ch = ch_threads (channels s ! i)"
  shows "cap_inv s'"
proof -
  obtain e f ch where r: "r = Some (e, f, ch)" and s': "s' = finish e (Some f) (put_channel i ch s)"
    using assms(1) by (auto simp: fetched_def)
  have "chan_inv Idle i ch" using settled_chan_inv[OF assms(2-4), of Idle] assms(5)[OF r] by (auto simp: chan_inv_def)
  then show ?thesis using assms(5)[OF r]
    by (intro client_step_inv[OF assms(2-4), of Idle ch]) (auto simp: s' quiet_chan_def)
qed

lemma resume_inv:
  assumes "cap_resume envs ok s = Some s'" "cap_inv s" "client_enabled envs s"
  shows "cap_inv s'"
proof -
  have st: "settled s" using assms(2,3) by (intro settledI) (auto simp: client_enabled_def)
  have i: "client_chan (client s) = Some i \<Longrightarrow> i < CAPTURE_CHANNEL_MAX" for i using assms(2) by (simp add: cap_inv_def)
  have ni: "i < CAPTURE_CHANNEL_MAX \<Longrightarrow> vnode_inv (channels s ! i)" for i using assms(2) by (auto simp: cap_inv_def chan_inv_def)
  show ?thesis
  proof (cases "client s")
    case Idle
    then show ?thesis using assms(3) by (simp add: client_enabled_def)
  next
    case (WaitStarted j a)
    then show ?thesis using assms(1) i[of j] finish_inv[OF assms(2) st]
      by (cases a) (auto simp: cap_resume_def intro!: client_only_inv[OF assms(2) st])
  next
    case (FetchOne j f)
    show ?thesis
      by (rule fetched_inv[of j "fetch_frame (hd envs) f (channels s ! j)" s])
        (use assms(1,2) FetchOne i[of j] ni[of j] st in \<open>auto simp: cap_resume_def dest: fetch_frame_keeps\<close>)
  next
    case (FetchMany j f)
    show ?thesis
      by (rule fetched_inv[of j "fetch_frames envs CAP_ERR_NONE (f\<lparr>rn_length := 0\<rparr>) (channels s ! j)" s])
        (use assms(1,2) FetchMany i[of j] ni[of j] st in \<open>auto simp: cap_resume_def dest: fetch_frames_keeps\<close>)
  next
    case (RawSetup j f)
    have "channels s' = channels s" "g_media_dev s' = g_media_dev s" "g_cap_init s' = g_cap_init s" "client s' \<in> {Idle, RawArm j}"
      using assms(1) RawSetup by (auto simp: cap_resume_def raw_setup_def bind_eq_Some_conv Let_def split: if_splits)
    then show ?thesis using RawSetup i[of j] by (intro client_only_inv[OF assms(2) st, of s' "client s'"]) auto
  next
    case (RawArm j)
    let ?ch = "channels s ! j"
    have j: "j < CAPTURE_CHANNEL_MAX" using RawArm i[of j] by simp
    have "chan_inv (WaitRawOn j) j (?ch\<lparr>ch_status := insert CAP_RAW_FLOW_START (ch_status ?ch)\<rparr>)"
      using settled_chan_inv[OF assms(2) st j] by (intro status_chan_inv) auto
    then show ?thesis using assms(1) RawArm j
      by (intro client_step_inv[OF assms(2) st j, of "WaitRawOn j"]) (auto simp: cap_resume_def raw_arm_def Let_def quiet_chan_def)
  next
    case (WaitRawOn j)
    then show ?thesis using assms(1) finish_inv[OF assms(2) st] by (auto simp: cap_resume_def)
  next
    case (WaitRawOff j)
    then show ?thesis using assms(1) by (intro client_only_inv[OF assms(2) st, of s' Idle]) (auto simp: cap_resume_def)
  next
    case (StopChan j b)
    then show ?thesis using assms stop_channel_inv[of "hd envs" ok j b s s'] by (auto simp: cap_resume_def client_enabled_def)
  qed
qed

lemma thread_inv:
  assumes "thread_step env w i t s = Some s'" "cap_inv s" "i < length (channels s)" "t < length (ch_threads (channels s ! i))"
  shows "cap_inv s'"
proof -
  let ?ch = "channels s ! i"
  have i: "i < CAPTURE_CHANNEL_MAX" and ci: "chan_inv (client s) i ?ch" and len: "length (channels s) = CAPTURE_CHANNEL_MAX"
    using assms(2,3) by (auto simp: cap_inv_def)
  have t: "t = 0" using assms(4) ci by (auto simp: chan_inv_def)
  have nq: "g_cap_init s" "g_media_dev s" "\<forall>j b. client s = StopChan j b \<longrightarrow> \<not> i < j"
    using assms(2,4) i by (auto simp: cap_inv_def quiet_def quiet_chan_def)
  have "\<exists>ch q. s' = put_channel i ch (s\<lparr>raw_q := q\<rparr>) \<and> chan_inv (client s) i ch"
  proof (cases "ch_threads ?ch ! t")
    case None
    then have "ch_threads ?ch = [None]" using ci t assms(4) by (auto simp: chan_inv_def)
    then have "s' = put_channel i (?ch\<lparr>ch_threads := [Some 0], ch_status := insert CAP_THREAD_RUNNING (ch_status ?ch)\<rparr>) (s\<lparr>raw_q := raw_q s\<rparr>)"
      using assms(1) nq t by (simp add: thread_step_def Let_def)
    moreover have "chan_inv (client s) i (?ch\<lparr>ch_threads := [Some 0], ch_status := insert CAP_THREAD_RUNNING (ch_status ?ch)\<rparr>)"
      using ci by (auto simp: chan_inv_def vnode_inv_def)
    ultimately show ?thesis by blast
  next
    case (Some k)
    then have th: "ch_threads ?ch = [Some k]" "k < 10" "CAP_THREAD_RUNNING \<in> ch_status ?ch" using ci t assms(4) by (auto simp: chan_inv_def)
    obtain r ch1 q where l: "frame_loop_round env w k ?ch (raw_q s) = Some (r, ch1, q)"
      and s': "s' = put_channel i (ch1\<lparr>ch_threads := (case r of None \<Rightarrow> drop_at t (ch_threads ch1)
            | Some k1 \<Rightarrow> (ch_threads ch1)[t := Some k1])\<rparr>) (s\<lparr>raw_q := q\<rparr>)"
      using assms(1) Some by (auto simp: thread_step_def Let_def bind_eq_Some_conv)
    from loop_round_keeps[OF l _ th(2)] ci have "vnode_inv ch1" "ch_threads ch1 = [Some k]"
      "case r of None \<Rightarrow> CAP_THREAD_RUNNING \<notin> ch_status ch1 | Some k' \<Rightarrow> k' < 10 \<and> CAP_THREAD_RUNNING \<in> ch_status ch1"
      using th by (auto simp: chan_inv_def split: option.splits)
    then have "chan_inv (client s) i (ch1\<lparr>ch_threads := (case r of None \<Rightarrow> drop_at t (ch_threads ch1)
            | Some k1 \<Rightarrow> (ch_threads ch1)[t := Some k1])\<rparr>)"
      using t by (auto simp: chan_inv_def vnode_inv_def drop_at_def split: option.splits)
    with s' show ?thesis by blast
  qed
  then show ?thesis using assms(2) i len nq by (auto simp: cap_inv_def quiet_def nth_list_update)
qed

lemma cap_step_inv: "cap_step s s' \<Longrightarrow> cap_inv s \<Longrightarrow> cap_inv s'"
proof (induction rule: cap_step.induct)
  case (cap_stepI m s s')
  then show ?case
  proof (cases m)
    case FreeRaw
    then show ?thesis using cap_stepI by (auto simp: cap_inv_def quiet_def)
  qed (auto intro: call_inv resume_inv thread_inv)
qed

lemma first_module_inv: "cap_inv first_module"
  by (simp add: cap_inv_def first_module_def first_channel_def chan_inv_def vnode_inv_def quiet_def quiet_chan_def)

interpretation capture: invariant_system cap_step "\<lambda>s. s = first_module" cap_inv
  by unfold_locales (auto intro: first_module_inv cap_step_inv)

section \<open>Closing a node\<close>

lemma disable_defined:
  assumes "vid_ready c"
  shows "disable_video env c \<noteq> None"
proof -
  obtain vd bs where v: "video_dev c = Some vd" "vd_pool vd = Some bs" "vd_nbufs vd \<le> length bs" "pool_ok (vd_nplanes vd) bs"
    using assms by (auto simp: vid_ready_def)
  have "unmap_buffers env (vd_nplanes vd) [0..<vd_nbufs vd] bs m \<noteq> None" for m
    using v(3) by (intro unmap_buffers_defined[OF v(4)]) auto
  then have "\<exists>r. unmap_buffers env (vd_nplanes vd) [0..<vd_nbufs vd] bs m = Some r" for m by blast
  then obtain r where "unmap_buffers env (vd_nplanes vd) [0..<vd_nbufs vd] bs m = Some (r m)" for m by metis
  then have "video_free_buffers env vd c' \<noteq> None" for c'
    using v(2) by (simp add: video_free_buffers_def Let_def case_prod_unfold)
  then have "\<exists>x. video_free_buffers env vd c' = Some x" for c' by blast
  then obtain f where "video_free_buffers env vd c' = Some (f c')" for c' by metis
  then show ?thesis using v(1) by (simp add: disable_video_def case_prod_unfold)
qed

lemma shut_video_defined: "node_ok c \<Longrightarrow> \<exists>c'. shut_video env c = Some c'"
  using disable_defined[of c env] by (auto simp: node_ok_def shut_video_def disable_video_def)

lemma give_up_defined: "vnode_inv ch \<Longrightarrow> \<exists>ch'. give_up env ch = Some ch'"
  using shut_video_defined[OF vnode_inv_vid(2), of ch env] by (auto simp: give_up_def)

text \<open>The rounds of a frame thread that gets the lock each time, with the kernel's answers to each.\<close>

fun loop_rounds :: "(vid_env \<times> bool) list \<Rightarrow> nat \<Rightarrow> channel \<Rightarrow> raw_queue \<Rightarrow> (nat option \<times> channel \<times> raw_queue) option" where
  "loop_rounds [] k ch q = Some (Some k, ch, q)"
| "loop_rounds ((env, w) # rs) k ch q = do {
     (r, ch1, q1) \<leftarrow> frame_loop_round env w k ch q;
     case r of None \<Rightarrow> Some (None, ch1, q1) | Some k1 \<Rightarrow> loop_rounds rs k1 ch1 q1
   }"

text \<open>A kernel that delivers no frame: \<open>select\<close> fails or times out, or \<open>VIDIOC_DQBUF\<close> fails.\<close>

definition no_frame :: "vid_env \<Rightarrow> bool" where
  "no_frame env \<longleftrightarrow> select_ret env \<in> {- 1, 0} \<or> dqbuf env = None"

lemma no_frame_get:
  "no_frame env \<Longrightarrow> get_video_frame env fi c = Some (- 1, fi, c)"
  by (auto simp: no_frame_def get_video_frame_def video_wait_buffer_def video_dequeue_buffer_def split: option.splits)

lemma starved_round:
  assumes "no_frame env" "CAP_STATUS_ON \<in> ch_status ch" "CAP_THREAD_STOP \<notin> ch_status ch"
  shows "frame_loop_round env w k ch q =
    (if k + 1 \<ge> 10 then map_option (\<lambda>ch'. (None, ch', q)) (give_up env ch) else Some (Some (k + 1), ch, q))"
proof -
  have "ch\<lparr>ch_vid := ch_vid ch, ch_frame := ch_frame ch\<rparr> = ch" by (cases ch) simp
  then show ?thesis using no_frame_get[OF assms(1)] assms(2,3) by (simp add: frame_loop_round_def Let_def)
qed

lemma starved_prefix:
  assumes "\<forall>(env, w) \<in> set rs. no_frame env" "k + length rs < 10"
    and "CAP_STATUS_ON \<in> ch_status ch" "CAP_THREAD_STOP \<notin> ch_status ch"
  shows "loop_rounds (rs @ rs') k ch q = loop_rounds rs' (k + length rs) ch q"
  using assms(1,2)
proof (induction rs arbitrary: k)
  case (Cons r rs)
  then show ?case using Cons.IH[of "k + 1"] assms(3,4) by (cases r) (auto simp: starved_round)
qed simp

section \<open>A kernel that grants everything\<close>

definition demo_pix :: pix_format where
  "demo_pix = \<lparr>pf_width = 4, pf_height = 2, pf_pixelformat = V4L2_PIX_FMT_NV12M, pf_field = 1, pf_num_planes = 2,
     pf_bytesperline = [4, 4, 0, 0, 0, 0, 0, 0]\<rparr>"

definition demo_kernel :: vid_env where
  "demo_kernel = \<lparr>dev_alloc = True, entity_found = True, open_fd = 5, vid_errno = 1, found_isp_id = 0, s_input_ok = True,
     s_parm_ok = True, s_fmt_ok = True, g_fmt = Some demo_pix, pool_alloc = True, buffers_alloc = True, planes_alloc = (\<lambda>i. True),
     reqbufs = Some, querybuf = (\<lambda>i. Some [8, 4]), mmap_ok = (\<lambda>i j. True), munmap_ok = (\<lambda>i j. True), relbufs_ok = True,
     qbuf_ok = (\<lambda>i. True), stream_on_ok = True, stream_off_ok = True, select_ret = 1,
     dqbuf = Some \<lparr>dq_index = 0, dq_bytesused = 12, dq_reserved = 0, dq_reserved2 = 0, dq_timestamp = 0, dq_error = False, dq_offsets = [0, 8]\<rparr>,
     plane_byte = (\<lambda>b p k. of_nat (100 * p + k))\<rparr>"

definition demo_input :: sensor_input where
  "demo_input = \<lparr>si_channel = 0, si_width = 4, si_height = 2, si_fps = 30, si_wdr = 0, si_index = 0\<rparr>"

text \<open>Running a list of moves, each of them enabled.\<close>

fun run_moves :: "cap_move list \<Rightarrow> cap_module \<Rightarrow> cap_module option" where
  "run_moves [] s = Some s"
| "run_moves (m # ms) s = (if move_enabled m s then Option.bind (run_move m s) (run_moves ms) else None)"

lemma run_moves_steps: "run_moves ms s = Some s' \<Longrightarrow> cap_step\<^sup>*\<^sup>* s s'"
  by (induction ms arbitrary: s)
    (auto simp: bind_eq_Some_conv split: if_splits intro: converse_rtranclp_into_rtranclp cap_stepI)

text \<open>Initialise the module, set the sensor of channel 0, let its thread start and the client return.\<close>

definition demo_run :: "cap_module option" where
  "demo_run = run_moves [Call demo_kernel (ReqInit True), Call demo_kernel (ReqInput demo_input), FrameThread demo_kernel True 0 0,
     Resume [] True] first_module"

definition demo_chan :: channel where
  "demo_chan = channels (the demo_run) ! 0"

definition demo_vd :: isp_video_device where
  "demo_vd = the (video_dev (ch_vid demo_chan))"

lemma demo_run_state:
  "\<not> Option.is_none demo_run" "ch_threads demo_chan = [Some 0]" "\<not> Option.is_none (video_dev (ch_vid demo_chan))"
  "v_queued (ch_vid demo_chan) = [0, 1, 2, 3, 4, 5]" "CAP_STATUS_ON \<in> ch_status demo_chan" "CAP_THREAD_STOP \<notin> ch_status demo_chan"
  "length (fi_vir_addr (ch_frame demo_chan)) = 3" "length (fi_stride (ch_frame demo_chan)) = 3"
  "vd_nplanes demo_vd = 2" "vd_nbufs demo_vd = 6" "map vp_size (vb_planes (the (vd_pool demo_vd) ! 0)) = [8, 4]"
  by code_simp+

lemma demo_reached: "cap_step\<^sup>*\<^sup>* first_module (the demo_run)"
proof -
  obtain s where "demo_run = Some s" using demo_run_state(1) by (auto simp: Option.is_none_def)
  then show ?thesis unfolding demo_run_def using run_moves_steps by fastforce
qed

lemma demo_chan_ready: "vnode_inv demo_chan" "vid_ready (ch_vid demo_chan)" "video_dev (ch_vid demo_chan) = Some demo_vd"
proof -
  have "cap_inv (the demo_run)" by (rule capture.reachable_safe[OF refl demo_reached])
  then show i: "vnode_inv demo_chan" by (simp add: cap_inv_def chan_inv_def demo_chan_def)
  show "video_dev (ch_vid demo_chan) = Some demo_vd" using demo_run_state(3) by (auto simp: demo_vd_def Option.is_none_def)
  then show "vid_ready (ch_vid demo_chan)" using i by (simp add: vnode_inv_def)
qed

definition demo_format :: capture_format where
  "demo_format = \<lparr>rn_width = 4, rn_height = 2, rn_format = 0, rn_planes = 2, rn_stride = [0, 0, 0], rn_length = 0,
     rn_buffer = replicate 16 0, cf_channel = 0, cf_fps = 30, cf_wdr = 0, cf_framecount = 1, cf_index = 0\<rparr>"

text \<open>A raw channel with one plane of 16 bytes for frames of 4 by 2 pixels.\<close>

definition demo_raw_chan :: channel where
  "demo_raw_chan = first_channel\<lparr>
     ch_fmt := zero_video_fmt\<lparr>vf_nplanes := 1, vf_format := demo_pix\<lparr>pf_pixelformat := 0x31384142\<rparr>\<rparr>,
     ch_frame := zero_frame\<lparr>fi_vir_addr := [Some (0, 0), None, None], fi_stride := [16, 0, 0]\<rparr>\<rparr>"

definition demo_raw_node :: raw_node where
  "demo_raw_node = \<lparr>rn_width = 4, rn_height = 2, rn_format = 0x31384142, rn_planes = 1, rn_stride = [4, 4, 0],
     rn_length = 16, rn_buffer = map (\<lambda>k. of_nat k) [0..<16] @ replicate (FRAME_BUFFER_SIZE - 16) 0\<rparr>"

lemma demo_raw_frame: "raw_frame demo_kernel demo_raw_chan = Some demo_raw_node"
proof -
  have "frame_bytes demo_kernel (ch_frame demo_raw_chan) 1 = map (\<lambda>k. of_nat k) [0..<16]"
    by (simp add: frame_bytes_def plane_bytes_def demo_kernel_def demo_raw_chan_def)
  moreover have "\<not> 16 > FRAME_BUFFER_SIZE" by (simp add: FRAME_BUFFER_SIZE_def)
  ultimately show ?thesis
    by (simp add: raw_frame_def Let_def demo_raw_chan_def demo_raw_node_def zero_frame_def planes_readable_def demo_pix_def
        zero_video_fmt_def del: upt.simps upt_rec_numeral)
qed

section \<open>Properties\<close>



text \<open>
  A frame thread that gets no frame gives up: after ten rounds in a row without a frame it closes the video node,
  switches the channel off, takes back its running flag and ends; the raw queue is left as it was.
\<close>

theorem starved_thread_ends:
  assumes "\<forall>(env, w) \<in> set rs. no_frame env" "length rs = 10" "vnode_inv ch"
    and "CAP_STATUS_ON \<in> ch_status ch" "CAP_THREAD_STOP \<notin> ch_status ch"
  shows "\<exists>ch'. loop_rounds rs 0 ch q = Some (None, ch', q) \<and> video_dev (ch_vid ch') = None \<and>
    ch_status ch' = ch_status ch - {CAP_STATUS_ON, CAP_THREAD_RUNNING} \<and>
    (\<forall>j<10. \<exists>ch''. loop_rounds (take j rs) 0 ch q = Some (Some j, ch'', q))"
proof -
  obtain env w where last: "rs = take 9 rs @ [(env, w)]" "no_frame env"
  proof -
    have "rs = take 9 rs @ [rs ! 9]" using assms(2) take_Suc_conv_app_nth[of 9 rs] by simp
    moreover have "rs ! 9 \<in> set rs" using assms(2) by simp
    ultimately show ?thesis using assms(1) that by (metis (no_types, lifting) case_prodD surj_pair)
  qed
  have pre: "loop_rounds (take j rs @ rs') 0 ch q = loop_rounds rs' j ch q" if "j < 10" for j rs'
    using starved_prefix[of "take j rs" 0 ch rs' q] that assms by (auto dest: in_set_takeD)
  obtain ch' where g: "give_up env ch = Some ch'" using give_up_defined[OF assms(3)] by blast
  then have "loop_rounds rs 0 ch q = Some (None, ch', q)"
    using pre[of 9 "[(env, w)]"] last starved_round[OF last(2) assms(4,5), of w 9 q] by simp
  moreover have "video_dev (ch_vid ch') = None" using g by (auto simp: give_up_def shut_video_closed)
  moreover have "\<forall>j<10. \<exists>ch''. loop_rounds (take j rs) 0 ch q = Some (Some j, ch'', q)" using pre[of _ "[]"] by simp
  ultimately show ?thesis using give_up_result[OF g] by blast
qed

theorem starved_thread_ends_witness:
  "\<exists>ch'. loop_rounds (replicate 10 (demo_kernel\<lparr>select_ret := 0\<rparr>, True)) 0 demo_chan (raw_q first_module) =
     Some (None, ch', raw_q first_module) \<and> video_dev (ch_vid ch') = None"
proof -
  have "\<forall>(env, w) \<in> set (replicate 10 (demo_kernel\<lparr>select_ret := 0\<rparr>, True)). no_frame env"
    by (simp add: no_frame_def)
  from starved_thread_ends[OF this _ demo_chan_ready(1) demo_run_state(5,6), of "raw_q first_module"] show ?thesis by auto
qed



text \<open>What fetching and giving back the driver's buffer \<open>dq_index d\<close> does.\<close>

lemma delivered_frame:
  assumes "video_dev c = Some vd" "vid_ready c" "vd_nplanes vd \<le> 3" "length (fi_vir_addr fi) = 3" "length (fi_stride fi) = 3"
    and "0 < select_ret env" "dqbuf env = Some d" "dq_index d < vd_nbufs vd" "qbuf_ok env (dq_index d)"
  obtains fi' c1 where "get_video_frame env fi c = Some (0, fi', c1)"
    "\<forall>j<vd_nplanes vd. fi_vir_addr fi' ! j = Some (dq_index d, j) \<and>
       fi_stride fi' ! j = vp_size (vb_planes (the (vd_pool vd) ! dq_index d) ! j)"
    "release_video_frame env fi' c1 = Some (0, c1\<lparr>v_queued := remove1 (dq_index d) (v_queued c) @ [dq_index d]\<rparr>)"
proof -
  let ?i = "dq_index d"
  obtain bs where p: "vd_pool vd = Some bs" "vd_nbufs vd \<le> length bs" "pool_ok (vd_nplanes vd) bs" "0 < vd_nplanes vd"
    using assms(1,2) by (auto simp: vid_ready_def)
  have i: "?i < length bs" using assms(8) p(2) by simp
  have b: "vb_index (bs ! ?i) = ?i" "length (vb_planes (bs ! ?i)) = vd_nplanes vd" using p(3) i by (auto simp: pool_ok_def)
  define ps where "ps = map (\<lambda>j. (vb_planes (bs ! ?i) ! j)\<lparr>vp_mem_phy := dq_offsets d ! j\<rparr>) [0..<vd_nplanes vd]"
  define b1 where "b1 = (bs ! ?i)\<lparr>vb_planes := ps\<rparr>"
  define c1 where "c1 = (set_video (vd\<lparr>vd_pool := Some (bs[?i := b1])\<rparr>) c)\<lparr>v_queued := remove1 ?i (v_queued c)\<rparr>"
  have ps': "map (\<lambda>j. if j < vd_nplanes vd then (vb_planes (bs ! ?i) ! j)\<lparr>vp_mem_phy := dq_offsets d ! j\<rparr> else vb_planes (bs ! ?i) ! j)
      [0..<vd_nplanes vd] = ps"
    unfolding ps_def by (intro map_cong) auto
  have dq: "video_dequeue_buffer env vd c = Some (0, Some (b1\<lparr>vb_bytesused := dq_bytesused d, vb_frame_cnt := dq_reserved d,
      vb_exp_time := dq_reserved2 d, vb_timestamp := dq_timestamp d, vb_error := dq_error d\<rparr>), c1)"
    using assms(3,7,8) p(1,4) i b(2) by (simp add: video_dequeue_buffer_def Let_def ps' b1_def c1_def)
  obtain fi' where g: "get_video_frame env fi c = Some (0, fi', c1)" and f: "fi_pool_id fi' = ?i"
    "fi_vir_addr fi' = map (\<lambda>j. Some (?i, j)) [0..<vd_nplanes vd] @ drop (vd_nplanes vd) (fi_vir_addr fi)"
    "fi_stride fi' = map (\<lambda>j. vp_size (ps ! j)) [0..<vd_nplanes vd] @ drop (vd_nplanes vd) (fi_stride fi)"
    using assms(1,3,6) dq b(1) by (simp add: get_video_frame_def video_wait_buffer_def Let_def b1_def)
  have "\<forall>j<vd_nplanes vd. fi_vir_addr fi' ! j = Some (?i, j) \<and> fi_stride fi' ! j = vp_size (vb_planes (the (vd_pool vd) ! ?i) ! j)"
    using f(2,3) p(1) by (simp add: nth_append ps_def)
  moreover have "release_video_frame env fi' c1 = Some (0, c1\<lparr>v_queued := remove1 ?i (v_queued c) @ [?i]\<rparr>)"
    using f(1) i b(1) assms(3,8,9) p(4)
    by (simp add: release_video_frame_def video_queue_buffer_def c1_def b1_def)
  ultimately show ?thesis using that g by blast
qed

text \<open>
  A captured frame: when the driver delivers buffer \<open>i\<close>, the caller gets the bytes of its planes one after
  the other, with their total length, and the buffer goes back to the end of the driver's queue, so the driver holds the
  same buffers as before.
\<close>

theorem captured_frame:
  assumes "video_dev (ch_vid ch) = Some vd" "vid_ready (ch_vid ch)" "vd_nplanes vd \<le> 3" "length (fi_vir_addr (ch_frame ch)) = 3"
    and "length (fi_stride (ch_frame ch)) = 3" "rn_planes f = int (vd_nplanes vd)"
    and "0 < select_ret env" "dqbuf env = Some d" "dq_index d < vd_nbufs vd" "qbuf_ok env (dq_index d)"
    and "bytes = concat (map (\<lambda>j. map (plane_byte env (dq_index d) j)
        [0..<unat (vp_size (vb_planes (the (vd_pool vd) ! dq_index d) ! j))]) [0..<vd_nplanes vd])"
    and "length bytes \<le> length (rn_buffer f)" "int_ok (int (length bytes))"
    and "rn_width f * rn_height f \<le> int (length bytes)" "int_ok (rn_width f * rn_height f)"
  shows "\<exists>f' ch'. fetch_frame env f ch = Some (CAP_ERR_NONE, f', ch') \<and> rn_length f' = int (length bytes) \<and>
    node_bytes (raw_node.truncate f') = bytes \<and>
    v_queued (ch_vid ch') = remove1 (dq_index d) (v_queued (ch_vid ch)) @ [dq_index d]"
proof -
  let ?n = "vd_nplanes vd" and ?L = "length bytes"
  obtain fi' c1 where g: "get_video_frame env (ch_frame ch) (ch_vid ch) = Some (0, fi', c1)"
    and a: "\<forall>j<?n. fi_vir_addr fi' ! j = Some (dq_index d, j) \<and> fi_stride fi' ! j = vp_size (vb_planes (the (vd_pool vd) ! dq_index d) ! j)"
    and r: "release_video_frame env fi' c1 = Some (0, c1\<lparr>v_queued := remove1 (dq_index d) (v_queued (ch_vid ch)) @ [dq_index d]\<rparr>)"
    using delivered_frame[OF assms(1-5,7-10)] by metis
  have "frame_bytes env fi' ?n = bytes"
    unfolding frame_bytes_def assms(11) by (intro arg_cong[of _ _ concat] map_cong) (auto simp: plane_bytes_def a)
  then have "copy_frame env fi' ?n 0 (rn_buffer f) = Some (?L, bytes @ drop ?L (rn_buffer f))"
    using assms(3,12) a by (simp add: copy_frame_def planes_readable_def Let_def)
  then have "fetch_frame env f ch = Some (CAP_ERR_NONE, f\<lparr>rn_length := int ?L, rn_buffer := bytes @ drop ?L (rn_buffer f)\<rparr>,
      ch\<lparr>ch_vid := c1\<lparr>v_queued := remove1 (dq_index d) (v_queued (ch_vid ch)) @ [dq_index d]\<rparr>, ch_frame := fi'\<rparr>)"
    using g r assms(6,13-15) by (simp add: fetch_frame_def Let_def)
  then show ?thesis by (simp add: node_bytes_def raw_node.defs)
qed

theorem captured_frame_witness:
  "\<exists>f' ch'. fetch_frame demo_kernel demo_format demo_chan = Some (CAP_ERR_NONE, f', ch') \<and>
     node_bytes (raw_node.truncate f') = [0, 1, 2, 3, 4, 5, 6, 7, 100, 101, 102, 103] \<and>
     v_queued (ch_vid ch') = [1, 2, 3, 4, 5, 0]"
proof -
  let ?bytes = "[0, 1, 2, 3, 4, 5, 6, 7, 100, 101, 102, 103]" and ?ps = "vb_planes (the (vd_pool demo_vd) ! 0)"
  obtain d where d: "dqbuf demo_kernel = Some d" "dq_index d = 0" by (simp add: demo_kernel_def)
  have k: "0 < select_ret demo_kernel" "qbuf_ok demo_kernel (dq_index d)" by (simp_all add: demo_kernel_def)
  have sizes: "vp_size (?ps ! 0) = 8" "vp_size (?ps ! 1) = 4"
    using demo_run_state(11) by (cases ?ps; force)+
  have "[0..<2] = [0, 1 :: nat]" "[0..<8] = [0, 1, 2, 3, 4, 5, 6, 7 :: nat]" "[0..<4] = [0, 1, 2, 3 :: nat]"
    by (simp_all add: upt_rec)
  then have bytes: "?bytes = concat (map (\<lambda>j. map (plane_byte demo_kernel (dq_index d) j)
      [0..<unat (vp_size (vb_planes (the (vd_pool demo_vd) ! dq_index d) ! j))]) [0..<vd_nplanes demo_vd])"
    using sizes d(2) demo_run_state(9) by (simp add: demo_kernel_def)
  have f: "rn_planes demo_format = int (vd_nplanes demo_vd)" "length ?bytes \<le> length (rn_buffer demo_format)"
    "int_ok (int (length ?bytes))" "rn_width demo_format * rn_height demo_format \<le> int (length ?bytes)"
    "int_ok (rn_width demo_format * rn_height demo_format)"
    using demo_run_state(9) by (simp_all add: demo_format_def int_ok_def)
  have n: "vd_nplanes demo_vd \<le> 3" "dq_index d < vd_nbufs demo_vd" using demo_run_state(9,10) d(2) by simp_all
  show ?thesis
    using captured_frame[OF demo_chan_ready(3,2) n(1) demo_run_state(7,8) f(1) k(1) d(1) n(2) k(2) bytes f(2-5)]
      demo_run_state(4) d(2) by auto
qed

text \<open>
  Starting and stopping a channel is balanced for the kernel: when \<open>enable_video\<close> succeeds and the kernel grants every
  request of \<open>disable_video\<close>, no mapping of the channel is left, the driver holds no buffer, streaming is off and the pool is
  gone. For the heap it is not: the plane arrays of all buffers are leaked, because nothing marks a buffer as allocated.
\<close>

theorem enable_disable_balanced:
  assumes "enable_video env c = Some (0, c1)" "video_dev c = Some vd" "vd_memtype vd = V4L2_MEMORY_MMAP"
    and "stream_off_ok env'" "relbufs_ok env'" "\<forall>i j. munmap_ok env' i j"
  shows "\<exists>c2. disable_video env' c1 = Some (0, c2) \<and> v_maps c2 = v_maps c \<and> v_queued c2 = [] \<and> \<not> v_stream c2 \<and>
    (\<exists>vd2. video_dev c2 = Some vd2 \<and> vd_pool vd2 = None) \<and> v_lost c2 = v_lost c + vd_nbufs vd"
proof -
  obtain pool lost ret c0 where p: "buffers_pool_new env vd = (Some pool, lost)"
    and r: "video_req_buffers env pool vd c = Some (ret, c0)" "\<not> ret < 0"
    using assms(1,2) by (auto simp: enable_video_def bind_eq_Some_conv split: prod.splits option.splits if_splits)
  note pool = pool_new_result[OF p]
  from req_buffers_result[OF r assms(3) pool] obtain n bs where b: "n \<le> length pool" "length bs = length pool"
    "pool_ok (vd_nplanes vd) bs" "pool_mapped n (vd_nplanes vd) bs"
    "c0 = set_video (vd\<lparr>vd_nbufs := n, vd_pool := Some bs\<rparr>) (c\<lparr>v_maps := v_maps c + n * vd_nplanes vd\<rparr>)" by metis
  let ?vd = "vd\<lparr>vd_nbufs := n, vd_pool := Some bs\<rparr>"
  obtain c3 where q: "queue_all env [0..<n] ?vd c0 = Some c3" and st: "video_stream_on env c3 = (0, c1)"
    using assms(1,2) p r b(5) by (auto simp: enable_video_def bind_eq_Some_conv)
  from queue_all_frame[OF q] st b(5) have c1: "video_dev c1 = Some ?vd" "v_maps c1 = v_maps c + n * vd_nplanes vd" "v_lost c1 = v_lost c"
    by (auto simp: video_stream_on_def split: if_splits)
  have "\<forall>i \<in> set [0..<n]. i < length bs \<and> (\<forall>j<vd_nplanes vd. vp_mem (vb_planes (bs ! i) ! j) = MemMapped)"
    using b(1,2,4) by (simp add: pool_mapped_def)
  then obtain bs' where u: "unmap_buffers env' (vd_nplanes vd) [0..<n] bs (v_maps c1) = Some (True, bs', v_maps c)"
    using unmap_buffers_all[of "[0..<n]" "vd_nplanes vd" bs env' "v_maps c1"] b(3) assms(6) c1(2) by auto
  from unmap_buffers_shape[OF u b(3)] have sh: "length bs' = vd_nbufs vd" "filter (\<lambda>b. \<not> vb_allocated b) bs' = bs'"
    using b(2) pool by (auto simp: pool_ok_def filter_id_conv in_set_conv_nth)
  show ?thesis using c1 u sh assms(3-5)
    by (simp add: disable_video_def video_stream_off_def video_free_buffers_def Let_def buffers_pool_delete_def)
qed

theorem enable_disable_balanced_witness:
  "\<exists>c1 c2. enable_video demo_kernel (set_video (zero_video\<lparr>vd_memtype := 1, vd_nbufs := 2, vd_nplanes := 2\<rparr>) (ch_vid first_channel)) = Some (0, c1) \<and>
     v_maps c1 = 4 \<and> disable_video demo_kernel c1 = Some (0, c2) \<and> v_maps c2 = 0 \<and> v_lost c2 = 2"
proof -
  let ?c = "set_video (zero_video\<lparr>vd_memtype := 1, vd_nbufs := 2, vd_nplanes := 2\<rparr>) (ch_vid first_channel)"
  have "map_option (\<lambda>(r, c). (r, v_maps c)) (enable_video demo_kernel ?c) = Some (0, 4)" by code_simp
  then obtain c1 where c1: "enable_video demo_kernel ?c = Some (0, c1)" "v_maps c1 = 4" by auto
  have k: "stream_off_ok demo_kernel" "relbufs_ok demo_kernel" "\<forall>i j. munmap_ok demo_kernel i j"
    by (simp_all add: demo_kernel_def)
  have c: "video_dev ?c = Some (zero_video\<lparr>vd_memtype := 1, vd_nbufs := 2, vd_nplanes := 2\<rparr>)" "v_maps ?c = 0" "v_lost ?c = 0"
    by (simp_all add: first_channel_def)
  from enable_disable_balanced[OF c1(1) c(1) _ k] c1 c(2,3) show ?thesis by auto
qed

text \<open>
  The raw flow writes past its buffers when the driver rounds plane sizes up. The queue of an 8-bit format has frames of
  \<open>width * height\<close> bytes, but the frame thread copies the whole plane as it was mapped: as soon as that is longer,
  storing a frame is out of bounds.
\<close>

theorem rounded_plane_overflows:
  assumes "init_raw_flow True (Some n0) CAPTURE_RAW_FLOW_QUEUE_SIZE q0 = Some (ERR_RAW_FLOW_NONE, q)" "rn_format n0 \<in> raw8_formats"
    and "raw_frame env ch = Some n" "rn_width n = rn_width n0" "rn_height n = rn_height n0" "rn_format n = rn_format n0"
    and "rn_width n0 * rn_height n0 < rn_length n"
  shows "raw_flow_frame env w ch q = None"
proof -
  let ?hn = "\<lparr>rn_width = rn_width n0, rn_height = rn_height n0, rn_format = rn_format n0, rn_planes = rn_planes n0,
    rn_stride = [0, 0, 0], rn_length = 0, rn_buffer = replicate (nat (rn_width n0 * rn_height n0)) 0\<rparr> :: raw_node"
  have nn: "0 \<le> rn_width n0 * rn_height n0" using assms(1) by (auto simp: init_raw_flow_def split: if_splits)
  have q: "rq_length q = 201" "rq_head q = 0" "rq_tail q = 0" "rq_nodes q ! 0 = ?hn"
    using assms(1,2) by (auto simp: init_raw_flow_def Let_def split: if_splits)
  then have "queue_raw_flow w (Some n) q = None"
    using assms(4-7) nn by (simp add: queue_raw_flow_def Let_def)
  then show ?thesis using assms(3-7) by (simp add: raw_flow_frame_def)
qed

theorem rounded_plane_overflows_witness:
  "\<exists>q. init_raw_flow True (Some demo_raw_node) CAPTURE_RAW_FLOW_QUEUE_SIZE (raw_q first_module) = Some (ERR_RAW_FLOW_NONE, q) \<and>
     raw_flow_frame demo_kernel True demo_raw_chan q = None"
proof -
  obtain q where q: "init_raw_flow True (Some demo_raw_node) CAPTURE_RAW_FLOW_QUEUE_SIZE (raw_q first_module) = Some (ERR_RAW_FLOW_NONE, q)"
    by (auto simp: init_raw_flow_def demo_raw_node_def Let_def int_ok_def raw8_formats_def)
  then show ?thesis
    using rounded_plane_overflows[OF q _ demo_raw_frame, of True] by (simp add: demo_raw_node_def raw8_formats_def)
qed

text \<open>
  When the node of a channel that is on cannot be opened again, \<open>set_sensor_input\<close> fails but leaves the channel
  marked as on, with its node closed.
\<close>

theorem failed_input_stays_on:
  assumes "CAP_STATUS_ON \<in> ch_status ch" "shut_video env (ch_vid ch) = Some c" "\<not> entity_found env"
  shows "\<exists>e ch'. set_sensor_input env si ch = Some (e, ch') \<and> e \<noteq> CAP_ERR_NONE \<and> CAP_STATUS_ON \<in> ch_status ch' \<and>
    video_dev (ch_vid ch') = None"
  using assms shut_video_closed[OF assms(2)]
  by (cases "dev_alloc env") (simp_all add: set_sensor_input_def isp_video_open_def video_init_def)

end
