(* ===== verification/RegisterOpt.thy ===== *)
theory RegisterOpt
  imports Prelude
begin

text \<open>
  \<open>server/register_opt.c\<close>: reading and writing sensor registers through files under \<open>/sys/devices\<close>. The state is the
  five path buffers and the two widths; \<open>reg_cmds\<close> lists the shell commands that were run, oldest first. What the
  driver shows in \<open>read_value\<close> is an argument. Register addresses and values are C \<open>int\<close>s, kept as 32-bit words;
  \<open>long\<close> has 32 bits, as the casts between pointers and \<open>int\<close> in the server require. \<open>None\<close> is undefined behaviour:
  a formatted string or a file that does not fit its 256-byte buffer. \<open>write_file_opt\<close> is not called.
\<close>

section \<open>Formatted numbers\<close>

definition hex_digit :: "nat \<Rightarrow> char" where
  "hex_digit d = ''0123456789abcdef'' ! d"

fun hex_string :: "nat \<Rightarrow> string" where
  "hex_string n = (if n < 16 then [hex_digit n] else hex_string (n div 16) @ [hex_digit (n mod 16)])"

declare hex_string.simps [simp del]

definition fmt_x :: "u32 \<Rightarrow> string" where
  "fmt_x w = hex_string (unat w)"

definition fmt_04x :: "u32 \<Rightarrow> string" where
  "fmt_04x w = replicate (4 - length (fmt_x w)) (CHR ''0'') @ fmt_x w"

text \<open>\<open>strtol\<close> with base 16: white space, a sign, an optional prefix, digits, and saturation at the range of \<open>long\<close>.\<close>

definition hex_value :: "char \<Rightarrow> int option" where
  "hex_value c = (let n = of_char c :: int in
     if 48 \<le> n \<and> n \<le> 57 then Some (n - 48)
     else if 97 \<le> n \<and> n \<le> 102 then Some (n - 87)
     else if 65 \<le> n \<and> n \<le> 70 then Some (n - 55)
     else None)"

fun hex_digits :: "int \<Rightarrow> string \<Rightarrow> int" where
  "hex_digits acc [] = acc"
| "hex_digits acc (c # cs) = (case hex_value c of None \<Rightarrow> acc | Some d \<Rightarrow> hex_digits (16 * acc + d) cs)"

definition is_space :: "char \<Rightarrow> bool" where
  "is_space c \<longleftrightarrow> of_char c \<in> {32, 9, 10, 11, 12, 13 :: int}"

fun skip_0x :: "string \<Rightarrow> string" where
  "skip_0x (a # b # c # cs) =
     (if a = CHR ''0'' \<and> (b = CHR ''x'' \<or> b = CHR ''X'') \<and> hex_value c \<noteq> None then c # cs else a # b # c # cs)"
| "skip_0x cs = cs"

definition to_long :: "int \<Rightarrow> int" where
  "to_long v = max (- (2 ^ 31)) (min (2 ^ 31 - 1) v)"

definition strtol16 :: "string \<Rightarrow> int" where
  "strtol16 str =
     (case dropWhile is_space str of
        CHR ''-'' # cs \<Rightarrow> to_long (- hex_digits 0 (skip_0x cs))
      | CHR ''+'' # cs \<Rightarrow> to_long (hex_digits 0 (skip_0x cs))
      | cs \<Rightarrow> to_long (hex_digits 0 (skip_0x cs)))"

section \<open>Registers\<close>

record reg_state =
  g_fd_addr_width :: string
  g_fd_data_width :: string
  g_fd_read_flag :: string
  g_fd_cci_client :: string
  g_fd_read_value :: string
  g_reg_addr_width :: u32
  g_reg_data_width :: u32
  reg_cmds :: "string list"

text \<open>\<open>sprintf\<close> into a buffer of 256 bytes, and \<open>system\<close> on such a buffer.\<close>

definition fits256 :: "string \<Rightarrow> string option" where
  "fits256 str = (if length str < 256 then Some str else None)"

definition sys_path :: "string \<Rightarrow> string \<Rightarrow> string" where
  "sys_path name file = ''/sys/devices/'' @ name @ ''/'' @ file"

definition run_cmd :: "string \<Rightarrow> reg_state \<Rightarrow> reg_state option" where
  "run_cmd cmd st = map_option (\<lambda>c. st\<lparr>reg_cmds := reg_cmds st @ [c]\<rparr>) (fits256 cmd)"

definition echo_to :: "string \<Rightarrow> string \<Rightarrow> string" where
  "echo_to v path = ''echo '' @ v @ '' > '' @ path"

definition set_reg_opt :: "string option \<Rightarrow> u32 \<Rightarrow> u32 \<Rightarrow> reg_state \<Rightarrow> (int \<times> reg_state) option" where
  "set_reg_opt sensor_name addr_width data_width st =
     (case sensor_name of
        None \<Rightarrow> Some (- 1, st)
      | Some name \<Rightarrow>
          Option.bind (fits256 (sys_path name ''addr_width'')) (\<lambda>a.
          Option.bind (fits256 (sys_path name ''data_width'')) (\<lambda>d.
          Option.bind (fits256 (sys_path name ''read_flag'')) (\<lambda>f.
          Option.bind (fits256 (sys_path name ''cci_client'')) (\<lambda>c.
          Option.bind (fits256 (sys_path name ''read_value'')) (\<lambda>v.
          Option.bind (run_cmd (echo_to (fmt_x addr_width) a) (st\<lparr>g_fd_addr_width := a, g_fd_data_width := d, g_fd_read_flag := f,
              g_fd_cci_client := c, g_fd_read_value := v, g_reg_addr_width := addr_width, g_reg_data_width := data_width\<rparr>)) (\<lambda>st1.
          map_option (\<lambda>st2. (0, st2)) (run_cmd (echo_to (fmt_x data_width) d) st1))))))))"

text \<open>The file is given by the offset of its end, as \<open>lseek\<close> reports it, and by the bytes that \<open>read\<close> delivers, at most that
  many. They overwrite the front of the buffer, which still holds the string that was printed into it before; bytes behind that
  string are indeterminate.\<close>

definition read_file_opt :: "(int \<times> string) option \<Rightarrow> string \<Rightarrow> (int \<times> int \<times> string) option" where
  "read_file_opt file buffer =
     (case file of
        None \<Rightarrow> Some (- 1, 0, buffer)
      | Some (len, content) \<Rightarrow>
          if len < 0 \<or> 256 < len then None
          else let data = take (nat len) content in Some (0, len, data @ drop (length data) buffer))"

text \<open>\<open>buffer[length] = 0\<close>: the string up to the first terminator, when all of it is determinate.\<close>

definition terminate_at :: "int \<Rightarrow> string \<Rightarrow> string option" where
  "terminate_at len buffer =
     (if 256 \<le> len \<or> int (length buffer) < len \<and> CHR 0x00 \<notin> set buffer then None
      else Some (takeWhile (\<lambda>c. c \<noteq> CHR 0x00) (take (nat len) buffer)))"

definition read_reg :: "(int \<times> string) option \<Rightarrow> u32 \<Rightarrow> reg_state \<Rightarrow> (int \<times> reg_state) option" where
  "read_reg read_value reg_addr st =
     Option.bind (run_cmd (echo_to ''1'' (g_fd_read_flag st)) st) (\<lambda>st1.
     let cmd = echo_to (fmt_04x reg_addr @ ''0000'') (g_fd_cci_client st1) in
     Option.bind (run_cmd cmd st1) (\<lambda>st2.
     Option.bind (read_file_opt read_value (cmd @ [CHR 0x00])) (\<lambda>(ret, len, buffer).
     if ret \<noteq> 0 then Some (- 1, st2)
     else map_option (\<lambda>str. (strtol16 str, st2)) (terminate_at len buffer))))"

definition write_reg :: "u32 \<Rightarrow> u32 \<Rightarrow> reg_state \<Rightarrow> (int \<times> reg_state) option" where
  "write_reg reg_addr reg_data st =
     Option.bind (run_cmd (echo_to ''0'' (g_fd_read_flag st)) st) (\<lambda>st1.
     map_option (\<lambda>st2. (0, st2)) (run_cmd (echo_to (fmt_04x reg_addr @ fmt_04x reg_data) (g_fd_cci_client st1)) st1))"

section \<open>Printing and parsing\<close>

lemma hex_value_digit: "d < 16 \<Longrightarrow> hex_value (hex_digit d) = Some (int d)"
proof -
  have "\<forall>d<16. hex_value (hex_digit d) = Some (int d)" by code_simp
  then show "d < 16 \<Longrightarrow> hex_value (hex_digit d) = Some (int d)" by blast
qed

lemma hex_digits_snoc:
  "\<forall>c \<in> set cs. hex_value c \<noteq> None \<Longrightarrow> hex_value c = Some d \<Longrightarrow> hex_digits acc (cs @ [c]) = 16 * hex_digits acc cs + d"
  by (induction cs arbitrary: acc) (auto split: option.splits)

lemma hex_string_digits: "\<forall>c \<in> set (hex_string n). hex_value c \<noteq> None"
proof (induction n rule: hex_string.induct)
  case (1 n)
  show ?case by (subst hex_string.simps) (use 1 in \<open>auto simp: hex_value_digit\<close>)
qed

lemma hex_digits_hex_string: "hex_digits 0 (hex_string n) = int n"
proof (induction n rule: hex_string.induct)
  case (1 n)
  show ?case
  proof (cases "n < 16")
    case True
    then show ?thesis by (subst hex_string.simps) (simp add: hex_value_digit)
  next
    case False
    then show ?thesis
      using 1 hex_digits_snoc[OF hex_string_digits, of "hex_digit (n mod 16)" "int (n mod 16)" 0 "n div 16"]
      by (subst hex_string.simps) (simp add: hex_value_digit zmod_int zdiv_int)
  qed
qed

lemma hex_digits_zeros: "hex_digits 0 (replicate k (CHR ''0'') @ cs) = hex_digits 0 cs"
  by (induction k) (simp_all add: hex_value_def)

lemma hex_text:
  assumes "\<forall>c \<in> set cs. hex_value c \<noteq> None"
  shows "strtol16 cs = to_long (hex_digits 0 cs)"
proof -
  have no: "hex_value CHR ''-'' = None" "hex_value CHR ''+'' = None" "hex_value CHR ''x'' = None" "hex_value CHR ''X'' = None"
    by (simp_all add: hex_value_def)
  have "hex_value c = None" if "is_space c" for c
    using that by (auto simp: is_space_def hex_value_def Let_def)
  then have "dropWhile is_space cs = cs" using assms by (cases cs) auto
  moreover have "skip_0x cs = cs" using assms no by (cases cs rule: skip_0x.cases) auto
  ultimately show ?thesis
    using assms no by (cases cs) (auto simp: strtol16_def split: list.splits char.splits bool.splits)
qed

lemma fmt_04x_digits: "\<forall>c \<in> set (fmt_04x w). hex_value c \<noteq> None"
  using hex_string_digits[of "unat w"] by (auto simp: fmt_04x_def fmt_x_def hex_value_def)

lemma strtol_fmt: "strtol16 (fmt_04x w) = to_long (uint w)"
proof -
  have "hex_digits 0 (fmt_04x w) = uint w"
    by (simp add: fmt_04x_def hex_digits_zeros fmt_x_def hex_digits_hex_string)
  then show ?thesis using hex_text[OF fmt_04x_digits, of w] by simp
qed

section \<open>A configured sensor\<close>

lemma hex_string_length: "n < 16 ^ Suc k \<Longrightarrow> length (hex_string n) \<le> Suc k"
proof (induction k arbitrary: n)
  case 0
  then show ?case by (subst hex_string.simps) simp
next
  case (Suc k)
  have "n div 16 < 16 ^ Suc k" using Suc.prems by (simp add: less_mult_imp_div_less mult.commute)
  then show ?case using Suc.IH[of "n div 16"] by (subst hex_string.simps) auto
qed

lemma fmt_x_length: "length (fmt_x w) \<le> 8"
proof -
  have "unat w < 16 ^ Suc 7" using unsigned_less[of w] by simp
  then show ?thesis using hex_string_length[of "unat w" 7] by (simp add: fmt_x_def)
qed

lemma fmt_04x_length: "length (fmt_04x w) \<le> 8"
  using fmt_x_length[of w] by (simp add: fmt_04x_def)

lemma fmt_04x_short:
  assumes "unat w < 2 ^ 16"
  shows "length (fmt_04x w) = 4"
proof -
  have "unat w < 16 ^ Suc 3" using assms by simp
  then show ?thesis using hex_string_length[of "unat w" 3] by (simp add: fmt_04x_def fmt_x_def)
qed

text \<open>The state of the module once a sensor has been configured.\<close>

definition reg_ready :: "string \<Rightarrow> u32 \<Rightarrow> u32 \<Rightarrow> reg_state \<Rightarrow> reg_state" where
  "reg_ready name aw dw st = st\<lparr>g_fd_addr_width := sys_path name ''addr_width'', g_fd_data_width := sys_path name ''data_width'',
     g_fd_read_flag := sys_path name ''read_flag'', g_fd_cci_client := sys_path name ''cci_client'',
     g_fd_read_value := sys_path name ''read_value'', g_reg_addr_width := aw, g_reg_data_width := dw,
     reg_cmds := reg_cmds st @ [echo_to (fmt_x aw) (sys_path name ''addr_width''), echo_to (fmt_x dw) (sys_path name ''data_width'')]\<rparr>"

lemmas reg_paths = sys_path_def echo_to_def fits256_def run_cmd_def

lemma set_reg_opt_ready:
  assumes "length name \<le> 200"
  shows "set_reg_opt (Some name) aw dw st = Some (0, reg_ready name aw dw st)"
  using assms fmt_x_length[of aw] fmt_x_length[of dw] by (simp add: set_reg_opt_def reg_ready_def reg_paths)

text \<open>The paths that reading and writing use are those of sensor \<open>name\<close>.\<close>

definition reg_for :: "string \<Rightarrow> reg_state \<Rightarrow> bool" where
  "reg_for name st \<longleftrightarrow> length name \<le> 200 \<and> g_fd_read_flag st = sys_path name ''read_flag'' \<and>
     g_fd_cci_client st = sys_path name ''cci_client''"

lemma reg_for_ready: "length name \<le> 200 \<Longrightarrow> reg_for name (reg_ready name aw dw st)"
  by (simp add: reg_for_def reg_ready_def)

lemma reg_for_cmds [simp]: "reg_for name (st\<lparr>reg_cmds := cs\<rparr>) = reg_for name st"
  by (simp add: reg_for_def)

lemma write_reg_ready:
  assumes "reg_for name st"
  shows "write_reg a v st = Some (0, st\<lparr>reg_cmds := reg_cmds st @
    [echo_to ''0'' (sys_path name ''read_flag''), echo_to (fmt_04x a @ fmt_04x v) (sys_path name ''cci_client'')]\<rparr>)"
  using assms fmt_04x_length[of a] fmt_04x_length[of v] by (simp add: write_reg_def reg_for_def reg_paths)

lemma read_reg_ready:
  assumes "reg_for name st"
  shows "read_reg (Some (int (length (fmt_04x v)), fmt_04x v)) a st = Some (to_long (uint v), st\<lparr>reg_cmds := reg_cmds st @
    [echo_to ''1'' (sys_path name ''read_flag''), echo_to (fmt_04x a @ ''0000'') (sys_path name ''cci_client'')]\<rparr>)"
proof -
  have str: "takeWhile (\<lambda>c. c \<noteq> CHR 0x00) (fmt_04x v) = fmt_04x v"
    using fmt_04x_digits[of v] by (auto simp: takeWhile_eq_all_conv hex_value_def)
  show ?thesis
    using assms fmt_04x_length[of a] fmt_04x_length[of v]
    by (simp add: read_reg_def reg_for_def reg_paths read_file_opt_def terminate_at_def str strtol_fmt Let_def)
qed

lemma to_long_short:
  assumes "unat w < 2 ^ 16"
  shows "to_long (uint w) = uint w"
proof -
  have "int (unat w) < int (2 ^ 16)" using assms by (simp only: of_nat_less_iff)
  then show ?thesis by (simp add: to_long_def max_absorb2 order_trans[OF _ unsigned_greater_eq])
qed

text \<open>Once \<open>set_reg_opt\<close> has been given a sensor name of at most 200 characters, \<open>write_reg\<close> clears the read flag and hands the driver one
  word of eight hexadecimal digits, of which the first four are the register address and the last four the value, for every
  16-bit address and value; and when the driver shows those four digits, \<open>read_reg\<close> sets the read flag, asks for the
  address and returns the value.\<close>

theorem register_round_trip:
  assumes "length name \<le> 200" "unat a < 2 ^ 16" "unat v < 2 ^ 16"
  shows "\<exists>st1 word.
    set_reg_opt (Some name) aw dw st = Some (0, st1) \<and>
    write_reg a v st1 = Some (0, st1\<lparr>reg_cmds := reg_cmds st1 @
      [echo_to ''0'' (sys_path name ''read_flag''), echo_to word (sys_path name ''cci_client'')]\<rparr>) \<and>
    length word = 8 \<and> strtol16 (take 4 word) = uint a \<and> strtol16 (drop 4 word) = uint v \<and>
    read_reg (Some (4, drop 4 word)) a st1 = Some (uint v, st1\<lparr>reg_cmds := reg_cmds st1 @
      [echo_to ''1'' (sys_path name ''read_flag''), echo_to (take 4 word @ ''0000'') (sys_path name ''cci_client'')]\<rparr>)"
proof -
  have long: "to_long (uint a) = uint a" "to_long (uint v) = uint v"
    using assms(2,3) by (simp_all add: to_long_short)
  have paths: "reg_for name (reg_ready name aw dw st)" by (rule reg_for_ready[OF assms(1)])
  have len: "length (fmt_04x a) = 4" "length (fmt_04x v) = 4"
    using fmt_04x_short assms by auto
  have word: "take 4 (fmt_04x a @ fmt_04x v) = fmt_04x a" "drop 4 (fmt_04x a @ fmt_04x v) = fmt_04x v"
    using len by simp_all
  have shown: "read_reg (Some (4, fmt_04x v)) a (reg_ready name aw dw st) = Some (uint v, (reg_ready name aw dw st)\<lparr>reg_cmds :=
    reg_cmds (reg_ready name aw dw st) @ [echo_to ''1'' (sys_path name ''read_flag''), echo_to (fmt_04x a @ ''0000'') (sys_path name ''cci_client'')]\<rparr>)"
    using read_reg_ready[OF paths, of v a] len(2) long(2) by simp
  show ?thesis
    by (intro exI conjI, rule set_reg_opt_ready[OF assms(1)], rule write_reg_ready[OF paths])
       (simp_all add: word len strtol_fmt long shown)
qed

theorem register_round_trip_witness:
  "\<exists>st1 word. set_reg_opt (Some ''sensor0'') 16 8 \<lparr>g_fd_addr_width = [], g_fd_data_width = [], g_fd_read_flag = [], g_fd_cci_client = [],
      g_fd_read_value = [], g_reg_addr_width = 0, g_reg_data_width = 0, reg_cmds = []\<rparr> = Some (0, st1) \<and>
    strtol16 (take 4 word) = 0x3500 \<and> strtol16 (drop 4 word) = 0xff"
  using register_round_trip[of "''sensor0''" "0x3500" "0xff" 16 8 "\<lparr>g_fd_addr_width = [], g_fd_data_width = [], g_fd_read_flag = [],
      g_fd_cci_client = [], g_fd_read_value = [], g_reg_addr_width = 0, g_reg_data_width = 0, reg_cmds = []\<rparr>"]
  by auto

end
