(* ===== verification/ServerThreads.thy ===== *)
theory ServerThreads
  imports TuningServer Stats3A CaptureImage RegisterOpt
begin

text \<open>
  \<open>server/server_core.c\<close>: the other connection threads of the tuning server, with \<open>mini_shell_exec\<close>
  (\<open>server/mini_shell.c\<close>) and the calls of \<open>isp.c\<close> they make. All threads have the same loop: wait for a packet of the
  thread's command, close on an error, answer a request, count timeouts. \<open>conn_round\<close> is that loop's body with the request
  handler as an argument; each handler is the branch of its own thread, with every reply. The connection is the one of
  \<open>TuningServer\<close>, where \<open>tc_buffer\<close> is the memory block the thread owns (the frame, script or sensor name buffer; a block of no
  bytes when \<open>malloc\<close> failed), extended by the register module, the status word and the stop flag of the threads and the
  commands given to the shell. What the capture module answers is an argument of the round, as is what the ISP library,
  the register driver and the shell show.
\<close>

section \<open>State\<close>

record 'm srv_conn = "'m tuning_conn" +
  sc_reg :: reg_state
  g_thread_status :: u32
  g_thread_stop_flag :: bool
  sc_shell :: "byte list list"

record 'm srv_round = "'m server_round" +
  lib_stats :: "int \<Rightarrow> isp_ae_stats_s \<times> isp_awb_stats_s \<times> isp_af_stats_s" \<comment> \<open>\<open>ctx->stats_ctx\<close> of a device\<close>
  lib_lv :: "int \<Rightarrow> int" \<comment> \<open>\<open>ev_lv\<close> of a device\<close>
  reg_file :: "(int \<times> string) option" \<comment> \<open>the file \<open>read_value\<close>, as in \<open>RegisterOpt\<close>\<close>
  shell_reply :: "byte list option" \<comment> \<open>\<open>None\<close>: no shell, otherwise what \<open>read\<close> delivers\<close>
  get_capture_buffer :: "capture_format \<Rightarrow> (capture_error \<times> capture_format) outcome"
  get_capture_buffer_transfer :: "capture_format \<Rightarrow> (capture_error \<times> capture_format) outcome"
  raw_flow_start :: "capture_format \<Rightarrow> (capture_error \<times> capture_format) outcome"
  raw_flow_stop :: "int \<Rightarrow> capture_error outcome"
  raw_flow_get :: "capture_format \<Rightarrow> (capture_error \<times> capture_format) outcome"
  sensor_input_set :: "sensor_input \<Rightarrow> capture_error outcome"
  raw_stack :: "int \<times> int \<times> int" \<comment> \<open>what \<open>planes_count\<close>, \<open>fps\<close> and \<open>wdr\<close> of the raw flow thread hold\<close>
  frames_malloc_ok :: bool
  chunk_malloc_ok :: bool

abbreviation (input) SOCK_CMD_CAPTURE :: byte where "SOCK_CMD_CAPTURE \<equiv> 0x06"
abbreviation (input) SOCK_CMD_PREVIEW :: byte where "SOCK_CMD_PREVIEW \<equiv> 0x07"
abbreviation (input) SOCK_CMD_GET_STAT :: byte where "SOCK_CMD_GET_STAT \<equiv> 0x08"
abbreviation (input) SOCK_CMD_STAT_AE :: byte where "SOCK_CMD_STAT_AE \<equiv> 0x09"
abbreviation (input) SOCK_CMD_STAT_AWB :: byte where "SOCK_CMD_STAT_AWB \<equiv> 0x0A"
abbreviation (input) SOCK_CMD_STAT_AF :: byte where "SOCK_CMD_STAT_AF \<equiv> 0x0B"
abbreviation (input) SOCK_CMD_SCRIPT :: byte where "SOCK_CMD_SCRIPT \<equiv> 0x0C"
abbreviation (input) SOCK_CMD_REGOPT :: byte where "SOCK_CMD_REGOPT \<equiv> 0x15"
abbreviation (input) SOCK_CMD_REG_SETCFG :: byte where "SOCK_CMD_REG_SETCFG \<equiv> 0x16"
abbreviation (input) SOCK_CMD_REG_READ :: byte where "SOCK_CMD_REG_READ \<equiv> 0x17"
abbreviation (input) SOCK_CMD_REG_WRITE :: byte where "SOCK_CMD_REG_WRITE \<equiv> 0x18"
abbreviation (input) SOCK_CMD_AE_LV :: byte where "SOCK_CMD_AE_LV \<equiv> 0x19"
abbreviation (input) SOCK_CMD_SET_INPUT :: byte where "SOCK_CMD_SET_INPUT \<equiv> 0x1A"
abbreviation (input) SOCK_CMD_RAW_FLOW :: byte where "SOCK_CMD_RAW_FLOW \<equiv> 0x1B"
abbreviation (input) SOCK_CMD_RAW_FLOW_START :: byte where "SOCK_CMD_RAW_FLOW_START \<equiv> 0x1C"
abbreviation (input) SOCK_CMD_RAW_FLOW_STOP :: byte where "SOCK_CMD_RAW_FLOW_STOP \<equiv> 0x1D"
abbreviation (input) SOCK_CMD_RAW_FLOW_GET :: byte where "SOCK_CMD_RAW_FLOW_GET \<equiv> 0x1E"
abbreviation (input) SOCK_CMD_ISP_VERSION :: byte where "SOCK_CMD_ISP_VERSION \<equiv> 0x23"

section \<open>Shared parts of the handlers\<close>

definition arg_int :: "nat \<Rightarrow> sock_packet \<Rightarrow> int" where
  "arg_int k p = sint (bswap32 (reserved p ! k))"

definition arg_high :: "nat \<Rightarrow> sock_packet \<Rightarrow> int" where
  "arg_high k p = uint (drop_bit 16 (bswap32 (reserved p ! k)))"

definition arg_low :: "nat \<Rightarrow> sock_packet \<Rightarrow> int" where
  "arg_low k p = uint (take_bit 16 (bswap32 (reserved p ! k)))"

definition high_low :: "int \<Rightarrow> int \<Rightarrow> u32" where
  "high_low a b = or (push_bit 16 (word_of_int a)) (take_bit 16 (word_of_int b))"

definition send_packet :: "sock_packet \<Rightarrow> 'm srv_conn \<Rightarrow> 'm srv_conn outcome" where
  "send_packet p tc = bind_outcome (tc_send (enc_packet p) tc) (\<lambda>(_, tc1). Ret tc1)"

text \<open>A packet that announces data; the data follow when the client has acknowledged it.\<close>

definition send_data :: "byte \<Rightarrow> sock_packet \<Rightarrow> ('m srv_conn \<Rightarrow> 'm srv_conn outcome) \<Rightarrow> 'm srv_conn \<Rightarrow> 'm srv_conn outcome" where
  "send_data cmd p body tc =
     (case sock_write_check_packet SOCK_DEFAULT_TIMEOUT (tc_io tc) p cmd (tc_sock tc) of
        None \<Rightarrow> Blocks
      | Some (c, _, io, s) \<Rightarrow>
          let tc1 = tc\<lparr>tc_io := io, tc_sock := s\<rparr> in
          if c = SOCK_RW_CHECK_OK then body tc1 else Ret tc1)"

text \<open>Bytes from the start of a block; a negative length sends nothing.\<close>

definition send_block :: "byte list \<Rightarrow> int \<Rightarrow> 'm srv_conn \<Rightarrow> 'm srv_conn outcome" where
  "send_block buf len tc =
     (if int (length buf) < len then Ub
      else bind_outcome (tc_send (take (nat len) buf) tc) (\<lambda>(_, tc1). Ret tc1))"

section \<open>Preview and capture\<close>

text \<open>V4L2 pixel formats: NV12, NV21, YU12, YV12; NM12, NM21; YM12, YM21.\<close>

definition planes_of :: "int \<Rightarrow> int" where
  "planes_of fmt =
     (if fmt \<in> {0x3231564e, 0x3132564e, 0x32315559, 0x32315659} then 1
      else if fmt \<in> {0x32314d4e, 0x31324d4e} then 2
      else if fmt \<in> {0x32314d59, 0x31324d59} then 3
      else 1)"

text \<open>Members the handler does not assign (\<open>framecount\<close> of a preview) are indeterminate and not read; they are 0 here.\<close>

definition preview_format :: "byte list \<Rightarrow> sock_packet \<Rightarrow> capture_format" where
  "preview_format buf p = \<lparr>rn_width = arg_high 1 p, rn_height = arg_low 1 p, rn_format = arg_int 0 p,
     rn_planes = planes_of (arg_int 0 p), rn_stride = [0, 0, 0], rn_length = 0, rn_buffer = buf,
     cf_channel = arg_int 2 p, cf_fps = arg_high 3 p, cf_wdr = arg_low 3 p, cf_framecount = 0, cf_index = sint (bswap32 (index p))\<rparr>"

definition frame_packet :: "capture_format \<Rightarrow> sock_packet \<Rightarrow> sock_packet" where
  "frame_packet f p = p\<lparr>data_length := bswap32 (word_of_int (rn_length f)),
     reserved := [bswap32 (word_of_int (rn_format f)), bswap32 (high_low (rn_width f) (rn_height f)),
       bswap32 (high_low (rn_stride f ! 0) (rn_stride f ! 1)), bswap32 (high_low (rn_stride f ! 2) 0)]\<rparr>"

definition preview_request :: "'m srv_round \<Rightarrow> sock_packet \<Rightarrow> 'm srv_conn \<Rightarrow> 'm srv_conn outcome" where
  "preview_request r p tc =
     bind_outcome (get_capture_buffer r (preview_format (tc_buffer tc) p)) (\<lambda>(e, f).
       let tc1 = tc\<lparr>tc_buffer := rn_buffer f\<rparr> in
       if e \<noteq> CAP_ERR_NONE then tc_reply SOCK_CMD_RET_FAILED p tc1
       else send_data SOCK_CMD_PREVIEW (frame_packet f p) (send_block (rn_buffer f) (rn_length f)) tc1)"

text \<open>The frames of a capture leave in pieces of 4 MB; the result of a piece is not looked at.\<close>

definition TRANSFER_SIZE :: int where
  "TRANSFER_SIZE = 4194304"

function transfer_loop :: "byte list \<Rightarrow> nat \<Rightarrow> int \<Rightarrow> 'm srv_conn \<Rightarrow> 'm srv_conn outcome" where
  "transfer_loop buf len left tc =
     (if left > TRANSFER_SIZE then
        if int (length buf) < int len + TRANSFER_SIZE then Ub
        else bind_outcome (tc_send (take (nat TRANSFER_SIZE) (drop len buf)) tc) (\<lambda>(_, tc1).
          transfer_loop buf (len + nat TRANSFER_SIZE) (left - TRANSFER_SIZE) tc1)
      else if left > 0 then
        if int (length buf) < int len + left then Ub
        else bind_outcome (tc_send (take (nat left) (drop len buf)) tc) (\<lambda>(_, tc1). Ret tc1)
      else Ret tc)"
  by pat_completeness auto
termination
  by (relation "measure (\<lambda>(_, _, left, _). nat left)") (auto simp: TRANSFER_SIZE_def)

declare transfer_loop.simps [simp del]

text \<open>\<open>TRANSFER_SIZE * framecount\<close> is a product of \<open>int\<close>s; a negative size is too large for \<open>malloc\<close>.\<close>

definition capture_block :: "bool \<Rightarrow> int \<Rightarrow> byte list outcome" where
  "capture_block malloc_ok count =
     (if \<not> int_ok (TRANSFER_SIZE * count) then Ub
      else Ret (if malloc_ok then replicate (nat (TRANSFER_SIZE * count)) 0 else []))"

definition capture_request :: "'m srv_round \<Rightarrow> sock_packet \<Rightarrow> 'm srv_conn \<Rightarrow> 'm srv_conn outcome" where
  "capture_request r p tc =
     (let count = sint (bswap32 (framecount p)) in
      bind_outcome (capture_block (frames_malloc_ok r) count) (\<lambda>buf.
      bind_outcome (get_capture_buffer_transfer r ((preview_format buf p)\<lparr>cf_framecount := count\<rparr>)) (\<lambda>(e, f).
        if e \<noteq> CAP_ERR_NONE then tc_reply SOCK_CMD_RET_FAILED p tc
        else send_data SOCK_CMD_CAPTURE (frame_packet f p)
          (\<lambda>tc1. if \<not> chunk_malloc_ok r \<and> rn_length f > 0 then Ub else transfer_loop (rn_buffer f) 0 (rn_length f) tc1) tc)))"

section \<open>Statistics and light value\<close>

definition isp_stats_req :: "(int \<Rightarrow> isp_ae_stats_s \<times> isp_awb_stats_s \<times> isp_af_stats_s) \<Rightarrow> int \<Rightarrow> 'm isp_media \<Rightarrow>
  (int \<times> (isp_ae_stats_s \<times> isp_awb_stats_s \<times> isp_af_stats_s) option) outcome" where
  "isp_stats_req stats dev_id st =
     (if dev_id \<ge> HW_ISP_DEVICE_NUM then Ret (- 1, None)
      else if dev_id < 0 then Ub
      else case isp_dev_at st dev_id of
        None \<Rightarrow> Ret (- 1, None)
      | Some isp \<Rightarrow> if \<not> isp_dev_get_ctx isp then Ret (- 1, None) else Ret (0, Some (stats dev_id)))"

definition isp_get_lv :: "(int \<Rightarrow> int) \<Rightarrow> int \<Rightarrow> 'm isp_media \<Rightarrow> int outcome" where
  "isp_get_lv lv dev_id st =
     (if dev_id < 0 \<or> dev_id \<ge> HW_ISP_DEVICE_NUM then Ub
      else case isp_dev_at st dev_id of
        None \<Rightarrow> Ret (- 1)
      | Some isp \<Rightarrow> if \<not> isp_dev_get_ctx isp then Ret (- 1) else Ret (lv dev_id))"

text \<open>The bytes of the statistics structs, member by member; \<open>sizeof\<close> is their number.\<close>

definition enc64 :: "u64 \<Rightarrow> byte list" where
  "enc64 w = enc32 (ucast w) @ enc32 (ucast (drop_bit 32 w))"

fun stat_bytes :: "stat_info \<Rightarrow> byte list" where
  "stat_bytes (StatAE s) = enc32 (win_pix_n s) @ enc32s (accum_r s) @ enc32s (accum_g s) @ enc32s (accum_b s) @
     enc32s (ae_avg s) @ enc32s (hist s)"
| "stat_bytes (StatAWB s) = enc32s (awb_sum_r s) @ enc32s (awb_sum_g s) @ enc32s (awb_sum_b s) @ enc32s (awb_sum_cnt s) @
     enc32s (awb_avg_r s) @ enc32s (awb_avg_g s) @ enc32s (awb_avg_b s) @ enc32s (awb_avg s)"
| "stat_bytes (StatAF s) = concat (map enc64 (af_iir s @ af_fir s @ af_iir_cnt s @ af_fir_cnt s @ af_hlt_cnt s @
     af_count s @ af_h_d1 s @ af_h_d2 s @ af_v_d1 s @ af_v_d2 s))"

definition pick_stats :: "byte \<Rightarrow> isp_ae_stats_s \<times> isp_awb_stats_s \<times> isp_af_stats_s \<Rightarrow> stat_info" where
  "pick_stats type st = (case st of (ae, awb, af) \<Rightarrow>
     if type = SOCK_CMD_STAT_AE then StatAE ae else if type = SOCK_CMD_STAT_AWB then StatAWB awb else StatAF af)"

text \<open>The result of \<open>select_isp\<close> is overwritten by the one of \<open>isp_stats_req\<close>.\<close>

definition statistics_request :: "'m srv_round \<Rightarrow> sock_packet \<Rightarrow> 'm srv_conn \<Rightarrow> 'm srv_conn outcome" where
  "statistics_request r p tc =
     (let type = cmd_ids p ! 1; isp_sel = arg_int 0 p in
      if type = SOCK_CMD_STAT_AE \<or> type = SOCK_CMD_STAT_AWB \<or> type = SOCK_CMD_STAT_AF then
        bind_outcome (select_isp (round_env r) (vich_open r) isp_sel (tc_handle tc)) (\<lambda>(_, h).
        let tc1 = tc\<lparr>tc_handle := h\<rparr> in
        bind_outcome (isp_stats_req (lib_stats r) isp_sel (h_media h)) (\<lambda>(rc, st).
        if rc \<ge> 0 then
          (let bytes = stat_bytes (hton_3a_info (pick_stats type (the st))) in
           send_data SOCK_CMD_GET_STAT (p\<lparr>data_length := bswap32 (word_of_nat (length bytes))\<rparr>)
             (send_block bytes (int (length bytes))) tc1)
        else tc_reply SOCK_CMD_RET_FAILED p tc1))
      else tc_reply SOCK_CMD_RET_FAILED p tc)"

definition aelv_request :: "'m srv_round \<Rightarrow> sock_packet \<Rightarrow> 'm srv_conn \<Rightarrow> 'm srv_conn outcome" where
  "aelv_request r p tc =
     bind_outcome (isp_get_lv (lib_lv r) (arg_int 0 p) (h_media (tc_handle tc))) (\<lambda>lv.
       if lv > 0 then send_packet (p\<lparr>reserved := (reserved p)[0 := bswap32 (word_of_int lv)]\<rparr>) tc
       else tc_reply SOCK_CMD_RET_FAILED p tc)"

section \<open>Scripts\<close>

text \<open>\<open>mini_shell_exec\<close> with the same block of 1024 bytes for the command and the reply: the result, the block and the command.\<close>

definition c_string :: "byte list \<Rightarrow> byte list" where
  "c_string bs = takeWhile (\<lambda>b. b \<noteq> 0) bs"

definition mini_shell_exec :: "byte list option \<Rightarrow> byte list \<Rightarrow> int \<times> byte list \<times> byte list list" where
  "mini_shell_exec shell buf =
     (case shell of
        None \<Rightarrow> (- 1, buf, [])
      | Some out \<Rightarrow>
          let reply = c_string (overlay (replicate 1024 0) (take 1024 out)) in
          (0, reply @ replicate (1024 - length reply) 0, [c_string buf]))"

definition EXIT_COMMAND :: "byte list" where
  "EXIT_COMMAND = map of_char ''ExitHawkview'' @ [0]"

definition EXIT_REPLY :: "byte list" where
  "EXIT_REPLY = map of_char ''Server is ready to exit...'' @ [0]"

definition run_script :: "'m srv_round \<Rightarrow> byte list \<Rightarrow> 'm srv_conn \<Rightarrow> int \<times> 'm srv_conn" where
  "run_script r buf tc =
     (if strncmp_eq 8 buf EXIT_COMMAND
      then (0, tc\<lparr>tc_buffer := overlay buf EXIT_REPLY, g_thread_status := or (g_thread_status tc) 0x01000000, g_thread_stop_flag := True\<rparr>)
      else case mini_shell_exec (shell_reply r) buf of (rc, buf1, cmds) \<Rightarrow>
        (rc, tc\<lparr>tc_buffer := buf1, sc_shell := sc_shell tc @ cmds\<rparr>))"

definition script_request :: "'m srv_round \<Rightarrow> sock_packet \<Rightarrow> 'm srv_conn \<Rightarrow> 'm srv_conn outcome" where
  "script_request r p tc =
     (if pkt_length p \<le> 0 then Ret tc
      else case sock_read SOCK_DEFAULT_TIMEOUT (tc_io tc) (nat (pkt_length p)) (tc_sock tc) of
        None \<Rightarrow> Blocks
      | Some (data, io, s) \<Rightarrow>
          if length data > length (tc_buffer tc) then Ub
          else let tc1 = tc\<lparr>tc_buffer := overlay (tc_buffer tc) data, tc_io := io, tc_sock := s\<rparr> in
            if int (length data) \<noteq> pkt_length p then tc_reply SOCK_CMD_RET_FAILED p tc1
            else if length data \<ge> length (tc_buffer tc) then Ub
            else (case run_script r ((tc_buffer tc1)[length data := 0]) tc1 of (rc, tc2) \<Rightarrow>
              let buf = (tc_buffer tc2)[1023 := 0] in
              if rc = 0 then
                (case shell_format buf of
                   None \<Rightarrow> Ub
                 | Some (n, buf1) \<Rightarrow>
                     send_data SOCK_CMD_SCRIPT (p\<lparr>ret := bswap32 SOCK_CMD_RET_OK, data_length := bswap32 (word_of_nat n)\<rparr>)
                       (send_block buf1 (int n)) (tc2\<lparr>tc_buffer := buf1\<rparr>))
              else tc_reply SOCK_CMD_RET_FAILED p (tc2\<lparr>tc_buffer := buf\<rparr>)))"

section \<open>Registers\<close>

definition to_string :: "byte list \<Rightarrow> string" where
  "to_string bs = map (\<lambda>b. char_of (unat b)) (c_string bs)"

definition reg_answer :: "(int \<times> reg_state) option \<Rightarrow> (int \<Rightarrow> 'm srv_conn \<Rightarrow> 'm srv_conn outcome) \<Rightarrow> 'm srv_conn \<Rightarrow> 'm srv_conn outcome" where
  "reg_answer res f tc = (case res of None \<Rightarrow> Ub | Some (rc, reg) \<Rightarrow> f rc (tc\<lparr>sc_reg := reg\<rparr>))"

text \<open>\<open>tc_buffer\<close> is the array \<open>sensor_name[128]\<close>.\<close>

definition register_setcfg :: "sock_packet \<Rightarrow> 'm srv_conn \<Rightarrow> 'm srv_conn outcome" where
  "register_setcfg p tc =
     bind_outcome (tc_send (enc_packet p) tc) (\<lambda>(n, tc1).
       if n \<noteq> PACKET_SIZE then Ret tc1
       else case sock_read SOCK_DEFAULT_TIMEOUT (tc_io tc1) (nat (pkt_length p)) (tc_sock tc1) of
         None \<Rightarrow> Blocks
       | Some (data, io, s) \<Rightarrow>
           if length data > length (tc_buffer tc1) then Ub
           else let tc2 = tc1\<lparr>tc_buffer := overlay (tc_buffer tc1) data, tc_io := io, tc_sock := s\<rparr> in
             if int (length data) \<noteq> pkt_length p then Ret tc2
             else if length data \<ge> length (tc_buffer tc1) then Ub
             else let tc3 = tc2\<lparr>tc_buffer := (tc_buffer tc2)[length data := 0]\<rparr> in
               reg_answer (set_reg_opt (Some (to_string (tc_buffer tc3))) (bswap32 (reserved p ! 0)) (bswap32 (reserved p ! 1)) (sc_reg tc3))
                 (\<lambda>rc. tc_reply (if rc = 0 then SOCK_CMD_RET_OK else SOCK_CMD_RET_FAILED) p) tc3)"

definition register_request :: "'m srv_round \<Rightarrow> sock_packet \<Rightarrow> 'm srv_conn \<Rightarrow> 'm srv_conn outcome" where
  "register_request r p tc =
     (if cmd_ids p ! 1 = SOCK_CMD_REG_READ then
        reg_answer (read_reg (reg_file r) (bswap32 (reserved p ! 2)) (sc_reg tc))
          (\<lambda>reg_data. if reg_data \<ge> 0 then send_packet (p\<lparr>reserved := (reserved p)[3 := bswap32 (word_of_int reg_data)]\<rparr>)
            else tc_reply SOCK_CMD_RET_FAILED p) tc
      else if cmd_ids p ! 1 = SOCK_CMD_REG_WRITE then
        reg_answer (write_reg (bswap32 (reserved p ! 2)) (bswap32 (reserved p ! 3)) (sc_reg tc))
          (\<lambda>rc. if rc = 0 then send_packet p else tc_reply SOCK_CMD_RET_FAILED p) tc
      else if cmd_ids p ! 1 = SOCK_CMD_REG_SETCFG then register_setcfg p tc
      else tc_reply SOCK_CMD_RET_FAILED p tc)"

section \<open>Sensor input, raw flow and version\<close>

definition input_of :: "sock_packet \<Rightarrow> sensor_input" where
  "input_of p = \<lparr>si_channel = arg_low 0 p, si_width = arg_high 1 p, si_height = arg_low 1 p, si_fps = arg_high 2 p,
     si_wdr = arg_low 2 p, si_index = sint (bswap32 (index p))\<rparr>"

definition set_input_request :: "'m srv_round \<Rightarrow> sock_packet \<Rightarrow> 'm srv_conn \<Rightarrow> 'm srv_conn outcome" where
  "set_input_request r p tc =
     bind_outcome (sensor_input_set r (input_of p)) (\<lambda>e.
       if e = CAP_ERR_NONE then
         bind_outcome (select_isp (round_env r) (vich_open r) (arg_high 0 p) (tc_handle tc)) (\<lambda>(_, h).
           send_packet p (tc\<lparr>tc_handle := h\<rparr>))
       else tc_reply SOCK_CMD_RET_FAILED p tc)"

text \<open>The raw flow thread assigns neither the number of planes, the frame rate nor the mode of its format.\<close>

definition raw_flow_format :: "int \<times> int \<times> int \<Rightarrow> byte list \<Rightarrow> sock_packet \<Rightarrow> capture_format" where
  "raw_flow_format stack buf p = (case stack of (planes, fps, wdr) \<Rightarrow>
     \<lparr>rn_width = arg_high 1 p, rn_height = arg_low 1 p, rn_format = arg_int 0 p,
      rn_planes = planes, rn_stride = [0, 0, 0], rn_length = 0, rn_buffer = buf,
      cf_channel = arg_int 2 p, cf_fps = fps, cf_wdr = wdr, cf_framecount = 0, cf_index = sint (bswap32 (index p))\<rparr>)"

definition raw_flow_request :: "'m srv_round \<Rightarrow> sock_packet \<Rightarrow> 'm srv_conn \<Rightarrow> 'm srv_conn outcome" where
  "raw_flow_request r p tc =
     (let f = raw_flow_format (raw_stack r) (tc_buffer tc) p in
      if cmd_ids p ! 1 = SOCK_CMD_RAW_FLOW_START then
        bind_outcome (raw_flow_start r f) (\<lambda>(e, f1). let tc1 = tc\<lparr>tc_buffer := rn_buffer f1\<rparr> in
          if e = CAP_ERR_NONE then send_packet p tc1 else tc_reply SOCK_CMD_RET_FAILED p tc1)
      else if cmd_ids p ! 1 = SOCK_CMD_RAW_FLOW_STOP then
        bind_outcome (raw_flow_stop r (cf_channel f)) (\<lambda>e.
          if e = CAP_ERR_NONE then send_packet p tc else tc_reply SOCK_CMD_RET_FAILED p tc)
      else if cmd_ids p ! 1 = SOCK_CMD_RAW_FLOW_GET then
        bind_outcome (raw_flow_get r f) (\<lambda>(e, f1). let tc1 = tc\<lparr>tc_buffer := rn_buffer f1\<rparr> in
          if e = CAP_ERR_NONE
          then send_data SOCK_CMD_RAW_FLOW (frame_packet f1 p) (send_block (rn_buffer f1) (rn_length f1)) tc1
          else tc_reply SOCK_CMD_RET_FAILED p tc1)
      else tc_reply SOCK_CMD_RET_FAILED p tc)"

definition isp_get_version :: "byte list" where
  "isp_get_version = map of_char ''ISP522'' @ [0]"

text \<open>The version goes out without a packet of its own; the thread ends when that fails.\<close>

definition version_request :: "'m srv_conn \<Rightarrow> (bool \<times> 'm srv_conn) outcome" where
  "version_request tc =
     (if length (tc_buffer tc) < length isp_get_version then Ub
      else let buf = overlay (tc_buffer tc) isp_get_version; str = c_string buf in
        bind_outcome (tc_send str (tc\<lparr>tc_buffer := buf\<rparr>)) (\<lambda>(n, tc1). Ret (n = length str, tc1)))"

section \<open>The threads\<close>

definition stopped :: "'m srv_round \<Rightarrow> 'm srv_conn \<Rightarrow> bool" where
  "stopped r tc \<longleftrightarrow> stop_flag r \<or> g_thread_stop_flag tc"

type_synonym packet_reader = "int \<Rightarrow> io_ev list \<Rightarrow> byte \<Rightarrow> sock \<Rightarrow> (sock_rw_check_ret \<times> sock_packet \<times> io_ev list \<times> sock) option"

definition conn_round :: "packet_reader \<Rightarrow> byte \<Rightarrow> (sock_packet \<Rightarrow> 'm srv_conn \<Rightarrow> (bool \<times> 'm srv_conn) outcome) \<Rightarrow>
  'm srv_round \<Rightarrow> 'm srv_conn \<Rightarrow> (bool \<times> 'm srv_conn) outcome" where
  "conn_round reader cmd handle r tc =
     (if stopped r tc then Ret (False, tc)
      else case reader SOCK_DEFAULT_TIMEOUT (tc_io tc) cmd (tc_sock tc) of
        None \<Rightarrow> Blocks
      | Some (c, p, io, s) \<Rightarrow>
          let tc1 = tc\<lparr>tc_io := io, tc_sock := s\<rparr> in
          if SHOULD_CLOSE_SOCK c then Ret (False, tc1)
          else if c = SOCK_RW_CHECK_OK then handle p tc1
          else Ret (count_timeout tc1))"

definition keep_on :: "('m srv_conn \<Rightarrow> 'm srv_conn outcome) \<Rightarrow> 'm srv_conn \<Rightarrow> (bool \<times> 'm srv_conn) outcome" where
  "keep_on f tc = bind_outcome (f (tc\<lparr>tc_timeouts := 0\<rparr>)) (\<lambda>tc1. Ret (True, tc1))"

type_synonym 'm thread_round = "'m srv_round \<Rightarrow> 'm srv_conn \<Rightarrow> (bool \<times> 'm srv_conn) outcome"

definition heart_jump_loop :: "'m thread_round" where
  "heart_jump_loop r tc =
     (case heart_jump_round (stopped r tc) (tc_timeouts tc, tc_io tc, tc_sock tc) of
        None \<Rightarrow> Blocks
      | Some (go, n, io, s) \<Rightarrow> Ret (go, tc\<lparr>tc_timeouts := n, tc_io := io, tc_sock := s\<rparr>))"

definition tuning_loop :: "'m thread_round" where
  "tuning_loop r tc = tuning_round (r\<lparr>stop_flag := stopped r tc\<rparr>) tc"

definition preview_loop :: "'m thread_round" where
  "preview_loop r = conn_round sock_read_check_packet SOCK_CMD_PREVIEW (\<lambda>p. keep_on (preview_request r p)) r"

definition capture_loop :: "'m thread_round" where
  "capture_loop r = conn_round sock_read_check_packet SOCK_CMD_CAPTURE (\<lambda>p. keep_on (capture_request r p)) r"

definition statistics_loop :: "'m thread_round" where
  "statistics_loop r = conn_round sock_read_check_packet SOCK_CMD_GET_STAT (\<lambda>p. keep_on (statistics_request r p)) r"

definition script_loop :: "'m thread_round" where
  "script_loop r = conn_round sock_read_check_reply SOCK_CMD_SCRIPT (\<lambda>p. keep_on (script_request r p)) r"

definition register_loop :: "'m thread_round" where
  "register_loop r = conn_round sock_read_check_packet SOCK_CMD_REGOPT (\<lambda>p. keep_on (register_request r p)) r"

definition aelv_loop :: "'m thread_round" where
  "aelv_loop r = conn_round sock_read_check_packet SOCK_CMD_AE_LV (\<lambda>p. keep_on (aelv_request r p)) r"

definition raw_flow_loop :: "'m thread_round" where
  "raw_flow_loop r = conn_round sock_read_check_packet SOCK_CMD_RAW_FLOW (\<lambda>p. keep_on (raw_flow_request r p)) r"

definition isp_version_loop :: "'m thread_round" where
  "isp_version_loop r = conn_round sock_read_check_reply SOCK_CMD_ISP_VERSION (\<lambda>p. version_request) r"

text \<open>The thread for the sensor input leaves its loop after one turn, whatever happened.\<close>

definition set_input_loop :: "'m thread_round" where
  "set_input_loop r tc =
     bind_outcome (conn_round sock_read_check_packet SOCK_CMD_SET_INPUT (\<lambda>p. keep_on (set_input_request r p)) r tc)
       (\<lambda>(_, tc1). Ret (False, tc1))"

fun conn_thread :: "'m thread_round \<Rightarrow> 'm srv_round list \<Rightarrow> 'm srv_conn \<Rightarrow> 'm srv_conn outcome" where
  "conn_thread round [] tc = Blocks"
| "conn_thread round (r # rs) tc =
     bind_outcome (round r tc) (\<lambda>(go, tc1). if go then conn_thread round rs tc1 else Ret tc1)"

text \<open>
  A whole thread: it sets its bit of the status word, loops, closes the socket and clears a bit. The block it allocates is
  in the connection already. The version thread sets no bit and clears the one of the tuning thread.
\<close>

definition run_thread :: "u32 \<Rightarrow> u32 \<Rightarrow> 'm thread_round \<Rightarrow> 'm srv_round list \<Rightarrow> 'm srv_conn \<Rightarrow> 'm srv_conn outcome" where
  "run_thread on off round rs tc =
     bind_outcome (conn_thread round rs (tc\<lparr>tc_timeouts := 0, g_thread_status := or (g_thread_status tc) on\<rparr>))
       (\<lambda>tc1. Ret (tc1\<lparr>g_thread_status := and (g_thread_status tc1) (not off)\<rparr>))"

definition sock_handle_heart_jump_thread :: "'m srv_round list \<Rightarrow> 'm srv_conn \<Rightarrow> 'm srv_conn outcome" where
  "sock_handle_heart_jump_thread rs tc = run_thread 0x1 0x1 heart_jump_loop rs (tc\<lparr>g_thread_stop_flag := False\<rparr>)"

definition sock_handle_preview_thread :: "'m srv_round list \<Rightarrow> 'm srv_conn \<Rightarrow> 'm srv_conn outcome" where
  "sock_handle_preview_thread = run_thread 0x2 0x2 preview_loop"

definition sock_handle_capture_thread :: "'m srv_round list \<Rightarrow> 'm srv_conn \<Rightarrow> 'm srv_conn outcome" where
  "sock_handle_capture_thread = run_thread 0x4 0x4 capture_loop"

definition sock_handle_statistics_thread :: "'m srv_round list \<Rightarrow> 'm srv_conn \<Rightarrow> 'm srv_conn outcome" where
  "sock_handle_statistics_thread = run_thread 0x10 0x10 statistics_loop"

definition sock_handle_script_thread :: "'m srv_round list \<Rightarrow> 'm srv_conn \<Rightarrow> 'm srv_conn outcome" where
  "sock_handle_script_thread = run_thread 0x20 0x20 script_loop"

definition sock_handle_register_thread :: "'m srv_round list \<Rightarrow> 'm srv_conn \<Rightarrow> 'm srv_conn outcome" where
  "sock_handle_register_thread = run_thread 0x40 0x40 register_loop"

definition sock_handle_aelv_thread :: "'m srv_round list \<Rightarrow> 'm srv_conn \<Rightarrow> 'm srv_conn outcome" where
  "sock_handle_aelv_thread = run_thread 0x80 0x80 aelv_loop"

definition sock_handle_set_input_thread :: "'m srv_round list \<Rightarrow> 'm srv_conn \<Rightarrow> 'm srv_conn outcome" where
  "sock_handle_set_input_thread = run_thread 0x100 0x100 set_input_loop"

definition sock_handle_raw_flow_thread :: "'m srv_round list \<Rightarrow> 'm srv_conn \<Rightarrow> 'm srv_conn outcome" where
  "sock_handle_raw_flow_thread = run_thread 0x200 0x200 raw_flow_loop"

definition sock_handle_isp_version_thread :: "'m srv_round list \<Rightarrow> 'm srv_conn \<Rightarrow> 'm srv_conn outcome" where
  "sock_handle_isp_version_thread = run_thread 0 0x8 isp_version_loop"

definition tuning_thread :: "'m srv_round list \<Rightarrow> 'm srv_conn \<Rightarrow> 'm srv_conn outcome" where
  "tuning_thread = run_thread 0x8 0x8 tuning_loop"

section \<open>Silent connections\<close>

text \<open>
  What all loops have in common: a set stop flag ends them, and a round in which \<open>select\<close> times out is counted. A loop with
  these two laws lives through ten silent rounds and ends in the eleventh.
\<close>

locale timed_loop =
  fixes round :: "'m thread_round"
  assumes stop_ends: "stopped r tc \<Longrightarrow> round r tc = Ret (False, tc)"
    and timeout_counted: "\<not> stopped r tc \<Longrightarrow> sel (tc_sock tc) = SelTimeout # evs \<Longrightarrow>
      \<exists>e. round r tc = Ret (tc_timeouts tc + 1 \<le> SERVER_TIMEOUT_MAX,
        tc\<lparr>tc_sock := (tc_sock tc)\<lparr>sel := evs, errno := e\<rparr>, tc_timeouts := tc_timeouts tc + 1\<rparr>)"
begin

lemma stop_ends_thread: "stopped r tc \<Longrightarrow> conn_thread round (r # rs) tc = Ret tc"
  by (simp add: stop_ends)

lemma silent_rounds:
  "\<forall>r \<in> set rs. \<not> stop_flag r \<Longrightarrow> \<not> g_thread_stop_flag tc \<Longrightarrow> sel (tc_sock tc) = replicate (length rs) SelTimeout @ evs \<Longrightarrow>
   tc_timeouts tc \<le> SERVER_TIMEOUT_MAX \<Longrightarrow>
   (if length rs + tc_timeouts tc \<le> SERVER_TIMEOUT_MAX then conn_thread round rs tc = Blocks
    else \<exists>e. conn_thread round rs tc = Ret (tc\<lparr>tc_sock := (tc_sock tc)\<lparr>sel := drop (11 - tc_timeouts tc) (sel (tc_sock tc)), errno := e\<rparr>,
      tc_timeouts := 11\<rparr>))"
proof (induction rs arbitrary: tc)
  case (Cons r rs)
  obtain e where r: "round r tc = Ret (tc_timeouts tc + 1 \<le> 10,
      tc\<lparr>tc_sock := (tc_sock tc)\<lparr>sel := replicate (length rs) SelTimeout @ evs, errno := e\<rparr>, tc_timeouts := tc_timeouts tc + 1\<rparr>)"
    using timeout_counted[of r tc "replicate (length rs) SelTimeout @ evs"] Cons.prems by (auto simp: stopped_def)
  let ?tc = "tc\<lparr>tc_sock := (tc_sock tc)\<lparr>sel := replicate (length rs) SelTimeout @ evs, errno := e\<rparr>, tc_timeouts := tc_timeouts tc + 1\<rparr>"
  show ?case
  proof (cases "tc_timeouts tc + 1 \<le> 10")
    case True
    then have "11 - tc_timeouts tc = Suc (11 - (tc_timeouts tc + 1))" by simp
    then show ?thesis using Cons.IH[of ?tc] Cons.prems r True by (auto split: if_splits)
  next
    case False
    then have "tc_timeouts tc = 10" using Cons.prems(4) by simp
    then show ?thesis using Cons.prems(3) r by auto
  qed
qed simp

end

lemma read_check_timeout:
  assumes "sel s = SelTimeout # evs"
  shows "\<exists>p. sock_read_check_packet SOCK_DEFAULT_TIMEOUT io cmd s = Some (SOCK_RW_TRY_AGAIN, p, io, s\<lparr>sel := evs, errno := ETIMEDOUT\<rparr>)"
    and "\<exists>p. sock_read_check_reply SOCK_DEFAULT_TIMEOUT io cmd s = Some (SOCK_RW_TRY_AGAIN, p, io, s\<lparr>sel := evs, errno := ETIMEDOUT\<rparr>)"
  using assms by (simp_all add: sock_read_check_reply_def sock_read_check_packet_def sock_read.simps read_timeout_def SHOULD_TRY_AGAIN_def Let_def)

definition reports_timeout :: "packet_reader \<Rightarrow> bool" where
  "reports_timeout reader \<longleftrightarrow> (\<forall>io cmd s evs. sel s = SelTimeout # evs \<longrightarrow>
     (\<exists>p. reader SOCK_DEFAULT_TIMEOUT io cmd s = Some (SOCK_RW_TRY_AGAIN, p, io, s\<lparr>sel := evs, errno := ETIMEDOUT\<rparr>)))"

lemma readers_report_timeout: "reports_timeout sock_read_check_packet" "reports_timeout sock_read_check_reply"
  using read_check_timeout by (auto simp: reports_timeout_def)

lemma conn_round_timed:
  assumes "reports_timeout reader"
  shows "timed_loop (\<lambda>r. conn_round reader cmd (handle r) r)"
proof unfold_locales
  fix r :: "'a srv_round" and tc :: "'a srv_conn" and evs
  assume a: "\<not> stopped r tc" "sel (tc_sock tc) = SelTimeout # evs"
  obtain p where "reader SOCK_DEFAULT_TIMEOUT (tc_io tc) cmd (tc_sock tc) =
      Some (SOCK_RW_TRY_AGAIN, p, tc_io tc, (tc_sock tc)\<lparr>sel := evs, errno := ETIMEDOUT\<rparr>)"
    using assms a(2) unfolding reports_timeout_def by blast
  with a show "\<exists>e. conn_round reader cmd (handle r) r tc = Ret (tc_timeouts tc + 1 \<le> SERVER_TIMEOUT_MAX,
      tc\<lparr>tc_sock := (tc_sock tc)\<lparr>sel := evs, errno := e\<rparr>, tc_timeouts := tc_timeouts tc + 1\<rparr>)"
    by (auto simp: conn_round_def SHOULD_CLOSE_SOCK_def count_timeout_def)
qed (simp add: conn_round_def)

lemmas packet_timed = conn_round_timed[OF readers_report_timeout(1)]
lemmas reply_timed = conn_round_timed[OF readers_report_timeout(2)]

interpretation heart: timed_loop heart_jump_loop
proof unfold_locales
  fix r :: "'a srv_round" and tc :: "'a srv_conn" and evs
  assume "\<not> stopped r tc" "sel (tc_sock tc) = SelTimeout # evs"
  with read_check_timeout(2)[of "tc_sock tc" evs "tc_io tc" SOCK_CMD_HEART_JUMP]
  show "\<exists>e. heart_jump_loop r tc = Ret (tc_timeouts tc + 1 \<le> SERVER_TIMEOUT_MAX,
      tc\<lparr>tc_sock := (tc_sock tc)\<lparr>sel := evs, errno := e\<rparr>, tc_timeouts := tc_timeouts tc + 1\<rparr>)"
    by (auto simp: heart_jump_loop_def heart_jump_round_def SHOULD_CLOSE_SOCK_def intro: exI[of _ 0])
qed (simp add: heart_jump_loop_def heart_jump_round_def)

interpretation tuning: timed_loop tuning_loop
proof unfold_locales
  fix r :: "'a srv_round" and tc :: "'a srv_conn" and evs
  assume "\<not> stopped r tc" "sel (tc_sock tc) = SelTimeout # evs"
  with read_check_timeout(1)[of "tc_sock tc" evs "tc_io tc" SOCK_CMD_TUNING]
  show "\<exists>e. tuning_loop r tc = Ret (tc_timeouts tc + 1 \<le> SERVER_TIMEOUT_MAX,
      tc\<lparr>tc_sock := (tc_sock tc)\<lparr>sel := evs, errno := e\<rparr>, tc_timeouts := tc_timeouts tc + 1\<rparr>)"
    by (auto simp: tuning_loop_def tuning_round_def SHOULD_CLOSE_SOCK_def count_timeout_def)
qed (simp add: tuning_loop_def tuning_round_def)

interpretation preview: timed_loop preview_loop
  unfolding preview_loop_def by (rule packet_timed)

interpretation capture_conn: timed_loop capture_loop
  unfolding capture_loop_def by (rule packet_timed)

interpretation statistics: timed_loop statistics_loop
  unfolding statistics_loop_def by (rule packet_timed)

interpretation script: timed_loop script_loop
  unfolding script_loop_def by (rule reply_timed)

interpretation reg_access: timed_loop register_loop
  unfolding register_loop_def by (rule packet_timed)

interpretation aelv: timed_loop aelv_loop
  unfolding aelv_loop_def by (rule packet_timed)

interpretation raw_conn: timed_loop raw_flow_loop
  unfolding raw_flow_loop_def by (rule packet_timed)

interpretation version: timed_loop isp_version_loop
  unfolding isp_version_loop_def by (rule reply_timed)

section \<open>Requests on a connection that flows\<close>

lemma packet_round:
  assumes "\<not> stopped r tc" "wf_packet p" "inp (tc_sock tc) = enc_packet p @ rest" "classify p cmd = SOCK_RW_CHECK_OK"
    and "flowing (PACKET_SIZE + n) (tc_io tc) (tc_sock tc)"
  shows "\<exists>io s. conn_round sock_read_check_packet cmd handle r tc = handle p (tc\<lparr>tc_io := io, tc_sock := s\<rparr>) \<and>
    flowing n io s \<and> inp s = rest \<and> outp s = outp (tc_sock tc)"
  using read_check_ok[OF assms(2,3,5,4), of SOCK_DEFAULT_TIMEOUT] assms(1)
  by (force simp: conn_round_def SHOULD_CLOSE_SOCK_def)

lemma reply_round:
  assumes "\<not> stopped r tc" "wf_packet p" "inp (tc_sock tc) = enc_packet p @ rest" "classify p cmd = SOCK_RW_CHECK_OK"
    and "flowing (2 * PACKET_SIZE + n) (tc_io tc) (tc_sock tc)"
  shows "\<exists>io s. conn_round sock_read_check_reply cmd handle r tc = handle p (tc\<lparr>tc_io := io, tc_sock := s\<rparr>) \<and>
    flowing n io s \<and> inp s = rest \<and> outp s = outp (tc_sock tc) @ enc_packet p"
proof -
  have p: "p\<lparr>ret := bswap32 SOCK_CMD_RET_OK\<rparr> = p"
    using assms(4) by (simp add: classify_def split: if_splits)
  have f: "flowing (PACKET_SIZE + (length (enc_packet p) + n)) (tc_io tc) (tc_sock tc)"
    using assms(2,5) by (simp add: ac_simps)
  obtain io1 s1 where 1: "sock_read_check_packet SOCK_DEFAULT_TIMEOUT (tc_io tc) cmd (tc_sock tc) = Some (SOCK_RW_CHECK_OK, p, io1, s1)"
    "flowing (length (enc_packet p) + n) io1 s1" "inp s1 = rest" "outp s1 = outp (tc_sock tc)"
    using read_check_ok[OF assms(2,3) f assms(4), of SOCK_DEFAULT_TIMEOUT] by auto
  obtain io2 s2 where 2: "sock_write SOCK_DEFAULT_TIMEOUT io1 (enc_packet p) s1 = Some (length (enc_packet p), io2, s2)" "flowing n io2 s2"
    using sock_write_complete[OF 1(2), of SOCK_DEFAULT_TIMEOUT] by auto
  then have "inp s2 = inp s1" "outp s2 = outp s1 @ enc_packet p" using sock_write_prefix[OF 2(1)] by auto
  moreover have "conn_round sock_read_check_reply cmd handle r tc = handle p (tc\<lparr>tc_io := io2, tc_sock := s2\<rparr>)"
    using assms(1,2) 1(1) 2(1) p by (simp add: conn_round_def sock_read_check_reply_def SHOULD_CLOSE_SOCK_def)
  ultimately show ?thesis using 1(3,4) 2(2) by auto
qed

lemma send_packet_complete:
  assumes "wf_packet p" "flowing (PACKET_SIZE + n) (tc_io tc) (tc_sock tc)"
  shows "\<exists>io s. send_packet p tc = Ret (tc\<lparr>tc_io := io, tc_sock := s\<rparr>) \<and> flowing n io s \<and>
    outp s = outp (tc_sock tc) @ enc_packet p \<and> inp s = inp (tc_sock tc)"
proof -
  obtain io s where "tc_send (enc_packet p) tc = Ret (PACKET_SIZE, tc\<lparr>tc_io := io, tc_sock := s\<rparr>)" "flowing n io s"
    "outp s = outp (tc_sock tc) @ enc_packet p" "inp s = inp (tc_sock tc)"
    using tc_send_complete[of "enc_packet p" n tc] assms by auto
  then show ?thesis by (intro exI[of _ io] exI[of _ s]) (simp add: send_packet_def)
qed

lemma send_data_complete:
  assumes "wf_packet p" "wf_packet ack" "classify ack cmd = SOCK_RW_CHECK_OK" "inp (tc_sock tc) = enc_packet ack @ rest"
    and "flowing (2 * PACKET_SIZE + n) (tc_io tc) (tc_sock tc)"
  shows "\<exists>io s. send_data cmd p body tc = body (tc\<lparr>tc_io := io, tc_sock := s\<rparr>) \<and> flowing n io s \<and>
    outp s = outp (tc_sock tc) @ enc_packet p \<and> inp s = rest"
proof -
  have f: "flowing (length (enc_packet p) + (PACKET_SIZE + n)) (tc_io tc) (tc_sock tc)"
    using assms(1,5) by (simp add: ac_simps)
  obtain io1 s1 where 1: "sock_write SOCK_DEFAULT_TIMEOUT (tc_io tc) (enc_packet p) (tc_sock tc) = Some (length (enc_packet p), io1, s1)"
    "flowing (PACKET_SIZE + n) io1 s1"
    using sock_write_complete[OF f, of SOCK_DEFAULT_TIMEOUT] by auto
  have s1: "inp s1 = enc_packet ack @ rest" "outp s1 = outp (tc_sock tc) @ enc_packet p"
    using sock_write_prefix[OF 1(1)] assms(4) by auto
  obtain io2 s2 where "sock_read_check_packet SOCK_DEFAULT_TIMEOUT io1 cmd s1 = Some (SOCK_RW_CHECK_OK, ack, io2, s2)"
    "flowing n io2 s2" "inp s2 = rest" "outp s2 = outp s1"
    using read_check_ok[OF assms(2) s1(1) 1(2) assms(3), of SOCK_DEFAULT_TIMEOUT] by auto
  then show ?thesis
    using 1(1) s1(2) assms(1) by (auto simp: send_data_def sock_write_check_packet_def)
qed

lemma send_block_complete:
  assumes "0 \<le> len" "len \<le> int (length buf)" "flowing (nat len + n) (tc_io tc) (tc_sock tc)"
  shows "\<exists>io s. send_block buf len tc = Ret (tc\<lparr>tc_io := io, tc_sock := s\<rparr>) \<and> flowing n io s \<and>
    outp s = outp (tc_sock tc) @ take (nat len) buf \<and> inp s = inp (tc_sock tc)"
proof -
  have "length (take (nat len) buf) = nat len" using assms(1,2) by simp
  then obtain io s where "tc_send (take (nat len) buf) tc = Ret (nat len, tc\<lparr>tc_io := io, tc_sock := s\<rparr>)" "flowing n io s"
    "outp s = outp (tc_sock tc) @ take (nat len) buf" "inp s = inp (tc_sock tc)"
    using tc_send_complete[of "take (nat len) buf" n tc] assms by auto
  then show ?thesis using assms(2) by (intro exI[of _ io] exI[of _ s]) (simp add: send_block_def)
qed

text \<open>Sending a block in pieces.\<close>

lemma transfer_complete:
  assumes "0 \<le> left" "int len + left \<le> int (length buf)" "flowing (nat left + n) (tc_io tc) (tc_sock tc)"
  shows "\<exists>io s. transfer_loop buf len left tc = Ret (tc\<lparr>tc_io := io, tc_sock := s\<rparr>) \<and> flowing n io s \<and>
    outp s = outp (tc_sock tc) @ take (nat left) (drop len buf) \<and> inp s = inp (tc_sock tc)"
  using assms
proof (induction buf len left tc rule: transfer_loop.induct)
  case (1 buf len left tc)
  let ?T = "nat TRANSFER_SIZE"
  have T: "0 < TRANSFER_SIZE" "int ?T = TRANSFER_SIZE" by (simp_all add: TRANSFER_SIZE_def)
  consider "left > TRANSFER_SIZE" | "left \<le> TRANSFER_SIZE" "left > 0" | "left = 0"
    using "1.prems"(1) by linarith
  then show ?case
  proof cases
    case big: 1
    let ?piece = "take ?T (drop len buf)"
    have lp: "length ?piece = ?T" using big "1.prems" T by auto
    have f: "flowing (length ?piece + (nat (left - TRANSFER_SIZE) + n)) (tc_io tc) (tc_sock tc)"
      using "1.prems"(3) big T unfolding lp by (simp add: nat_diff_distrib)
    obtain io1 s1 where 1: "tc_send ?piece tc = Ret (length ?piece, tc\<lparr>tc_io := io1, tc_sock := s1\<rparr>)"
      "flowing (nat (left - TRANSFER_SIZE) + n) io1 s1" "outp s1 = outp (tc_sock tc) @ ?piece" "inp s1 = inp (tc_sock tc)"
      using tc_send_complete[OF f] by auto
    let ?tc = "tc\<lparr>tc_io := io1, tc_sock := s1\<rparr>"
    have ok: "\<not> int (length buf) < int len + TRANSFER_SIZE" "0 \<le> left - TRANSFER_SIZE"
      "int (len + ?T) + (left - TRANSFER_SIZE) \<le> int (length buf)" using "1.prems"(2) big T by auto
    obtain io2 s2 where 2: "transfer_loop buf (len + ?T) (left - TRANSFER_SIZE) ?tc = Ret (?tc\<lparr>tc_io := io2, tc_sock := s2\<rparr>)"
      "flowing n io2 s2" "outp s2 = outp s1 @ take (nat (left - TRANSFER_SIZE)) (drop (len + ?T) buf)" "inp s2 = inp s1"
      using "1.IH"[OF big ok(1), of ?tc] ok 1(2) by auto
    have "take (nat left) (drop len buf) = ?piece @ take (nat (left - TRANSFER_SIZE)) (drop (len + ?T) buf)"
      using big T by (simp add: nat_diff_distrib add.commute flip: take_add) (metis add.commute drop_drop le_add_diff_inverse less_imp_le nat_mono take_add)
    then show ?thesis
      using 1 2 big ok(1) by (intro exI[of _ io2] exI[of _ s2]) (simp add: transfer_loop.simps[of buf len])
  next
    case 2
    then have l: "length (take (nat left) (drop len buf)) = nat left" using "1.prems"(2) by auto
    then obtain io s where "tc_send (take (nat left) (drop len buf)) tc = Ret (nat left, tc\<lparr>tc_io := io, tc_sock := s\<rparr>)" "flowing n io s"
      "outp s = outp (tc_sock tc) @ take (nat left) (drop len buf)" "inp s = inp (tc_sock tc)"
      using tc_send_complete[of "take (nat left) (drop len buf)" n tc] "1.prems"(3) by auto
    then show ?thesis
      using 2 "1.prems"(2) by (intro exI[of _ io] exI[of _ s]) (simp add: transfer_loop.simps[of buf len])
  next
    case 3
    then show ?thesis using "1.prems"(3) T by (intro exI[of _ "tc_io tc"] exI[of _ "tc_sock tc"]) (simp add: transfer_loop.simps[of buf len])
  qed
qed

section \<open>Frames\<close>

lemma halves:
  assumes "0 \<le> a" "a < 2 ^ 16" "0 \<le> b" "b < 2 ^ 16"
  shows "uint (drop_bit 16 (high_low a b)) = a" "uint (take_bit 16 (high_low a b)) = b"
proof -
  have "take_bit 16 a = a" "take_bit 16 b = b" using assms by (simp_all add: take_bit_int_eq_self)
  then have low: "bit a n \<Longrightarrow> n < 16" "bit b n \<Longrightarrow> n < 16" for n
    by (metis bit_take_bit_iff)+
  show "uint (drop_bit 16 (high_low a b)) = a"
    by (rule bit_eqI) (auto simp: high_low_def bit_simps dest: low)
  show "uint (take_bit 16 (high_low a b)) = b"
    by (rule bit_eqI) (auto simp: high_low_def bit_simps dest: low)
qed

lemma sint_word_of_int: "int_ok x \<Longrightarrow> sint (word_of_int x :: u32) = x"
  by (simp add: int_ok_def sint_sbintrunc' signed_take_bit_int_eq_self)

text \<open>A frame whose numbers fit the fields of a packet, and the packet that announces it.\<close>

definition frame_fits :: "capture_format \<Rightarrow> bool" where
  "frame_fits f \<longleftrightarrow> 0 \<le> rn_length f \<and> rn_length f \<le> int (length (rn_buffer f)) \<and> int_ok (rn_length f) \<and> int_ok (rn_format f) \<and>
     length (rn_stride f) = 3 \<and> (\<forall>x \<in> set (rn_width f # rn_height f # rn_stride f). 0 \<le> x \<and> x < 2 ^ 16)"

definition announces :: "sock_packet \<Rightarrow> capture_format \<Rightarrow> bool" where
  "announces h f \<longleftrightarrow> pkt_length h = rn_length f \<and> arg_int 0 h = rn_format f \<and> arg_high 1 h = rn_width f \<and> arg_low 1 h = rn_height f \<and>
     arg_high 2 h = rn_stride f ! 0 \<and> arg_low 2 h = rn_stride f ! 1 \<and> arg_high 3 h = rn_stride f ! 2"

lemma frame_packet_announces:
  assumes "frame_fits f"
  shows "announces (frame_packet f p) f"
proof -
  have "\<forall>x \<in> set [rn_width f, rn_height f, rn_stride f ! 0, rn_stride f ! 1, rn_stride f ! 2]. 0 \<le> x \<and> x < 2 ^ 16"
    using assms by (auto simp: frame_fits_def)
  then show ?thesis
    using assms halves[of "rn_width f" "rn_height f"] halves[of "rn_stride f ! 0" "rn_stride f ! 1"] halves[of "rn_stride f ! 2" 0]
    by (simp add: announces_def frame_packet_def pkt_length_def arg_int_def arg_high_def arg_low_def sint_word_of_int frame_fits_def)
qed

lemma wf_frame_packet: "wf_packet p \<Longrightarrow> wf_packet (frame_packet f p)"
  by (simp add: wf_packet_def frame_packet_def)

lemma frame_sent:
  assumes "wf_packet p" "wf_packet ack" "classify ack cmd = SOCK_RW_CHECK_OK" "inp (tc_sock tc) = enc_packet ack @ rest"
    and "flowing (2 * PACKET_SIZE + nat (rn_length f)) (tc_io tc) (tc_sock tc)"
    and "\<And>tc. flowing (nat (rn_length f) + 0) (tc_io tc) (tc_sock tc) \<Longrightarrow>
      \<exists>io s. body tc = Ret (tc\<lparr>tc_io := io, tc_sock := s\<rparr>) \<and> flowing 0 io s \<and>
        outp s = outp (tc_sock tc) @ take (nat (rn_length f)) (rn_buffer f) \<and> inp s = inp (tc_sock tc)"
  shows "\<exists>io s. send_data cmd (frame_packet f p) body tc = Ret (tc\<lparr>tc_io := io, tc_sock := s\<rparr>) \<and>
    outp s = outp (tc_sock tc) @ enc_packet (frame_packet f p) @ take (nat (rn_length f)) (rn_buffer f) \<and> inp s = rest"
proof -
  obtain io1 s1 where 1: "send_data cmd (frame_packet f p) body tc = body (tc\<lparr>tc_io := io1, tc_sock := s1\<rparr>)"
    "flowing (nat (rn_length f)) io1 s1" "outp s1 = outp (tc_sock tc) @ enc_packet (frame_packet f p)" "inp s1 = rest"
    using send_data_complete[OF wf_frame_packet[OF assms(1), of f] assms(2-5), of body] by blast
  obtain io2 s2 where 2: "body (tc\<lparr>tc_io := io1, tc_sock := s1\<rparr>) = Ret (tc\<lparr>tc_io := io2, tc_sock := s2\<rparr>)"
    "outp s2 = outp s1 @ take (nat (rn_length f)) (rn_buffer f)" "inp s2 = inp s1"
    using assms(6)[of "tc\<lparr>tc_io := io1, tc_sock := s1\<rparr>"] 1(2) by auto
  show ?thesis using 1 2 by (intro exI[of _ io2] exI[of _ s2]) simp
qed

text \<open>
  C20. A preview: when the client asks for a frame and the capture module delivers one, the client receives a packet that announces
  the size, format and strides of the frame and, once it has acknowledged it, exactly the bytes of the frame.
\<close>

theorem preview_frame_delivered:
  assumes "\<not> stopped r tc" "wf_packet p" "classify p SOCK_CMD_PREVIEW = SOCK_RW_CHECK_OK"
    and "wf_packet ack" "classify ack SOCK_CMD_PREVIEW = SOCK_RW_CHECK_OK" "inp (tc_sock tc) = enc_packet p @ enc_packet ack @ rest"
    and "get_capture_buffer r (preview_format (tc_buffer tc) p) = Ret (CAP_ERR_NONE, f)" "frame_fits f"
    and "flowing (3 * PACKET_SIZE + nat (rn_length f)) (tc_io tc) (tc_sock tc)"
  shows "\<exists>tc' h. preview_loop r tc = Ret (True, tc') \<and> announces h f \<and> inp (tc_sock tc') = rest \<and>
    outp (tc_sock tc') = outp (tc_sock tc) @ enc_packet h @ take (nat (rn_length f)) (rn_buffer f)"
proof -
  let ?N = "nat (rn_length f)"
  have f: "flowing (PACKET_SIZE + (2 * PACKET_SIZE + ?N)) (tc_io tc) (tc_sock tc)" using assms(9) by (simp add: ac_simps)
  obtain io s where 1: "preview_loop r tc = keep_on (preview_request r p) (tc\<lparr>tc_io := io, tc_sock := s\<rparr>)"
    "flowing (2 * PACKET_SIZE + ?N) io s" "inp s = enc_packet ack @ rest" "outp s = outp (tc_sock tc)"
    using packet_round[OF assms(1,2,6,3) f] unfolding preview_loop_def by metis
  let ?tc = "tc\<lparr>tc_io := io, tc_sock := s, tc_timeouts := 0, tc_buffer := rn_buffer f\<rparr>"
  obtain io2 s2 where 2: "send_data SOCK_CMD_PREVIEW (frame_packet f p) (send_block (rn_buffer f) (rn_length f)) ?tc =
      Ret (?tc\<lparr>tc_io := io2, tc_sock := s2\<rparr>)"
    "outp s2 = outp s @ enc_packet (frame_packet f p) @ take ?N (rn_buffer f)" "inp s2 = rest"
    using frame_sent[OF assms(2,4,5), of ?tc rest f "send_block (rn_buffer f) (rn_length f)"] 1(2,3) assms(8)
      send_block_complete[of "rn_length f" "rn_buffer f" 0] by (auto simp: frame_fits_def)
  have "preview_request r p (tc\<lparr>tc_io := io, tc_sock := s, tc_timeouts := 0\<rparr>) = Ret (?tc\<lparr>tc_io := io2, tc_sock := s2\<rparr>)"
    using assms(7) 2(1) by (simp add: preview_request_def)
  then show ?thesis
    using 1 2 frame_packet_announces[OF assms(8)]
    by (intro exI[of _ "?tc\<lparr>tc_io := io2, tc_sock := s2\<rparr>"] exI[of _ "frame_packet f p"]) (simp add: keep_on_def)
qed

text \<open>
  A capture of several frames is sent in pieces of at most 4 MB, but the client sees one stream: a packet that announces the total
  length and, after the acknowledgement, exactly the captured bytes, as one transfer of the whole block would send them.
\<close>

theorem capture_sent_in_pieces:
  assumes "\<not> stopped r tc" "wf_packet p" "classify p SOCK_CMD_CAPTURE = SOCK_RW_CHECK_OK"
    and "wf_packet ack" "classify ack SOCK_CMD_CAPTURE = SOCK_RW_CHECK_OK" "inp (tc_sock tc) = enc_packet p @ enc_packet ack @ rest"
    and "sint (bswap32 (framecount p)) = count" "capture_block (frames_malloc_ok r) count = Ret buf" "chunk_malloc_ok r"
    and "get_capture_buffer_transfer r ((preview_format buf p)\<lparr>cf_framecount := count\<rparr>) = Ret (CAP_ERR_NONE, f)" "frame_fits f"
    and "flowing (3 * PACKET_SIZE + nat (rn_length f)) (tc_io tc) (tc_sock tc)"
  shows "\<exists>tc' h. capture_loop r tc = Ret (True, tc') \<and> announces h f \<and> inp (tc_sock tc') = rest \<and>
    outp (tc_sock tc') = outp (tc_sock tc) @ enc_packet h @ take (nat (rn_length f)) (rn_buffer f)"
proof -
  let ?N = "nat (rn_length f)"
  have f: "flowing (PACKET_SIZE + (2 * PACKET_SIZE + ?N)) (tc_io tc) (tc_sock tc)" using assms(12) by (simp add: ac_simps)
  obtain io s where 1: "capture_loop r tc = keep_on (capture_request r p) (tc\<lparr>tc_io := io, tc_sock := s\<rparr>)"
    "flowing (2 * PACKET_SIZE + ?N) io s" "inp s = enc_packet ack @ rest" "outp s = outp (tc_sock tc)"
    using packet_round[OF assms(1,2,6,3) f] unfolding capture_loop_def by metis
  let ?tc = "tc\<lparr>tc_io := io, tc_sock := s, tc_timeouts := 0\<rparr>"
  let ?body = "\<lambda>tc1. if \<not> chunk_malloc_ok r \<and> rn_length f > 0 then Ub else transfer_loop (rn_buffer f) 0 (rn_length f) tc1"
  have body: "\<exists>io s. ?body tc = Ret (tc\<lparr>tc_io := io, tc_sock := s\<rparr>) \<and> flowing 0 io s \<and>
      outp s = outp (tc_sock tc) @ take ?N (rn_buffer f) \<and> inp s = inp (tc_sock tc)"
    if "flowing (?N + 0) (tc_io tc) (tc_sock tc)" for tc :: "'a srv_conn"
    using transfer_complete[of "rn_length f" 0 "rn_buffer f" 0 tc] that assms(9,11) by (simp add: frame_fits_def)
  obtain io2 s2 where 2: "send_data SOCK_CMD_CAPTURE (frame_packet f p) ?body ?tc = Ret (?tc\<lparr>tc_io := io2, tc_sock := s2\<rparr>)"
    "outp s2 = outp s @ enc_packet (frame_packet f p) @ take ?N (rn_buffer f)" "inp s2 = rest"
    using frame_sent[OF assms(2,4,5), of ?tc rest f ?body] body 1(2,3) by auto
  have "capture_request r p ?tc = Ret (?tc\<lparr>tc_io := io2, tc_sock := s2\<rparr>)"
    using assms(7,8,10) 2(1) by (simp add: capture_request_def)
  then show ?thesis
    using 1 2 frame_packet_announces[OF assms(11)]
    by (intro exI[of _ "?tc\<lparr>tc_io := io2, tc_sock := s2\<rparr>"] exI[of _ "frame_packet f p"]) (simp add: keep_on_def)
qed

section \<open>Script answers\<close>

lemma strncmp_eq_string: "strncmp_eq n (as @ 0 # bs) cs = strncmp_eq n (as @ [0]) cs"
proof (induction as arbitrary: n cs)
  case Nil
  then show ?case by (cases n; cases cs) auto
next
  case (Cons a as)
  then show ?case by (cases n; cases cs) auto
qed

lemma c_string_append: "0 \<notin> set as \<Longrightarrow> c_string (as @ 0 # bs) = as"
  by (induction as) (auto simp: c_string_def)

lemma terminated_block:
  assumes "length data < length buf"
  shows "(overlay buf data)[length data := 0] = data @ 0 # drop (Suc (length data)) buf"
  using assms by (simp add: overlay_def list_update_append flip: Cons_nth_drop_Suc)

text \<open>What the shell shows, in the block of the script thread.\<close>

lemma shell_block:
  assumes "0 \<notin> set out" "length out < 1024"
  shows "mini_shell_exec (Some out) buf = (0, out @ replicate (1024 - length out) 0, [c_string buf])"
    and "(out @ replicate (1024 - length out) 0)[1023 := 0] = out @ 0 # replicate (1023 - length out) 0"
proof -
  have r: "replicate (1024 - length out) 0 = 0 # replicate (1023 - length out) (0 :: byte)"
    using assms(2) by (simp add: Suc_diff_le flip: replicate_Suc)
  have "overlay (replicate 1024 0) (take 1024 out) = out @ 0 # replicate (1023 - length out) 0"
    using assms(2) r by (simp add: overlay_def)
  then show "mini_shell_exec (Some out) buf = (0, out @ replicate (1024 - length out) 0, [c_string buf])"
    using c_string_append[OF assms(1)] by (simp add: mini_shell_exec_def)
  show "(out @ replicate (1024 - length out) 0)[1023 := 0] = out @ 0 # replicate (1023 - length out) 0"
  proof -
    have "(out @ replicate (1024 - length out) 0) ! 1023 = 0" using assms(2) by (simp add: nth_append)
    then show ?thesis using list_update_id[of "out @ replicate (1024 - length out) 0" 1023] r by simp
  qed
qed

lemma plain_shorter: "length (concat (map plain_bytes ps)) \<le> length (concat (map piece_bytes ps))"
proof (induction ps)
  case (Cons p ps)
  then show ?case by (cases p) simp_all
qed simp

text \<open>A script that arrives in full is run, unless it is the exit command.\<close>

lemma script_read:
  assumes "pkt_length p = int (length scr)" "scr \<noteq> []" "inp (tc_sock tc) = scr @ rest"
    and "flowing (length scr + n) (tc_io tc) (tc_sock tc)"
  shows "\<exists>io s. sock_read SOCK_DEFAULT_TIMEOUT (tc_io tc) (nat (pkt_length p)) (tc_sock tc) = Some (scr, io, s) \<and> flowing n io s \<and>
    inp s = rest \<and> outp s = outp (tc_sock tc)"
proof -
  obtain io s where r: "sock_read SOCK_DEFAULT_TIMEOUT (tc_io tc) (length scr) (tc_sock tc) = Some (scr, io, s)" "flowing n io s"
    using sock_read_complete[OF assms(4), of SOCK_DEFAULT_TIMEOUT] assms(3) by auto
  then show ?thesis using sock_read_prefix[OF r(1)] assms(1,3) by auto
qed

text \<open>
  C27. A script is answered: when the client sends a script of fewer than 1024 characters that is not the exit command, the shell gets
  exactly that script, and the client receives what the shell printed without its escape sequences, after a packet with the length of it.
\<close>

theorem script_answered:
  assumes "\<not> stopped r tc" "wf_packet p" "classify p SOCK_CMD_SCRIPT = SOCK_RW_CHECK_OK" "pkt_length p = int (length scr)"
    and "wf_packet ack" "classify ack SOCK_CMD_SCRIPT = SOCK_RW_CHECK_OK"
    and "inp (tc_sock tc) = enc_packet p @ scr @ enc_packet ack @ rest"
    and "scr \<noteq> []" "length scr < 1024" "0 \<notin> set scr" "\<not> strncmp_eq 8 (scr @ [0]) EXIT_COMMAND" "length (tc_buffer tc) = 1024"
    and "list_all piece_ok ps" "shell_reply r = Some (concat (map piece_bytes ps))" "0 \<notin> set (concat (map piece_bytes ps))"
    and "length (concat (map piece_bytes ps)) < 1024"
    and "flowing (4 * PACKET_SIZE + length scr + length (concat (map plain_bytes ps))) (tc_io tc) (tc_sock tc)"
  shows "\<exists>tc' h. script_loop r tc = Ret (True, tc') \<and> sc_shell tc' = sc_shell tc @ [scr] \<and>
    pkt_length h = int (length (concat (map plain_bytes ps))) \<and> inp (tc_sock tc') = rest \<and>
    outp (tc_sock tc') = outp (tc_sock tc) @ enc_packet p @ enc_packet h @ concat (map plain_bytes ps)"
proof -
  let ?out = "concat (map piece_bytes ps)" and ?plain = "concat (map plain_bytes ps)"
  let ?N = "length ?plain"
  let ?h = "p\<lparr>ret := bswap32 SOCK_CMD_RET_OK, data_length := bswap32 (word_of_nat ?N)\<rparr>"
  have f: "flowing (2 * PACKET_SIZE + (length scr + (2 * PACKET_SIZE + (?N + 0)))) (tc_io tc) (tc_sock tc)"
    using assms(17) by (simp add: ac_simps)
  have short: "?N < 1024" using plain_shorter[of ps] assms(16) by simp
  obtain io s where 1: "script_loop r tc = keep_on (script_request r p) (tc\<lparr>tc_io := io, tc_sock := s\<rparr>)"
    "flowing (length scr + (2 * PACKET_SIZE + (?N + 0))) io s" "inp s = scr @ enc_packet ack @ rest" "outp s = outp (tc_sock tc) @ enc_packet p"
    using reply_round[OF assms(1,2,7,3) f] unfolding script_loop_def by metis
  let ?tc = "tc\<lparr>tc_io := io, tc_sock := s, tc_timeouts := 0\<rparr>"
  obtain io1 s1 where 2: "sock_read SOCK_DEFAULT_TIMEOUT io (nat (pkt_length p)) s = Some (scr, io1, s1)"
    "flowing (2 * PACKET_SIZE + (?N + 0)) io1 s1" "inp s1 = enc_packet ack @ rest" "outp s1 = outp s"
    using script_read[OF assms(4,8), of ?tc "enc_packet ack @ rest" "2 * PACKET_SIZE + (?N + 0)"] 1(2,3) by auto
  let ?blk = "scr @ 0 # drop (Suc (length scr)) (tc_buffer tc)"
  let ?buf = "?out @ 0 # replicate (1023 - length ?out) 0"
  let ?buf1 = "overlay ?buf (?plain @ [0])"
  have fmt: "shell_format ?buf = Some (?N, ?buf1)"
    using shell_copy_pieces[OF assms(13)] short by (simp add: shell_format_def)
  have blk: "(overlay (tc_buffer tc) scr)[length scr := 0] = ?blk" by (rule terminated_block) (use assms(9,12) in simp)
  have ex: "\<not> strncmp_eq 8 ?blk EXIT_COMMAND" using assms(11) strncmp_eq_string[of 8 scr] by blast
  let ?tc2 = "?tc\<lparr>tc_io := io1, tc_sock := s1, sc_shell := sc_shell tc @ [scr], tc_buffer := ?buf1\<rparr>"
  have wh: "wf_packet ?h" using assms(2) by (simp add: wf_packet_def)
  obtain io2 s2 where 3: "send_data SOCK_CMD_SCRIPT ?h (send_block ?buf1 (int ?N)) ?tc2 = send_block ?buf1 (int ?N) (?tc2\<lparr>tc_io := io2, tc_sock := s2\<rparr>)"
    "flowing (?N + 0) io2 s2" "outp s2 = outp s1 @ enc_packet ?h" "inp s2 = rest"
    using send_data_complete[OF wh assms(5,6), of ?tc2 rest "?N + 0" "send_block ?buf1 (int ?N)"] 2(2,3) by auto
  obtain io3 s3 where 4: "send_block ?buf1 (int ?N) (?tc2\<lparr>tc_io := io2, tc_sock := s2\<rparr>) = Ret (?tc2\<lparr>tc_io := io3, tc_sock := s3\<rparr>)"
    "outp s3 = outp s2 @ ?plain" "inp s3 = inp s2"
    using send_block_complete[of "int ?N" ?buf1 0 "?tc2\<lparr>tc_io := io2, tc_sock := s2\<rparr>"] 3(2) by (auto simp: overlay_def)
  have "script_request r p ?tc = Ret (?tc2\<lparr>tc_io := io3, tc_sock := s3\<rparr>)"
    using assms(4,8,9,12,14) 2(1) blk ex fmt 3(1) 4(1) shell_block[OF assms(15,16)] c_string_append[OF assms(10)]
    by (simp add: script_request_def run_script_def)
  moreover have "pkt_length ?h = int ?N"
    using short sint_word_of_int[of "int ?N"] by (simp add: pkt_length_def int_ok_def)
  ultimately show ?thesis
    using 1 2 3 4 by (intro exI[of _ "?tc2\<lparr>tc_io := io3, tc_sock := s3\<rparr>"] exI[of _ ?h]) (simp add: keep_on_def)
qed

text \<open>
  The script thread trusts the length a client announces: a script of 1024 bytes or more that arrives leaves the 1024-byte
  block of the thread.
\<close>

theorem script_overflow:
  assumes "\<not> stopped r tc" "wf_packet p" "classify p SOCK_CMD_SCRIPT = SOCK_RW_CHECK_OK" "pkt_length p = int (length scr)"
    and "inp (tc_sock tc) = enc_packet p @ scr @ rest" "1024 \<le> length scr" "length (tc_buffer tc) = 1024"
    and "flowing (2 * PACKET_SIZE + length scr) (tc_io tc) (tc_sock tc)"
  shows "script_loop r tc = Ub"
proof -
  have ne: "scr \<noteq> []" using assms(6) by auto
  have f: "flowing (2 * PACKET_SIZE + (length scr + 0)) (tc_io tc) (tc_sock tc)" using assms(8) by simp
  obtain io s where 1: "script_loop r tc = keep_on (script_request r p) (tc\<lparr>tc_io := io, tc_sock := s\<rparr>)"
    "flowing (length scr + 0) io s" "inp s = scr @ rest"
    using reply_round[OF assms(1,2,5,3) f] unfolding script_loop_def by metis
  obtain io1 s1 where "sock_read SOCK_DEFAULT_TIMEOUT io (nat (pkt_length p)) s = Some (scr, io1, s1)"
    using script_read[OF assms(4) ne, of "tc\<lparr>tc_io := io, tc_sock := s\<rparr>" rest 0] 1(2,3) by auto
  then show ?thesis using 1(1) assms(4,6,7) by (auto simp: keep_on_def script_request_def)
qed

section \<open>Registers over the network\<close>

lemma to_string_name:
  assumes "0 \<notin> set name"
  shows "to_string (name @ 0 # bs) = map (\<lambda>b. char_of (unat b)) name"
  by (simp add: to_string_def c_string_append[OF assms])

lemma register_configured:
  assumes "wf_packet p" "cmd_ids p ! 1 = SOCK_CMD_REG_SETCFG" "pkt_length p = int (length name)" "length name < 128" "0 \<notin> set name"
    and "inp (tc_sock tc) = name @ rest" "length (tc_buffer tc) = 128"
    and "flowing (2 * PACKET_SIZE + length name + n) (tc_io tc) (tc_sock tc)"
  shows "\<exists>tc'. register_request r p tc = Ret tc' \<and> reg_for (map (\<lambda>b. char_of (unat b)) name) (sc_reg tc') \<and>
    g_reg_addr_width (sc_reg tc') = bswap32 (reserved p ! 0) \<and> g_reg_data_width (sc_reg tc') = bswap32 (reserved p ! 1) \<and>
    flowing n (tc_io tc') (tc_sock tc') \<and> inp (tc_sock tc') = rest \<and>
    outp (tc_sock tc') = outp (tc_sock tc) @ enc_packet p @ enc_packet (p\<lparr>ret := bswap32 SOCK_CMD_RET_OK\<rparr>)"
proof -
  let ?name = "map (\<lambda>b. char_of (unat b)) name"
  let ?reg = "reg_ready ?name (bswap32 (reserved p ! 0)) (bswap32 (reserved p ! 1)) (sc_reg tc)"
  have f: "flowing (length (enc_packet p) + (length name + (PACKET_SIZE + n))) (tc_io tc) (tc_sock tc)"
    using assms(1,8) by (simp add: ac_simps)
  obtain io1 s1 where 1: "tc_send (enc_packet p) tc = Ret (PACKET_SIZE, tc\<lparr>tc_io := io1, tc_sock := s1\<rparr>)"
    "flowing (length name + (PACKET_SIZE + n)) io1 s1" "outp s1 = outp (tc_sock tc) @ enc_packet p" "inp s1 = name @ rest"
    using tc_send_complete[OF f] assms(1,6) by auto
  obtain io2 s2 where 2: "sock_read SOCK_DEFAULT_TIMEOUT io1 (length name) s1 = Some (name, io2, s2)" "flowing (PACKET_SIZE + n) io2 s2"
    using sock_read_complete[OF 1(2), of SOCK_DEFAULT_TIMEOUT] 1(4) by auto
  have s2: "inp s2 = rest" "outp s2 = outp s1" using sock_read_prefix[OF 2(1)] 1(4) by auto
  have blk: "(overlay (tc_buffer tc) name)[length name := 0] = name @ 0 # drop (Suc (length name)) (tc_buffer tc)"
    by (rule terminated_block) (use assms(4,7) in simp)
  let ?tc = "tc\<lparr>tc_io := io2, tc_sock := s2, tc_buffer := name @ 0 # drop (Suc (length name)) (tc_buffer tc), sc_reg := ?reg\<rparr>"
  have "set_reg_opt (Some ?name) (bswap32 (reserved p ! 0)) (bswap32 (reserved p ! 1)) (sc_reg tc) = Some (0, ?reg)"
    by (rule set_reg_opt_ready) (use assms(4) in simp)
  then have req: "register_request r p tc = tc_reply SOCK_CMD_RET_OK p ?tc"
    using assms(2,3,4,7) 1(1) 2(1) blk to_string_name[OF assms(5)]
    by (simp add: register_request_def register_setcfg_def reg_answer_def)
  obtain io3 s3 where 3: "tc_reply SOCK_CMD_RET_OK p ?tc = Ret (?tc\<lparr>tc_io := io3, tc_sock := s3\<rparr>)" "flowing n io3 s3"
    "outp s3 = outp s2 @ enc_packet (p\<lparr>ret := bswap32 SOCK_CMD_RET_OK\<rparr>)" "inp s3 = inp s2"
    using tc_reply_complete[of n ?tc p SOCK_CMD_RET_OK] 2(2) assms(1) by auto
  have "reg_for ?name ?reg" by (rule reg_for_ready) (use assms(4) in simp)
  moreover have "g_reg_addr_width ?reg = bswap32 (reserved p ! 0)" "g_reg_data_width ?reg = bswap32 (reserved p ! 1)"
    by (simp_all add: reg_ready_def)
  ultimately show ?thesis
    using req 3 s2 1(3) by (intro exI[of _ "?tc\<lparr>tc_io := io3, tc_sock := s3\<rparr>"]) simp
qed

lemma register_written:
  assumes "wf_packet p" "cmd_ids p ! 1 = SOCK_CMD_REG_WRITE" "reg_for name (sc_reg tc)"
    and "flowing (PACKET_SIZE + n) (tc_io tc) (tc_sock tc)"
  shows "\<exists>tc'. register_request r p tc = Ret tc' \<and> reg_for name (sc_reg tc') \<and>
    reg_cmds (sc_reg tc') = reg_cmds (sc_reg tc) @ [echo_to ''0'' (sys_path name ''read_flag''),
      echo_to (fmt_04x (bswap32 (reserved p ! 2)) @ fmt_04x (bswap32 (reserved p ! 3))) (sys_path name ''cci_client'')] \<and>
    flowing n (tc_io tc') (tc_sock tc') \<and> inp (tc_sock tc') = inp (tc_sock tc) \<and> outp (tc_sock tc') = outp (tc_sock tc) @ enc_packet p"
proof -
  let ?reg = "(sc_reg tc)\<lparr>reg_cmds := reg_cmds (sc_reg tc) @ [echo_to ''0'' (sys_path name ''read_flag''),
      echo_to (fmt_04x (bswap32 (reserved p ! 2)) @ fmt_04x (bswap32 (reserved p ! 3))) (sys_path name ''cci_client'')]\<rparr>"
  obtain io s where 1: "send_packet p (tc\<lparr>sc_reg := ?reg\<rparr>) = Ret (tc\<lparr>sc_reg := ?reg, tc_io := io, tc_sock := s\<rparr>)" "flowing n io s"
    "outp s = outp (tc_sock tc) @ enc_packet p" "inp s = inp (tc_sock tc)"
    using send_packet_complete[OF assms(1), of n "tc\<lparr>sc_reg := ?reg\<rparr>"] assms(4) by auto
  have "register_request r p tc = send_packet p (tc\<lparr>sc_reg := ?reg\<rparr>)"
    using assms(2) write_reg_ready[OF assms(3)] by (simp add: register_request_def reg_answer_def)
  then show ?thesis using 1 assms(3) by (intro exI[of _ "tc\<lparr>sc_reg := ?reg, tc_io := io, tc_sock := s\<rparr>"]) simp
qed

lemma register_read_back:
  assumes "wf_packet p" "cmd_ids p ! 1 = SOCK_CMD_REG_READ" "reg_for name (sc_reg tc)" "reg_file r = Some (4, fmt_04x v)" "unat v < 2 ^ 16"
    and "flowing (PACKET_SIZE + n) (tc_io tc) (tc_sock tc)"
  shows "\<exists>tc'. register_request r p tc = Ret tc' \<and>
    reg_cmds (sc_reg tc') = reg_cmds (sc_reg tc) @ [echo_to ''1'' (sys_path name ''read_flag''),
      echo_to (fmt_04x (bswap32 (reserved p ! 2)) @ ''0000'') (sys_path name ''cci_client'')] \<and>
    outp (tc_sock tc') = outp (tc_sock tc) @ enc_packet (p\<lparr>reserved := (reserved p)[3 := bswap32 v]\<rparr>)"
proof -
  let ?q = "p\<lparr>reserved := (reserved p)[3 := bswap32 v]\<rparr>"
  let ?reg = "(sc_reg tc)\<lparr>reg_cmds := reg_cmds (sc_reg tc) @ [echo_to ''1'' (sys_path name ''read_flag''),
      echo_to (fmt_04x (bswap32 (reserved p ! 2)) @ ''0000'') (sys_path name ''cci_client'')]\<rparr>"
  have wq: "wf_packet ?q" using assms(1) by (simp add: wf_packet_def)
  obtain io s where 1: "send_packet ?q (tc\<lparr>sc_reg := ?reg\<rparr>) = Ret (tc\<lparr>sc_reg := ?reg, tc_io := io, tc_sock := s\<rparr>)"
    "outp s = outp (tc_sock tc) @ enc_packet ?q"
    using send_packet_complete[OF wq, of n "tc\<lparr>sc_reg := ?reg\<rparr>"] assms(6) by auto
  have "read_reg (reg_file r) (bswap32 (reserved p ! 2)) (sc_reg tc) = Some (uint v, ?reg)"
    using read_reg_ready[OF assms(3), of v] fmt_04x_short[OF assms(5)] to_long_short[OF assms(5)] assms(4) by simp
  then have "register_request r p tc = send_packet ?q (tc\<lparr>sc_reg := ?reg\<rparr>)"
    using assms(2) by (simp add: register_request_def reg_answer_def)
  then show ?thesis using 1 by (intro exI[of _ "tc\<lparr>sc_reg := ?reg, tc_io := io, tc_sock := s\<rparr>"]) simp
qed

text \<open>
  Registers over the network: a client that configures a sensor by name, writes a 16-bit value to a 16-bit register and reads that
  register is answered with the value, when the driver shows what was handed to it; the two words the driver gets name the register, and
  the first one the value.
\<close>

theorem register_over_network:
  assumes "wf_packet pc" "cmd_ids pc ! 1 = SOCK_CMD_REG_SETCFG" "pkt_length pc = int (length name)" "length name < 128" "0 \<notin> set name"
    and "wf_packet pw" "cmd_ids pw ! 1 = SOCK_CMD_REG_WRITE" "reserved pw ! 2 = bswap32 a" "reserved pw ! 3 = bswap32 v"
    and "wf_packet pr" "cmd_ids pr ! 1 = SOCK_CMD_REG_READ" "reserved pr ! 2 = bswap32 a" "unat a < 2 ^ 16" "unat v < 2 ^ 16"
    and "reg_file r = Some (4, fmt_04x v)" "inp (tc_sock tc) = name @ rest" "length (tc_buffer tc) = 128"
    and "flowing (4 * PACKET_SIZE + length name) (tc_io tc) (tc_sock tc)"
  shows "\<exists>tc1 tc2 tc3 path write read. register_request r pc tc = Ret tc1 \<and> register_request r pw tc1 = Ret tc2 \<and>
    register_request r pr tc2 = Ret tc3 \<and>
    outp (tc_sock tc3) = outp (tc_sock tc2) @ enc_packet (pr\<lparr>reserved := (reserved pr)[3 := bswap32 v]\<rparr>) \<and>
    last (reg_cmds (sc_reg tc2)) = echo_to write path \<and> strtol16 (take 4 write) = uint a \<and> strtol16 (drop 4 write) = uint v \<and>
    last (reg_cmds (sc_reg tc3)) = echo_to read path \<and> strtol16 (take 4 read) = uint a"
proof -
  let ?name = "map (\<lambda>b. char_of (unat b)) name"
  have f: "flowing (2 * PACKET_SIZE + length name + (PACKET_SIZE + (PACKET_SIZE + 0))) (tc_io tc) (tc_sock tc)"
    using assms(18) by (simp add: ac_simps)
  obtain tc1 where 1: "register_request r pc tc = Ret tc1" "reg_for ?name (sc_reg tc1)" "flowing (PACKET_SIZE + (PACKET_SIZE + 0)) (tc_io tc1) (tc_sock tc1)"
    using register_configured[OF assms(1-5,16,17) f] by metis
  obtain tc2 where 2: "register_request r pw tc1 = Ret tc2" "reg_for ?name (sc_reg tc2)" "flowing (PACKET_SIZE + 0) (tc_io tc2) (tc_sock tc2)"
    "reg_cmds (sc_reg tc2) = reg_cmds (sc_reg tc1) @ [echo_to ''0'' (sys_path ?name ''read_flag''),
      echo_to (fmt_04x a @ fmt_04x v) (sys_path ?name ''cci_client'')]"
    using register_written[OF assms(6,7) 1(2,3), of r] assms(8,9) by auto
  obtain tc3 where 3: "register_request r pr tc2 = Ret tc3"
    "outp (tc_sock tc3) = outp (tc_sock tc2) @ enc_packet (pr\<lparr>reserved := (reserved pr)[3 := bswap32 v]\<rparr>)"
    "reg_cmds (sc_reg tc3) = reg_cmds (sc_reg tc2) @ [echo_to ''1'' (sys_path ?name ''read_flag''),
      echo_to (fmt_04x a @ ''0000'') (sys_path ?name ''cci_client'')]"
    using register_read_back[OF assms(10,11) 2(2) assms(15,14) 2(3)] assms(12) by auto
  have "length (fmt_04x a) = 4" "length (fmt_04x v) = 4" using fmt_04x_short assms(13,14) by auto
  then show ?thesis
    using 1(1) 2(1,4) 3 strtol_fmt[of a] strtol_fmt[of v] to_long_short[OF assms(13)] to_long_short[OF assms(14)]
    by (intro exI[of _ tc1] exI[of _ tc2] exI[of _ tc3] exI[of _ "sys_path ?name ''cci_client''"] exI[of _ "fmt_04x a @ fmt_04x v"]
        exI[of _ "fmt_04x a @ ''0000''"]) simp
qed

section \<open>Status of the threads\<close>

text \<open>
  C0. The version thread clears the status bit of the tuning thread: whatever the version thread does before it ends, the tuning thread is
  no longer marked as running, although it may still serve a client.
\<close>

theorem version_thread_clears_tuning_bit:
  assumes "sock_handle_isp_version_thread rs tc = Ret tc'"
  shows "\<not> bit (g_thread_status tc') 3"
  using assms
  by (cases "conn_thread isp_version_loop rs (tc\<lparr>tc_timeouts := 0\<rparr>)") (auto simp: sock_handle_isp_version_thread_def run_thread_def bit_simps)

section \<open>The capture module behind the connection\<close>

text \<open>\<open>get_capture_buffer\<close> on a module whose frame threads are running: the call, the end of its wait, the frame.\<close>

definition module_frame :: "vid_env \<Rightarrow> cap_module \<Rightarrow> capture_format \<Rightarrow> (capture_error \<times> capture_format) outcome" where
  "module_frame env s f =
     (case run_moves [Call env (ReqFrame f), Resume [] True, Resume [env] True] s of
        None \<Rightarrow> Ub
      | Some s' \<Rightarrow> Ret (fst (cap_ret s'), the (snd (cap_ret s'))))"

definition demo_request :: "byte list \<Rightarrow> sock_packet" where
  "demo_request ids = zero_packet\<lparr>head_flag := SERVER_SOCK_HEAD, cmd_ids := ids @ replicate 6 0, ret := bswap32 SOCK_CMD_RET_OK\<rparr>"

definition frame_request :: "byte \<Rightarrow> sock_packet" where
  "frame_request cmd = (demo_request [cmd, 0])\<lparr>reserved := [bswap32 V4L2_PIX_FMT_NV12M, bswap32 (high_low 4 2), 0, bswap32 (high_low 30 0)],
     framecount := bswap32 1\<rparr>"

definition demo_frame :: "byte list \<Rightarrow> int \<Rightarrow> capture_format" where
  "demo_frame rest count = \<lparr>rn_width = 4, rn_height = 2, rn_format = uint V4L2_PIX_FMT_NV12M, rn_planes = 2, rn_stride = [4, 4, 0], rn_length = 12,
     rn_buffer = [0, 1, 2, 3, 4, 5, 6, 7, 100, 101, 102, 103] @ rest, cf_channel = 0, cf_fps = 30, cf_wdr = 0, cf_framecount = count, cf_index = 0\<rparr>"

lemma demo_frame_captured:
  "module_frame demo_kernel (the demo_run) (preview_format (replicate 16 0) (frame_request SOCK_CMD_PREVIEW)) = Ret (CAP_ERR_NONE, demo_frame [0, 0, 0, 0] 0)"
  by code_simp

definition demo_srv :: "byte list \<Rightarrow> byte list \<Rightarrow> unit srv_conn" where
  "demo_srv buf bs = \<lparr>tc_handle = ready_handle, tc_buffer = buf, tc_sock = demo_sock bs, tc_io = replicate 300 (IoOk 1), tc_timeouts = 0,
     sc_reg = \<lparr>g_fd_addr_width = [], g_fd_data_width = [], g_fd_read_flag = [], g_fd_cci_client = [], g_fd_read_value = [],
       g_reg_addr_width = 0, g_reg_data_width = 0, reg_cmds = []\<rparr>,
     g_thread_status = 0, g_thread_stop_flag = False, sc_shell = []\<rparr>"

definition demo_round :: "unit srv_round" where
  "demo_round = \<lparr>stop_flag = False, round_env = good_env, vich_open = True,
     lib_stats = (\<lambda>_. (\<lparr>win_pix_n = 0, accum_r = [], accum_g = [], accum_b = [], ae_avg = [], hist = []\<rparr>,
       \<lparr>awb_sum_r = [], awb_sum_g = [], awb_sum_b = [], awb_sum_cnt = [], awb_avg_r = [], awb_avg_g = [], awb_avg_b = [], awb_avg = []\<rparr>,
       \<lparr>af_iir = [], af_fir = [], af_iir_cnt = [], af_fir_cnt = [], af_hlt_cnt = [], af_count = [], af_h_d1 = [], af_h_d2 = [],
         af_v_d1 = [], af_v_d2 = []\<rparr>)),
     lib_lv = (\<lambda>_. 1), reg_file = Some (4, fmt_04x 0xff), shell_reply = Some [72, 27, 91, 49, 109, 105],
     get_capture_buffer = module_frame demo_kernel (the demo_run),
     get_capture_buffer_transfer = (\<lambda>f. Ret (CAP_ERR_NONE, demo_frame (drop 12 (rn_buffer f)) (cf_framecount f))),
     raw_flow_start = (\<lambda>f. Ret (CAP_ERR_NONE, f)), raw_flow_stop = (\<lambda>_. Ret CAP_ERR_NONE), raw_flow_get = (\<lambda>f. Ret (CAP_ERR_NONE, f)),
     sensor_input_set = (\<lambda>_. Ret CAP_ERR_NONE), raw_stack = (0, 0, 0), frames_malloc_ok = True, chunk_malloc_ok = True\<rparr>"

lemma demo_srv_simps [simp]:
  "\<not> stopped demo_round (demo_srv buf bs)" "inp (tc_sock (demo_srv buf bs)) = bs" "tc_buffer (demo_srv buf bs) = buf"
  "outp (tc_sock (demo_srv buf bs)) = []" "n \<le> 200 \<Longrightarrow> flowing n (tc_io (demo_srv buf bs)) (tc_sock (demo_srv buf bs))"
  by (simp_all add: stopped_def demo_round_def demo_srv_def demo_sock_def flowing_def list_all_iff)

lemma demo_round_simps [simp]:
  "get_capture_buffer demo_round = module_frame demo_kernel (the demo_run)"
  "get_capture_buffer_transfer demo_round f = Ret (CAP_ERR_NONE, demo_frame (drop 12 (rn_buffer f)) (cf_framecount f))"
  "frames_malloc_ok demo_round" "chunk_malloc_ok demo_round" "shell_reply demo_round = Some [72, 27, 91, 49, 109, 105]"
  "reg_file demo_round = Some (4, fmt_04x 0xff)"
  by (simp_all add: demo_round_def)

lemma demo_request_ok:
  assumes "cmd \<notin> {SOCK_CMD_CLOSE, SOCK_CMD_ACK}"
  shows "wf_packet (demo_request [cmd, c])" "classify (demo_request [cmd, c]) cmd = SOCK_RW_CHECK_OK"
    "wf_packet (frame_request cmd)" "classify (frame_request cmd) cmd = SOCK_RW_CHECK_OK"
  using assms by (auto simp: demo_request_def frame_request_def wf_packet_def classify_def zero_packet_def SERVER_SOCK_HEAD_def)

lemma packet_update_simps [simp]:
  "wf_packet (p\<lparr>data_length := n\<rparr>) = wf_packet p" "classify (p\<lparr>data_length := n\<rparr>) cmd = classify p cmd"
  "length ws = 4 \<Longrightarrow> wf_packet p \<Longrightarrow> wf_packet (p\<lparr>reserved := ws\<rparr>)" "pkt_length (p\<lparr>data_length := bswap32 n\<rparr>) = sint n"
  by (simp_all add: wf_packet_def classify_def pkt_length_def)

lemma demo_frame_fits: "frame_fits (demo_frame rest count)" "take 12 (rn_buffer (demo_frame rest count)) = [0, 1, 2, 3, 4, 5, 6, 7, 100, 101, 102, 103]"
  "rn_length (demo_frame rest count) = 12"
  by (auto simp: frame_fits_def demo_frame_def int_ok_def)

theorem preview_frame_delivered_witness:
  "\<exists>tc' h. preview_loop demo_round (demo_srv (replicate 16 0) (enc_packet (frame_request SOCK_CMD_PREVIEW) @ enc_packet (demo_request [SOCK_CMD_PREVIEW, 0]))) = Ret (True, tc') \<and>
     pkt_length h = 12 \<and> outp (tc_sock tc') = enc_packet h @ [0, 1, 2, 3, 4, 5, 6, 7, 100, 101, 102, 103]"
  using preview_frame_delivered[of demo_round "demo_srv (replicate 16 0) (enc_packet (frame_request SOCK_CMD_PREVIEW) @ enc_packet (demo_request [SOCK_CMD_PREVIEW, 0]))"
      "frame_request SOCK_CMD_PREVIEW" "demo_request [SOCK_CMD_PREVIEW, 0]" "[]" "demo_frame [0, 0, 0, 0] 0"]
    demo_frame_captured demo_frame_fits[of "[0, 0, 0, 0]" 0] demo_request_ok[of SOCK_CMD_PREVIEW]
  by (auto simp: announces_def)

theorem capture_sent_in_pieces_witness:
  "\<exists>tc' h. capture_loop demo_round (demo_srv [] (enc_packet (frame_request SOCK_CMD_CAPTURE) @ enc_packet (demo_request [SOCK_CMD_CAPTURE, 0]))) = Ret (True, tc') \<and>
     pkt_length h = 12 \<and> outp (tc_sock tc') = enc_packet h @ [0, 1, 2, 3, 4, 5, 6, 7, 100, 101, 102, 103]"
proof -
  have count: "sint (bswap32 (framecount (frame_request SOCK_CMD_CAPTURE))) = 1" by (simp add: frame_request_def)
  have block: "capture_block (frames_malloc_ok demo_round) 1 = Ret (replicate (nat TRANSFER_SIZE) 0)"
    by (simp add: capture_block_def TRANSFER_SIZE_def int_ok_def)
  show ?thesis
    using capture_sent_in_pieces[of demo_round "demo_srv [] (enc_packet (frame_request SOCK_CMD_CAPTURE) @ enc_packet (demo_request [SOCK_CMD_CAPTURE, 0]))"
        "frame_request SOCK_CMD_CAPTURE" "demo_request [SOCK_CMD_CAPTURE, 0]" "[]" 1 "replicate (nat TRANSFER_SIZE) 0"
        "demo_frame (drop 12 (replicate (nat TRANSFER_SIZE) 0)) 1"]
      count block demo_frame_fits[of "drop 12 (replicate (nat TRANSFER_SIZE) 0)" 1] demo_request_ok[of SOCK_CMD_CAPTURE]
    by (auto simp: announces_def preview_format_def)
qed

theorem script_answered_witness:
  "\<exists>tc' h. script_loop demo_round (demo_srv (replicate 1024 0) (enc_packet ((demo_request [SOCK_CMD_SCRIPT, 0])\<lparr>data_length := bswap32 3\<rparr>) @
      [108, 115, 10] @ enc_packet (demo_request [SOCK_CMD_SCRIPT, 0]))) = Ret (True, tc') \<and>
     sc_shell tc' = [[108, 115, 10]] \<and> pkt_length h = 2 \<and>
     outp (tc_sock tc') = enc_packet ((demo_request [SOCK_CMD_SCRIPT, 0])\<lparr>data_length := bswap32 3\<rparr>) @ enc_packet h @ [72, 105]"
proof -
  let ?p = "(demo_request [SOCK_CMD_SCRIPT, 0])\<lparr>data_length := bswap32 3\<rparr>"
  have p: "wf_packet ?p" "classify ?p SOCK_CMD_SCRIPT = SOCK_RW_CHECK_OK" "pkt_length ?p = int (length [108, 115, 10 :: byte])"
    using demo_request_ok[of SOCK_CMD_SCRIPT] by simp_all
  have c: "\<not> strncmp_eq 8 ([108, 115, 10] @ [0]) EXIT_COMMAND"
    by code_simp
  have "sc_shell (demo_srv buf bs) = []" for buf bs by (simp add: demo_srv_def)
  then show ?thesis
    using script_answered[OF _ p, of demo_round "demo_srv (replicate 1024 0) (enc_packet ?p @ [108, 115, 10] @ enc_packet (demo_request [SOCK_CMD_SCRIPT, 0]))"
        "demo_request [SOCK_CMD_SCRIPT, 0]" "[]" "[Plain 72, Escape [49], Plain 105]"]
      demo_request_ok[of SOCK_CMD_SCRIPT] c by simp blast
qed

theorem script_overflow_witness:
  "script_loop demo_round ((demo_srv (replicate 1024 0) [])\<lparr>tc_io := replicate 1112 (IoOk 1),
     tc_sock := \<lparr>sel = replicate 1112 SelReady, inp = enc_packet ((demo_request [SOCK_CMD_SCRIPT, 0])\<lparr>data_length := bswap32 1024\<rparr>) @ replicate 1024 65,
       outp = [], errno = 0\<rparr>\<rparr>) = Ub"
proof -
  let ?p = "(demo_request [SOCK_CMD_SCRIPT, 0])\<lparr>data_length := bswap32 1024\<rparr>"
  have p: "wf_packet ?p" "classify ?p SOCK_CMD_SCRIPT = SOCK_RW_CHECK_OK" "pkt_length ?p = int (length (replicate 1024 (65 :: byte)))"
    using demo_request_ok[of SOCK_CMD_SCRIPT] by simp_all
  show ?thesis
    by (rule script_overflow[OF _ p, where rest = "[]"]) (simp_all add: stopped_def demo_round_def demo_srv_def flowing_def list_all_iff)
qed

theorem register_over_network_witness:
  "\<exists>tc1 tc2 tc3. register_request demo_round ((demo_request [SOCK_CMD_REGOPT, SOCK_CMD_REG_SETCFG])\<lparr>data_length := bswap32 2\<rparr>)
      (demo_srv (replicate 128 0) [115, 48]) = Ret tc1 \<and>
    register_request demo_round ((demo_request [SOCK_CMD_REGOPT, SOCK_CMD_REG_WRITE])\<lparr>reserved := [0, 0, bswap32 0x3500, bswap32 0xff]\<rparr>) tc1 = Ret tc2 \<and>
    register_request demo_round ((demo_request [SOCK_CMD_REGOPT, SOCK_CMD_REG_READ])\<lparr>reserved := [0, 0, bswap32 0x3500, 0]\<rparr>) tc2 = Ret tc3 \<and>
    outp (tc_sock tc3) = outp (tc_sock tc2) @
      enc_packet ((demo_request [SOCK_CMD_REGOPT, SOCK_CMD_REG_READ])\<lparr>reserved := [0, 0, bswap32 0x3500, bswap32 0xff]\<rparr>)"
proof -
  have wf: "wf_packet (demo_request [SOCK_CMD_REGOPT, c])" for c using demo_request_ok[of SOCK_CMD_REGOPT] by auto
  have ids: "cmd_ids (demo_request [b, c]) ! 1 = c" for b c by (simp add: demo_request_def)
  show ?thesis
    using register_over_network[of "(demo_request [SOCK_CMD_REGOPT, SOCK_CMD_REG_SETCFG])\<lparr>data_length := bswap32 2\<rparr>" "[115, 48]"
        "(demo_request [SOCK_CMD_REGOPT, SOCK_CMD_REG_WRITE])\<lparr>reserved := [0, 0, bswap32 0x3500, bswap32 0xff]\<rparr>" "0x3500" "0xff"
        "(demo_request [SOCK_CMD_REGOPT, SOCK_CMD_REG_READ])\<lparr>reserved := [0, 0, bswap32 0x3500, 0]\<rparr>" demo_round
        "demo_srv (replicate 128 0) [115, 48]" "[]"] wf ids
    by simp blast
qed

end
