(* ===== verification/ServerApi.thy ===== *)
theory ServerApi
  imports ServerThreads
begin

text \<open>
  \<open>server/server_api.c\<close>: the server itself, from \<open>init_server\<close> over the accept loop and the handshake of a new connection to
  \<open>exit_server\<close>, with the descriptors of the shell (\<open>init_mini_shell\<close>, \<open>exit_mini_shell\<close> of \<open>server/mini_shell.c\<close>) and
  \<open>socket_accept\<close> of \<open>socket_protocol.c\<close>. A connection is named by its descriptor; \<open>works\<close> lists the connections that were
  handed to a thread, with the type of the thread, and \<open>closed\<close> those the server closed itself, both oldest first. What \<open>add_work\<close>
  returns is an argument (\<open>ThreadPool\<close> models it). The initialised modules are a list of names, in the order of their start.
\<close>

section \<open>State\<close>

datatype server_module = ThreadPoolModule | CaptureModule | ShellModule

record mini_shell =
  fd_log_file :: int
  fd_ptmx :: int
  stdin_copy :: int
  stdout_copy :: int
  stderr_copy :: int
  shell_fds :: "int set" \<comment> \<open>descriptors the module has open\<close>

record server =
  g_server_init_flag :: bool
  g_server_socket_fd :: int
  g_server_stop_flag :: bool
  works :: "(byte \<times> int) list"
  closed :: "int list"
  started :: "server_module list"
  shell :: mini_shell

abbreviation (input) SOCK_CMD_EXIT :: byte where "SOCK_CMD_EXIT \<equiv> 0x0F"
abbreviation (input) SOCK_CMD_ACK_QUESTION :: byte where "SOCK_CMD_ACK_QUESTION \<equiv> 0x11"
abbreviation (input) SOCK_CMD_ACK_ANSWER :: byte where "SOCK_CMD_ACK_ANSWER \<equiv> 0x12"
abbreviation (input) SOCK_CMD_ACK_RET :: byte where "SOCK_CMD_ACK_RET \<equiv> 0x13"

section \<open>A new connection\<close>

definition SERVER_SOCK_QUESTION :: "byte list" where
  "SERVER_SOCK_QUESTION = map of_char ''wHo Am i? woOOo'' @ [0]"

definition SERVER_SOCK_ANSWER :: "byte list" where
  "SERVER_SOCK_ANSWER = map of_char ''WHos yoUR daddY'' @ [0]"

definition question_packet :: sock_packet where
  "question_packet = (pack_packet zero_packet)\<lparr>cmd_ids := [SOCK_CMD_ACK, SOCK_CMD_ACK_QUESTION, 0, 0, 0, 0, 0, 0],
     ret := bswap32 SOCK_CMD_RET_OK, reserved := dec32s SERVER_SOCK_QUESTION\<rparr>"

text \<open>The thread function of a connection type, 1 to 10 and 12.\<close>

definition thread_func :: "byte \<Rightarrow> ('m srv_round list \<Rightarrow> 'm srv_conn \<Rightarrow> 'm srv_conn outcome) option" where
  "thread_func t =
     (if t = 1 then Some sock_handle_heart_jump_thread
      else if t = 2 then Some sock_handle_preview_thread
      else if t = 3 then Some sock_handle_capture_thread
      else if t = 4 then Some tuning_thread
      else if t = 5 then Some sock_handle_statistics_thread
      else if t = 6 then Some sock_handle_script_thread
      else if t = 7 then Some sock_handle_register_thread
      else if t = 8 then Some sock_handle_aelv_thread
      else if t = 9 then Some sock_handle_set_input_thread
      else if t = 10 then Some sock_handle_raw_flow_thread
      else if t = 12 then Some sock_handle_isp_version_thread
      else None)"

definition right_answer :: "sock_packet \<Rightarrow> bool" where
  "right_answer p \<longleftrightarrow> cmd_ids p ! 1 = SOCK_CMD_ACK_ANSWER \<and> strncmp_eq 16 (enc32s (reserved p)) SERVER_SOCK_ANSWER"

definition known_type :: "byte \<Rightarrow> bool" where
  "known_type t \<longleftrightarrow> \<not> Option.is_none (thread_func t :: (unit srv_round list \<Rightarrow> unit srv_conn \<Rightarrow> unit srv_conn outcome) option)"

definition close_conn :: "int \<Rightarrow> server \<Rightarrow> server" where
  "close_conn fd srv = srv\<lparr>closed := closed srv @ [fd]\<rparr>"

text \<open>
  The connection is handed over before the client gets its reply. A failed reply is not looked at.
\<close>

definition accept_client :: "int \<Rightarrow> int \<Rightarrow> sock_packet \<Rightarrow> io_ev list \<Rightarrow> sock \<Rightarrow> server \<Rightarrow> (int \<times> io_ev list \<times> sock \<times> server) option" where
  "accept_client add_ret fd p io s srv =
     (let srv1 = (if add_ret < 0 then srv else srv\<lparr>works := works srv @ [(cmd_ids p ! 2, fd)]\<rparr>);
          q = p\<lparr>cmd_ids := (cmd_ids p)[1 := SOCK_CMD_ACK_RET], ret := bswap32 (if add_ret < 0 then SOCK_CMD_RET_FAILED else SOCK_CMD_RET_OK)\<rparr>
      in case sock_write SOCK_DEFAULT_TIMEOUT io (enc_packet q) s of
           None \<Rightarrow> None
         | Some (_, io1, s1) \<Rightarrow> Some (if add_ret < 0 then (- 1, io1, s1, close_conn fd srv1) else (0, io1, s1, srv1)))"

definition client_handle :: "int \<Rightarrow> int \<Rightarrow> io_ev list \<Rightarrow> sock \<Rightarrow> server \<Rightarrow> (int \<times> io_ev list \<times> sock \<times> server) option" where
  "client_handle add_ret fd io s srv =
     (case sock_write_check_packet SOCK_DEFAULT_TIMEOUT io question_packet SOCK_CMD_ACK s of
        None \<Rightarrow> None
      | Some (c, p, io1, s1) \<Rightarrow>
          if c \<noteq> SOCK_RW_CHECK_OK then Some (- 1, io1, s1, close_conn fd srv)
          else if \<not> right_answer p then Some (- 1, io1, s1, close_conn fd srv)
          else if known_type (cmd_ids p ! 2) then accept_client add_ret fd p io1 s1 srv
          else if cmd_ids p ! 2 = SOCK_CMD_EXIT then Some (- 1, io1, s1, (close_conn fd srv)\<lparr>g_server_stop_flag := True\<rparr>)
          else Some (- 1, io1, s1, close_conn fd srv))"

section \<open>The accept loop\<close>

text \<open>\<open>accept\<close> answers with a descriptor or an error number.\<close>

definition socket_accept :: "int \<Rightarrow> int + int \<Rightarrow> sock \<Rightarrow> (int \<times> sock) option" where
  "socket_accept timeout res s =
     (case (if timeout > 0 then read_timeout timeout s else Some (0, s)) of
        None \<Rightarrow> None
      | Some (r, s1) \<Rightarrow>
          if r \<noteq> 0 then Some (- 1, s1)
          else case res of Inl e \<Rightarrow> Some (- 1, s1\<lparr>errno := e\<rparr>) | Inr fd \<Rightarrow> Some (fd, s1))"

text \<open>
  One turn of the loop gets the status words the threads show (the first one, and one for each time the
  server looks again while it waits for them), the answer of \<open>accept\<close>, and for a new connection its socket and the answer of \<open>add_work\<close>.
\<close>

record srv_turn =
  turn_status :: u32
  turn_later :: "u32 list"
  turn_accept :: "int + int"
  turn_io :: "io_ev list"
  turn_sock :: sock
  turn_add :: int

abbreviation (input) TH_STATUS_SERVER_QUIT :: nat where "TH_STATUS_SERVER_QUIT \<equiv> 24"

text \<open>
  The wait of a server that is told to quit: it looks at most 100 times whether a thread is still running. The result is how often it
  looked and what it saw last; \<open>None\<close> when it would look again and there is no further status.
\<close>

fun quit_wait :: "nat \<Rightarrow> u32 \<Rightarrow> u32 list \<Rightarrow> (nat \<times> u32) option" where
  "quit_wait try_times st later =
     (if try_times < 100 \<and> and st 0x00FFFFFF \<noteq> 0 then
        (case later of [] \<Rightarrow> None | st1 # later1 \<Rightarrow> quit_wait (try_times + 1) st1 later1)
      else Some (try_times, st))"

declare quit_wait.simps [simp del]

definition server_turn :: "srv_turn \<Rightarrow> sock \<Rightarrow> server \<Rightarrow> (int option \<times> sock \<times> server) outcome" where
  "server_turn t s srv =
     (if g_server_stop_flag srv then Ret (Some 0, s, srv)
      else if bit (turn_status t) TH_STATUS_SERVER_QUIT then
        (case quit_wait 0 (turn_status t) (turn_later t) of None \<Rightarrow> Blocks | Some _ \<Rightarrow> Ret (Some 0, s, srv))
      else case socket_accept SOCK_DEFAULT_TIMEOUT (turn_accept t) s of
        None \<Rightarrow> Blocks
      | Some (fd, s1) \<Rightarrow>
          if fd \<ge> 0 then
            (case client_handle (turn_add t) fd (turn_io t) (turn_sock t) srv of
               None \<Rightarrow> Blocks
             | Some (_, _, _, srv1) \<Rightarrow> Ret (None, s1, srv1))
          else if \<not> SHOULD_TRY_AGAIN (errno s1) then Ret (Some (- 1), s1, srv)
          else Ret (None, s1\<lparr>errno := 0\<rparr>, srv))"

fun server_loop :: "srv_turn list \<Rightarrow> sock \<Rightarrow> server \<Rightarrow> (int \<times> sock \<times> server) outcome" where
  "server_loop [] s srv = Blocks"
| "server_loop (t # ts) s srv =
     bind_outcome (server_turn t s srv) (\<lambda>(res, s1, srv1).
       case res of Some rc \<Rightarrow> Ret (rc, s1, srv1) | None \<Rightarrow> server_loop ts s1 srv1)"

definition run_server :: "srv_turn list \<Rightarrow> sock \<Rightarrow> server \<Rightarrow> (int \<times> sock \<times> server) outcome" where
  "run_server ts s srv = (if g_server_init_flag srv then server_loop ts s srv else Ret (- 1, s, srv))"

section \<open>Start and end\<close>

text \<open>What the kernel answers to the shell: copies of the standard descriptors, the terminal, the allocation, the thread and the log file.\<close>

record shell_env =
  dup_in :: int
  dup_out :: int
  dup_err :: int
  pty_fd :: int
  sti_alloc :: bool
  waiter_ok :: bool
  log_open :: "int option" \<comment> \<open>\<open>None\<close>: no log file was named\<close>

definition opened :: "int \<Rightarrow> int set" where
  "opened fd = (if fd \<ge> 0 then {fd} else {})"

definition init_mini_shell :: "shell_env \<Rightarrow> mini_shell \<Rightarrow> int \<times> mini_shell" where
  "init_mini_shell env sh =
     (let sh1 = sh\<lparr>stdin_copy := dup_in env, stdout_copy := dup_out env, stderr_copy := dup_err env, fd_ptmx := pty_fd env,
            shell_fds := shell_fds sh \<union> opened (dup_in env) \<union> opened (dup_out env) \<union> opened (dup_err env) \<union> opened (pty_fd env)\<rparr> in
      if pty_fd env < 0 then (- 1, sh1)
      else if \<not> sti_alloc env then (- 1, sh1)
      else if \<not> waiter_ok env then (- 1, sh1\<lparr>shell_fds := shell_fds sh1 - {pty_fd env}\<rparr>)
      else (0, case log_open env of None \<Rightarrow> sh1
              | Some fd \<Rightarrow> sh1\<lparr>fd_log_file := fd, shell_fds := shell_fds sh1 \<union> opened fd\<rparr>))"

text \<open>\<open>dup2\<close> restores the standard descriptors; the copies stay open.\<close>

definition exit_mini_shell :: "mini_shell \<Rightarrow> mini_shell" where
  "exit_mini_shell sh =
     \<lparr>fd_log_file = (if fd_log_file sh \<ge> 0 then - 1 else fd_log_file sh), fd_ptmx = (if fd_ptmx sh \<ge> 0 then - 1 else fd_ptmx sh),
      stdin_copy = (if stdin_copy sh \<ge> 0 then - 1 else stdin_copy sh), stdout_copy = (if stdout_copy sh \<ge> 0 then - 1 else stdout_copy sh),
      stderr_copy = (if stderr_copy sh \<ge> 0 then - 1 else stderr_copy sh),
      shell_fds = shell_fds sh - opened (fd_ptmx sh) - opened (fd_log_file sh)\<rparr>"

record init_env =
  socket_ret :: int
  bind_ret :: int
  listen_ret :: int
  pool_ret :: int
  capture_ret :: capture_error
  shell_answers :: shell_env

definition reset_server_params :: "server \<Rightarrow> server" where
  "reset_server_params srv = srv\<lparr>g_server_init_flag := False, g_server_socket_fd := - 1, g_server_stop_flag := False\<rparr>"

text \<open>
  \<open>exit_server\<close> also ends the ISP module, which \<open>init_server\<close> does not start; its state is in \<open>IspHandle\<close>.
\<close>

definition exit_server :: "server \<Rightarrow> server" where
  "exit_server srv =
     (let srv1 = srv\<lparr>g_server_stop_flag := True\<rparr>;
          srv2 = (if g_server_init_flag srv
                  then srv1\<lparr>closed := closed srv1 @ [g_server_socket_fd srv1], g_server_socket_fd := - 1, g_server_init_flag := False\<rparr>
                  else srv1)
      in srv2\<lparr>shell := exit_mini_shell (shell srv2), started := []\<rparr>)"

definition init_failed :: "int \<Rightarrow> server \<Rightarrow> int \<times> server" where
  "init_failed rc srv = (rc, srv\<lparr>closed := closed srv @ [g_server_socket_fd srv], g_server_socket_fd := - 1, g_server_init_flag := False\<rparr>)"

definition init_server :: "init_env \<Rightarrow> server \<Rightarrow> int \<times> server" where
  "init_server env srv =
     (let srv0 = reset_server_params (if g_server_init_flag srv then exit_server srv else srv) in
      if socket_ret env = - 1 then (- 1, srv0)
      else let srv1 = srv0\<lparr>g_server_socket_fd := socket_ret env\<rparr> in
        if bind_ret env = - 1 then init_failed (- 1) srv1
        else if listen_ret env = - 1 then init_failed (- 1) srv1
        else if pool_ret env < 0 then init_failed (pool_ret env) srv1
        else let srv2 = srv1\<lparr>started := started srv1 @ [ThreadPoolModule] @ (if capture_ret env = CAP_ERR_NONE then [CaptureModule] else [])\<rparr>
          in case init_mini_shell (shell_answers env) (shell srv2) of (rc, sh) \<Rightarrow>
            (0, srv2\<lparr>shell := sh, started := started srv2 @ (if rc = 0 then [ShellModule] else []), g_server_init_flag := True\<rparr>))"

text \<open>The address that is shown in the log: the last assignment that applies is the first one, since \<open>ret\<close> is tested.\<close>

definition get_sock_ip :: "int \<Rightarrow> (string \<times> string) list option \<Rightarrow> int \<times> string option" where
  "get_sock_ip sock_fd ifs =
     (if sock_fd < 0 then (- 1, None)
      else case ifs of
        None \<Rightarrow> (- 1, None)
      | Some reqs \<Rightarrow>
          (case find (\<lambda>(ip, name). take 4 ip \<noteq> ''127.'' \<and> take 3 name = ''eth'') reqs of
             None \<Rightarrow> (- 1, None)
           | Some (ip, _) \<Rightarrow> (0, Some ip)))"

section \<open>Handshakes\<close>

lemma packet_read:
  assumes "sock_read_check_packet t io cmd s = Some (SOCK_RW_CHECK_OK, p, io', s')"
  shows "inp s = enc_packet p @ inp s' \<and> wf_packet p \<and> head_flag p = SERVER_SOCK_HEAD \<and> cmd_ids p ! 0 = cmd \<and> ret p = bswap32 SOCK_CMD_RET_OK"
proof -
  obtain data io1 s1 where r: "sock_read t io PACKET_SIZE s = Some (data, io1, s1)"
    using assms by (auto simp: sock_read_check_packet_def split: option.splits)
  have len: "length data = PACKET_SIZE"
    using assms r by (auto simp: sock_read_check_packet_def Let_def split: if_splits)
  have ov: "overlay (enc_packet zero_packet) data = data" by (rule overlay_full) (simp add: len length_zero_packet)
  have p: "p = dec_packet data" "s' = s1" "check_sock_packet p cmd \<ge> 0" "bswap32 (ret p) = SOCK_CMD_RET_OK"
    using assms r len ov by (auto simp: sock_read_check_packet_def Let_def split: if_splits option.splits)
  have w: "wf_packet p" "enc_packet p = data" using p(1) len by simp_all
  have "length (head_flag p) = 4" using w(1) by (simp add: wf_packet_def)
  then have "head_flag p = SERVER_SOCK_HEAD" "cmd_ids p ! 0 = cmd"
    using p(3) by (auto simp: check_sock_packet_def strncmp_eq_head split: if_splits)
  moreover have "data @ inp s1 = inp s" using sock_read_prefix[OF r] by blast
  ultimately show ?thesis using w p(2,4) by (auto simp: bswap32_eq)
qed

lemma strncmp_eq_all:
  "strncmp_eq (length as) as bs \<Longrightarrow> length bs = length as \<Longrightarrow> 0 \<notin> set (butlast bs) \<Longrightarrow> as = bs"
proof (induction as arbitrary: bs)
  case (Cons a as)
  obtain b bs' where bs: "bs = b # bs'" using Cons.prems(2) by (cases bs) auto
  show ?case
  proof (cases "as = []")
    case False
    then have "bs' \<noteq> []" using Cons.prems(2) bs by auto
    then show ?thesis using Cons.prems Cons.IH[of bs'] bs by auto
  qed (use Cons.prems bs in auto)
qed simp

lemma right_answer_iff:
  assumes "wf_packet p"
  shows "right_answer p \<longleftrightarrow> cmd_ids p ! 1 = SOCK_CMD_ACK_ANSWER \<and> enc32s (reserved p) = SERVER_SOCK_ANSWER"
proof -
  have len: "length (enc32s (reserved p)) = 16" "length SERVER_SOCK_ANSWER = 16"
    using assms by (simp_all add: wf_packet_def SERVER_SOCK_ANSWER_def)
  have "0 \<notin> set (butlast SERVER_SOCK_ANSWER)" by code_simp
  moreover have "strncmp_eq 16 SERVER_SOCK_ANSWER SERVER_SOCK_ANSWER" by code_simp
  ultimately show ?thesis
    using strncmp_eq_all[of "enc32s (reserved p)" SERVER_SOCK_ANSWER] len by (auto simp: right_answer_def)
qed

lemma client_handle_closes:
  assumes "client_handle add_ret fd io s srv = Some (rc, io', s', srv')"
  shows "(rc = 0 \<and> (\<exists>t. srv' = srv\<lparr>works := works srv @ [(t, fd)]\<rparr>)) \<or>
    (rc = - 1 \<and> works srv' = works srv \<and> closed srv' = closed srv @ [fd])"
  using assms
  by (auto simp: client_handle_def accept_client_def close_conn_def Let_def split: option.splits if_splits)

text \<open>
  C14. No thread without the password: when \<open>client_handle\<close> hands a connection to a thread, the client has sent, as its first packet, a
  well-formed acknowledgement with the right answer and a thread type the server knows, and it is that thread which gets the connection;
  in every other case the connection is closed, and in no case both.
\<close>

theorem handshake_required:
  assumes "client_handle add_ret fd io s srv = Some (rc, io', s', srv')"
  shows "if works srv' \<noteq> works srv
    then closed srv' = closed srv \<and> rc = 0 \<and> 0 \<le> add_ret \<and>
      (\<exists>p rest. inp s = enc_packet p @ rest \<and> wf_packet p \<and> head_flag p = SERVER_SOCK_HEAD \<and> cmd_ids p ! 0 = SOCK_CMD_ACK \<and>
        cmd_ids p ! 1 = SOCK_CMD_ACK_ANSWER \<and> enc32s (reserved p) = SERVER_SOCK_ANSWER \<and> known_type (cmd_ids p ! 2) \<and>
        works srv' = works srv @ [(cmd_ids p ! 2, fd)])
    else closed srv' = closed srv @ [fd] \<and> rc = - 1"
proof (cases "works srv' = works srv")
  case True
  then show ?thesis using client_handle_closes[OF assms] by auto
next
  case False
  then obtain p io1 s1 where w: "sock_write_check_packet SOCK_DEFAULT_TIMEOUT io question_packet SOCK_CMD_ACK s = Some (SOCK_RW_CHECK_OK, p, io1, s1)"
    and p: "right_answer p" "known_type (cmd_ids p ! 2)" "0 \<le> add_ret" "rc = 0" "srv' = srv\<lparr>works := works srv @ [(cmd_ids p ! 2, fd)]\<rparr>"
    using assms by (auto simp: client_handle_def accept_client_def close_conn_def Let_def split: option.splits if_splits)
  obtain n io0 s0 where 0: "sock_write SOCK_DEFAULT_TIMEOUT io (enc_packet question_packet) s = Some (n, io0, s0)"
    and r: "sock_read_check_packet SOCK_DEFAULT_TIMEOUT io0 SOCK_CMD_ACK s0 = Some (SOCK_RW_CHECK_OK, p, io1, s1)"
    using w by (auto simp: sock_write_check_packet_def split: option.splits if_splits)
  have "inp s0 = inp s" using sock_write_prefix[OF 0] by auto
  then have "inp s = enc_packet p @ inp s1" using packet_read[OF r] by simp
  then show ?thesis using packet_read[OF r] p right_answer_iff[of p] by auto
qed

lemma wf_question: "wf_packet question_packet"
  by (simp add: wf_packet_def question_packet_def pack_packet_def zero_packet_def SERVER_SOCK_HEAD_def SERVER_SOCK_QUESTION_def)

text \<open>And the handshake succeeds for a client that plays along.\<close>

lemma handshake_succeeds:
  assumes "wf_packet p" "classify p SOCK_CMD_ACK = SOCK_RW_CHECK_OK" "right_answer p" "known_type (cmd_ids p ! 2)" "0 \<le> add_ret"
    and "inp s = enc_packet p @ rest" "flowing (3 * PACKET_SIZE) io s"
  shows "\<exists>io' s'. client_handle add_ret fd io s srv = Some (0, io', s', srv\<lparr>works := works srv @ [(cmd_ids p ! 2, fd)]\<rparr>) \<and> inp s' = rest \<and>
    outp s' = outp s @ enc_packet question_packet @ enc_packet (p\<lparr>cmd_ids := (cmd_ids p)[1 := SOCK_CMD_ACK_RET], ret := bswap32 SOCK_CMD_RET_OK\<rparr>)"
proof -
  note wq = wf_question
  let ?r = "p\<lparr>cmd_ids := (cmd_ids p)[1 := SOCK_CMD_ACK_RET], ret := bswap32 SOCK_CMD_RET_OK\<rparr>"
  have lr: "length (enc_packet ?r) = PACKET_SIZE" using assms(1) by (intro length_enc_packet) (simp add: wf_packet_def)
  have f: "flowing (length (enc_packet question_packet) + (PACKET_SIZE + (length (enc_packet ?r) + 0))) io s" using assms(7) wq lr by simp
  obtain io1 s1 where 1: "sock_write SOCK_DEFAULT_TIMEOUT io (enc_packet question_packet) s = Some (length (enc_packet question_packet), io1, s1)"
    "flowing (PACKET_SIZE + (length (enc_packet ?r) + 0)) io1 s1"
    using sock_write_complete[OF f, of SOCK_DEFAULT_TIMEOUT] by auto
  have s1: "inp s1 = enc_packet p @ rest" "outp s1 = outp s @ enc_packet question_packet" using sock_write_prefix[OF 1(1)] assms(6) by auto
  obtain io2 s2 where 2: "sock_read_check_packet SOCK_DEFAULT_TIMEOUT io1 SOCK_CMD_ACK s1 = Some (SOCK_RW_CHECK_OK, p, io2, s2)"
    "flowing (length (enc_packet ?r) + 0) io2 s2" "inp s2 = rest" "outp s2 = outp s1"
    using read_check_ok[OF assms(1) s1(1) 1(2) assms(2), of SOCK_DEFAULT_TIMEOUT] by auto
  obtain io3 s3 where 3: "sock_write SOCK_DEFAULT_TIMEOUT io2 (enc_packet ?r) s2 = Some (length (enc_packet ?r), io3, s3)"
    using sock_write_complete[OF 2(2), of SOCK_DEFAULT_TIMEOUT] by auto
  then have "inp s3 = rest" "outp s3 = outp s2 @ enc_packet ?r" using sock_write_prefix[OF 3] 2(3) by auto
  then show ?thesis
    using 1(1) 2 3 s1 assms(3-5) wq
    by (intro exI[of _ io3] exI[of _ s3]) (simp add: client_handle_def sock_write_check_packet_def accept_client_def Let_def)
qed

section \<open>Silent connections of every type\<close>

lemma run_thread_silent:
  assumes "timed_loop round" "\<forall>r \<in> set rs. \<not> stop_flag r" "\<not> g_thread_stop_flag tc"
    and "sel (tc_sock tc) = replicate (length rs) SelTimeout @ evs"
  shows "if length rs \<le> SERVER_TIMEOUT_MAX then run_thread on off round rs tc = Blocks
    else \<exists>tc'. run_thread on off round rs tc = Ret tc' \<and> outp (tc_sock tc') = outp (tc_sock tc) \<and> inp (tc_sock tc') = inp (tc_sock tc) \<and>
      tc_handle tc' = tc_handle tc \<and> sel (tc_sock tc') = replicate (length rs - 11) SelTimeout @ evs"
proof -
  let ?tc = "tc\<lparr>tc_timeouts := 0, g_thread_status := or (g_thread_status tc) on\<rparr>"
  show ?thesis
    using timed_loop.silent_rounds[OF assms(1,2), of ?tc evs] assms(3,4) by (auto simp: run_thread_def)
qed

lemma set_input_once:
  assumes "\<not> stopped r tc" "sel (tc_sock tc) = SelTimeout # evs"
  shows "\<exists>tc'. set_input_loop r tc = Ret (False, tc') \<and> outp (tc_sock tc') = outp (tc_sock tc) \<and> inp (tc_sock tc') = inp (tc_sock tc) \<and>
    tc_handle tc' = tc_handle tc \<and> sel (tc_sock tc') = evs"
proof -
  obtain e where "conn_round sock_read_check_packet SOCK_CMD_SET_INPUT (\<lambda>p. keep_on (set_input_request r p)) r tc =
      Ret (tc_timeouts tc + 1 \<le> SERVER_TIMEOUT_MAX, tc\<lparr>tc_sock := (tc_sock tc)\<lparr>sel := evs, errno := e\<rparr>, tc_timeouts := tc_timeouts tc + 1\<rparr>)"
    using timed_loop.timeout_counted[OF packet_timed assms, of SOCK_CMD_SET_INPUT "\<lambda>r p. keep_on (set_input_request r p)"] by blast
  then show ?thesis by (simp add: set_input_loop_def)
qed

lemmas timed_loops = heart.timed_loop_axioms tuning.timed_loop_axioms preview.timed_loop_axioms capture_conn.timed_loop_axioms
  statistics.timed_loop_axioms script.timed_loop_axioms reg_access.timed_loop_axioms aelv.timed_loop_axioms raw_conn.timed_loop_axioms
  version.timed_loop_axioms

text \<open>
  C22. Every thread gives up a silent connection. Whatever type of thread a connection was given to, while its client sends nothing and the
  server is not stopped the thread lives through ten timeouts and ends at the eleventh (the thread for the sensor input at the first), having
  sent nothing and without touching the ISPs.
\<close>

theorem silent_connections_closed:
  assumes "thread_func t = Some th" "\<forall>r \<in> set rs. \<not> stop_flag r" "\<not> g_thread_stop_flag tc"
    and "sel (tc_sock tc) = replicate (length rs) SelTimeout @ evs"
  shows "let limit = (if t = 9 then 1 else 11) in
    if length rs < limit then th rs tc = Blocks
    else \<exists>tc'. th rs tc = Ret tc' \<and> outp (tc_sock tc') = outp (tc_sock tc) \<and> inp (tc_sock tc') = inp (tc_sock tc) \<and>
      tc_handle tc' = tc_handle tc \<and> sel (tc_sock tc') = replicate (length rs - limit) SelTimeout @ evs"
proof (cases "t = 9")
  case True
  then have th: "th = run_thread 0x100 0x100 set_input_loop" using assms(1) by (simp add: thread_func_def sock_handle_set_input_thread_def)
  show ?thesis
  proof (cases rs)
    case Nil
    then show ?thesis using True th by (simp add: run_thread_def)
  next
    case (Cons r rs')
    let ?tc = "tc\<lparr>tc_timeouts := 0, g_thread_status := or (g_thread_status tc) 0x100\<rparr>"
    obtain tc' where "set_input_loop r ?tc = Ret (False, tc')" "outp (tc_sock tc') = outp (tc_sock tc)" "inp (tc_sock tc') = inp (tc_sock tc)"
      "tc_handle tc' = tc_handle tc" "sel (tc_sock tc') = replicate (length rs') SelTimeout @ evs"
      using set_input_once[of r ?tc "replicate (length rs') SelTimeout @ evs"] assms(2-4) Cons by (auto simp: stopped_def)
    then show ?thesis using True th Cons by (simp add: run_thread_def)
  qed
next
  case False
  have "\<exists>on off round tc0. timed_loop round \<and> th rs tc = run_thread on off round rs tc0 \<and>
      tc_sock tc0 = tc_sock tc \<and> tc_handle tc0 = tc_handle tc \<and> \<not> g_thread_stop_flag tc0"
  proof (cases "t = 1")
    case True
    then show ?thesis
      using assms(1) heart.timed_loop_axioms
      by (intro exI[of _ 1] exI[of _ heart_jump_loop] exI[of _ "tc\<lparr>g_thread_stop_flag := False\<rparr>"]) (auto simp: thread_func_def sock_handle_heart_jump_thread_def)
  next
    case no: False
    then have "\<exists>on off round. timed_loop round \<and> th = run_thread on off round"
      using assms(1) \<open>t \<noteq> 9\<close> timed_loops
      by (auto simp: thread_func_def sock_handle_preview_thread_def sock_handle_capture_thread_def tuning_thread_def
          sock_handle_statistics_thread_def sock_handle_script_thread_def sock_handle_register_thread_def sock_handle_aelv_thread_def
          sock_handle_raw_flow_thread_def sock_handle_isp_version_thread_def split: if_splits)
    then show ?thesis using assms(3) by blast
  qed
  then obtain on off round tc0 where r: "timed_loop round" "th rs tc = run_thread on off round rs tc0"
    "tc_sock tc0 = tc_sock tc" "tc_handle tc0 = tc_handle tc" "\<not> g_thread_stop_flag tc0" by blast
  show ?thesis
    using run_thread_silent[OF r(1) assms(2) r(5), of evs on off] r False assms(4) by (auto simp: Let_def split: if_splits)
qed

section \<open>The end of the server\<close>

lemma quit_wait_returns:
  assumes "100 \<le> n + length later"
  shows "\<exists>k st'. quit_wait n st later = Some (k, st') \<and> (n \<le> 100 \<longrightarrow> k \<le> 100)"
  using assms
proof (induction n st later rule: quit_wait.induct)
  case (1 n st later)
  show ?case
  proof (cases "n < 100 \<and> and st 0x00FFFFFF \<noteq> 0")
    case True
    then obtain st1 later1 where l: "later = st1 # later1" using "1.prems" by (cases later) auto
    then show ?thesis using "1.IH"[OF True l] "1.prems" True by (subst quit_wait.simps) auto
  next
    case False
    then show ?thesis by (subst quit_wait.simps) auto
  qed
qed

text \<open>
  The server ends when it is told to: with the stop flag set, or with the quit bit in the status word of the threads, the next turn of
  the accept loop makes \<open>run_server\<close> return 0 without accepting another connection, after at most a hundred looks at threads that are still running.
\<close>

theorem server_quits:
  assumes "g_server_init_flag srv" "g_server_stop_flag srv \<or> bit (turn_status t) TH_STATUS_SERVER_QUIT" "100 \<le> length (turn_later t)"
  shows "run_server (t # ts) s srv = Ret (0, s, srv) \<and> (\<exists>k st. quit_wait 0 (turn_status t) (turn_later t) = Some (k, st) \<and> k \<le> 100)"
  using assms quit_wait_returns[of 0 "turn_later t" "turn_status t"] by (auto simp: run_server_def server_turn_def)

text \<open>A client that knows the answer can end the server.\<close>

lemma exit_command_stops:
  assumes "wf_packet p" "classify p SOCK_CMD_ACK = SOCK_RW_CHECK_OK" "right_answer p" "cmd_ids p ! 2 = SOCK_CMD_EXIT"
    and "inp s = enc_packet p @ rest" "flowing (2 * PACKET_SIZE) io s"
  shows "\<exists>io' s'. client_handle add_ret fd io s srv = Some (- 1, io', s', (close_conn fd srv)\<lparr>g_server_stop_flag := True\<rparr>)"
proof -
  note wq = wf_question
  have f: "flowing (length (enc_packet question_packet) + (PACKET_SIZE + 0)) io s" using assms(6) wq by simp
  obtain io1 s1 where 1: "sock_write SOCK_DEFAULT_TIMEOUT io (enc_packet question_packet) s = Some (length (enc_packet question_packet), io1, s1)"
    "flowing (PACKET_SIZE + 0) io1 s1"
    using sock_write_complete[OF f, of SOCK_DEFAULT_TIMEOUT] by auto
  have s1: "inp s1 = enc_packet p @ rest" using sock_write_prefix[OF 1(1)] assms(5) by auto
  obtain io2 s2 where 2: "sock_read_check_packet SOCK_DEFAULT_TIMEOUT io1 SOCK_CMD_ACK s1 = Some (SOCK_RW_CHECK_OK, p, io2, s2)"
    using read_check_ok[OF assms(1) s1(1) 1(2) assms(2), of SOCK_DEFAULT_TIMEOUT] by auto
  have "\<not> known_type SOCK_CMD_EXIT" by (simp add: known_type_def thread_func_def)
  then show ?thesis using 1(1) 2 assms(3,4) wq by (simp add: client_handle_def sock_write_check_packet_def)
qed

text \<open>
  Starting and ending the server: after a successful \<open>init_server\<close>, \<open>exit_server\<close> closes the listening socket and the terminal and log of the
  shell and leaves no module started. The three copies of the standard descriptors that \<open>init_mini_shell\<close> made stay open.
\<close>

theorem init_exit_server:
  assumes "init_server env srv = (0, srv1)" "\<not> g_server_init_flag srv" "started srv = []" "fd_log_file (shell srv) = - 1"
    and "init_mini_shell (shell_answers env) (shell srv) = (0, sh)" "dup_in (shell_answers env) \<ge> 0" "dup_out (shell_answers env) \<ge> 0"
    and "dup_err (shell_answers env) \<ge> 0"
    and "{dup_in (shell_answers env), dup_out (shell_answers env), dup_err (shell_answers env)} \<inter>
      (opened (fd_ptmx sh) \<union> opened (fd_log_file sh)) = {}" "shell_fds (shell srv) \<inter> (opened (fd_ptmx sh) \<union> opened (fd_log_file sh)) = {}"
  shows "g_server_init_flag srv1 \<and> ThreadPoolModule \<in> set (started srv1) \<and> g_server_socket_fd srv1 = socket_ret env \<and>
    (let srv2 = exit_server srv1 in \<not> g_server_init_flag srv2 \<and> g_server_stop_flag srv2 \<and> started srv2 = [] \<and>
      closed srv2 = closed srv @ [socket_ret env] \<and> works srv2 = works srv \<and>
      shell_fds (shell srv2) = shell_fds (shell srv) \<union> {dup_in (shell_answers env), dup_out (shell_answers env), dup_err (shell_answers env)})"
proof -
  have sh: "shell_fds sh = shell_fds (shell srv) \<union> {dup_in (shell_answers env), dup_out (shell_answers env), dup_err (shell_answers env)} \<union>
      opened (fd_ptmx sh) \<union> opened (fd_log_file sh)"
    using assms(4-8) by (auto simp: init_mini_shell_def opened_def Let_def split: if_splits option.splits)
  have s1: "g_server_init_flag srv1" "g_server_socket_fd srv1 = socket_ret env" "shell srv1 = sh" "ThreadPoolModule \<in> set (started srv1)"
    "closed srv1 = closed srv" "works srv1 = works srv"
    using assms(1,2,5) by (auto simp: init_server_def init_failed_def reset_server_params_def Let_def split: if_splits)
  have "shell_fds (shell srv) \<union> {dup_in (shell_answers env), dup_out (shell_answers env), dup_err (shell_answers env)} =
      shell_fds sh - opened (fd_ptmx sh) - opened (fd_log_file sh)"
    using sh assms(9,10) by blast
  then show ?thesis using s1 by (simp add: exit_server_def exit_mini_shell_def Let_def)
qed

section \<open>A client that knows the answer\<close>

definition answer_packet :: "byte \<Rightarrow> sock_packet" where
  "answer_packet t = (pack_packet zero_packet)\<lparr>cmd_ids := [SOCK_CMD_ACK, SOCK_CMD_ACK_ANSWER, t, 0, 0, 0, 0, 0],
     ret := bswap32 SOCK_CMD_RET_OK, reserved := dec32s SERVER_SOCK_ANSWER\<rparr>"

definition first_server :: server where
  "first_server = \<lparr>g_server_init_flag = False, g_server_socket_fd = - 1, g_server_stop_flag = False, works = [], closed = [], started = [],
     shell = \<lparr>fd_log_file = - 1, fd_ptmx = - 1, stdin_copy = - 1, stdout_copy = - 1, stderr_copy = - 1, shell_fds = {}\<rparr>\<rparr>"

lemma answer_ok: "wf_packet (answer_packet t)" "classify (answer_packet t) SOCK_CMD_ACK = SOCK_RW_CHECK_OK" "right_answer (answer_packet t)"
proof -
  show wf: "wf_packet (answer_packet t)"
    by (simp add: wf_packet_def answer_packet_def pack_packet_def zero_packet_def SERVER_SOCK_HEAD_def SERVER_SOCK_ANSWER_def)
  show "classify (answer_packet t) SOCK_CMD_ACK = SOCK_RW_CHECK_OK"
    by (simp add: classify_def answer_packet_def pack_packet_def)
  have "length SERVER_SOCK_ANSWER = 4 * 4" by (simp add: SERVER_SOCK_ANSWER_def)
  then have "4 dvd length SERVER_SOCK_ANSWER" by (metis dvd_triv_left)
  then show "right_answer (answer_packet t)"
    by (subst right_answer_iff[OF wf]) (simp add: answer_packet_def enc32s_dec32s)
qed

theorem handshake_required_witness:
  "\<exists>io' s' srv'. client_handle 0 7 (replicate 200 (IoOk 1)) (demo_sock (enc_packet (answer_packet 4))) first_server = Some (0, io', s', srv') \<and>
     works srv' = [(4, 7)] \<and> closed srv' = []"
proof -
  have k: "known_type (cmd_ids (answer_packet 4) ! 2)" by (simp add: known_type_def thread_func_def answer_packet_def)
  have f: "flowing (3 * PACKET_SIZE) (replicate 200 (IoOk 1)) (demo_sock (enc_packet (answer_packet 4)))"
    by (simp add: flowing_def demo_sock_def list_all_iff)
  obtain io' s' where h: "client_handle 0 7 (replicate 200 (IoOk 1)) (demo_sock (enc_packet (answer_packet 4))) first_server =
      Some (0, io', s', first_server\<lparr>works := works first_server @ [(cmd_ids (answer_packet 4) ! 2, 7)]\<rparr>)"
    using handshake_succeeds[OF answer_ok k _ _ f, of 0 "[]" 7 first_server] by (auto simp: demo_sock_def)
  show ?thesis
    using handshake_required[OF h] h by (auto simp: first_server_def answer_packet_def)
qed

theorem silent_connections_closed_witness:
  "\<exists>tc'. sock_handle_script_thread (replicate 11 demo_round)
     ((demo_srv [] [])\<lparr>tc_sock := \<lparr>sel = replicate 11 SelTimeout, inp = [], outp = [], errno = 0\<rparr>\<rparr>) = Ret tc' \<and> outp (tc_sock tc') = []"
  using silent_connections_closed[of 6 sock_handle_script_thread "replicate 11 demo_round"
      "(demo_srv [] [])\<lparr>tc_sock := \<lparr>sel = replicate 11 SelTimeout, inp = [], outp = [], errno = 0\<rparr>\<rparr>" "[]"]
  by (auto simp: thread_func_def Let_def demo_round_def demo_srv_def)

theorem server_quits_witness:
  "run_server [\<lparr>turn_status = 0x01000020, turn_later = replicate 100 0x01000020, turn_accept = Inl 11, turn_io = [], turn_sock = demo_sock [], turn_add = 0\<rparr>]
     (demo_sock []) (first_server\<lparr>g_server_init_flag := True\<rparr>) = Ret (0, demo_sock [], first_server\<lparr>g_server_init_flag := True\<rparr>)"
  using server_quits[of "first_server\<lparr>g_server_init_flag := True\<rparr>"
      "\<lparr>turn_status = 0x01000020, turn_later = replicate 100 0x01000020, turn_accept = Inl 11, turn_io = [], turn_sock = demo_sock [], turn_add = 0\<rparr>" "[]" "demo_sock []"]
  by simp

theorem init_exit_server_witness:
  "\<exists>srv1. init_server \<lparr>socket_ret = 3, bind_ret = 0, listen_ret = 0, pool_ret = 0, capture_ret = CAP_ERR_NONE,
       shell_answers = \<lparr>dup_in = 4, dup_out = 5, dup_err = 6, pty_fd = 7, sti_alloc = True, waiter_ok = True, log_open = None\<rparr>\<rparr> first_server = (0, srv1) \<and>
     shell_fds (shell (exit_server srv1)) = {4, 5, 6} \<and> closed (exit_server srv1) = [3]"
  using init_exit_server[of "\<lparr>socket_ret = 3, bind_ret = 0, listen_ret = 0, pool_ret = 0, capture_ret = CAP_ERR_NONE,
       shell_answers = \<lparr>dup_in = 4, dup_out = 5, dup_err = 6, pty_fd = 7, sti_alloc = True, waiter_ok = True, log_open = None\<rparr>\<rparr>" first_server]
  by (auto simp: init_server_def reset_server_params_def first_server_def init_mini_shell_def opened_def Let_def)

end
