(* ===== verification/ThreadPool.thy ===== *)
theory ThreadPool
  imports Prelude "HOL-Library.Multiset"
begin

text \<open>
  \<open>thread_pool.c\<close>: the worker threads that run the connection handlers of the tuning server. The pool is a
  list of nodes, each with a mutex of its own, behind one global mutex that \<open>add_work\<close> and
  \<open>exit_thread_pool\<close> hold from beginning to end. The threads interleave between critical sections: a step
  of the relation \<open>pool_step\<close> is one critical section (or the call of a work function), of the thread that holds
  the global mutex or of any one worker. \<open>accepted\<close>, \<open>taken\<close> and \<open>dropped\<close> record, for the statements only,
  the works that \<open>add_work\<close> accepted, those a worker took up, and those pending in a node that was reset.

  A work is the function with its argument, either of which may be \<open>NULL\<close>. What \<open>pthread_create\<close> answers is
  an argument; \<open>malloc\<close> succeeds (the code does not test it). Using the pool before \<open>init_thread_pool\<close> or
  after \<open>exit_thread_pool\<close> dereferences a null list head: \<open>None\<close>.
\<close>

section \<open>Nodes\<close>

datatype work_thread_flag =
    WORK_THREAD_STOP_NOT | WORK_THREAD_STOP_YES
  | WORK_THREAD_WORK_NOT | WORK_THREAD_WORK_YES
  | WORK_THREAD_EXIT_NOT | WORK_THREAD_EXIT_YES

type_synonym ('f, 'p) work = "'f option \<times> 'p option"

record ('f, 'p) work_thread_params =
  stop_flag :: work_thread_flag
  work_flag :: work_thread_flag
  status :: work_thread_flag
  thread_handle :: "'f option"
  handle_params :: "'p option"

definition zero_node :: "('f, 'p) work_thread_params" where
  "zero_node = \<lparr>stop_flag = WORK_THREAD_STOP_NOT, work_flag = WORK_THREAD_WORK_NOT,
     status = WORK_THREAD_EXIT_YES, thread_handle = None, handle_params = None\<rparr>"

definition set_zero_work_thread_params ::
    "('f, 'p) work_thread_params \<Rightarrow> ('f, 'p) work_thread_params" where
  "set_zero_work_thread_params n = n\<lparr>stop_flag := WORK_THREAD_STOP_NOT, work_flag := WORK_THREAD_WORK_NOT,
     status := WORK_THREAD_EXIT_YES, thread_handle := None, handle_params := None\<rparr>"

definition give_work :: "('f, 'p) work \<Rightarrow> ('f, 'p) work_thread_params \<Rightarrow> ('f, 'p) work_thread_params" where
  "give_work w n = n\<lparr>thread_handle := fst w, handle_params := snd w, work_flag := WORK_THREAD_WORK_YES\<rparr>"

definition node_work :: "('f, 'p) work_thread_params \<Rightarrow> ('f, 'p) work" where
  "node_work n = (thread_handle n, handle_params n)"

section \<open>The pool\<close>

text \<open>
  The program points of \<open>do_work_thread\<close>: before the stop flag is read, before the work flag is read, before
  the work function is called, before the work flag is cleared (the function is running or has
  returned), and before the node is reset.
\<close>

datatype worker_pc = ReadStop | ReadWork | CallWork | ClearWork | ResetNode

text \<open>
  Who holds the global mutex: \<open>add_work\<close> at a position of its search, or \<open>exit_thread_pool\<close> while it sets the
  stop flags or waits for the workers.
\<close>

datatype ('f, 'p) owner = Nobody | AddWork nat "('f, 'p) work" | StopNode nat | WaitNode nat

record ('f, 'p) pool =
  nodes :: "('f, 'p) work_thread_params list option"
  workers :: "(nat \<times> worker_pc) list"
  owner :: "('f, 'p) owner"
  accepted :: "('f, 'p) work list"
  taken :: "('f, 'p) work list"
  dropped :: "('f, 'p) work list"
  called :: "('f \<times> 'p option) list"
  last_ret :: int

definition init_thread_pool :: "('f, 'p) pool \<Rightarrow> ('f, 'p) pool" where
  "init_thread_pool s = s\<lparr>nodes := Some (replicate 6 (set_zero_work_thread_params zero_node)), owner := Nobody\<rparr>"

text \<open>
  One iteration of the search loop of \<open>add_work\<close> at node \<open>i\<close>, and the code behind the loop, which appends a
  node. Creating the thread and handing the work over happen inside one critical section of the node.
\<close>

definition start_worker ::
    "bool \<Rightarrow> nat \<Rightarrow> ('f, 'p) work \<Rightarrow> ('f, 'p) work_thread_params list \<Rightarrow> ('f, 'p) pool \<Rightarrow> ('f, 'p) pool" where
  "start_worker created i w ns s =
     (if created
      then s\<lparr>nodes := Some (ns[i := give_work w ((ns ! i)\<lparr>status := WORK_THREAD_EXIT_NOT\<rparr>)]),
             workers := workers s @ [(i, ReadStop)], accepted := w # accepted s, last_ret := 0, owner := Nobody\<rparr>
      else s\<lparr>nodes := Some ns, last_ret := - 1, owner := Nobody\<rparr>)"

definition add_work_visit ::
    "bool \<Rightarrow> nat \<Rightarrow> ('f, 'p) work \<Rightarrow> ('f, 'p) work_thread_params list \<Rightarrow> ('f, 'p) pool \<Rightarrow> ('f, 'p) pool" where
  "add_work_visit created i w ns s =
     (let n = ns ! i in
      if status n = WORK_THREAD_EXIT_YES
      then start_worker created i w (ns[i := set_zero_work_thread_params n]) s
      else if work_flag n = WORK_THREAD_WORK_NOT
      then s\<lparr>nodes := Some (ns[i := give_work w n]), accepted := w # accepted s, last_ret := 0, owner := Nobody\<rparr>
      else s\<lparr>owner := AddWork (i + 1) w\<rparr>)"

definition add_work_grow ::
    "bool \<Rightarrow> ('f, 'p) work \<Rightarrow> ('f, 'p) work_thread_params list \<Rightarrow> ('f, 'p) pool \<Rightarrow> ('f, 'p) pool" where
  "add_work_grow created w ns s =
     start_worker created (length ns) w (ns @ [set_zero_work_thread_params zero_node]) s"

definition add_work_step :: "bool \<Rightarrow> nat \<Rightarrow> ('f, 'p) work \<Rightarrow> ('f, 'p) pool \<Rightarrow> ('f, 'p) pool option" where
  "add_work_step created i w s =
     (case nodes s of
        None \<Rightarrow> None
      | Some ns \<Rightarrow> Some (if i < length ns then add_work_visit created i w ns s else add_work_grow created w ns s))"

text \<open>
  \<open>exit_thread_pool\<close>: setting the stop flag of one node, one look at the status of a node (it looks again
  until the worker has gone), and the release of the list.
\<close>

definition exit_stop_step :: "nat \<Rightarrow> ('f, 'p) pool \<Rightarrow> ('f, 'p) pool option" where
  "exit_stop_step i s =
     (case nodes s of
        None \<Rightarrow> None
      | Some ns \<Rightarrow> Some (if i < length ns
          then s\<lparr>nodes := Some (ns[i := (ns ! i)\<lparr>stop_flag := WORK_THREAD_STOP_YES\<rparr>]), owner := StopNode (i + 1)\<rparr>
          else s\<lparr>owner := WaitNode 0\<rparr>))"

definition exit_wait_step :: "nat \<Rightarrow> ('f, 'p) pool \<Rightarrow> ('f, 'p) pool option" where
  "exit_wait_step i s =
     (case nodes s of
        None \<Rightarrow> None
      | Some ns \<Rightarrow> Some (if i < length ns
          then (if status (ns ! i) = WORK_THREAD_EXIT_NOT then s else s\<lparr>owner := WaitNode (i + 1)\<rparr>)
          else s\<lparr>nodes := None, owner := Nobody, last_ret := 0\<rparr>))"

text \<open>
  One step of worker \<open>t\<close>. Touching a node that has been released is \<open>None\<close>.
\<close>

definition worker_step :: "nat \<Rightarrow> ('f, 'p) pool \<Rightarrow> ('f, 'p) pool option" where
  "worker_step t s =
     (let i = fst (workers s ! t); move = (\<lambda>pc s. s\<lparr>workers := (workers s)[t := (i, pc)]\<rparr>) in
      case nodes s of
        None \<Rightarrow> None
      | Some ns \<Rightarrow>
        if length ns \<le> i then None
        else let n = ns ! i in
          Some (case snd (workers s ! t) of
            ReadStop \<Rightarrow> move (if stop_flag n = WORK_THREAD_STOP_NOT then ReadWork else ResetNode) s
          | ReadWork \<Rightarrow> move (if work_flag n = WORK_THREAD_WORK_YES then CallWork else ReadStop) s
          | CallWork \<Rightarrow> move ClearWork (s\<lparr>taken := node_work n # taken s,
                called := (case thread_handle n of None \<Rightarrow> called s
                           | Some f \<Rightarrow> (f, handle_params n) # called s)\<rparr>)
          | ClearWork \<Rightarrow> move ReadStop (s\<lparr>nodes := Some (ns[i := n\<lparr>work_flag := WORK_THREAD_WORK_NOT\<rparr>])\<rparr>)
          | ResetNode \<Rightarrow> s\<lparr>nodes := Some (ns[i := set_zero_work_thread_params n]),
                workers := take t (workers s) @ drop (Suc t) (workers s),
                dropped := (if work_flag n = WORK_THREAD_WORK_YES then node_work n # dropped s else dropped s)\<rparr>))"

section \<open>Steps of the running pool\<close>

inductive pool_step :: "('f, 'p) pool \<Rightarrow> ('f, 'p) pool \<Rightarrow> bool" where
  begin_add: "owner s = Nobody \<Longrightarrow> pool_step s (s\<lparr>owner := AddWork 0 w\<rparr>)"
| add: "owner s = AddWork i w \<Longrightarrow> add_work_step created i w s = Some s' \<Longrightarrow> pool_step s s'"
| begin_exit: "owner s = Nobody \<Longrightarrow> pool_step s (s\<lparr>owner := StopNode 0\<rparr>)"
| stop: "owner s = StopNode i \<Longrightarrow> exit_stop_step i s = Some s' \<Longrightarrow> pool_step s s'"
| wait: "owner s = WaitNode i \<Longrightarrow> exit_wait_step i s = Some s' \<Longrightarrow> pool_step s s'"
| worker: "t < length (workers s) \<Longrightarrow> worker_step t s = Some s' \<Longrightarrow> pool_step s s'"

abbreviation pool_steps :: "('f, 'p) pool \<Rightarrow> ('f, 'p) pool \<Rightarrow> bool" where
  "pool_steps \<equiv> pool_step\<^sup>*\<^sup>*"

definition fresh_pool :: "('f, 'p) pool" where
  "fresh_pool = init_thread_pool \<lparr>nodes = None, workers = [], owner = Nobody, accepted = [], taken = [],
     dropped = [], called = [], last_ret = 0\<rparr>"

section \<open>Invariant\<close>

definition at_node :: "(nat \<times> worker_pc) list \<Rightarrow> nat \<Rightarrow> (nat \<times> worker_pc) list" where
  "at_node ws i = filter (\<lambda>w. fst w = i) ws"

definition flags_typed :: "('f, 'p) work_thread_params \<Rightarrow> bool" where
  "flags_typed n \<longleftrightarrow> stop_flag n \<in> {WORK_THREAD_STOP_NOT, WORK_THREAD_STOP_YES} \<and>
     work_flag n \<in> {WORK_THREAD_WORK_NOT, WORK_THREAD_WORK_YES} \<and>
     status n \<in> {WORK_THREAD_EXIT_NOT, WORK_THREAD_EXIT_YES}"

text \<open>
  A node whose status says that its thread has not exited has exactly one worker, and one that
  says it has exited has none and no work. A worker that is about to call or has called a work finds the work flag
  set, and one that is about to reset its node has been told to stop.
\<close>

definition node_inv :: "nat \<Rightarrow> ('f, 'p) work_thread_params \<Rightarrow> (nat \<times> worker_pc) list \<Rightarrow> bool" where
  "node_inv i n ws \<longleftrightarrow> flags_typed n \<and>
     (if status n = WORK_THREAD_EXIT_NOT
      then (\<exists>pc. ws = [(i, pc)] \<and> (pc \<in> {CallWork, ClearWork} \<longrightarrow> work_flag n = WORK_THREAD_WORK_YES) \<and>
              (pc = ResetNode \<longrightarrow> stop_flag n = WORK_THREAD_STOP_YES))
      else ws = [] \<and> work_flag n = WORK_THREAD_WORK_NOT)"

definition pend :: "('f, 'p) work_thread_params \<Rightarrow> (nat \<times> worker_pc) list \<Rightarrow> ('f, 'p) work multiset" where
  "pend n ws = (if work_flag n = WORK_THREAD_WORK_YES \<and> (\<forall>w \<in> set ws. snd w \<noteq> ClearWork) then {#node_work n#} else {#})"

definition pending :: "('f, 'p) work_thread_params list \<Rightarrow> (nat \<times> worker_pc) list \<Rightarrow> ('f, 'p) work multiset" where
  "pending ns ws = (\<Sum>i<length ns. pend (ns ! i) (at_node ws i))"

definition balanced :: "('f, 'p) work_thread_params list \<Rightarrow> ('f, 'p) pool \<Rightarrow> bool" where
  "balanced ns s \<longleftrightarrow> mset (accepted s) = mset (taken s) + mset (dropped s) + pending ns (workers s)"

fun owner_ok :: "('f, 'p) owner \<Rightarrow> ('f, 'p) work_thread_params list \<Rightarrow> ('f, 'p) work list \<Rightarrow> bool" where
  "owner_ok (StopNode k) ns d = True"
| "owner_ok (WaitNode k) ns d = (\<forall>i<length ns. i < k \<longrightarrow> status (ns ! i) = WORK_THREAD_EXIT_YES)"
| "owner_ok _ ns d = ((\<forall>n \<in> set ns. stop_flag n = WORK_THREAD_STOP_NOT) \<and> d = [])"

definition pool_inv :: "('f, 'p) pool \<Rightarrow> bool" where
  "pool_inv s \<longleftrightarrow> called s = List.map_filter (\<lambda>(h, p). map_option (\<lambda>f. (f, p)) h) (taken s) \<and>
     (case nodes s of
        None \<Rightarrow> workers s = [] \<and> balanced [] s
      | Some ns \<Rightarrow> (\<forall>w \<in> set (workers s). fst w < length ns) \<and>
          (\<forall>i<length ns. node_inv i (ns ! i) (at_node (workers s) i)) \<and>
          balanced ns s \<and> owner_ok (owner s) ns (dropped s))"

subsection \<open>Workers at a node\<close>

lemma at_node_append [simp]: "at_node (ws @ vs) i = at_node ws i @ at_node vs i"
  by (simp add: at_node_def)

lemma at_node_simps [simp]: "at_node [] i = []" "at_node (w # ws) i = (if fst w = i then w # at_node ws i else at_node ws i)"
  by (simp_all add: at_node_def)

lemma at_node_split:
  assumes "t < length ws"
  shows "at_node ws i = at_node (take t ws) i @ at_node [ws ! t] i @ at_node (drop (Suc t) ws) i"
  by (subst id_take_nth_drop[OF assms]) simp

lemma at_node_upd:
  assumes "t < length ws" "fst (ws ! t) = i"
  shows "j \<noteq> i \<Longrightarrow> at_node (ws[t := (i, pc)]) j = at_node ws j"
    and "at_node ws i = [(i, pc0)] \<Longrightarrow> ws ! t = (i, pc0) \<and> at_node (ws[t := (i, pc)]) i = [(i, pc)]"
  using assms by (auto simp: upd_conv_take_nth_drop at_node_split[OF assms(1)] append_eq_Cons_conv split: if_splits)

lemma at_node_del:
  assumes "t < length ws" "fst (ws ! t) = i"
  shows "j \<noteq> i \<Longrightarrow> at_node (take t ws @ drop (Suc t) ws) j = at_node ws j"
    and "at_node ws i = [(i, pc0)] \<Longrightarrow> at_node (take t ws @ drop (Suc t) ws) i = []"
  using assms by (auto simp: at_node_split[OF assms(1)] append_eq_Cons_conv split: if_splits)

lemma at_node_mem: "t < length ws \<Longrightarrow> ws ! t \<in> set (at_node ws (fst (ws ! t)))"
  by (simp add: at_node_def)

subsection \<open>A step that changes one node\<close>

lemma pending_upd:
  assumes "i < length ns" "\<And>j. j \<noteq> i \<Longrightarrow> at_node ws' j = at_node ws j"
  shows "pending ns ws + pend n' (at_node ws' i) = pending (ns[i := n']) ws' + pend (ns ! i) (at_node ws i)"
proof -
  have "(\<Sum>j \<in> {..<length ns} - {i}. pend (ns[i := n'] ! j) (at_node ws' j)) =
        (\<Sum>j \<in> {..<length ns} - {i}. pend (ns ! j) (at_node ws j))"
    using assms(2) by (intro sum.cong) auto
  then show ?thesis
    using assms(1) by (simp add: pending_def sum.remove[of "{..<length ns}" i])
qed

lemma local_step:
  assumes "pool_inv s" "nodes s = Some ns" "i < length ns"
    and "nodes s' = Some (ns[i := n'])"
    and "\<And>j. j \<noteq> i \<Longrightarrow> at_node (workers s') j = at_node (workers s) j"
    and "\<forall>w \<in> set (workers s'). fst w < length ns"
    and "node_inv i n' (at_node (workers s') i)"
    and "owner_ok (owner s') (ns[i := n']) (dropped s')"
    and "called s' = List.map_filter (\<lambda>(h, p). map_option (\<lambda>f. (f, p)) h) (taken s')"
    and delta: "mset (accepted s') + pend (ns ! i) (at_node (workers s) i) + mset (taken s) + mset (dropped s) =
       mset (accepted s) + pend n' (at_node (workers s') i) + mset (taken s') + mset (dropped s')"
  shows "pool_inv s'"
proof -
  let ?old = "pend (ns ! i) (at_node (workers s) i)" and ?new = "pend n' (at_node (workers s') i)"
  have "balanced ns s" using assms(1,2) by (simp add: pool_inv_def)
  then have b: "mset (accepted s) = mset (taken s) + mset (dropped s) + pending ns (workers s)"
    by (simp add: balanced_def)
  have p: "pending ns (workers s) + ?new = pending (ns[i := n']) (workers s') + ?old"
    by (rule pending_upd[OF assms(3,5)])
  have "(mset (taken s) + mset (dropped s) + ?old) + mset (accepted s') =
        (mset (taken s) + mset (dropped s) + ?old) +
          (mset (taken s') + mset (dropped s') + pending (ns[i := n']) (workers s'))"
    using delta p unfolding b by (simp add: ac_simps)
  then have "balanced (ns[i := n']) s'" by (simp add: balanced_def)
  moreover have "\<forall>j<length ns. node_inv j (ns[i := n'] ! j) (at_node (workers s') j)"
    using assms(1,2,3,5,7) by (auto simp: pool_inv_def nth_list_update)
  ultimately show ?thesis using assms(4,6,8,9) by (simp add: pool_inv_def)
qed

lemma worker_at:
  assumes "pool_inv s" "nodes s = Some ns" "t < length (workers s)" "workers s ! t = (i, pc)"
  shows "i < length ns" "status (ns ! i) = WORK_THREAD_EXIT_NOT" "at_node (workers s) i = [(i, pc)]"
    and "flags_typed (ns ! i)" "pc \<in> {CallWork, ClearWork} \<longrightarrow> work_flag (ns ! i) = WORK_THREAD_WORK_YES"
    and "pc = ResetNode \<longrightarrow> stop_flag (ns ! i) = WORK_THREAD_STOP_YES"
proof -
  have "workers s ! t \<in> set (workers s)" using assms(3) by simp
  then show i: "i < length ns" using assms by (auto simp: pool_inv_def)
  have inv: "node_inv i (ns ! i) (at_node (workers s) i)" using assms(1,2) i by (simp add: pool_inv_def)
  have m: "(i, pc) \<in> set (at_node (workers s) i)" using at_node_mem[OF assms(3)] assms(4) by simp
  then show st: "status (ns ! i) = WORK_THREAD_EXIT_NOT" using inv by (auto simp: node_inv_def split: if_splits)
  show "at_node (workers s) i = [(i, pc)]" "flags_typed (ns ! i)"
    and "pc \<in> {CallWork, ClearWork} \<longrightarrow> work_flag (ns ! i) = WORK_THREAD_WORK_YES"
    and "pc = ResetNode \<longrightarrow> stop_flag (ns ! i) = WORK_THREAD_STOP_YES"
    using inv m st by (auto simp: node_inv_def)
qed

lemma owner_ok_upd:
  assumes "owner_ok ow ns d" "i < length ns"
    and "stop_flag n' = stop_flag (ns ! i) \<or> stop_flag n' = WORK_THREAD_STOP_NOT"
    and "status n' = status (ns ! i) \<or> status n' = WORK_THREAD_EXIT_YES"
  shows "owner_ok ow (ns[i := n']) d"
  using assms by (cases ow) (auto simp: nth_list_update dest!: set_update_subset_insert[THEN subsetD])

lemma worker_step_inv:
  assumes "pool_inv s" "t < length (workers s)" "worker_step t s = Some s'"
  shows "pool_inv s'"
proof -
  obtain i pc where w: "workers s ! t = (i, pc)" by fastforce
  obtain ns where ns: "nodes s = Some ns"
    using assms(3) by (auto simp: worker_step_def Let_def split: option.splits)
  note at = worker_at[OF assms(1) ns assms(2) w]
  note up = at_node_upd[OF assms(2), of i, unfolded w fst_conv, OF refl]
  note del = at_node_del[OF assms(2), of i, unfolded w fst_conv, OF refl]
  have bd: "\<forall>w \<in> set (workers s). fst w < length ns" and ow: "owner_ok (owner s) ns (dropped s)"
    and cl: "called s = List.map_filter (\<lambda>(h, p). map_option (\<lambda>f. (f, p)) h) (taken s)"
    using assms(1) ns by (auto simp: pool_inv_def)
  have bd': "(a, b) \<in> set ((workers s)[t := (i, pc')]) \<Longrightarrow> a < length ns" for a b pc'
    using bd at(1) set_update_subset_insert[of "workers s" t "(i, pc')"] by fastforce
  have bd'': "(a, b) \<in> set (take t (workers s)) \<union> set (drop (Suc t) (workers s)) \<Longrightarrow> a < length ns" for a b
    using bd by (fastforce dest: in_set_takeD in_set_dropD)
  have nle: "\<not> length ns \<le> i" using at(1) by simp
  note step = assms(3)[unfolded worker_step_def Let_def w fst_conv snd_conv ns option.case if_not_P[OF nle]]
  let ?n = "ns ! i"
  show ?thesis
  proof (cases pc)
    case ReadStop
    then show ?thesis
      by (intro local_step[OF assms(1) ns at(1), of s' ?n])
        (use ns step up at bd' ow cl in \<open>auto simp: node_inv_def pend_def flags_typed_def\<close>)
  next
    case ReadWork
    then show ?thesis
      by (intro local_step[OF assms(1) ns at(1), of s' ?n])
        (use ns step up at bd' ow cl in \<open>auto simp: node_inv_def pend_def flags_typed_def\<close>)
  next
    case CallWork
    then show ?thesis
      by (intro local_step[OF assms(1) ns at(1), of s' ?n])
        (use ns step up at bd' ow cl in \<open>auto simp: node_inv_def pend_def flags_typed_def node_work_def
            map_filter_simps split: option.splits\<close>)
  next
    case ClearWork
    then show ?thesis
      by (intro local_step[OF assms(1) ns at(1), of s' "?n\<lparr>work_flag := WORK_THREAD_WORK_NOT\<rparr>"])
        (use ns step up at bd' cl owner_ok_upd[OF ow at(1)] in \<open>auto simp: node_inv_def pend_def flags_typed_def\<close>)
  next
    case ResetNode
    have o: "owner_ok (owner s) (ns[i := set_zero_work_thread_params ?n]) d" for d
      using ow at(1,6) ResetNode nth_mem[OF at(1)]
      by (cases "owner s") (auto simp: nth_list_update set_zero_work_thread_params_def)
    show ?thesis
      by (intro local_step[OF assms(1) ns at(1), of s' "set_zero_work_thread_params ?n"])
        (use ns step del at bd'' cl o ResetNode in \<open>auto simp: node_inv_def pend_def flags_typed_def
           set_zero_work_thread_params_def\<close>)
  qed
qed

lemma exited_node:
  assumes "pool_inv s" "nodes s = Some ns" "i < length ns" "status (ns ! i) = WORK_THREAD_EXIT_YES"
  shows "at_node (workers s) i = []" "work_flag (ns ! i) = WORK_THREAD_WORK_NOT" "flags_typed (ns ! i)"
  using assms by (auto simp: pool_inv_def node_inv_def)

lemma start_worker_inv:
  assumes "pool_inv s" "nodes s = Some ns" "i < length ns" "status (ns ! i) = WORK_THREAD_EXIT_YES"
    and "owner s = AddWork k w"
  shows "pool_inv (start_worker created i w ns s)"
proof (cases created)
  case True
  let ?n = "give_work w ((ns ! i)\<lparr>status := WORK_THREAD_EXIT_NOT\<rparr>)"
  have o: "owner_ok Nobody (ns[i := ?n]) (dropped s)"
    using assms set_update_subset_insert[of ns i ?n] by (auto simp: pool_inv_def give_work_def)
  show ?thesis
    by (rule local_step[OF assms(1-3), of _ ?n])
      (use True assms exited_node[OF assms(1-4)] o in \<open>auto simp: start_worker_def pool_inv_def node_inv_def
         flags_typed_def give_work_def pend_def node_work_def\<close>)
next
  case False
  then show ?thesis using assms by (auto simp: start_worker_def pool_inv_def balanced_def)
qed

lemma start_worker_nodes: "start_worker created i w ns (s\<lparr>nodes := m\<rparr>) = start_worker created i w ns s"
  by (simp add: start_worker_def)

lemma add_work_visit_inv:
  assumes "pool_inv s" "nodes s = Some ns" "i < length ns" "owner s = AddWork k w"
  shows "pool_inv (add_work_visit created i w ns s)"
proof -
  let ?n = "ns ! i"
  have ow: "owner_ok (AddWork k w) ns (dropped s)" and inv: "node_inv i ?n (at_node (workers s) i)"
    using assms by (auto simp: pool_inv_def)
  consider "status ?n = WORK_THREAD_EXIT_YES"
    | "status ?n \<noteq> WORK_THREAD_EXIT_YES" "work_flag ?n = WORK_THREAD_WORK_NOT"
    | "status ?n \<noteq> WORK_THREAD_EXIT_YES" "work_flag ?n \<noteq> WORK_THREAD_WORK_NOT" by blast
  then show ?thesis
  proof cases
    case 1
    let ?z = "set_zero_work_thread_params ?n"
    have "owner_ok (AddWork k w) (ns[i := ?z]) (dropped s)"
      by (rule owner_ok_upd[OF ow assms(3)]) (auto simp: set_zero_work_thread_params_def)
    then have "pool_inv (s\<lparr>nodes := Some (ns[i := ?z])\<rparr>)"
      by (intro local_step[OF assms(1-3), of _ ?z])
        (use assms exited_node[OF assms(1-3) 1] in \<open>auto simp: pool_inv_def node_inv_def
           flags_typed_def set_zero_work_thread_params_def pend_def\<close>)
    then have "pool_inv (start_worker created i w (ns[i := ?z]) (s\<lparr>nodes := Some (ns[i := ?z])\<rparr>))"
      by (rule start_worker_inv) (use assms in \<open>auto simp: set_zero_work_thread_params_def\<close>)
    then show ?thesis using 1 by (simp add: add_work_visit_def start_worker_nodes)
  next
    case 2
    have "owner_ok Nobody (ns[i := give_work w ?n]) (dropped s)"
      using ow nth_mem[OF assms(3)] set_update_subset_insert[of ns i "give_work w ?n"] by (auto simp: give_work_def)
    moreover have "status ?n = WORK_THREAD_EXIT_NOT" using inv 2 by (auto simp: node_inv_def flags_typed_def)
    ultimately show ?thesis
      by (intro local_step[OF assms(1-3), of _ "give_work w ?n"])
        (use 2 assms inv in \<open>auto simp: add_work_visit_def pool_inv_def node_inv_def flags_typed_def give_work_def
           pend_def node_work_def\<close>)
  next
    case 3
    then show ?thesis using assms by (auto simp: add_work_visit_def pool_inv_def balanced_def)
  qed
qed

lemma add_work_grow_inv:
  assumes "pool_inv s" "nodes s = Some ns" "owner s = AddWork k w"
  shows "pool_inv (add_work_grow created w ns s)"
proof -
  let ?ns = "ns @ [set_zero_work_thread_params zero_node]"
  have none: "at_node (workers s) (length ns) = []"
    using assms(1,2) by (auto simp: pool_inv_def at_node_def filter_empty_conv)
  have "pending ?ns (workers s) = pending ns (workers s)"
    by (simp add: pending_def nth_append none)
      (auto simp: pend_def zero_node_def set_zero_work_thread_params_def intro!: sum.cong)
  moreover have "node_inv i (?ns ! i) (at_node (workers s) i)" if "i < length ?ns" for i
  proof (cases "i = length ns")
    case True
    then show ?thesis
      using none by (simp add: node_inv_def flags_typed_def zero_node_def set_zero_work_thread_params_def)
  next
    case False
    then show ?thesis using that assms(1,2) by (simp add: pool_inv_def nth_append)
  qed
  ultimately have "pool_inv (s\<lparr>nodes := Some ?ns\<rparr>)"
    using assms by (fastforce simp: pool_inv_def balanced_def zero_node_def set_zero_work_thread_params_def)
  then have "pool_inv (start_worker created (length ns) w ?ns (s\<lparr>nodes := Some ?ns\<rparr>))"
    by (rule start_worker_inv) (use assms in \<open>auto simp: set_zero_work_thread_params_def\<close>)
  then show ?thesis by (simp add: add_work_grow_def start_worker_nodes)
qed

lemma add_work_step_inv:
  assumes "pool_inv s" "owner s = AddWork i w" "add_work_step created i w s = Some s'"
  shows "pool_inv s'"
  using assms add_work_visit_inv[OF assms(1)] add_work_grow_inv[OF assms(1)]
  by (auto simp: add_work_step_def split: option.splits if_splits)

lemma exit_stop_step_inv:
  assumes "pool_inv s" "owner s = StopNode i" "exit_stop_step i s = Some s'"
  shows "pool_inv s'"
proof -
  obtain ns where ns: "nodes s = Some ns" using assms(3) by (auto simp: exit_stop_step_def split: option.splits)
  show ?thesis
  proof (cases "i < length ns")
    case True
    have inv: "node_inv i (ns ! i) (at_node (workers s) i)" using assms(1) ns True by (simp add: pool_inv_def)
    show ?thesis
      by (rule local_step[OF assms(1) ns True, of _ "(ns ! i)\<lparr>stop_flag := WORK_THREAD_STOP_YES\<rparr>"])
        (use ns True assms inv in \<open>auto simp: exit_stop_step_def pool_inv_def node_inv_def flags_typed_def
           pend_def node_work_def\<close>)
  next
    case False
    then show ?thesis using assms ns by (auto simp: exit_stop_step_def pool_inv_def balanced_def)
  qed
qed

lemma exit_wait_step_inv:
  assumes "pool_inv s" "owner s = WaitNode i" "exit_wait_step i s = Some s'"
  shows "pool_inv s'"
proof -
  obtain ns where ns: "nodes s = Some ns" using assms(3) by (auto simp: exit_wait_step_def split: option.splits)
  show ?thesis
  proof (cases "i < length ns")
    case True
    then have "status (ns ! i) \<noteq> WORK_THREAD_EXIT_NOT \<longrightarrow> status (ns ! i) = WORK_THREAD_EXIT_YES"
      using assms(1) ns by (auto simp: pool_inv_def node_inv_def flags_typed_def)
    then show ?thesis using assms ns True
      by (auto simp: exit_wait_step_def pool_inv_def balanced_def less_Suc_eq split: if_splits)
  next
    case False
    have ex: "status (ns ! j) = WORK_THREAD_EXIT_YES" if "j < length ns" for j
      using that False assms(1,2) ns by (simp add: pool_inv_def)
    note gone = exited_node[OF assms(1) ns _ ex]
    have "workers s = []"
    proof (rule ccontr)
      assume "workers s \<noteq> []"
      then have "0 < length (workers s)" by simp
      from worker_at[OF assms(1) ns this, of "fst (workers s ! 0)" "snd (workers s ! 0)"] show False
        using ex by simp
    qed
    moreover have "pending ns (workers s) = {#}" using gone by (simp add: pending_def pend_def)
    ultimately show ?thesis using assms ns False
      by (auto simp: exit_wait_step_def pool_inv_def balanced_def pending_def)
  qed
qed

lemma pool_step_inv:
  assumes "pool_step s s'" "pool_inv s"
  shows "pool_inv s'"
  using assms
proof (cases rule: pool_step.cases)
  case (begin_add w)
  then show ?thesis using assms(2) by (auto simp: pool_inv_def balanced_def split: option.splits)
next
  case begin_exit
  then show ?thesis using assms(2) by (auto simp: pool_inv_def balanced_def split: option.splits)
qed (use assms(2) add_work_step_inv exit_stop_step_inv exit_wait_step_inv worker_step_inv in blast)+

lemma fresh_pool_inv: "pool_inv fresh_pool"
  by (auto simp: fresh_pool_def init_thread_pool_def pool_inv_def balanced_def pending_def pend_def node_inv_def
     flags_typed_def zero_node_def set_zero_work_thread_params_def map_filter_simps)

interpretation pool: invariant_system pool_step "\<lambda>s. s = fresh_pool" pool_inv
  by unfold_locales (auto intro: fresh_pool_inv pool_step_inv)

lemmas pool_steps_inv = pool.reachable_safe[OF refl]

lemma owner_not_exiting:
  "pool_inv s \<Longrightarrow> nodes s = Some ns \<Longrightarrow> \<forall>k. owner s \<noteq> StopNode k \<and> owner s \<noteq> WaitNode k \<Longrightarrow>
   dropped s = [] \<and> (\<forall>n \<in> set ns. stop_flag n = WORK_THREAD_STOP_NOT)"
  by (cases "owner s") (auto simp: pool_inv_def)

section \<open>Schedules\<close>

text \<open>An interleaving written out: which thread takes the next step, and what \<open>pthread_create\<close> answers.\<close>

datatype ('f, 'p) move = BeginAdd "('f, 'p) work" | Add bool | BeginExit | Exit | Worker nat

fun pool_move :: "('f, 'p) move \<Rightarrow> ('f, 'p) pool \<Rightarrow> ('f, 'p) pool option" where
  "pool_move (BeginAdd w) s = (case owner s of Nobody \<Rightarrow> Some (s\<lparr>owner := AddWork 0 w\<rparr>) | _ \<Rightarrow> None)"
| "pool_move (Add created) s = (case owner s of AddWork i w \<Rightarrow> add_work_step created i w s | _ \<Rightarrow> None)"
| "pool_move BeginExit s = (case owner s of Nobody \<Rightarrow> Some (s\<lparr>owner := StopNode 0\<rparr>) | _ \<Rightarrow> None)"
| "pool_move Exit s = (case owner s of StopNode i \<Rightarrow> exit_stop_step i s | WaitNode i \<Rightarrow> exit_wait_step i s | _ \<Rightarrow> None)"
| "pool_move (Worker t) s = (if t < length (workers s) then worker_step t s else None)"

fun schedule :: "('f, 'p) move list \<Rightarrow> ('f, 'p) pool \<Rightarrow> ('f, 'p) pool option" where
  "schedule [] s = Some s"
| "schedule (m # ms) s = Option.bind (pool_move m s) (schedule ms)"

lemma pool_move_step: "pool_move m s = Some s' \<Longrightarrow> pool_step s s'"
  by (cases m) (auto split: owner.splits if_splits intro: pool_step.intros)

lemma schedule_steps: "schedule ms s = Some s' \<Longrightarrow> pool_steps s s'"
  by (induction ms arbitrary: s)
    (auto simp: bind_eq_Some_conv intro: converse_rtranclp_into_rtranclp dest: pool_move_step)

lemma distinct_workers:
  assumes "\<And>i. length (at_node ws i) \<le> 1"
  shows "distinct (map fst ws)"
  using assms
proof (induction ws)
  case (Cons w ws)
  have "length (at_node ws i) \<le> 1" for i using Cons.prems[of i] by (simp split: if_splits)
  moreover have "at_node ws (fst w) = []" using Cons.prems[of "fst w"] by simp
  ultimately show ?case using Cons.IH by (auto simp: at_node_def filter_empty_conv)
qed simp

lemma inv_workers_distinct:
  assumes "pool_inv s"
  shows "distinct (map fst (workers s))"
proof (rule distinct_workers)
  fix i
  show "length (at_node (workers s) i) \<le> 1"
  proof (cases "at_node (workers s) i")
    case (Cons w ws)
    then have "w \<in> set (workers s)" "fst w = i" by (auto simp: at_node_def filter_eq_Cons_iff)
    then show ?thesis
      using assms by (fastforce simp: pool_inv_def node_inv_def split: option.splits if_splits)
  qed simp
qed

section \<open>Properties\<close>

text \<open>
  C6. Under every interleaving of workers, \<open>add_work\<close> and \<open>exit_thread_pool\<close>, each accepted work is in exactly
  one place: taken up by one worker, once; still pending in one node; or dropped. The work
  functions called are those of the works taken up, and nothing is dropped before
  \<open>exit_thread_pool\<close> starts.
\<close>

theorem pool_works_accounted:
  assumes "pool_steps fresh_pool s"
  shows "mset (accepted s) = mset (taken s) + mset (dropped s) +
           (case nodes s of None \<Rightarrow> {#} | Some ns \<Rightarrow> pending ns (workers s)) \<and>
         called s = List.map_filter (\<lambda>(h, p). map_option (\<lambda>f. (f, p)) h) (taken s) \<and>
         (nodes s \<noteq> None \<and> (\<forall>k. owner s \<noteq> StopNode k \<and> owner s \<noteq> WaitNode k) \<longrightarrow> dropped s = [])"
  using pool_steps_inv[OF assms] owner_not_exiting[OF pool_steps_inv[OF assms]]
  by (auto simp: pool_inv_def balanced_def pending_def split: option.splits)

text \<open>One work handed to a new worker, which runs it and goes on to look for the next.\<close>

definition demo_pool :: "(nat, nat) pool" where
  "demo_pool = the (schedule [BeginAdd (Some 7, Some 1), Add True, Worker 0, Worker 0, Worker 0, Worker 0] fresh_pool)"

lemmas pool_defs = fresh_pool_def init_thread_pool_def zero_node_def set_zero_work_thread_params_def
  add_work_step_def add_work_visit_def add_work_grow_def start_worker_def give_work_def worker_step_def
  node_work_def exit_stop_step_def exit_wait_step_def Let_def numeral_eq_Suc

lemma demo_pool_reached: "pool_steps fresh_pool demo_pool"
  by (rule schedule_steps[of "[BeginAdd (Some 7, Some 1), Add True, Worker 0, Worker 0, Worker 0, Worker 0]"])
    (simp add: demo_pool_def pool_defs)

theorem pool_works_accounted_witness:
  "pool_steps fresh_pool demo_pool \<and>
   mset (accepted demo_pool) = mset (taken demo_pool) + mset (dropped demo_pool) +
     (case nodes demo_pool of None \<Rightarrow> {#} | Some ns \<Rightarrow> pending ns (workers demo_pool)) \<and>
   called demo_pool = List.map_filter (\<lambda>(h, p). map_option (\<lambda>f. (f, p)) h) (taken demo_pool) \<and>
   accepted demo_pool = [(Some 7, Some 1)] \<and> called demo_pool = [(7, Some 1)] \<and> dropped demo_pool = []"
  using pool_works_accounted[OF demo_pool_reached] demo_pool_reached
  by (simp add: demo_pool_def pool_defs)

text \<open>
  C37. No worker ever touches a released node: in every reachable state the next step of every worker is
  defined, no two workers share a node, and when \<open>exit_thread_pool\<close> has released the list no worker is
  left.
\<close>

theorem pool_no_released_node:
  assumes "pool_steps fresh_pool s"
  shows "(\<forall>t<length (workers s). worker_step t s \<noteq> None) \<and> distinct (map fst (workers s)) \<and>
         (nodes s = None \<longrightarrow> workers s = [])"
proof -
  have inv: "pool_inv s" by (rule pool_steps_inv[OF assms])
  have "worker_step t s \<noteq> None" if lt: "t < length (workers s)" for t
  proof -
    obtain i pc where w: "workers s ! t = (i, pc)" by fastforce
    obtain ns where ns: "nodes s = Some ns"
      using inv lt by (cases "nodes s") (auto simp: pool_inv_def)
    show ?thesis
      using worker_at(1)[OF inv ns lt w] by (simp add: worker_step_def ns w Let_def)
  qed
  then show ?thesis using inv inv_workers_distinct[OF inv] by (auto simp: pool_inv_def split: option.splits)
qed

theorem pool_no_released_node_witness:
  "pool_steps fresh_pool demo_pool \<and> 0 < length (workers demo_pool) \<and> worker_step 0 demo_pool \<noteq> None"
  using pool_no_released_node[OF demo_pool_reached] demo_pool_reached
  by (simp add: demo_pool_def pool_defs)

text \<open>
  C38. The flags of a node keep to their own values: in every reachable state the stop flag, the work flag and
  the status of each node hold one of the two values that belong to them, and the status says that
  the thread has not exited exactly when a worker thread serves the node.
\<close>

theorem pool_flags_typed:
  assumes "pool_steps fresh_pool s" "nodes s = Some ns" "i < length ns"
  shows "flags_typed (ns ! i) \<and> (status (ns ! i) = WORK_THREAD_EXIT_NOT \<longleftrightarrow> i \<in> fst ` set (workers s))"
proof -
  have "node_inv i (ns ! i) (at_node (workers s) i)"
    using pool_steps_inv[OF assms(1)] assms(2,3) by (simp add: pool_inv_def)
  moreover have "i \<in> fst ` set (workers s) \<longleftrightarrow> at_node (workers s) i \<noteq> []"
    by (auto simp: at_node_def filter_empty_conv)
  ultimately show ?thesis unfolding node_inv_def by (metis list.discI)
qed

theorem pool_flags_typed_witness:
  "\<exists>ns. nodes demo_pool = Some ns \<and> 0 < length ns \<and> flags_typed (ns ! 0) \<and>
        (status (ns ! 0) = WORK_THREAD_EXIT_NOT \<longleftrightarrow> 0 \<in> fst ` set (workers demo_pool))"
proof -
  obtain ns where ns: "nodes demo_pool = Some ns" "0 < length ns" by (simp add: demo_pool_def pool_defs)
  show ?thesis using pool_flags_typed[OF demo_pool_reached ns] ns by blast
qed

text \<open>
  A pending work is taken up after at most three steps of the worker of its node, as long as nobody is
  stopping the pool: every worker that is scheduled often enough gets to its work.
\<close>

theorem pending_work_taken:
  assumes "pool_steps fresh_pool s" "nodes s = Some ns" "\<forall>k. owner s \<noteq> StopNode k \<and> owner s \<noteq> WaitNode k"
    and "i < length ns" "w \<in># pend (ns ! i) (at_node (workers s) i)"
  shows "\<exists>t m s'. m \<le> 3 \<and> schedule (replicate m (Worker t)) s = Some s' \<and> taken s' = w # taken s"
proof -
  have inv: "pool_inv s" by (rule pool_steps_inv[OF assms(1)])
  have w: "w = node_work (ns ! i)" "work_flag (ns ! i) = WORK_THREAD_WORK_YES"
      "\<forall>v \<in> set (at_node (workers s) i). snd v \<noteq> ClearWork"
    using assms(5) by (auto simp: pend_def split: if_splits)
  have stop: "stop_flag (ns ! i) = WORK_THREAD_STOP_NOT"
    using owner_not_exiting[OF inv assms(2,3)] assms(4) by auto
  obtain pc where at: "at_node (workers s) i = [(i, pc)]"
    using inv assms(2,4) w(2) by (auto simp: pool_inv_def node_inv_def split: if_splits)
  then have "(i, pc) \<in> set (workers s)" by (metis at_node_def filter_is_subset list.set_intros(1) subset_iff)
  then obtain t where t: "t < length (workers s)" "workers s ! t = (i, pc)" by (auto simp: in_set_conv_nth)
  have "pc \<noteq> ResetNode" "pc \<noteq> ClearWork" using worker_at(6)[OF inv assms(2) t] stop w(3) at by auto
  then consider "pc = ReadStop" | "pc = ReadWork" | "pc = CallWork" by (cases pc) auto
  then have "\<exists>m s'. m \<le> 3 \<and> schedule (replicate m (Worker t)) s = Some s' \<and> taken s' = w # taken s"
  proof cases
    case 1
    then show ?thesis using t assms(2,4) w stop
      by (intro exI[of _ 3] exI) (auto simp: numeral_eq_Suc worker_step_def Let_def)
  next
    case 2
    then show ?thesis using t assms(2,4) w
      by (intro exI[of _ 2] exI) (auto simp: numeral_eq_Suc worker_step_def Let_def)
  next
    case 3
    then show ?thesis using t assms(2,4) w
      by (intro exI[of _ 1] exI) (auto simp: numeral_eq_Suc worker_step_def Let_def)
  qed
  then show ?thesis by blast
qed

text \<open>The same pool before its worker has looked at the work.\<close>

definition waiting_pool :: "(nat, nat) pool" where
  "waiting_pool = the (schedule [BeginAdd (Some 7, Some 1), Add True] fresh_pool)"

lemma waiting_pool_reached: "pool_steps fresh_pool waiting_pool"
  by (rule schedule_steps[of "[BeginAdd (Some 7, Some 1), Add True]"])
    (simp add: waiting_pool_def pool_defs)

theorem pending_work_taken_witness:
  "\<exists>t m s'. m \<le> 3 \<and> schedule (replicate m (Worker t)) waiting_pool = Some s' \<and>
     taken s' = (Some 7, Some 1) # taken waiting_pool"
proof -
  obtain ns where ns: "nodes waiting_pool = Some ns" "0 < length ns"
      "(Some 7, Some 1) \<in># pend (ns ! 0) (at_node (workers waiting_pool) 0)"
    by (simp add: waiting_pool_def pool_defs pend_def)
  have "\<forall>k. owner waiting_pool \<noteq> StopNode k \<and> owner waiting_pool \<noteq> WaitNode k"
    by (simp add: waiting_pool_def pool_defs)
  from pending_work_taken[OF waiting_pool_reached ns(1) this ns(2,3)] show ?thesis .
qed

text \<open>
  \<open>exit_thread_pool\<close> gives no warning of unfinished work, and the pool cannot be used after it: there is
  an interleaving in which \<open>add_work\<close> has reported success, the work function is never called and the work is
  dropped; and once the list is released, the next \<open>add_work\<close> follows a null pointer.
\<close>

theorem exit_drops_accepted_work:
  "(\<exists>s :: (nat, nat) pool. pool_steps fresh_pool s \<and> accepted s = [(Some 7, Some 1)] \<and>
      dropped s = [(Some 7, Some 1)] \<and> called s = [] \<and> nodes s = None) \<and>
   (nodes s' = None \<longrightarrow> add_work_step created i w s' = None)"
proof -
  let ?run = "[BeginAdd (Some 7, Some 1), Add True, BeginExit, Exit, Worker 0, Worker 0] @ replicate 13 Exit"
  obtain s :: "(nat, nat) pool" where s: "schedule ?run fresh_pool = Some s" "accepted s = [(Some 7, Some 1)]"
      "dropped s = [(Some 7, Some 1)]" "called s = []" "nodes s = None"
    by (simp add: pool_defs)
  show ?thesis using schedule_steps[OF s(1)] s(2-) unfolding add_work_step_def by fastforce
qed

theorem exit_drops_accepted_work_witness:
  "\<exists>s :: (nat, nat) pool. pool_steps fresh_pool s \<and> nodes s = None \<and> add_work_step True 0 (Some 7, None) s = None"
proof -
  obtain s :: "(nat, nat) pool" where s: "pool_steps fresh_pool s" "nodes s = None"
    using exit_drops_accepted_work[of "fresh_pool :: (nat, nat) pool" True 0 "(Some 7, None)"] by blast
  then show ?thesis using exit_drops_accepted_work[of s True 0 "(Some 7, None)"] by blast
qed

end
