(* ===== verification/IspMath.thy ===== *)
theory IspMath
  imports Prelude "HOL-Library.Signed_Division" "HOL-Library.Multiset"
begin

text \<open>
  \<open>isp_math/isp_math_util.c\<close>: the integer routines of the ISP mathematics library. A C \<open>int\<close> is an
  \<open>int\<close> of HOL; an operation whose result leaves the 32-bit range is undefined in C and \<open>None\<close> here.
  An array argument is the list of its elements. The loops are folds over the index range, except the
  shifting loop of the sort, which is a recursion on its index. The routines on \<open>float\<close> and \<open>double\<close>
  (matrices, splines) are not modelled: their results depend on floating-point rounding.
\<close>

section \<open>Integers of C\<close>

definition s32 :: "int \<Rightarrow> int option" where
  "s32 x = (if - (2 ^ 31) \<le> x \<and> x < 2 ^ 31 then Some x else None)"

definition wrap_s32 :: "int \<Rightarrow> int" where
  "wrap_s32 x = (x + 2 ^ 31) mod 2 ^ 32 - 2 ^ 31"

section \<open>Routines\<close>

definition swap_at :: "nat \<Rightarrow> nat \<Rightarrow> 'a list \<Rightarrow> 'a list" where
  "swap_at i j a = a[i := a ! j, j := a ! i]"

definition HorizontalMirror :: "'a list \<Rightarrow> 'a list" where
  "HorizontalMirror arr =
     fold (\<lambda>i. fold (\<lambda>j. swap_at (i * 8 + j) (i * 8 + 8 - j - 1)) [0..<4]) [0..<8] arr"

definition VerticalMirror :: "'a list \<Rightarrow> 'a list" where
  "VerticalMirror arr =
     fold (\<lambda>i. fold (\<lambda>j. swap_at (j * 8 + i) ((8 - j - 1) * 8 + i)) [0..<4]) [0..<8] arr"

definition ValueInterp :: "int \<Rightarrow> int \<Rightarrow> int \<Rightarrow> int \<Rightarrow> int \<Rightarrow> int option" where
  "ValueInterp cur x_low x_high y_low y_high =
     Option.bind (s32 (x_high - x_low)) (\<lambda>dx.
       if dx = 0 then Some y_low
       else Option.bind (s32 (y_high - y_low)) (\<lambda>dy.
            Option.bind (s32 (cur - x_low)) (\<lambda>dc.
            Option.bind (s32 (dy * dc)) (\<lambda>p.
            Option.bind (s32 (p sdiv dx)) (\<lambda>q. s32 (y_low + q))))))"

definition Conv :: "int list \<Rightarrow> int list \<Rightarrow> int list \<Rightarrow> int \<Rightarrow> int \<Rightarrow> int list" where
  "Conv u v w m n =
     fold (\<lambda>i. fold (\<lambda>j w. w[nat i := wrap_s32 (w ! nat i + drop_bit 10 (u ! nat j * v ! nat (i - j)))])
                    [max 0 (i + 1 - n)..min i (m - 1)])
          [0..m + n - 1 - 1] w"

definition ArrayFindMinIndex :: "int list \<Rightarrow> nat \<Rightarrow> nat" where
  "ArrayFindMinIndex a num =
     snd (fold (\<lambda>i (tmp, ind). if a ! i < tmp then (a ! i, i) else (tmp, ind)) [0..<num] (a ! 0, 0))"

definition ArrayFindSecondMinIndex :: "int list \<Rightarrow> nat \<Rightarrow> nat \<Rightarrow> nat" where
  "ArrayFindSecondMinIndex a num exclude =
     snd (fold (\<lambda>i (tmp, ind). if a ! i < tmp \<and> i \<noteq> exclude then (a ! i, i) else (tmp, ind)) [0..<num]
            (if exclude = 0 then (a ! (num - 1), num - 1) else (a ! 0, 0)))"

definition ArrayFindMaxIndex :: "int list \<Rightarrow> nat \<Rightarrow> nat" where
  "ArrayFindMaxIndex a num =
     snd (fold (\<lambda>i (tmp, ind). if a ! i > tmp then (a ! i, i) else (tmp, ind)) [0..<num] (a ! 0, 0))"

definition ArrayFindSecondMaxIndex :: "int list \<Rightarrow> nat \<Rightarrow> nat \<Rightarrow> nat" where
  "ArrayFindSecondMaxIndex a num exclude =
     snd (fold (\<lambda>i (tmp, ind). if a ! i > tmp \<and> i \<noteq> exclude then (a ! i, i) else (tmp, ind)) [0..<num]
            (if exclude = 0 then (a ! (num - 1), num - 1) else (a ! 0, 0)))"

text \<open>
  \<open>ShellSort\<close> sorts \<open>a\<close> in descending order and moves \<open>sub\<close> along. \<open>shell_shift\<close> is the inner \<open>while\<close>
  loop and ends with the final value of \<open>j\<close>; the gap \<open>k\<close> is at least 1 whenever the code runs it.
\<close>

function shell_shift :: "nat \<Rightarrow> int \<Rightarrow> int \<Rightarrow> int list \<Rightarrow> 's list \<Rightarrow> int list \<times> 's list \<times> int" where
  "shell_shift k x j a sub =
     (if 1 \<le> k \<and> 0 \<le> j \<and> x > a ! nat j
      then shell_shift k x (j - int k) (a[nat j + k := a ! nat j]) (sub[nat j + k := sub ! nat j])
      else (a, sub, j))"
  by pat_completeness auto
termination by (relation "measure (\<lambda>(k, x, j, a, sub). nat (j + 1))") auto

declare shell_shift.simps [simp del]

definition shell_place :: "nat \<Rightarrow> nat \<Rightarrow> int list \<times> 's list \<Rightarrow> int list \<times> 's list" where
  "shell_place k i st =
     (let a = fst st; sub = snd st; x = a ! i; y = sub ! i;
          (a', sub', j) = shell_shift k x (int i - int k) a sub
      in (a'[nat (j + int k) := x], sub'[nat (j + int k) := y]))"

definition shell_pass :: "nat \<Rightarrow> nat \<Rightarrow> int list \<times> 's list \<Rightarrow> int list \<times> 's list" where
  "shell_pass n k st = fold (shell_place k) [k..<n] st"

fun shell_gaps :: "nat \<Rightarrow> nat \<Rightarrow> int list \<times> 's list \<Rightarrow> int list \<times> 's list" where
  "shell_gaps n k st = (if 1 \<le> k then shell_gaps n (k div 2) (shell_pass n k st) else st)"

declare shell_gaps.simps [simp del]

definition ShellSort :: "int list \<Rightarrow> 's list \<Rightarrow> nat \<Rightarrow> int list \<times> 's list" where
  "ShellSort a sub n = shell_gaps n (n div 2) (a, sub)"

definition ArraySum :: "int list \<Rightarrow> nat \<Rightarrow> int option" where
  "ArraySum a len = fold (\<lambda>i sum. Option.bind sum (\<lambda>s. s32 (s + a ! i))) [0..<len] (Some 0)"

text \<open>
  \<open>SqrtM\<close> mixes \<open>int\<close> and \<open>unsigned int\<close>: the sums and the quotients are unsigned, only \<open>ABS(tmp)\<close> looks at
  a sign. The counter \<open>i\<close> of the loop is the first argument of \<open>sqrt_loop\<close>.
\<close>

primrec sqrt_loop :: "nat \<Rightarrow> u32 \<Rightarrow> u32 \<Rightarrow> u32 \<Rightarrow> u32" where
  "sqrt_loop 0 a tmp x = x"
| "sqrt_loop (Suc i) a tmp x =
     (if \<bar>sint tmp\<bar> > 1 then sqrt_loop i a x ((x + a div x + 1) div 2) else x)"

definition SqrtM :: "u32 \<Rightarrow> u32" where
  "SqrtM a = (if a = 0 then 0 else let x = (a + 1) div 2 in sqrt_loop 100 a (0 - x) x)"

definition RoundQ4 :: "int \<Rightarrow> int" where
  "RoundQ4 x = (if 8 > x AND 15 then drop_bit 4 x else drop_bit 4 x + 1)"

section \<open>Mirrors\<close>

lemma swap_at_map: "i < length a \<Longrightarrow> j < length a \<Longrightarrow> swap_at i j (map f a) = map f (swap_at i j a)"
  by (simp add: swap_at_def map_update)

lemma length_swap_at [simp]: "length (swap_at i j a) = length a"
  by (simp add: swap_at_def)

lemma fold_swaps_map:
  assumes "\<forall>p \<in> set ps. fst p < length a \<and> snd p < length a"
  shows "fold (\<lambda>p. swap_at (fst p) (snd p)) ps (map f a) = map f (fold (\<lambda>p. swap_at (fst p) (snd p)) ps a)"
  using assms
proof (induction ps arbitrary: a)
  case (Cons p ps)
  then show ?case by (simp add: swap_at_map)
qed simp

definition mirror_pairs :: "bool \<Rightarrow> (nat \<times> nat) list" where
  "mirror_pairs h = concat (map (\<lambda>i. map (\<lambda>j. if h then (i * 8 + j, i * 8 + 8 - j - 1)
      else (j * 8 + i, (8 - j - 1) * 8 + i)) [0..<4]) [0..<8])"

lemma mirrors_as_swaps:
  "HorizontalMirror a = fold (\<lambda>p. swap_at (fst p) (snd p)) (mirror_pairs True) a"
  "VerticalMirror a = fold (\<lambda>p. swap_at (fst p) (snd p)) (mirror_pairs False) a"
  by (simp_all add: HorizontalMirror_def VerticalMirror_def mirror_pairs_def upt_rec[of _ 8] upt_rec[of _ 4])

lemma mirror_pairs_bound: "\<forall>p \<in> set (mirror_pairs h). fst p < 64 \<and> snd p < 64"
  by (auto simp: mirror_pairs_def split: if_splits)

lemma mirror_map:
  assumes "length a = 64"
  shows "HorizontalMirror a = map ((!) a) (HorizontalMirror [0..<64])"
    and "VerticalMirror a = map ((!) a) (VerticalMirror [0..<64])"
proof -
  have a: "a = map ((!) a) [0..<64]"
    using assms map_nth[of a] by simp
  have b: "\<forall>p \<in> set (mirror_pairs h). fst p < length [0..<64] \<and> snd p < length [0..<64]" for h
    using mirror_pairs_bound[of h] by simp
  show "HorizontalMirror a = map ((!) a) (HorizontalMirror [0..<64])"
    unfolding mirrors_as_swaps by (subst a) (rule fold_swaps_map[OF b])
  show "VerticalMirror a = map ((!) a) (VerticalMirror [0..<64])"
    unfolding mirrors_as_swaps by (subst a) (rule fold_swaps_map[OF b])
qed

lemma mirror_ids:
  "HorizontalMirror [0..<64] = map (\<lambda>p. p div 8 * 8 + (7 - p mod 8)) [0..<64]"
  "VerticalMirror [0..<64] = map (\<lambda>p. (7 - p div 8) * 8 + p mod 8) [0..<64]"
  by code_simp+

lemma HorizontalMirror_nth:
  assumes "length a = 64" "i < 8" "j < 8"
  shows "HorizontalMirror a ! (i * 8 + j) = a ! (i * 8 + (7 - j))"
proof -
  have "i * 8 + j < 64" using assms by simp
  moreover have "(i * 8 + j) div 8 = i" "(i * 8 + j) mod 8 = j" using assms by simp_all
  ultimately show ?thesis by (simp add: mirror_map(1)[OF assms(1)] mirror_ids)
qed

lemma VerticalMirror_nth:
  assumes "length a = 64" "i < 8" "j < 8"
  shows "VerticalMirror a ! (i * 8 + j) = a ! ((7 - i) * 8 + j)"
proof -
  have "i * 8 + j < 64" using assms by simp
  moreover have "(i * 8 + j) div 8 = i" "(i * 8 + j) mod 8 = j" using assms by simp_all
  ultimately show ?thesis by (simp add: mirror_map(2)[OF assms(1)] mirror_ids)
qed

section \<open>Interpolation\<close>

lemma s32_Some [simp]: "s32 x = Some y \<longleftrightarrow> - (2 ^ 31) \<le> x \<and> x < 2 ^ 31 \<and> y = x"
  by (auto simp: s32_def)

lemma sdiv_between:
  fixes dy dc dx :: int
  assumes "0 < dx" "0 \<le> dc" "dc \<le> dx"
  shows "0 \<le> dy \<Longrightarrow> 0 \<le> (dy * dc) sdiv dx \<and> (dy * dc) sdiv dx \<le> dy"
    and "dy \<le> 0 \<Longrightarrow> dy \<le> (dy * dc) sdiv dx \<and> (dy * dc) sdiv dx \<le> 0"
proof -
  have up: "0 \<le> (e * dc) div dx \<and> (e * dc) div dx \<le> e" if "0 \<le> e" for e
  proof -
    have "e * dc \<le> e * dx" using that assms by (simp add: mult_left_mono)
    then have "(e * dc) div dx \<le> (e * dx) div dx" using assms by (intro zdiv_mono1) auto
    then show ?thesis using that assms by (simp add: pos_imp_zdiv_nonneg_iff)
  qed
  show "0 \<le> (dy * dc) sdiv dx \<and> (dy * dc) sdiv dx \<le> dy" if "0 \<le> dy"
    using up[OF that] that assms by (auto simp: signed_divide_int_def sgn_if abs_mult zero_less_mult_iff)
  show "dy \<le> (dy * dc) sdiv dx \<and> (dy * dc) sdiv dx \<le> 0" if "dy \<le> 0"
    using up[of "- dy"] that assms
    by (auto simp: signed_divide_int_def sgn_if abs_mult zero_less_mult_iff)
qed

section \<open>Smallest and largest elements\<close>

lemma fold_best:
  assumes "transp le" "reflp le" "\<And>x y. le x y \<or> le y x"
    and "\<And>x y. lt x y \<longleftrightarrow> \<not> le y x"
    and "snd t0 \<noteq> ex" "fst t0 = a ! snd t0"
  shows "let t = fold (\<lambda>i (tmp, ind). if lt (a ! i) tmp \<and> i \<noteq> ex then (a ! i, i) else (tmp, ind)) is t0
         in snd t \<in> insert (snd t0) (set is) \<and> snd t \<noteq> ex \<and> fst t = a ! snd t \<and>
            (\<forall>i \<in> insert (snd t0) (set is) - {ex}. le (a ! snd t) (a ! i))"
  using assms(5,6)
proof (induction "is" rule: rev_induct)
  case Nil
  then show ?case using assms(2) by (auto simp: reflp_def)
next
  case (snoc i js)
  let ?f = "\<lambda>i (tmp, ind). if lt (a ! i) tmp \<and> i \<noteq> ex then (a ! i, i) else (tmp, ind)"
  obtain tmp ind where t: "fold ?f js t0 = (tmp, ind)" by fastforce
  have IH: "ind \<in> insert (snd t0) (set js)" "ind \<noteq> ex" "tmp = a ! ind"
      "\<forall>i \<in> insert (snd t0) (set js) - {ex}. le (a ! ind) (a ! i)"
    using snoc t by (auto simp: Let_def)
  show ?case
  proof (cases "lt (a ! i) tmp \<and> i \<noteq> ex")
    case True
    then have "le (a ! i) (a ! ind)" using assms(3,4) IH(3) by blast
    then have "\<forall>k \<in> insert (snd t0) (set js) - {ex}. le (a ! i) (a ! k)"
      using IH(4) assms(1) by (metis transpD)
    then show ?thesis using True t IH assms(2) by (auto simp: reflp_def)
  next
    case False
    then have "i \<noteq> ex \<Longrightarrow> le (a ! ind) (a ! i)" using assms(4) IH(3) by blast
    then show ?thesis using False t IH by auto
  qed
qed

lemma int_orders:
  "transp ((\<le>) :: int \<Rightarrow> int \<Rightarrow> bool)" "reflp ((\<le>) :: int \<Rightarrow> int \<Rightarrow> bool)"
  "transp ((\<ge>) :: int \<Rightarrow> int \<Rightarrow> bool)" "reflp ((\<ge>) :: int \<Rightarrow> int \<Rightarrow> bool)"
  "\<And>x y :: int. x \<le> y \<or> y \<le> x" "\<And>x y :: int. x \<ge> y \<or> y \<ge> x"
  "\<And>x y :: int. x < y \<longleftrightarrow> \<not> y \<le> x" "\<And>x y :: int. x > y \<longleftrightarrow> \<not> y \<ge> x"
  by (auto simp: transp_def reflp_def)

lemmas best_min = fold_best[OF int_orders(1,2,5,7), unfolded Let_def]
lemmas best_max = fold_best[OF int_orders(3,4,6,8), unfolded Let_def]

lemma ArrayFindMinIndex_least:
  assumes "0 < num"
  shows "ArrayFindMinIndex a num < num"
    and "i < num \<Longrightarrow> a ! ArrayFindMinIndex a num \<le> a ! i"
proof -
  have eq: "ArrayFindMinIndex a num = snd (fold (\<lambda>i (tmp, ind). if a ! i < tmp \<and> i \<noteq> num
      then (a ! i, i) else (tmp, ind)) [0..<num] (a ! 0, 0))"
    unfolding ArrayFindMinIndex_def by (rule arg_cong[where f = snd], rule fold_cong) auto
  note * = best_min[of "(a ! 0, 0)" num a "[0..<num]", folded eq]
  show "ArrayFindMinIndex a num < num" "i < num \<Longrightarrow> a ! ArrayFindMinIndex a num \<le> a ! i"
    using * assms by auto
qed

lemma ArrayFindMaxIndex_greatest:
  assumes "0 < num"
  shows "ArrayFindMaxIndex a num < num"
    and "i < num \<Longrightarrow> a ! i \<le> a ! ArrayFindMaxIndex a num"
proof -
  have eq: "ArrayFindMaxIndex a num = snd (fold (\<lambda>i (tmp, ind). if a ! i > tmp \<and> i \<noteq> num
      then (a ! i, i) else (tmp, ind)) [0..<num] (a ! 0, 0))"
    unfolding ArrayFindMaxIndex_def by (rule arg_cong[where f = snd], rule fold_cong) auto
  note * = best_max[of "(a ! 0, 0)" num a "[0..<num]", folded eq]
  show "ArrayFindMaxIndex a num < num" "i < num \<Longrightarrow> a ! i \<le> a ! ArrayFindMaxIndex a num"
    using * assms by auto
qed

lemma second_start:
  assumes "2 \<le> num"
  shows "snd (if ex = 0 then (a ! (num - 1), num - 1) else (a ! 0, 0)) \<noteq> ex"
    and "fst (if ex = 0 then (a ! (num - 1), num - 1) else (a ! 0, 0)) =
         a ! snd (if ex = 0 then (a ! (num - 1), num - 1) else (a ! 0, 0))"
    and "insert (snd (if ex = 0 then (a ! (num - 1), num - 1) else (a ! 0, 0))) {0..<num} = {0..<num}"
  using assms by auto

lemma ArrayFindSecondMinIndex_least:
  assumes "2 \<le> num"
  shows "ArrayFindSecondMinIndex a num ex < num" "ArrayFindSecondMinIndex a num ex \<noteq> ex"
    and "i < num \<Longrightarrow> i \<noteq> ex \<Longrightarrow> a ! ArrayFindSecondMinIndex a num ex \<le> a ! i"
  using best_min[OF second_start(1,2)[OF assms, of ex a], of "[0..<num]"] second_start(3)[OF assms, of ex a]
  by (auto simp: ArrayFindSecondMinIndex_def)

lemma ArrayFindSecondMaxIndex_greatest:
  assumes "2 \<le> num"
  shows "ArrayFindSecondMaxIndex a num ex < num" "ArrayFindSecondMaxIndex a num ex \<noteq> ex"
    and "i < num \<Longrightarrow> i \<noteq> ex \<Longrightarrow> a ! i \<le> a ! ArrayFindSecondMaxIndex a num ex"
  using best_max[OF second_start(1,2)[OF assms, of ex a], of "[0..<num]"] second_start(3)[OF assms, of ex a]
  by (auto simp: ArrayFindSecondMaxIndex_def)

section \<open>Sorting\<close>

text \<open>The keys and their companions as one list of pairs.\<close>

definition zipped :: "int list \<times> 's list \<Rightarrow> (int \<times> 's) list" where
  "zipped st = zip (fst st) (snd st)"

definition same_len :: "nat \<Rightarrow> int list \<times> 's list \<Rightarrow> bool" where
  "same_len l st \<longleftrightarrow> length (fst st) = l \<and> length (snd st) = l"

lemma zip_upd: "length a = length b \<Longrightarrow> zip (a[i := x]) (b[i := y]) = (zip a b)[i := (x, y)]"
  by (simp add: zip_update)

lemma mset_shift:
  assumes "p < length zs" "q < length zs"
  shows "mset ((zs[q := zs ! p])[p := x]) = mset (zs[q := x])"
proof (cases "p = q")
  case False
  then show ?thesis using mset_swap[of p "zs[q := x]" q] assms by simp
qed simp

lemma shell_shift_perm:
  assumes "shell_shift k x j a sub = (a', sub', j')" "1 \<le> k" "length sub = length a"
    and "- int k \<le> j" "j + int k < int (length a)"
  shows "length a' = length a \<and> length sub' = length a \<and> - int k \<le> j' \<and> j' + int k < int (length a) \<and>
    mset ((zip a' sub')[nat (j' + int k) := (x, y)]) = mset ((zip a sub)[nat (j + int k) := (x, y)])"
  using assms
proof (induction k x j a sub arbitrary: a' sub' j' rule: shell_shift.induct)
  case (1 k x j a sub)
  show ?case
  proof (cases "0 \<le> j \<and> x > a ! nat j")
    case True
    let ?a = "a[nat j + k := a ! nat j]" and ?s = "sub[nat j + k := sub ! nat j]"
    have step: "shell_shift k x (j - int k) ?a ?s = (a', sub', j')"
      using "1.prems"(1,2) True by (subst (asm) shell_shift.simps) simp
    have z: "zip ?a ?s = (zip a sub)[nat j + k := zip a sub ! nat j]"
      using "1.prems" True by (subst nth_zip) (auto simp: zip_upd)
    have n: "nat (j - int k + int k) = nat j" "nat (j + int k) = nat j + k"
      using True by (auto simp: nat_add_distrib)
    have "mset ((zip ?a ?s)[nat j := (x, y)]) = mset ((zip a sub)[nat j + k := (x, y)])"
      unfolding z by (rule mset_shift) (use "1.prems" True in auto)
    then show ?thesis
      using "1.IH"[OF _ step] "1.prems" True n by auto
  next
    case False
    then show ?thesis using "1.prems" by (subst (asm) shell_shift.simps) auto
  qed
qed

lemma shell_place_perm:
  assumes "same_len l st" "k \<le> i" "i < l" "1 \<le> k"
  shows "same_len l (shell_place k i st) \<and> mset (zipped (shell_place k i st)) = mset (zipped st)"
proof -
  obtain a sub where st: "st = (a, sub)" by (cases st)
  obtain a' sub' j where sh: "shell_shift k (a ! i) (int i - int k) a sub = (a', sub', j)"
    by (metis prod_cases3)
  have l: "length a = l" "length sub = l" using assms(1) st by (auto simp: same_len_def)
  have p: "length a' = l \<and> length sub' = l \<and> - int k \<le> j \<and> j + int k < int l \<and>
     mset ((zip a' sub')[nat (j + int k) := (a ! i, sub ! i)]) =
     mset ((zip a sub)[nat (int i - int k + int k) := (a ! i, sub ! i)])"
    using shell_shift_perm[OF sh, of "sub ! i"] assms l by simp
  have "(zip a sub)[i := (a ! i, sub ! i)] = zip a sub"
    using l assms(3) list_update_id[of "zip a sub" i] by simp
  then show ?thesis
    using p sh by (simp add: shell_place_def st zipped_def same_len_def zip_upd)
qed

lemma shell_pass_perm:
  assumes "same_len l st" "n \<le> l" "1 \<le> k"
  shows "same_len l (shell_pass n k st) \<and> mset (zipped (shell_pass n k st)) = mset (zipped st)"
proof -
  have "same_len l (fold (shell_place k) is st) \<and> mset (zipped (fold (shell_place k) is st)) = mset (zipped st)"
    if "\<forall>i \<in> set is. k \<le> i \<and> i < l" for "is"
    using that assms(1)
  proof (induction "is" arbitrary: st)
    case (Cons i js)
    then show ?case using shell_place_perm[of l st k i] assms(3) by simp
  qed simp
  then show ?thesis using assms(2) by (simp add: shell_pass_def)
qed

text \<open>A pass with gap 1 is insertion sort: read backwards, the sorted prefix is an ascending list.\<close>

lemma shell_shift_insort:
  assumes "shell_shift 1 x (int m - 1) a sub = (a', sub', j')" "length sub = length a" "m < length a"
  shows "zip (a'[nat (j' + 1) := x]) (sub'[nat (j' + 1) := y]) =
    rev (insort_key fst (x, y) (rev (take m (zip a sub)))) @ drop (Suc m) (zip a sub)"
  using assms
proof (induction m arbitrary: a sub)
  case 0
  then have "a' = a" "sub' = sub" "j' = - 1" by (subst (asm) shell_shift.simps; simp)+
  then show ?case using 0 by (simp add: zip_upd upd_conv_take_nth_drop drop_zip)
next
  case (Suc m)
  have tk: "rev (take (Suc m) (zip a sub)) = (a ! m, sub ! m) # rev (take m (zip a sub))"
    using Suc.prems by (simp add: take_Suc_conv_app_nth)
  show ?case
  proof (cases "x > a ! m")
    case True
    let ?a = "a[Suc m := a ! m]" and ?s = "sub[Suc m := sub ! m]"
    have step: "shell_shift 1 x (int m - 1) ?a ?s = (a', sub', j')"
      using Suc.prems(1) True by (subst (asm) shell_shift.simps) simp
    have z: "zip ?a ?s = (zip a sub)[Suc m := (a ! m, sub ! m)]"
      using Suc.prems by (simp add: zip_upd)
    have d: "drop (Suc m) (zip ?a ?s) = (a ! m, sub ! m) # drop (Suc (Suc m)) (zip a sub)"
      unfolding z using Suc.prems by (simp add: drop_update_swap Cons_nth_drop_Suc[symmetric, of "Suc m"])
    have "take m (zip ?a ?s) = take m (zip a sub)" unfolding z by simp
    then show ?thesis
      using Suc.IH[OF step] Suc.prems True d tk by simp
  next
    case False
    then have *: "a' = a" "sub' = sub" "j' = int m" using Suc.prems by (subst (asm) shell_shift.simps; simp)+
    have "(zip a sub)[Suc m := (x, y)] = take (Suc m) (zip a sub) @ (x, y) # drop (Suc (Suc m)) (zip a sub)"
      using Suc.prems by (simp add: upd_conv_take_nth_drop)
    moreover have "nat (int m + 1) = Suc m" by simp
    ultimately show ?thesis
      using * False tk Suc.prems by (simp add: zip_upd take_Suc_conv_app_nth)
  qed
qed

lemma shell_place_one:
  assumes "same_len l st" "1 \<le> i" "i < l"
  shows "zipped (shell_place 1 i st) =
    rev (insort_key fst (zipped st ! i) (rev (take i (zipped st)))) @ drop (Suc i) (zipped st)"
proof -
  obtain a sub where st: "st = (a, sub)" by (cases st)
  obtain a' sub' j where sh: "shell_shift 1 (a ! i) (int i - 1) a sub = (a', sub', j)"
    by (metis prod_cases3)
  show ?thesis
    using shell_shift_insort[OF sh] sh assms by (simp add: shell_place_def st zipped_def same_len_def)
qed

lemma shell_pass_one_sorted:
  assumes "same_len l st" "1 \<le> m" "m \<le> l"
  shows "sorted (map fst (rev (take m (zipped (fold (shell_place 1) [1..<m] st)))))"
  using assms(2,3)
proof (induction m rule: nat_induct_at_least)
  case base
  then show ?case by (cases "zipped (fold (shell_place 1) [1..<1] st)") simp_all
next
  case (Suc m)
  define st' where "st' = fold (shell_place 1) [1..<m] st"
  have st': "same_len l st'"
    using shell_pass_perm[OF assms(1), of m 1] Suc by (simp add: shell_pass_def st'_def)
  have ih: "sorted (map fst (rev (take m (zipped st'))))" using Suc by (simp add: st'_def)
  have f: "fold (shell_place 1) [1..<Suc m] st = shell_place 1 m st'"
    using Suc by (simp add: st'_def)
  let ?ins = "insort_key fst (zipped st' ! m) (rev (take m (zipped st')))"
  have "length ?ins = Suc m" using st' Suc by (simp add: same_len_def zipped_def)
  moreover have "zipped (shell_place 1 m st') = rev ?ins @ drop (Suc m) (zipped st')"
    using shell_place_one[OF st', of m] Suc by simp
  ultimately have "rev (take (Suc m) (zipped (shell_place 1 m st'))) = ?ins" by simp
  then show ?case using ih by (simp only: f sorted_insort_key)
qed

lemma shell_gaps_perm:
  assumes "same_len l st" "n \<le> l"
  shows "same_len l (shell_gaps n k st) \<and> mset (zipped (shell_gaps n k st)) = mset (zipped st)"
  using assms
proof (induction n k st rule: shell_gaps.induct)
  case (1 n k st)
  then show ?case
    using shell_pass_perm[of l st n k] by (subst (1 2) shell_gaps.simps) simp
qed

lemma shell_gaps_last:
  assumes "1 \<le> k" "same_len l st" "n \<le> l"
  shows "\<exists>st'. same_len l st' \<and> shell_gaps n k st = shell_pass n 1 st'"
  using assms
proof (induction n k st rule: shell_gaps.induct)
  case (1 n k st)
  have p: "same_len l (shell_pass n k st)" using shell_pass_perm[OF "1.prems"(2,3,1)] by simp
  have unf: "shell_gaps n k st = shell_gaps n (k div 2) (shell_pass n k st)"
    using "1.prems"(1) by (subst shell_gaps.simps) simp
  show ?case
  proof (cases "k = 1")
    case True
    then have "shell_gaps n k st = shell_pass n 1 st"
      using unf by (subst (asm) (2) shell_gaps.simps) simp
    then show ?thesis using "1.prems"(2) by blast
  next
    case False
    then show ?thesis using "1.IH"[OF "1.prems"(1) _ p "1.prems"(3)] "1.prems"(1) unf by simp
  qed
qed

lemma ShellSort_sorts:
  assumes "length a = n" "length sub = n" "ShellSort a sub n = (a', sub')"
  shows "sorted (rev a')" "mset (zip a' sub') = mset (zip a sub)" "length a' = n" "length sub' = n"
proof -
  have sl: "same_len n (a, sub)" using assms by (simp add: same_len_def)
  have "same_len n (a', sub') \<and> mset (zipped (a', sub')) = mset (zipped (a, sub))"
    using shell_gaps_perm[OF sl order_refl, of "n div 2"] assms(3) by (simp add: ShellSort_def)
  then show l: "length a' = n" "length sub' = n" and "mset (zip a' sub') = mset (zip a sub)"
    by (simp_all add: same_len_def zipped_def)
  show "sorted (rev a')"
  proof (cases "2 \<le> n")
    case True
    then have "1 \<le> n div 2" by simp
    from shell_gaps_last[OF this sl order_refl] obtain st'
      where st': "same_len n st'" "(a', sub') = shell_pass n 1 st'"
      using assms(3) by (auto simp: ShellSort_def)
    have "sorted (map fst (rev (take n (zipped (a', sub')))))"
      using shell_pass_one_sorted[OF st'(1), of n] True st'(2) by (simp add: shell_pass_def)
    moreover have "map fst (rev (take n (zip a' sub'))) = rev a'"
      using l by (simp add: rev_map[symmetric])
    ultimately show ?thesis by (simp add: zipped_def)
  next
    case False
    then show ?thesis using l by (cases a') (auto simp: Suc_le_eq)
  qed
qed

section \<open>Square root\<close>

text \<open>One round on natural numbers, the greatest value it can settle on, and why it settles there.\<close>

definition newton :: "nat \<Rightarrow> nat \<Rightarrow> nat" where
  "newton a x = (x + a div x + 1) div 2"

definition near_root :: "nat \<Rightarrow> nat \<Rightarrow> bool" where
  "near_root a r \<longleftrightarrow> r * r \<le> a + r \<and> a \<le> r * r + r"

lemma newton_pos: "1 \<le> x \<Longrightarrow> 1 \<le> newton a x"
  by (simp add: newton_def)

lemma newton_above:
  assumes "1 \<le> x"
  shows "a \<le> newton a x * newton a x + newton a x"
proof -
  define q where "q = a div x"
  have a: "a < x * (q + 1)"
    using assms by (simp add: q_def) (metis One_nat_def Suc_le_lessD dividend_less_times_div mult.commute)
  have n: "x + q \<le> 2 * newton a x" by (simp add: newton_def q_def)
  have "4 * (x * (q + 1)) \<le> (x + q + 1) * (x + q + 1)"
    using zero_le_power2[of "int x - int q - 1"] by (simp add: power2_eq_square algebra_simps flip: of_nat_mult of_nat_add) 
  also have "\<dots> \<le> (2 * newton a x + 1) * (2 * newton a x + 1)"
    using n by (intro mult_mono) auto
  finally show ?thesis using a by (simp add: algebra_simps)
qed

definition root_top :: "nat \<Rightarrow> nat \<Rightarrow> bool" where
  "root_top a t \<longleftrightarrow> 1 \<le> t \<and> t * t \<le> a + t \<and> a < t * t + t"

lemma root_top_exists:
  assumes "1 \<le> a"
  shows "\<exists>t. root_top a t"
proof -
  let ?P = "\<lambda>u. a < u * u + u"
  have "?P a" using assms by (cases a) auto
  then have u: "?P (LEAST u. ?P u)" by (rule LeastI)
  define u where "u = (LEAST u. ?P u)"
  obtain v where v: "u = Suc v" using u by (cases u) (auto simp: u_def)
  then have "\<not> ?P v" using not_less_Least[of v ?P] by (simp add: u_def)
  then show ?thesis using u v by (intro exI[of _ u]) (auto simp: root_top_def u_def)
qed

lemma newton_below:
  assumes "root_top a t" "1 \<le> x" "a \<le> x * x + x"
  shows "newton a x \<le> t + (x - t) div 2"
proof (cases "t < x")
  case True
  have "a < t * (t + 1)" using assms(1) by (simp add: root_top_def)
  also have "\<dots> \<le> t * x" using True by (intro mult_le_mono2) simp
  finally have "a div x < t" by (simp add: div_less_iff_less_mult assms(2)[simplified Suc_le_eq One_nat_def])
  then show ?thesis using True by (simp add: newton_def)
next
  case False
  have "a div x \<le> x + 1" if "a \<le> x * (x + 1)"
    using div_le_mono[OF that, of x] assms(2) by simp
  moreover have "a div x \<le> x" if "x = t"
  proof -
    have "a < x * (x + 1)" using assms(1) that by (simp add: root_top_def)
    then have "a div x < x + 1" using assms(2) by (simp add: div_less_iff_less_mult mult.commute)
    then show ?thesis by simp
  qed
  ultimately have "newton a x \<le> t" using False assms(3) by (cases "x = t") (auto simp: newton_def)
  then show ?thesis by simp
qed

lemma newton_iterate:
  assumes "root_top a t" "1 \<le> x" "a \<le> x * x + x"
  shows "1 \<le> (newton a ^^ i) x" "a \<le> (newton a ^^ i) x * (newton a ^^ i) x + (newton a ^^ i) x"
    and "(newton a ^^ i) x \<le> t + (x - t) div 2 ^ i"
proof (induction i)
  case (Suc i)
  let ?y = "(newton a ^^ i) x"
  {
    case 1
    show ?case using newton_pos[OF Suc.IH(1)] by simp
  next
    case 2
    show ?case using newton_above[OF Suc.IH(1)] by simp
  next
    case 3
    have "newton a ?y \<le> t + (?y - t) div 2" by (rule newton_below[OF assms(1) Suc.IH(1,2)])
    also have "\<dots> \<le> t + ((x - t) div 2 ^ i) div 2" using Suc.IH(3) by (intro add_left_mono div_le_mono) simp
    also have "\<dots> = t + (x - t) div 2 ^ Suc i" by (simp add: power_Suc2 div_mult2_eq del: power_Suc)
    finally show ?case by simp
  }
qed (use assms in simp_all)

lemma newton_settles:
  assumes "1 \<le> a" "1 \<le> x" "a \<le> x * x + x" "x < 2 ^ i"
  shows "near_root a ((newton a ^^ i) x)"
proof -
  obtain t where t: "root_top a t" using root_top_exists[OF assms(1)] by blast
  let ?r = "(newton a ^^ i) x"
  note it = newton_iterate[OF t assms(2,3), of i]
  have "(x - t) div 2 ^ i = 0" using assms(4) by simp
  then have "?r \<le> t" using it(3) by simp
  then have "?r * ?r \<le> a + ?r"
  proof (cases "?r = t")
    case False
    then have "?r + 1 \<le> t" using \<open>?r \<le> t\<close> by simp
    then have "?r * ?r \<le> t * t - t" using mult_le_mono[of ?r "t - 1" ?r "t"] by (simp add: algebra_simps)
    then show ?thesis using t unfolding root_top_def by linarith
  qed (use t in \<open>simp add: root_top_def\<close>)
  then show ?thesis using it(2) by (simp add: near_root_def)
qed

lemma sint_small:
  fixes x :: u32
  assumes "unat x < 2 ^ 31"
  shows "sint x = int (unat x)" "sint (- x) = - int (unat x)"
proof -
  have u: "uint x = int (unat x)" by (simp only: uint_nat)
  have "int (unat x) < 2 ^ 31" using assms by (metis of_nat_less_iff of_nat_numeral of_nat_power)
  then have "uint x < 2 ^ 31" by (simp only: u)
  moreover have "- (2 ^ 31) \<le> uint x" by (rule order_trans[OF _ uint_ge_0]) simp
  ultimately have "sint x = uint x"
    unfolding sint_uint by (simp add: signed_take_bit_int_eq_self)
  then show pos: "sint x = int (unat x)" by (simp only: u)
  have "signed_take_bit 31 (- int (unat x)) = - int (unat x)"
    using \<open>int (unat x) < 2 ^ 31\<close> by (intro signed_take_bit_int_eq_self) linarith+
  then show "sint (- x) = - int (unat x)"
    unfolding sint_word_ariths pos by simp
qed

lemma unat_newton:
  assumes "unat x + unat a div unat x + 1 < 2 ^ 32"
  shows "unat ((x + a div x + 1) div 2 :: u32) = newton (unat a) (unat x)"
proof -
  have "unat (x + a div x + 1) = unat x + unat a div unat x + 1"
    using assms by (simp add: unat_word_ariths unat_div_distrib)
  then show ?thesis by (simp add: newton_def unat_div_distrib)
qed

lemma sqrt_loop_newton:
  assumes "1 < \<bar>sint tmp\<bar>" "3 \<le> unat a" "1 \<le> unat x" "unat x < 2 ^ 31" "unat a \<le> unat x * unat x + unat x"
  shows "unat (sqrt_loop i a tmp x) = (newton (unat a) ^^ i) (unat x)"
  using assms
proof (induction i arbitrary: tmp x)
  case (Suc i)
  let ?y = "(x + a div x + 1) div 2"
  have x2: "2 \<le> unat x" using Suc.prems by (cases "unat x = 1") auto
  have "unat a < 2 ^ 32" using unsigned_less[of a] by simp
  then have q: "unat a div unat x < 2 ^ 31"
    using x2 div_le_mono2[of 2 "unat x" "unat a"] by simp
  have y: "unat ?y = newton (unat a) (unat x)"
    by (rule unat_newton) (use q Suc.prems(4) in simp)
  have "newton (unat a) (unat x) < 2 ^ 31" using q Suc.prems(4) by (simp add: newton_def)
  moreover have "1 < \<bar>sint x\<bar>" using x2 unfolding sint_small(1)[OF Suc.prems(4)] by linarith
  ultimately show ?case
    using Suc.IH[of x ?y] Suc.prems y newton_above[OF Suc.prems(3)] newton_pos[OF Suc.prems(3)]
    by (simp add: funpow_swap1)
qed simp

lemma sqrt_loop_stop: "\<bar>sint tmp\<bar> \<le> 1 \<Longrightarrow> sqrt_loop i a tmp x = x"
  by (cases i) auto

lemma SqrtM_near:
  assumes "a \<noteq> - 1"
  shows "near_root (unat a) (unat (SqrtM a))"
proof -
  have "unat a < 2 ^ 32" using unsigned_less[of a] by simp
  moreover have "unat a \<noteq> unat (- 1 :: u32)" using assms by (simp add: word_unat_eq_iff)
  ultimately have lt: "unat a + 1 < 2 ^ 32" by (simp add: unsigned_minus_1_eq_mask mask_eq_exp_minus_1)
  let ?x = "(a + 1) div 2"
  have h: "unat ?x = (unat a + 1) div 2"
    using lt by (simp add: unat_div_distrib unat_word_ariths)
  consider "unat a = 0" | "unat a \<in> {1, 2}" | "3 \<le> unat a" by fastforce
  then show ?thesis
  proof cases
    case 1
    then show ?thesis by (simp add: SqrtM_def near_root_def unat_eq_zero)
  next
    case 2
    then have "a = 1 \<or> a = 2" by (auto simp: word_unat_eq_iff)
    then show ?thesis by (auto simp: SqrtM_def near_root_def sqrt_loop_stop)
  next
    case 3
    then have n0: "a \<noteq> 0" by auto
    have b: "2 \<le> unat ?x" "unat ?x < 2 ^ 31" using h lt 3 by auto
    have "1 < \<bar>sint (0 - ?x)\<bar>" unfolding diff_0 sint_small(2)[OF b(2)] using b by linarith
    moreover have ge: "unat a \<le> unat ?x * unat ?x + unat ?x"
    proof -
      have "2 * unat ?x \<le> unat ?x * unat ?x" by (rule mult_le_mono1[OF b(1)])
      moreover have "unat a \<le> 2 * unat ?x" using h by linarith
      ultimately show ?thesis by linarith
    qed
    ultimately have "unat (SqrtM a) = (newton (unat a) ^^ 100) (unat ?x)"
      using sqrt_loop_newton[of "0 - ?x" a ?x 100] 3 b n0 by (simp add: SqrtM_def Let_def)
    moreover have "unat ?x < 2 ^ 100" using b by simp
    ultimately show ?thesis using newton_settles[of "unat a" "unat ?x" 100] 3 b ge by simp
  qed
qed

section \<open>Convolution\<close>

lemma wrap_s32_add: "wrap_s32 (wrap_s32 x + y) = wrap_s32 (x + y)"
  by (simp add: wrap_s32_def mod_simps algebra_simps)

lemma fold_accumulate:
  assumes "i < length w" "js \<noteq> []"
  shows "fold (\<lambda>j w. w[i := wrap_s32 (w ! i + f j)]) js w = w[i := wrap_s32 (w ! i + sum_list (map f js))]"
  using assms
proof (induction js arbitrary: w)
  case (Cons j js)
  show ?case
  proof (cases "js = []")
    case False
    then show ?thesis
      using Cons.IH[of "w[i := wrap_s32 (w ! i + f j)]"] Cons.prems by (simp add: wrap_s32_add add.assoc)
  qed (use Cons.prems in simp)
qed simp

definition conv_at :: "int list \<Rightarrow> int list \<Rightarrow> int \<Rightarrow> int \<Rightarrow> int \<Rightarrow> int" where
  "conv_at u v m n i = (\<Sum>(j, k) \<in> {(j, k). 0 \<le> j \<and> j < m \<and> 0 \<le> k \<and> k < n \<and> j + k = i}.
     (u ! nat j * v ! nat k) div 1024)"

lemma conv_at_list:
  "conv_at u v m n i = (\<Sum>j \<leftarrow> [max 0 (i + 1 - n)..min i (m - 1)]. drop_bit 10 (u ! nat j * v ! nat (i - j)))"
proof -
  have "conv_at u v m n i = (\<Sum>j \<in> {max 0 (i + 1 - n)..min i (m - 1)}. (u ! nat j * v ! nat (i - j)) div 1024)"
    unfolding conv_at_def by (rule sum.reindex_bij_witness[of _ "\<lambda>j. (j, i - j)" fst]) auto
  then show ?thesis
    by (simp add: sum_list_distinct_conv_sum_set drop_bit_eq_div)
qed

lemma Conv_nth:
  assumes "1 \<le> m" "1 \<le> n" "m + n - 1 \<le> int (length w)" "0 \<le> i" "i < m + n - 1"
  shows "Conv u v w m n ! nat i = wrap_s32 (w ! nat i + conv_at u v m n i)"
proof -
  let ?js = "\<lambda>i. [max 0 (i + 1 - n)..min i (m - 1)]"
  let ?f = "\<lambda>i j. drop_bit 10 (u ! nat j * v ! nat (i - j))"
  let ?row = "\<lambda>i. fold (\<lambda>j w. w[nat i := wrap_s32 (w ! nat i + ?f i j)]) (?js i)"
  have row: "?row i w = w[nat i := wrap_s32 (w ! nat i + conv_at u v m n i)]"
    if "0 \<le> i" "i < m + n - 1" "m + n - 1 \<le> int (length w)" for i w
    unfolding conv_at_list by (rule fold_accumulate) (use that assms in auto)
  have len: "length (fold ?row is w) = length w" for "is" w
  proof (induction "is" arbitrary: w)
    case (Cons a "is")
    have "length (fold (\<lambda>j w. w[nat a := wrap_s32 (w ! nat a + ?f a j)]) js w) = length w" for js
      by (induction js arbitrary: w) auto
    then show ?case using Cons by simp
  qed simp
  have "fold ?row is w ! nat i = (if i \<in> set is then wrap_s32 (w ! nat i + conv_at u v m n i) else w ! nat i)"
    if "set is \<subseteq> {0..m + n - 2}" "distinct is" "m + n - 1 \<le> int (length w)" for "is" w
    using that
  proof (induction "is" arbitrary: w)
    case (Cons k ks)
    have r: "?row k w = w[nat k := wrap_s32 (w ! nat k + conv_at u v m n k)]"
      using Cons.prems by (intro row) auto
    have "fold ?row (k # ks) w ! nat i = fold ?row ks (w[nat k := wrap_s32 (w ! nat k + conv_at u v m n k)]) ! nat i"
      by (simp only: fold_simps r)
    also have "\<dots> = (if i \<in> set ks then wrap_s32 (w[nat k := wrap_s32 (w ! nat k + conv_at u v m n k)] ! nat i + conv_at u v m n i)
        else w[nat k := wrap_s32 (w ! nat k + conv_at u v m n k)] ! nat i)"
      using Cons.prems by (intro Cons.IH) auto
    also have "\<dots> = (if i \<in> set (k # ks) then wrap_s32 (w ! nat i + conv_at u v m n i) else w ! nat i)"
      using Cons.prems assms by (auto simp: nth_list_update eq_nat_nat_iff)
    finally show ?case .
  qed simp
  from this[of "[0..m + n - 1 - 1]" w] show ?thesis
    using assms by (simp add: Conv_def)
qed

section \<open>Fixed point\<close>

text \<open>\<open>RoundQ4\<close> rounds a number with four fraction bits to the nearest integer, halves upwards, also below 0.\<close>

lemma RoundQ4_round: "RoundQ4 x = (x + 8) div 16"
proof -
  have "x AND 15 = x mod 16" using take_bit_eq_mask[of 4 x] by (simp add: mask_numeral take_bit_eq_mod)
  moreover have "drop_bit 4 x = x div 16" by (simp add: drop_bit_eq_div)
  moreover have "(x mod 16 + 8) div 16 = (if x mod 16 < 8 then 0 else 1)"
    using pos_mod_bound[of 16 x] by (auto simp: div_pos_pos_trivial intro: int_div_pos_eq)
  ultimately show ?thesis by (simp add: RoundQ4_def div_add1_eq[of x 8 16])
qed

section \<open>Properties\<close>

text \<open>
  C39. \<open>ShellSort\<close> ends for every array and length, leaves \<open>a\<close> in descending order, and permutes \<open>a\<close> and
  \<open>sub\<close> in the same way: every key keeps its companion.
\<close>

theorem shell_sort_descending:
  assumes "length a = n" "length sub = n"
  shows "case ShellSort a sub n of (a', sub') \<Rightarrow>
    sorted (rev a') \<and> mset (zip a' sub') = mset (zip a sub) \<and> length a' = n \<and> length sub' = n"
  using ShellSort_sorts[OF assms] by (cases "ShellSort a sub n") auto

theorem shell_sort_descending_witness:
  "length [3, 1, 4, 1 :: int] = 4 \<and> length ''abcd'' = 4 \<and>
   (case ShellSort [3, 1, 4, 1] ''abcd'' 4 of (a', sub') \<Rightarrow>
      sorted (rev a') \<and> mset (zip a' sub') = mset (zip [3, 1, 4, 1] ''abcd'') \<and> length a' = 4 \<and> length sub' = 4)"
  using shell_sort_descending[of "[3, 1, 4, 1]" 4 "''abcd''"] by simp

text \<open>
  \<open>SqrtM\<close> returns a nearest integer to the square root (\<open>r * r - r \<le> a \<le> r * r + r\<close>) for every
  argument but the largest: its hundred rounds are enough for the iteration to settle, and no sum in it
  wraps. For \<open>UINT_MAX\<close> the start value \<open>(a + 1) / 2\<close> wraps to 0 and the result is 0.
\<close>

theorem sqrt_m_nearest:
  "(a \<noteq> - 1 \<longrightarrow> unat (SqrtM a) * unat (SqrtM a) \<le> unat a + unat (SqrtM a) \<and>
               unat a \<le> unat (SqrtM a) * unat (SqrtM a) + unat (SqrtM a)) \<and>
   SqrtM (- 1) = 0"
  using SqrtM_near[of a] by (simp add: near_root_def) (simp add: SqrtM_def sqrt_loop_stop)

theorem sqrt_m_nearest_witness:
  "(1000000 :: u32) \<noteq> - 1 \<and>
   unat (SqrtM 1000000) * unat (SqrtM 1000000) \<le> unat (1000000 :: u32) + unat (SqrtM 1000000) \<and>
   unat (1000000 :: u32) \<le> unat (SqrtM 1000000) * unat (SqrtM 1000000) + unat (SqrtM 1000000) \<and>
   SqrtM (- 1) = 0"
  using sqrt_m_nearest[of 1000000] by simp

text \<open>
  \<open>ValueInterp\<close> inside its interval: the result lies between the two end values and is exact at the
  ends, provided that the product of the two differences fits an \<open>int\<close>; if it does not, the
  multiplication overflows.
\<close>

theorem value_interp_between:
  assumes "x_low < x_high" "x_low \<le> c" "c \<le> x_high"
    and "s32 (x_high - x_low) \<noteq> None" "s32 (y_high - y_low) \<noteq> None" "s32 y_low \<noteq> None" "s32 y_high \<noteq> None"
  shows "case s32 ((y_high - y_low) * (c - x_low)) of
      None \<Rightarrow> ValueInterp c x_low x_high y_low y_high = None
    | Some _ \<Rightarrow> \<exists>y. ValueInterp c x_low x_high y_low y_high = Some y \<and>
        min y_low y_high \<le> y \<and> y \<le> max y_low y_high \<and> (c = x_low \<longrightarrow> y = y_low) \<and> (c = x_high \<longrightarrow> y = y_high)"
proof -
  let ?dx = "x_high - x_low" and ?dy = "y_high - y_low" and ?dc = "c - x_low"
  let ?q = "(?dy * ?dc) sdiv ?dx"
  have q: "0 \<le> ?dy \<Longrightarrow> 0 \<le> ?q \<and> ?q \<le> ?dy" "?dy \<le> 0 \<Longrightarrow> ?dy \<le> ?q \<and> ?q \<le> 0"
    using sdiv_between[of ?dx ?dc ?dy] assms(1-3) by auto
  have r: "s32 ?dx = Some ?dx" "s32 ?dy = Some ?dy" "s32 ?dc = Some ?dc" "s32 ?q = Some ?q"
      "s32 (y_low + ?q) = Some (y_low + ?q)"
    using assms q by (auto simp: s32_def split: if_splits) (linarith | simp)+
  have ends: "?dc = 0 \<Longrightarrow> ?q = 0" "?dc = ?dx \<Longrightarrow> ?q = ?dy"
    using assms(1) by (auto simp: signed_divide_int_def sgn_if abs_mult zero_less_mult_iff)
  show ?thesis
  proof (cases "s32 (?dy * ?dc)")
    case None
    then show ?thesis using assms(1) by (simp add: ValueInterp_def r del: s32_Some)
  next
    case (Some p)
    then have "p = ?dy * ?dc" by simp
    then have "ValueInterp c x_low x_high y_low y_high = Some (y_low + ?q)"
      using Some assms(1) by (simp add: ValueInterp_def r del: s32_Some)
    moreover have "min y_low y_high \<le> y_low + ?q" "y_low + ?q \<le> max y_low y_high"
      using q by linarith+
    ultimately show ?thesis using ends by (auto simp: Some simp del: s32_Some)
  qed
qed

theorem value_interp_between_witness:
  "s32 ((10 - 40) * (7 - 5)) \<noteq> None \<and> s32 ((2 ^ 30 - 0) * (9 - 5)) = None \<and>
   (\<exists>y. ValueInterp 7 5 9 40 10 = Some y \<and> 10 \<le> y \<and> y \<le> 40) \<and> ValueInterp 9 5 9 0 (2 ^ 30) = None"
  using value_interp_between[of 5 9 7 10 40] value_interp_between[of 5 9 9 "2 ^ 30" 0] by (simp add: s32_def)

text \<open>
  \<open>Conv\<close> adds to every cell of the result the sum of \<open>(u[j] * v[k]) >> 10\<close> over all pairs with
  \<open>j + k = i\<close>, truncated to 32 bits: the convolution, computed without leaving the three arrays.
\<close>

theorem conv_convolves:
  assumes "length u = nat m" "length v = nat n" "1 \<le> m" "1 \<le> n" "int (length w) = m + n - 1"
    and "0 \<le> i" "i < m + n - 1"
  shows "Conv u v w m n ! nat i = wrap_s32 (w ! nat i + conv_at u v m n i)"
  using Conv_nth[of m n w i u v] assms by simp

theorem conv_convolves_witness:
  "Conv [1024, 2048] [3, 5, 7] [0, 0, 0, 1] 2 3 ! nat 3 =
     wrap_s32 ([0, 0, 0, 1] ! nat 3 + conv_at [1024, 2048] [3, 5, 7] 2 3 3)"
  by (rule conv_convolves) simp_all

end
