(* ===== verification/IspControls.thy ===== *)
theory IspControls
  imports IspMath
begin

text \<open>
  The camera controls of an ISP device: the setters of \<open>isp_manage/isp_helper.c\<close>, the dispatch of V4L2 control
  events (\<open>__isp_ctrl_process\<close>), the attribute interface \<open>isp_get_attr_cfg\<close>/\<open>isp_set_attr_cfg\<close> and the flash
  sequence \<open>isp_flash_update_status\<close> (\<open>isp.c\<close>). The state is the part of \<open>struct isp_lib_context\<close> that this code
  reads or writes. A \<open>HW_S32\<close> or enum member is an \<open>int\<close>; members compared or truncated at another width are
  words. \<open>led\<close> lists the commands sent to the flash LED, \<open>exp_idx_set\<close> and \<open>af_triggered\<close> what is handed to the
  closed exposure and focus libraries. \<open>None\<close> is undefined behaviour: an index outside a
  menu, an overflowing sum or product, a null pointer.
\<close>

section \<open>State\<close>

type_synonym u64 = "64 word"

record coor_win =
  win_x1 :: int
  win_y1 :: int
  win_x2 :: int
  win_y2 :: int

record wb_gain =
  r_gain :: u16
  gr_gain :: u16
  gb_gain :: u16
  b_gain :: u16

record gain_cfg =
  gain_favor :: int
  ana_gain_min :: int
  ana_gain_max :: int
  dig_gain_min :: int
  dig_gain_max :: int

record isp_ae_settings =
  exp_compensation :: int
  exp_absolute :: u32
  sensor_gain :: int
  iso_sensitivity :: int
  iris_fno :: int
  flash_mode :: int
  exp_mode :: int
  light_mode :: int
  exp_metering_mode :: int
  ae_coor :: coor_win
  iso_mode :: int
  flicker_mode :: int
  scene_mode :: int
  exposure_lock :: bool
  flash_open :: int
  flash_switch_flag :: bool
  take_picture_flag :: int
  take_pic_start_cnt :: int

record isp_af_settings =
  focus_absolute :: int
  focus_relative :: int
  af_mode :: int
  af_metering_mode :: int
  af_range :: int
  focus_lock :: bool
  af_coor :: coor_win

record isp_awb_setting =
  wb_mode :: int
  wb_temperature :: int
  wb_gain_manual :: wb_gain

record isp_tune_setting =
  contrast_level :: int
  saturation_level :: int
  sharpness_level :: int
  brightness_level :: int
  denoise_level :: int
  hue_level :: int
  pltmwdr_level :: int
  tdf_level :: int
  highlight_level :: int
  backlight_level :: int
  gains :: gain_cfg
  effect :: int

text \<open>What the exposure and white balance libraries have computed (\<open>ae_result_t\<close>, \<open>awb_result_t\<close>).\<close>

record isp_results =
  ae_flash_ev_cumul :: int
  ae_flash_ok :: u32
  ae_flash_led :: u32
  ev_idx :: int
  ev_idx_max :: int
  ev_idx_expect :: int
  ev_analog_gain :: u32
  ev_digital_gain :: u32
  ev_exposure_time :: u32
  wb_gain_output :: wb_gain
  color_temp_output :: int

record isp_gen =
  isp_3a_change_flags :: u32
  image_flash_ok :: bool
  ae_settings :: isp_ae_settings
  af_settings :: isp_af_settings
  awb_settings :: isp_awb_setting
  tune :: isp_tune_setting
  results :: isp_results
  ae_frame_cnt :: u64
  sensor_hts :: u32
  sensor_pclk :: u32
  sensor_color_space :: int
  flash_gain :: int
  flash_delay_frame :: int
  ae_pline_index :: "int option"
  ae_lib_ready :: bool
  auto_focus_trigger :: "int option"
  af_lib_ready :: bool
  led :: "u32 list"
  exp_idx_set :: "int list"
  af_triggered :: nat

definition ISP_SET_SCENE_MODE :: u32 where "ISP_SET_SCENE_MODE = 1"
definition ISP_SET_AWB_MODE :: u32 where "ISP_SET_AWB_MODE = 2"
definition ISP_SET_FLICKER_MODE :: u32 where "ISP_SET_FLICKER_MODE = 4"
definition ISP_SET_SHARPNESS :: u32 where "ISP_SET_SHARPNESS = 8"
definition ISP_SET_BRIGHTNESS :: u32 where "ISP_SET_BRIGHTNESS = 16"
definition ISP_SET_SATURATION :: u32 where "ISP_SET_SATURATION = 32"
definition ISP_SET_EFFECT :: u32 where "ISP_SET_EFFECT = 64"
definition ISP_SET_AF_METERING_MODE :: u32 where "ISP_SET_AF_METERING_MODE = 128"
definition ISP_SET_AE_METERING_MODE :: u32 where "ISP_SET_AE_METERING_MODE = 256"
definition ISP_SET_CONTRAST :: u32 where "ISP_SET_CONTRAST = 512"
definition ISP_SET_HUE :: u32 where "ISP_SET_HUE = 1024"
definition ISP_SET_GAIN_STR :: u32 where "ISP_SET_GAIN_STR = 2048"

lemmas isp_set_flags = ISP_SET_SCENE_MODE_def ISP_SET_AWB_MODE_def ISP_SET_FLICKER_MODE_def
  ISP_SET_SHARPNESS_def ISP_SET_BRIGHTNESS_def ISP_SET_SATURATION_def ISP_SET_EFFECT_def
  ISP_SET_AF_METERING_MODE_def ISP_SET_AE_METERING_MODE_def ISP_SET_CONTRAST_def ISP_SET_HUE_def
  ISP_SET_GAIN_STR_def

definition raise :: "u32 \<Rightarrow> isp_gen \<Rightarrow> isp_gen" where
  "raise f s = s\<lparr>isp_3a_change_flags := isp_3a_change_flags s OR f\<rparr>"

abbreviation upd_ae :: "(isp_ae_settings \<Rightarrow> isp_ae_settings) \<Rightarrow> isp_gen \<Rightarrow> isp_gen" where
  "upd_ae f s \<equiv> s\<lparr>ae_settings := f (ae_settings s)\<rparr>"

abbreviation upd_af :: "(isp_af_settings \<Rightarrow> isp_af_settings) \<Rightarrow> isp_gen \<Rightarrow> isp_gen" where
  "upd_af f s \<equiv> s\<lparr>af_settings := f (af_settings s)\<rparr>"

abbreviation upd_awb :: "(isp_awb_setting \<Rightarrow> isp_awb_setting) \<Rightarrow> isp_gen \<Rightarrow> isp_gen" where
  "upd_awb f s \<equiv> s\<lparr>awb_settings := f (awb_settings s)\<rparr>"

abbreviation upd_tune :: "(isp_tune_setting \<Rightarrow> isp_tune_setting) \<Rightarrow> isp_gen \<Rightarrow> isp_gen" where
  "upd_tune f s \<equiv> s\<lparr>tune := f (tune s)\<rparr>"

abbreviation upd_res :: "(isp_results \<Rightarrow> isp_results) \<Rightarrow> isp_gen \<Rightarrow> isp_gen" where
  "upd_res f s \<equiv> s\<lparr>results := f (results s)\<rparr>"

section \<open>Setters\<close>

definition isp_s_brightness :: "int \<Rightarrow> isp_gen \<Rightarrow> isp_gen" where
  "isp_s_brightness v s = (if brightness_level (tune s) \<noteq> v
     then raise ISP_SET_BRIGHTNESS (upd_tune (brightness_level_update (\<lambda>_. v)) s) else s)"

definition isp_s_contrast :: "int \<Rightarrow> isp_gen \<Rightarrow> isp_gen" where
  "isp_s_contrast v s = (if contrast_level (tune s) \<noteq> v
     then raise ISP_SET_CONTRAST (upd_tune (contrast_level_update (\<lambda>_. v)) s) else s)"

definition isp_s_saturation :: "int \<Rightarrow> isp_gen \<Rightarrow> isp_gen" where
  "isp_s_saturation v s = (if saturation_level (tune s) \<noteq> v
     then raise ISP_SET_SATURATION (upd_tune (saturation_level_update (\<lambda>_. v)) s) else s)"

definition isp_s_hue :: "int \<Rightarrow> isp_gen \<Rightarrow> isp_gen" where
  "isp_s_hue v s = (if hue_level (tune s) \<noteq> v
     then raise ISP_SET_HUE (upd_tune (hue_level_update (\<lambda>_. v)) s) else s)"

definition isp_s_auto_white_balance :: "int \<Rightarrow> isp_gen \<Rightarrow> isp_gen" where
  "isp_s_auto_white_balance v s = (if wb_mode (awb_settings s) \<noteq> v
     then raise ISP_SET_AWB_MODE (upd_awb (wb_mode_update (\<lambda>_. v)) s) else s)"

text \<open>\<open>exposure_of\<close> is the product of doubles that converts exposure lines to microseconds.\<close>

definition isp_s_exposure :: "(int \<Rightarrow> u32 \<Rightarrow> u32 \<Rightarrow> u32) \<Rightarrow> int \<Rightarrow> isp_gen \<Rightarrow> isp_gen" where
  "isp_s_exposure exposure_of v s = (if sensor_pclk s \<noteq> 0
     then upd_ae (exp_absolute_update (\<lambda>_. exposure_of v (sensor_hts s) (sensor_pclk s))) s else s)"

definition isp_s_auto_gain :: "int \<Rightarrow> isp_gen \<Rightarrow> isp_gen" where
  "isp_s_auto_gain v s = (if iso_mode (ae_settings s) \<noteq> v then upd_ae (iso_mode_update (\<lambda>_. v)) s else s)"

definition isp_s_gain :: "int \<Rightarrow> isp_gen \<Rightarrow> isp_gen" where
  "isp_s_gain v s = (if sensor_gain (ae_settings s) \<noteq> v then upd_ae (sensor_gain_update (\<lambda>_. v)) s else s)"

definition isp_s_power_line_frequency :: "int \<Rightarrow> isp_gen \<Rightarrow> isp_gen" where
  "isp_s_power_line_frequency v s = (if flicker_mode (ae_settings s) \<noteq> v
     then raise ISP_SET_FLICKER_MODE (upd_ae (flicker_mode_update (\<lambda>_. v)) s) else s)"

definition isp_s_white_balance_temperature :: "int \<Rightarrow> isp_gen \<Rightarrow> isp_gen" where
  "isp_s_white_balance_temperature v s =
     (let s = upd_awb (wb_mode_update (\<lambda>_. 0)) s in
      if wb_temperature (awb_settings s) \<noteq> v then upd_awb (wb_temperature_update (\<lambda>_. v)) s else s)"

definition isp_s_sharpness :: "int \<Rightarrow> isp_gen \<Rightarrow> isp_gen" where
  "isp_s_sharpness v s = (if sharpness_level (tune s) \<noteq> v
     then raise ISP_SET_SHARPNESS (upd_tune (sharpness_level_update (\<lambda>_. v)) s) else s)"

definition isp_s_auto_brightness :: "int \<Rightarrow> isp_gen \<Rightarrow> isp_gen" where
  "isp_s_auto_brightness v s = (if v = 1 then upd_tune (brightness_level_update (\<lambda>_. 0)) s else s)"

definition isp_s_band_stop_filter :: "int \<Rightarrow> isp_gen \<Rightarrow> isp_gen" where
  "isp_s_band_stop_filter v s = (if v = 1
     then raise ISP_SET_FLICKER_MODE (upd_ae (flicker_mode_update (\<lambda>_. 3)) s)
     else raise ISP_SET_FLICKER_MODE (upd_ae (flicker_mode_update (\<lambda>_. 0)) s))"

definition isp_s_illuminators_1 :: "int \<Rightarrow> isp_gen \<Rightarrow> isp_gen" where
  "isp_s_illuminators_1 v s = (if v = 0 then upd_ae (flash_mode_update (\<lambda>_. 0)) s
     else upd_ae (flash_mode_update (\<lambda>_. 2)) s)"

definition isp_s_illuminators_2 :: "int \<Rightarrow> isp_gen \<Rightarrow> isp_gen" where
  "isp_s_illuminators_2 v s = s"

definition isp_s_af_metering_mode :: "(int \<times> coor_win) option \<Rightarrow> isp_gen \<Rightarrow> isp_gen" where
  "isp_s_af_metering_mode win s =
     (let s = (case win of None \<Rightarrow> s | Some (m, c) \<Rightarrow> upd_af (af_metering_mode_update (\<lambda>_. m)) s);
          s = (case win of
                 Some (m, c) \<Rightarrow> if af_metering_mode (af_settings s) = 2 then upd_af (af_coor_update (\<lambda>_. c)) s else s
               | None \<Rightarrow> s)
      in raise ISP_SET_AF_METERING_MODE s)"

definition isp_s_ae_metering_mode :: "int \<Rightarrow> isp_gen \<Rightarrow> isp_gen" where
  "isp_s_ae_metering_mode v s = (if exp_metering_mode (ae_settings s) \<noteq> v
     then raise ISP_SET_AE_METERING_MODE
            (upd_ae (exposure_lock_update (\<lambda>_. False) \<circ> exp_metering_mode_update (\<lambda>_. v)) s) else s)"

definition isp_s_ae_roi :: "int \<Rightarrow> coor_win option \<Rightarrow> isp_gen \<Rightarrow> isp_gen" where
  "isp_s_ae_roi v coor s = (case coor of
       None \<Rightarrow> s
     | Some c \<Rightarrow> if v = 2 \<and> ae_coor (ae_settings s) \<noteq> c
         then raise ISP_SET_AE_METERING_MODE (upd_ae (exposure_lock_update (\<lambda>_. False) \<circ>
                ae_coor_update (\<lambda>_. c) \<circ> exp_metering_mode_update (\<lambda>_. v)) s)
         else s)"

definition isp_s_light_mode :: "int \<Rightarrow> isp_gen \<Rightarrow> isp_gen" where
  "isp_s_light_mode v s = (if light_mode (ae_settings s) \<noteq> v then upd_ae (light_mode_update (\<lambda>_. v)) s else s)"

definition isp_s_exposure_auto :: "int \<Rightarrow> isp_gen \<Rightarrow> isp_gen" where
  "isp_s_exposure_auto v s = (if exp_mode (ae_settings s) \<noteq> v then upd_ae (exp_mode_update (\<lambda>_. v)) s else s)"

definition isp_s_exposure_absolute :: "int \<Rightarrow> isp_gen \<Rightarrow> isp_gen" where
  "isp_s_exposure_absolute v s = (if exp_absolute (ae_settings s) \<noteq> word_of_int v
     then upd_ae (exp_absolute_update (\<lambda>_. word_of_int v)) s else s)"

definition isp_s_aperture :: "int \<Rightarrow> isp_gen \<Rightarrow> isp_gen" where
  "isp_s_aperture v s = (if iris_fno (ae_settings s) \<noteq> v then upd_ae (iris_fno_update (\<lambda>_. v)) s else s)"

definition isp_s_focus_absolute :: "int \<Rightarrow> isp_gen \<Rightarrow> isp_gen" where
  "isp_s_focus_absolute v s = (if focus_absolute (af_settings s) \<noteq> v
     then upd_af (focus_absolute_update (\<lambda>_. v)) s else s)"

definition isp_s_focus_relative :: "int \<Rightarrow> isp_gen \<Rightarrow> isp_gen" where
  "isp_s_focus_relative v s = (if focus_relative (af_settings s) \<noteq> v
     then upd_af (focus_relative_update (\<lambda>_. v)) s else s)"

text \<open>The call of \<open>isp_af_set_params_helper\<close>, which does nothing unless the focus library is set up.\<close>

definition af_trigger :: "isp_gen \<Rightarrow> isp_gen" where
  "af_trigger s = (case auto_focus_trigger s of
       None \<Rightarrow> s
     | Some _ \<Rightarrow> s\<lparr>auto_focus_trigger := Some 1,
                   af_triggered := (if af_lib_ready s then af_triggered s + 1 else af_triggered s)\<rparr>)"

definition isp_s_focus_auto :: "int \<Rightarrow> isp_gen \<Rightarrow> isp_gen" where
  "isp_s_focus_auto v s = (if v \<noteq> 0
     then af_trigger (raise ISP_SET_AF_METERING_MODE
            (upd_af (focus_lock_update (\<lambda>_. False) \<circ> af_mode_update (\<lambda>_. 1)) s))
     else upd_af (af_mode_update (\<lambda>_. 0)) s)"

definition isp_s_auto_exposure_bias :: "int \<Rightarrow> isp_gen \<Rightarrow> isp_gen" where
  "isp_s_auto_exposure_bias v s = (if exp_compensation (ae_settings s) \<noteq> v
     then upd_ae (exp_compensation_update (\<lambda>_. v)) s else s)"

definition isp_s_auto_n_preset_white_balance :: "int \<Rightarrow> isp_gen \<Rightarrow> isp_gen" where
  "isp_s_auto_n_preset_white_balance v s = (if wb_mode (awb_settings s) \<noteq> v
     then upd_awb (wb_mode_update (\<lambda>_. v)) s else s)"

definition isp_s_iso_sensitivity :: "int \<Rightarrow> isp_gen \<Rightarrow> isp_gen" where
  "isp_s_iso_sensitivity v s = (if iso_sensitivity (ae_settings s) \<noteq> v
     then upd_ae (iso_sensitivity_update (\<lambda>_. v)) s else s)"

definition isp_s_iso_sensitivity_auto :: "int \<Rightarrow> isp_gen \<Rightarrow> isp_gen" where
  "isp_s_iso_sensitivity_auto v s = (if iso_mode (ae_settings s) \<noteq> v
     then upd_ae (iso_mode_update (\<lambda>_. v)) s else s)"

definition isp_s_scene_mode :: "int \<Rightarrow> isp_gen \<Rightarrow> isp_gen" where
  "isp_s_scene_mode v s = (if scene_mode (ae_settings s) \<noteq> v
     then raise ISP_SET_SCENE_MODE (upd_ae (scene_mode_update (\<lambda>_. v)) s) else s)"

definition isp_s_auto_focus_start :: "int \<Rightarrow> isp_gen \<Rightarrow> isp_gen" where
  "isp_s_auto_focus_start v s =
     af_trigger (upd_af (af_mode_update (\<lambda>_. 2) \<circ> focus_lock_update (\<lambda>_. False)) s)"

definition isp_s_auto_focus_stop :: "int \<Rightarrow> isp_gen \<Rightarrow> isp_gen" where
  "isp_s_auto_focus_stop v s = upd_af (af_mode_update (\<lambda>_. 1) \<circ> focus_lock_update (\<lambda>_. True)) s"

definition isp_s_auto_focus_range :: "int \<Rightarrow> isp_gen \<Rightarrow> isp_gen" where
  "isp_s_auto_focus_range v s = (if af_range (af_settings s) \<noteq> v then upd_af (af_range_update (\<lambda>_. v)) s else s)"

definition isp_s_take_picture :: "int \<Rightarrow> isp_gen \<Rightarrow> isp_gen" where
  "isp_s_take_picture v s =
     (let s = (if take_picture_flag (ae_settings s) \<noteq> v then upd_ae (take_picture_flag_update (\<lambda>_. v)) s else s)
      in if take_picture_flag (ae_settings s) = 0
         then (upd_ae (flash_open_update (\<lambda>_. 0)) s)\<lparr>image_flash_ok := False\<rparr> else s)"

definition isp_s_flash_mode :: "int \<Rightarrow> isp_gen \<Rightarrow> isp_gen" where
  "isp_s_flash_mode v s = (if flash_mode (ae_settings s) \<noteq> v then upd_ae (flash_mode_update (\<lambda>_. v)) s else s)"

definition isp_s_flash_mode_v1 :: "int \<Rightarrow> isp_gen \<Rightarrow> isp_gen" where
  "isp_s_flash_mode_v1 v s = (if v = 0
     then (if flash_mode (ae_settings s) \<noteq> v then upd_ae (flash_mode_update (\<lambda>_. v)) s else s)
     else (if flash_mode (ae_settings s) \<noteq> v + 2 then upd_ae (flash_mode_update (\<lambda>_. v + 2)) s else s))"

text \<open>The manual white balance gains are 16 bits wide: the value is compared as an \<open>int\<close> and stored truncated.\<close>

definition isp_s_r_gain :: "int \<Rightarrow> isp_gen \<Rightarrow> isp_gen" where
  "isp_s_r_gain v s = (if uint (r_gain (wb_gain_manual (awb_settings s))) \<noteq> v
     then upd_awb (wb_gain_manual_update (r_gain_update (\<lambda>_. word_of_int v))) s else s)"

definition isp_s_gr_gain :: "int \<Rightarrow> isp_gen \<Rightarrow> isp_gen" where
  "isp_s_gr_gain v s = (if uint (gr_gain (wb_gain_manual (awb_settings s))) \<noteq> v
     then upd_awb (wb_gain_manual_update (gr_gain_update (\<lambda>_. word_of_int v))) s else s)"

definition isp_s_gb_gain :: "int \<Rightarrow> isp_gen \<Rightarrow> isp_gen" where
  "isp_s_gb_gain v s = (if uint (gb_gain (wb_gain_manual (awb_settings s))) \<noteq> v
     then upd_awb (wb_gain_manual_update (gb_gain_update (\<lambda>_. word_of_int v))) s else s)"

definition isp_s_b_gain :: "int \<Rightarrow> isp_gen \<Rightarrow> isp_gen" where
  "isp_s_b_gain v s = (if uint (b_gain (wb_gain_manual (awb_settings s))) \<noteq> v
     then upd_awb (wb_gain_manual_update (b_gain_update (\<lambda>_. word_of_int v))) s else s)"

section \<open>Control events\<close>

datatype ctrl_id =
    V4L2_CID_BRIGHTNESS | V4L2_CID_CONTRAST | V4L2_CID_SATURATION | V4L2_CID_HUE
  | V4L2_CID_AUTO_WHITE_BALANCE | V4L2_CID_EXPOSURE | V4L2_CID_AUTOGAIN | V4L2_CID_GAIN
  | V4L2_CID_POWER_LINE_FREQUENCY | V4L2_CID_WHITE_BALANCE_TEMPERATURE | V4L2_CID_SHARPNESS
  | V4L2_CID_AUTOBRIGHTNESS | V4L2_CID_BAND_STOP_FILTER | V4L2_CID_ILLUMINATORS_1
  | V4L2_CID_ILLUMINATORS_2 | V4L2_CID_EXPOSURE_AUTO | V4L2_CID_EXPOSURE_ABSOLUTE
  | V4L2_CID_FOCUS_ABSOLUTE | V4L2_CID_FOCUS_RELATIVE | V4L2_CID_FOCUS_AUTO
  | V4L2_CID_AUTO_EXPOSURE_BIAS | V4L2_CID_AUTO_N_PRESET_WHITE_BALANCE | V4L2_CID_ISO_SENSITIVITY
  | V4L2_CID_ISO_SENSITIVITY_AUTO | V4L2_CID_EXPOSURE_METERING | V4L2_CID_SCENE_MODE | V4L2_CID_3A_LOCK
  | V4L2_CID_AUTO_FOCUS_START | V4L2_CID_AUTO_FOCUS_STOP | V4L2_CID_AUTO_FOCUS_RANGE
  | V4L2_CID_TAKE_PICTURE | V4L2_CID_FLASH_LED_MODE | V4L2_CID_FLASH_LED_MODE_V1 | V4L2_CID_OTHER

definition iso_qmenu :: "int list" where "iso_qmenu = [100, 200, 400, 800, 1600, 3200, 6400]"
definition exp_bias_qmenu :: "int list" where "exp_bias_qmenu = [- 4, - 3, - 2, - 1, 0, 1, 2, 3, 4]"

text \<open>The menus are indexed with the value of the event, which the code does not check.\<close>

definition qmenu :: "int list \<Rightarrow> int \<Rightarrow> int option" where
  "qmenu m v = (if 0 \<le> v \<and> v < int (length m) then Some (m ! nat v) else None)"

primrec ctrl_dispatch :: "(int \<Rightarrow> u32 \<Rightarrow> u32 \<Rightarrow> u32) \<Rightarrow> ctrl_id \<Rightarrow> int \<Rightarrow> isp_gen \<Rightarrow> isp_gen option" where
  "ctrl_dispatch exposure_of V4L2_CID_BRIGHTNESS v s = Some (isp_s_brightness v s)"
| "ctrl_dispatch exposure_of V4L2_CID_CONTRAST v s = Some (isp_s_contrast v s)"
| "ctrl_dispatch exposure_of V4L2_CID_SATURATION v s = Some (isp_s_saturation v s)"
| "ctrl_dispatch exposure_of V4L2_CID_HUE v s = Some (isp_s_hue v s)"
| "ctrl_dispatch exposure_of V4L2_CID_AUTO_WHITE_BALANCE v s = Some (isp_s_auto_white_balance v s)"
| "ctrl_dispatch exposure_of V4L2_CID_EXPOSURE v s = Some (isp_s_exposure exposure_of v s)"
| "ctrl_dispatch exposure_of V4L2_CID_AUTOGAIN v s = Some (isp_s_auto_gain v s)"
| "ctrl_dispatch exposure_of V4L2_CID_GAIN v s = Some (isp_s_gain v s)"
| "ctrl_dispatch exposure_of V4L2_CID_POWER_LINE_FREQUENCY v s = Some (isp_s_power_line_frequency v s)"
| "ctrl_dispatch exposure_of V4L2_CID_WHITE_BALANCE_TEMPERATURE v s = Some (isp_s_white_balance_temperature v s)"
| "ctrl_dispatch exposure_of V4L2_CID_SHARPNESS v s = Some (isp_s_sharpness v s)"
| "ctrl_dispatch exposure_of V4L2_CID_AUTOBRIGHTNESS v s = Some (isp_s_auto_brightness v s)"
| "ctrl_dispatch exposure_of V4L2_CID_BAND_STOP_FILTER v s = Some (isp_s_band_stop_filter v s)"
| "ctrl_dispatch exposure_of V4L2_CID_ILLUMINATORS_1 v s = Some (isp_s_illuminators_1 v s)"
| "ctrl_dispatch exposure_of V4L2_CID_ILLUMINATORS_2 v s = Some (isp_s_illuminators_2 v s)"
| "ctrl_dispatch exposure_of V4L2_CID_EXPOSURE_AUTO v s = Some (isp_s_exposure_auto v s)"
| "ctrl_dispatch exposure_of V4L2_CID_EXPOSURE_ABSOLUTE v s = Some (isp_s_exposure_absolute v s)"
| "ctrl_dispatch exposure_of V4L2_CID_FOCUS_ABSOLUTE v s = Some (isp_s_focus_absolute v s)"
| "ctrl_dispatch exposure_of V4L2_CID_FOCUS_RELATIVE v s = Some (isp_s_focus_relative v s)"
| "ctrl_dispatch exposure_of V4L2_CID_FOCUS_AUTO v s = Some (isp_s_focus_auto v s)"
| "ctrl_dispatch exposure_of V4L2_CID_AUTO_EXPOSURE_BIAS v s = Option.bind (qmenu exp_bias_qmenu v) (\<lambda>b. Some (isp_s_auto_exposure_bias b s))"
| "ctrl_dispatch exposure_of V4L2_CID_AUTO_N_PRESET_WHITE_BALANCE v s = Some (isp_s_auto_n_preset_white_balance v s)"
| "ctrl_dispatch exposure_of V4L2_CID_ISO_SENSITIVITY v s = Option.bind (qmenu iso_qmenu v) (\<lambda>b. Some (isp_s_iso_sensitivity b s))"
| "ctrl_dispatch exposure_of V4L2_CID_ISO_SENSITIVITY_AUTO v s = Some (isp_s_iso_sensitivity_auto v s)"
| "ctrl_dispatch exposure_of V4L2_CID_EXPOSURE_METERING v s = Some (isp_s_ae_metering_mode v s)"
| "ctrl_dispatch exposure_of V4L2_CID_SCENE_MODE v s = Some (isp_s_scene_mode v s)"
| "ctrl_dispatch exposure_of V4L2_CID_3A_LOCK v s = Some s"
| "ctrl_dispatch exposure_of V4L2_CID_AUTO_FOCUS_START v s = Some (isp_s_auto_focus_start v s)"
| "ctrl_dispatch exposure_of V4L2_CID_AUTO_FOCUS_STOP v s = Some (isp_s_auto_focus_stop v s)"
| "ctrl_dispatch exposure_of V4L2_CID_AUTO_FOCUS_RANGE v s = Some (isp_s_auto_focus_range v s)"
| "ctrl_dispatch exposure_of V4L2_CID_TAKE_PICTURE v s = Some (isp_s_take_picture v s)"
| "ctrl_dispatch exposure_of V4L2_CID_FLASH_LED_MODE v s = Some (isp_s_flash_mode v s)"
| "ctrl_dispatch exposure_of V4L2_CID_FLASH_LED_MODE_V1 v s = Some (isp_s_flash_mode_v1 v s)"
| "ctrl_dispatch exposure_of V4L2_CID_OTHER v s = Some s"

text \<open>A device without a context ignores control events; \<open>__isp_fsync_process\<close> does not ask.\<close>

definition isp_ctrl_process ::
    "(int \<Rightarrow> u32 \<Rightarrow> u32 \<Rightarrow> u32) \<Rightarrow> ctrl_id \<Rightarrow> int \<Rightarrow> isp_gen option \<Rightarrow> isp_gen option option" where
  "isp_ctrl_process exposure_of cid v ctx = (case ctx of
       None \<Rightarrow> Some None
     | Some s \<Rightarrow> map_option Some (ctrl_dispatch exposure_of cid v s))"

definition isp_fsync_process :: "u32 \<Rightarrow> byte list \<Rightarrow> isp_gen option \<Rightarrow> (isp_gen \<times> u32) option" where
  "isp_fsync_process ini_log_param data ctx = (case ctx of
       None \<Rightarrow> None
     | Some s \<Rightarrow>
       let s' = (if sensor_color_space s \<noteq> uint (data ! 1)
                 then raise ISP_SET_HUE (s\<lparr>sensor_color_space := uint (data ! 1)\<rparr>) else s)
       in Some (s', push_bit 8 (ucast (data ! 3)) OR ucast (data ! 2) OR ini_log_param))"

section \<open>Attributes\<close>

datatype attr_id =
    ISP_CTRL_MODULE_EN | ISP_CTRL_DIGITAL_GAIN | ISP_CTRL_PLTMWDR_STR | ISP_CTRL_DN_STR | ISP_CTRL_3DN_STR
  | ISP_CTRL_HIGH_LIGHT | ISP_CTRL_BACK_LIGHT | ISP_CTRL_WB_MGAIN | ISP_CTRL_AGAIN_DGAIN
  | ISP_CTRL_COLOR_EFFECT | ISP_CTRL_AE_ROI | ISP_CTRL_AF_METERING | ISP_CTRL_COLOR_TEMP | ISP_CTRL_EV_IDX
  | ISP_CTRL_EXPOSURE_TIME | ISP_CTRL_AGAIN_ISO | ISP_CTRL_OTHER

text \<open>What the caller's pointer \<open>value\<close> points to: the type is the one that belongs to the attribute.\<close>

datatype attr_val = S32Val int | WbVal wb_gain | GainVal gain_cfg | WinVal coor_win | AfWinVal int coor_win

definition again_iso :: "u32 \<Rightarrow> u32" where
  "again_iso g = (if drop_bit 4 g < 16 then 100 else drop_bit 4 g div 16 * 100)"

primrec get_attr :: "attr_id \<Rightarrow> isp_gen \<Rightarrow> attr_val option" where
  "get_attr ISP_CTRL_DIGITAL_GAIN s = Some (S32Val (sint (ev_digital_gain (results s))))"
| "get_attr ISP_CTRL_PLTMWDR_STR s = Some (S32Val (pltmwdr_level (tune s)))"
| "get_attr ISP_CTRL_DN_STR s = Some (S32Val (denoise_level (tune s)))"
| "get_attr ISP_CTRL_3DN_STR s = Some (S32Val (tdf_level (tune s)))"
| "get_attr ISP_CTRL_HIGH_LIGHT s = Some (S32Val (highlight_level (tune s)))"
| "get_attr ISP_CTRL_BACK_LIGHT s = Some (S32Val (backlight_level (tune s)))"
| "get_attr ISP_CTRL_WB_MGAIN s = Some (WbVal (wb_gain_output (results s)))"
| "get_attr ISP_CTRL_AGAIN_DGAIN s = Some (GainVal (gains (tune s)))"
| "get_attr ISP_CTRL_COLOR_EFFECT s = Some (S32Val (effect (tune s)))"
| "get_attr ISP_CTRL_AE_ROI s = Some (WinVal (ae_coor (ae_settings s)))"
| "get_attr ISP_CTRL_COLOR_TEMP s = Some (S32Val (color_temp_output (results s)))"
| "get_attr ISP_CTRL_EV_IDX s = Some (S32Val (ev_idx (results s)))"
| "get_attr ISP_CTRL_EXPOSURE_TIME s = Some (S32Val (sint (ev_exposure_time (results s))))"
| "get_attr ISP_CTRL_AGAIN_ISO s = Some (S32Val (sint (again_iso (ev_analog_gain (results s)))))"
| "get_attr ISP_CTRL_MODULE_EN s = None"
| "get_attr ISP_CTRL_AF_METERING s = None"
| "get_attr ISP_CTRL_OTHER s = None"

primrec set_attr :: "attr_id \<Rightarrow> attr_val \<Rightarrow> isp_gen \<Rightarrow> isp_gen option" where
  "set_attr ISP_CTRL_PLTMWDR_STR v s = (case v of S32Val x \<Rightarrow> Some (upd_tune (pltmwdr_level_update (\<lambda>_. x)) s) | _ \<Rightarrow> None)"
| "set_attr ISP_CTRL_DN_STR v s = (case v of S32Val x \<Rightarrow> Some (upd_tune (denoise_level_update (\<lambda>_. x)) s) | _ \<Rightarrow> None)"
| "set_attr ISP_CTRL_3DN_STR v s = (case v of S32Val x \<Rightarrow> Some (upd_tune (tdf_level_update (\<lambda>_. x)) s) | _ \<Rightarrow> None)"
| "set_attr ISP_CTRL_HIGH_LIGHT v s = (case v of S32Val x \<Rightarrow> Some (upd_tune (highlight_level_update (\<lambda>_. x)) s) | _ \<Rightarrow> None)"
| "set_attr ISP_CTRL_BACK_LIGHT v s = (case v of S32Val x \<Rightarrow> Some (upd_tune (backlight_level_update (\<lambda>_. x)) s) | _ \<Rightarrow> None)"
| "set_attr ISP_CTRL_WB_MGAIN v s = (case v of WbVal g \<Rightarrow> Some (upd_awb (wb_gain_manual_update (\<lambda>_. g)) s) | _ \<Rightarrow> None)"
| "set_attr ISP_CTRL_AGAIN_DGAIN v s = (case v of GainVal g \<Rightarrow> Some (if gains (tune s) \<noteq> g
     then raise ISP_SET_GAIN_STR (upd_tune (gains_update (\<lambda>_. g)) s) else s) | _ \<Rightarrow> None)"
| "set_attr ISP_CTRL_COLOR_EFFECT v s = (case v of S32Val x \<Rightarrow> Some (if effect (tune s) \<noteq> x
     then raise ISP_SET_EFFECT (upd_tune (effect_update (\<lambda>_. x)) s) else s) | _ \<Rightarrow> None)"
| "set_attr ISP_CTRL_AE_ROI v s = (case v of WinVal c \<Rightarrow> Some (isp_s_ae_roi 2 (Some c) s) | _ \<Rightarrow> None)"
| "set_attr ISP_CTRL_AF_METERING v s = (case v of AfWinVal m c \<Rightarrow> Some (isp_s_af_metering_mode (Some (m, c)) s) | _ \<Rightarrow> None)"
| "set_attr ISP_CTRL_MODULE_EN v s = Some s"
| "set_attr ISP_CTRL_DIGITAL_GAIN v s = Some s"
| "set_attr ISP_CTRL_COLOR_TEMP v s = Some s"
| "set_attr ISP_CTRL_EV_IDX v s = Some s"
| "set_attr ISP_CTRL_EXPOSURE_TIME v s = Some s"
| "set_attr ISP_CTRL_AGAIN_ISO v s = Some s"
| "set_attr ISP_CTRL_OTHER v s = Some s"

text \<open>
  \<open>isp_dev[dev_id]\<close> may be \<open>NULL\<close> (\<open>None\<close>) and so may the context of the device (\<open>Some None\<close>). The id is
  compared with the number of devices only from above.
\<close>

type_synonym isp_devs = "isp_gen option option list"

definition isp_get_attr_cfg :: "int \<Rightarrow> attr_id \<Rightarrow> isp_devs \<Rightarrow> (int \<times> attr_val option) option" where
  "isp_get_attr_cfg dev_id cid devs =
     (if dev_id \<ge> int (length devs) then Some (- 1, None)
      else if dev_id < 0 then None
      else case devs ! nat dev_id of
          None \<Rightarrow> Some (- 1, None)
        | Some None \<Rightarrow> Some (- 1, None)
        | Some (Some s) \<Rightarrow> Some (0, get_attr cid s))"

definition isp_set_attr_cfg :: "int \<Rightarrow> attr_id \<Rightarrow> attr_val \<Rightarrow> isp_devs \<Rightarrow> (int \<times> isp_devs) option" where
  "isp_set_attr_cfg dev_id cid v devs =
     (if dev_id \<ge> int (length devs) then Some (- 1, devs)
      else if dev_id < 0 then None
      else case devs ! nat dev_id of
          None \<Rightarrow> Some (- 1, devs)
        | Some None \<Rightarrow> Some (- 1, devs)
        | Some (Some s) \<Rightarrow>
            map_option (\<lambda>s'. (0, devs[nat dev_id := Some (Some s')])) (set_attr cid v s))"

section \<open>Flash\<close>

definition V4L2_FLASH_LED_MODE_NONE :: u32 where "V4L2_FLASH_LED_MODE_NONE = 0"
definition V4L2_FLASH_LED_MODE_FLASH :: u32 where "V4L2_FLASH_LED_MODE_FLASH = 1"
definition V4L2_FLASH_LED_MODE_TORCH :: u32 where "V4L2_FLASH_LED_MODE_TORCH = 2"
definition V4L2_TAKE_PICTURE_FLASH :: int where "V4L2_TAKE_PICTURE_FLASH = 3"

text \<open>The result of the \<open>ioctl\<close> behind \<open>isp_flash_ctrl\<close> is ignored by every caller.\<close>

definition isp_flash_ctrl :: "u32 \<Rightarrow> isp_gen \<Rightarrow> isp_gen" where
  "isp_flash_ctrl mode s = s\<lparr>led := led s @ [mode]\<rparr>"

definition isp_flash_open :: "isp_gen \<Rightarrow> isp_gen" where
  "isp_flash_open s =
     (let s = upd_ae (take_pic_start_cnt_update (\<lambda>_. sint (ucast (ae_frame_cnt s) :: u32))) s;
          s = upd_res (ae_flash_led_update (\<lambda>_. V4L2_FLASH_LED_MODE_TORCH)) s;
          s = isp_flash_ctrl V4L2_FLASH_LED_MODE_TORCH s
      in upd_ae (flash_open_update (\<lambda>_. 1)) s)"

text \<open>The frame number \<open>k + take_pic_start_cnt + flash_delay\<close>, summed as \<open>int\<close> and compared as \<open>HW_U64\<close>.\<close>

definition flash_frame :: "int \<Rightarrow> isp_gen \<Rightarrow> u64 option" where
  "flash_frame k s = Option.bind (s32 (k + take_pic_start_cnt (ae_settings s))) (\<lambda>a.
     Option.bind (s32 (a + flash_delay_frame s)) (\<lambda>b. Some (word_of_int b)))"

text \<open>\<open>&&\<close> evaluates its second operand only when the first one holds.\<close>

definition frame_between :: "int \<Rightarrow> int \<Rightarrow> isp_gen \<Rightarrow> bool option" where
  "frame_between k l s = Option.bind (flash_frame k s) (\<lambda>f. if f \<le> ae_frame_cnt s
     then map_option (\<lambda>g. ae_frame_cnt s \<le> g) (flash_frame l s) else Some False)"

definition flash_ev_idx :: "isp_gen \<Rightarrow> int option" where
  "flash_ev_idx s =
     (let c = ae_flash_ev_cumul (results s); e = ev_idx_expect (results s); g = flash_gain s in
      Option.bind
        (if c \<ge> 100 then Some e
         else Option.bind (s32 (g * 100)) (\<lambda>t.
           if c < 100 \<and> c \<ge> t sdiv 256 then Some e
           else Option.bind (s32 (c * g)) (\<lambda>p. s32 (e + p sdiv 256))))
        (\<lambda>i. let i = max i 1 in Some (if i > ev_idx_max (results s) then ev_idx_max (results s) else i)))"

definition set_exp_idx :: "int \<Rightarrow> isp_gen \<Rightarrow> isp_gen option" where
  "set_exp_idx i s = (case ae_pline_index s of
       None \<Rightarrow> None
     | Some _ \<Rightarrow> Some (s\<lparr>ae_pline_index := Some i,
                        exp_idx_set := (if ae_lib_ready s then exp_idx_set s @ [i] else exp_idx_set s)\<rparr>))"

definition flash_off :: "isp_gen \<Rightarrow> isp_gen" where
  "flash_off s = upd_ae (flash_switch_flag_update (\<lambda>_. False))
     (isp_flash_ctrl V4L2_FLASH_LED_MODE_NONE (upd_res (ae_flash_led_update (\<lambda>_. V4L2_FLASH_LED_MODE_NONE)) s))"

definition flash_switch_open :: "isp_gen \<Rightarrow> isp_gen" where
  "flash_switch_open s = isp_flash_open (upd_ae (flash_switch_flag_update (\<lambda>_. True)) s)"

definition mark_flash_ok :: "isp_gen \<Rightarrow> isp_gen" where
  "mark_flash_ok s = (upd_res (ae_flash_ok_update (\<lambda>_. 1)) s)\<lparr>image_flash_ok := True\<rparr>"

text \<open>The branch of \<open>FLASH_MODE_AUTO\<close> once the flash sequence is open, frame by frame.\<close>

definition flash_auto_frame :: "isp_gen \<Rightarrow> isp_gen option" where
  "flash_auto_frame s =
     Option.bind (flash_frame 0 s) (\<lambda>f0. if ae_frame_cnt s = f0
       then (let s = upd_ae (exposure_lock_update (\<lambda>_. True)) (flash_off s)
             in Option.bind (flash_ev_idx s) (\<lambda>i. set_exp_idx i s))
       else Option.bind (flash_frame 1 s) (\<lambda>f1. if ae_frame_cnt s = f1
       then Some (isp_flash_ctrl V4L2_FLASH_LED_MODE_FLASH
              (upd_res (ae_flash_led_update (\<lambda>_. V4L2_FLASH_LED_MODE_FLASH))
                 (upd_ae (flash_switch_flag_update (\<lambda>_. True)) s)))
       else Option.bind (frame_between 4 6 s) (\<lambda>b.
         if b then Some (mark_flash_ok s)
         else Option.bind (flash_frame 7 s) (\<lambda>f7. if ae_frame_cnt s = f7
         then Some (upd_ae (exposure_lock_update (\<lambda>_. False)) (flash_off s)) else Some s))))"

text \<open>The branch of \<open>FLASH_MODE_TORCH\<close> once the sequence is open.\<close>

definition flash_torch_frame :: "isp_gen \<Rightarrow> isp_gen option" where
  "flash_torch_frame s =
     Option.bind (frame_between 1 3 s) (\<lambda>b. Option.bind (flash_frame 4 s) (\<lambda>f4.
       let s = (if b then mark_flash_ok s else s)
       in Some (if ae_frame_cnt s = f4
            then upd_ae (flash_switch_flag_update (\<lambda>_. False)) (isp_flash_ctrl V4L2_FLASH_LED_MODE_NONE
                   (upd_res (ae_flash_led_update (\<lambda>_. V4L2_FLASH_LED_MODE_TORCH)) s))
            else s)))"

definition isp_flash_update_status :: "isp_gen \<Rightarrow> isp_gen option" where
  "isp_flash_update_status s =
     (let mode = flash_mode (ae_settings s);
          picture = (take_picture_flag (ae_settings s) = V4L2_TAKE_PICTURE_FLASH);
          closed = (flash_open (ae_settings s) = 0) in
      if mode = 1 then
        Some (if picture \<and> closed then flash_switch_open s else s)
      else if mode = 3 then
        (if \<not> picture then Some s
         else if closed then
           Option.bind (s32 (ev_idx_max (results s) - 20)) (\<lambda>lim.
             Some (if ev_idx (results s) > lim then flash_switch_open s else s))
         else flash_auto_frame s)
      else if mode = 2 then
        (if picture then (if closed then Some (flash_switch_open s) else flash_torch_frame s)
         else Some (isp_flash_ctrl V4L2_FLASH_LED_MODE_TORCH
                (upd_res (ae_flash_led_update (\<lambda>_. V4L2_FLASH_LED_MODE_TORCH))
                   (upd_ae (flash_switch_flag_update (\<lambda>_. True)) s))))
      else if mode = 0 then
        (let s = (if flash_switch_flag (ae_settings s) then flash_off s else s)
         in Some (if exposure_lock (ae_settings s) then upd_ae (exposure_lock_update (\<lambda>_. False)) s else s))
      else if mode = 4 \<or> mode = 5 then Some s
      else Some (isp_flash_ctrl V4L2_FLASH_LED_MODE_NONE
             (upd_res (ae_flash_led_update (\<lambda>_. V4L2_FLASH_LED_MODE_NONE)) s)))"

text \<open>
  The statistics of consecutive frames: before each call the frame counter has advanced by one, and the libraries have
  computed new results (all but the flash fields, which only this code writes).
\<close>

definition next_frame :: "isp_results \<Rightarrow> isp_gen \<Rightarrow> isp_gen" where
  "next_frame r s = s\<lparr>ae_frame_cnt := ae_frame_cnt s + 1,
     results := r\<lparr>ae_flash_ok := ae_flash_ok (results s), ae_flash_led := ae_flash_led (results s)\<rparr>\<rparr>"

fun flash_frames :: "isp_results list \<Rightarrow> isp_gen \<Rightarrow> isp_gen option" where
  "flash_frames [] s = Some s"
| "flash_frames (r # rs) s = Option.bind (isp_flash_update_status (next_frame r s)) (flash_frames rs)"

section \<open>Lemmas\<close>

text \<open>
  Most setters write a setting only when it changes, and raise its flag then. The locale is that pattern: reading
  back what was written, and what the write does to the flags. Writing the same value a second time changes
  nothing, and a change of the setting implies that its flag is up.
\<close>

locale ctrl_setting =
  fixes get :: "isp_gen \<Rightarrow> 'a"
    and put :: "'a \<Rightarrow> isp_gen \<Rightarrow> isp_gen"
    and flag :: u32
  assumes get_put: "get (put v s) = v"
    and flags_put: "isp_3a_change_flags (put v s) = isp_3a_change_flags s OR flag"
begin

lemma get_write: "get (if get s \<noteq> v then put v s else s) = v"
  by (simp add: get_put)

lemma write_idem:
  "(if get (if get s \<noteq> v then put v s else s) \<noteq> v then put v (if get s \<noteq> v then put v s else s)
    else (if get s \<noteq> v then put v s else s)) = (if get s \<noteq> v then put v s else s)"
  by (simp add: get_put)

lemma write_flags:
  "isp_3a_change_flags (if get s \<noteq> v then put v s else s) =
     (if get s \<noteq> v then isp_3a_change_flags s OR flag else isp_3a_change_flags s)"
  by (simp add: flags_put)

end

interpretation brightness: ctrl_setting "\<lambda>s. brightness_level (tune s)" "\<lambda>v s. raise ISP_SET_BRIGHTNESS (upd_tune (brightness_level_update (\<lambda>_. v)) s)" ISP_SET_BRIGHTNESS
  by unfold_locales (simp_all add: raise_def)

interpretation contrast: ctrl_setting "\<lambda>s. contrast_level (tune s)" "\<lambda>v s. raise ISP_SET_CONTRAST (upd_tune (contrast_level_update (\<lambda>_. v)) s)" ISP_SET_CONTRAST
  by unfold_locales (simp_all add: raise_def)

interpretation saturation: ctrl_setting "\<lambda>s. saturation_level (tune s)" "\<lambda>v s. raise ISP_SET_SATURATION (upd_tune (saturation_level_update (\<lambda>_. v)) s)" ISP_SET_SATURATION
  by unfold_locales (simp_all add: raise_def)

interpretation hue: ctrl_setting "\<lambda>s. hue_level (tune s)" "\<lambda>v s. raise ISP_SET_HUE (upd_tune (hue_level_update (\<lambda>_. v)) s)" ISP_SET_HUE
  by unfold_locales (simp_all add: raise_def)

interpretation sharpness: ctrl_setting "\<lambda>s. sharpness_level (tune s)" "\<lambda>v s. raise ISP_SET_SHARPNESS (upd_tune (sharpness_level_update (\<lambda>_. v)) s)" ISP_SET_SHARPNESS
  by unfold_locales (simp_all add: raise_def)

interpretation auto_white_balance: ctrl_setting "\<lambda>s. wb_mode (awb_settings s)" "\<lambda>v s. raise ISP_SET_AWB_MODE (upd_awb (wb_mode_update (\<lambda>_. v)) s)" ISP_SET_AWB_MODE
  by unfold_locales (simp_all add: raise_def)

interpretation power_line_frequency: ctrl_setting "\<lambda>s. flicker_mode (ae_settings s)" "\<lambda>v s. raise ISP_SET_FLICKER_MODE (upd_ae (flicker_mode_update (\<lambda>_. v)) s)" ISP_SET_FLICKER_MODE
  by unfold_locales (simp_all add: raise_def)

interpretation scene_mode: ctrl_setting "\<lambda>s. scene_mode (ae_settings s)" "\<lambda>v s. raise ISP_SET_SCENE_MODE (upd_ae (scene_mode_update (\<lambda>_. v)) s)" ISP_SET_SCENE_MODE
  by unfold_locales (simp_all add: raise_def)

interpretation gain_mode: ctrl_setting "\<lambda>s. iso_mode (ae_settings s)" "\<lambda>v s. upd_ae (iso_mode_update (\<lambda>_. v)) s" 0
  by unfold_locales (simp_all add: raise_def)

interpretation gain: ctrl_setting "\<lambda>s. sensor_gain (ae_settings s)" "\<lambda>v s. upd_ae (sensor_gain_update (\<lambda>_. v)) s" 0
  by unfold_locales (simp_all add: raise_def)

interpretation exposure_auto: ctrl_setting "\<lambda>s. exp_mode (ae_settings s)" "\<lambda>v s. upd_ae (exp_mode_update (\<lambda>_. v)) s" 0
  by unfold_locales (simp_all add: raise_def)

interpretation focus_absolute: ctrl_setting "\<lambda>s. focus_absolute (af_settings s)" "\<lambda>v s. upd_af (focus_absolute_update (\<lambda>_. v)) s" 0
  by unfold_locales (simp_all add: raise_def)

interpretation focus_relative: ctrl_setting "\<lambda>s. focus_relative (af_settings s)" "\<lambda>v s. upd_af (focus_relative_update (\<lambda>_. v)) s" 0
  by unfold_locales (simp_all add: raise_def)

interpretation auto_exposure_bias: ctrl_setting "\<lambda>s. exp_compensation (ae_settings s)" "\<lambda>v s. upd_ae (exp_compensation_update (\<lambda>_. v)) s" 0
  by unfold_locales (simp_all add: raise_def)

interpretation auto_n_preset_white_balance: ctrl_setting "\<lambda>s. wb_mode (awb_settings s)" "\<lambda>v s. upd_awb (wb_mode_update (\<lambda>_. v)) s" 0
  by unfold_locales (simp_all add: raise_def)

interpretation iso_sensitivity: ctrl_setting "\<lambda>s. iso_sensitivity (ae_settings s)" "\<lambda>v s. upd_ae (iso_sensitivity_update (\<lambda>_. v)) s" 0
  by unfold_locales (simp_all add: raise_def)

interpretation auto_focus_range: ctrl_setting "\<lambda>s. af_range (af_settings s)" "\<lambda>v s. upd_af (af_range_update (\<lambda>_. v)) s" 0
  by unfold_locales (simp_all add: raise_def)

interpretation flash_mode: ctrl_setting "\<lambda>s. flash_mode (ae_settings s)" "\<lambda>v s. upd_ae (flash_mode_update (\<lambda>_. v)) s" 0
  by unfold_locales (simp_all add: raise_def)

interpretation aperture: ctrl_setting "\<lambda>s. iris_fno (ae_settings s)" "\<lambda>v s. upd_ae (iris_fno_update (\<lambda>_. v)) s" 0
  by unfold_locales (simp_all add: raise_def)

interpretation light_mode: ctrl_setting "\<lambda>s. light_mode (ae_settings s)" "\<lambda>v s. upd_ae (light_mode_update (\<lambda>_. v)) s" 0
  by unfold_locales (simp_all add: raise_def)

interpretation metering: ctrl_setting "\<lambda>s. exp_metering_mode (ae_settings s)"
    "\<lambda>v s. raise ISP_SET_AE_METERING_MODE
      (upd_ae (exposure_lock_update (\<lambda>_. False) \<circ> exp_metering_mode_update (\<lambda>_. v)) s)" ISP_SET_AE_METERING_MODE
  by unfold_locales (simp_all add: raise_def)

interpretation absolute: ctrl_setting "\<lambda>s. exp_absolute (ae_settings s)"
    "\<lambda>v s. upd_ae (exp_absolute_update (\<lambda>_. v)) s" 0
  by unfold_locales (simp_all add: raise_def)

interpretation gain_range: ctrl_setting "\<lambda>s. gains (tune s)"
    "\<lambda>v s. raise ISP_SET_GAIN_STR (upd_tune (gains_update (\<lambda>_. v)) s)" ISP_SET_GAIN_STR
  by unfold_locales (simp_all add: raise_def)

interpretation colour_effect: ctrl_setting "\<lambda>s. effect (tune s)"
    "\<lambda>v s. raise ISP_SET_EFFECT (upd_tune (effect_update (\<lambda>_. v)) s)" ISP_SET_EFFECT
  by unfold_locales (simp_all add: raise_def)

lemma setters_idem:
  "isp_s_brightness v (isp_s_brightness v s) = isp_s_brightness v s"
  "isp_s_contrast v (isp_s_contrast v s) = isp_s_contrast v s"
  "isp_s_saturation v (isp_s_saturation v s) = isp_s_saturation v s"
  "isp_s_hue v (isp_s_hue v s) = isp_s_hue v s"
  "isp_s_sharpness v (isp_s_sharpness v s) = isp_s_sharpness v s"
  "isp_s_auto_white_balance v (isp_s_auto_white_balance v s) = isp_s_auto_white_balance v s"
  "isp_s_power_line_frequency v (isp_s_power_line_frequency v s) = isp_s_power_line_frequency v s"
  "isp_s_scene_mode v (isp_s_scene_mode v s) = isp_s_scene_mode v s"
  "isp_s_gain v (isp_s_gain v s) = isp_s_gain v s"
  "isp_s_exposure_auto v (isp_s_exposure_auto v s) = isp_s_exposure_auto v s"
  "isp_s_focus_absolute v (isp_s_focus_absolute v s) = isp_s_focus_absolute v s"
  "isp_s_focus_relative v (isp_s_focus_relative v s) = isp_s_focus_relative v s"
  "isp_s_auto_exposure_bias v (isp_s_auto_exposure_bias v s) = isp_s_auto_exposure_bias v s"
  "isp_s_auto_n_preset_white_balance v (isp_s_auto_n_preset_white_balance v s) = isp_s_auto_n_preset_white_balance v s"
  "isp_s_iso_sensitivity v (isp_s_iso_sensitivity v s) = isp_s_iso_sensitivity v s"
  "isp_s_auto_focus_range v (isp_s_auto_focus_range v s) = isp_s_auto_focus_range v s"
  "isp_s_flash_mode v (isp_s_flash_mode v s) = isp_s_flash_mode v s"
  "isp_s_aperture v (isp_s_aperture v s) = isp_s_aperture v s"
  "isp_s_light_mode v (isp_s_light_mode v s) = isp_s_light_mode v s"
  "isp_s_auto_gain v (isp_s_auto_gain v s) = isp_s_auto_gain v s"
  "isp_s_iso_sensitivity_auto v (isp_s_iso_sensitivity_auto v s) = isp_s_iso_sensitivity_auto v s"
  "isp_s_ae_metering_mode v (isp_s_ae_metering_mode v s) = isp_s_ae_metering_mode v s"
  "isp_s_exposure_absolute v (isp_s_exposure_absolute v s) = isp_s_exposure_absolute v s"
  unfolding isp_s_brightness_def isp_s_contrast_def isp_s_saturation_def isp_s_hue_def isp_s_sharpness_def isp_s_auto_white_balance_def isp_s_power_line_frequency_def isp_s_scene_mode_def isp_s_gain_def isp_s_exposure_auto_def isp_s_focus_absolute_def isp_s_focus_relative_def isp_s_auto_exposure_bias_def isp_s_auto_n_preset_white_balance_def isp_s_iso_sensitivity_def isp_s_auto_focus_range_def isp_s_flash_mode_def isp_s_aperture_def isp_s_light_mode_def isp_s_auto_gain_def isp_s_iso_sensitivity_auto_def isp_s_ae_metering_mode_def isp_s_exposure_absolute_def
  by (rule brightness.write_idem contrast.write_idem saturation.write_idem hue.write_idem sharpness.write_idem auto_white_balance.write_idem power_line_frequency.write_idem scene_mode.write_idem gain.write_idem exposure_auto.write_idem focus_absolute.write_idem focus_relative.write_idem auto_exposure_bias.write_idem auto_n_preset_white_balance.write_idem iso_sensitivity.write_idem auto_focus_range.write_idem flash_mode.write_idem aperture.write_idem light_mode.write_idem gain_mode.write_idem metering.write_idem absolute.write_idem)+

lemma others_idem:
  "isp_s_exposure e v (isp_s_exposure e v s) = isp_s_exposure e v s"
  "isp_s_white_balance_temperature v (isp_s_white_balance_temperature v s) = isp_s_white_balance_temperature v s"
  "isp_s_auto_brightness v (isp_s_auto_brightness v s) = isp_s_auto_brightness v s"
  "isp_s_band_stop_filter v (isp_s_band_stop_filter v s) = isp_s_band_stop_filter v s"
  "isp_s_illuminators_1 v (isp_s_illuminators_1 v s) = isp_s_illuminators_1 v s"
  "isp_s_illuminators_2 v (isp_s_illuminators_2 v s) = isp_s_illuminators_2 v s"
  "isp_s_auto_focus_stop v (isp_s_auto_focus_stop v s) = isp_s_auto_focus_stop v s"
  "isp_s_flash_mode_v1 v (isp_s_flash_mode_v1 v s) = isp_s_flash_mode_v1 v s"
        apply (simp add: isp_s_exposure_def)
       apply (simp add: isp_s_white_balance_temperature_def Let_def)
      apply (simp add: isp_s_auto_brightness_def)
     apply (simp add: isp_s_band_stop_filter_def raise_def or.assoc)
    apply (simp add: isp_s_illuminators_1_def)
   apply (simp add: isp_s_illuminators_2_def)
  apply (simp add: isp_s_auto_focus_stop_def)
  apply (simp add: isp_s_flash_mode_v1_def)
  done

lemma take_picture_idem: "isp_s_take_picture v (isp_s_take_picture v s) = isp_s_take_picture v s"
  by (cases "take_picture_flag (ae_settings s) = v"; cases "v = 0") (simp_all add: isp_s_take_picture_def Let_def)

text \<open>The settings that have a change flag of their own, and what it means that a change is announced.\<close>

definition watched :: "(u32 \<times> (isp_gen \<Rightarrow> int)) list" where
  "watched = [(ISP_SET_BRIGHTNESS, \<lambda>s. brightness_level (tune s)), (ISP_SET_CONTRAST, \<lambda>s. contrast_level (tune s)),
     (ISP_SET_SATURATION, \<lambda>s. saturation_level (tune s)), (ISP_SET_HUE, \<lambda>s. hue_level (tune s)),
     (ISP_SET_SHARPNESS, \<lambda>s. sharpness_level (tune s)), (ISP_SET_EFFECT, \<lambda>s. effect (tune s)),
     (ISP_SET_AWB_MODE, \<lambda>s. wb_mode (awb_settings s)), (ISP_SET_FLICKER_MODE, \<lambda>s. flicker_mode (ae_settings s)),
     (ISP_SET_SCENE_MODE, \<lambda>s. scene_mode (ae_settings s)),
     (ISP_SET_AE_METERING_MODE, \<lambda>s. exp_metering_mode (ae_settings s))]"

definition announced :: "isp_gen \<Rightarrow> isp_gen \<Rightarrow> bool" where
  "announced s s' \<longleftrightarrow> (\<forall>(f, g) \<in> set watched. g s' = g s \<or> isp_3a_change_flags s' AND f = f) \<and>
     isp_3a_change_flags s' = isp_3a_change_flags s' OR isp_3a_change_flags s"

lemma announced_quiet:
  assumes "\<And>f g. (f, g) \<in> set watched \<Longrightarrow> g s' = g s" "isp_3a_change_flags s' = isp_3a_change_flags s"
  shows "announced s s'"
  using assms by (auto simp: announced_def)

lemma announced_raised:
  assumes "\<And>f g. (f, g) \<in> set watched \<Longrightarrow> f \<noteq> F \<Longrightarrow> g s' = g s"
    and "isp_3a_change_flags s' = isp_3a_change_flags s OR F"
  shows "announced s s'"
proof -
  have 1: "(isp_3a_change_flags s OR F) AND F = F" by (simp add: and.commute)
  have 2: "(isp_3a_change_flags s OR F) OR isp_3a_change_flags s = isp_3a_change_flags s OR F"
    by (metis or.assoc or.commute or.idem)
  have "g s' = g s \<or> isp_3a_change_flags s' AND f = f" if "(f, g) \<in> set watched" for f g
    using assms(1)[OF that] 1 by (cases "f = F") (simp_all add: assms(2))
  then show ?thesis by (auto simp: announced_def assms(2) 2)
qed

lemma announced_refl: "announced s s"
  by (rule announced_quiet) auto

lemma announced_raise:
  assumes "\<And>f g. (f, g) \<in> set watched \<Longrightarrow> f \<noteq> F \<Longrightarrow> g s' = g s" "isp_3a_change_flags s' = isp_3a_change_flags s"
  shows "announced s (raise F s')"
proof (rule announced_raised[where F = F])
  fix f g
  assume g: "(f, g) \<in> set watched" "f \<noteq> F"
  then have "g (raise F s') = g s'" by (auto simp: watched_def raise_def)
  then show "g (raise F s') = g s" using assms(1)[OF g] by simp
qed (simp add: raise_def assms(2))

lemma announced_if: "(b \<Longrightarrow> announced s s') \<Longrightarrow> announced s (if b then s' else s)"
  by (simp add: announced_refl)

lemma announced_quiet_setters:
  "announced s (isp_s_exposure e v s)" "announced s (isp_s_auto_gain v s)" "announced s (isp_s_gain v s)"
  "announced s (isp_s_illuminators_1 v s)" "announced s (isp_s_illuminators_2 v s)"
  "announced s (isp_s_exposure_auto v s)" "announced s (isp_s_exposure_absolute v s)"
  "announced s (isp_s_focus_absolute v s)" "announced s (isp_s_focus_relative v s)"
  "announced s (isp_s_auto_exposure_bias v s)" "announced s (isp_s_iso_sensitivity v s)"
  "announced s (isp_s_iso_sensitivity_auto v s)" "announced s (isp_s_auto_focus_stop v s)"
  "announced s (isp_s_auto_focus_range v s)" "announced s (isp_s_take_picture v s)"
  "announced s (isp_s_flash_mode v s)" "announced s (isp_s_flash_mode_v1 v s)" "announced s (af_trigger s)"
  by (rule announced_quiet; auto simp: watched_def isp_s_exposure_def isp_s_auto_gain_def isp_s_gain_def
      isp_s_illuminators_1_def isp_s_illuminators_2_def isp_s_exposure_auto_def isp_s_exposure_absolute_def
      isp_s_focus_absolute_def isp_s_focus_relative_def isp_s_auto_exposure_bias_def isp_s_iso_sensitivity_def
      isp_s_iso_sensitivity_auto_def isp_s_auto_focus_stop_def isp_s_auto_focus_range_def isp_s_take_picture_def
      isp_s_flash_mode_def isp_s_flash_mode_v1_def af_trigger_def Let_def split: option.splits)+

lemma announced_flag_setters:
  "announced s (isp_s_brightness v s)" "announced s (isp_s_contrast v s)" "announced s (isp_s_saturation v s)"
  "announced s (isp_s_hue v s)" "announced s (isp_s_auto_white_balance v s)"
  "announced s (isp_s_power_line_frequency v s)" "announced s (isp_s_sharpness v s)"
  "announced s (isp_s_band_stop_filter v s)" "announced s (isp_s_ae_metering_mode v s)"
  "announced s (isp_s_scene_mode v s)"
  unfolding isp_s_brightness_def isp_s_contrast_def isp_s_saturation_def isp_s_hue_def
    isp_s_auto_white_balance_def isp_s_power_line_frequency_def isp_s_sharpness_def isp_s_band_stop_filter_def
    isp_s_ae_metering_mode_def isp_s_scene_mode_def
  by ((rule announced_if, rule announced_raise | rule if_split[THEN iffD2], intro conjI impI; rule announced_raise);
      auto simp: watched_def isp_set_flags)+

lemma announced_focus_auto: "announced s (isp_s_focus_auto v s)"
proof -
  let ?s = "raise ISP_SET_AF_METERING_MODE (upd_af (focus_lock_update (\<lambda>_. False) \<circ> af_mode_update (\<lambda>_. 1)) s)"
  have "announced s (af_trigger ?s)"
    by (rule announced_raised[where F = ISP_SET_AF_METERING_MODE])
      (auto simp: watched_def af_trigger_def raise_def split: option.splits)
  moreover have "announced s (upd_af (af_mode_update (\<lambda>_. 0)) s)"
    by (rule announced_quiet) (auto simp: watched_def)
  ultimately show ?thesis by (simp add: isp_s_focus_auto_def)
qed

lemma announced_focus_start: "announced s (isp_s_auto_focus_start v s)"
  by (rule announced_quiet)
    (auto simp: watched_def isp_s_auto_focus_start_def af_trigger_def split: option.splits)

definition silent_ctrls :: "ctrl_id set" where
  "silent_ctrls = {V4L2_CID_AUTOBRIGHTNESS, V4L2_CID_WHITE_BALANCE_TEMPERATURE, V4L2_CID_AUTO_N_PRESET_WHITE_BALANCE}"

lemma ctrl_announced:
  assumes "ctrl_dispatch e cid v s = Some s'" "cid \<notin> silent_ctrls"
  shows "announced s s'"
  using assms
  by (cases cid) (auto simp: silent_ctrls_def announced_quiet_setters announced_flag_setters announced_focus_auto
      announced_focus_start announced_refl bind_eq_Some_conv)

lemma ctrl_idem:
  assumes "ctrl_dispatch e cid v s = Some s'" "cid \<noteq> V4L2_CID_FOCUS_AUTO" "cid \<noteq> V4L2_CID_AUTO_FOCUS_START"
  shows "ctrl_dispatch e cid v s' = Some s'"
  using assms
  by (cases cid) (auto simp: setters_idem others_idem take_picture_idem bind_eq_Some_conv)

lemma af_trigger_again: "af_trigger (af_trigger s) = (af_trigger s)\<lparr>af_triggered := af_triggered (af_trigger (af_trigger s))\<rparr>"
  by (simp add: af_trigger_def split: option.splits)

lemma focus_again:
  "\<exists>n. isp_s_focus_auto v (isp_s_focus_auto v s) = (isp_s_focus_auto v s)\<lparr>af_triggered := n\<rparr>"
  "\<exists>n. isp_s_auto_focus_start v (isp_s_auto_focus_start v s) = (isp_s_auto_focus_start v s)\<lparr>af_triggered := n\<rparr>"
proof -
  let ?a = "upd_af (focus_lock_update (\<lambda>_. False) \<circ> af_mode_update (\<lambda>_. 1)) s"
  let ?b = "upd_af (af_mode_update (\<lambda>_. 2) \<circ> focus_lock_update (\<lambda>_. False)) s"
  let ?r = "raise ISP_SET_AF_METERING_MODE"
  have "isp_s_focus_auto v (af_trigger (?r ?a)) = af_trigger (af_trigger (?r ?a))" if "v \<noteq> 0"
    using that by (cases "auto_focus_trigger s") (simp_all add: isp_s_focus_auto_def af_trigger_def raise_def or.assoc)
  moreover have "isp_s_focus_auto v s = af_trigger (?r ?a)" if "v \<noteq> 0" using that by (simp add: isp_s_focus_auto_def)
  moreover have "isp_s_focus_auto 0 (isp_s_focus_auto 0 s) = isp_s_focus_auto 0 s" by (simp add: isp_s_focus_auto_def)
  moreover have "isp_s_focus_auto 0 s = (isp_s_focus_auto 0 s)\<lparr>af_triggered := af_triggered s\<rparr>"
    by (simp add: isp_s_focus_auto_def)
  ultimately show "\<exists>n. isp_s_focus_auto v (isp_s_focus_auto v s) = (isp_s_focus_auto v s)\<lparr>af_triggered := n\<rparr>"
    using af_trigger_again[of "?r ?a"] by (cases "v = 0") metis+
  have "isp_s_auto_focus_start v (af_trigger ?b) = af_trigger (af_trigger ?b)"
    by (cases "auto_focus_trigger s") (simp_all add: isp_s_auto_focus_start_def af_trigger_def)
  then show "\<exists>n. isp_s_auto_focus_start v (isp_s_auto_focus_start v s) = (isp_s_auto_focus_start v s)\<lparr>af_triggered := n\<rparr>"
    using af_trigger_again[of ?b] unfolding isp_s_auto_focus_start_def by metis
qed

text \<open>A context for concrete runs: everything zero, the libraries set up.\<close>

definition zero_win :: coor_win where
  "zero_win = \<lparr>win_x1 = 0, win_y1 = 0, win_x2 = 0, win_y2 = 0\<rparr>"

definition zero_wb :: wb_gain where
  "zero_wb = \<lparr>r_gain = 0, gr_gain = 0, gb_gain = 0, b_gain = 0\<rparr>"

definition demo_results :: isp_results where
  "demo_results = \<lparr>ae_flash_ev_cumul = 40, ae_flash_ok = 0, ae_flash_led = 0, ev_idx = 95, ev_idx_max = 100,
     ev_idx_expect = 60, ev_analog_gain = 4096, ev_digital_gain = 1024, ev_exposure_time = 10000,
     wb_gain_output = zero_wb, color_temp_output = 5000\<rparr>"

definition demo_gen :: isp_gen where
  "demo_gen = \<lparr>isp_3a_change_flags = 0, image_flash_ok = False,
     ae_settings = \<lparr>exp_compensation = 0, exp_absolute = 0, sensor_gain = 0, iso_sensitivity = 0, iris_fno = 0,
       flash_mode = 3, exp_mode = 0, light_mode = 0, exp_metering_mode = 0, ae_coor = zero_win, iso_mode = 0,
       flicker_mode = 0, scene_mode = 0, exposure_lock = False, flash_open = 0, flash_switch_flag = False,
       take_picture_flag = 3, take_pic_start_cnt = 0\<rparr>,
     af_settings = \<lparr>focus_absolute = 0, focus_relative = 0, af_mode = 0, af_metering_mode = 0, af_range = 0,
       focus_lock = False, af_coor = zero_win\<rparr>,
     awb_settings = \<lparr>wb_mode = 1, wb_temperature = 0, wb_gain_manual = zero_wb\<rparr>,
     tune = \<lparr>contrast_level = 0, saturation_level = 0, sharpness_level = 0, brightness_level = 0, denoise_level = 0,
       hue_level = 0, pltmwdr_level = 0, tdf_level = 0, highlight_level = 0, backlight_level = 0,
       gains = \<lparr>gain_favor = 0, ana_gain_min = 0, ana_gain_max = 0, dig_gain_min = 0, dig_gain_max = 0\<rparr>, effect = 0\<rparr>,
     results = demo_results, ae_frame_cnt = 500, sensor_hts = 0, sensor_pclk = 0, sensor_color_space = 0,
     flash_gain = 128, flash_delay_frame = 5, ae_pline_index = Some 0, ae_lib_ready = True,
     auto_focus_trigger = Some 0, af_lib_ready = True, led = [], exp_idx_set = [], af_triggered = 0\<rparr>"

section \<open>Properties of the controls\<close>

text \<open>
  A control event that is repeated has no further effect on any setting or flag; only the focus library is
  triggered again by the two events that start focusing.
\<close>

theorem control_events_idempotent:
  assumes "ctrl_dispatch exposure_of cid v s = Some s'"
  shows "\<exists>n. ctrl_dispatch exposure_of cid v s' = Some (s'\<lparr>af_triggered := n\<rparr>) \<and>
    (cid \<notin> {V4L2_CID_FOCUS_AUTO, V4L2_CID_AUTO_FOCUS_START} \<longrightarrow> n = af_triggered s')"
proof (cases "cid = V4L2_CID_FOCUS_AUTO \<or> cid = V4L2_CID_AUTO_FOCUS_START")
  case True
  then show ?thesis using assms focus_again[of v s] by auto
next
  case False
  then show ?thesis using ctrl_idem[OF assms] by (intro exI[of _ "af_triggered s'"]) simp
qed

theorem control_events_idempotent_witness:
  "\<exists>s' n. ctrl_dispatch (\<lambda>_ _ _. 0) V4L2_CID_BRIGHTNESS 7 demo_gen = Some s' \<and> brightness_level (tune s') = 7 \<and>
     ctrl_dispatch (\<lambda>_ _ _. 0) V4L2_CID_BRIGHTNESS 7 s' = Some (s'\<lparr>af_triggered := n\<rparr>) \<and> n = af_triggered s'"
  using control_events_idempotent[of "\<lambda>_ _ _. 0" V4L2_CID_BRIGHTNESS 7 demo_gen "isp_s_brightness 7 demo_gen"]
  by (auto simp: isp_s_brightness_def demo_gen_def raise_def)

text \<open>
  The change flags follow the settings: an event never clears a flag, and a setting that has a flag of its own
  does not change without it, except through the three events \<open>AUTOBRIGHTNESS\<close>, \<open>WHITE_BALANCE_TEMPERATURE\<close> and
  \<open>AUTO_N_PRESET_WHITE_BALANCE\<close>, which change the brightness or the white balance mode silently.
\<close>

theorem control_changes_announced:
  assumes "ctrl_dispatch exposure_of cid v s = Some s'"
  shows "(cid \<notin> silent_ctrls \<longrightarrow> announced s s') \<and>
    (cid \<in> silent_ctrls \<longrightarrow> isp_3a_change_flags s' = isp_3a_change_flags s)"
  using ctrl_announced[OF assms] assms
  by (auto simp: silent_ctrls_def isp_s_auto_brightness_def isp_s_white_balance_temperature_def
      isp_s_auto_n_preset_white_balance_def Let_def)

theorem control_changes_announced_witness:
  "announced demo_gen (isp_s_brightness 7 demo_gen) \<and>
   isp_3a_change_flags (isp_s_brightness 7 demo_gen) = ISP_SET_BRIGHTNESS \<and>
   isp_3a_change_flags (isp_s_auto_brightness 1 (isp_s_brightness 7 (demo_gen\<lparr>isp_3a_change_flags := 0\<rparr>)))
     = ISP_SET_BRIGHTNESS \<and>
   wb_mode (awb_settings (isp_s_auto_n_preset_white_balance 4 demo_gen)) = 4 \<and>
   isp_3a_change_flags (isp_s_auto_n_preset_white_balance 4 demo_gen) = 0"
  using control_changes_announced[of "\<lambda>_ _ _. 0" V4L2_CID_BRIGHTNESS 7 demo_gen "isp_s_brightness 7 demo_gen"]
  by (simp add: silent_ctrls_def isp_s_brightness_def isp_s_auto_brightness_def demo_gen_def raise_def
      isp_s_auto_n_preset_white_balance_def)

text \<open>
  The only events with undefined behaviour are exposure bias and ISO sensitivity with a value outside
  their menus (nine and seven entries), which index the menu unchecked.
\<close>

theorem control_menu_bounds:
  "ctrl_dispatch exposure_of cid v s = None \<longleftrightarrow>
     cid = V4L2_CID_AUTO_EXPOSURE_BIAS \<and> (v < 0 \<or> 9 \<le> v) \<or>
     cid = V4L2_CID_ISO_SENSITIVITY \<and> (v < 0 \<or> 7 \<le> v)"
  by (cases cid) (auto simp: qmenu_def exp_bias_qmenu_def iso_qmenu_def)

lemma set_get_attr:
  assumes "set_attr cid v s = Some s'"
  shows "cid \<in> {ISP_CTRL_PLTMWDR_STR, ISP_CTRL_DN_STR, ISP_CTRL_3DN_STR, ISP_CTRL_HIGH_LIGHT, ISP_CTRL_BACK_LIGHT,
      ISP_CTRL_AGAIN_DGAIN, ISP_CTRL_COLOR_EFFECT, ISP_CTRL_AE_ROI} \<Longrightarrow> get_attr cid s' = Some v"
    and "cid \<notin> {ISP_CTRL_PLTMWDR_STR, ISP_CTRL_DN_STR, ISP_CTRL_3DN_STR, ISP_CTRL_HIGH_LIGHT, ISP_CTRL_BACK_LIGHT,
      ISP_CTRL_AGAIN_DGAIN, ISP_CTRL_COLOR_EFFECT, ISP_CTRL_AE_ROI} \<Longrightarrow> get_attr cid s' = get_attr cid s"
  using assms
  by (cases cid; auto simp: gain_range.get_write colour_effect.get_write isp_s_ae_roi_def raise_def
      isp_s_af_metering_mode_def split: attr_val.splits if_splits)+

text \<open>
  An attribute written by \<open>isp_set_attr_cfg\<close> is what \<open>isp_get_attr_cfg\<close> reports afterwards, for every attribute
  that has a value of its own, and no other device changes. What \<open>ISP_CTRL_WB_MGAIN\<close> reports is not what was written
  but the gain the white balance library last computed.
\<close>

theorem attribute_round_trip:
  assumes "isp_set_attr_cfg d cid v devs = Some (0, devs')"
  shows "(cid \<in> {ISP_CTRL_PLTMWDR_STR, ISP_CTRL_DN_STR, ISP_CTRL_3DN_STR, ISP_CTRL_HIGH_LIGHT, ISP_CTRL_BACK_LIGHT,
            ISP_CTRL_AGAIN_DGAIN, ISP_CTRL_COLOR_EFFECT, ISP_CTRL_AE_ROI} \<longrightarrow>
          isp_get_attr_cfg d cid devs' = Some (0, Some v)) \<and>
         (cid \<notin> {ISP_CTRL_PLTMWDR_STR, ISP_CTRL_DN_STR, ISP_CTRL_3DN_STR, ISP_CTRL_HIGH_LIGHT, ISP_CTRL_BACK_LIGHT,
            ISP_CTRL_AGAIN_DGAIN, ISP_CTRL_COLOR_EFFECT, ISP_CTRL_AE_ROI} \<longrightarrow>
          isp_get_attr_cfg d cid devs' = isp_get_attr_cfg d cid devs) \<and>
         (\<forall>e cid'. 0 \<le> e \<and> e \<noteq> d \<longrightarrow> isp_get_attr_cfg e cid' devs' = isp_get_attr_cfg e cid' devs)"
proof -
  obtain s s' where s: "0 \<le> d" "d < int (length devs)" "devs ! nat d = Some (Some s)" "set_attr cid v s = Some s'"
      and devs': "devs' = devs[nat d := Some (Some s')]"
    using assms by (auto simp: isp_set_attr_cfg_def split: if_splits option.splits)
  then have "isp_get_attr_cfg d cid devs' = Some (0, get_attr cid s')" "isp_get_attr_cfg d cid devs = Some (0, get_attr cid s)"
    by (auto simp: isp_get_attr_cfg_def)
  moreover have "isp_get_attr_cfg e c devs' = isp_get_attr_cfg e c devs" if "0 \<le> e" "e \<noteq> d" for e c
    using that s(1) by (simp add: devs' isp_get_attr_cfg_def nth_list_update eq_nat_nat_iff)
  ultimately show ?thesis using set_get_attr[OF s(4)] by simp
qed

theorem attribute_round_trip_witness:
  "\<exists>devs'. isp_set_attr_cfg 0 ISP_CTRL_COLOR_EFFECT (S32Val 4) [Some (Some demo_gen), None] = Some (0, devs') \<and>
     isp_get_attr_cfg 0 ISP_CTRL_COLOR_EFFECT devs' = Some (0, Some (S32Val 4))"
  using attribute_round_trip[of 0 ISP_CTRL_COLOR_EFFECT "S32Val 4" "[Some (Some demo_gen), None]"]
  by (simp add: isp_set_attr_cfg_def)

section \<open>The flash sequence\<close>

lemma frame_word_eq:
  assumes "0 \<le> a" "a < 2 ^ 31" "0 \<le> b" "b < 2 ^ 31"
  shows "(word_of_int a :: u64) = word_of_int b \<longleftrightarrow> a = b" "(word_of_int a :: u64) \<le> word_of_int b \<longleftrightarrow> a \<le> b"
  using assms by (auto simp: word_le_def uint_word_of_int_eq take_bit_int_eq_self word_of_int_eq_iff)

lemma flash_frame_word:
  assumes "0 \<le> k" "0 \<le> take_pic_start_cnt (ae_settings s)" "0 \<le> flash_delay_frame s"
    and "k + take_pic_start_cnt (ae_settings s) + flash_delay_frame s < 2 ^ 31"
  shows "flash_frame k s = Some (word_of_int (k + take_pic_start_cnt (ae_settings s) + flash_delay_frame s))"
proof -
  have "s32 (k + take_pic_start_cnt (ae_settings s)) = Some (k + take_pic_start_cnt (ae_settings s))"
    using assms by (simp add: s32_def)
  moreover have "s32 (k + take_pic_start_cnt (ae_settings s) + flash_delay_frame s) =
      Some (k + take_pic_start_cnt (ae_settings s) + flash_delay_frame s)"
    using assms by (simp add: s32_def)
  ultimately show ?thesis unfolding flash_frame_def by (simp del: s32_Some)
qed

text \<open>The commands, the lock and the result that belong to the \<open>j\<close>-th frame after the sequence was opened.\<close>

definition flash_cmds :: "int \<Rightarrow> int \<Rightarrow> u32 list" where
  "flash_cmds d j = (if j < d then [] else [V4L2_FLASH_LED_MODE_NONE]) @
     (if j < d + 1 then [] else [V4L2_FLASH_LED_MODE_FLASH]) @ (if j < d + 7 then [] else [V4L2_FLASH_LED_MODE_NONE])"

definition flash_phase :: "isp_gen \<Rightarrow> int \<Rightarrow> isp_gen \<Rightarrow> bool" where
  "flash_phase t j s \<longleftrightarrow>
     (let d = flash_delay_frame t; c = take_pic_start_cnt (ae_settings t) in
      flash_mode (ae_settings s) = 3 \<and> take_picture_flag (ae_settings s) = V4L2_TAKE_PICTURE_FLASH \<and>
      flash_open (ae_settings s) = 1 \<and> take_pic_start_cnt (ae_settings s) = c \<and> flash_delay_frame s = d \<and>
      flash_gain s = flash_gain t \<and> ae_lib_ready s = ae_lib_ready t \<and> ae_pline_index s \<noteq> None \<and>
      ae_frame_cnt s = word_of_int (c + j) \<and> led s = led t @ flash_cmds d j \<and>
      exposure_lock (ae_settings s) = (if j < d then exposure_lock (ae_settings t) else j < d + 7) \<and>
      image_flash_ok s = (image_flash_ok t \<or> d + 4 \<le> j))"

definition ev_ok :: "int \<Rightarrow> isp_results \<Rightarrow> bool" where
  "ev_ok g r \<longleftrightarrow> \<bar>g\<bar> \<le> 4096 \<and> \<bar>ae_flash_ev_cumul r\<bar> \<le> 100000 \<and> \<bar>ev_idx_expect r\<bar> \<le> 100000"

lemma flash_ev_idx_defined:
  assumes "ev_ok (flash_gain s) (results s)"
  shows "flash_ev_idx s \<noteq> None"
proof -
  let ?g = "flash_gain s" and ?c = "ae_flash_ev_cumul (results s)" and ?e = "ev_idx_expect (results s)"
  have b: "\<bar>?g\<bar> \<le> 4096" "\<bar>?c\<bar> \<le> 100000" "\<bar>?e\<bar> \<le> 100000" using assms by (auto simp: ev_ok_def)
  have m: "\<bar>?c * ?g\<bar> \<le> 100000 * 4096" unfolding abs_mult using b by (intro mult_mono) auto
  have "n div 256 \<le> n" if "0 \<le> n" for n :: int using that by linarith
  from this[of "\<bar>?c * ?g\<bar>"] have "\<bar>(?c * ?g) sdiv 256\<bar> \<le> \<bar>?c * ?g\<bar>"
    by (simp add: signed_divide_int_def abs_mult sgn_if pos_imp_zdiv_nonneg_iff)
  then have "s32 (?g * 100) = Some (?g * 100)" "s32 (?c * ?g) = Some (?c * ?g)"
      "s32 (?e + (?c * ?g) sdiv 256) = Some (?e + (?c * ?g) sdiv 256)"
    using b m by (auto simp: s32_def)
  then show ?thesis unfolding flash_ev_idx_def Let_def by (auto simp del: s32_Some)
qed

lemma flash_phase_next:
  assumes ph: "flash_phase t j s" and j: "0 \<le> j" and d: "1 \<le> flash_delay_frame t"
    and c: "0 \<le> take_pic_start_cnt (ae_settings t)"
    and bound: "take_pic_start_cnt (ae_settings t) + flash_delay_frame t + j + 8 < 2 ^ 31"
    and ev: "ev_ok (flash_gain t) r"
  shows "\<exists>s'. isp_flash_update_status (next_frame r s) = Some s' \<and> flash_phase t (j + 1) s'"
proof -
  let ?d = "flash_delay_frame t" and ?c = "take_pic_start_cnt (ae_settings t)"
  let ?n = "next_frame r s"
  have s: "flash_mode (ae_settings ?n) = 3" "take_picture_flag (ae_settings ?n) = V4L2_TAKE_PICTURE_FLASH"
      "flash_open (ae_settings ?n) = 1" "take_pic_start_cnt (ae_settings ?n) = ?c" "flash_delay_frame ?n = ?d"
      "ae_frame_cnt ?n = word_of_int (?c + (j + 1))" "ev_ok (flash_gain ?n) (results ?n)"
    using ph ev by (auto simp: flash_phase_def next_frame_def Let_def ev_ok_def)
  define F where "F k = (word_of_int (k + ?c + ?d) :: u64)" for k
  have fr: "flash_frame k ?n = Some (F k)" if "0 \<le> k" "k \<le> 7" for k
    using flash_frame_word[of k ?n] s that bound c d j by (simp add: F_def)
  have eq: "ae_frame_cnt ?n = F k \<longleftrightarrow> j + 1 = k + ?d" if "0 \<le> k" "k \<le> 7" for k
    unfolding s(6) F_def by (subst frame_word_eq(1)) (use that bound c d j in auto)
  have ge: "F k \<le> ae_frame_cnt ?n \<longleftrightarrow> k + ?d \<le> j + 1" if "0 \<le> k" "k \<le> 7" for k
    unfolding s(6) F_def by (subst frame_word_eq(2)) (use that bound c d j in auto)
  have le: "ae_frame_cnt ?n \<le> F k \<longleftrightarrow> j + 1 \<le> k + ?d" if "0 \<le> k" "k \<le> 7" for k
    unfolding s(6) F_def by (subst frame_word_eq(2)) (use that bound c d j in auto)
  let ?lock = "\<lambda>b. upd_ae (exposure_lock_update (\<lambda>_. b)) (flash_off ?n)"
  let ?fire = "isp_flash_ctrl V4L2_FLASH_LED_MODE_FLASH (upd_res (ae_flash_led_update (\<lambda>_. V4L2_FLASH_LED_MODE_FLASH))
      (upd_ae (flash_switch_flag_update (\<lambda>_. True)) ?n))"
  have upd: "isp_flash_update_status ?n =
     (if j + 1 = ?d then Option.bind (flash_ev_idx (?lock True)) (\<lambda>i. set_exp_idx i (?lock True))
      else if j + 1 = 1 + ?d then Some ?fire
      else if 4 + ?d \<le> j + 1 \<and> j + 1 \<le> 6 + ?d then Some (mark_flash_ok ?n)
      else if j + 1 = 7 + ?d then Some (?lock False) else Some ?n)"
    by (simp add: s(1-3) isp_flash_update_status_def flash_auto_frame_def frame_between_def Let_def fr eq ge le)
  have pl: "ae_pline_index s \<noteq> None" using ph by (simp add: flash_phase_def Let_def)
  note ph' = ph[unfolded flash_phase_def Let_def]
  note defs = flash_phase_def Let_def next_frame_def flash_cmds_def flash_off_def isp_flash_ctrl_def mark_flash_ok_def
  consider "j + 1 = ?d" | "j + 1 = 1 + ?d" | "4 + ?d \<le> j + 1" "j + 1 \<le> 6 + ?d" | "j + 1 = 7 + ?d"
    | "j + 1 < ?d \<or> 1 + ?d < j + 1 \<and> j + 1 < 4 + ?d \<or> 7 + ?d < j + 1" using j d by linarith
  then show ?thesis
  proof cases
    case 1
    have "ev_ok (flash_gain (?lock True)) (results (?lock True))"
      using s(7) by (simp add: ev_ok_def flash_off_def isp_flash_ctrl_def)
    then obtain i where i: "flash_ev_idx (?lock True) = Some i" using flash_ev_idx_defined by blast
    obtain x where "ae_pline_index s = Some x" using pl by blast
    then have "ae_pline_index (?lock True) = Some x"
      by (simp add: flash_off_def isp_flash_ctrl_def next_frame_def)
    then have s': "set_exp_idx i (?lock True) = Some ((?lock True)\<lparr>ae_pline_index := Some i,
        exp_idx_set := (if ae_lib_ready (?lock True) then exp_idx_set (?lock True) @ [i] else exp_idx_set (?lock True))\<rparr>)"
      unfolding set_exp_idx_def by simp
    have "flash_phase t (j + 1) (?lock True)" using ph' by (simp add: defs 1[symmetric])
    then have "flash_phase t (j + 1) (the (set_exp_idx i (?lock True)))"
      unfolding s' by (simp add: flash_phase_def Let_def)
    then show ?thesis using upd i s' 1 by simp
  next
    case 2
    then show ?thesis using ph' upd d by (auto simp: defs)
  next
    case 3
    then show ?thesis using ph' upd d by (auto simp: defs)
  next
    case 4
    then show ?thesis using ph' upd d by (auto simp: defs)
  next
    case 5
    then show ?thesis using ph' upd d j by (auto simp: defs)
  qed
qed

lemma flash_frames_phase:
  assumes "flash_phase t j s" "0 \<le> j" "1 \<le> flash_delay_frame t" "0 \<le> take_pic_start_cnt (ae_settings t)"
    and "take_pic_start_cnt (ae_settings t) + flash_delay_frame t + j + int (length rs) + 8 < 2 ^ 31"
    and "\<forall>r \<in> set rs. ev_ok (flash_gain t) r"
  shows "\<exists>s'. flash_frames rs s = Some s' \<and> flash_phase t (j + int (length rs)) s'"
  using assms
proof (induction rs arbitrary: s j)
  case (Cons r rs)
  obtain s' where s': "isp_flash_update_status (next_frame r s) = Some s'" "flash_phase t (j + 1) s'"
    using flash_phase_next[OF Cons.prems(1-4)] Cons.prems(5,6) by auto
  then show ?case using Cons.IH[OF s'(2)] Cons.prems by (simp add: add.assoc)
qed simp

section \<open>Properties of the flash\<close>

text \<open>
  C19. The automatic flash, frame by frame. When a picture is requested in the dark, the LED is switched to
  torch; \<open>flash_delay\<close> frames later it is switched off and the exposure is locked, one frame later it
  fires, and seven frames later it is switched off and the exposure unlocked; the picture is marked as
  lit from the fourth frame on. Between those frames no command is sent.
\<close>

theorem flash_auto_sequence:
  assumes "flash_mode (ae_settings s) = 3" "take_picture_flag (ae_settings s) = V4L2_TAKE_PICTURE_FLASH"
    and "flash_open (ae_settings s) = 0" "ev_idx (results s) > ev_idx_max (results s) - 20"
    and "s32 (ev_idx_max (results s) - 20) \<noteq> None" "ae_pline_index s \<noteq> None"
    and "ae_frame_cnt s = word_of_int c" "0 \<le> c" "1 \<le> flash_delay_frame s"
    and "c + flash_delay_frame s + int (length rs) + 8 < 2 ^ 31" "\<forall>r \<in> set rs. ev_ok (flash_gain s) r"
  shows "\<exists>t s'. isp_flash_update_status s = Some t \<and> led t = led s @ [V4L2_FLASH_LED_MODE_TORCH] \<and>
    flash_frames rs t = Some s' \<and> led s' = led t @ flash_cmds (flash_delay_frame s) (int (length rs)) \<and>
    (flash_delay_frame s \<le> int (length rs) \<longrightarrow>
       exposure_lock (ae_settings s') = (int (length rs) < flash_delay_frame s + 7)) \<and>
    (image_flash_ok s' \<longleftrightarrow> image_flash_ok s \<or> flash_delay_frame s + 4 \<le> int (length rs))"
proof -
  let ?t = "flash_switch_open s"
  have "sint (ucast (ae_frame_cnt s) :: u32) = c"
  proof -
    have "ucast (ae_frame_cnt s) = (word_of_int c :: u32)"
      unfolding assms(7) by (simp add: unsigned_ucast_eq ucast_eq take_bit_word_eq_self word_of_int_eq_iff uint_word_of_int_eq)
    then show ?thesis using assms(8-10) by (simp add: sint_sbintrunc' signed_take_bit_int_eq_self)
  qed
  then have t: "flash_delay_frame ?t = flash_delay_frame s" "take_pic_start_cnt (ae_settings ?t) = c"
      "flash_gain ?t = flash_gain s" "image_flash_ok ?t = image_flash_ok s"
      "led ?t = led s @ [V4L2_FLASH_LED_MODE_TORCH]"
    by (simp_all add: flash_switch_open_def isp_flash_open_def isp_flash_ctrl_def Let_def)
  moreover have "isp_flash_update_status s = Some ?t"
    using assms(1-5) by (auto simp: isp_flash_update_status_def s32_def split: if_splits)
  moreover have "flash_phase ?t 0 ?t"
    using assms t by (simp add: flash_phase_def Let_def flash_cmds_def flash_switch_open_def isp_flash_open_def
        isp_flash_ctrl_def)
  ultimately show ?thesis
    using flash_frames_phase[of ?t 0 ?t rs] assms(8-11) by (fastforce simp: flash_phase_def Let_def)
qed

theorem flash_auto_sequence_witness:
  "\<exists>t s'. isp_flash_update_status demo_gen = Some t \<and>
    flash_frames (replicate 12 demo_results) t = Some s' \<and>
    led s' = [V4L2_FLASH_LED_MODE_TORCH, V4L2_FLASH_LED_MODE_NONE, V4L2_FLASH_LED_MODE_FLASH, V4L2_FLASH_LED_MODE_NONE] \<and>
    \<not> exposure_lock (ae_settings s') \<and> image_flash_ok s'"
proof -
  have "\<forall>r \<in> set (replicate 12 demo_results). ev_ok (flash_gain demo_gen) r"
    by (simp add: ev_ok_def demo_results_def demo_gen_def)
  then show ?thesis
    using flash_auto_sequence[of demo_gen 500 "replicate 12 demo_results"]
    by (auto simp: demo_gen_def demo_results_def V4L2_TAKE_PICTURE_FLASH_def s32_def flash_cmds_def)
qed

text \<open>
  In \<open>FLASH_MODE_ON\<close> the LED is switched to torch when the picture is requested, and that is all: no later frame
  sends a command or marks the picture as lit, however many follow.
\<close>

theorem flash_mode_on_never_fires:
  assumes "flash_mode (ae_settings s) = 1" "flash_open (ae_settings s) \<noteq> 0"
  shows "\<exists>s'. flash_frames rs s = Some s' \<and> led s' = led s \<and> image_flash_ok s' = image_flash_ok s"
  using assms
proof (induction rs arbitrary: s)
  case (Cons r rs)
  have "isp_flash_update_status (next_frame r s) = Some (next_frame r s)"
    using Cons.prems by (simp add: isp_flash_update_status_def next_frame_def)
  then show ?case using Cons.IH[of "next_frame r s"] Cons.prems by (simp add: next_frame_def)
qed simp

end
