(* ===== verification/IspModules.thy ===== *)
theory IspModules
  imports IspParams "HOL-Library.Monad_Syntax"
begin

unbundle bit_operations_syntax

text \<open>
  The hardware side of \<open>isp_manage/isp_manage.c\<close> for \<open>ISP_VERSION\<close> 522: the word of module enable flags
  (\<open>__isp_ctx_apply_enable\<close>), the block of memory that the driver loads into the ISP and the tables inside it
  (\<open>__isp_alloc_reg_tbl\<close>), the interval tables of the mesh shading correction and the saturation tables of the
  chromatic aberration correction (\<open>__isp_ctx_cfg_mod\<close>). Addresses are natural numbers; \<open>None\<close> is a store outside
  the allocated block. \<open>max\<close> and \<open>clamp\<close> are the macros of \<open>isp_math_util.h\<close> on values that fit an \<open>int\<close>.
\<close>

section \<open>Module enable flags\<close>

definition ISP_FEATURES_AE :: u32 where "ISP_FEATURES_AE = 0x1"
definition ISP_FEATURES_LINEAR :: u32 where "ISP_FEATURES_LINEAR = 0x2"
definition ISP_FEATURES_WDR :: u32 where "ISP_FEATURES_WDR = 0x4"
definition ISP_FEATURES_DPC :: u32 where "ISP_FEATURES_DPC = 0x8"
definition ISP_FEATURES_D2D :: u32 where "ISP_FEATURES_D2D = 0x10"
definition ISP_FEATURES_D3D :: u32 where "ISP_FEATURES_D3D = 0x20"
definition ISP_FEATURES_AWB :: u32 where "ISP_FEATURES_AWB = 0x40"
definition ISP_FEATURES_WB :: u32 where "ISP_FEATURES_WB = 0x80"
definition ISP_FEATURES_LSC :: u32 where "ISP_FEATURES_LSC = 0x100"
definition ISP_FEATURES_GAMMA :: u32 where "ISP_FEATURES_GAMMA = 0x200"
definition ISP_FEATURES_SHARP :: u32 where "ISP_FEATURES_SHARP = 0x400"
definition ISP_FEATURES_AF :: u32 where "ISP_FEATURES_AF = 0x800"
definition ISP_FEATURES_RGB2RGB :: u32 where "ISP_FEATURES_RGB2RGB = 0x1000"
definition ISP_FEATURES_RGB_DRC :: u32 where "ISP_FEATURES_RGB_DRC = 0x2000"
definition ISP_FEATURES_PLTM :: u32 where "ISP_FEATURES_PLTM = 0x4000"
definition ISP_FEATURES_CEM :: u32 where "ISP_FEATURES_CEM = 0x8000"
definition ISP_FEATURES_AFS :: u32 where "ISP_FEATURES_AFS = 0x10000"
definition ISP_FEATURES_HIST :: u32 where "ISP_FEATURES_HIST = 0x20000"
definition ISP_FEATURES_BLC :: u32 where "ISP_FEATURES_BLC = 0x40000"
definition ISP_FEATURES_DG :: u32 where "ISP_FEATURES_DG = 0x80000"
definition ISP_FEATURES_SO :: u32 where "ISP_FEATURES_SO = 0x100000"
definition ISP_FEATURES_CTC :: u32 where "ISP_FEATURES_CTC = 0x200000"
definition ISP_FEATURES_CONTRAST :: u32 where "ISP_FEATURES_CONTRAST = 0x400000"
definition ISP_FEATURES_CNR :: u32 where "ISP_FEATURES_CNR = 0x800000"
definition ISP_FEATURES_SATU :: u32 where "ISP_FEATURES_SATU = 0x1000000"
definition ISP_FEATURES_CFA :: u32 where "ISP_FEATURES_CFA = 0x2000000"
definition ISP_FEATURES_MODE :: u32 where "ISP_FEATURES_MODE = 0x4000000"
definition ISP_FEATURES_LCA :: u32 where "ISP_FEATURES_LCA = 0x8000000"
definition ISP_FEATURES_GCA :: u32 where "ISP_FEATURES_GCA = 0x10000000"
definition ISP_FEATURES_MSC :: u32 where "ISP_FEATURES_MSC = 0x20000000"
definition ISP_FEATURES_RGB2YUV :: u32 where "ISP_FEATURES_RGB2YUV = 0x40000000"

lemmas isp_features =
  ISP_FEATURES_AE_def ISP_FEATURES_LINEAR_def ISP_FEATURES_WDR_def ISP_FEATURES_DPC_def
  ISP_FEATURES_D2D_def ISP_FEATURES_D3D_def ISP_FEATURES_AWB_def ISP_FEATURES_WB_def
  ISP_FEATURES_LSC_def ISP_FEATURES_GAMMA_def ISP_FEATURES_SHARP_def ISP_FEATURES_AF_def
  ISP_FEATURES_RGB2RGB_def ISP_FEATURES_RGB_DRC_def ISP_FEATURES_PLTM_def ISP_FEATURES_CEM_def
  ISP_FEATURES_AFS_def ISP_FEATURES_HIST_def ISP_FEATURES_BLC_def ISP_FEATURES_DG_def
  ISP_FEATURES_SO_def ISP_FEATURES_CTC_def ISP_FEATURES_CONTRAST_def ISP_FEATURES_CNR_def
  ISP_FEATURES_SATU_def ISP_FEATURES_CFA_def ISP_FEATURES_MODE_def ISP_FEATURES_LCA_def
  ISP_FEATURES_GCA_def ISP_FEATURES_MSC_def ISP_FEATURES_RGB2YUV_def

definition ISP_CTX_MODULE_EN :: "u32 \<Rightarrow> u32 \<Rightarrow> u32 \<Rightarrow> u32" where
  "ISP_CTX_MODULE_EN en_bit feature flag = (if en_bit \<noteq> 0 then flag OR feature else flag AND NOT feature)"

text \<open>The switches in the order in which \<open>__isp_ctx_apply_enable\<close> handles them.\<close>

definition module_switches :: "isp_test_param \<Rightarrow> (u32 \<times> u32) list" where
  "module_switches t = [
     (sharp_en t, ISP_FEATURES_SHARP), (contrast_en t, ISP_FEATURES_CONTRAST), (denoise_en t, ISP_FEATURES_D2D),
     (drc_en t, ISP_FEATURES_RGB_DRC), (lsc_en t, ISP_FEATURES_LSC), (msc_en t, ISP_FEATURES_MSC),
     (1, ISP_FEATURES_RGB2YUV), (gamma_en t, ISP_FEATURES_GAMMA), (cm_en t, ISP_FEATURES_RGB2RGB),
     (blc_en t, ISP_FEATURES_BLC), (wb_en t, ISP_FEATURES_WB), (otf_dpc_en t, ISP_FEATURES_DPC),
     (cfa_en t, ISP_FEATURES_CFA), (tdf_en t, ISP_FEATURES_D3D), (cnr_en t, ISP_FEATURES_CNR),
     (lca_en t, ISP_FEATURES_LCA), (gca_en t, ISP_FEATURES_GCA), (satur_en t, ISP_FEATURES_SATU),
     (linear_en t, ISP_FEATURES_LINEAR), (dig_gain_en t, ISP_FEATURES_DG), (cem_en t, ISP_FEATURES_CEM),
     (pltm_en t, ISP_FEATURES_PLTM), (wdr_en t, ISP_FEATURES_WDR), (so_en t, ISP_FEATURES_SO),
     (ctc_en t, ISP_FEATURES_CTC), (afs_en t, ISP_FEATURES_AFS), (ae_en t, ISP_FEATURES_AE),
     (awb_en t, ISP_FEATURES_AWB), (af_en t, ISP_FEATURES_AF), (hist_en t, ISP_FEATURES_HIST)]"

text \<open>The test parameters (\<open>wdr_en\<close> is cleared for a sensor without WDR), the flag word and \<open>isp_lib_log_param\<close>.\<close>

definition isp_ctx_apply_enable :: "u32 \<Rightarrow> isp_test_param \<Rightarrow> u32 \<Rightarrow> isp_test_param \<times> u32 \<times> u32" where
  "isp_ctx_apply_enable sensor_wdr_mode t flag =
     (let t1 = (if sensor_wdr_mode = 0 then t\<lparr>wdr_en := 0\<rparr> else t);
          flag1 = fold (\<lambda>(en, f). ISP_CTX_MODULE_EN en f) (module_switches t1) flag
      in (t1, flag1 OR ISP_FEATURES_MODE, isp_log_param t1))"

lemma module_en_self: "ISP_CTX_MODULE_EN en f flag AND f = (if en \<noteq> 0 then f else 0)"
  by (rule bit_word_eqI) (auto simp: ISP_CTX_MODULE_EN_def bit_simps)

lemma module_en_fold_other:
  assumes "\<forall>(en, g) \<in> set sw. f AND g = 0"
  shows "fold (\<lambda>(en, f). ISP_CTX_MODULE_EN en f) sw flag AND f = flag AND f"
  using assms
proof (induction sw arbitrary: flag)
  case (Cons a sw)
  obtain en g where a: "a = (en, g)" by fastforce
  have fg: "f AND g = 0" using Cons.prems a by simp
  have "ISP_CTX_MODULE_EN en g flag AND f = flag AND f"
    using fg by (auto simp: ISP_CTX_MODULE_EN_def bit_eq_iff bit_simps)
  then show ?case using Cons a by simp
qed simp

lemma module_en_fold:
  assumes "sorted_wrt (\<lambda>(en1, f1) (en2, f2). f1 AND f2 = 0) sw" "(en, f) \<in> set sw"
  shows "fold (\<lambda>(en, f). ISP_CTX_MODULE_EN en f) sw flag AND f = (if en \<noteq> 0 then f else 0)"
  using assms
proof (induction sw arbitrary: flag)
  case (Cons a sw)
  obtain en1 f1 where a: "a = (en1, f1)" by fastforce
  show ?case
  proof (cases "(en, f) \<in> set sw")
    case True
    then show ?thesis using Cons by simp
  next
    case False
    then have "en1 = en" "f1 = f" using Cons.prems a by auto
    moreover have "fold (\<lambda>(en, f). ISP_CTX_MODULE_EN en f) sw (ISP_CTX_MODULE_EN en f flag) AND f =
        ISP_CTX_MODULE_EN en f flag AND f"
      using Cons.prems a \<open>f1 = f\<close> by (intro module_en_fold_other) auto
    ultimately show ?thesis
      using a by (simp add: module_en_self)
  qed
qed simp

lemma module_switches_disjoint:
  "sorted_wrt (\<lambda>(en1, f1) (en2, f2). f1 AND f2 = 0) (module_switches t)"
  by (simp add: module_switches_def isp_features)

text \<open>
  Applying the switches leaves each module's bit equal to its switch, whatever order they are written in
  and whatever the word held before: the features are distinct bits, so no later switch undoes an earlier
  one. The mode bit is always set, the only bit that no module owns is kept, and WDR cannot be on for a
  sensor without it.
\<close>

theorem module_flags_follow_switches:
  assumes "isp_ctx_apply_enable sensor_wdr_mode t flag = (t', flag', log)"
  shows "(\<forall>(en, f) \<in> set (module_switches t'). flag' AND f = (if en \<noteq> 0 then f else 0)) \<and>
         flag' AND ISP_FEATURES_MODE = ISP_FEATURES_MODE \<and> bit flag' 31 = bit flag 31 \<and>
         (sensor_wdr_mode = 0 \<longrightarrow> flag' AND ISP_FEATURES_WDR = 0) \<and>
         (sensor_wdr_mode \<noteq> 0 \<longrightarrow> t' = t)"
proof -
  let ?sw = "fold (\<lambda>(en, f). ISP_CTX_MODULE_EN en f) (module_switches t')"
  have t': "t' = (if sensor_wdr_mode = 0 then t\<lparr>wdr_en := 0\<rparr> else t)"
    and flag': "flag' = ?sw flag OR ISP_FEATURES_MODE"
    using assms by (auto simp: isp_ctx_apply_enable_def Let_def split: if_splits)
  have mode: "\<forall>(en, f) \<in> set (module_switches t'). f AND ISP_FEATURES_MODE = 0"
    by (simp add: module_switches_def isp_features)
  have top: "\<forall>(en, f) \<in> set (module_switches t'). 0x80000000 AND f = 0"
    by (simp add: module_switches_def isp_features)
  have each: "flag' AND f = (if en \<noteq> 0 then f else 0)" if "(en, f) \<in> set (module_switches t')" for en f
  proof -
    have "flag' AND f = (?sw flag AND f) OR (f AND ISP_FEATURES_MODE)"
      by (simp add: flag' bit_eq_iff bit_simps) blast
    also have "\<dots> = (if en \<noteq> 0 then f else 0)"
      using module_en_fold[OF module_switches_disjoint that] mode that by auto
    finally show ?thesis .
  qed
  have "?sw flag AND 0x80000000 = flag AND 0x80000000"
    using top by (rule module_en_fold_other)
  then have "flag' AND 0x80000000 = flag AND 0x80000000"
    by (simp add: flag' isp_features bit.conj_disj_distrib2)
  then have "bit flag' 31 = bit flag 31"
    using bit_and_iff[of flag' "0x80000000" 31] bit_and_iff[of flag "0x80000000" 31] by simp
  moreover have "flag' AND ISP_FEATURES_WDR = 0" if "sensor_wdr_mode = 0"
    using each[of 0 ISP_FEATURES_WDR] that by (simp add: t' module_switches_def)
  moreover have "flag' AND ISP_FEATURES_MODE = ISP_FEATURES_MODE"
    unfolding flag' by (rule bit_word_eqI) (auto simp: bit_simps)
  moreover have "sensor_wdr_mode \<noteq> 0 \<longrightarrow> t' = t" by (simp add: t')
  ultimately show ?thesis
    using each by blast
qed

theorem module_flags_follow_switches_witness:
  "isp_ctx_apply_enable 0 (zero_test\<lparr>ae_en := 1, wdr_en := 1\<rparr>) 0x80000004 =
     (zero_test\<lparr>ae_en := 1\<rparr>, 0xC4000001, 0) \<and> bit (0xC4000001 :: u32) 31"
proof -
  have "isp_ctx_apply_enable 0 (zero_test\<lparr>ae_en := 1, wdr_en := 1\<rparr>) 0x80000004 =
     (zero_test\<lparr>ae_en := 1\<rparr>, 0xC4000001, 0)"
    by code_simp
  from module_flags_follow_switches[OF this] this show ?thesis by simp
qed

section \<open>The memory loaded into the ISP\<close>

definition ISP_LOAD_DRAM_SIZE :: nat where "ISP_LOAD_DRAM_SIZE = 0x13240"
definition ISP_LOAD_REG_SIZE :: nat where "ISP_LOAD_REG_SIZE = 0x1000"
definition ISP_FE_TABLE_SIZE :: nat where "ISP_FE_TABLE_SIZE = 0x600"
definition ISP_BAYER_TABLE_SIZE :: nat where "ISP_BAYER_TABLE_SIZE = 0x6540"
definition ISP_RGB_TABLE_SIZE :: nat where "ISP_RGB_TABLE_SIZE = 0x1c00"
definition ISP_YUV_TABLE_SIZE :: nat where "ISP_YUV_TABLE_SIZE = 0x1700"
definition ISP_DBG_TABLE_SIZE :: nat where "ISP_DBG_TABLE_SIZE = 0x8400"

lemmas isp_load_sizes = ISP_LOAD_DRAM_SIZE_def ISP_LOAD_REG_SIZE_def ISP_FE_TABLE_SIZE_def
  ISP_BAYER_TABLE_SIZE_def ISP_RGB_TABLE_SIZE_def ISP_YUV_TABLE_SIZE_def ISP_DBG_TABLE_SIZE_def

text \<open>The initialised part of \<open>isp_default_reg\<close>; the rest of the array is zero.\<close>

definition isp_default_reg :: "u32 list" where
  "isp_default_reg = [
     0x173, 0x530000, 0xfff00000, 0x0, 0x0, 0x0, 0x0, 0x0,
     0x0, 0x0, 0x0, 0x0, 0x1f01ba90, 0x1f01ba90, 0x1f018000, 0x0,
     0x1451, 0x0, 0x8000010a, 0x0, 0x0, 0x0, 0x0, 0x0,
     0x0, 0x1f0010, 0x0, 0x0, 0x0, 0x0, 0x0, 0x0,
     0x0, 0x4224, 0x0, 0x0, 0x0, 0x0, 0x0, 0x0,
     0x0, 0x0, 0x0, 0x0, 0x1ce01cd, 0xffff, 0x0, 0x0,
     0x0, 0x0, 0x0, 0x0, 0x0, 0x0, 0x0, 0x0,
     0x0, 0x0, 0x0, 0x0, 0x0, 0x0, 0x0, 0xcc0,
     0x0, 0x200020, 0x200020, 0x0, 0x0, 0x0, 0x0, 0x0,
     0x0, 0x0, 0x0, 0x0, 0x0, 0x0, 0x0, 0x0,
     0x0, 0x0, 0x0, 0x0, 0x0, 0x0, 0x0, 0x0,
     0x0, 0x0, 0x0, 0x0, 0x0, 0x0, 0x0, 0x0,
     0x0, 0x0, 0x0, 0x0, 0x0, 0x0, 0x0, 0x0,
     0x0, 0x0, 0x0, 0x0, 0xa0, 0x0, 0x0, 0x0,
     0x0, 0x0, 0x0, 0x0, 0x0, 0x0, 0x0, 0x0,
     0x4380780, 0x4380780, 0x0, 0x200020, 0x200020, 0x0, 0x0, 0x0,
     0xf000200, 0x1390010, 0x3c0c00, 0x0, 0x0, 0x0, 0x0, 0x0,
     0x0, 0x0, 0x0, 0x0, 0x0, 0x0, 0x0, 0x0,
     0x0, 0x0, 0x0, 0x0, 0x0, 0x0, 0x0, 0x0,
     0x4000804, 0x0, 0x0, 0x0, 0x136003c, 0x106, 0x5040, 0x0,
     0x0, 0x0, 0x0, 0x0, 0x0, 0x0, 0x0, 0x0,
     0xb4c8dc, 0x1c181410, 0x203040, 0x8360410a, 0x0, 0x0, 0x0, 0x0,
     0x0, 0x0, 0x0, 0x0, 0x1f1f1fff, 0x20000, 0xff00ff, 0x1900ff,
     0x0, 0x0, 0x0, 0x0, 0x0, 0x0, 0x0, 0x0,
     0x0, 0x0, 0x0, 0x0, 0x0, 0x0, 0x0, 0x0,
     0x0, 0x0, 0x0, 0x0, 0x0, 0x0, 0x0, 0x0,
     0x200020, 0x200020, 0x0, 0x0, 0x0, 0x0, 0x0, 0x0,
     0x4000400, 0x4000400, 0x0, 0x0, 0x1000100, 0x1000100, 0xfff, 0x0,
     0x0, 0x0, 0x0, 0x0, 0x30000000, 0x0, 0x0, 0x0,
     0x0, 0x0, 0x0, 0x0, 0x40070f01, 0xfcff0080, 0x1f173c2d, 0x1845c8,
     0x0, 0x0, 0x0, 0x0, 0x0, 0x0, 0x0, 0x0,
     0x0, 0x0, 0x0, 0x0, 0x0, 0x0, 0x0, 0x0,
     0x80, 0x0, 0x0, 0x0, 0x0, 0x0, 0x0, 0x0,
     0x800080, 0x800080, 0x41f0404, 0x0, 0x140, 0x1f1f0018, 0x400040, 0x400040,
     0x0, 0x0, 0x0, 0x0, 0x0, 0x0, 0x0, 0x0,
     0x0, 0x0, 0x0, 0x0, 0x10, 0x0, 0x0, 0x0,
     0x0, 0x0, 0x0, 0x0, 0x484, 0x0, 0x0, 0x0,
     0x0, 0x0, 0x0, 0x0, 0x208100a0, 0x42cc00ab, 0x8700f0, 0x1e50111,
     0xffdffbff, 0x100, 0x100, 0x100, 0x5100, 0xf2d33b98, 0x0, 0x0,
     0x0, 0x0, 0x0, 0x0, 0x0, 0x0, 0x0, 0x0,
     0x0, 0x0, 0x0, 0x0, 0x0, 0x0, 0x0, 0x0,
     0x2040107, 0x7680064, 0x1c206d6, 0x68701c2, 0x7b7, 0x2000040, 0x200, 0x0,
     0x0, 0x0, 0x0, 0x0, 0x0, 0x0, 0x0, 0x0,
     0x0, 0x0, 0x0, 0x0, 0x0, 0x0, 0x0, 0x0,
     0x0, 0x0, 0x0, 0x0, 0x0, 0x0, 0x0, 0x0,
     0x0, 0x0, 0x0, 0x0, 0x0, 0x0, 0x0, 0x0,
     0x0, 0x0, 0x0, 0x0, 0x0, 0x0, 0x0, 0x0,
     0x0, 0x0, 0x0, 0x0, 0x0, 0x0, 0x0, 0x0,
     0xf0013, 0x0, 0x0, 0x0, 0x1080000, 0x8600f0, 0x0, 0x39ccf1ac,
     0x29391, 0x107ca5bd, 0x37e52759, 0x2d0035, 0xc5027b, 0x4d009d, 0x710088, 0x2fb00511,
     0x2cc00414, 0x0, 0x0, 0x0, 0x0, 0x0, 0x0, 0x0,
     0x0, 0x0, 0x0, 0xf0, 0x0, 0x0, 0x0, 0x0,
     0x0, 0x0, 0x0, 0x0, 0xff00ff, 0xff, 0xf0013, 0x0,
     0x0, 0x0, 0x0, 0x0, 0x0, 0x0, 0x0, 0x0,
     0x80008, 0x0, 0x0, 0x0, 0x0, 0x0, 0x0, 0x0,
     0x8, 0x0, 0x0, 0x0, 0x0, 0x0, 0x0, 0x0,
     0x0, 0x0, 0x0, 0x0, 0x0, 0x0, 0x0, 0x0,
     0x0, 0x0, 0x0, 0x0, 0x0, 0x0, 0x0, 0x0,
     0x0, 0x0, 0x0, 0x0, 0x0, 0x0, 0x0, 0x0,
     0x0, 0x0, 0x0, 0x0, 0x80008, 0x80008, 0x80008, 0x80008,
     0x80008, 0x80008, 0x80008, 0x80008, 0x80008, 0x80008, 0x80008, 0x80008,
     0x80008, 0x80008, 0x80008, 0x80008, 0x8, 0x80008, 0x80008, 0x80008,
     0x80008, 0x80008, 0x80008, 0x80008, 0x80008, 0x80008, 0x80008, 0x80008,
     0x80008, 0x80008, 0x80008, 0x80008, 0x80008, 0x8, 0x80008, 0x80008,
     0x80008, 0x80008, 0x80008, 0x80008, 0x80008, 0x80008, 0x80008, 0x80008,
     0x80008, 0x80008, 0x80008, 0x80008, 0x80008, 0x80008, 0x8, 0x0,
     0x0, 0x0, 0x0, 0x0, 0x0, 0x0, 0x0, 0x0,
     0x0, 0x0, 0x0, 0x1000100, 0x1000100, 0x1000100, 0x1000100, 0x1000100,
     0x1000100, 0x1000100, 0x1000100, 0x1000100, 0x1000100, 0x1000100, 0x1000100, 0x1000100,
     0x1000100, 0x1000100, 0x1000100, 0x1000100, 0x1000100, 0x1000100, 0x1000100, 0x1000100,
     0x1000100, 0x1000100, 0x1000100, 0x1000100, 0x1000100, 0x1000100, 0x1000100, 0x1000100,
     0x1000100, 0x1000100, 0x1000100, 0x1000100, 0x1000100, 0x1000100, 0x1000100, 0x1000100,
     0x1000100, 0x1000100, 0x1000100, 0x1000100, 0x1000100, 0x1000100, 0x1000100, 0x1000100,
     0x1000100, 0x1000100, 0x1000100, 0x1000100, 0x1000100, 0x1000100, 0x1000100, 0x1000100,
     0x1000100, 0x1000100, 0x1000100, 0x1000100, 0x1000100, 0x1000100, 0x1000100, 0x1000100,
     0x1000100, 0x1000100, 0x1000100, 0x1000100, 0x1000100, 0x1000100, 0x1000100, 0x1000100,
     0x1000100, 0x1000100, 0x1000100, 0x1000100, 0x1000100, 0x80808080, 0x80808080, 0x80808080,
     0x80808080, 0x80808080, 0x80808080, 0x80808080, 0x80808080, 0x80808080, 0x80008, 0x80008,
     0x80008, 0x80008, 0x80008, 0x80008, 0x80008, 0x80008, 0x80008, 0x80008,
     0x80008, 0x80008, 0x80008, 0x80008, 0x80008, 0x80008, 0x8, 0x80008,
     0x80008, 0x80008, 0x80008, 0x80008, 0x80008, 0x80008, 0x80008, 0x80008,
     0x80008, 0x80008, 0x80008, 0x80008, 0x80008, 0x80008, 0x80008, 0x8,
     0x80008, 0x80008, 0x80008, 0x80008, 0x80008, 0x80008, 0x80008, 0x80008,
     0x80008, 0x80008, 0x80008, 0x80008, 0x80008, 0x80008, 0x80008, 0x80008,
     0x8, 0x80008, 0x80008, 0x80008, 0x80008, 0x80008, 0x80008, 0x80008,
     0x80008, 0x80008, 0x80008, 0x80008, 0x80008, 0x80008, 0x80008, 0x80008,
     0x80008, 0x8, 0x0, 0x0, 0x0, 0x0, 0x0, 0x0,
     0x0, 0x0, 0x0, 0x0, 0x0, 0x0, 0x0, 0x0,
     0x0, 0x0, 0x0, 0x0, 0x0, 0x0, 0x0, 0x0,
     0x0, 0x0, 0x0, 0x0, 0x0, 0x0, 0x0, 0x0,
     0x0, 0x0, 0x0, 0x0, 0x0, 0x0, 0x0, 0x0,
     0x0, 0x0, 0x0, 0x0, 0x0, 0x0, 0x0, 0x0,
     0x0, 0x0, 0x0, 0x0, 0x0, 0x0, 0x0, 0x0,
     0x0, 0x0, 0x0, 0x0, 0x0, 0x0, 0x0, 0x0,
     0x0, 0x0, 0x0, 0x0, 0x0, 0x0, 0x0, 0x0,
     0x0, 0x0, 0x0, 0x0, 0x0, 0x0, 0x0, 0x0,
     0x0, 0x0, 0x0, 0x0, 0x0, 0x0, 0x0, 0x0,
     0x0, 0x0, 0x0, 0x0, 0x0, 0x0, 0x0, 0x0,
     0x0, 0x0, 0x0, 0x0, 0x0, 0x0, 0x0, 0x0,
     0x0, 0x0, 0x0, 0x0, 0x0, 0x0, 0x0, 0x0,
     0x0, 0x0, 0x0, 0x0]"

record isp_tables =
  fe_table :: nat
  bayer_table :: nat
  linear_table :: nat
  wdr_table :: nat
  lens_table :: nat
  tdnf_table :: nat
  pltm_table :: nat
  msc_table :: nat
  rgb_table :: nat
  saturation_table :: nat
  drc_table :: nat
  gamma_table :: nat
  dehaze_table :: nat
  yuv_table :: nat
  cem_table :: nat

definition store_at :: "nat \<Rightarrow> byte list \<Rightarrow> byte list \<Rightarrow> byte list option" where
  "store_at i bs m = (if i + length bs \<le> length m then Some (take i m @ bs @ drop (i + length bs) m) else None)"

text \<open>
  \<open>__isp_alloc_reg_tbl\<close> on what \<open>malloc\<close> returns, an address and the bytes found there. The result is the return
  value with the tables and the memory.
\<close>

definition isp_alloc_reg_tbl :: "(nat \<times> byte list) option \<Rightarrow> (int \<times> (nat \<times> isp_tables \<times> byte list) option) option" where
  "isp_alloc_reg_tbl blk = (case blk of
       None \<Rightarrow> Some (- 1, None)
     | Some (base, m) \<Rightarrow> do {
         m \<leftarrow> store_at 0 (replicate ISP_LOAD_REG_SIZE 0) m;
         m \<leftarrow> store_at 0 (enc32s (isp_default_reg @ replicate (1024 - length isp_default_reg) 0)) m;
         let fe = base + ISP_LOAD_REG_SIZE;
         m \<leftarrow> store_at (fe - base) (replicate ISP_FE_TABLE_SIZE 0) m;
         let bayer = fe + ISP_FE_TABLE_SIZE;
         m \<leftarrow> store_at (bayer - base) (replicate ISP_BAYER_TABLE_SIZE 0) m;
         let rgb = bayer + ISP_BAYER_TABLE_SIZE;
         m \<leftarrow> store_at (rgb - base) (replicate ISP_RGB_TABLE_SIZE 0) m;
         let yuv = rgb + ISP_RGB_TABLE_SIZE;
         m \<leftarrow> store_at (yuv - base) (replicate ISP_YUV_TABLE_SIZE 0) m;
         Some (0, Some (base, \<lparr>fe_table = fe, bayer_table = bayer, linear_table = bayer, wdr_table = bayer,
           lens_table = bayer + 0x4600, tdnf_table = bayer, pltm_table = bayer, msc_table = bayer + 0x5600,
           rgb_table = rgb, saturation_table = rgb, drc_table = rgb + 0x200, gamma_table = rgb + 0x400,
           dehaze_table = rgb + 0x1400, yuv_table = yuv, cem_table = yuv\<rparr>, m))
       })"

text \<open>
  The tables that occupy memory, with the sizes of \<open>isp_comm.h\<close>: three linear curves of \<open>0x200\<close>
  bytes, 256 entries of four 16-bit lens gains, the mesh, the saturation, tone and gamma curves, and the colour
  enhancement table. The WDR, noise and local tone tables have size 0 in this version.
\<close>

definition table_ranges :: "isp_tables \<Rightarrow> (nat \<times> nat) list" where
  "table_ranges t = [(linear_table t, 0x600), (lens_table t, 0x800), (msc_table t, 0xf20),
     (saturation_table t, 0x200), (drc_table t, 0x200), (gamma_table t, 0x1000), (dehaze_table t, 0x800),
     (cem_table t, 0x1700)]"

lemma length_default_reg: "length isp_default_reg = 804"
  by (simp add: isp_default_reg_def)

lemma store_at_bounds: "store_at i bs m = Some m' \<Longrightarrow> length m' = length m"
  by (auto simp: store_at_def split: if_splits)

lemma alloc_succeeds:
  assumes "length m = ISP_LOAD_DRAM_SIZE"
  shows "\<exists>t m'. isp_alloc_reg_tbl (Some (base, m)) = Some (0, Some (base, t, m'))"
  using assms by (simp add: isp_alloc_reg_tbl_def store_at_def isp_load_sizes length_default_reg Let_def)

text \<open>
  C31. The block the library allocates is big enough: no store leaves it, the registers start with the default
  values, every table starts zeroed, and the tables lie one behind the other without overlap between the
  register image and the debug area. The debug area, the last \<open>0x8400\<close> bytes, keeps what \<open>malloc\<close> left there.
\<close>

theorem load_memory_layout:
  assumes "length m = ISP_LOAD_DRAM_SIZE"
  shows "\<exists>t m'. isp_alloc_reg_tbl (Some (base, m)) = Some (0, Some (base, t, m')) \<and> length m' = length m \<and>
     dec32s (take ISP_LOAD_REG_SIZE m') = isp_default_reg @ replicate 220 0 \<and>
     set (slice m' ISP_LOAD_REG_SIZE (ISP_LOAD_DRAM_SIZE - ISP_DBG_TABLE_SIZE - ISP_LOAD_REG_SIZE)) = {0} \<and>
     drop (ISP_LOAD_DRAM_SIZE - ISP_DBG_TABLE_SIZE) m' = drop (ISP_LOAD_DRAM_SIZE - ISP_DBG_TABLE_SIZE) m \<and>
     sorted_wrt (\<lambda>(p, n) (q, k). p + n \<le> q) (table_ranges t) \<and>
     (\<forall>(p, n) \<in> set (table_ranges t). base + ISP_LOAD_REG_SIZE \<le> p \<and>
        p + n \<le> base + ISP_LOAD_DRAM_SIZE - ISP_DBG_TABLE_SIZE)"
proof -
  let ?regs = "isp_default_reg @ replicate 220 0"
  let ?m = "enc32s ?regs @ replicate 0x600 0 @ replicate 0x6540 0 @ replicate 0x1c00 0 @ replicate 0x1700 0 @
    drop 0xae40 m"
  let ?fe = "base + 0x1000" let ?bayer = "base + 0x1600" let ?rgb = "base + 0x7b40" let ?yuv = "base + 0x9740"
  let ?t = "\<lparr>fe_table = ?fe, bayer_table = ?bayer, linear_table = ?bayer, wdr_table = ?bayer,
           lens_table = ?bayer + 0x4600, tdnf_table = ?bayer, pltm_table = ?bayer, msc_table = ?bayer + 0x5600,
           rgb_table = ?rgb, saturation_table = ?rgb, drc_table = ?rgb + 0x200, gamma_table = ?rgb + 0x400,
           dehaze_table = ?rgb + 0x1400, yuv_table = ?yuv, cem_table = ?yuv\<rparr>"
  have lr: "length (enc32s ?regs) = 4096" by (simp add: length_default_reg)
  have m: "length m = 78400" using assms by (simp add: isp_load_sizes)
  have run: "isp_alloc_reg_tbl (Some (base, m)) = Some (0, Some (base, ?t, ?m))"
    using lr m
    by (simp add: isp_alloc_reg_tbl_def store_at_def isp_load_sizes length_default_reg Let_def)
  have regs: "take 4096 ?m = enc32s ?regs" using lr by simp
  show ?thesis
    using run m regs
    by (intro exI[of _ ?t] exI[of _ ?m])
      (simp add: isp_load_sizes length_default_reg table_ranges_def slice_def)
qed

theorem load_memory_layout_witness:
  "length (replicate 0x13240 (7 :: byte)) = ISP_LOAD_DRAM_SIZE \<and>
   (\<exists>t m'. isp_alloc_reg_tbl (Some (0x8000, replicate 0x13240 7)) = Some (0, Some (0x8000, t, m')) \<and>
      drop 0xae40 m' = replicate 0x8400 7)"
  using load_memory_layout[where m = "replicate 0x13240 (7 :: byte)" and base = 32768]
  by (auto simp: isp_load_sizes)

section \<open>Interval tables of the mesh shading correction\<close>

definition ISP_MSC_TBL_LUT_SIZE :: nat where "ISP_MSC_TBL_LUT_SIZE = 11"
definition ISP_MSC_TBL_LUT_DLT_SIZE :: nat where "ISP_MSC_TBL_LUT_DLT_SIZE = 12"

definition clamp :: "int \<Rightarrow> int \<Rightarrow> int \<Rightarrow> int" where
  "clamp v lo hi = (let v = (if v < lo then lo else v) in if v > hi then hi else v)"

text \<open>The reciprocals at an edge of the mesh and between two cells.\<close>

definition msc_edge :: "u16 \<Rightarrow> u16" where
  "msc_edge a = word_of_int (clamp (4096 div max (uint a) 1) 0 4095)"

definition msc_inner :: "u16 \<Rightarrow> u16 \<Rightarrow> u16" where
  "msc_inner a b = word_of_int (clamp (8192 div max (uint a + uint b) 1) 0 4095)"

text \<open>The first loop of the MSC block: the parameters, 32 bits wide, are truncated into the 12 entries.\<close>

definition msc_lut :: "u32 list \<Rightarrow> u16 list \<Rightarrow> u16 list" where
  "msc_lut param lut = fold (\<lambda>i l. l[i := ucast (param ! i)]) [0..<ISP_MSC_TBL_LUT_SIZE] lut"

definition msc_dlt_lut :: "u32 \<Rightarrow> u16 list \<Rightarrow> u16 list \<Rightarrow> u16 list" where
  "msc_dlt_lut mode lut dlt =
     (if sint mode \<ge> 4
      then fold (\<lambda>i d. d[i := msc_inner (lut ! i) (lut ! (i - 1))]) [1..<ISP_MSC_TBL_LUT_DLT_SIZE]
             (dlt[0 := msc_edge (lut ! 0), ISP_MSC_TBL_LUT_DLT_SIZE - 1 := msc_edge (lut ! (ISP_MSC_TBL_LUT_SIZE - 1))])
      else fold (\<lambda>i d. d[i := msc_inner (lut ! i) (lut ! (i - 1))]) [1..<8]
             (dlt[0 := msc_edge (lut ! 0), 8 := msc_edge (lut ! 7)]))"

text \<open>What the table means: for \<open>n\<close> cells, edge reciprocals outside and inner ones between the cells.\<close>

definition msc_dlt_spec :: "nat \<Rightarrow> u16 list \<Rightarrow> nat \<Rightarrow> u16" where
  "msc_dlt_spec n lut i = (if i = 0 then msc_edge (lut ! 0) else if i = n then msc_edge (lut ! (n - 1))
     else msc_inner (lut ! i) (lut ! (i - 1)))"

lemma fold_update_length [simp]: "length (fold (\<lambda>i l. l[i := f i]) is l) = length l"
  by (induction "is" arbitrary: l) auto

lemma fold_update_nth:
  "k < length l \<Longrightarrow> distinct is \<Longrightarrow> fold (\<lambda>i l. l[i := f i]) is l ! k = (if k \<in> set is then f k else l ! k)"
proof (induction "is" arbitrary: l)
  case (Cons i "is")
  then show ?case by (cases "k = i") auto
qed simp

lemma msc_lut_nth:
  assumes "length lut = 12" "k < 12"
  shows "msc_lut param lut ! k = (if k < 11 then ucast (param ! k) else lut ! 11)"
  using assms by (auto simp: msc_lut_def ISP_MSC_TBL_LUT_SIZE_def fold_update_nth less_Suc_eq numeral_eq_Suc)



section \<open>Saturation tables of the chromatic aberration correction\<close>

text \<open>The two nested loops copy by rows of four and leave a row at the end of the table.\<close>

definition lca_satu_lut :: "u16 list \<Rightarrow> byte list \<Rightarrow> byte list" where
  "lca_satu_lut param lut =
     fold (\<lambda>i. fold (\<lambda>j l. l[4 * i + j := ucast (param ! (4 * i + j))]) (takeWhile (\<lambda>j. 4 * i + j < 33) [0..<4]))
       [0..<9] lut"

lemma fold_nested:
  "fold (\<lambda>i. fold (\<lambda>j. g (k i j)) (js i)) is l = fold g (concat (map (\<lambda>i. map (k i) (js i)) is)) l"
  by (induction "is" arbitrary: l) (simp_all add: fold_map comp_def)

lemma lca_satu_lut_copies:
  assumes "length param = 33" "length lut = 33"
  shows "lca_satu_lut param lut = map ucast param"
proof -
  have "concat (map (\<lambda>i. map (\<lambda>j. 4 * i + j) (takeWhile (\<lambda>j. 4 * i + j < 33) [0..<4])) [0..<9]) = [0..<33 :: nat]"
    by code_simp
  then have "lca_satu_lut param lut = fold (\<lambda>k l. l[k := ucast (param ! k)]) [0..<33] lut"
    unfolding lca_satu_lut_def fold_nested[where g = "\<lambda>k l. l[k := ucast (param ! k)]"] by simp
  then show ?thesis
    using assms by (auto intro!: nth_equalityI simp: fold_update_nth)
qed

end
