(* ===== verification/IspContext.thy ===== *)
theory IspContext
  imports IspTuning IspControls IspModules
begin

text \<open>
  The pipeline manager \<open>isp_manage/isp_manage.c\<close> for \<open>ISP_VERSION\<close> 522: how the parameters of the
  store reach the algorithm libraries and the hardware modules (\<open>__isp_ctx_config\<close>, \<open>__isp_ctx_update\<close>), and what happens for
  every frame (\<open>isp_ctx_algo_run\<close>). It fills the part \<open>ctx_rest\<close> that the tuning object leaves open, and the functions
  below are what that theory takes as its configuration functions.

  The libraries for exposure, focus, white balance, flicker, tone mapping and ISO, and the
  \<open>config_\<dots>\<close> routines are archives without source. They are fields of \<open>isp_libs\<close>: a library sees its own state
  \<open>'e\<close>, its parameter block, the statistics \<open>'s\<close> and its result, as its C signature says; what gets a pointer
  to the whole context may change the whole context. Motion detection and roll-off are not compiled in
  (\<open>ISP_LIB_USE_MD\<close> and \<open>ISP_LIB_USE_ROLLOFF\<close> are 0): their parameter pointers stay null, and
  \<open>__isp_ctx_update_md_cfg\<close> and \<open>__isp_ctx_update_rolloff_cfg\<close> return at once.

  \<open>None\<close> is a null pointer that is followed, a division by zero, an index outside an array or
  a lock that its holder takes again.
\<close>

section \<open>Parameter blocks and results of the libraries\<close>

record isp_sensor_info =
  si_hts :: u32
  si_vts :: u32
  si_pclk :: u32
  si_fps_fixed :: u32
  si_sensor_width :: u32
  si_sensor_height :: u32
  si_input_seq :: u32
  si_wdr_mode :: u32
  si_color_space :: u32
  si_exp_line :: u32
  si_ang_gain :: u32
  si_dig_gain :: u32
  si_total_gain :: u32
  si_ae_tbl_idx :: u32
  si_ae_tbl_idx_max :: u32
  si_fps :: u32
  si_frame_time :: u32
  si_ae_gain :: u32
  si_is_ae_done :: byte
  si_backlight :: byte
  si_ae_lv :: u32

text \<open>The members of the settings that the controls do not touch.\<close>

record isp_ae_settings_t = isp_ae_settings +
  ae_mode :: int
  ae_flicker_type :: u32
  ae_hist_eq_cfg :: "u32 list"
  ae_pltm_dynamic_cfg :: "u32 list"

record isp_awb_setting_t = isp_awb_setting +
  white_balance_lock :: bool
  awb_coor :: coor_win

text \<open>\<open>struct ae_table_info\<close>: ten rows of six words (\<open>min_exp\<close>, \<open>max_exp\<close>, gains, iris) and the number in use.\<close>

record ae_table_info =
  ae_tbl :: "u32 list"
  tbl_length :: u32

record ae_ini_cfg =
  ai_define_ae_table :: u32
  ai_ae_max_lv :: u32
  ai_ae_hist_mod_en :: u32
  ai_ae_ki :: u32
  ai_ae_ConvDataIndex :: u32
  ai_ae_blowout_pre_en :: u32
  ai_ae_blowout_attr :: u32
  ai_ae_delay_frame :: u32
  ai_exp_delay_frame :: u32
  ai_gain_delay_frame :: u32
  ai_exp_comp_step :: u32
  ai_ae_touch_dist_ind :: u32
  ai_ae_iso2gain_ratio :: u32
  ai_gain_ratio :: int
  ai_tbl_preview :: ae_table_info
  ai_tbl_capture :: ae_table_info
  ai_tbl_video :: ae_table_info
  ai_analog_gain_range :: "u32 list"
  ai_digital_gain_range :: "u32 list"
  ai_fno_step :: "u32 list"
  ai_wdr_cfg :: "u32 list"
  ai_win_weight :: "u32 list"

record ae_test_config =
  aet_isp_test_mode :: u32
  aet_isp_gain :: u32
  aet_isp_exp_line :: u32
  aet_ae_forced :: u32
  aet_lum_forced :: u32
  aet_isp_test_exptime :: u32
  aet_exp_line_start :: u32
  aet_exp_line_step :: u32
  aet_exp_line_end :: u32
  aet_exp_change_interval :: u32
  aet_isp_test_gain :: u32
  aet_gain_start :: u32
  aet_gain_step :: u32
  aet_gain_end :: u32
  aet_gain_change_interval :: u32
  aet_ae_en :: u32
  aet_check_delay_en :: u32
  aet_delay_type :: u32

record ae_param =
  ap_type :: u32
  ap_platform_id :: u32
  ae_frame_id :: u32
  ae_isp_id :: u32
  ae_ini :: ae_ini_cfg
  ae_setting :: isp_ae_settings_t
  ae_sensor_info :: isp_sensor_info
  ae_test :: ae_test_config
  ae_target_comp :: u32
  ap_pline_index :: int

text \<open>Of \<open>ae_result_t\<close>, the members of \<open>sensor_set.ev_set_curr\<close> and what else is read here.\<close>

record ae_result =
  ae_status :: u32
  ar_exp_line :: u32
  ar_analog_gain :: u32
  ar_digital_gain :: u32
  ar_total_gain :: u32
  ar_lv :: u32
  ar_idx :: u32
  ar_idx_max :: u32
  ar_backlight :: byte
  ar_gain :: u32
  BrightPixellValue :: u32
  DarkPixelValue :: u32
  ar_exposure_time :: u32
  ar_set_idx :: int \<comment> \<open>\<open>sensor_set.ev_set.ev_idx\<close>\<close>
  ar_idx_expect :: int
  ar_flash_ev_cumul :: int
  ar_flash_ok :: u32
  ar_flash_led :: u32

record af_ini_cfg =
  fi_af_use_otp :: u32
  fi_vcm_min_code :: u32
  fi_vcm_max_code :: u32
  fi_af_interval_time :: u32
  fi_af_speed_ind :: u32
  fi_af_auto_fine_en :: u32
  fi_af_single_fine_en :: u32
  fi_af_fine_step :: u32
  fi_af_move_cnt :: u32
  fi_af_still_cnt :: u32
  fi_af_move_monitor_cnt :: u32
  fi_af_still_monitor_cnt :: u32
  fi_af_stable_min :: u32
  fi_af_stable_max :: u32
  fi_af_low_light_lv :: u32
  fi_af_near_tolerance :: u32
  fi_af_far_tolerance :: u32
  fi_af_tolerance_off :: u32
  fi_af_peak_th :: u32
  fi_af_dir_th :: u32
  fi_af_change_ratio :: u32
  fi_af_move_minus :: u32
  fi_af_still_minus :: u32
  fi_af_scene_motion_th :: u32
  fi_af_tolerance_tbl_len :: u32
  fi_std_code_tbl :: "u32 list"
  fi_tolerance_value_tbl :: "u32 list"

record af_test_config =
  fit_isp_test_mode :: u32
  fit_isp_test_focus :: u32
  fit_focus_start :: u32
  fit_focus_step :: u32
  fit_focus_end :: u32
  fit_focus_change_interval :: u32
  fit_af_en :: u32

record af_param =
  fp_type :: u32
  fp_platform_id :: u32
  af_frame_id :: u32
  af_ini :: af_ini_cfg
  fp_focus_absolute :: int
  fp_focus_relative :: int
  af_run_mode :: int
  fp_metering_mode :: int
  fp_range :: int
  fp_focus_lock :: bool
  fp_sensor_info :: isp_sensor_info
  vcm_max :: u32
  vcm_min :: u32
  af_test :: af_test_config
  fp_trigger :: int \<comment> \<open>\<open>auto_focus_trigger\<close>\<close>

record af_result =
  af_status_output :: u32
  last_code_output :: u32
  real_code_output :: u32
  af_std_code_output :: u32
  af_sap_lim_output :: u16

record awb_ini_cfg =
  bi_awb_interval :: u32
  bi_awb_speed :: u32
  bi_awb_color_temper_low :: u32
  bi_awb_color_temper_high :: u32
  bi_awb_base_temper :: u32
  bi_awb_green_zone_dist :: u32
  bi_awb_blue_sky_dist :: u32
  bi_awb_light_num :: u32
  bi_awb_ext_light_num :: u32
  bi_awb_skin_color_num :: u32
  bi_awb_special_color_num :: u32
  bi_awb_rgain_favor :: u32
  bi_awb_bgain_favor :: u32
  bi_awb_light_info :: "u32 list"
  bi_awb_ext_light_info :: "u32 list"
  bi_awb_skin_color_info :: "u32 list"
  bi_awb_special_color_info :: "u32 list"
  bi_awb_preset_gain :: "u32 list"

record awb_param =
  bp_type :: u32
  bp_platform_id :: u32
  awb_frame_id :: u32
  awb_ctrl :: isp_awb_setting_t
  awb_ini :: awb_ini_cfg
  awb_sensor_info :: isp_sensor_info
  bp_awb_en :: u32
  bp_color_temp :: u32
  bp_test_mode :: u32

record awb_result =
  br_wb_gain_output :: wb_gain
  br_color_temp_output :: int

record afs_param =
  sp_type :: u32
  sp_platform_id :: u32
  afs_frame_id :: u32
  sp_flicker_ratio :: u32
  flicker_type_ini :: u32
  afs_sensor_info :: isp_sensor_info
  sp_test_mode :: u32
  sp_afs_en :: u32

record afs_result =
  flicker_type_output :: u32

text \<open>The pointers into \<open>module_cfg\<close> (the gamma and tone curves) that \<open>gtm_param\<close> holds never change and are left out.\<close>

record gtm_param =
  gp_type :: u32
  gp_platform_id :: u32
  gtm_frame_id :: u32
  gtm_enable :: u32
  gp_gtm_type :: u32
  gp_gamma_type :: u32
  AutoAlphaEn :: u32
  gp_hist_pix_cnt :: u32
  gp_dark_minval :: u32
  gp_bright_minval :: u32
  gp_plum_var :: "u16 list"
  gp_gtm_cfg :: "u32 list"
  gp_contrast :: int
  gp_brightness :: int
  gp_BrightPixellValue :: u32
  gp_DarkPixelValue :: u32
  gp_test_mode :: u32

record pltm_param =
  lp_type :: u32
  lp_platform_id :: u32
  pltm_frame_id :: u32
  pltm_enable :: u32
  lp_ae_enable :: u32
  lp_pltm_cfg :: "u32 list"
  lp_pltm_dynamic_cfg :: "u32 list"
  lp_sensor_info :: isp_sensor_info
  lp_pltm_table :: "byte list"

record pltm_result =
  pltm_oripic_ratio :: u32
  pltm_tr_order :: u32
  pltm_last_order_ratio :: u32
  pltm_cal_en :: u32
  pltm_frm_sm_en :: u32
  pltm_block_height :: u32
  pltm_block_width :: u32
  pltm_statistic_div :: u32
  pltm_ae_comp :: byte

record iso_param =
  ip_type :: u32
  ip_platform_id :: u32
  iso_frame_id :: u32
  cem_color2gray_th :: u16
  cem_color2gray_delta_min :: u16
  cem_color2gray_delta_max :: u16
  iso_cnr_adjust :: u32
  iso_sharpness_adjust :: u32
  iso_saturation_adjust :: u32
  iso_contrast_adjust :: u32
  iso_brightness_adjust :: u32
  iso_cem_ratio_adjust :: u32
  iso_denoise_adjust :: u32
  iso_sensor_offset_adjust :: u32
  iso_black_level_adjust :: u32
  iso_dpc_adjust :: u32
  iso_defog_value_adjust :: u32
  iso_ae_cfg_adjust :: u32
  iso_gtm_cfg_adjust :: u32
  iso_lca_cfg_adjust :: u32
  iso_af_cfg_adjust :: u32
  iso_denoise_np_core :: "u32 list"
  ip_isp_gen :: bool \<comment> \<open>the pointer to the context is set\<close>
  ip_test_mode :: u32

section \<open>The context\<close>

text \<open>An \<open>isp_\<dots>_entity_context_t\<close>: the library's object, its table of operations, its parameter block, its result.\<close>

record ('e, 'p, 'r) entity_ctx =
  ent :: "'e option"
  ent_ops :: bool
  ent_param :: "'p option"
  ent_result :: 'r

record isp_module_config =
  mc_isp_dev_id :: u32
  mc_isp_platform_id :: u32
  module_enable_flag :: u32
  mc_input_fmt :: u32
  mc_wdr_mode :: u32
  mc_wdr_cmp_mode :: u32
  mc_saturation_mode :: u32
  mc_hist_sel :: u32
  mc_cfa_mode :: u32
  mc_ae_mode :: u32
  mc_awb_mode :: u32
  mc_dg_mode :: u32
  mc_rsc_mode :: u32
  mc_msc_mode :: u32
  cfa_min_rgb :: u32
  mc_dir_th :: u16
  mc_interp_mode :: byte
  mc_zig_zag :: byte
  mc_wb_gain :: wb_gain
  mc_clip_val :: u32
  mc_af_sap_lim :: u16
  mc_k3d_increase_mode :: u32
  mc_hist_mode :: u32
  mc_output_speed :: u32
  mc_awb_sat_lim :: "u16 list" \<comment> \<open>red, green, blue\<close>
  mc_color_matrix :: isp_rgb2rgb_gain_offset
  mc_ctc :: "u16 list" \<comment> \<open>\<open>ctc_th_max\<close>, \<open>ctc_th_min\<close>, \<open>ctc_th_slope\<close>, \<open>ctc_dir_wt\<close>, \<open>ctc_dir_th\<close>\<close>
  mc_lss_switch :: byte
  mc_cal_en :: byte
  mc_frm_sm_en :: byte
  mc_last_order_ratio :: byte
  mc_tr_order :: byte
  mc_oripic_ratio :: byte
  mc_intens_asym :: byte
  mc_spatial_asm :: byte
  mc_white_level :: byte
  mc_lp_halo_res :: byte
  mc_lum_ratio :: byte
  mc_block_height :: byte
  mc_block_width :: byte
  mc_block_v_num :: byte
  mc_block_h_num :: byte
  mc_statistic_div :: u32
  gca_ct_w :: u16
  gca_ct_h :: u16
  mc_gca :: "u16 list" \<comment> \<open>the red and blue parameters and \<open>gca_int_cns\<close>\<close>
  mc_lca_pf_satu_lut :: "byte list"
  mc_lca_gf_satu_lut :: "byte list"
  mc_msc_blw_lut :: "u16 list"
  mc_msc_blh_lut :: "u16 list"
  mc_msc_blw_dlt_lut :: "u16 list"
  mc_msc_blh_dlt_lut :: "u16 list"
  mc_cem_table :: "byte list"
  mc_tables :: "isp_tables option"

record isp_adjust_setting =
  adj_contrast :: int
  adj_brightness :: int
  adj_defog_value :: int

record frame_cnts =
  awb_frame_cnt :: u64
  ae_frame_cnt :: u64
  af_frame_cnt :: u64
  gtm_frame_cnt :: u64
  md_frame_cnt :: u64
  afs_frame_cnt :: u64
  iso_frame_cnt :: u64
  rolloff_frame_cnt :: u64
  alg_frame_cnt :: u64

text \<open>The compensation rows of \<open>isp_dynamic_judge_stats_s\<close>, indexed by the motion status.\<close>

record isp_dynamic_judge =
  judge_enable :: bool
  mov_th :: "int list"
  tdnf_comp :: "int list"
  tdnf_diff_comp :: "int list"
  lp_th_ratio_comp :: "int list"
  sharp_hfrq_comp :: "int list"
  sharp_edge_comp :: "int list"
  sharp_under_shoot_comp :: "int list"

record ('e, 's, 'x) isp_pipe =
  isp_id :: u32
  change_flags :: u32 \<comment> \<open>\<open>isp_3a_change_flags\<close>\<close>
  flash_ok_bit :: bool \<comment> \<open>the bit \<open>flash_ok\<close> of \<open>image_params\<close>\<close>
  ae_set :: isp_ae_settings_t
  af_set :: isp_af_settings
  awb_set :: isp_awb_setting_t
  tune_set :: isp_tune_setting
  adjust :: isp_adjust_setting
  cnts :: frame_cnts
  pic_width :: u32
  pic_height :: u32
  min_rgb_saved :: int
  c_noise_saved :: int
  sensor_info :: isp_sensor_info
  module_cfg :: isp_module_config
  min_rgb_pre :: "int list"
  wb_gain_saved :: wb_gain
  dyn_judge :: isp_dynamic_judge
  stats :: 's
  ae_ent :: "('e, ae_param, ae_result) entity_ctx"
  af_ent :: "('e, af_param, af_result) entity_ctx"
  awb_ent :: "('e, awb_param, awb_result) entity_ctx"
  afs_ent :: "('e, afs_param, afs_result) entity_ctx"
  gtm_ent :: "('e, gtm_param, unit) entity_ctx"
  pltm_ent :: "('e, pltm_param, pltm_result) entity_ctx"
  iso_ent :: "('e, iso_param, unit) entity_ctx"
  ctx_locked :: bool \<comment> \<open>\<open>ctx_lock\<close> is held\<close>
  load_mem :: "(nat \<times> byte list) option" \<comment> \<open>\<open>load_reg_base\<close> and the block behind it\<close>
  log_param :: u32 \<comment> \<open>the global \<open>isp_lib_log_param\<close>\<close>
  otp_enable :: u32
  other :: 'x

type_synonym ('e, 's, 'x) ctx = "('e, 's, 'x) isp_pipe isp_lib_context"

abbreviation upd_pipe :: "(('e, 's, 'x) isp_pipe \<Rightarrow> ('e, 's, 'x) isp_pipe) \<Rightarrow> ('e, 's, 'x) ctx \<Rightarrow> ('e, 's, 'x) ctx" where
  "upd_pipe f c \<equiv> c\<lparr>ctx_rest := f (ctx_rest c)\<rparr>"

abbreviation upd_mod :: "(isp_module_config \<Rightarrow> isp_module_config) \<Rightarrow> ('e, 's, 'x) ctx \<Rightarrow> ('e, 's, 'x) ctx" where
  "upd_mod f \<equiv> upd_pipe (module_cfg_update f)"

abbreviation sinfo :: "('e, 's, 'x) ctx \<Rightarrow> isp_sensor_info" where "sinfo c \<equiv> sensor_info (ctx_rest c)"
abbreviation tests :: "('e, 's, 'x) ctx \<Rightarrow> isp_test_param" where "tests c \<equiv> isp_test_settings (isp_ini_cfg c)"
abbreviation p3a :: "('e, 's, 'x) ctx \<Rightarrow> isp_3a_param" where "p3a c \<equiv> isp_3a_settings (isp_ini_cfg c)"
abbreviation tunning :: "('e, 's, 'x) ctx \<Rightarrow> isp_tunning_param" where "tunning c \<equiv> isp_tunning_settings (isp_ini_cfg c)"

section \<open>The libraries\<close>

record ('e, 'p, 's, 'r) core_ops =
  core_init :: "('e \<times> 'p) option" \<comment> \<open>the new object and its parameter block\<close>
  core_set_params :: "'e \<Rightarrow> 'p \<Rightarrow> 'r \<Rightarrow> 'e \<times> 'p \<times> 'r"
  core_run :: "'e \<Rightarrow> 'p \<Rightarrow> 's \<Rightarrow> 'r \<Rightarrow> 'e \<times> 'p \<times> 'r"

record ('e, 's, 'x) isp_libs =
  ae_core :: "('e, ae_param, 's, ae_result) core_ops"
  af_core :: "('e, af_param, 's, af_result) core_ops"
  awb_core :: "('e, awb_param, 's, awb_result) core_ops"
  afs_core :: "('e, afs_param, 's, afs_result) core_ops"
  gtm_core :: "('e, gtm_param, 's, unit) core_ops"
  pltm_core :: "('e, pltm_param, 's, pltm_result) core_ops"
  iso_core_init :: "('e \<times> iso_param) option"
  iso_core_set_params :: "'e \<Rightarrow> iso_param \<Rightarrow> ('e, 's, 'x) ctx \<Rightarrow> 'e \<times> iso_param \<times> ('e, 's, 'x) ctx"
  iso_core_run :: "'e \<Rightarrow> iso_param \<Rightarrow> ('e, 's, 'x) ctx \<Rightarrow> 'e \<times> iso_param \<times> ('e, 's, 'x) ctx"
  config_gamma :: "('e, 's, 'x) ctx \<Rightarrow> ('e, 's, 'x) ctx"
  config_dig_gain :: "u32 \<Rightarrow> ('e, 's, 'x) ctx \<Rightarrow> ('e, 's, 'x) ctx"
  config_wdr :: "int \<Rightarrow> ('e, 's, 'x) ctx \<Rightarrow> ('e, 's, 'x) ctx"
  config_lens_table :: "u32 \<Rightarrow> ('e, 's, 'x) ctx \<Rightarrow> ('e, 's, 'x) ctx"
  config_lens_center :: "('e, 's, 'x) ctx \<Rightarrow> ('e, 's, 'x) ctx"
  config_msc_table :: "u32 \<Rightarrow> ('e, 's, 'x) ctx \<Rightarrow> ('e, 's, 'x) ctx"
  config_band_step :: "('e, 's, 'x) ctx \<Rightarrow> ('e, 's, 'x) ctx"
  lib_apply_settings :: "('e, 's, 'x) ctx \<Rightarrow> ('e, 's, 'x) ctx"
  lib_apply_colormatrix :: "('e, 's, 'x) ctx \<Rightarrow> ('e, 's, 'x) ctx"
  lib_dynamic_judge :: "('e, 's, 'x) ctx \<Rightarrow> ('e, 's, 'x) ctx"
  lib_handle_stats :: "byte list \<Rightarrow> ('e, 's, 'x) ctx \<Rightarrow> ('e, 's, 'x) ctx"
  lib_handle_stats_sync :: "byte list option \<Rightarrow> byte list option \<Rightarrow> ('e, 's, 'x) ctx \<Rightarrow> ('e, 's, 'x) ctx"
  lib_hardware_update :: "isp_module_config \<Rightarrow> byte list \<Rightarrow> isp_module_config \<times> byte list"
  otp_tables :: "bool \<Rightarrow> 'x \<Rightarrow> 'x" \<comment> \<open>the floating-point ratios of the mesh calibration\<close>
  otp_gain :: "'x \<Rightarrow> nat \<Rightarrow> u32 \<Rightarrow> u32" \<comment> \<open>a light's channel times its white balance ratio\<close>

text \<open>\<open>isp_\<dots>_set_params_helper\<close>: nothing happens unless object, operations and parameter block are there.\<close>

definition set_params_helper :: "('e, 'p, 's, 'r) core_ops \<Rightarrow> ('p \<Rightarrow> 'p) \<Rightarrow> ('e, 'p, 'r) entity_ctx \<Rightarrow> ('e, 'p, 'r) entity_ctx" where
  "set_params_helper ops set_type x =
     (case (ent x, ent_ops x, ent_param x) of
        (Some e, True, Some p) \<Rightarrow>
          (case core_set_params ops e (set_type p) (ent_result x) of
             (e', p', r') \<Rightarrow> x\<lparr>ent := Some e', ent_param := Some p', ent_result := r'\<rparr>)
      | _ \<Rightarrow> x)"

definition isp_ae_set_params_helper :: "('e, 's, 'x) isp_libs \<Rightarrow> u32 \<Rightarrow> ('e, 's, 'x) ctx \<Rightarrow> ('e, 's, 'x) ctx" where
  "isp_ae_set_params_helper L cmd = upd_pipe (ae_ent_update (set_params_helper (ae_core L) (ap_type_update (\<lambda>_. cmd))))"

definition isp_af_set_params_helper :: "('e, 's, 'x) isp_libs \<Rightarrow> u32 \<Rightarrow> ('e, 's, 'x) ctx \<Rightarrow> ('e, 's, 'x) ctx" where
  "isp_af_set_params_helper L cmd = upd_pipe (af_ent_update (set_params_helper (af_core L) (fp_type_update (\<lambda>_. cmd))))"

definition isp_awb_set_params_helper :: "('e, 's, 'x) isp_libs \<Rightarrow> u32 \<Rightarrow> ('e, 's, 'x) ctx \<Rightarrow> ('e, 's, 'x) ctx" where
  "isp_awb_set_params_helper L cmd = upd_pipe (awb_ent_update (set_params_helper (awb_core L) (bp_type_update (\<lambda>_. cmd))))"

definition isp_gtm_set_params_helper :: "('e, 's, 'x) isp_libs \<Rightarrow> u32 \<Rightarrow> ('e, 's, 'x) ctx \<Rightarrow> ('e, 's, 'x) ctx" where
  "isp_gtm_set_params_helper L cmd = upd_pipe (gtm_ent_update (set_params_helper (gtm_core L) (gp_type_update (\<lambda>_. cmd))))"

definition isp_iso_set_params_helper :: "('e, 's, 'x) isp_libs \<Rightarrow> u32 \<Rightarrow> ('e, 's, 'x) ctx \<Rightarrow> ('e, 's, 'x) ctx" where
  "isp_iso_set_params_helper L cmd c =
     (case (ent (iso_ent (ctx_rest c)), ent_ops (iso_ent (ctx_rest c)), ent_param (iso_ent (ctx_rest c))) of
        (Some e, True, Some p) \<Rightarrow>
          (case iso_core_set_params L e (p\<lparr>ip_type := cmd\<rparr>) c of
             (e', p', c') \<Rightarrow> upd_pipe (iso_ent_update (\<lambda>x. x\<lparr>ent := Some e', ent_param := Some p'\<rparr>)) c')
      | _ \<Rightarrow> c)"

text \<open>Storing through a parameter pointer, and calling an operation through the table, follow the pointer.\<close>

definition store_param :: "('p \<Rightarrow> 'p) \<Rightarrow> ('e, 'p, 'r) entity_ctx \<Rightarrow> ('e, 'p, 'r) entity_ctx option" where
  "store_param f x = (case ent_param x of None \<Rightarrow> None | Some p \<Rightarrow> Some (x\<lparr>ent_param := Some (f p)\<rparr>))"

definition run_core :: "('e, 'p, 's, 'r) core_ops \<Rightarrow> 's \<Rightarrow> ('e, 'p, 'r) entity_ctx \<Rightarrow> ('e, 'p, 'r) entity_ctx option" where
  "run_core ops s x =
     (case (ent x, ent_ops x, ent_param x) of
        (Some e, True, Some p) \<Rightarrow>
          (case core_run ops e p s (ent_result x) of
             (e', p', r') \<Rightarrow> Some (x\<lparr>ent := Some e', ent_param := Some p', ent_result := r'\<rparr>))
      | _ \<Rightarrow> None)"

definition run_iso :: "('e, 's, 'x) isp_libs \<Rightarrow> ('e, 's, 'x) ctx \<Rightarrow> ('e, 's, 'x) ctx option" where
  "run_iso L c =
     (case (ent (iso_ent (ctx_rest c)), ent_ops (iso_ent (ctx_rest c)), ent_param (iso_ent (ctx_rest c))) of
        (Some e, True, Some p) \<Rightarrow>
          (case iso_core_run L e p c of
             (e', p', c') \<Rightarrow> Some (upd_pipe (iso_ent_update (\<lambda>x. x\<lparr>ent := Some e', ent_param := Some p'\<rparr>)) c'))
      | _ \<Rightarrow> None)"

section \<open>Zeroed values\<close>

text \<open>
  What static memory holds before the initialisers of \<open>isp.c\<close> (which set some parameters of the store), and zeroed blocks
  of the libraries; the concrete contexts of the examples are built from them.
\<close>

definition zero_entity :: "'r \<Rightarrow> ('e, 'p, 'r) entity_ctx" where
  "zero_entity r = \<lparr>ent = None, ent_ops = False, ent_param = None, ent_result = r\<rparr>"

definition zero_isp_sensor_info :: isp_sensor_info where
  "zero_isp_sensor_info = \<lparr>si_hts = 0, si_vts = 0, si_pclk = 0, si_fps_fixed = 0, si_sensor_width = 0, si_sensor_height = 0,
     si_input_seq = 0, si_wdr_mode = 0, si_color_space = 0, si_exp_line = 0, si_ang_gain = 0,
     si_dig_gain = 0, si_total_gain = 0, si_ae_tbl_idx = 0, si_ae_tbl_idx_max = 0, si_fps = 0,
     si_frame_time = 0, si_ae_gain = 0, si_is_ae_done = 0, si_backlight = 0, si_ae_lv = 0\<rparr>"

definition zero_isp_ae_settings_t :: isp_ae_settings_t where
  "zero_isp_ae_settings_t = \<lparr>exp_compensation = 0, exp_absolute = 0, sensor_gain = 0, iso_sensitivity = 0, iris_fno = 0,
     flash_mode = 0, exp_mode = 0, light_mode = 0, exp_metering_mode = 0, ae_coor = zero_win,
     iso_mode = 0, flicker_mode = 0, scene_mode = 0, exposure_lock = False, flash_open = 0,
     flash_switch_flag = False, take_picture_flag = 0, take_pic_start_cnt = 0, ae_mode = 0,
     ae_flicker_type = 0, ae_hist_eq_cfg = replicate 13 0, ae_pltm_dynamic_cfg = replicate 4 0\<rparr>"

definition zero_isp_awb_setting_t :: isp_awb_setting_t where
  "zero_isp_awb_setting_t = \<lparr>wb_mode = 0, wb_temperature = 0, wb_gain_manual = zero_wb, white_balance_lock = False,
     awb_coor = zero_win\<rparr>"

definition zero_isp_af_settings :: isp_af_settings where
  "zero_isp_af_settings = \<lparr>focus_absolute = 0, focus_relative = 0, af_mode = 0, af_metering_mode = 0, af_range = 0,
     focus_lock = False, af_coor = zero_win\<rparr>"

definition zero_gain_cfg :: gain_cfg where
  "zero_gain_cfg = \<lparr>gain_favor = 0, ana_gain_min = 0, ana_gain_max = 0, dig_gain_min = 0, dig_gain_max = 0\<rparr>"

definition zero_isp_tune_setting :: isp_tune_setting where
  "zero_isp_tune_setting = \<lparr>contrast_level = 0, saturation_level = 0, sharpness_level = 0, brightness_level = 0,
     denoise_level = 0, hue_level = 0, pltmwdr_level = 0, tdf_level = 0, highlight_level = 0,
     backlight_level = 0, gains = zero_gain_cfg, effect = 0\<rparr>"

definition zero_ae_table_info :: ae_table_info where
  "zero_ae_table_info = \<lparr>ae_tbl = replicate 60 0, tbl_length = 0\<rparr>"

definition zero_ae_ini_cfg :: ae_ini_cfg where
  "zero_ae_ini_cfg = \<lparr>ai_define_ae_table = 0, ai_ae_max_lv = 0, ai_ae_hist_mod_en = 0, ai_ae_ki = 0,
     ai_ae_ConvDataIndex = 0, ai_ae_blowout_pre_en = 0, ai_ae_blowout_attr = 0, ai_ae_delay_frame = 0,
     ai_exp_delay_frame = 0, ai_gain_delay_frame = 0, ai_exp_comp_step = 0, ai_ae_touch_dist_ind = 0,
     ai_ae_iso2gain_ratio = 0, ai_gain_ratio = 0, ai_tbl_preview = zero_ae_table_info,
     ai_tbl_capture = zero_ae_table_info, ai_tbl_video = zero_ae_table_info,
     ai_analog_gain_range = replicate 2 0, ai_digital_gain_range = replicate 2 0,
     ai_fno_step = replicate 16 0, ai_wdr_cfg = replicate 4 0, ai_win_weight = replicate 64 0\<rparr>"

definition zero_ae_test_config :: ae_test_config where
  "zero_ae_test_config = \<lparr>aet_isp_test_mode = 0, aet_isp_gain = 0, aet_isp_exp_line = 0, aet_ae_forced = 0,
     aet_lum_forced = 0, aet_isp_test_exptime = 0, aet_exp_line_start = 0, aet_exp_line_step = 0,
     aet_exp_line_end = 0, aet_exp_change_interval = 0, aet_isp_test_gain = 0, aet_gain_start = 0,
     aet_gain_step = 0, aet_gain_end = 0, aet_gain_change_interval = 0, aet_ae_en = 0,
     aet_check_delay_en = 0, aet_delay_type = 0\<rparr>"

definition zero_ae_param :: ae_param where
  "zero_ae_param = \<lparr>ap_type = 0, ap_platform_id = 0, ae_frame_id = 0, ae_isp_id = 0, ae_ini = zero_ae_ini_cfg,
     ae_setting = zero_isp_ae_settings_t, ae_sensor_info = zero_isp_sensor_info,
     ae_test = zero_ae_test_config, ae_target_comp = 0, ap_pline_index = 0\<rparr>"

definition zero_ae_result :: ae_result where
  "zero_ae_result = \<lparr>ae_status = 0, ar_exp_line = 0, ar_analog_gain = 0, ar_digital_gain = 0, ar_total_gain = 0,
     ar_lv = 0, ar_idx = 0, ar_idx_max = 0, ar_backlight = 0, ar_gain = 0, BrightPixellValue = 0,
     DarkPixelValue = 0, ar_exposure_time = 0, ar_set_idx = 0, ar_idx_expect = 0,
     ar_flash_ev_cumul = 0, ar_flash_ok = 0, ar_flash_led = 0\<rparr>"

definition zero_af_ini_cfg :: af_ini_cfg where
  "zero_af_ini_cfg = \<lparr>fi_af_use_otp = 0, fi_vcm_min_code = 0, fi_vcm_max_code = 0, fi_af_interval_time = 0,
     fi_af_speed_ind = 0, fi_af_auto_fine_en = 0, fi_af_single_fine_en = 0, fi_af_fine_step = 0,
     fi_af_move_cnt = 0, fi_af_still_cnt = 0, fi_af_move_monitor_cnt = 0, fi_af_still_monitor_cnt = 0,
     fi_af_stable_min = 0, fi_af_stable_max = 0, fi_af_low_light_lv = 0, fi_af_near_tolerance = 0,
     fi_af_far_tolerance = 0, fi_af_tolerance_off = 0, fi_af_peak_th = 0, fi_af_dir_th = 0,
     fi_af_change_ratio = 0, fi_af_move_minus = 0, fi_af_still_minus = 0, fi_af_scene_motion_th = 0,
     fi_af_tolerance_tbl_len = 0, fi_std_code_tbl = replicate 20 0,
     fi_tolerance_value_tbl = replicate 20 0\<rparr>"

definition zero_af_test_config :: af_test_config where
  "zero_af_test_config = \<lparr>fit_isp_test_mode = 0, fit_isp_test_focus = 0, fit_focus_start = 0, fit_focus_step = 0,
     fit_focus_end = 0, fit_focus_change_interval = 0, fit_af_en = 0\<rparr>"

definition zero_af_param :: af_param where
  "zero_af_param = \<lparr>fp_type = 0, fp_platform_id = 0, af_frame_id = 0, af_ini = zero_af_ini_cfg, fp_focus_absolute = 0,
     fp_focus_relative = 0, af_run_mode = 0, fp_metering_mode = 0, fp_range = 0, fp_focus_lock = False,
     fp_sensor_info = zero_isp_sensor_info, vcm_max = 0, vcm_min = 0, af_test = zero_af_test_config,
     fp_trigger = 0\<rparr>"

definition zero_af_result :: af_result where
  "zero_af_result = \<lparr>af_status_output = 0, last_code_output = 0, real_code_output = 0, af_std_code_output = 0,
     af_sap_lim_output = 0\<rparr>"

definition zero_awb_ini_cfg :: awb_ini_cfg where
  "zero_awb_ini_cfg = \<lparr>bi_awb_interval = 0, bi_awb_speed = 0, bi_awb_color_temper_low = 0, bi_awb_color_temper_high = 0,
     bi_awb_base_temper = 0, bi_awb_green_zone_dist = 0, bi_awb_blue_sky_dist = 0,
     bi_awb_light_num = 0, bi_awb_ext_light_num = 0, bi_awb_skin_color_num = 0,
     bi_awb_special_color_num = 0, bi_awb_rgain_favor = 0, bi_awb_bgain_favor = 0,
     bi_awb_light_info = replicate 320 0, bi_awb_ext_light_info = replicate 320 0,
     bi_awb_skin_color_info = replicate 160 0, bi_awb_special_color_info = replicate 320 0,
     bi_awb_preset_gain = replicate 22 0\<rparr>"

definition zero_awb_param :: awb_param where
  "zero_awb_param = \<lparr>bp_type = 0, bp_platform_id = 0, awb_frame_id = 0, awb_ctrl = zero_isp_awb_setting_t,
     awb_ini = zero_awb_ini_cfg, awb_sensor_info = zero_isp_sensor_info, bp_awb_en = 0,
     bp_color_temp = 0, bp_test_mode = 0\<rparr>"

definition zero_awb_result :: awb_result where
  "zero_awb_result = \<lparr>br_wb_gain_output = zero_wb, br_color_temp_output = 0\<rparr>"

definition zero_afs_param :: afs_param where
  "zero_afs_param = \<lparr>sp_type = 0, sp_platform_id = 0, afs_frame_id = 0, sp_flicker_ratio = 0, flicker_type_ini = 0,
     afs_sensor_info = zero_isp_sensor_info, sp_test_mode = 0, sp_afs_en = 0\<rparr>"

definition zero_afs_result :: afs_result where
  "zero_afs_result = \<lparr>flicker_type_output = 0\<rparr>"

definition zero_gtm_param :: gtm_param where
  "zero_gtm_param = \<lparr>gp_type = 0, gp_platform_id = 0, gtm_frame_id = 0, gtm_enable = 0, gp_gtm_type = 0,
     gp_gamma_type = 0, AutoAlphaEn = 0, gp_hist_pix_cnt = 0, gp_dark_minval = 0, gp_bright_minval = 0,
     gp_plum_var = replicate 81 0, gp_gtm_cfg = replicate 9 0, gp_contrast = 0, gp_brightness = 0,
     gp_BrightPixellValue = 0, gp_DarkPixelValue = 0, gp_test_mode = 0\<rparr>"

definition zero_pltm_param :: pltm_param where
  "zero_pltm_param = \<lparr>lp_type = 0, lp_platform_id = 0, pltm_frame_id = 0, pltm_enable = 0, lp_ae_enable = 0,
     lp_pltm_cfg = replicate 19 0, lp_pltm_dynamic_cfg = replicate 4 0,
     lp_sensor_info = zero_isp_sensor_info, lp_pltm_table = []\<rparr>"

definition zero_pltm_result :: pltm_result where
  "zero_pltm_result = \<lparr>pltm_oripic_ratio = 0, pltm_tr_order = 0, pltm_last_order_ratio = 0, pltm_cal_en = 0,
     pltm_frm_sm_en = 0, pltm_block_height = 0, pltm_block_width = 0, pltm_statistic_div = 0,
     pltm_ae_comp = 0\<rparr>"

definition zero_iso_param :: iso_param where
  "zero_iso_param = \<lparr>ip_type = 0, ip_platform_id = 0, iso_frame_id = 0, cem_color2gray_th = 0,
     cem_color2gray_delta_min = 0, cem_color2gray_delta_max = 0, iso_cnr_adjust = 0,
     iso_sharpness_adjust = 0, iso_saturation_adjust = 0, iso_contrast_adjust = 0,
     iso_brightness_adjust = 0, iso_cem_ratio_adjust = 0, iso_denoise_adjust = 0,
     iso_sensor_offset_adjust = 0, iso_black_level_adjust = 0, iso_dpc_adjust = 0,
     iso_defog_value_adjust = 0, iso_ae_cfg_adjust = 0, iso_gtm_cfg_adjust = 0, iso_lca_cfg_adjust = 0,
     iso_af_cfg_adjust = 0, iso_denoise_np_core = replicate 4 0, ip_isp_gen = False, ip_test_mode = 0\<rparr>"

definition zero_isp_module_config :: isp_module_config where
  "zero_isp_module_config = \<lparr>mc_isp_dev_id = 0, mc_isp_platform_id = 0, module_enable_flag = 0, mc_input_fmt = 0,
     mc_wdr_mode = 0, mc_wdr_cmp_mode = 0, mc_saturation_mode = 0, mc_hist_sel = 0, mc_cfa_mode = 0,
     mc_ae_mode = 0, mc_awb_mode = 0, mc_dg_mode = 0, mc_rsc_mode = 0, mc_msc_mode = 0,
     cfa_min_rgb = 0, mc_dir_th = 0, mc_interp_mode = 0, mc_zig_zag = 0, mc_wb_gain = zero_wb,
     mc_clip_val = 0, mc_af_sap_lim = 0, mc_k3d_increase_mode = 0, mc_hist_mode = 0,
     mc_output_speed = 0, mc_awb_sat_lim = replicate 3 0,
     mc_color_matrix = \<lparr>matrix = replicate 9 0, offset = replicate 3 0\<rparr>,
     mc_ctc = replicate 5 0, mc_lss_switch = 0, mc_cal_en = 0, mc_frm_sm_en = 0,
     mc_last_order_ratio = 0, mc_tr_order = 0, mc_oripic_ratio = 0, mc_intens_asym = 0,
     mc_spatial_asm = 0, mc_white_level = 0, mc_lp_halo_res = 0, mc_lum_ratio = 0, mc_block_height = 0,
     mc_block_width = 0, mc_block_v_num = 0, mc_block_h_num = 0, mc_statistic_div = 0, gca_ct_w = 0,
     gca_ct_h = 0, mc_gca = replicate 7 0, mc_lca_pf_satu_lut = replicate 33 0,
     mc_lca_gf_satu_lut = replicate 33 0, mc_msc_blw_lut = replicate 12 0,
     mc_msc_blh_lut = replicate 12 0, mc_msc_blw_dlt_lut = replicate 12 0,
     mc_msc_blh_dlt_lut = replicate 12 0, mc_cem_table = replicate 5888 0, mc_tables = None\<rparr>"

definition zero_isp_adjust_setting :: isp_adjust_setting where
  "zero_isp_adjust_setting = \<lparr>adj_contrast = 0, adj_brightness = 0, adj_defog_value = 0\<rparr>"

definition zero_frame_cnts :: frame_cnts where
  "zero_frame_cnts = \<lparr>awb_frame_cnt = 0, ae_frame_cnt = 0, af_frame_cnt = 0, gtm_frame_cnt = 0, md_frame_cnt = 0,
     afs_frame_cnt = 0, iso_frame_cnt = 0, rolloff_frame_cnt = 0, alg_frame_cnt = 0\<rparr>"

definition zero_isp_dynamic_judge :: isp_dynamic_judge where
  "zero_isp_dynamic_judge = \<lparr>judge_enable = False, mov_th = replicate 6 0, tdnf_comp = replicate 4 0,
     tdnf_diff_comp = replicate 4 0, lp_th_ratio_comp = replicate 4 0, sharp_hfrq_comp = replicate 4 0,
     sharp_edge_comp = replicate 4 0, sharp_under_shoot_comp = replicate 4 0\<rparr>"

definition zero_pipe :: "'s \<Rightarrow> 'x \<Rightarrow> ('e, 's, 'x) isp_pipe" where
  "zero_pipe s x = \<lparr>isp_id = 0, change_flags = 0, flash_ok_bit = False, ae_set = zero_isp_ae_settings_t,
     af_set = zero_isp_af_settings, awb_set = zero_isp_awb_setting_t, tune_set = zero_isp_tune_setting,
     adjust = zero_isp_adjust_setting, cnts = zero_frame_cnts, pic_width = 0, pic_height = 0,
     min_rgb_saved = 0, c_noise_saved = 0, sensor_info = zero_isp_sensor_info,
     module_cfg = zero_isp_module_config, min_rgb_pre = replicate 8 0, wb_gain_saved = zero_wb,
     dyn_judge = zero_isp_dynamic_judge, stats = s, ae_ent = zero_entity zero_ae_result,
     af_ent = zero_entity zero_af_result, awb_ent = zero_entity zero_awb_result,
     afs_ent = zero_entity zero_afs_result, gtm_ent = zero_entity (),
     pltm_ent = zero_entity zero_pltm_result, iso_ent = zero_entity (), ctx_locked = False,
     load_mem = None, log_param = 0, otp_enable = 0, other = x\<rparr>"

definition zero_ctx :: "'s \<Rightarrow> 'x \<Rightarrow> ('e, 's, 'x) ctx" where
  "zero_ctx s x = \<lparr>isp_ini_cfg = zero_params, ctx_rest = zero_pipe s x\<rparr>"

end
