(* ===== verification/IspPipeline.thy ===== *)
theory IspPipeline
  imports IspContext
begin

text \<open>
  The operations of \<open>isp_manage/isp_manage.c\<close> on the context of \<open>IspContext\<close>: configuration, the frame, set-up and
  release. \<open>IspFrames\<close>, \<open>IspUpdate\<close> and \<open>IspSession\<close> prove what they do.
\<close>

section \<open>Configuration\<close>

definition wb_unity :: wb_gain where
  "wb_unity = \<lparr>r_gain = 256, gr_gain = 256, gb_gain = 256, b_gain = 256\<rparr>"

definition h3a_full :: coor_win where
  "h3a_full = \<lparr>win_x1 = - 1000, win_y1 = - 1000, win_x2 = 2000 + - 1000, win_y2 = 2000 + - 1000\<rparr>"

definition ISP_AE_ROW :: int where "ISP_AE_ROW = 16"
definition ISP_AE_COL :: int where "ISP_AE_COL = 24"

definition isp_ctx_cfg_lib :: "('e, 's, 'x) isp_pipe \<Rightarrow> ('e, 's, 'x) isp_pipe" where
  "isp_ctx_cfg_lib r = r\<lparr>
     adjust := \<lparr>adj_contrast = 0, adj_brightness = 0, adj_defog_value = 0\<rparr>,
     tune_set := (tune_set r)\<lparr>contrast_level := 0, brightness_level := 0, sharpness_level := 100,
       saturation_level := 100, tdf_level := 50, denoise_level := 50, pltmwdr_level := 0, effect := 0\<rparr>,
     ae_set := (ae_set r)\<lparr>exp_mode := 0, exp_metering_mode := 3, flash_mode := 5, flash_switch_flag := False,
       flash_open := 0, flicker_mode := 3, iso_mode := 1, exposure_lock := False, exp_compensation := 0,
       ae_coor := h3a_full\<rparr>,
     af_set := (af_set r)\<lparr>af_mode := 1, af_metering_mode := 1, focus_lock := False, af_range := 0,
       af_coor := h3a_full\<rparr>,
     awb_set := (awb_set r)\<lparr>wb_gain_manual := wb_unity, wb_mode := 1, white_balance_lock := False, awb_coor := h3a_full\<rparr>,
     min_rgb_saved := 1023, c_noise_saved := 20, wb_gain_saved := wb_unity,
     dyn_judge := \<lparr>judge_enable = False,
       mov_th = map (\<lambda>k. k * (ISP_AE_ROW - 2) * (ISP_AE_COL - 2)) [5, 10, 16, 24, 30, 64],
       tdnf_comp = [52, 26, - 26, - 77], tdnf_diff_comp = [39, 26, 0, 0], lp_th_ratio_comp = [52, 26, - 26, - 52],
       sharp_hfrq_comp = [52, 26, - 26, - 52], sharp_edge_comp = [26, 13, - 13, - 26],
       sharp_under_shoot_comp = [- 77, - 26, 13, 26]\<rparr>\<rparr>"

definition isp_ctx_enable_modules :: "('e, 's, 'x) ctx \<Rightarrow> ('e, 's, 'x) ctx" where
  "isp_ctx_enable_modules c =
     (case isp_ctx_apply_enable (si_wdr_mode (sinfo c)) (tests c) (module_enable_flag (module_cfg (ctx_rest c))) of
        (t, flag, lp) \<Rightarrow> upd_pipe (\<lambda>r. r\<lparr>module_cfg := (module_cfg r)\<lparr>module_enable_flag := flag\<rparr>, log_param := lp\<rparr>)
          (c\<lparr>isp_ini_cfg := (isp_ini_cfg c)\<lparr>isp_test_settings := t\<rparr>\<rparr>))"

text \<open>The light sources of the white balance, scaled by the calibration ratios: ten words per light, 32 lights.\<close>

definition otp_light :: "(nat \<Rightarrow> u32 \<Rightarrow> u32) \<Rightarrow> nat \<Rightarrow> u32 list \<Rightarrow> u32 list option" where
  "otp_light scale i info =
     (if 10 * i + 2 < length info
      then Some (info[10 * i := scale 0 (info ! (10 * i)), 10 * i + 1 := scale 1 (info ! (10 * i + 1)),
                      10 * i + 2 := scale 2 (info ! (10 * i + 2))])
      else None)"

definition otp_lights :: "(nat \<Rightarrow> u32 \<Rightarrow> u32) \<Rightarrow> u32 \<Rightarrow> u32 list \<Rightarrow> u32 list option" where
  "otp_lights scale num info = fold (\<lambda>i r. Option.bind r (otp_light scale i)) [0..<nat (sint num)] (Some info)"

definition or_default :: "u32 \<Rightarrow> u32 \<Rightarrow> u32" where
  "or_default v d = (if v = 0 then d else v)"

text \<open>\<open>__isp_ctx_cfg_mod\<close> in three parts: up to the first library calls, the module parameters, and the tables.\<close>

definition cfg_mod_modes :: "('e, 's, 'x) isp_libs \<Rightarrow> ('e, 's, 'x) ctx \<Rightarrow> ('e, 's, 'x) ctx" where
  "cfg_mod_modes L c =
     (let m = module_cfg (ctx_rest c); g = mc_wb_gain m; w = si_wdr_mode (sinfo c);
          c = upd_mod (\<lambda>m. m\<lparr>
            mc_wb_gain := (if wb_en (tests c) = 0 \<or> r_gain g = 0 \<or> gr_gain g = 0 \<or> gb_gain g = 0 \<or> b_gain g = 0
                           then wb_unity else g),
            mc_clip_val := 4095, mc_af_sap_lim := 24, mc_k3d_increase_mode := 0, mc_hist_mode := 2,
            mc_input_fmt := si_input_seq (sinfo c),
            mc_wdr_mode := (if w = 2 then 1 else if w = 1 then 0 else mc_wdr_mode m)\<rparr>) c;
          c = upd_pipe (ae_set_update (ae_mode_update (\<lambda>_. if w = 2 then 0 else if w = 1 then 1 else 0))) c;
          c = config_wdr L 1 (upd_mod (mc_wdr_cmp_mode_update (\<lambda>_. 0)) c);
          c = upd_mod (\<lambda>m. m\<lparr>mc_saturation_mode := 0, mc_hist_sel := ae_hist_sel (p3a c), mc_cfa_mode := 0,
            mc_ae_mode := ae_stat_sel (p3a c), mc_awb_mode := awb_stat_sel (p3a c), mc_dg_mode := 1,
            mc_output_speed := 1\<rparr>) c
      in config_dig_gain L 1024 c)"

definition cfg_mod_params :: "('e, 's, 'x) ctx \<Rightarrow> ('e, 's, 'x) ctx" where
  "cfg_mod_params c =
     (let h = ae_hist_mod_en (p3a c); t = tunning c; r = ctx_rest c
      in upd_mod (\<lambda>m. m\<lparr>
        mc_awb_sat_lim := [255, 255, 255],
        mc_hist_mode := (if h = 1 then 2 else if h = 2 then 1 else if h = 3 then 0 else mc_hist_mode m),
        mc_dir_th := ucast (or_default (cfa_dir_th t) 2047),
        mc_interp_mode := ucast (or_default (cfa_interp_mode t) 1),
        mc_zig_zag := ucast (or_default (cfa_zig_zag t) 5),
        mc_color_matrix := color_matrix_ini t ! 0,
        cfa_min_rgb := (if defog_en (tests c) = 1 then 1023 else 0),
        mc_ctc := [ctc_th_max t, ctc_th_min t, ctc_th_slope t, ctc_dir_wt t, ctc_dir_th t],
        mc_lss_switch := ucast (pltm_cfg t ! 6), mc_last_order_ratio := ucast (pltm_cfg t ! 3),
        mc_tr_order := ucast (pltm_cfg t ! 2), mc_oripic_ratio := ucast (pltm_cfg t ! 1),
        mc_intens_asym := ucast (pltm_cfg t ! 11), mc_spatial_asm := ucast (pltm_cfg t ! 10),
        mc_white_level := ucast (pltm_cfg t ! 9), mc_lp_halo_res := ucast (pltm_cfg t ! 8),
        mc_lum_ratio := ucast (pltm_cfg t ! 7), mc_block_v_num := ucast (pltm_cfg t ! 12),
        mc_block_h_num := ucast (pltm_cfg t ! 13),
        gca_ct_w := ucast ((pic_width r - 1) div 2), gca_ct_h := ucast ((pic_height r - 1) div 2),
        mc_gca := map (\<lambda>i. ucast (gca_cfg t ! i)) [0..<7],
        mc_lca_pf_satu_lut := lca_satu_lut (lca_pf_satu_lut t) (mc_lca_pf_satu_lut m),
        mc_lca_gf_satu_lut := lca_satu_lut (lca_gf_satu_lut t) (mc_lca_gf_satu_lut m),
        mc_rsc_mode := (if lsc_en (tests c) \<noteq> 0 then lsc_mode t else mc_rsc_mode m)\<rparr>) c)"

definition cfg_mod_msc :: "('e, 's, 'x) isp_libs \<Rightarrow> ('e, 's, 'x) ctx \<Rightarrow> ('e, 's, 'x) ctx" where
  "cfg_mod_msc L c =
     (if msc_en (tests c) = 0 then c
      else let t = tunning c; mode = isp_tunning_param.msc_mode t;
               c = upd_mod (\<lambda>m. m\<lparr>mc_msc_mode := mode,
                 mc_msc_blw_lut := msc_lut (msc_blw_lut t) (mc_msc_blw_lut m),
                 mc_msc_blh_lut := msc_lut (msc_blh_lut t) (mc_msc_blh_lut m)\<rparr>) c;
               c = upd_mod (\<lambda>m. m\<lparr>
                 mc_msc_blw_dlt_lut := msc_dlt_lut mode (mc_msc_blw_lut m) (mc_msc_blw_dlt_lut m),
                 mc_msc_blh_dlt_lut := msc_dlt_lut mode (mc_msc_blh_lut m) (mc_msc_blh_dlt_lut m)\<rparr>) c
           in upd_pipe (\<lambda>r. r\<lparr>other := otp_tables L (otp_enable r = 1) (other r)\<rparr>) c)"

definition cfg_mod_otp :: "('e, 's, 'x) isp_libs \<Rightarrow> ('e, 's, 'x) ctx \<Rightarrow> ('e, 's, 'x) ctx option" where
  "cfg_mod_otp L c =
     (if otp_enable (ctx_rest c) \<noteq> 1 then Some c
      else map_option (\<lambda>info. c\<lparr>isp_ini_cfg := (isp_ini_cfg c)\<lparr>isp_3a_settings := (p3a c)\<lparr>awb_light_info := info\<rparr>\<rparr>\<rparr>)
             (otp_lights (otp_gain L (other (ctx_rest c))) (awb_light_num (p3a c)) (awb_light_info (p3a c))))"

definition cfg_mod_tables :: "('e, 's, 'x) isp_libs \<Rightarrow> ('e, 's, 'x) ctx \<Rightarrow> ('e, 's, 'x) ctx" where
  "cfg_mod_tables L c =
     (let c = config_band_step L c;
          c = (if gamma_en (tests c) \<noteq> 0 then config_gamma L c else c);
          c = (if lsc_en (tests c) \<noteq> 0 then config_lens_center L (config_lens_table L 512 c) else c);
          c = (if msc_en (tests c) \<noteq> 0 then config_msc_table L 512 c else c)
      in upd_mod (\<lambda>m. m\<lparr>mc_cem_table := isp_cem_table (tunning c)\<rparr>) c)"

definition isp_ctx_cfg_mod :: "('e, 's, 'x) isp_libs \<Rightarrow> ('e, 's, 'x) ctx \<Rightarrow> ('e, 's, 'x) ctx option" where
  "isp_ctx_cfg_mod L c =
     map_option (cfg_mod_tables L) (cfg_mod_otp L (cfg_mod_msc L (cfg_mod_params (cfg_mod_modes L c))))"

text \<open>The parameter blocks: each function returns at once when its block is missing.\<close>

definition isp_ctx_update_iso_cfg :: "('e, 's, 'x) isp_libs \<Rightarrow> ('e, 's, 'x) ctx \<Rightarrow> ('e, 's, 'x) ctx option" where
  "isp_ctx_update_iso_cfg L c =
     (case ent_param (iso_ent (ctx_rest c)) of
        None \<Rightarrow> Some c
      | Some p \<Rightarrow>
          (let c = upd_pipe (iso_ent_update (ent_param_update (\<lambda>_. Some (p\<lparr>ip_isp_gen := True\<rparr>)))) c;
               c = isp_iso_set_params_helper L 0 c;
               af_on = af_en (tests c) = 1 \<or> isp_test_focus (tests c) = 1
           in Option.bind (store_param (\<lambda>p. p\<lparr>
         iso_cnr_adjust := 1, iso_sharpness_adjust := 1, iso_saturation_adjust := 1,
         iso_contrast_adjust := 1, iso_brightness_adjust := 1, iso_cem_ratio_adjust := 1,
         iso_denoise_adjust := 1, iso_sensor_offset_adjust := 1, iso_black_level_adjust := 1,
         iso_dpc_adjust := 1, iso_defog_value_adjust := 1, iso_ae_cfg_adjust := 1,
         iso_gtm_cfg_adjust := 1, iso_lca_cfg_adjust := 1,
         iso_af_cfg_adjust := (if af_on then 1 else 0), ip_test_mode := isp_test_mode (tests c),
         iso_denoise_np_core := [16, 20, 24, 28]\<rparr>) (iso_ent (ctx_rest c)))
                (\<lambda>x. run_iso L (upd_pipe (iso_ent_update (\<lambda>_. x)) c))))"

definition af_ini_of :: "isp_3a_param \<Rightarrow> af_ini_cfg" where
  "af_ini_of t = \<lparr>
         fi_af_use_otp = af_use_otp t, fi_vcm_min_code = vcm_min_code t, fi_vcm_max_code = vcm_max_code t,
         fi_af_interval_time = af_interval_time t, fi_af_speed_ind = af_speed_ind t, fi_af_auto_fine_en = af_auto_fine_en t,
         fi_af_single_fine_en = af_single_fine_en t, fi_af_fine_step = af_fine_step t, fi_af_move_cnt = af_move_cnt t,
         fi_af_still_cnt = af_still_cnt t, fi_af_move_monitor_cnt = af_move_monitor_cnt t, fi_af_still_monitor_cnt = af_still_monitor_cnt t,
         fi_af_stable_min = af_stable_min t, fi_af_stable_max = af_stable_max t, fi_af_low_light_lv = af_low_light_lv t,
         fi_af_near_tolerance = af_near_tolerance t, fi_af_far_tolerance = af_far_tolerance t, fi_af_tolerance_off = af_tolerance_off t,
         fi_af_peak_th = af_peak_th t, fi_af_dir_th = af_dir_th t, fi_af_change_ratio = af_change_ratio t,
         fi_af_move_minus = af_move_minus t, fi_af_still_minus = af_still_minus t, fi_af_scene_motion_th = af_scene_motion_th t,
         fi_af_tolerance_tbl_len = af_tolerance_tbl_len t,
         fi_std_code_tbl = af_std_code_tbl t, fi_tolerance_value_tbl = af_tolerance_value_tbl t\<rparr>"

definition af_test_of :: "isp_test_param \<Rightarrow> af_test_config" where
  "af_test_of t = \<lparr>
         fit_isp_test_mode = isp_test_mode t, fit_isp_test_focus = isp_test_focus t, fit_focus_start = focus_start t,
         fit_focus_step = focus_step t, fit_focus_end = focus_end t, fit_focus_change_interval = focus_change_interval t,
         fit_af_en = af_en t\<rparr>"

definition put_param :: "('p \<Rightarrow> 'p) \<Rightarrow> ('e, 'p, 'r) entity_ctx \<Rightarrow> ('e, 'p, 'r) entity_ctx" where
  "put_param f x = x\<lparr>ent_param := map_option f (ent_param x)\<rparr>"

definition isp_ctx_update_af_cfg :: "('e, 's, 'x) isp_libs \<Rightarrow> ('e, 's, 'x) ctx \<Rightarrow> ('e, 's, 'x) ctx" where
  "isp_ctx_update_af_cfg L c =
     (if ent_param (af_ent (ctx_rest c)) = None then c
      else let c = upd_pipe (af_ent_update (put_param (af_ini_update (\<lambda>_. af_ini_of (p3a c))))) c;
               c = isp_af_set_params_helper L 0 c
           in upd_pipe (af_ent_update (put_param (\<lambda>p. p\<lparr>vcm_max := vcm_max_code (p3a c),
                vcm_min := vcm_min_code (p3a c), af_test := af_test_of (tests c)\<rparr>))) c)"

definition awb_ini_of :: "isp_3a_param \<Rightarrow> awb_ini_cfg" where
  "awb_ini_of t = \<lparr>
         bi_awb_interval = awb_interval t, bi_awb_speed = awb_speed t, bi_awb_color_temper_low = awb_color_temper_low t,
         bi_awb_color_temper_high = awb_color_temper_high t, bi_awb_base_temper = awb_base_temper t, bi_awb_green_zone_dist = awb_green_zone_dist t,
         bi_awb_blue_sky_dist = awb_blue_sky_dist t, bi_awb_light_num = awb_light_num t, bi_awb_ext_light_num = awb_ext_light_num t,
         bi_awb_skin_color_num = awb_skin_color_num t, bi_awb_special_color_num = awb_special_color_num t, bi_awb_rgain_favor = awb_rgain_favor t,
         bi_awb_bgain_favor = awb_bgain_favor t,
         bi_awb_light_info = awb_light_info t, bi_awb_ext_light_info = awb_ext_light_info t,
         bi_awb_skin_color_info = awb_skin_color_info t, bi_awb_special_color_info = awb_special_color_info t,
         bi_awb_preset_gain = awb_preset_gain t\<rparr>"

definition isp_ctx_update_awb_cfg :: "('e, 's, 'x) isp_libs \<Rightarrow> ('e, 's, 'x) ctx \<Rightarrow> ('e, 's, 'x) ctx" where
  "isp_ctx_update_awb_cfg L c =
     (if ent_param (awb_ent (ctx_rest c)) = None then c
      else let c = upd_pipe (awb_ent_update (put_param (awb_ini_update (\<lambda>_. awb_ini_of (p3a c))))) c;
               c = isp_awb_set_params_helper L 0 c
           in upd_pipe (awb_ent_update (put_param (\<lambda>p. p\<lparr>bp_awb_en := awb_en (tests c),
                bp_color_temp := isp_color_temp (tests c), bp_test_mode := isp_test_mode (tests c)\<rparr>))) c)"

text \<open>The 42 words of a table fill seven of its ten rows.\<close>

definition ae_table_of :: "u32 \<Rightarrow> u32 list \<Rightarrow> ae_table_info \<Rightarrow> ae_table_info" where
  "ae_table_of len tbl i = i\<lparr>tbl_length := len, ae_tbl := overlay (ae_tbl i) (take 42 tbl)\<rparr>"

definition ae_ini_of :: "isp_3a_param \<Rightarrow> ae_ini_cfg \<Rightarrow> ae_ini_cfg" where
  "ae_ini_of t i = i\<lparr>
         ai_define_ae_table := define_ae_table t, ai_ae_max_lv := ae_max_lv t, ai_ae_hist_mod_en := ae_hist_mod_en t,
         ai_ae_ki := ae_ki t, ai_ae_ConvDataIndex := ae_ConvDataIndex t, ai_ae_blowout_pre_en := ae_blowout_pre_en t,
         ai_ae_blowout_attr := ae_blowout_attr t, ai_ae_delay_frame := ae_delay_frame t, ai_exp_delay_frame := exp_delay_frame t,
         ai_gain_delay_frame := gain_delay_frame t, ai_exp_comp_step := exp_comp_step t, ai_ae_touch_dist_ind := ae_touch_dist_ind t,
         ai_ae_iso2gain_ratio := ae_iso2gain_ratio t,
         ai_gain_ratio := 0,
         ai_tbl_preview := ae_table_of (ae_table_preview_length t) (ae_table_preview t) (ai_tbl_preview i),
         ai_tbl_capture := ae_table_of (ae_table_capture_length t) (ae_table_capture t) (ai_tbl_capture i),
         ai_tbl_video := ae_table_of (ae_table_video_length t) (ae_table_video t) (ai_tbl_video i),
         ai_analog_gain_range := ae_analog_gain_range t, ai_digital_gain_range := [1024, 1024 * 3],
         ai_fno_step := ae_fno_step t, ai_wdr_cfg := wdr_cfg t, ai_win_weight := ae_win_weight t\<rparr>"

definition ae_test_of :: "isp_test_param \<Rightarrow> ae_test_config" where
  "ae_test_of t = \<lparr>
         aet_isp_test_mode = isp_test_mode t, aet_isp_gain = isp_gain t, aet_isp_exp_line = isp_exp_line t,
         aet_ae_forced = ae_forced t, aet_lum_forced = lum_forced t, aet_isp_test_exptime = isp_test_exptime t,
         aet_exp_line_start = exp_line_start t, aet_exp_line_step = exp_line_step t, aet_exp_line_end = exp_line_end t,
         aet_exp_change_interval = exp_change_interval t, aet_isp_test_gain = isp_test_gain t, aet_gain_start = gain_start t,
         aet_gain_step = gain_step t, aet_gain_end = gain_end t, aet_gain_change_interval = gain_change_interval t,
         aet_ae_en = ae_en t,
         aet_check_delay_en = 0, aet_delay_type = 2\<rparr>"

definition isp_ctx_update_ae_cfg :: "('e, 's, 'x) isp_libs \<Rightarrow> ('e, 's, 'x) ctx \<Rightarrow> ('e, 's, 'x) ctx" where
  "isp_ctx_update_ae_cfg L c =
     (if ent_param (ae_ent (ctx_rest c)) = None then c
      else let c = upd_pipe (ae_set_update (ae_flicker_type_update (\<lambda>_. flicker_type (tunning c)))) c;
               c = c\<lparr>isp_ini_cfg := (isp_ini_cfg c)\<lparr>isp_3a_settings := (p3a c)\<lparr>wdr_cfg := (wdr_cfg (p3a c))[3 := 0]\<rparr>\<rparr>\<rparr>;
               c = upd_pipe (ae_ent_update (put_param (\<lambda>p. p\<lparr>ae_sensor_info := sinfo c, ae_ini := ae_ini_of (p3a c) (ae_ini p)\<rparr>))) c;
               c = isp_ae_set_params_helper L 0 c;
               c = upd_pipe (ae_ent_update (put_param (ae_test_update (\<lambda>_. ae_test_of (tests c))))) c;
               c = isp_ae_set_params_helper L 1 c
           in (case ent_param (ae_ent (ctx_rest c)) of
                 None \<Rightarrow> c
               | Some p \<Rightarrow> upd_pipe (tune_set_update (gains_update (\<lambda>g. g\<lparr>
                   ana_gain_min := sint (ai_analog_gain_range (ae_ini p) ! 0),
                   ana_gain_max := sint (ai_analog_gain_range (ae_ini p) ! 1),
                   dig_gain_min := sint (ai_digital_gain_range (ae_ini p) ! 0) sdiv 4,
                   dig_gain_max := sint (ai_digital_gain_range (ae_ini p) ! 1) sdiv 4\<rparr>))) c))"

definition isp_ctx_update_gtm_cfg :: "('e, 's, 'x) isp_libs \<Rightarrow> ('e, 's, 'x) ctx \<Rightarrow> ('e, 's, 'x) ctx" where
  "isp_ctx_update_gtm_cfg L c =
     (if ent_param (gtm_ent (ctx_rest c)) = None then c
      else let c = upd_pipe (gtm_ent_update (put_param (\<lambda>p. p\<lparr>gtm_enable := gtm_en (tests c),
                 gp_gtm_type := gtm_type (tunning c), gp_gamma_type := gamma_type (tunning c),
                 AutoAlphaEn := auto_alpha_en (tunning c),
                 gp_gtm_cfg := take 9 (ae_hist_eq_cfg (ae_set (ctx_rest c)))\<rparr>))) c;
               c = isp_gtm_set_params_helper L 0 c
           in upd_pipe (gtm_ent_update (put_param (\<lambda>p. p\<lparr>gp_test_mode := isp_test_mode (tests c)\<rparr>))) c)"

definition isp_ctx_update_pltm_cfg :: "('e, 's, 'x) ctx \<Rightarrow> ('e, 's, 'x) ctx" where
  "isp_ctx_update_pltm_cfg c = upd_pipe (pltm_ent_update (put_param (\<lambda>p. p\<lparr>
     pltm_enable := pltm_en (tests c), lp_ae_enable := ae_en (tests c), lp_sensor_info := sinfo c,
     lp_pltm_table := isp_pltm_table (tunning c), lp_pltm_cfg := pltm_cfg (tunning c),
     lp_pltm_dynamic_cfg := ae_pltm_dynamic_cfg (ae_set (ctx_rest c))\<rparr>))) c"

definition isp_ctx_update_afs_cfg :: "('e, 's, 'x) ctx \<Rightarrow> ('e, 's, 'x) ctx" where
  "isp_ctx_update_afs_cfg c = upd_pipe (afs_ent_update (put_param (\<lambda>p. p\<lparr>
     sp_flicker_ratio := flicker_ratio (tunning c), flicker_type_ini := flicker_type (tunning c),
     sp_test_mode := isp_test_mode (tests c), sp_afs_en := afs_en (tests c)\<rparr>))) c"

text \<open>The calls that \<open>__isp_ctx_config\<close> and \<open>__isp_ctx_update\<close> share.\<close>

definition isp_ctx_update_libs :: "('e, 's, 'x) isp_libs \<Rightarrow> ('e, 's, 'x) ctx \<Rightarrow> ('e, 's, 'x) ctx option" where
  "isp_ctx_update_libs L c =
     Option.bind (isp_ctx_cfg_mod L c) (\<lambda>c.
     map_option (\<lambda>c. isp_ctx_update_afs_cfg (isp_ctx_update_pltm_cfg (isp_ctx_update_gtm_cfg L
       (isp_ctx_update_awb_cfg L (isp_ctx_update_ae_cfg L (isp_ctx_update_af_cfg L c))))))
       (isp_ctx_update_iso_cfg L c))"

definition isp_ctx_config :: "('e, 's, 'x) isp_libs \<Rightarrow> ('e, 's, 'x) ctx \<Rightarrow> ('e, 's, 'x) ctx option" where
  "isp_ctx_config L c = isp_ctx_update_libs L (upd_pipe isp_ctx_cfg_lib (isp_ctx_enable_modules c))"

definition isp_ctx_update :: "('e, 's, 'x) isp_libs \<Rightarrow> ('e, 's, 'x) ctx \<Rightarrow> ('e, 's, 'x) ctx option" where
  "isp_ctx_update L c = isp_ctx_update_libs L (isp_ctx_enable_modules c)"

section \<open>The entry points\<close>

definition ctx_lock :: "('e, 's, 'x) ctx \<Rightarrow> ('e, 's, 'x) ctx option" where
  "ctx_lock c = (if ctx_locked (ctx_rest c) then None else Some (upd_pipe (ctx_locked_update (\<lambda>_. True)) c))"

definition ctx_unlock :: "('e, 's, 'x) ctx \<Rightarrow> ('e, 's, 'x) ctx" where
  "ctx_unlock c = upd_pipe (ctx_locked_update (\<lambda>_. False)) c"

text \<open>\<open>isp_hardware_update\<close> writes the module parameters into the block that \<open>isp_map_addr\<close> registered.\<close>

definition hardware_update :: "('e, 's, 'x) isp_libs \<Rightarrow> ('e, 's, 'x) ctx \<Rightarrow> ('e, 's, 'x) ctx option" where
  "hardware_update L c =
     (case load_mem (ctx_rest c) of
        None \<Rightarrow> None
      | Some (a, m) \<Rightarrow> (case lib_hardware_update L (module_cfg (ctx_rest c)) m of
          (mc, m') \<Rightarrow> Some (upd_pipe (\<lambda>r. r\<lparr>module_cfg := mc, load_mem := Some (a, m')\<rparr>) c)))"

definition isp_ctx_config_update :: "('e, 's, 'x) isp_libs \<Rightarrow> ('e, 's, 'x) ctx \<Rightarrow> ('e, 's, 'x) ctx option" where
  "isp_ctx_config_update L c = Option.bind (ctx_lock c) (\<lambda>c. map_option ctx_unlock (isp_ctx_update L c))"

definition isp_ctx_config_init :: "('e, 's, 'x) isp_libs \<Rightarrow> ('e, 's, 'x) ctx \<Rightarrow> (int \<times> ('e, 's, 'x) ctx) option" where
  "isp_ctx_config_init L c =
     Option.bind (ctx_lock c) (\<lambda>c.
       if si_sensor_height (sinfo c) = 0 then Some (- 1, ctx_unlock c)
       else Option.bind (isp_ctx_config L c) (\<lambda>c.
         let c = upd_pipe (change_flags_update (\<lambda>_. ((0xffffffff AND NOT ISP_SET_BRIGHTNESS)
                   AND NOT ISP_SET_CONTRAST) AND NOT ISP_SET_GAIN_STR)) c
         in map_option (\<lambda>c. (0, ctx_unlock (upd_pipe (min_rgb_pre_update (\<lambda>_. replicate 8 0)) c)))
              (hardware_update L (lib_apply_settings L c))))"

definition isp_ctx_config_reset :: "('e, 's, 'x) isp_libs \<Rightarrow> ('e, 's, 'x) ctx \<Rightarrow> (int \<times> ('e, 's, 'x) ctx) option" where
  "isp_ctx_config_reset L c = map_option (\<lambda>(_, c). (0, c)) (isp_ctx_config_init L c)"

definition isp_ctx_config_exit :: "('e, 's, 'x) ctx \<Rightarrow> ('e, 's, 'x) ctx option" where
  "isp_ctx_config_exit c = map_option ctx_unlock (ctx_lock c)"

definition isp_ctx_stats_prepare :: "('e, 's, 'x) isp_libs \<Rightarrow> byte list \<Rightarrow> ('e, 's, 'x) ctx \<Rightarrow> ('e, 's, 'x) ctx option" where
  "isp_ctx_stats_prepare L buffer c = map_option (\<lambda>c. ctx_unlock (lib_handle_stats L buffer c)) (ctx_lock c)"

definition isp_ctx_stats_prepare_sync ::
    "('e, 's, 'x) isp_libs \<Rightarrow> byte list option \<Rightarrow> byte list option \<Rightarrow> ('e, 's, 'x) ctx \<Rightarrow> ('e, 's, 'x) ctx option" where
  "isp_ctx_stats_prepare_sync L buffer0 buffer1 c =
     map_option (\<lambda>c. ctx_unlock (lib_handle_stats_sync L buffer0 buffer1 c)) (ctx_lock c)"

definition isp_ctx_stats_req :: "('e, 's, 'x) ctx \<Rightarrow> ('s \<times> ('e, 's, 'x) ctx) option" where
  "isp_ctx_stats_req c = map_option (\<lambda>c. (stats (ctx_rest c), ctx_unlock c)) (ctx_lock c)"

section \<open>A frame\<close>

definition on_ent :: "(('e, 's, 'x) isp_pipe \<Rightarrow> 'a) \<Rightarrow> (('a \<Rightarrow> 'a) \<Rightarrow> ('e, 's, 'x) isp_pipe \<Rightarrow> ('e, 's, 'x) isp_pipe) \<Rightarrow>
  ('a \<Rightarrow> 'a option) \<Rightarrow> ('e, 's, 'x) ctx \<Rightarrow> ('e, 's, 'x) ctx option" where
  "on_ent sel upd f c = map_option (\<lambda>x. upd_pipe (upd (\<lambda>_. x)) c) (f (sel (ctx_rest c)))"

text \<open>
  What synchronous mode shares between the two ISPs: the statistics buffer of the other one, and the results of
  ISP 1. The callbacks \<open>__ae_done\<close>, \<open>__af_done\<close>, \<open>__awb_done\<close>, \<open>__afs_done\<close> and \<open>__pltm_done\<close> of ISP 0 take
  these results over; \<open>None\<close> is the other mode.
\<close>

record sync_results =
  sy_buf :: "byte list option" \<comment> \<open>the other ISP's \<open>isp_stat_buf\<close>\<close>
  sy_ae :: ae_result
  sy_af :: af_result
  sy_awb :: awb_result
  sy_afs :: afs_result
  sy_pltm :: pltm_result

definition done_result :: "(sync_results \<Rightarrow> 'r) \<Rightarrow> sync_results option \<Rightarrow> u32 \<Rightarrow> 'r \<Rightarrow> 'r" where
  "done_result sel sync lib_id r = (case sync of Some p \<Rightarrow> if lib_id = 0 then sel p else r | None \<Rightarrow> r)"

definition run_done :: "('e, 'p, 's, 'r) core_ops \<Rightarrow> (sync_results \<Rightarrow> 'r) \<Rightarrow> sync_results option \<Rightarrow> ('e, 's, 'x) isp_pipe \<Rightarrow>
  ('e, 'p, 'r) entity_ctx \<Rightarrow> ('e, 'p, 'r) entity_ctx option" where
  "run_done ops sel sync r x = map_option (ent_result_update (done_result sel sync (isp_id r))) (run_core ops (stats r) x)"

definition isp_ae_set_params :: "('e, 's, 'x) ctx \<Rightarrow> ('e, 's, 'x) ctx option" where
  "isp_ae_set_params c = (let r = ctx_rest c in on_ent ae_ent ae_ent_update (store_param (\<lambda>p. p\<lparr>
     ae_frame_id := ucast (frame_cnts.ae_frame_cnt (cnts r)), ae_isp_id := isp_id r, ae_setting := ae_set r,
     ae_sensor_info := sensor_info r, ae_target_comp := ucast (pltm_ae_comp (ent_result (pltm_ent r)))\<rparr>)) c)"

definition clamp_u32 :: "u32 \<Rightarrow> u32 \<Rightarrow> u32 \<Rightarrow> u32" where
  "clamp_u32 v lo hi = (let v = (if v < lo then lo else v) in if v > hi then hi else v)"

text \<open>The line count of the frame is taken from the exposure of the previous one.\<close>

definition isp_ae_update_sensor_info :: "ae_result \<Rightarrow> isp_sensor_info \<Rightarrow> isp_sensor_info option" where
  "isp_ae_update_sensor_info a s =
     (let total_vts = si_exp_line s div 16;
          total_vts = (if si_vts s > total_vts then si_vts s else total_vts);
          fps = (if si_vts s \<noteq> 0 \<and> si_hts s \<noteq> 0 \<and> si_pclk s \<noteq> 0
                 then if total_vts * si_hts s = 0 then None else Some (si_pclk s div (total_vts * si_hts s))
                 else Some 30)
      in map_option (\<lambda>f. s\<lparr>si_exp_line := ar_exp_line a, si_ang_gain := ar_analog_gain a,
            si_dig_gain := ar_digital_gain a, si_total_gain := ar_total_gain a, si_ae_tbl_idx := ar_idx a,
            si_ae_tbl_idx_max := ar_idx_max a, si_is_ae_done := (if ae_status a = 2 then 1 else 0),
            si_backlight := ar_backlight a, si_ae_gain := ar_gain a, si_ae_lv := ar_lv a,
            si_fps := clamp_u32 f 1 1000, si_frame_time := 1000 div clamp_u32 f 1 1000\<rparr>) fps)"

definition isp_ae_run :: "('e, 's, 'x) isp_libs \<Rightarrow> sync_results option \<Rightarrow> ('e, 's, 'x) ctx \<Rightarrow> ('e, 's, 'x) ctx option" where
  "isp_ae_run L sync c =
     Option.bind (on_ent ae_ent ae_ent_update (run_done (ae_core L) sy_ae sync (ctx_rest c)) c) (\<lambda>c.
     map_option (\<lambda>c. let c = config_gamma L c
         in config_wdr L 0 (config_dig_gain L (ar_digital_gain (ent_result (ae_ent (ctx_rest c)))) c))
       (on_ent sensor_info sensor_info_update (isp_ae_update_sensor_info (ent_result (ae_ent (ctx_rest c)))) c))"

definition isp_iso_set_params :: "('e, 's, 'x) ctx \<Rightarrow> ('e, 's, 'x) ctx option" where
  "isp_iso_set_params c = (let r = ctx_rest c in on_ent iso_ent iso_ent_update (store_param (\<lambda>p. p\<lparr>
     ip_platform_id := mc_isp_platform_id (module_cfg r), iso_frame_id := ucast (iso_frame_cnt (cnts r)),
     cem_color2gray_th := 130, cem_color2gray_delta_min := 25, cem_color2gray_delta_max := 30\<rparr>)) c)"

definition isp_gtm_set_params :: "('e, 's, 'x) isp_libs \<Rightarrow> ('e, 's, 'x) ctx \<Rightarrow> ('e, 's, 'x) ctx option" where
  "isp_gtm_set_params L c = (let r = ctx_rest c; t = tunning c in
     map_option (isp_gtm_set_params_helper L 0) (on_ent gtm_ent gtm_ent_update (store_param (\<lambda>p. p\<lparr>
     gtm_frame_id := ucast (gtm_frame_cnt (cnts r)), gp_contrast := adj_contrast (adjust r),
     gp_brightness := adj_brightness (adjust r),
     gp_BrightPixellValue := BrightPixellValue (ent_result (ae_ent r)), gp_DarkPixelValue := DarkPixelValue (ent_result (ae_ent r)),
     gp_gtm_type := gtm_type t, gp_gamma_type := gamma_type t, AutoAlphaEn := auto_alpha_en t,
     gp_hist_pix_cnt := hist_pix_cnt t, gp_dark_minval := dark_minval t, gp_bright_minval := bright_minval t,
     gp_plum_var := plum_var t, gp_gtm_cfg := take 9 (ae_hist_eq_cfg (ae_set r))\<rparr>)) c))"

definition isp_gtm_run :: "('e, 's, 'x) isp_libs \<Rightarrow> ('e, 's, 'x) ctx \<Rightarrow> ('e, 's, 'x) ctx option" where
  "isp_gtm_run L c = on_ent gtm_ent gtm_ent_update (run_core (gtm_core L) (stats (ctx_rest c))) c"

definition isp_pltm_set_params :: "('e, 's, 'x) ctx \<Rightarrow> ('e, 's, 'x) ctx option" where
  "isp_pltm_set_params c = (let r = ctx_rest c in on_ent pltm_ent pltm_ent_update (store_param (\<lambda>p. p\<lparr>
     pltm_frame_id := ucast (frame_cnts.ae_frame_cnt (cnts r)), lp_sensor_info := sensor_info r,
     lp_pltm_cfg := pltm_cfg (tunning c), lp_pltm_dynamic_cfg := ae_pltm_dynamic_cfg (ae_set r)\<rparr>)) c)"

text \<open>The table of the result is not copied: \<open>ISP_PLTM_MEM_SIZE\<close> is 0.\<close>

definition isp_pltm_run :: "('e, 's, 'x) isp_libs \<Rightarrow> sync_results option \<Rightarrow> ('e, 's, 'x) ctx \<Rightarrow> ('e, 's, 'x) ctx option" where
  "isp_pltm_run L sync c =
     map_option (\<lambda>c. let a = ent_result (pltm_ent (ctx_rest c)); t = pltm_cfg (tunning c) in upd_mod (\<lambda>m. m\<lparr>
         mc_oripic_ratio := ucast (pltm_oripic_ratio a), mc_tr_order := ucast (pltm_tr_order a),
         mc_last_order_ratio := ucast (pltm_last_order_ratio a), mc_cal_en := ucast (pltm_cal_en a),
         mc_frm_sm_en := ucast (pltm_frm_sm_en a), mc_block_height := ucast (pltm_block_height a),
         mc_block_width := ucast (pltm_block_width a), mc_statistic_div := pltm_statistic_div a,
         mc_lss_switch := ucast (t ! 6), mc_lum_ratio := ucast (t ! 7), mc_lp_halo_res := ucast (t ! 8),
         mc_white_level := ucast (t ! 9), mc_intens_asym := ucast (t ! 11), mc_spatial_asm := ucast (t ! 10),
         mc_block_h_num := ucast (t ! 13), mc_block_v_num := ucast (t ! 12)\<rparr>) c)
       (on_ent pltm_ent pltm_ent_update (run_done (pltm_core L) sy_pltm sync (ctx_rest c)) c)"

definition isp_afs_set_params :: "('e, 's, 'x) ctx \<Rightarrow> ('e, 's, 'x) ctx option" where
  "isp_afs_set_params c = (let r = ctx_rest c in on_ent afs_ent afs_ent_update (store_param (\<lambda>p. p\<lparr>
     sp_platform_id := mc_isp_platform_id (module_cfg r), afs_frame_id := ucast (af_frame_cnt (cnts r)),
     afs_sensor_info := sensor_info r\<rparr>)) c)"

definition isp_afs_run :: "('e, 's, 'x) isp_libs \<Rightarrow> sync_results option \<Rightarrow> ('e, 's, 'x) ctx \<Rightarrow> ('e, 's, 'x) ctx option" where
  "isp_afs_run L sync c =
     map_option (\<lambda>c. upd_pipe (\<lambda>r. r\<lparr>ae_set := (ae_set r)\<lparr>ae_flicker_type := flicker_type_output (ent_result (afs_ent r))\<rparr>\<rparr>) c)
       (on_ent afs_ent afs_ent_update (run_done (afs_core L) sy_afs sync (ctx_rest c)) c)"

definition isp_af_set_params :: "('e, 's, 'x) ctx \<Rightarrow> ('e, 's, 'x) ctx option" where
  "isp_af_set_params c = (let r = ctx_rest c; s = af_set r in on_ent af_ent af_ent_update (store_param (\<lambda>p. p\<lparr>
     af_frame_id := ucast (af_frame_cnt (cnts r)), fp_focus_absolute := focus_absolute s,
     fp_focus_relative := focus_relative s, af_run_mode := af_mode s, fp_metering_mode := af_metering_mode s,
     fp_range := af_range s, fp_focus_lock := focus_lock s, fp_sensor_info := sensor_info r\<rparr>)) c)"

definition isp_af_run :: "('e, 's, 'x) isp_libs \<Rightarrow> sync_results option \<Rightarrow> ('e, 's, 'x) ctx \<Rightarrow> ('e, 's, 'x) ctx option" where
  "isp_af_run L sync c =
     map_option (\<lambda>c. upd_mod (\<lambda>m. m\<lparr>mc_af_sap_lim := af_sap_lim_output (ent_result (af_ent (ctx_rest c)))\<rparr>) c)
       (on_ent af_ent af_ent_update (run_done (af_core L) sy_af sync (ctx_rest c)) c)"

definition isp_awb_set_params :: "('e, 's, 'x) ctx \<Rightarrow> ('e, 's, 'x) ctx option" where
  "isp_awb_set_params c = (let r = ctx_rest c in on_ent awb_ent awb_ent_update (store_param (\<lambda>p. p\<lparr>
     awb_frame_id := ucast (awb_frame_cnt (cnts r)), awb_ctrl := awb_set r, awb_sensor_info := sensor_info r\<rparr>)) c)"

text \<open>
  \<open>(HW_U16)sqrt((double)g * 256)\<close>: the argument is an integer below \<open>2^24\<close>, exact as a double, and the
  correctly rounded root of an integer is not rounded up to the next integer, so the conversion yields the integer root.
\<close>

definition sqrt_gain :: "u16 \<Rightarrow> u16" where
  "sqrt_gain g = of_nat (length (filter (\<lambda>k. k * k \<le> unat g * 256) [1..<4096]))"

definition isp_awb_run :: "('e, 's, 'x) isp_libs \<Rightarrow> sync_results option \<Rightarrow> ('e, 's, 'x) ctx \<Rightarrow> ('e, 's, 'x) ctx option" where
  "isp_awb_run L sync c =
     map_option (\<lambda>c. let g = br_wb_gain_output (ent_result (awb_ent (ctx_rest c)));
          out = (if wdr_en (tests c) = 0 then g
                 else \<lparr>r_gain = sqrt_gain (r_gain g), gr_gain = sqrt_gain (gr_gain g),
                       gb_gain = sqrt_gain (gb_gain g), b_gain = sqrt_gain (b_gain g)\<rparr>)
        in upd_pipe (\<lambda>r. r\<lparr>module_cfg := (module_cfg r)\<lparr>mc_wb_gain := out\<rparr>, wb_gain_saved := g\<rparr>) c)
       (on_ent awb_ent awb_ent_update (run_done (awb_core L) sy_awb sync (ctx_rest c)) c)"

definition count_frame :: "frame_cnts \<Rightarrow> frame_cnts" where
  "count_frame n = n\<lparr>awb_frame_cnt := awb_frame_cnt n + 1, ae_frame_cnt := frame_cnts.ae_frame_cnt n + 1,
     af_frame_cnt := af_frame_cnt n + 1, alg_frame_cnt := alg_frame_cnt n + 1, gtm_frame_cnt := gtm_frame_cnt n + 1,
     md_frame_cnt := md_frame_cnt n + 1, afs_frame_cnt := afs_frame_cnt n + 1, iso_frame_cnt := iso_frame_cnt n + 1,
     rolloff_frame_cnt := rolloff_frame_cnt n + 1\<rparr>"

definition opt_step :: "bool \<Rightarrow> ('c \<Rightarrow> 'c option) \<Rightarrow> 'c \<Rightarrow> 'c option" where
  "opt_step b f c = (if b then f c else Some c)"

definition seq :: "('c \<Rightarrow> 'c option) \<Rightarrow> ('c \<Rightarrow> 'c option) \<Rightarrow> 'c \<Rightarrow> 'c option" where
  "seq f g c = Option.bind (f c) g"

text \<open>The body of \<open>isp_ctx_algo_run\<close> between the lock and the unlock; \<open>isp_get_saved_regs\<close> does nothing.\<close>

definition algo_body :: "('e, 's, 'x) isp_libs \<Rightarrow> sync_results option \<Rightarrow> (('e, 's, 'x) ctx \<Rightarrow> ('e, 's, 'x) ctx option) list" where
  "algo_body L sync = [
     \<lambda>c. Some (lib_apply_settings L c),
     isp_ae_set_params, isp_ae_run L sync, \<lambda>c. Some (lib_dynamic_judge L c),
     isp_iso_set_params, run_iso L,
     \<lambda>c. opt_step (gtm_en (tests c) \<noteq> 0) (seq (isp_gtm_set_params L) (isp_gtm_run L)) c,
     \<lambda>c. opt_step (pltm_en (tests c) \<noteq> 0) (seq isp_pltm_set_params (isp_pltm_run L sync)) c,
     \<lambda>c. opt_step (afs_en (tests c) \<noteq> 0) (seq isp_afs_set_params (isp_afs_run L sync)) c,
     isp_af_set_params, isp_af_run L sync,
     isp_awb_set_params, isp_awb_run L sync,
     \<lambda>c. opt_step (lsc_en (tests c) \<noteq> 0)
           (\<lambda>c. Some (config_lens_table L (af_std_code_output (ent_result (af_ent (ctx_rest c)))) c)) c,
     \<lambda>c. opt_step (msc_en (tests c) \<noteq> 0)
           (\<lambda>c. Some (config_msc_table L (af_std_code_output (ent_result (af_ent (ctx_rest c)))) c)) c,
     \<lambda>c. Some (lib_apply_colormatrix L c),
     \<lambda>c. Some (upd_mod (\<lambda>m. m\<lparr>cfa_min_rgb := (if defog_en (tests c) \<noteq> 0 then 1023 else 0)\<rparr>) c)]"

definition algo_steps :: "('e, 's, 'x) isp_libs \<Rightarrow> sync_results option \<Rightarrow> (('e, 's, 'x) ctx \<Rightarrow> ('e, 's, 'x) ctx option) list" where
  "algo_steps L sync = algo_body L sync @ [hardware_update L, \<lambda>c. Some (upd_pipe (cnts_update count_frame) c)]"

fun run_steps :: "('c \<Rightarrow> 'c option) list \<Rightarrow> 'c \<Rightarrow> 'c option" where
  "run_steps [] c = Some c"
| "run_steps (f # fs) c = Option.bind (f c) (run_steps fs)"

definition isp_ctx_algo_run :: "('e, 's, 'x) isp_libs \<Rightarrow> sync_results option \<Rightarrow> ('e, 's, 'x) ctx \<Rightarrow> ('e, 's, 'x) ctx option" where
  "isp_ctx_algo_run L sync c = Option.bind (ctx_lock c) (\<lambda>c. map_option ctx_unlock (run_steps (algo_steps L sync) c))"

section \<open>Set-up, release and the exposure tables\<close>

text \<open>A library that answers \<open>NULL\<close> leaves its object and its operations null and ends the set-up.\<close>

definition lib_open :: "('e \<times> 'p) option \<Rightarrow> ('p \<Rightarrow> 'p) \<Rightarrow> ('e, 'p, 'r) entity_ctx \<Rightarrow> ('e, 'p, 'r) entity_ctx" where
  "lib_open ini f x = (case ini of
       None \<Rightarrow> x\<lparr>ent := None, ent_ops := False\<rparr>
     | Some (e, p) \<Rightarrow> x\<lparr>ent := Some e, ent_ops := True, ent_param := Some (f p)\<rparr>)"

fun open_all :: "(bool \<times> ('c \<Rightarrow> 'c)) list \<Rightarrow> 'c \<Rightarrow> bool \<times> 'c" where
  "open_all [] c = (True, c)"
| "open_all ((ok, f) # fs) c = (if ok then open_all fs (f c) else (False, f c))"

definition zero_cnts :: frame_cnts where
  "zero_cnts = \<lparr>awb_frame_cnt = 0, ae_frame_cnt = 0, af_frame_cnt = 0, gtm_frame_cnt = 0, md_frame_cnt = 0,
     afs_frame_cnt = 0, iso_frame_cnt = 0, rolloff_frame_cnt = 0, alg_frame_cnt = 0\<rparr>"

text \<open>The parameter blocks get the platform id of the context; \<open>__isp_alloc_reg_tbl\<close> sets it only afterwards.\<close>

definition algo_libs :: "('e, 's, 'x) isp_libs \<Rightarrow> u32 \<Rightarrow> (bool \<times> (('e, 's, 'x) ctx \<Rightarrow> ('e, 's, 'x) ctx)) list" where
  "algo_libs L pid = [
     (iso_core_init L \<noteq> None, upd_pipe (iso_ent_update (lib_open (iso_core_init L) (ip_platform_id_update (\<lambda>_. pid))))),
     (core_init (af_core L) \<noteq> None, upd_pipe (af_ent_update (lib_open (core_init (af_core L)) (fp_platform_id_update (\<lambda>_. pid))))),
     (core_init (afs_core L) \<noteq> None, upd_pipe (afs_ent_update (lib_open (core_init (afs_core L)) (sp_platform_id_update (\<lambda>_. pid))))),
     (core_init (awb_core L) \<noteq> None, upd_pipe (awb_ent_update (lib_open (core_init (awb_core L)) (bp_platform_id_update (\<lambda>_. pid))))),
     (core_init (ae_core L) \<noteq> None, upd_pipe (ae_ent_update (lib_open (core_init (ae_core L)) (ap_platform_id_update (\<lambda>_. pid))))),
     (core_init (gtm_core L) \<noteq> None, upd_pipe (gtm_ent_update (lib_open (core_init (gtm_core L)) (gp_platform_id_update (\<lambda>_. pid))))),
     (core_init (pltm_core L) \<noteq> None, upd_pipe (pltm_ent_update (lib_open (core_init (pltm_core L)) (lp_platform_id_update (\<lambda>_. pid)))))]"

definition isp_ctx_algo_init :: "('e, 's, 'x) isp_libs \<Rightarrow> (nat \<times> byte list) option \<Rightarrow> ('e, 's, 'x) ctx \<Rightarrow>
  (int \<times> ('e, 's, 'x) ctx) option" where
  "isp_ctx_algo_init L blk c =
     (let (ok, c) = open_all (algo_libs L (mc_isp_platform_id (module_cfg (ctx_rest c)))) c
      in if \<not> ok then Some (- 1, c)
         else let c = upd_pipe (cnts_update (\<lambda>_. zero_cnts)) c in
           (case isp_alloc_reg_tbl blk of
              None \<Rightarrow> None
            | Some (ret, None) \<Rightarrow> Some (- 1, upd_pipe (load_mem_update (\<lambda>_. None)) c)
            | Some (ret, Some (base, t, m)) \<Rightarrow> Some (0, upd_pipe (\<lambda>r. r\<lparr>load_mem := Some (base, m),
                module_cfg := (module_cfg r)\<lparr>mc_isp_dev_id := isp_id r, mc_isp_platform_id := 1, mc_tables := Some t\<rparr>,
                ctx_locked := False\<rparr>) c)))"

text \<open>The library objects are released, but the pointers to them stay in the context.\<close>

definition isp_ctx_algo_exit :: "('e, 's, 'x) ctx \<Rightarrow> ('e, 's, 'x) ctx option" where
  "isp_ctx_algo_exit c = map_option (\<lambda>c. ctx_unlock (upd_pipe (load_mem_update (\<lambda>_. None)) c)) (ctx_lock c)"

definition raise_exposure :: "u32 \<Rightarrow> nat \<Rightarrow> u32 list \<Rightarrow> u32 list option" where
  "raise_exposure fps i t =
     (if 6 * i + 1 < length t
      then let t = (if t ! (6 * i + 1) < fps then t[6 * i + 1 := fps] else t)
           in Some (if t ! (6 * i) < fps then t[6 * i := fps] else t)
      else None)"

definition raise_exposures :: "u32 \<Rightarrow> ae_table_info \<Rightarrow> ae_table_info option" where
  "raise_exposures fps i =
     map_option (\<lambda>t. i\<lparr>ae_tbl := t\<rparr>)
       (fold (\<lambda>k r. Option.bind r (raise_exposure fps k)) [0..<nat (sint (tbl_length i))] (Some (ae_tbl i)))"

definition isp_ctx_update_ae_tbl :: "('e, 's, 'x) isp_libs \<Rightarrow> int \<Rightarrow> ('e, 's, 'x) ctx \<Rightarrow> ('e, 's, 'x) ctx option" where
  "isp_ctx_update_ae_tbl L sensor_fps c =
     Option.bind (ctx_lock c) (\<lambda>c.
     (case ent_param (ae_ent (ctx_rest c)) of
        None \<Rightarrow> None
      | Some p \<Rightarrow>
          Option.bind (raise_exposures (word_of_int sensor_fps) (ai_tbl_preview (ae_ini p))) (\<lambda>t1.
          Option.bind (raise_exposures (word_of_int sensor_fps) (ai_tbl_capture (ae_ini p))) (\<lambda>t2.
          map_option (\<lambda>t3. ctx_unlock (isp_ae_set_params_helper L 1 (isp_ae_set_params_helper L 0
              (upd_pipe (ae_ent_update (put_param (ae_ini_update (\<lambda>i. i\<lparr>ai_tbl_preview := t1,
                 ai_tbl_capture := t2, ai_tbl_video := t3\<rparr>)))) c))))
            (raise_exposures (word_of_int sensor_fps) (ai_tbl_video (ae_ini p)))))))"

end
