(* ===== verification/IspFrames.thy ===== *)
theory IspFrames
  imports IspPipeline
begin

text \<open>
  The frames of the pipeline manager: the timing that \<open>__isp_ae_update_sensor_info\<close> derives from the sensor, the state that every
  call of \<open>isp_ctx_algo_run\<close> needs and keeps (\<open>frame_ok\<close>), any number of frames after a set-up (the locale \<open>ticking\<close>), and the
  first frame after a set-up that failed. The archives without source are assumed to leave alone what a frame depends on
  (\<open>libs_keep\<close>) and to return bounded exposures (\<open>exposure_bounded\<close>).
\<close>

section \<open>Frame timing\<close>

lemma timing_cases:
  assumes "si_vts s \<noteq> 0 \<and> si_hts s \<noteq> 0 \<and> si_pclk s \<noteq> 0 \<Longrightarrow>
     (if si_vts s > si_exp_line s div 16 then si_vts s else si_exp_line s div 16) * si_hts s \<noteq> 0"
  shows "\<exists>s'. isp_ae_update_sensor_info a s = Some s' \<and> si_exp_line s' = ar_exp_line a \<and> si_hts s' = si_hts s \<and>
     si_vts s' = si_vts s \<and> si_frame_time s' = 1000 div si_fps s' \<and>
     si_fps s' = clamp_u32 (if si_vts s \<noteq> 0 \<and> si_hts s \<noteq> 0 \<and> si_pclk s \<noteq> 0
       then si_pclk s div ((if si_vts s > si_exp_line s div 16 then si_vts s else si_exp_line s div 16) * si_hts s)
       else 30) 1 1000"
  using assms unfolding isp_ae_update_sensor_info_def Let_def
  by (cases "si_vts s \<noteq> 0 \<and> si_hts s \<noteq> 0 \<and> si_pclk s \<noteq> 0") (simp_all only: if_True if_False simp_thms option.map, simp_all)

lemma unat_lines:
  "unat (if si_vts s > si_exp_line s div 16 then si_vts s else si_exp_line s div 16) =
     max (unat (si_vts s)) (unat (si_exp_line s) div 16)"
  by (auto simp: word_less_nat_alt unat_div_distrib)

lemma unat_clamp: "unat (clamp_u32 f 1 1000) = max 1 (min 1000 (unat f))"
  by (auto simp: clamp_u32_def Let_def word_less_nat_alt)

lemma lines_fit:
  assumes "max (unat (si_vts s)) (unat (si_exp_line s) div 16) * unat (si_hts s) < 2 ^ 32"
  shows "unat ((if si_vts s > si_exp_line s div 16 then si_vts s else si_exp_line s div 16) * si_hts s) =
     max (unat (si_vts s)) (unat (si_exp_line s) div 16) * unat (si_hts s)"
  using assms unfolding unat_mult_lem unat_lines[symmetric] by (simp add: unat_word_ariths)

lemma lines_nonzero:
  assumes "max (unat (si_vts s)) (unat (si_exp_line s) div 16) * unat (si_hts s) < 2 ^ 32"
    and "si_vts s \<noteq> 0 \<and> si_hts s \<noteq> 0 \<and> si_pclk s \<noteq> 0"
  shows "(if si_vts s > si_exp_line s div 16 then si_vts s else si_exp_line s div 16) * si_hts s \<noteq> 0"
proof -
  have "0 < max (unat (si_vts s)) (unat (si_exp_line s) div 16) * unat (si_hts s)"
    using assms(2) by (simp add: unat_gt_0 less_max_iff_disj)
  then show ?thesis using lines_fit[OF assms(1)] by (metis less_numeral_extra(3) unat_0)
qed

text \<open>
  C32. As long as the number of lines times the line length fits 32 bits, the frame time is defined and the
  rate is the pixel clock over that product, kept between 1 and 1000 frames per second, or 30 where the sensor
  gives no timing; the frame time follows and is between 1 and 1000 ms.
\<close>

theorem frame_timing:
  assumes "max (unat (si_vts s)) (unat (si_exp_line s) div 16) * unat (si_hts s) < 2 ^ 32"
  shows "\<exists>s'. isp_ae_update_sensor_info a s = Some s' \<and>
    unat (si_fps s') = (if si_vts s \<noteq> 0 \<and> si_hts s \<noteq> 0 \<and> si_pclk s \<noteq> 0
      then max 1 (min 1000 (unat (si_pclk s) div (max (unat (si_vts s)) (unat (si_exp_line s) div 16) * unat (si_hts s))))
      else 30) \<and>
    unat (si_frame_time s') = 1000 div unat (si_fps s') \<and> unat (si_frame_time s') \<in> {1..1000}"
proof -
  let ?p = "(if si_vts s > si_exp_line s div 16 then si_vts s else si_exp_line s div 16) * si_hts s"
  obtain s' where s': "isp_ae_update_sensor_info a s = Some s'" "si_frame_time s' = 1000 div si_fps s'"
    "si_fps s' = clamp_u32 (if si_vts s \<noteq> 0 \<and> si_hts s \<noteq> 0 \<and> si_pclk s \<noteq> 0 then si_pclk s div ?p else 30) 1 1000"
    using timing_cases[OF lines_nonzero[OF assms]] by blast
  have up: "unat (si_pclk s div ?p) = unat (si_pclk s) div (max (unat (si_vts s)) (unat (si_exp_line s) div 16) * unat (si_hts s))"
    by (simp only: unat_div_distrib lines_fit[OF assms])
  have f: "unat (si_fps s') = (if si_vts s \<noteq> 0 \<and> si_hts s \<noteq> 0 \<and> si_pclk s \<noteq> 0
      then max 1 (min 1000 (unat (si_pclk s) div (max (unat (si_vts s)) (unat (si_exp_line s) div 16) * unat (si_hts s))))
      else 30)"
  proof (cases "si_vts s \<noteq> 0 \<and> si_hts s \<noteq> 0 \<and> si_pclk s \<noteq> 0")
    case True
    show ?thesis unfolding s'(3) unat_clamp if_P[OF True] up ..
  next
    case False
    show ?thesis unfolding s'(3) unat_clamp if_not_P[OF False] by simp
  qed
  have t: "unat (si_frame_time s') = 1000 div unat (si_fps s')"
    unfolding s'(2) by (simp add: unat_div_distrib)
  have "1 \<le> unat (si_fps s')" "unat (si_fps s') \<le> 1000"
    unfolding s'(3) unat_clamp by (rule max.cobounded1) (rule max.boundedI; simp)
  then have "1000 div unat (si_fps s') \<in> {1..1000}"
    by (auto simp: Suc_le_eq div_greater_zero_iff intro: order.trans[OF div_le_dividend])
  then show ?thesis
    by (intro exI[of _ s'] conjI s'(1) f t) (simp only: t)
qed

theorem frame_timing_witness:
  "max (unat (1000 :: u32)) (unat (1600 :: u32) div 16) * unat (2000 :: u32) < 2 ^ 32 \<and>
   (\<exists>s'. isp_ae_update_sensor_info zero_ae_result
      (zero_isp_sensor_info\<lparr>si_hts := 2000, si_vts := 1000, si_pclk := 60000000, si_exp_line := 1600\<rparr>) = Some s' \<and>
      unat (si_fps s') = 30 \<and> unat (si_frame_time s') = 33)"
  using frame_timing[of "zero_isp_sensor_info\<lparr>si_hts := 2000, si_vts := 1000, si_pclk := 60000000, si_exp_line := 1600\<rparr>"
    zero_ae_result]
  by auto

text \<open>
  The product is taken modulo \<open>2^32\<close>: with a line length and an exposure of 65536 it is 0, and
  the division ends the process.
\<close>

theorem frame_timing_division_by_zero:
  "isp_ae_update_sensor_info a (s\<lparr>si_hts := 0x10000, si_vts := 1, si_pclk := 1, si_exp_line := 0x100000\<rparr>) = None"
  by (simp add: isp_ae_update_sensor_info_def)

section \<open>Frames\<close>

definition ready :: "('e, 'p, 'r) entity_ctx \<Rightarrow> bool" where
  "ready x \<longleftrightarrow> ent x \<noteq> None \<and> ent_ops x \<and> ent_param x \<noteq> None"

text \<open>What a frame depends on, and what routines with a pointer to the whole context have to leave alone.\<close>

definition frame_view :: "('e, 's, 'x) ctx \<Rightarrow> (frame_cnts \<times> int) \<times> bool \<times> bool list \<times> bool \<times> u32 \<times> u32 \<times> u32" where
  "frame_view c = (let r = ctx_rest c in ((cnts r, flash_mode (ae_set r)), ctx_locked r,
     [ready (ae_ent r), ready (af_ent r), ready (awb_ent r), ready (afs_ent r), ready (gtm_ent r), ready (pltm_ent r), ready (iso_ent r)],
     load_mem r \<noteq> None, si_hts (sensor_info r), si_vts (sensor_info r), si_exp_line (sensor_info r)))"

definition libs_keep :: "('e, 's, 'x) isp_libs \<Rightarrow> bool" where
  "libs_keep L \<longleftrightarrow> (\<forall>c. frame_view (config_gamma L c) = frame_view c \<and> (\<forall>v. frame_view (config_dig_gain L v c) = frame_view c) \<and>
     (\<forall>i. frame_view (config_wdr L i c) = frame_view c) \<and> (\<forall>v. frame_view (config_lens_table L v c) = frame_view c) \<and>
     (\<forall>v. frame_view (config_msc_table L v c) = frame_view c) \<and> frame_view (lib_apply_settings L c) = frame_view c \<and>
     frame_view (lib_apply_colormatrix L c) = frame_view c \<and> frame_view (lib_dynamic_judge L c) = frame_view c \<and>
     (\<forall>e p. frame_view (snd (snd (iso_core_run L e p c))) = frame_view c))"

definition exposure_bounded :: "('e, 's, 'x) isp_libs \<Rightarrow> sync_results option \<Rightarrow> nat \<Rightarrow> bool" where
  "exposure_bounded L sync m \<longleftrightarrow>
     (\<forall>e p s r. unat (ar_exp_line (snd (snd (core_run (ae_core L) e p s r)))) \<le> m) \<and>
     (\<forall>p. sync = Some p \<longrightarrow> unat (ar_exp_line (sy_ae p)) \<le> m)"

text \<open>
  The state a frame needs, with its counters and flash mode, the lock and the longest exposure in sixteenths
  of a line.
\<close>

definition frame_ok :: "nat \<Rightarrow> bool \<Rightarrow> frame_cnts \<times> int \<Rightarrow> ('e, 's, 'x) ctx \<Rightarrow> bool" where
  "frame_ok m locked n c \<longleftrightarrow> (case frame_view c of (k, l, rs, mem, h, v, e) \<Rightarrow>
     k = n \<and> l = locked \<and> list_all id rs \<and> mem \<and> unat e \<le> m \<and> max (unat v) (m div 16) * unat h < 2 ^ 32)"

lemma frame_ok_view: "frame_ok m b n c \<Longrightarrow> frame_view c' = frame_view c \<Longrightarrow> frame_ok m b n c'"
  by (simp add: frame_ok_def)

lemma frame_view_unmapped:
  fixes c c' :: "('e, 's, 'x) ctx"
  shows "frame_view c' = frame_view c \<Longrightarrow> (load_mem (ctx_rest c') = None) = (load_mem (ctx_rest c) = None)"
proof -
  have "fst (snd (snd (snd (frame_view c)))) = (load_mem (ctx_rest c) \<noteq> None)" for c :: "('e, 's, 'x) ctx"
    by (simp add: frame_view_def Let_def)
  then show "frame_view c' = frame_view c \<Longrightarrow> (load_mem (ctx_rest c') = None) = (load_mem (ctx_rest c) = None)" by metis
qed

lemmas frame_ok_unfold = frame_ok_def frame_view_def Let_def

lemma readyE:
  assumes "ready x"
  obtains e p where "ent x = Some e" "ent_ops x" "ent_param x = Some p"
  using assms by (auto simp: ready_def)

lemma store_param_ready: "ready x \<Longrightarrow> \<exists>x'. store_param f x = Some x' \<and> ready x'"
  by (erule readyE) (simp add: store_param_def ready_def)

lemma run_core_ready: "ready x \<Longrightarrow> \<exists>x'. run_core ops s x = Some x' \<and> ready x' \<and>
  (\<exists>e p. ent_result x' = snd (snd (core_run ops e p s (ent_result x))))"
proof (erule readyE)
  fix e p
  assume "ent x = Some e" "ent_ops x" "ent_param x = Some p"
  then show ?thesis
    by (cases "core_run ops e p s (ent_result x)")
      (simp add: run_core_def ready_def, metis snd_conv)
qed

lemma run_done_ready: "ready x \<Longrightarrow> \<exists>x'. run_done ops sel sync r x = Some x' \<and> ready x' \<and>
  (\<exists>e p. ent_result x' = done_result sel sync (isp_id r) (snd (snd (core_run ops e p (stats r) (ent_result x)))))"
proof -
  assume "ready x"
  then obtain x' e p where "run_core ops (stats r) x = Some x'" "ready x'"
    "ent_result x' = snd (snd (core_run ops e p (stats r) (ent_result x)))"
    using run_core_ready[of x ops "stats r"] by blast
  then show ?thesis
    by (intro exI[of _ "ent_result_update (done_result sel sync (isp_id r)) x'"]) (auto simp: run_done_def ready_def)
qed

lemma run_ready:
  "ready x \<Longrightarrow> \<exists>x'. run_core ops s x = Some x' \<and> ready x'"
  "ready x \<Longrightarrow> \<exists>x'. run_done ops sel sync r x = Some x' \<and> ready x'"
  by (drule run_core_ready[of x ops s], blast) (drule run_done_ready[of x ops sel sync r], blast)

lemma set_params_helper_ready: "ready (set_params_helper ops f x) = ready x"
  by (auto simp: set_params_helper_def ready_def split: option.split prod.split bool.split)

definition keeps_frame :: "(('e, 's, 'x) ctx \<Rightarrow> ('e, 's, 'x) ctx option) \<Rightarrow> bool" where
  "keeps_frame f \<longleftrightarrow> (\<forall>m n c. frame_ok m True n c \<longrightarrow> (\<exists>c'. f c = Some c' \<and> frame_ok m True n c'))"

lemma keeps_frameI:
  assumes "\<And>m n c. frame_ok m True n c \<Longrightarrow> \<exists>c'. f c = Some c' \<and> frame_ok m True n c'"
  shows "keeps_frame f"
  using assms by (simp add: keeps_frame_def)

lemma keeps_frame_total: "(\<And>c. frame_view (f c) = frame_view c) \<Longrightarrow> keeps_frame (\<lambda>c. Some (f c))"
  unfolding keeps_frame_def by (blast intro: frame_ok_view)

lemma keeps_frame_seq: "keeps_frame f \<Longrightarrow> keeps_frame g \<Longrightarrow> keeps_frame (seq f g)"
  unfolding keeps_frame_def seq_def by (metis bind.bind_lunit)

lemma keeps_frame_opt: "keeps_frame f \<Longrightarrow> keeps_frame (\<lambda>c. opt_step (b c) f c)"
  by (simp add: keeps_frame_def opt_step_def)

lemma keeps_frame_map:
  fixes f :: "('e, 's, 'x) ctx \<Rightarrow> ('e, 's, 'x) ctx option"
  assumes "keeps_frame f" "\<And>c. frame_view (g c) = frame_view c"
  shows "keeps_frame (\<lambda>c. map_option g (f c))"
proof (rule keeps_frameI)
  fix m n and c :: "('e, 's, 'x) ctx"
  assume "frame_ok m True n c"
  then obtain c' where "f c = Some c'" "frame_ok m True n c'" 
    using assms(1) unfolding keeps_frame_def by blast
  then show "\<exists>c'. map_option g (f c) = Some c' \<and> frame_ok m True n c'"
    using frame_ok_view[OF _ assms(2)] by simp
qed

text \<open>A step on one library's context: the others and the rest stay.\<close>

lemma keeps_frame_ent:
  fixes f :: "('e, 's, 'x) ctx \<Rightarrow> ('d, 'p, 'r) entity_ctx \<Rightarrow> ('d, 'p, 'r) entity_ctx option"
  assumes "\<And>c m n. frame_ok m True n c \<Longrightarrow> ready (sel (ctx_rest c))"
    and "\<And>c x. ready x \<Longrightarrow> ready (sel (ctx_rest c)) \<Longrightarrow> frame_view (upd_pipe (upd (\<lambda>_. x)) c) = frame_view c"
    and "\<And>c x. ready x \<Longrightarrow> \<exists>x'. f c x = Some x' \<and> ready x'"
  shows "keeps_frame (\<lambda>c. on_ent sel upd (f c) c)"
proof (rule keeps_frameI)
  fix m n and c :: "('e, 's, 'x) ctx"
  assume ok: "frame_ok m True n c"
  then obtain x' where "f c (sel (ctx_rest c)) = Some x'" "ready x'" using assms(1,3) by blast
  moreover have "frame_ok m True n (upd_pipe (upd (\<lambda>_. x')) c)"
    by (rule frame_ok_view[OF ok assms(2)[OF \<open>ready x'\<close> assms(1)[OF ok]]])
  ultimately show "\<exists>c'. on_ent sel upd (f c) c = Some c' \<and> frame_ok m True n c'"
    by (simp add: on_ent_def)
qed

lemma frame_ok_ready:
  assumes "frame_ok m b n c"
  shows "ready (ae_ent (ctx_rest c))" "ready (af_ent (ctx_rest c))" "ready (awb_ent (ctx_rest c))"
    "ready (afs_ent (ctx_rest c))" "ready (gtm_ent (ctx_rest c))" "ready (pltm_ent (ctx_rest c))"
    "ready (iso_ent (ctx_rest c))"
  using assms by (simp_all add: frame_ok_unfold)

lemma store_ent_frame:
  "keeps_frame (\<lambda>c. on_ent ae_ent ae_ent_update (store_param (fa c)) c)"
  "keeps_frame (\<lambda>c. on_ent af_ent af_ent_update (store_param (ff c)) c)"
  "keeps_frame (\<lambda>c. on_ent awb_ent awb_ent_update (store_param (fb c)) c)"
  "keeps_frame (\<lambda>c. on_ent afs_ent afs_ent_update (store_param (fs c)) c)"
  "keeps_frame (\<lambda>c. on_ent gtm_ent gtm_ent_update (store_param (fg c)) c)"
  "keeps_frame (\<lambda>c. on_ent pltm_ent pltm_ent_update (store_param (fl c)) c)"
  "keeps_frame (\<lambda>c. on_ent iso_ent iso_ent_update (store_param (fi c)) c)"
  by (rule keeps_frame_ent, erule frame_ok_ready, simp add: frame_view_def Let_def, erule store_param_ready)+

lemma set_params_frame:
  "keeps_frame isp_ae_set_params" "keeps_frame isp_iso_set_params" "keeps_frame isp_pltm_set_params"
  "keeps_frame isp_afs_set_params" "keeps_frame isp_af_set_params" "keeps_frame isp_awb_set_params"
  unfolding isp_ae_set_params_def[abs_def] isp_iso_set_params_def[abs_def] isp_pltm_set_params_def[abs_def]
    isp_afs_set_params_def[abs_def] isp_af_set_params_def[abs_def] isp_awb_set_params_def[abs_def] Let_def
  by (rule store_ent_frame)+

lemma gtm_helper_view: "frame_view (isp_gtm_set_params_helper L cmd c) = frame_view c"
  by (simp add: isp_gtm_set_params_helper_def frame_view_def Let_def set_params_helper_ready)

lemma gtm_frame: "keeps_frame (seq (isp_gtm_set_params L) (isp_gtm_run L))"
proof (rule keeps_frame_seq)
  show "keeps_frame (isp_gtm_set_params L)"
    unfolding isp_gtm_set_params_def[abs_def] Let_def
    by (rule keeps_frame_map[OF store_ent_frame(5) gtm_helper_view])
  show "keeps_frame (isp_gtm_run L)"
    unfolding isp_gtm_run_def[abs_def]
    by (rule keeps_frame_ent[where f = "\<lambda>c. run_core (gtm_core L) (stats (ctx_rest c))"], erule frame_ok_ready,
        simp add: frame_view_def Let_def) (erule run_ready)
qed

lemma run_ent_frame:
  "keeps_frame (\<lambda>c. on_ent af_ent af_ent_update (run_done (af_core L) sy_af sync (ctx_rest c)) c)"
  "keeps_frame (\<lambda>c. on_ent awb_ent awb_ent_update (run_done (awb_core L) sy_awb sync (ctx_rest c)) c)"
  "keeps_frame (\<lambda>c. on_ent afs_ent afs_ent_update (run_done (afs_core L) sy_afs sync (ctx_rest c)) c)"
  "keeps_frame (\<lambda>c. on_ent pltm_ent pltm_ent_update (run_done (pltm_core L) sy_pltm sync (ctx_rest c)) c)"
  by (rule keeps_frame_ent, erule frame_ok_ready, simp add: frame_view_def Let_def, erule run_ready)+

lemma run_frame:
  "keeps_frame (isp_af_run L sync)" "keeps_frame (isp_awb_run L sync)"
  "keeps_frame (isp_afs_run L sync)" "keeps_frame (isp_pltm_run L sync)"
  unfolding isp_af_run_def[abs_def] isp_awb_run_def[abs_def] isp_afs_run_def[abs_def] isp_pltm_run_def[abs_def]
  by (rule keeps_frame_map[OF run_ent_frame(1)] keeps_frame_map[OF run_ent_frame(2)]
        keeps_frame_map[OF run_ent_frame(3)] keeps_frame_map[OF run_ent_frame(4)],
      simp add: frame_view_def Let_def)+

lemma iso_frame: "libs_keep L \<Longrightarrow> keeps_frame (run_iso L)"
proof (rule keeps_frameI)
  fix m n and c :: "('a, 'b, 'c) ctx"
  assume L: "libs_keep L" and ok: "frame_ok m True n c"
  obtain e p where x: "ent (iso_ent (ctx_rest c)) = Some e" "ent_ops (iso_ent (ctx_rest c))" "ent_param (iso_ent (ctx_rest c)) = Some p"
    using frame_ok_ready(7)[OF ok] by (elim readyE)
  obtain e' p' c' where r: "iso_core_run L e p c = (e', p', c')" by (cases "iso_core_run L e p c")
  have "frame_view c' = frame_view c" using L r unfolding libs_keep_def by (metis snd_conv)
  with ok have ok': "frame_ok m True n c'" by (rule frame_ok_view)
  have "frame_ok m True n (upd_pipe (iso_ent_update (\<lambda>x. x\<lparr>ent := Some e', ent_param := Some p'\<rparr>)) c')"
    by (rule frame_ok_view[OF ok']) (use frame_ok_ready(7)[OF ok'] in \<open>simp add: frame_view_def Let_def ready_def\<close>)
  then show "\<exists>c'. run_iso L c = Some c' \<and> frame_ok m True n c'"
    using x r by (simp add: run_iso_def)
qed

lemma hardware_frame: "keeps_frame (hardware_update L)"
  by (rule keeps_frameI) (auto simp: hardware_update_def frame_ok_unfold split: prod.split)

text \<open>The exposure step is the one that changes the timing: it stores the exposure the library has chosen.\<close>

lemma ae_run_frame:
  fixes c :: "('e, 's, 'x) ctx"
  assumes "libs_keep L" "exposure_bounded L sync m" "frame_ok m True n c"
  shows "\<exists>c'. isp_ae_run L sync c = Some c' \<and> frame_ok m True n c'"
proof -
  let ?r = "ctx_rest c"
  obtain x' e p where x': "run_done (ae_core L) sy_ae sync ?r (ae_ent ?r) = Some x'" "ready x'"
    "ent_result x' = done_result sy_ae sync (isp_id ?r) (snd (snd (core_run (ae_core L) e p (stats ?r) (ent_result (ae_ent ?r)))))"
    using run_done_ready[OF frame_ok_ready(1)[OF assms(3)]] by blast
  let ?c1 = "upd_pipe (ae_ent_update (\<lambda>_. x')) c"
  have exp: "unat (ar_exp_line (ent_result x')) \<le> m"
    using assms(2) x'(3) by (auto simp: exposure_bounded_def done_result_def split: option.split)
  have s: "unat (si_exp_line (sinfo c)) \<le> m" "max (unat (si_vts (sinfo c))) (m div 16) * unat (si_hts (sinfo c)) < 2 ^ 32"
    using assms(3) by (simp_all add: frame_ok_unfold)
  have "max (unat (si_vts (sinfo c))) (unat (si_exp_line (sinfo c)) div 16) \<le> max (unat (si_vts (sinfo c))) (m div 16)"
    using s(1) by (intro max.mono div_le_mono) auto
  then have fits: "max (unat (si_vts (sinfo c))) (unat (si_exp_line (sinfo c)) div 16) * unat (si_hts (sinfo c)) < 2 ^ 32"
    using s(2) by (meson le_less_trans mult_le_mono1)
  obtain s' where s': "isp_ae_update_sensor_info (ent_result x') (sinfo c) = Some s'"
    "si_exp_line s' = ar_exp_line (ent_result x')" "si_hts s' = si_hts (sinfo c)" "si_vts s' = si_vts (sinfo c)"
    using timing_cases[OF lines_nonzero[OF fits]] by blast
  let ?c2 = "upd_pipe (sensor_info_update (\<lambda>_. s')) ?c1"
  have ok2: "frame_ok m True n ?c2"
    using assms(3) x'(2) exp s' by (simp add: frame_ok_unfold)
  let ?c3 = "config_gamma L ?c2"
  let ?c4 = "config_wdr L 0 (config_dig_gain L (ar_digital_gain (ent_result (ae_ent (ctx_rest ?c3)))) ?c3)"
  have "frame_view ?c4 = frame_view ?c2"
    using assms(1) unfolding libs_keep_def by metis
  with ok2 have "frame_ok m True n ?c4" by (rule frame_ok_view)
  moreover have "isp_ae_run L sync c = Some ?c4"
    using x'(1) s'(1) by (simp add: isp_ae_run_def on_ent_def Let_def)
  ultimately show ?thesis by blast
qed

lemma settings_frame:
  assumes "libs_keep L"
  shows "keeps_frame (\<lambda>c. Some (lib_apply_settings L c))" "keeps_frame (\<lambda>c. Some (lib_dynamic_judge L c))"
    "keeps_frame (\<lambda>c. Some (lib_apply_colormatrix L c))"
    "keeps_frame (\<lambda>c. Some (config_lens_table L (v c) c))" "keeps_frame (\<lambda>c. Some (config_msc_table L (v c) c))"
  using assms unfolding libs_keep_def
  by (blast intro: keeps_frame_total keeps_frame_total[where f = "\<lambda>c. config_lens_table L (v c) c"]
      keeps_frame_total[where f = "\<lambda>c. config_msc_table L (v c) c"])+

lemma defog_frame: "keeps_frame (\<lambda>c. Some (upd_mod (\<lambda>m. m\<lparr>cfa_min_rgb := f c\<rparr>) c))"
  by (rule keeps_frame_total) (simp add: frame_view_def Let_def)

text \<open>The steps of a frame but the counting at its end.\<close>

lemma algo_steps_frame:
  fixes c :: "('e, 's, 'x) ctx"
  assumes "libs_keep L" "exposure_bounded L sync m" "frame_ok m True n c"
  shows "\<exists>c'. run_steps (algo_body L sync @ [hardware_update L]) c = Some c' \<and> frame_ok m True n c'"
proof -
  have steps: "\<forall>f \<in> set fs. \<forall>c. frame_ok m True n c \<longrightarrow> (\<exists>c'. f c = Some c' \<and> frame_ok m True n c') \<Longrightarrow>
      frame_ok m True n c \<Longrightarrow> \<exists>c'. run_steps fs c = Some c' \<and> frame_ok m True n c'"
    for fs and c :: "('e, 's, 'x) ctx"
  proof (induction fs arbitrary: c)
    case (Cons f fs)
    then obtain c1 where "f c = Some c1" "frame_ok m True n c1" by (meson list.set_intros(1))
    with Cons show ?case by (metis bind.bind_lunit list.set_intros(2) run_steps.simps(2))
  qed simp
  have keep: "keeps_frame f \<Longrightarrow> \<forall>c. frame_ok m True n c \<longrightarrow> (\<exists>c'. f c = Some c' \<and> frame_ok m True n c')"
    for f :: "('e, 's, 'x) ctx \<Rightarrow> ('e, 's, 'x) ctx option"
    unfolding keeps_frame_def by blast
  have "list_all (\<lambda>f. \<forall>c. frame_ok m True n c \<longrightarrow> (\<exists>c'. f c = Some c' \<and> frame_ok m True n c')) (algo_body L sync @ [hardware_update L])"
    unfolding algo_body_def
    by (simp only: append_Cons append_Nil list.pred_inject, intro conjI TrueI)
      (rule keep, rule set_params_frame run_frame hardware_frame iso_frame[OF assms(1)] settings_frame[OF assms(1)] defog_frame
         keeps_frame_opt[OF gtm_frame]
         keeps_frame_opt[OF keeps_frame_seq[OF set_params_frame(3) run_frame(4)]]
         keeps_frame_opt[OF keeps_frame_seq[OF set_params_frame(4) run_frame(3)]]
         keeps_frame_opt[OF settings_frame(4)[OF assms(1)]] keeps_frame_opt[OF settings_frame(5)[OF assms(1)]]
       | use ae_run_frame[OF assms(1,2)] in blast)+
  then show ?thesis
    by (intro steps[OF _ assms(3)]) (simp only: list_all_iff)
qed

lemma frame_runs:
  fixes c :: "('e, 's, 'x) ctx"
  assumes "libs_keep L" "exposure_bounded L sync m" "frame_ok m False n c"
  shows "\<exists>c'. isp_ctx_algo_run L sync c = Some c' \<and> frame_ok m False (apfst count_frame n) c'"
proof -
  have split: "run_steps (fs @ gs) c = Option.bind (run_steps fs c) (run_steps gs)"
    for fs gs and c :: "('e, 's, 'x) ctx"
    by (induction fs arbitrary: c) (auto split: Option.bind_split)
  let ?c0 = "upd_pipe (ctx_locked_update (\<lambda>_. True)) c"
  have lock: "ctx_lock c = Some ?c0" "frame_ok m True n ?c0"
    using assms(3) by (simp_all add: ctx_lock_def frame_ok_unfold)
  obtain c1 where c1: "run_steps (algo_body L sync @ [hardware_update L]) ?c0 = Some c1" "frame_ok m True n c1"
    using algo_steps_frame[OF assms(1,2) lock(2)] by blast
  let ?c2 = "upd_pipe (cnts_update count_frame) c1"
  have "run_steps (algo_steps L sync) ?c0 = Some ?c2"
    using c1(1) split[of "algo_body L sync @ [hardware_update L]" "[\<lambda>c. Some (upd_pipe (cnts_update count_frame) c)]" ?c0]
    by (simp add: algo_steps_def)
  moreover have "frame_ok m False (apfst count_frame n) (ctx_unlock ?c2)"
    using c1(2) by (cases n) (simp add: ctx_unlock_def frame_ok_unfold)
  ultimately show ?thesis
    using lock(1) by (simp add: isp_ctx_algo_run_def)
qed

section \<open>Set-up and any number of frames\<close>

fun repeat_step :: "('s \<Rightarrow> 's option) \<Rightarrow> nat \<Rightarrow> 's \<Rightarrow> 's option" where
  "repeat_step step 0 s = Some s"
| "repeat_step step (Suc k) s = Option.bind (step s) (repeat_step step k)"

text \<open>A step that always returns in a good state, leaves one, and advances a clock.\<close>

locale ticking =
  fixes step :: "'s \<Rightarrow> 's option" and ok :: "'n \<Rightarrow> 's \<Rightarrow> bool" and tick :: "'n \<Rightarrow> 'n"
  assumes step_ok: "ok n s \<Longrightarrow> \<exists>s'. step s = Some s' \<and> ok (tick n) s'"
begin

lemma runs: "ok n s \<Longrightarrow> \<exists>s'. repeat_step step k s = Some s' \<and> ok ((tick ^^ k) n) s'"
proof (induction k arbitrary: n s)
  case (Suc k)
  obtain s1 where "step s = Some s1" "ok (tick n) s1" using step_ok[OF Suc.prems] by blast
  with Suc.IH[of "tick n" s1] show ?case by (simp add: funpow_swap1)
qed simp

end

definition frame_step :: "('e, 's, 'x) isp_libs \<times> sync_results option \<times> nat \<times> ('e, 's, 'x) ctx \<Rightarrow>
  (('e, 's, 'x) isp_libs \<times> sync_results option \<times> nat \<times> ('e, 's, 'x) ctx) option" where
  "frame_step = (\<lambda>(L, sync, m, c). map_option (\<lambda>c'. (L, sync, m, c')) (isp_ctx_algo_run L sync c))"

definition frame_state_ok :: "frame_cnts \<times> int \<Rightarrow> ('e, 's, 'x) isp_libs \<times> sync_results option \<times> nat \<times> ('e, 's, 'x) ctx \<Rightarrow> bool" where
  "frame_state_ok n = (\<lambda>(L, sync, m, c). libs_keep L \<and> exposure_bounded L sync m \<and> frame_ok m False n c)"

interpretation frames: ticking frame_step frame_state_ok "apfst count_frame"
proof unfold_locales
  fix n :: "frame_cnts \<times> int" and st :: "('e, 's, 'x) isp_libs \<times> sync_results option \<times> nat \<times> ('e, 's, 'x) ctx"
  obtain L sync m c where st: "st = (L, sync, m, c)" by (cases st)
  assume "frame_state_ok n st"
  then have hyps: "libs_keep L" "exposure_bounded L sync m" "frame_ok m False n c" by (simp_all add: frame_state_ok_def st)
  from frame_runs[OF this] obtain c' where "isp_ctx_algo_run L sync c = Some c'" "frame_ok m False (apfst count_frame n) c'" by blast
  with hyps(1,2) show "\<exists>st'. frame_step st = Some st' \<and> frame_state_ok (apfst count_frame n) st'"
    by (simp add: frame_step_def frame_state_ok_def st)
qed

lemma repeat_frame_step:
  "repeat_step frame_step k (L, sync, m, c) = map_option (\<lambda>c'. (L, sync, m, c')) (repeat_step (isp_ctx_algo_run L sync) k c)"
proof (induction k arbitrary: c)
  case (Suc k)
  then show ?case by (cases "isp_ctx_algo_run L sync c") (simp_all add: frame_step_def)
qed simp

definition frame_counters :: "frame_cnts \<Rightarrow> u64 list" where
  "frame_counters n = [awb_frame_cnt n, frame_cnts.ae_frame_cnt n, af_frame_cnt n, gtm_frame_cnt n, md_frame_cnt n,
     afs_frame_cnt n, iso_frame_cnt n, rolloff_frame_cnt n, alg_frame_cnt n]"

lemma apfst_funpow:
  fixes f :: "'a \<Rightarrow> 'a"
  shows "(apfst f ^^ k) (n, v) = ((f ^^ k) n, v)"
  by (induction k) simp_all

lemma count_frames: "frame_counters ((count_frame ^^ k) n) = map (\<lambda>v. v + of_nat k) (frame_counters n)"
  by (induction k arbitrary: n) (simp_all add: frame_counters_def count_frame_def)

definition libs_available :: "('e, 's, 'x) isp_libs \<Rightarrow> bool" where
  "libs_available L \<longleftrightarrow> iso_core_init L \<noteq> None \<and> core_init (af_core L) \<noteq> None \<and> core_init (afs_core L) \<noteq> None \<and>
     core_init (awb_core L) \<noteq> None \<and> core_init (ae_core L) \<noteq> None \<and> core_init (gtm_core L) \<noteq> None \<and> core_init (pltm_core L) \<noteq> None"

lemma init_frame_ok:
  assumes "libs_available L"
    and "length block = ISP_LOAD_DRAM_SIZE" "unat (si_exp_line (sinfo c)) \<le> m"
    and "max (unat (si_vts (sinfo c))) (m div 16) * unat (si_hts (sinfo c)) < 2 ^ 32"
  shows "\<exists>c1. isp_ctx_algo_init L (Some (base, block)) c = Some (0, c1) \<and> frame_ok m False (zero_cnts, flash_mode (ae_set (ctx_rest c))) c1"
proof -
  obtain t b' where "isp_alloc_reg_tbl (Some (base, block)) = Some (0, Some (base, t, b'))"
    using alloc_succeeds[OF assms(2)] by blast
  with assms(1,3,4) show ?thesis
    by (auto simp: isp_ctx_algo_init_def algo_libs_def libs_available_def Let_def lib_open_def frame_ok_unfold ready_def)
qed


text \<open>Libraries that keep their parameters and always choose an exposure of one line.\<close>

definition idle_core :: "'p \<Rightarrow> ('r \<Rightarrow> 'r) \<Rightarrow> (unit, 'p, unit, 'r) core_ops" where
  "idle_core p f = \<lparr>core_init = Some ((), p), core_set_params = \<lambda>e p r. (e, p, r), core_run = \<lambda>e p s r. (e, p, f r)\<rparr>"

definition idle_libs :: "(unit, unit, unit) isp_libs" where
  "idle_libs = \<lparr>ae_core = idle_core zero_ae_param (ar_exp_line_update (\<lambda>_. 16)), af_core = idle_core zero_af_param id,
     awb_core = idle_core zero_awb_param id, afs_core = idle_core zero_afs_param id, gtm_core = idle_core zero_gtm_param id,
     pltm_core = idle_core zero_pltm_param id, iso_core_init = Some ((), zero_iso_param),
     iso_core_set_params = \<lambda>e p c. (e, p, c), iso_core_run = \<lambda>e p c. (e, p, c),
     config_gamma = id, config_dig_gain = \<lambda>_ c. c, config_wdr = \<lambda>_ c. c, config_lens_table = \<lambda>_ c. c,
     config_lens_center = id, config_msc_table = \<lambda>_ c. c, config_band_step = id, lib_apply_settings = id,
     lib_apply_colormatrix = id, lib_dynamic_judge = id, lib_handle_stats = \<lambda>_ c. c, lib_handle_stats_sync = \<lambda>_ _ c. c,
     lib_hardware_update = \<lambda>mc m. (mc, m), otp_tables = \<lambda>_ x. x, otp_gain = \<lambda>_ _ v. v\<rparr>"

lemma idle_libs_keep: "libs_keep idle_libs"
  by (simp add: libs_keep_def idle_libs_def)

lemma idle_exposure: "exposure_bounded idle_libs None 16"
  by (simp add: exposure_bounded_def idle_libs_def idle_core_def)

lemma idle_inits:
  "libs_available idle_libs"
  by (simp add: libs_available_def idle_libs_def idle_core_def)

lemma zero_sinfo: "sinfo (zero_ctx s x) = zero_isp_sensor_info" "load_mem (ctx_rest (zero_ctx s x)) = None"
  by (simp_all add: zero_ctx_def zero_pipe_def)


text \<open>Without the memory block no frame gets past the hardware update.\<close>

definition stays_unmapped :: "(('e, 's, 'x) ctx \<Rightarrow> ('e, 's, 'x) ctx option) \<Rightarrow> bool" where
  "stays_unmapped f \<longleftrightarrow> (\<forall>c c'. load_mem (ctx_rest c) = None \<longrightarrow> f c = Some c' \<longrightarrow> load_mem (ctx_rest c') = None)"

lemma unmapped_ent:
  fixes f :: "('e, 's, 'x) ctx \<Rightarrow> 'a \<Rightarrow> 'a option"
  assumes "\<And>r x. load_mem (upd (\<lambda>_. x) r) = load_mem r"
  shows "stays_unmapped (\<lambda>c. on_ent sel upd (f c) c)"
  using assms by (auto simp: stays_unmapped_def on_ent_def)

lemma unmapped_map:
  fixes f :: "('e, 's, 'x) ctx \<Rightarrow> ('e, 's, 'x) ctx option"
  assumes "stays_unmapped f" "\<And>c. load_mem (ctx_rest (g c)) = load_mem (ctx_rest c)"
  shows "stays_unmapped (\<lambda>c. map_option g (f c))"
  using assms unfolding stays_unmapped_def map_option_eq_Some by metis

lemma unmapped_seq: "stays_unmapped f \<Longrightarrow> stays_unmapped g \<Longrightarrow> stays_unmapped (seq f g)"
  unfolding stays_unmapped_def seq_def bind_eq_Some_conv by blast

lemma unmapped_opt: "stays_unmapped f \<Longrightarrow> stays_unmapped (\<lambda>c. opt_step (b c) f c)"
  by (simp add: stays_unmapped_def opt_step_def)

lemma unmapped_total: "(\<And>c. frame_view (f c) = frame_view c) \<Longrightarrow> stays_unmapped (\<lambda>c. Some (f c))"
  unfolding stays_unmapped_def by (metis frame_view_unmapped option.inject)

lemma set_params_unmapped:
  "stays_unmapped isp_ae_set_params" "stays_unmapped isp_iso_set_params" "stays_unmapped isp_pltm_set_params"
  "stays_unmapped isp_afs_set_params" "stays_unmapped isp_af_set_params" "stays_unmapped isp_awb_set_params"
  unfolding isp_ae_set_params_def[abs_def] isp_iso_set_params_def[abs_def] isp_pltm_set_params_def[abs_def]
    isp_afs_set_params_def[abs_def] isp_af_set_params_def[abs_def] isp_awb_set_params_def[abs_def] Let_def
  by (rule unmapped_ent, simp)+

lemma gtm_unmapped: "stays_unmapped (seq (isp_gtm_set_params L) (isp_gtm_run L))"
proof (rule unmapped_seq)
  show "stays_unmapped (isp_gtm_set_params L)"
    unfolding isp_gtm_set_params_def[abs_def] Let_def
    by (rule unmapped_map, rule unmapped_ent, simp, simp add: isp_gtm_set_params_helper_def)
  show "stays_unmapped (isp_gtm_run L)"
    unfolding isp_gtm_run_def[abs_def] by (rule unmapped_ent, simp)
qed

lemma run_unmapped:
  "stays_unmapped (isp_af_run L sync)" "stays_unmapped (isp_awb_run L sync)"
  "stays_unmapped (isp_afs_run L sync)" "stays_unmapped (isp_pltm_run L sync)"
  unfolding isp_af_run_def[abs_def] isp_awb_run_def[abs_def] isp_afs_run_def[abs_def] isp_pltm_run_def[abs_def]
  by (rule unmapped_map, rule unmapped_ent, simp, simp add: Let_def)+

lemma iso_unmapped:
  assumes "libs_keep L"
  shows "stays_unmapped (run_iso L)"
proof -
  have "(load_mem (ctx_rest (snd (snd (iso_core_run L e p c)))) = None) = (load_mem (ctx_rest c) = None)" for e p c
    by (rule frame_view_unmapped) (use assms in \<open>simp add: libs_keep_def\<close>)
  then show ?thesis
    by (auto simp: stays_unmapped_def run_iso_def split: option.splits bool.splits prod.splits) (metis snd_conv)
qed

lemma ae_run_unmapped:
  assumes "libs_keep L"
  shows "stays_unmapped (isp_ae_run L sync)"
proof -
  let ?g = "\<lambda>c. let c = config_gamma L c in config_wdr L 0 (config_dig_gain L (ar_digital_gain (ent_result (ae_ent (ctx_rest c)))) c)"
  have g: "stays_unmapped (\<lambda>c. Some (?g c))"
    using assms unfolding libs_keep_def by (intro unmapped_total) (simp add: Let_def)
  have "stays_unmapped (seq (\<lambda>c. on_ent ae_ent ae_ent_update (run_done (ae_core L) sy_ae sync (ctx_rest c)) c)
     (seq (\<lambda>c. on_ent sensor_info sensor_info_update (isp_ae_update_sensor_info (ent_result (ae_ent (ctx_rest c)))) c) (\<lambda>c. Some (?g c))))"
    by (intro unmapped_seq unmapped_ent g) simp_all
  moreover have "isp_ae_run L sync = seq (\<lambda>c. on_ent ae_ent ae_ent_update (run_done (ae_core L) sy_ae sync (ctx_rest c)) c)
     (seq (\<lambda>c. on_ent sensor_info sensor_info_update (isp_ae_update_sensor_info (ent_result (ae_ent (ctx_rest c)))) c) (\<lambda>c. Some (?g c)))"
    by (rule ext) (simp add: isp_ae_run_def seq_def[abs_def] map_conv_bind_option comp_def)
  ultimately show ?thesis by simp
qed

lemma settings_unmapped:
  assumes "libs_keep L"
  shows "stays_unmapped (\<lambda>c. Some (lib_apply_settings L c))" "stays_unmapped (\<lambda>c. Some (lib_dynamic_judge L c))"
    "stays_unmapped (\<lambda>c. Some (lib_apply_colormatrix L c))"
    "stays_unmapped (\<lambda>c. Some (config_lens_table L (v c) c))" "stays_unmapped (\<lambda>c. Some (config_msc_table L (v c) c))"
  using assms unfolding libs_keep_def
  by (blast intro: unmapped_total unmapped_total[where f = "\<lambda>c. config_lens_table L (v c) c"]
      unmapped_total[where f = "\<lambda>c. config_msc_table L (v c) c"])+

lemma unmapped_frame:
  assumes "libs_keep L" "load_mem (ctx_rest c) = None"
  shows "isp_ctx_algo_run L sync c = None"
proof -
  have fails: "list_all stays_unmapped fs \<Longrightarrow> load_mem (ctx_rest c) = None \<Longrightarrow> run_steps (fs @ hardware_update L # gs) c = None"
    for fs gs and c :: "('a, 'b, 'c) ctx"
  proof (induction fs arbitrary: c)
    case Nil
    then show ?case by (simp add: hardware_update_def)
  next
    case (Cons f fs)
    then show ?case by (cases "f c") (auto simp: stays_unmapped_def)
  qed
  have "list_all stays_unmapped (algo_body L sync)"
    unfolding algo_body_def
    by (simp only: list.pred_inject, intro conjI TrueI)
      (rule set_params_unmapped run_unmapped iso_unmapped[OF assms(1)] ae_run_unmapped[OF assms(1)] settings_unmapped[OF assms(1)]
        unmapped_opt[OF gtm_unmapped]
        unmapped_opt[OF unmapped_seq[OF set_params_unmapped(3) run_unmapped(4)]]
        unmapped_opt[OF unmapped_seq[OF set_params_unmapped(4) run_unmapped(3)]]
        unmapped_opt[OF settings_unmapped(4)[OF assms(1)]] unmapped_opt[OF settings_unmapped(5)[OF assms(1)]]
       | simp add: stays_unmapped_def)+
  from fails[OF this, of "upd_pipe (ctx_locked_update (\<lambda>_. True)) c" "[\<lambda>c. Some (upd_pipe (cnts_update count_frame) c)]"] assms(2)
  have "run_steps (algo_steps L sync) (upd_pipe (ctx_locked_update (\<lambda>_. True)) c) = None"
    by (simp add: algo_steps_def)
  then show ?thesis by (simp add: isp_ctx_algo_run_def ctx_lock_def)
qed

lemma open_all_fails:
  assumes "\<not> list_all fst fs" "list_all (\<lambda>(ok, f). \<forall>c. g (f c) = g c) fs"
  shows "\<exists>c'. open_all fs c = (False, c') \<and> g c' = g c"
  using assms
proof (induction fs arbitrary: c)
  case (Cons a fs)
  then show ?case by (cases a) (auto, metis)
qed simp



end
