(* ===== verification/IspUpdate.thy ===== *)
theory IspUpdate
  imports IspFrames
begin

text \<open>
  What reaches the exposure tables when the frame rate changes (\<open>isp_ctx_update_ae_tbl\<close>), and how a tuning update travels: from
  the tuning object through \<open>isp_ctx_config_update\<close> into the parameter blocks of the libraries.
\<close>

section \<open>Exposure tables\<close>

lemma raise_exposure_nth:
  assumes "length t = 60" "i < 10"
  shows "\<exists>t'. raise_exposure fps i t = Some t' \<and> length t' = 60 \<and>
    (\<forall>k < 60. t' ! k = (if k div 6 = i \<and> k mod 6 < 2 then max (t ! k) fps else t ! k))"
proof -
  have k: "k div 6 = i \<and> k mod 6 < 2 \<longleftrightarrow> k = 6 * i \<or> k = 6 * i + 1" for k
  proof
    assume "k div 6 = i \<and> k mod 6 < 2"
    then show "k = 6 * i \<or> k = 6 * i + 1" using mult_div_mod_eq[of 6 k] by linarith
  qed auto
  have raise: "(if l ! j < fps then l[j := fps] else l) = l[j := max (l ! j) fps]" for l j
    by (auto simp: max_def not_less)
  have "raise_exposure fps i t = Some ((t[6 * i + 1 := max (t ! (6 * i + 1)) fps])[6 * i := max (t ! (6 * i)) fps])"
    using assms unfolding raise_exposure_def Let_def raise by simp
  then show ?thesis
    using assms by (simp add: k nth_list_update)
qed

lemma raise_exposures_fold:
  assumes "length t = 60" "n \<le> 10"
  shows "\<exists>t'. fold (\<lambda>k r. Option.bind r (raise_exposure fps k)) [0..<n] (Some t) = Some t' \<and> length t' = 60 \<and>
    (\<forall>k < 60. t' ! k = (if k div 6 < n \<and> k mod 6 < 2 then max (t ! k) fps else t ! k))"
  using assms(2)
proof (induction n)
  case 0
  then show ?case using assms(1) by simp
next
  case (Suc n)
  then obtain t1 where t1: "fold (\<lambda>k r. Option.bind r (raise_exposure fps k)) [0..<n] (Some t) = Some t1" "length t1 = 60"
    "\<forall>k < 60. t1 ! k = (if k div 6 < n \<and> k mod 6 < 2 then max (t ! k) fps else t ! k)" by auto
  with Suc.prems raise_exposure_nth[of t1 n fps] obtain t2 where "raise_exposure fps n t1 = Some t2" "length t2 = 60"
    "\<forall>k < 60. t2 ! k = (if k div 6 = n \<and> k mod 6 < 2 then max (t1 ! k) fps else t1 ! k)" by auto
  with t1 show ?case by (intro exI[of _ t2]) (auto simp: less_Suc_eq)
qed

lemma fold_bind_None: "fold (\<lambda>k r. Option.bind r (f k)) ks None = None"
  by (induction ks) auto

text \<open>
  Setting a new frame rate raises the shortest and longest exposure of every row in use to the given value
  and changes nothing else, provided the number of rows in use fits the table. With a larger number, which the tuning
  protocol accepts unchecked, the loop leaves the table.
\<close>

theorem exposure_rows_raised:
  assumes "length (ae_tbl i) = 60"
  shows "(sint (tbl_length i) \<le> 10 \<longrightarrow> (\<exists>i'. raise_exposures fps i = Some i' \<and> tbl_length i' = tbl_length i \<and> length (ae_tbl i') = 60 \<and>
      (\<forall>k < 60. ae_tbl i' ! k = (if int (k div 6) < sint (tbl_length i) \<and> k mod 6 < 2 then max (ae_tbl i ! k) fps else ae_tbl i ! k)))) \<and>
    (sint (tbl_length i) > 10 \<longrightarrow> raise_exposures fps i = None)"
proof -
  have "raise_exposures fps i = None" if "sint (tbl_length i) > 10"
  proof -
    have "[0..<nat (sint (tbl_length i))] = [0..<10] @ 10 # [11..<nat (sint (tbl_length i))]"
      using that upt_add_eq_append[of 0 10 "nat (sint (tbl_length i)) - 10"] upt_conv_Cons[of 10 "nat (sint (tbl_length i))"] by simp
    moreover obtain t1 where "fold (\<lambda>k r. Option.bind r (raise_exposure fps k)) [0..<10] (Some (ae_tbl i)) = Some t1" "length t1 = 60"
      using raise_exposures_fold[OF assms, of 10 fps] by auto
    ultimately show ?thesis
      by (simp add: raise_exposures_def raise_exposure_def fold_bind_None)
  qed
  moreover have "\<exists>i'. raise_exposures fps i = Some i' \<and> tbl_length i' = tbl_length i \<and> length (ae_tbl i') = 60 \<and>
      (\<forall>k < 60. ae_tbl i' ! k = (if int (k div 6) < sint (tbl_length i) \<and> k mod 6 < 2 then max (ae_tbl i ! k) fps else ae_tbl i ! k))"
    if "sint (tbl_length i) \<le> 10"
  proof -
    have le: "nat (sint (tbl_length i)) \<le> 10" using that by simp
    obtain t' where "fold (\<lambda>k r. Option.bind r (raise_exposure fps k)) [0..<nat (sint (tbl_length i))] (Some (ae_tbl i)) = Some t'"
      "length t' = 60" "\<forall>k < 60. t' ! k = (if k div 6 < nat (sint (tbl_length i)) \<and> k mod 6 < 2 then max (ae_tbl i ! k) fps else ae_tbl i ! k)"
      using raise_exposures_fold[OF assms le] by blast
    then show ?thesis
      by (intro exI[of _ "i\<lparr>ae_tbl := t'\<rparr>"]) (simp add: raise_exposures_def zless_nat_eq_int_zless)
  qed
  ultimately show ?thesis by blast
qed

theorem exposure_rows_raised_witness:
  "length (ae_tbl (ae_table_of 7 (replicate 42 5) zero_ae_table_info)) = 60 \<and>
   (\<exists>i'. raise_exposures 33 (ae_table_of 7 (replicate 42 5) zero_ae_table_info) = Some i' \<and> ae_tbl i' ! 37 = 33 \<and> ae_tbl i' ! 38 = 5) \<and>
   raise_exposures 33 (ae_table_of 11 (replicate 42 5) zero_ae_table_info) = None"
proof -
  have l: "length (ae_tbl (ae_table_of n (replicate 42 5) zero_ae_table_info)) = 60" for n
    by (simp add: ae_table_of_def zero_ae_table_info_def)
  have s: "sint (7 :: u32) = 7" "sint (11 :: u32) = 11" by simp_all
  have e: "tbl_length (ae_table_of n (replicate 42 5) zero_ae_table_info) = n" for n by (simp add: ae_table_of_def)
  have v: "ae_tbl (ae_table_of 7 (replicate 42 5) zero_ae_table_info) ! 37 = 5" "ae_tbl (ae_table_of 7 (replicate 42 5) zero_ae_table_info) ! 38 = 5"
    by (simp_all add: ae_table_of_def overlay_def nth_append)
  show ?thesis
    using exposure_rows_raised[OF l[of 7], of 33] exposure_rows_raised[OF l[of 11], of 33] l[of 7]
    by (auto simp: e s v)
qed

section \<open>From the tuning object to the libraries\<close>

text \<open>What an update depends on, and what routines with a pointer to the context leave alone while it runs.\<close>

definition update_view :: "('e, 's, 'x) ctx \<Rightarrow> isp_param_config \<times> bool \<times> u32 \<times> bool list" where
  "update_view c = (let r = ctx_rest c in (isp_ini_cfg c, ctx_locked r, otp_enable r,
     [ready (iso_ent r), ready (ae_ent r), ready (af_ent r), ready (awb_ent r)]))"

definition libs_transparent :: "('e, 's, 'x) isp_libs \<Rightarrow> bool" where
  "libs_transparent L \<longleftrightarrow> (\<forall>c. (\<forall>i. update_view (config_wdr L i c) = update_view c) \<and>
     (\<forall>v. update_view (config_dig_gain L v c) = update_view c) \<and> update_view (config_band_step L c) = update_view c \<and>
     update_view (config_gamma L c) = update_view c \<and> (\<forall>v. update_view (config_lens_table L v c) = update_view c) \<and>
     update_view (config_lens_center L c) = update_view c \<and> (\<forall>v. update_view (config_msc_table L v c) = update_view c) \<and>
     (\<forall>e p. update_view (snd (snd (iso_core_set_params L e p c))) = update_view c) \<and>
     (\<forall>e p. update_view (snd (snd (iso_core_run L e p c))) = update_view c))"

definition reads_params :: "('e, 'p, 's, 'r) core_ops \<Rightarrow> bool" where
  "reads_params ops \<longleftrightarrow> (\<forall>e p r. fst (snd (core_set_params ops e p r)) = p)"

lemma helper_reads:
  assumes "ready x" "ent_param x = Some p" "reads_params ops"
  shows "ready (set_params_helper ops f x)" "ent_param (set_params_helper ops f x) = Some (f p)"
proof -
  obtain e where e: "ent x = Some e" "ent_ops x" using assms(1) by (auto simp: ready_def)
  obtain e' p' r' where c: "core_set_params ops e (f p) (ent_result x) = (e', p', r')" by (metis prod_cases3)
  have "p' = f p" using assms(3) c unfolding reads_params_def by (metis fst_conv snd_conv)
  then show "ready (set_params_helper ops f x)" "ent_param (set_params_helper ops f x) = Some (f p)"
    using assms(2) e c by (simp_all add: set_params_helper_def ready_def)
qed

lemma view_unfold:
  "update_view c' = update_view c \<Longrightarrow> isp_ini_cfg c' = isp_ini_cfg c \<and> ctx_locked (ctx_rest c') = ctx_locked (ctx_rest c) \<and>
     ready (iso_ent (ctx_rest c')) = ready (iso_ent (ctx_rest c)) \<and> ready (ae_ent (ctx_rest c')) = ready (ae_ent (ctx_rest c)) \<and>
     ready (af_ent (ctx_rest c')) = ready (af_ent (ctx_rest c)) \<and> ready (awb_ent (ctx_rest c')) = ready (awb_ent (ctx_rest c)) \<and>
     otp_enable (ctx_rest c') = otp_enable (ctx_rest c)"
  by (simp add: update_view_def Let_def)

lemma update_view_mod [simp]: "update_view (upd_mod f c) = update_view c"
  by (simp add: update_view_def Let_def)

lemma cfg_mod_view:
  assumes "libs_transparent L" "otp_enable (ctx_rest c) \<noteq> 1"
  shows "\<exists>c'. isp_ctx_cfg_mod L c = Some c' \<and> update_view c' = update_view c"
proof -
  have modes: "update_view (cfg_mod_modes L c) = update_view c"
    using assms(1) by (simp add: cfg_mod_modes_def Let_def libs_transparent_def) (simp add: update_view_def Let_def)
  have params: "update_view (cfg_mod_params c) = update_view c" "update_view (cfg_mod_msc L c) = update_view c"
    for c :: "('a, 'b, 'c) ctx"
    by (simp add: cfg_mod_params_def Let_def) (simp add: cfg_mod_msc_def update_view_def Let_def)
  have tables: "update_view (cfg_mod_tables L c) = update_view c" for c
    using assms(1) by (simp add: cfg_mod_tables_def Let_def libs_transparent_def)
  let ?c = "cfg_mod_msc L (cfg_mod_params (cfg_mod_modes L c))"
  have "otp_enable (ctx_rest ?c) \<noteq> 1"
    using view_unfold[of ?c c] modes params assms(2) by simp
  then have "isp_ctx_cfg_mod L c = Some (cfg_mod_tables L ?c)"
    by (simp add: isp_ctx_cfg_mod_def cfg_mod_otp_def)
  then show ?thesis using modes params tables by simp
qed

text \<open>
  The ISO library gets the whole context. A view of the context that sees of the ISO object only whether it is there
  survives its configuration, when it survives the library.
\<close>

locale iso_blind =
  fixes V :: "('e, 's, 'x) ctx \<Rightarrow> 'v"
  assumes iso_put: "ready (f (iso_ent (ctx_rest c))) \<Longrightarrow> ready (iso_ent (ctx_rest c)) \<Longrightarrow> V (upd_pipe (iso_ent_update f) c) = V c"
    and iso_seen: "V c' = V c \<Longrightarrow> ready (iso_ent (ctx_rest c')) = ready (iso_ent (ctx_rest c))"
begin

lemma iso_stored:
  assumes "V c' = V c" "ready (iso_ent (ctx_rest c))"
  shows "V (upd_pipe (iso_ent_update (\<lambda>x. x\<lparr>ent := Some e, ent_param := Some p\<rparr>)) c') = V c"
proof -
  have "ready (iso_ent (ctx_rest c'))" using iso_seen[OF assms(1)] assms(2) by simp
  then show ?thesis using iso_put[of "\<lambda>x. x\<lparr>ent := Some e, ent_param := Some p\<rparr>" c'] assms(1) by (simp add: ready_def)
qed

lemma iso_run:
  assumes "\<And>e p c. V (snd (snd (iso_core_run L e p c))) = V c" "ready (iso_ent (ctx_rest c))"
  shows "\<exists>c'. run_iso L c = Some c' \<and> V c' = V c"
proof -
  obtain e p where x: "ent (iso_ent (ctx_rest c)) = Some e" "ent_ops (iso_ent (ctx_rest c))" "ent_param (iso_ent (ctx_rest c)) = Some p"
    using assms(2) by (elim readyE)
  obtain e' p' c' where r: "iso_core_run L e p c = (e', p', c')" by (metis prod_cases3)
  have "V c' = V c" using assms(1)[of e p c] r by simp
  from iso_stored[OF this assms(2)] x r show ?thesis by (simp add: run_iso_def)
qed

lemma iso_helper:
  assumes "\<And>e p c. V (snd (snd (iso_core_set_params L e p c))) = V c" "ready (iso_ent (ctx_rest c))"
  shows "V (isp_iso_set_params_helper L cmd c) = V c"
proof -
  obtain e p where x: "ent (iso_ent (ctx_rest c)) = Some e" "ent_ops (iso_ent (ctx_rest c))" "ent_param (iso_ent (ctx_rest c)) = Some p"
    using assms(2) by (elim readyE)
  obtain e' p' c' where r: "iso_core_set_params L e (p\<lparr>ip_type := cmd\<rparr>) c = (e', p', c')" by (metis prod_cases3)
  have "V c' = V c" using assms(1)[of e "p\<lparr>ip_type := cmd\<rparr>" c] r by simp
  from iso_stored[OF this assms(2)] x r show ?thesis by (simp add: isp_iso_set_params_helper_def)
qed

lemma iso_cfg:
  assumes "\<And>e p c. V (snd (snd (iso_core_set_params L e p c))) = V c" "\<And>e p c. V (snd (snd (iso_core_run L e p c))) = V c"
    and "ready (iso_ent (ctx_rest c))"
  shows "\<exists>c'. isp_ctx_update_iso_cfg L c = Some c' \<and> V c' = V c"
proof -
  obtain p where p: "ent_param (iso_ent (ctx_rest c)) = Some p" using assms(3) by (auto simp: ready_def)
  define c1 where "c1 = upd_pipe (iso_ent_update (ent_param_update (\<lambda>_. Some (p\<lparr>ip_isp_gen := True\<rparr>)))) c"
  define c2 where "c2 = isp_iso_set_params_helper L 0 c1"
  have v1: "V c1 = V c"
    unfolding c1_def by (rule iso_put) (use assms(3) in \<open>simp_all add: ready_def\<close>)
  have v2: "V c2 = V c"
    unfolding c2_def using iso_helper[OF assms(1), where c = c1 and cmd = 0] iso_seen[OF v1] assms(3) v1 by simp
  have r2: "ready (iso_ent (ctx_rest c2))" using iso_seen[OF v2] assms(3) by simp
  have go: "\<exists>c'. Option.bind (store_param f (iso_ent (ctx_rest c2))) (\<lambda>x. run_iso L (upd_pipe (iso_ent_update (\<lambda>_. x)) c2)) = Some c' \<and>
      V c' = V c" for f
  proof -
    obtain x where x: "store_param f (iso_ent (ctx_rest c2)) = Some x" "ready x" using store_param_ready[OF r2] by blast
    have v3: "V (upd_pipe (iso_ent_update (\<lambda>_. x)) c2) = V c" using iso_put[of "\<lambda>_. x" c2] x(2) r2 v2 by simp
    then show ?thesis using x(1,2) iso_run[OF assms(2), of "upd_pipe (iso_ent_update (\<lambda>_. x)) c2"] by simp
  qed
  show ?thesis
    using go p unfolding isp_ctx_update_iso_cfg_def by (simp add: Let_def c1_def[symmetric] c2_def[symmetric])
qed

end

interpretation iso_update: iso_blind update_view
  by unfold_locales (simp_all add: update_view_def Let_def)

interpretation iso_frame: iso_blind frame_view
  by unfold_locales (simp_all add: frame_view_def Let_def)

lemma af_cfg_block:
  assumes "ready (af_ent (ctx_rest c))" "reads_params (af_core L)"
  defines "c' \<equiv> isp_ctx_update_af_cfg L c"
  shows "update_view c' = update_view c"
    "\<exists>p. ent_param (af_ent (ctx_rest c')) = Some p \<and> af_ini p = af_ini_of (p3a c) \<and> af_test p = af_test_of (tests c)"
proof -
  let ?x = "put_param (af_ini_update (\<lambda>_. af_ini_of (p3a c))) (af_ent (ctx_rest c))"
  obtain p where p: "ent_param (af_ent (ctx_rest c)) = Some p" using assms(1) by (auto simp: ready_def)
  then have x: "ready ?x" "ent_param ?x = Some (p\<lparr>af_ini := af_ini_of (p3a c)\<rparr>)"
    using assms(1) by (simp_all add: put_param_def ready_def)
  note h = helper_reads[OF x assms(2), of "fp_type_update (\<lambda>_. 0)"]
  have c': "c' = upd_pipe (af_ent_update (\<lambda>_. put_param (\<lambda>p. p\<lparr>vcm_max := vcm_max_code (p3a c),
      vcm_min := vcm_min_code (p3a c), af_test := af_test_of (tests c)\<rparr>) (set_params_helper (af_core L) (fp_type_update (\<lambda>_. 0)) ?x))) c"
    using p by (simp add: c'_def isp_ctx_update_af_cfg_def isp_af_set_params_helper_def Let_def comp_def)
  show "update_view c' = update_view c"
    using h(1) assms(1) by (simp add: c' update_view_def Let_def put_param_def ready_def)
  show "\<exists>p. ent_param (af_ent (ctx_rest c')) = Some p \<and> af_ini p = af_ini_of (p3a c) \<and> af_test p = af_test_of (tests c)"
    using h(2) by (simp add: c' put_param_def)
qed

lemma awb_cfg_block:
  assumes "ready (awb_ent (ctx_rest c))" "reads_params (awb_core L)"
  defines "c' \<equiv> isp_ctx_update_awb_cfg L c"
  shows "update_view c' = update_view c" "af_ent (ctx_rest c') = af_ent (ctx_rest c)" "ae_ent (ctx_rest c') = ae_ent (ctx_rest c)"
    "\<exists>p. ent_param (awb_ent (ctx_rest c')) = Some p \<and> awb_ini p = awb_ini_of (p3a c) \<and> bp_awb_en p = awb_en (tests c)"
proof -
  let ?x = "put_param (awb_ini_update (\<lambda>_. awb_ini_of (p3a c))) (awb_ent (ctx_rest c))"
  obtain p where p: "ent_param (awb_ent (ctx_rest c)) = Some p" using assms(1) by (auto simp: ready_def)
  then have x: "ready ?x" "ent_param ?x = Some (p\<lparr>awb_ini := awb_ini_of (p3a c)\<rparr>)"
    using assms(1) by (simp_all add: put_param_def ready_def)
  note h = helper_reads[OF x assms(2), of "bp_type_update (\<lambda>_. 0)"]
  have c': "c' = upd_pipe (awb_ent_update (\<lambda>_. put_param (\<lambda>p. p\<lparr>bp_awb_en := awb_en (tests c), bp_color_temp := isp_color_temp (tests c),
      bp_test_mode := isp_test_mode (tests c)\<rparr>) (set_params_helper (awb_core L) (bp_type_update (\<lambda>_. 0)) ?x))) c"
    using p by (simp add: c'_def isp_ctx_update_awb_cfg_def isp_awb_set_params_helper_def Let_def comp_def)
  show "update_view c' = update_view c"
    using h(1) assms(1) by (simp add: c' update_view_def Let_def put_param_def ready_def)
  show "af_ent (ctx_rest c') = af_ent (ctx_rest c)" "ae_ent (ctx_rest c') = ae_ent (ctx_rest c)"
    by (simp_all add: c')
  show "\<exists>p. ent_param (awb_ent (ctx_rest c')) = Some p \<and> awb_ini p = awb_ini_of (p3a c) \<and> bp_awb_en p = awb_en (tests c)"
    using h(2) by (simp add: c' put_param_def)
qed


lemma ae_cfg_block:
  assumes "ready (ae_ent (ctx_rest c))" "reads_params (ae_core L)"
  defines "c' \<equiv> isp_ctx_update_ae_cfg L c" and "t \<equiv> (p3a c)\<lparr>wdr_cfg := (wdr_cfg (p3a c))[3 := 0]\<rparr>"
  shows "isp_ini_cfg c' = (isp_ini_cfg c)\<lparr>isp_3a_settings := t\<rparr>" "ctx_locked (ctx_rest c') = ctx_locked (ctx_rest c)"
    "af_ent (ctx_rest c') = af_ent (ctx_rest c)" "awb_ent (ctx_rest c') = awb_ent (ctx_rest c)"
    "\<exists>p i. ent_param (ae_ent (ctx_rest c')) = Some p \<and> ae_ini p = ae_ini_of t i \<and> ae_test p = ae_test_of (tests c)"
proof -
  let ?x = "put_param (\<lambda>p. p\<lparr>ae_sensor_info := sinfo c, ae_ini := ae_ini_of t (ae_ini p)\<rparr>) (ae_ent (ctx_rest c))"
  obtain p where p: "ent_param (ae_ent (ctx_rest c)) = Some p" using assms(1) by (auto simp: ready_def)
  let ?p = "p\<lparr>ae_sensor_info := sinfo c, ae_ini := ae_ini_of t (ae_ini p)\<rparr>"
  have x: "ready ?x" "ent_param ?x = Some ?p"
    using p assms(1) by (simp_all add: put_param_def ready_def)
  define y where "y = put_param (ae_test_update (\<lambda>_. ae_test_of (tests c))) (set_params_helper (ae_core L) (ap_type_update (\<lambda>_. 0)) ?x)"
  have y: "ready y" "ent_param y = Some (?p\<lparr>ap_type := 0, ae_test := ae_test_of (tests c)\<rparr>)"
    using helper_reads[OF x assms(2), of "ap_type_update (\<lambda>_. 0)"] by (simp_all add: y_def put_param_def ready_def)
  define z where "z = set_params_helper (ae_core L) (ap_type_update (\<lambda>_. 1)) y"
  have z: "ent_param z = Some (?p\<lparr>ap_type := 1, ae_test := ae_test_of (tests c)\<rparr>)"
    using helper_reads(2)[OF y assms(2), of "ap_type_update (\<lambda>_. 1)"] by (simp add: z_def)
  define d where "d = isp_ae_set_params_helper L 1 (upd_pipe (ae_ent_update (put_param (ae_test_update (\<lambda>_. ae_test_of (tests c)))))
      (isp_ae_set_params_helper L 0 (upd_pipe (ae_ent_update (put_param (\<lambda>p. p\<lparr>ae_sensor_info := sinfo c, ae_ini := ae_ini_of t (ae_ini p)\<rparr>)))
        (upd_pipe (ae_set_update (ae_flicker_type_update (\<lambda>_. flicker_type (tunning c)))) (c\<lparr>isp_ini_cfg := (isp_ini_cfg c)\<lparr>isp_3a_settings := t\<rparr>\<rparr>)))))"
  have d: "ae_ent (ctx_rest d) = z" by (simp add: d_def isp_ae_set_params_helper_def y_def z_def)
  obtain g where g: "c' = upd_pipe (tune_set_update g) d"
    using p z d[symmetric] by (simp add: c'_def d_def isp_ctx_update_ae_cfg_def isp_ae_set_params_helper_def Let_def comp_def t_def[symmetric])
  have "ae_ent (ctx_rest c') = z" by (simp add: g d)
  then show "\<exists>p i. ent_param (ae_ent (ctx_rest c')) = Some p \<and> ae_ini p = ae_ini_of t i \<and> ae_test p = ae_test_of (tests c)"
    using z by auto
  show "isp_ini_cfg c' = (isp_ini_cfg c)\<lparr>isp_3a_settings := t\<rparr>" "ctx_locked (ctx_rest c') = ctx_locked (ctx_rest c)"
    "af_ent (ctx_rest c') = af_ent (ctx_rest c)" "awb_ent (ctx_rest c') = awb_ent (ctx_rest c)"
    by (simp_all add: g d_def isp_ae_set_params_helper_def)
qed


definition opened :: "'p \<Rightarrow> (unit, 'p, 'r) entity_ctx \<Rightarrow> (unit, 'p, 'r) entity_ctx" where
  "opened p x = x\<lparr>ent := Some (), ent_ops := True, ent_param := Some p\<rparr>"

definition idle_device :: "(unit, unit, unit) isp_pipe hw_isp_device" where
  "idle_device = \<lparr>ctx_object = upd_pipe (ae_ent_update (opened zero_ae_param) \<circ> af_ent_update (opened zero_af_param) \<circ>
       awb_ent_update (opened zero_awb_param) \<circ> iso_ent_update (opened zero_iso_param)) (zero_ctx () ()),
     dev_ctx = True, dev_tuning = Some \<lparr>tuning_ctx = True, params = zero_params, frame_count = 0, pix_max = 0\<rparr>\<rparr>"

lemma ready_opened: "ready (opened p x)"
  by (simp add: ready_def opened_def)

lemma idle_device_ready:
  "ready (ae_ent (ctx_rest (ctx_object idle_device)))" "ready (af_ent (ctx_rest (ctx_object idle_device)))"
  "ready (awb_ent (ctx_rest (ctx_object idle_device)))" "ready (iso_ent (ctx_rest (ctx_object idle_device)))"
  "\<not> ctx_locked (ctx_rest (ctx_object idle_device))" "otp_enable (ctx_rest (ctx_object idle_device)) \<noteq> 1"
  by (simp_all add: idle_device_def zero_ctx_def zero_pipe_def ready_opened)

lemma idle_transparent: "libs_transparent idle_libs"
  by (simp add: libs_transparent_def idle_libs_def)

lemma idle_reads: "reads_params (ae_core idle_libs)" "reads_params (af_core idle_libs)" "reads_params (awb_core idle_libs)"
  by (simp_all add: reads_params_def idle_libs_def idle_core_def)


end
