(* ===== verification/IspSession.thy ===== *)
theory IspSession
  imports IspUpdate
begin

text \<open>
  A running device: what the callbacks of \<open>isp.c\<close> do to the context of the pipeline manager. A statistics buffer runs a
  frame and drives lens, LED, sensor and ISP (\<open>__isp_stats_process\<close>); control events and frame synchronisation
  (\<open>IspControls\<close>) and the flash work on the same context through \<open>gen_of\<close> and \<open>put_gen\<close>; the tuning server updates the
  parameters and \<open>isp_set_fps\<close> the exposure tables. The events form a transition system in which every reachable state
  can handle the next event.
\<close>

section \<open>Controls and flash on the context\<close>

text \<open>The members of the context that \<open>IspControls\<close> works on.\<close>

definition gen_of :: "('e, 's, 'x) ctx \<Rightarrow> isp_gen" where
  "gen_of c = (let r = ctx_rest c; a = ent_result (ae_ent r); w = ent_result (awb_ent r) in
     \<lparr>isp_3a_change_flags = change_flags r, image_flash_ok = flash_ok_bit r,
      ae_settings = isp_ae_settings.truncate (ae_set r), af_settings = af_set r,
      awb_settings = isp_awb_setting.truncate (awb_set r), tune = tune_set r,
      results = \<lparr>ae_flash_ev_cumul = ar_flash_ev_cumul a, ae_flash_ok = ar_flash_ok a, ae_flash_led = ar_flash_led a,
        ev_idx = ar_set_idx a, ev_idx_max = sint (ar_idx_max a), ev_idx_expect = ar_idx_expect a,
        ev_analog_gain = ar_analog_gain a, ev_digital_gain = ar_digital_gain a, ev_exposure_time = ar_exposure_time a,
        wb_gain_output = br_wb_gain_output w, color_temp_output = br_color_temp_output w\<rparr>,
      ae_frame_cnt = frame_cnts.ae_frame_cnt (cnts r), sensor_hts = si_hts (sensor_info r),
      sensor_pclk = si_pclk (sensor_info r), sensor_color_space = uint (si_color_space (sensor_info r)),
      flash_gain = sint (isp_tunning_param.flash_gain (tunning c)),
      flash_delay_frame = sint (isp_tunning_param.flash_delay_frame (tunning c)),
      ae_pline_index = map_option ap_pline_index (ent_param (ae_ent r)), ae_lib_ready = ready (ae_ent r),
      auto_focus_trigger = map_option fp_trigger (ent_param (af_ent r)), af_lib_ready = ready (af_ent r),
      led = [], exp_idx_set = [], af_triggered = 0\<rparr>)"

definition ISP_AE_SET_EXP_IDX :: u32 where "ISP_AE_SET_EXP_IDX = 2"
definition ISP_AF_TRIGGER :: u32 where "ISP_AF_TRIGGER = 1"

text \<open>Their new values in the context, and the calls into the libraries that the log of \<open>isp_gen\<close> lists.\<close>

definition store_gen :: "isp_gen \<Rightarrow> ('e, 's, 'x) ctx \<Rightarrow> ('e, 's, 'x) ctx" where
  "store_gen s c = upd_pipe (\<lambda>r. r\<lparr>
     change_flags := isp_3a_change_flags s, flash_ok_bit := image_flash_ok s,
     ae_set := isp_ae_settings.extend (ae_settings s) (isp_ae_settings.more (ae_set r)), af_set := af_settings s,
     awb_set := isp_awb_setting.extend (awb_settings s) (isp_awb_setting.more (awb_set r)), tune_set := tune s,
     sensor_info := (sensor_info r)\<lparr>si_color_space := word_of_int (sensor_color_space s)\<rparr>,
     ae_ent := (ae_ent r)\<lparr>
       ent_result := (ent_result (ae_ent r))\<lparr>ar_flash_ok := ae_flash_ok (results s), ar_flash_led := ae_flash_led (results s)\<rparr>,
       ent_param := (case ae_pline_index s of
           None \<Rightarrow> ent_param (ae_ent r)
         | Some i \<Rightarrow> map_option (ap_pline_index_update (\<lambda>_. i)) (ent_param (ae_ent r)))\<rparr>,
     af_ent := (af_ent r)\<lparr>
       ent_param := (case auto_focus_trigger s of
           None \<Rightarrow> ent_param (af_ent r)
         | Some i \<Rightarrow> map_option (fp_trigger_update (\<lambda>_. i)) (ent_param (af_ent r)))\<rparr>\<rparr>) c"

definition put_gen :: "('e, 's, 'x) isp_libs \<Rightarrow> isp_gen \<Rightarrow> ('e, 's, 'x) ctx \<Rightarrow> ('e, 's, 'x) ctx" where
  "put_gen L s c = (isp_af_set_params_helper L ISP_AF_TRIGGER ^^ af_triggered s)
     (fold (\<lambda>_. isp_ae_set_params_helper L ISP_AE_SET_EXP_IDX) (exp_idx_set s) (store_gen s c))"

definition ctrl_event :: "('e, 's, 'x) isp_libs \<Rightarrow> (int \<Rightarrow> u32 \<Rightarrow> u32 \<Rightarrow> u32) \<Rightarrow> ctrl_id \<Rightarrow> int \<Rightarrow> ('e, 's, 'x) ctx \<Rightarrow>
  ('e, 's, 'x) ctx option" where
  "ctrl_event L exposure_of cid v c = map_option (\<lambda>s. put_gen L s c) (ctrl_dispatch exposure_of cid v (gen_of c))"

definition fsync_event :: "('e, 's, 'x) isp_libs \<Rightarrow> byte list \<Rightarrow> ('e, 's, 'x) ctx \<Rightarrow> ('e, 's, 'x) ctx option" where
  "fsync_event L data c = map_option (\<lambda>(s, lp). upd_pipe (log_param_update (\<lambda>_. lp)) (put_gen L s c))
     (isp_fsync_process (isp_log_param (tests c)) data (Some (gen_of c)))"

definition flash_event :: "('e, 's, 'x) isp_libs \<Rightarrow> ('e, 's, 'x) ctx \<Rightarrow> (u32 list \<times> ('e, 's, 'x) ctx) option" where
  "flash_event L c = map_option (\<lambda>s. (led s, put_gen L s c)) (isp_flash_update_status (gen_of c))"

section \<open>A statistics buffer\<close>

record sensor_exp_gain =
  exp_val :: int
  gain_val :: int
  eg_r_gain :: int
  eg_b_gain :: int

text \<open>
  What a buffer makes the device do: the lens position, the LED commands, exposure and gain of the sensor, address
  and size of the memory the ISP loads.
\<close>

record frame_cmds =
  fc_pos :: "u32 option"
  fc_led :: "u32 list"
  fc_exp :: "sensor_exp_gain option"
  fc_load :: "(nat \<times> nat) option"

text \<open>The device beside its context: the last exposure handed to the sensor, the focus status, whether both heads are one sensor.\<close>

record ('e, 's, 'x) isp_session =
  ss_ctx :: "('e, 's, 'x) ctx"
  exp_gain_save :: sensor_exp_gain
  ss_af_status :: u32
  same_head :: bool

text \<open>\<open>isp_act_set_pos\<close> is called only when the position changes; the results of the \<open>ioctl\<close>s are not looked at.\<close>

definition focus_event :: "('e, 's, 'x) ctx \<Rightarrow> u32 option \<times> u32 option \<times> ('e, 's, 'x) ctx" where
  "focus_event c =
     (let f = ent_result (af_ent (ctx_rest c)) in
      if af_en (tests c) \<noteq> 0 \<or> isp_test_focus (tests c) \<noteq> 0
      then (if last_code_output f \<noteq> real_code_output f then Some (real_code_output f) else None, Some (af_status_output f),
            upd_pipe (af_ent_update (ent_result_update (\<lambda>f. f\<lparr>last_code_output := real_code_output f\<rparr>))) c)
      else (None, None, c))"

text \<open>The ratios of the gains divide by the green ones.\<close>

definition exp_gain_of :: "('e, 's, 'x) ctx \<Rightarrow> sensor_exp_gain option" where
  "exp_gain_of c =
     (let a = ent_result (ae_ent (ctx_rest c)); w = br_wb_gain_output (ent_result (awb_ent (ctx_rest c))) in
      if gr_gain w = 0 \<or> gb_gain w = 0 then None
      else Some \<lparr>exp_val = sint (ar_exp_line a), gain_val = sint (drop_bit 4 (ar_analog_gain a)),
        eg_r_gain = uint (r_gain w) * 256 div uint (gr_gain w), eg_b_gain = uint (b_gain w) * 256 div uint (gb_gain w)\<rparr>)"

definition isp_sensor_set_exp_gain :: "sensor_exp_gain \<Rightarrow> sensor_exp_gain \<Rightarrow> sensor_exp_gain option \<times> sensor_exp_gain" where
  "isp_sensor_set_exp_gain saved g = (if saved \<noteq> g then (Some g, g) else (None, saved))"

definition stats_prepared :: "('e, 's, 'x) isp_libs \<Rightarrow> sync_results option \<Rightarrow> byte list \<Rightarrow> ('e, 's, 'x) ctx \<Rightarrow> ('e, 's, 'x) ctx option" where
  "stats_prepared L sync buffer c =
     (case sync of
        None \<Rightarrow> isp_ctx_stats_prepare L buffer c
      | Some p \<Rightarrow>
          if isp_id (ctx_rest c) = 0 then isp_ctx_stats_prepare_sync L (Some buffer) (sy_buf p) c
          else isp_ctx_stats_prepare_sync L (sy_buf p) (Some buffer) c)"

definition isp_stats_process :: "('e, 's, 'x) isp_libs \<Rightarrow> sync_results option \<Rightarrow> byte list \<Rightarrow> ('e, 's, 'x) isp_session \<Rightarrow>
  (frame_cmds \<times> ('e, 's, 'x) isp_session) option" where
  "isp_stats_process L sync buffer d =
     Option.bind (stats_prepared L sync buffer (ss_ctx d)) (\<lambda>c.
     Option.bind (isp_ctx_algo_run L sync c) (\<lambda>c.
     case focus_event c of (pos, status, c) \<Rightarrow>
     Option.bind (flash_event L c) (\<lambda>(leds, c).
     map_option (\<lambda>g.
       let (sent, saved) = (if isp_id (ctx_rest c) = 1 \<and> same_head d then (None, exp_gain_save d)
                            else isp_sensor_set_exp_gain (exp_gain_save d) g)
       in (\<lparr>fc_pos = pos, fc_led = leds, fc_exp = sent,
            fc_load = map_option (\<lambda>(a, _). (a, ISP_LOAD_DRAM_SIZE)) (load_mem (ctx_rest c))\<rparr>,
           d\<lparr>ss_ctx := c, exp_gain_save := saved,
             ss_af_status := (case status of None \<Rightarrow> ss_af_status d | Some v \<Rightarrow> v)\<rparr>))
       (exp_gain_of c))))"

section \<open>The events of a device\<close>

datatype isp_event = Stats "byte list" | Ctrl ctrl_id int | Fsync "byte list" | Update isp_param_config | SetFps int

abbreviation on_ctx :: "('e, 's, 'x) isp_session \<Rightarrow> ('e, 's, 'x) ctx option \<Rightarrow> (frame_cmds option \<times> ('e, 's, 'x) isp_session) option" where
  "on_ctx d r \<equiv> map_option (\<lambda>c. (None, d\<lparr>ss_ctx := c\<rparr>)) r"

text \<open>\<open>isp_set_fps\<close> on a device that is there; the \<open>ioctl\<close> to the sensor has no result that is looked at.\<close>

definition isp_set_fps :: "('e, 's, 'x) isp_libs \<Rightarrow> int \<Rightarrow> ('e, 's, 'x) ctx \<Rightarrow> ('e, 's, 'x) ctx option" where
  "isp_set_fps L s_fps c = (if s_fps > 1 then isp_ctx_update_ae_tbl L s_fps c else Some c)"

fun session_step :: "('e, 's, 'x) isp_libs \<Rightarrow> sync_results option \<Rightarrow> (int \<Rightarrow> u32 \<Rightarrow> u32 \<Rightarrow> u32) \<Rightarrow> isp_event \<Rightarrow>
  ('e, 's, 'x) isp_session \<Rightarrow> (frame_cmds option \<times> ('e, 's, 'x) isp_session) option" where
  "session_step L sync E (Stats buffer) d = map_option (\<lambda>(o', d). (Some o', d)) (isp_stats_process L sync buffer d)"
| "session_step L sync E (Ctrl cid v) d = on_ctx d (ctrl_event L E cid v (ss_ctx d))"
| "session_step L sync E (Fsync data) d = on_ctx d (fsync_event L data (ss_ctx d))"
| "session_step L sync E (Update p) d = on_ctx d (isp_ctx_config_update L ((ss_ctx d)\<lparr>isp_ini_cfg := p\<rparr>))"
| "session_step L sync E (SetFps f) d = on_ctx d (isp_set_fps L f (ss_ctx d))"


text \<open>
  When an event stays in its range: a control within its menu that does not choose the flash modes with a frame
  count (automatic and torch), the 64 bytes of a frame synchronisation, parameters without calibration data,
  exposure tables that fit.
\<close>

definition table_fits :: "ae_table_info \<Rightarrow> bool" where
  "table_fits t \<longleftrightarrow> length (ae_tbl t) = 60 \<and> sint (tbl_length t) \<le> 10"

fun event_ok :: "(int \<Rightarrow> u32 \<Rightarrow> u32 \<Rightarrow> u32) \<Rightarrow> isp_event \<Rightarrow> ('e, 's, 'x) isp_session \<Rightarrow> bool" where
  "event_ok E (Stats buffer) d = True"
| "event_ok E (Ctrl cid v) d = (case ctrl_dispatch E cid v (gen_of (ss_ctx d)) of
     None \<Rightarrow> False | Some s \<Rightarrow> flash_mode (ae_settings s) \<notin> {2, 3})"
| "event_ok E (Fsync data) d = (length data = 64)"
| "event_ok E (Update p) d = (otp_enable (ctx_rest (ss_ctx d)) \<noteq> 1)"
| "event_ok E (SetFps f) d = (case ent_param (ae_ent (ctx_rest (ss_ctx d))) of
     None \<Rightarrow> False
   | Some p \<Rightarrow> table_fits (ai_tbl_preview (ae_ini p)) \<and> table_fits (ai_tbl_capture (ae_ini p)) \<and> table_fits (ai_tbl_video (ae_ini p)))"

text \<open>The transitions of a device: events in range that are handled.\<close>

inductive device_step :: "('e, 's, 'x) isp_libs \<times> sync_results option \<times> (int \<Rightarrow> u32 \<Rightarrow> u32 \<Rightarrow> u32) \<times> nat \<Rightarrow>
  ('e, 's, 'x) isp_session \<Rightarrow> ('e, 's, 'x) isp_session \<Rightarrow> bool" for env where
  device_event: "env = (L, sync, E, m) \<Longrightarrow> event_ok E ev d \<Longrightarrow> session_step L sync E ev d = Some (cmds, d') \<Longrightarrow> device_step env d d'"

inductive_cases device_stepE: "device_step (L, sync, E, m) d d'"

section \<open>Every handler keeps what a frame needs\<close>

definition session_keep :: "('e, 's, 'x) isp_libs \<Rightarrow> bool" where
  "session_keep L \<longleftrightarrow> (\<forall>c. frame_view (config_band_step L c) = frame_view c \<and> frame_view (config_lens_center L c) = frame_view c \<and>
     (\<forall>b. frame_view (lib_handle_stats L b c) = frame_view c) \<and>
     (\<forall>b b'. frame_view (lib_handle_stats_sync L b b' c) = frame_view c) \<and>
     (\<forall>e p. frame_view (snd (snd (iso_core_set_params L e p c))) = frame_view c))"

abbreviation awb_green :: "('e, 's, 'x) ctx \<Rightarrow> bool" where
  "awb_green c \<equiv> gr_gain (br_wb_gain_output (ent_result (awb_ent (ctx_rest c)))) \<noteq> 0 \<and>
     gb_gain (br_wb_gain_output (ent_result (awb_ent (ctx_rest c)))) \<noteq> 0"

text \<open>The white balance library never answers with a green gain of 0, and what runs after it leaves its answer alone.\<close>

definition green_gains :: "('e, 's, 'x) isp_libs \<Rightarrow> sync_results option \<Rightarrow> bool" where
  "green_gains L sync \<longleftrightarrow>
     (\<forall>e p s r. gr_gain (br_wb_gain_output (snd (snd (core_run (awb_core L) e p s r)))) \<noteq> 0 \<and>
        gb_gain (br_wb_gain_output (snd (snd (core_run (awb_core L) e p s r)))) \<noteq> 0) \<and>
     (\<forall>p. sync = Some p \<longrightarrow> gr_gain (br_wb_gain_output (sy_awb p)) \<noteq> 0 \<and> gb_gain (br_wb_gain_output (sy_awb p)) \<noteq> 0) \<and>
     (\<forall>c. awb_ent (ctx_rest (lib_apply_colormatrix L c)) = awb_ent (ctx_rest c) \<and>
        (\<forall>v. awb_ent (ctx_rest (config_lens_table L v c)) = awb_ent (ctx_rest c)) \<and>
        (\<forall>v. awb_ent (ctx_rest (config_msc_table L v c)) = awb_ent (ctx_rest c)))"

lemma helper_views:
  "frame_view (isp_ae_set_params_helper L cmd c) = frame_view c" "frame_view (isp_af_set_params_helper L cmd c) = frame_view c"
  "frame_view (isp_awb_set_params_helper L cmd c) = frame_view c"
  by (simp_all add: isp_ae_set_params_helper_def isp_af_set_params_helper_def isp_awb_set_params_helper_def
      frame_view_def Let_def set_params_helper_ready)

lemma helpers_kept:
  "frame_view (fold (\<lambda>_. isp_ae_set_params_helper L cmd) is c) = frame_view c \<and>
     awb_ent (ctx_rest (fold (\<lambda>_. isp_ae_set_params_helper L cmd) is c)) = awb_ent (ctx_rest c)"
  by (induction "is" arbitrary: c) (simp_all add: helper_views, simp add: isp_ae_set_params_helper_def)

lemma triggers_kept:
  "frame_view ((isp_af_set_params_helper L cmd ^^ k) c) = frame_view c \<and>
     awb_ent (ctx_rest ((isp_af_set_params_helper L cmd ^^ k) c)) = awb_ent (ctx_rest c)"
  by (induction k) (simp_all add: helper_views, simp add: isp_af_set_params_helper_def)

lemma store_gen_ok:
  "frame_ok m b (k, fm) c \<Longrightarrow> frame_ok m b (k, flash_mode (ae_settings s)) (store_gen s c)"
  by (auto simp: store_gen_def frame_ok_unfold ready_def isp_ae_settings.extend_def split: option.split)

lemma put_gen_ok:
  assumes "frame_ok m b (k, fm) c"
  shows "frame_ok m b (k, flash_mode (ae_settings s)) (put_gen L s c)"
  by (rule frame_ok_view[OF store_gen_ok[OF assms]]) (simp add: put_gen_def helpers_kept triggers_kept)

lemma put_gen_awb: "awb_ent (ctx_rest (put_gen L s c)) = awb_ent (ctx_rest c)"
proof -
  have "awb_ent (ctx_rest (store_gen s c)) = awb_ent (ctx_rest c)" by (simp add: store_gen_def)
  then show ?thesis by (simp only: put_gen_def helpers_kept triggers_kept)
qed

lemma gen_of_flash_mode: "flash_mode (ae_settings (gen_of c)) = flash_mode (ae_set (ctx_rest c))"
  by (simp add: gen_of_def Let_def isp_ae_settings.truncate_def)

lemma frame_ok_mode: "frame_ok m b (k, fm) c \<Longrightarrow> flash_mode (ae_set (ctx_rest c)) = fm"
  by (simp add: frame_ok_unfold)

text \<open>Outside the two modes that count frames the flash cannot overflow, and its mode stays.\<close>

lemma flash_calm:
  assumes "flash_mode (ae_settings s) \<notin> {2, 3}"
  shows "\<exists>s'. isp_flash_update_status s = Some s' \<and> flash_mode (ae_settings s') = flash_mode (ae_settings s)"
  using assms
  by (auto simp: isp_flash_update_status_def Let_def flash_switch_open_def isp_flash_open_def isp_flash_ctrl_def flash_off_def)

lemma flash_event_ok:
  assumes "frame_ok m False (k, fm) c" "fm \<notin> {2, 3}"
  shows "\<exists>leds c'. flash_event L c = Some (leds, c') \<and> frame_ok m False (k, fm) c' \<and> awb_ent (ctx_rest c') = awb_ent (ctx_rest c)"
proof -
  have "flash_mode (ae_settings (gen_of c)) = fm" using frame_ok_mode[OF assms(1)] by (simp add: gen_of_flash_mode)
  with flash_calm[of "gen_of c"] assms(2) obtain s' where s': "isp_flash_update_status (gen_of c) = Some s'"
    "flash_mode (ae_settings s') = fm" by auto
  then show ?thesis using put_gen_ok[OF assms(1), of s' L] by (simp add: flash_event_def put_gen_awb)
qed

section \<open>A statistics buffer is handled\<close>

lemma stats_prepared_ok:
  assumes "session_keep L" "frame_ok m False n c"
  shows "\<exists>c'. stats_prepared L sync b c = Some c' \<and> frame_ok m False n c'"
proof -
  let ?c = "upd_pipe (ctx_locked_update (\<lambda>_. True)) c"
  have lock: "ctx_lock c = Some ?c" "frame_ok m True n ?c" using assms(2) by (simp_all add: ctx_lock_def frame_ok_unfold)
  have unlock: "frame_ok m False n (ctx_unlock c')" if "frame_view c' = frame_view ?c" for c'
    using frame_ok_view[OF lock(2) that] by (simp add: ctx_unlock_def frame_ok_unfold)
  have "frame_view (lib_handle_stats L b' ?c) = frame_view ?c" "frame_view (lib_handle_stats_sync L x y ?c) = frame_view ?c" for b' x y
    using assms(1) unfolding session_keep_def by blast+
  from unlock[OF this(1)] unlock[OF this(2)] lock(1) show ?thesis
    unfolding stats_prepared_def isp_ctx_stats_prepare_def isp_ctx_stats_prepare_sync_def
    by (cases sync) simp_all
qed

lemma run_steps_last:
  assumes "run_steps (fs @ f # gs) c = Some c'" "\<And>c c'. f c = Some c' \<Longrightarrow> P c'"
    and "list_all (\<lambda>g. \<forall>c c'. P c \<longrightarrow> g c = Some c' \<longrightarrow> P c') gs"
  shows "P c'"
proof -
  have tail: "list_all (\<lambda>g. \<forall>c c'. P c \<longrightarrow> g c = Some c' \<longrightarrow> P c') gs \<Longrightarrow> P c \<Longrightarrow> run_steps gs c = Some c' \<Longrightarrow> P c'" for gs c
    by (induction gs arbitrary: c) (auto simp: bind_eq_Some_conv)
  show ?thesis
    using assms(1)
  proof (induction fs arbitrary: c)
    case Nil
    then show ?case using assms(2,3) tail by (auto simp: bind_eq_Some_conv)
  next
    case (Cons a fs)
    then show ?case by (auto simp: bind_eq_Some_conv)
  qed
qed

lemma awb_run_green:
  assumes "green_gains L sync" "isp_awb_run L sync c = Some c'"
  shows "awb_green c'"
proof -
  obtain x where x: "run_done (awb_core L) sy_awb sync (ctx_rest c) (awb_ent (ctx_rest c)) = Some x"
    "ent_result (awb_ent (ctx_rest c')) = ent_result x"
    using assms(2) by (auto simp: isp_awb_run_def on_ent_def Let_def)
  then obtain e p r where "ent_result x = done_result sy_awb sync (isp_id (ctx_rest c)) (snd (snd (core_run (awb_core L) e p (stats (ctx_rest c)) r)))"
    by (auto simp: run_done_def run_core_def split: option.splits bool.splits prod.splits) (metis snd_conv)
  with x(2) assms(1) show ?thesis
    by (auto simp: green_gains_def done_result_def split: option.splits)
qed

lemma algo_run_green:
  assumes "green_gains L sync" "isp_ctx_algo_run L sync c = Some c'"
  shows "awb_green c'"
proof -
  obtain c1 c2 where c2: "run_steps (algo_steps L sync) c1 = Some c2" "c' = ctx_unlock c2"
    using assms(2) by (auto simp: isp_ctx_algo_run_def bind_eq_Some_conv)
  define gs where "gs = drop 13 (algo_steps L sync)"
  have "algo_steps L sync = take 12 (algo_body L sync) @ isp_awb_run L sync # gs"
    by (simp add: gs_def algo_steps_def algo_body_def)
  with c2(1) have run: "run_steps (take 12 (algo_body L sync) @ isp_awb_run L sync # gs) c1 = Some c2" by simp
  have tail: "list_all (\<lambda>g. \<forall>c c'. awb_green c \<longrightarrow> g c = Some c' \<longrightarrow> awb_green c') gs"
    using assms(1)
    by (simp add: gs_def algo_steps_def algo_body_def opt_step_def green_gains_def hardware_update_def split: option.split prod.split)
  have "awb_green c2"
    by (rule run_steps_last[OF run _ tail]) (rule awb_run_green[OF assms(1)])
  then show ?thesis by (simp add: c2(2) ctx_unlock_def)
qed

lemma focus_event_ok:
  assumes "focus_event c = (pos, st, c')"
  shows "frame_view c' = frame_view c" "awb_ent (ctx_rest c') = awb_ent (ctx_rest c)"
  using assms by (auto simp: focus_event_def Let_def frame_view_def ready_def split: if_splits)

lemma stats_process_ok:
  assumes "libs_keep L" "exposure_bounded L sync m" "session_keep L" "green_gains L sync"
    and "frame_ok m False (k, fm) (ss_ctx d)" "fm \<notin> {2, 3}"
  shows "\<exists>cmds d'. isp_stats_process L sync b d = Some (cmds, d') \<and> frame_ok m False (count_frame k, fm) (ss_ctx d')"
proof -
  obtain c1 where c1: "stats_prepared L sync b (ss_ctx d) = Some c1" "frame_ok m False (k, fm) c1"
    using stats_prepared_ok[OF assms(3,5)] by blast
  obtain c2 where c2: "isp_ctx_algo_run L sync c1 = Some c2" "frame_ok m False (count_frame k, fm) c2"
    using frame_runs[OF assms(1,2) c1(2)] by auto
  obtain pos st c3 where c3: "focus_event c2 = (pos, st, c3)" by (metis prod_cases3)
  have ok3: "frame_ok m False (count_frame k, fm) c3" using frame_ok_view[OF c2(2) focus_event_ok(1)[OF c3]] .
  obtain leds c4 where c4: "flash_event L c3 = Some (leds, c4)" "frame_ok m False (count_frame k, fm) c4"
    "awb_ent (ctx_rest c4) = awb_ent (ctx_rest c3)"
    using flash_event_ok[OF ok3 assms(6), of L] by blast
  have "awb_green c4" using algo_run_green[OF assms(4) c2(1)] focus_event_ok(2)[OF c3] c4(3) by simp
  then obtain g where "exp_gain_of c4 = Some g" by (auto simp: exp_gain_of_def Let_def)
  with c1(1) c2(1) c3 c4(1,2) show ?thesis
    by (auto simp: isp_stats_process_def Let_def split: prod.split)
qed

section \<open>Updates and frame rates are handled\<close>

lemma cfg_mod_frame:
  assumes "libs_keep L" "session_keep L" "isp_ctx_cfg_mod L c = Some c'"
  shows "frame_view c' = frame_view c"
proof -
  have modes: "frame_view (cfg_mod_modes L c) = frame_view c" for c
    using assms(1) by (simp add: cfg_mod_modes_def Let_def libs_keep_def) (simp add: frame_view_def Let_def)
  have params: "frame_view (cfg_mod_params c) = frame_view c" "frame_view (cfg_mod_msc L c) = frame_view c" for c :: "('a, 'b, 'c) ctx"
    by (simp add: cfg_mod_params_def frame_view_def Let_def) (simp add: cfg_mod_msc_def frame_view_def Let_def)
  have otp: "frame_view c' = frame_view c" if "cfg_mod_otp L c = Some c'" for c c'
    using that by (auto simp: cfg_mod_otp_def frame_view_def Let_def split: if_splits)
  have tables: "frame_view (cfg_mod_tables L c) = frame_view c" for c
  proof -
    have "frame_view (upd_mod (\<lambda>m. m\<lparr>mc_cem_table := t\<rparr>) c) = frame_view c" for t and c :: "('a, 'b, 'c) ctx"
      by (simp add: frame_view_def Let_def)
    then show ?thesis
      using assms(1,2) by (simp add: cfg_mod_tables_def Let_def libs_keep_def session_keep_def)
  qed
  obtain c1 where "cfg_mod_otp L (cfg_mod_msc L (cfg_mod_params (cfg_mod_modes L c))) = Some c1" "c' = cfg_mod_tables L c1"
    using assms(3) by (auto simp: isp_ctx_cfg_mod_def)
  then show ?thesis using modes params otp tables by metis
qed

lemma ready_put_param: "ready (put_param f x) = ready x"
  by (simp add: put_param_def ready_def)

lemma block_cfg_frame:
  "frame_view (isp_ctx_update_af_cfg L c) = frame_view c" "frame_view (isp_ctx_update_awb_cfg L c) = frame_view c"
  "frame_view (isp_ctx_update_gtm_cfg L c) = frame_view c" "frame_view (isp_ctx_update_pltm_cfg c) = frame_view c"
  "frame_view (isp_ctx_update_afs_cfg c) = frame_view c"
  by (simp_all add: isp_ctx_update_af_cfg_def isp_ctx_update_awb_cfg_def isp_ctx_update_gtm_cfg_def isp_ctx_update_pltm_cfg_def
      isp_ctx_update_afs_cfg_def isp_af_set_params_helper_def isp_awb_set_params_helper_def isp_gtm_set_params_helper_def
      frame_view_def Let_def set_params_helper_ready ready_put_param)

lemma ae_cfg_frame: "frame_view (isp_ctx_update_ae_cfg L c) = frame_view c"
  by (simp add: isp_ctx_update_ae_cfg_def isp_ae_set_params_helper_def frame_view_def Let_def set_params_helper_ready ready_put_param
      split: option.split)

lemma enable_modules_frame: "frame_view (isp_ctx_enable_modules c) = frame_view c"
  by (simp add: isp_ctx_enable_modules_def frame_view_def Let_def split: prod.split)

lemma enable_modules_rest: "otp_enable (ctx_rest (isp_ctx_enable_modules c)) = otp_enable (ctx_rest c)"
  by (simp add: isp_ctx_enable_modules_def split: prod.split)

lemma config_update_ok:
  assumes "libs_keep L" "session_keep L" "libs_transparent L" "frame_ok m False n c" "otp_enable (ctx_rest c) \<noteq> 1"
  shows "\<exists>c'. isp_ctx_config_update L (c\<lparr>isp_ini_cfg := p\<rparr>) = Some c' \<and> frame_ok m False n c'"
proof -
  let ?c = "c\<lparr>isp_ini_cfg := p\<rparr>"
  define c0 where "c0 = upd_pipe (ctx_locked_update (\<lambda>_. True)) ?c"
  have lock: "ctx_lock ?c = Some c0" "frame_ok m True n c0" "otp_enable (ctx_rest c0) \<noteq> 1"
    using assms(4,5) by (simp_all add: c0_def ctx_lock_def frame_ok_unfold)
  obtain c1 where c1: "isp_ctx_cfg_mod L (isp_ctx_enable_modules c0) = Some c1"
    using cfg_mod_view[OF assms(3), of "isp_ctx_enable_modules c0"] lock(3) by (auto simp: enable_modules_rest)
  have ok1: "frame_ok m True n c1"
    using cfg_mod_frame[OF assms(1,2) c1] by (intro frame_ok_view[OF lock(2)]) (simp add: enable_modules_frame)
  obtain c2 where c2: "isp_ctx_update_iso_cfg L c1 = Some c2" "frame_view c2 = frame_view c1"
    using iso_frame.iso_cfg[of L c1] frame_ok_ready(7)[OF ok1] assms(1,2) by (auto simp: libs_keep_def session_keep_def)
  let ?c3 = "isp_ctx_update_afs_cfg (isp_ctx_update_pltm_cfg (isp_ctx_update_gtm_cfg L
       (isp_ctx_update_awb_cfg L (isp_ctx_update_ae_cfg L (isp_ctx_update_af_cfg L c2)))))"
  have ok3: "frame_ok m True n ?c3"
    by (rule frame_ok_view[OF ok1]) (simp only: block_cfg_frame ae_cfg_frame c2(2))
  have "isp_ctx_update L c0 = Some ?c3"
    unfolding isp_ctx_update_def isp_ctx_update_libs_def c1 bind.bind_lunit c2(1) by simp
  then have "isp_ctx_config_update L ?c = Some (ctx_unlock ?c3)"
    unfolding isp_ctx_config_update_def lock(1) by simp
  moreover have "frame_ok m False n (ctx_unlock ?c3)"
    using ok3 by (simp add: ctx_unlock_def frame_ok_unfold)
  ultimately show ?thesis by blast
qed

lemma raise_exposures_fit: "table_fits t \<Longrightarrow> \<exists>t'. raise_exposures fps t = Some t'"
proof -
  assume "table_fits t"
  then have "length (ae_tbl t) = 60" "nat (sint (tbl_length t)) \<le> 10" by (auto simp: table_fits_def)
  from raise_exposures_fold[OF this, of fps] show ?thesis by (auto simp: raise_exposures_def)
qed

lemma set_fps_ok:
  assumes "frame_ok m False n c" "ent_param (ae_ent (ctx_rest c)) = Some p"
    and "table_fits (ai_tbl_preview (ae_ini p))" "table_fits (ai_tbl_capture (ae_ini p))" "table_fits (ai_tbl_video (ae_ini p))"
  shows "\<exists>c'. isp_set_fps L f c = Some c' \<and> frame_ok m False n c'"
proof -
  define c0 where "c0 = upd_pipe (ctx_locked_update (\<lambda>_. True)) c"
  have lock: "ctx_lock c = Some c0" "frame_ok m True n c0" "ent_param (ae_ent (ctx_rest c0)) = Some p"
    using assms(1,2) by (simp_all add: c0_def ctx_lock_def frame_ok_unfold)
  let ?put = "\<lambda>t1 t2 t3. upd_pipe (ae_ent_update (put_param (ae_ini_update (\<lambda>i. i\<lparr>ai_tbl_preview := t1,
                 ai_tbl_capture := t2, ai_tbl_video := t3\<rparr>)))) c0"
  let ?c1 = "\<lambda>t1 t2 t3. isp_ae_set_params_helper L 1 (isp_ae_set_params_helper L 0 (?put t1 t2 t3))"
  have "frame_view (?put t1 t2 t3) = frame_view c0" for t1 t2 t3
    by (simp add: frame_view_def Let_def ready_put_param)
  then have ok: "frame_ok m False n (ctx_unlock (?c1 t1 t2 t3))" for t1 t2 t3
    using frame_ok_view[OF lock(2), of "?c1 t1 t2 t3"] by (simp add: helper_views) (simp add: ctx_unlock_def frame_ok_unfold)
  obtain t1 t2 t3 where "raise_exposures (word_of_int f) (ai_tbl_preview (ae_ini p)) = Some t1"
    "raise_exposures (word_of_int f) (ai_tbl_capture (ae_ini p)) = Some t2" "raise_exposures (word_of_int f) (ai_tbl_video (ae_ini p)) = Some t3"
    using raise_exposures_fit assms(3-5) by metis
  then have "isp_ctx_update_ae_tbl L f c = Some (ctx_unlock (?c1 t1 t2 t3))"
    unfolding isp_ctx_update_ae_tbl_def lock(1) bind.bind_lunit lock(3) by simp
  then show ?thesis using ok assms(1) by (cases "f > 1") (simp_all add: isp_set_fps_def)
qed

section \<open>A device handles every event\<close>

definition session_ok :: "nat \<Rightarrow> ('e, 's, 'x) isp_session \<Rightarrow> bool" where
  "session_ok m d \<longleftrightarrow> (\<exists>k fm. frame_ok m False (k, fm) (ss_ctx d) \<and> fm \<notin> {2, 3})"

definition env_ok :: "('e, 's, 'x) isp_libs \<times> sync_results option \<times> (int \<Rightarrow> u32 \<Rightarrow> u32 \<Rightarrow> u32) \<times> nat \<Rightarrow> bool" where
  "env_ok = (\<lambda>(L, sync, E, m). libs_keep L \<and> session_keep L \<and> libs_transparent L \<and> exposure_bounded L sync m \<and> green_gains L sync)"

lemma fsync_dispatch:
  "\<exists>s lp. isp_fsync_process ini data (Some s0) = Some (s, lp) \<and> flash_mode (ae_settings s) = flash_mode (ae_settings s0)"
  by (simp add: isp_fsync_process_def Let_def raise_def)

lemma session_step_ok:
  assumes "env_ok (L, sync, E, m)" "session_ok m d" "event_ok E ev d"
  shows "\<exists>cmds d'. session_step L sync E ev d = Some (cmds, d') \<and> session_ok m d'"
proof -
  have env: "libs_keep L" "session_keep L" "libs_transparent L" "exposure_bounded L sync m" "green_gains L sync"
    using assms(1) by (simp_all add: env_ok_def)
  obtain k fm where ok: "frame_ok m False (k, fm) (ss_ctx d)" "fm \<notin> {2, 3}" using assms(2) by (auto simp: session_ok_def)
  have put: "\<exists>cmds d'. on_ctx d (Some c) = Some (cmds, d') \<and> session_ok m d'"
    if "frame_ok m False (k', fm') c" "fm' \<notin> {2, 3}" for k' fm' c
    using that by (auto simp: session_ok_def)
  show ?thesis
  proof (cases ev)
    case (Stats b)
    then show ?thesis
      using stats_process_ok[OF env(1,4,2,5) ok, of b] ok(2) by (fastforce simp: session_ok_def)
  next
    case (Ctrl cid v)
    then obtain s where "ctrl_dispatch E cid v (gen_of (ss_ctx d)) = Some s" "flash_mode (ae_settings s) \<notin> {2, 3}"
      using assms(3) by (auto split: option.splits)
    then show ?thesis
      using put[OF put_gen_ok[OF ok(1), of s L]] by (simp add: Ctrl ctrl_event_def)
  next
    case (Fsync data)
    obtain s lp where s: "isp_fsync_process (isp_log_param (tests (ss_ctx d))) data (Some (gen_of (ss_ctx d))) = Some (s, lp)"
      "flash_mode (ae_settings s) = fm"
      using fsync_dispatch frame_ok_mode[OF ok(1)] by (metis gen_of_flash_mode)
    have "frame_ok m False (k, fm) (upd_pipe (log_param_update (\<lambda>_. lp)) (put_gen L s (ss_ctx d)))"
      using put_gen_ok[OF ok(1), of s L] s(2) by (simp add: frame_ok_unfold)
    from put[OF this ok(2)] s(1) show ?thesis by (simp add: Fsync fsync_event_def)
  next
    case (Update p)
    then show ?thesis
      using config_update_ok[OF env(1-3) ok(1), of p] assms(3) put[OF _ ok(2)] by fastforce
  next
    case (SetFps f)
    then obtain p where "ent_param (ae_ent (ctx_rest (ss_ctx d))) = Some p"
      "table_fits (ai_tbl_preview (ae_ini p))" "table_fits (ai_tbl_capture (ae_ini p))" "table_fits (ai_tbl_video (ae_ini p))"
      using assms(3) by (auto split: option.splits)
    from set_fps_ok[OF ok(1) this, of L f] show ?thesis using put[OF _ ok(2)] by (fastforce simp: SetFps)
  qed
qed

definition device_start :: "(('e, 's, 'x) isp_libs \<times> sync_results option \<times> (int \<Rightarrow> u32 \<Rightarrow> u32 \<Rightarrow> u32) \<times> nat) \<times> ('e, 's, 'x) isp_session \<Rightarrow> bool" where
  "device_start = (\<lambda>((L, sync, E, m), d). env_ok (L, sync, E, m) \<and> libs_available L \<and>
     (\<exists>c base block. length block = ISP_LOAD_DRAM_SIZE \<and> isp_ctx_algo_init L (Some (base, block)) c = Some (0, ss_ctx d) \<and>
        unat (si_exp_line (sinfo c)) \<le> m \<and> max (unat (si_vts (sinfo c))) (m div 16) * unat (si_hts (sinfo c)) < 2 ^ 32 \<and>
        flash_mode (ae_set (ctx_rest c)) \<notin> {2, 3}))"

definition device_inv :: "(('e, 's, 'x) isp_libs \<times> sync_results option \<times> (int \<Rightarrow> u32 \<Rightarrow> u32 \<Rightarrow> u32) \<times> nat) \<times> ('e, 's, 'x) isp_session \<Rightarrow> bool" where
  "device_inv = (\<lambda>((L, sync, E, m), d). env_ok (L, sync, E, m) \<and> session_ok m d)"

definition device_trans :: "(('e, 's, 'x) isp_libs \<times> sync_results option \<times> (int \<Rightarrow> u32 \<Rightarrow> u32 \<Rightarrow> u32) \<times> nat) \<times> ('e, 's, 'x) isp_session \<Rightarrow>
  (('e, 's, 'x) isp_libs \<times> sync_results option \<times> (int \<Rightarrow> u32 \<Rightarrow> u32 \<Rightarrow> u32) \<times> nat) \<times> ('e, 's, 'x) isp_session \<Rightarrow> bool" where
  "device_trans = (\<lambda>(env, d) (env', d'). env' = env \<and> device_step env d d')"

lemma device_start_inv: "device_start s \<Longrightarrow> device_inv s"
proof -
  obtain L sync E m d where s: "s = ((L, sync, E, m), d)" by (metis prod.exhaust)
  assume "device_start s"
  then obtain c base block where "env_ok (L, sync, E, m)" "libs_available L" "length block = ISP_LOAD_DRAM_SIZE"
    "isp_ctx_algo_init L (Some (base, block)) c = Some (0, ss_ctx d)"
    "unat (si_exp_line (sinfo c)) \<le> m" "max (unat (si_vts (sinfo c))) (m div 16) * unat (si_hts (sinfo c)) < 2 ^ 32"
    "flash_mode (ae_set (ctx_rest c)) \<notin> {2, 3}"
    by (auto simp: device_start_def s)
  with init_frame_ok[of L block c m base] show "device_inv s"
    by (auto simp: s device_inv_def session_ok_def)
qed

lemma device_trans_inv: "device_trans s s' \<Longrightarrow> device_inv s \<Longrightarrow> device_inv s'"
proof -
  obtain L sync E m d where s: "s = ((L, sync, E, m), d)" by (metis prod.exhaust)
  obtain env' d' where s': "s' = (env', d')" by (cases s')
  assume "device_trans s s'" and inv: "device_inv s"
  then have "env' = (L, sync, E, m)" "device_step (L, sync, E, m) d d'" by (simp_all add: s s' device_trans_def)
  moreover from this(2) inv have "session_ok m d'"
    by (elim device_stepE) (use session_step_ok[of L sync E m d] in \<open>fastforce simp: s device_inv_def\<close>)
  ultimately show "device_inv s'" using inv by (simp add: s s' device_inv_def)
qed

interpretation device: invariant_system device_trans device_start device_inv
  by unfold_locales (rule device_start_inv, assumption, rule device_trans_inv)

lemma device_steps: "(device_step env)\<^sup>*\<^sup>* d d' \<Longrightarrow> device_trans\<^sup>*\<^sup>* (env, d) (env, d')"
proof (induction rule: rtranclp_induct)
  case (step y z)
  then have "device_trans (env, y) (env, z)" by (simp add: device_trans_def)
  with step.IH show ?case by (rule rtranclp.rtrancl_into_rtrancl)
qed simp


text \<open>Libraries as in \<open>idle_libs\<close>, with a white balance library that always answers unity gains.\<close>

definition live_libs :: "(unit, unit, unit) isp_libs" where
  "live_libs = idle_libs\<lparr>awb_core := idle_core zero_awb_param (br_wb_gain_output_update (\<lambda>_. wb_unity))\<rparr>"

definition live_device :: "(unit, unit, unit) ctx \<Rightarrow> (unit, unit, unit) isp_session" where
  "live_device c = \<lparr>ss_ctx = c, exp_gain_save = \<lparr>exp_val = 0, gain_val = 0, eg_r_gain = 0, eg_b_gain = 0\<rparr>,
     ss_af_status = 0, same_head = False\<rparr>"

lemma live_hyps:
  "libs_keep live_libs" "session_keep live_libs" "libs_transparent live_libs" "exposure_bounded live_libs None 16"
  "green_gains live_libs None" "libs_available live_libs"
  by (simp_all add: live_libs_def idle_libs_def idle_core_def libs_keep_def session_keep_def libs_transparent_def
      exposure_bounded_def green_gains_def libs_available_def wb_unity_def)

lemma zero_mode: "flash_mode (ae_set (ctx_rest (zero_ctx s x))) = 0"
  by (simp add: zero_ctx_def zero_pipe_def zero_isp_ae_settings_t_def)

lemma zero_ctx_mode: "flash_mode (ae_set (ctx_rest (zero_ctx s x))) \<notin> {2, 3}"
  by (simp add: zero_mode)


section \<open>The exposure of the sensor\<close>

fun run_stats :: "('e, 's, 'x) isp_libs \<Rightarrow> sync_results option \<Rightarrow> byte list list \<Rightarrow> ('e, 's, 'x) isp_session \<Rightarrow>
  (frame_cmds list \<times> ('e, 's, 'x) isp_session) option" where
  "run_stats L sync [] d = Some ([], d)"
| "run_stats L sync (b # bs) d = Option.bind (isp_stats_process L sync b d)
     (\<lambda>(cmds, d). map_option (\<lambda>(cs, d). (cmds # cs, d)) (run_stats L sync bs d))"

definition sensor_after :: "sensor_exp_gain \<Rightarrow> frame_cmds list \<Rightarrow> sensor_exp_gain" where
  "sensor_after s cs = fold (\<lambda>cmds s. case fc_exp cmds of None \<Rightarrow> s | Some g \<Rightarrow> g) cs s"

lemma stats_process_exposure:
  assumes "isp_stats_process L sync b d = Some (cmds, d')" "\<not> same_head d"
  shows "exp_gain_of (ss_ctx d') = Some (exp_gain_save d')" "sensor_after (exp_gain_save d) [cmds] = exp_gain_save d'" "\<not> same_head d'"
proof -
  obtain c1 where c1: "stats_prepared L sync b (ss_ctx d) = Some c1"
    using assms(1) by (cases "stats_prepared L sync b (ss_ctx d)") (simp_all add: isp_stats_process_def)
  obtain c2 where c2: "stats_prepared L sync b (ss_ctx d) = Some c1" "isp_ctx_algo_run L sync c1 = Some c2"
    using assms(1) c1 by (cases "isp_ctx_algo_run L sync c1") (simp_all add: isp_stats_process_def)
  obtain pos st c3 where c3: "focus_event c2 = (pos, st, c3)" by (metis prod_cases3)
  obtain leds c4 g where c4: "flash_event L c3 = Some (leds, c4)" "exp_gain_of c4 = Some g"
    using assms(1) c2 c3 by (auto simp: isp_stats_process_def bind_eq_Some_conv)
  show "exp_gain_of (ss_ctx d') = Some (exp_gain_save d')" "sensor_after (exp_gain_save d) [cmds] = exp_gain_save d'" "\<not> same_head d'"
    using assms c2 c3 c4 by (auto simp: isp_stats_process_def isp_sensor_set_exp_gain_def sensor_after_def split: if_splits)
qed


lemma live_start:
  "\<exists>c0. isp_ctx_algo_init live_libs (Some (32768, replicate 78400 0)) (zero_ctx () ()) = Some (0, c0) \<and>
     frame_ok 16 False (zero_cnts, 0) c0"
  using init_frame_ok[OF live_hyps(6), of "replicate 78400 0" "zero_ctx () ()" 16 32768]
  by (simp add: zero_sinfo zero_isp_sensor_info_def isp_load_sizes zero_mode)


end
