(* ===== verification/CText.thy ===== *)
theory CText
  imports Prelude
begin

text \<open>
  Decimal numbers in text, as \<open>printf\<close> writes them (\<open>%d\<close>, \<open>%u\<close>) and \<open>scanf\<close> and \<open>strtol\<close> read them: shared by the
  components that build file or device names and read numbers back out of names. A C string is the list of its
  characters before the terminator.
\<close>

section \<open>Printing\<close>

definition dec_digit :: "nat \<Rightarrow> char" where
  "dec_digit n = char_of (48 + n)"

fun dec_string :: "nat \<Rightarrow> string" where
  "dec_string n = (if n < 10 then [dec_digit n] else dec_string (n div 10) @ [dec_digit (n mod 10)])"

declare dec_string.simps [simp del]

definition fmt_d :: "int \<Rightarrow> string" where
  "fmt_d i = (if i < 0 then ''-'' @ dec_string (nat (- i)) else dec_string (nat i))"

definition fmt_u :: "u32 \<Rightarrow> string" where
  "fmt_u w = dec_string (unat w)"

section \<open>Reading\<close>

definition c_space :: "char \<Rightarrow> bool" where
  "c_space c \<longleftrightarrow> of_char c \<in> {32, 9, 10, 11, 12, 13 :: nat}"

definition c_digit :: "char \<Rightarrow> bool" where
  "c_digit c \<longleftrightarrow> 48 \<le> (of_char c :: nat) \<and> of_char c < (58 :: nat)"

definition digit_val :: "char \<Rightarrow> nat" where
  "digit_val c = of_char c - 48"

definition dec_value :: "string \<Rightarrow> nat" where
  "dec_value s = foldl (\<lambda>n c. 10 * n + digit_val c) 0 s"

text \<open>\<open>scan_d\<close> is the conversion \<open>%d\<close>: blanks are skipped, a sign may follow, and at least one digit has to.\<close>

definition scan_digits :: "string \<Rightarrow> nat option" where
  "scan_digits s = (case takeWhile c_digit s of [] \<Rightarrow> None | ds \<Rightarrow> Some (dec_value ds))"

definition scan_d :: "string \<Rightarrow> int option" where
  "scan_d s = (case dropWhile c_space s of
      [] \<Rightarrow> None
    | c # cs \<Rightarrow> if c = CHR ''-'' then map_option (\<lambda>n. - int n) (scan_digits cs)
                else if c = CHR ''+'' then map_option int (scan_digits cs)
                else map_option int (scan_digits (c # cs)))"

section \<open>What is printed is read back\<close>

lemma of_char_dec_digit: "n < 10 \<Longrightarrow> of_char (dec_digit n) = 48 + n"
  by (simp add: dec_digit_def)

lemma c_digit_dec_digit [simp]: "n < 10 \<Longrightarrow> c_digit (dec_digit n)"
  by (simp add: c_digit_def of_char_dec_digit)

lemma digit_val_dec_digit [simp]: "n < 10 \<Longrightarrow> digit_val (dec_digit n) = n"
  by (simp add: digit_val_def of_char_dec_digit)

lemma dec_value_snoc [simp]: "dec_value (s @ [c]) = 10 * dec_value s + digit_val c"
  by (simp add: dec_value_def)

lemma dec_string_digits: "\<forall>c \<in> set (dec_string n). c_digit c"
proof (induction n rule: dec_string.induct)
  case (1 n)
  show ?case by (subst dec_string.simps) (use 1 in auto)
qed

lemma dec_string_nonempty [simp]: "dec_string n \<noteq> []"
  by (subst dec_string.simps) simp

lemma dec_value_dec_string [simp]: "dec_value (dec_string n) = n"
proof (induction n rule: dec_string.induct)
  case (1 n)
  show ?case
  proof (cases "n < 10")
    case True
    then show ?thesis by (subst dec_string.simps) (simp add: dec_value_def)
  next
    case False
    then show ?thesis using 1 by (subst dec_string.simps) simp
  qed
qed

lemma dec_string_inject: "dec_string m = dec_string n \<longleftrightarrow> m = n"
  by (metis dec_value_dec_string)

lemma length_dec_string: "n < 10 ^ Suc k \<Longrightarrow> length (dec_string n) \<le> Suc k"
proof (induction k arbitrary: n)
  case 0
  then show ?case by (subst dec_string.simps) simp
next
  case (Suc k)
  then have "n div 10 < 10 ^ Suc k" by auto
  then show ?case using Suc.IH[of "n div 10"] by (subst dec_string.simps) auto
qed

lemma scan_digits_dec_string:
  assumes "rest = [] \<or> \<not> c_digit (hd rest)"
  shows "scan_digits (dec_string n @ rest) = Some n"
proof -
  have "takeWhile c_digit (dec_string n @ rest) = dec_string n @ takeWhile c_digit rest"
    using dec_string_digits[of n] by (simp add: takeWhile_append)
  also have "takeWhile c_digit rest = []" using assms by (cases rest) auto
  finally have "takeWhile c_digit (dec_string n @ rest) = dec_string n" by simp
  moreover obtain c cs where "dec_string n = c # cs" using dec_string_nonempty[of n] by (meson neq_Nil_conv)
  ultimately show ?thesis
    unfolding scan_digits_def by simp (metis dec_value_dec_string)
qed

lemma c_digit_not: "c_digit c \<Longrightarrow> \<not> c_space c \<and> c \<noteq> CHR ''-'' \<and> c \<noteq> CHR ''+''"
  by (auto simp: c_digit_def c_space_def)

lemma scan_d_fmt_d:
  assumes "rest = [] \<or> \<not> c_digit (hd rest)"
  shows "scan_d (fmt_d i @ rest) = Some i"
proof (cases "i < 0")
  case True
  then show ?thesis
    using scan_digits_dec_string[OF assms, of "nat (- i)"] by (simp add: scan_d_def fmt_d_def c_space_def)
next
  case False
  obtain c cs where s: "dec_string (nat i) = c # cs" using dec_string_nonempty by (meson neq_Nil_conv)
  then have "c_digit c" using dec_string_digits[of "nat i"] by simp
  then show ?thesis
    using False s c_digit_not[of c] scan_digits_dec_string[OF assms, of "nat i"] by (simp add: scan_d_def fmt_d_def)
qed

end
