(* ===== verification/SensorConfig.thy ===== *)
theory SensorConfig
  imports IspDevice IspMath CText
begin

text \<open>
  \<open>isp_cfg/isp_ini_parse.c\<close> as it is built (\<open>ISP_LIB_USE_INIPARSER\<close> 0, \<open>ISP_VERSION\<close> 522): the table of sensor
  configurations, the choice of an entry for a sensor, the correction of gains and lens shading tables from a calibration file
  (\<open>parser_sync_info\<close>) and the dump of tables (\<open>isp_save_tbl\<close>). The parameter structs behind the \<open>cfg\<close> pointers
  are data of \<open>SENSOR_H\<close>; they are an argument (\<open>tables\<close>). Files are maps from names to contents. \<open>None\<close> is undefined
  behaviour: an overflowing \<open>int\<close>, a division by zero, an access outside an array, a name that is longer than its buffer.
\<close>

section \<open>The sensor table\<close>

datatype isp_cfg_pt = imx317_default_ini_a100 | ar0238_default_ini_a100 | gc030a_mipi_isp_cfg | gc2385_mipi_isp_cfg
  | gc5025_mipi_isp_cfg | gc5035_mipi_isp_cfg | c2590_mipi_isp_cfg | sp5409_mipi_isp_cfg

record isp_cfg_array =
  ca_sensor_name :: string
  ca_isp_cfg_name :: string
  ca_width :: int
  ca_height :: int
  ca_fps :: int
  ca_wdr :: int
  ca_ir :: int
  ca_cfg :: isp_cfg_pt

definition cfg_arr :: "isp_cfg_array list" where
  "cfg_arr =
    [\<lparr>ca_sensor_name = ''imx317_mipi'', ca_isp_cfg_name = ''imx317_default_ini_a100'', ca_width = 1920, ca_height = 1080,
       ca_fps = 30, ca_wdr = 0, ca_ir = 0, ca_cfg = imx317_default_ini_a100\<rparr>,
     \<lparr>ca_sensor_name = ''ar0238'', ca_isp_cfg_name = ''ar0238_default_ini_a100'', ca_width = 1920, ca_height = 1080,
       ca_fps = 30, ca_wdr = 0, ca_ir = 0, ca_cfg = ar0238_default_ini_a100\<rparr>,
     \<lparr>ca_sensor_name = ''gc030a_mipi'', ca_isp_cfg_name = ''gc030a_mipi_isp_cfg'', ca_width = 640, ca_height = 480,
       ca_fps = 30, ca_wdr = 0, ca_ir = 0, ca_cfg = gc030a_mipi_isp_cfg\<rparr>,
     \<lparr>ca_sensor_name = ''gc2385_mipi'', ca_isp_cfg_name = ''gc2385_mipi_isp_cfg'', ca_width = 1600, ca_height = 1200,
       ca_fps = 30, ca_wdr = 0, ca_ir = 0, ca_cfg = gc2385_mipi_isp_cfg\<rparr>,
     \<lparr>ca_sensor_name = ''gc5025_mipi'', ca_isp_cfg_name = ''gc5025_mipi_isp_cfg'', ca_width = 2592, ca_height = 1944,
       ca_fps = 25, ca_wdr = 0, ca_ir = 0, ca_cfg = gc5025_mipi_isp_cfg\<rparr>,
     \<lparr>ca_sensor_name = ''gc5035_mipi'', ca_isp_cfg_name = ''gc5035_mipi_isp_cfg'', ca_width = 2592, ca_height = 1944,
       ca_fps = 25, ca_wdr = 0, ca_ir = 0, ca_cfg = gc5035_mipi_isp_cfg\<rparr>,
     \<lparr>ca_sensor_name = ''c2590_mipi'', ca_isp_cfg_name = ''c2590_mipi_isp_cfg'', ca_width = 1600, ca_height = 1200,
       ca_fps = 30, ca_wdr = 0, ca_ir = 0, ca_cfg = c2590_mipi_isp_cfg\<rparr>,
     \<lparr>ca_sensor_name = ''sp5409_mipi'', ca_isp_cfg_name = ''sp5409_mipi_isp_cfg'', ca_width = 2592, ca_height = 1944,
       ca_fps = 25, ca_wdr = 0, ca_ir = 0, ca_cfg = sp5409_mipi_isp_cfg\<rparr>]"

definition name_eq_n :: "string \<Rightarrow> string \<Rightarrow> nat \<Rightarrow> bool" where
  "name_eq_n a b n \<longleftrightarrow> take n a = take n b"

definition cfg_matches :: "string \<Rightarrow> int \<Rightarrow> int \<Rightarrow> int \<Rightarrow> int \<Rightarrow> isp_cfg_array \<Rightarrow> bool" where
  "cfg_matches sensor_name w h fps wdr e \<longleftrightarrow>
     name_eq_n sensor_name (ca_sensor_name e) 18 \<and> w = ca_width e \<and> h = ca_height e \<and> fps = ca_fps e \<and> wdr = ca_wdr e"

definition cfg_falls_back :: "string \<Rightarrow> isp_cfg_array \<Rightarrow> bool" where
  "cfg_falls_back sensor_name e \<longleftrightarrow> name_eq_n sensor_name (ca_sensor_name e) 18 \<and> 0 = ca_wdr e"

text \<open>The three loops of \<open>parser_ini_info\<close>: an exact match, else the sensor without WDR, else the last entry.\<close>

definition select_cfg :: "isp_cfg_array list \<Rightarrow> string \<Rightarrow> int \<Rightarrow> int \<Rightarrow> int \<Rightarrow> int \<Rightarrow> isp_cfg_array" where
  "select_cfg arr sensor_name w h fps wdr =
     (case find (cfg_matches sensor_name w h fps wdr) arr of
        Some e \<Rightarrow> e
      | None \<Rightarrow> (case find (cfg_falls_back sensor_name) arr of Some e \<Rightarrow> e | None \<Rightarrow> last arr))"

section \<open>Calibration\<close>

definition temp_array1 :: "int list" where
  "temp_array1 = [2800, 4000, 5000, 6500]"

definition temp_array2 :: "int list" where
  "temp_array2 = [2200, 2800, 4000, 5000, 5500, 6500]"

fun nearest_loop :: "int \<Rightarrow> (nat \<times> int) list \<Rightarrow> int \<Rightarrow> nat \<Rightarrow> nat option" where
  "nearest_loop temp [] min_dist index = Some index"
| "nearest_loop temp ((i, a) # as) min_dist index =
     Option.bind (s32 (a - temp)) (\<lambda>d. Option.bind (s32 \<bar>d\<bar>) (\<lambda>tmp_dist.
       if tmp_dist < min_dist then nearest_loop temp as tmp_dist i else nearest_loop temp as min_dist index))"

definition find_nearest_index :: "int \<Rightarrow> int \<Rightarrow> nat option" where
  "find_nearest_index md temp =
     (if md = 1 then nearest_loop temp (enumerate 0 temp_array1) (2 ^ 30) 0
      else if md = 2 then nearest_loop temp (enumerate 0 temp_array2) (2 ^ 30) 0
      else Some 0)"

definition lsc_at :: "u16 list \<Rightarrow> nat \<Rightarrow> nat \<Rightarrow> u16 option" where
  "lsc_at l t c = (if t < 12 \<and> c < 768 \<and> t * 768 + c < length l then Some (l ! (t * 768 + c)) else None)"

text \<open>\<open>sync_info[7+c] * lsc_tbl[t][c] / lsc_tbl[ref][c]\<close>, stored into an unsigned short.\<close>

definition lsc_scaled :: "u32 \<Rightarrow> u16 \<Rightarrow> u16 \<Rightarrow> u16 option" where
  "lsc_scaled s v r =
     Option.bind (s32 (sint s * uint v)) (\<lambda>p. if r = 0 then None else Some (word_of_int (p sdiv uint r)))"

text \<open>One entry: with a guard row the entry is left alone where that row is 0.\<close>

definition lsc_entry :: "nat option \<Rightarrow> nat \<Rightarrow> u32 list \<Rightarrow> nat \<times> nat \<Rightarrow> u16 list \<Rightarrow> u16 list option" where
  "lsc_entry guard ref sync_info tc l =
     (case tc of (t, c) \<Rightarrow>
       Option.bind (case guard of None \<Rightarrow> Some 1 | Some g \<Rightarrow> lsc_at l g c) (\<lambda>gv.
         if gv = 0 then Some l
         else Option.bind (lsc_at l t c) (\<lambda>v. Option.bind (lsc_at l ref c) (\<lambda>r.
           map_option (\<lambda>x. l[t * 768 + c := x]) (lsc_scaled (sync_info ! (7 + c)) v r)))))"

fun lsc_loop :: "(nat \<times> nat \<Rightarrow> u16 list \<Rightarrow> u16 list option) \<Rightarrow> (nat \<times> nat) list \<Rightarrow> u16 list \<Rightarrow> u16 list option" where
  "lsc_loop f [] l = Some l"
| "lsc_loop f (tc # tcs) l = Option.bind (f tc l) (lsc_loop f tcs)"

definition lsc_cells :: "nat \<Rightarrow> nat \<Rightarrow> nat \<Rightarrow> (nat \<times> nat) list" where
  "lsc_cells a b skip = List.product (filter (\<lambda>t. t \<noteq> skip) [a..<b]) [0..<768]"

definition lsc_store :: "nat \<Rightarrow> nat \<Rightarrow> u32 list \<Rightarrow> nat \<times> nat \<Rightarrow> u16 list \<Rightarrow> u16 list option" where
  "lsc_store ind ind2 sync_info tc l =
     (case tc of (_, c) \<Rightarrow>
        if lsc_at l ind c = None \<or> lsc_at l ind2 c = None then None
        else Some (l[ind2 * 768 + c := ucast (sync_info ! (7 + c)), ind * 768 + c := ucast (sync_info ! (7 + c))]))"

definition sync_lsc :: "u32 list \<Rightarrow> int \<Rightarrow> nat \<Rightarrow> u16 list \<Rightarrow> u16 list option" where
  "sync_lsc sync_info md ind l =
     (if md = 1 then
        Option.bind (lsc_loop (lsc_entry None ind sync_info) (lsc_cells 0 4 ind) l) (\<lambda>l1.
        Option.bind (lsc_loop (lsc_entry None (ind + 4) sync_info) (lsc_cells 4 8 (ind + 4)) l1)
          (lsc_loop (lsc_store ind (ind + 4) sync_info) (List.product [ind] [0..<768])))
      else if md = 2 then
        Option.bind (lsc_loop (lsc_entry (Some ind) ind sync_info) (lsc_cells 0 6 ind) l) (\<lambda>l1.
        Option.bind (lsc_loop (lsc_entry (Some (ind + 7)) (ind + 6) sync_info) (lsc_cells 6 12 (ind + 6)) l1)
          (lsc_loop (lsc_store ind (ind + 6) sync_info) (List.product [ind] [0..<768])))
      else Some l)"

definition put_tunning :: "(isp_tunning_param \<Rightarrow> isp_tunning_param) \<Rightarrow> isp_param_config \<Rightarrow> isp_param_config" where
  "put_tunning f p = p\<lparr>isp_tunning_settings := f (isp_tunning_settings p)\<rparr>"

definition sync_path :: "string \<Rightarrow> int \<Rightarrow> string" where
  "sync_path isp_cfg_name isp_id = ''/mnt/extsd/'' @ isp_cfg_name @ ''_'' @ fmt_d isp_id @ ''.bin''"

text \<open>
  The array \<open>sync_info\<close> is on the stack; \<open>stack\<close> is what it holds before the file is read over it (the result of
  \<open>fread\<close> is not looked at).
\<close>

definition parser_sync_info ::
  "(string \<Rightarrow> u32 list option) \<Rightarrow> u32 list \<Rightarrow> string \<Rightarrow> int \<Rightarrow> isp_param_config \<Rightarrow> (int \<times> isp_param_config) option" where
  "parser_sync_info files stack isp_cfg_name isp_id p =
     (if length (sync_path isp_cfg_name isp_id) \<ge> 50 then None
      else case files (sync_path isp_cfg_name isp_id) of
        None \<Rightarrow> Some (- 1, p)
      | Some content \<Rightarrow>
          (let sync_info = overlay stack (take 775 content);
               enable = sync_info ! 1;
               p1 = (if enable = 2 then p else put_tunning (bayer_gain_update (\<lambda>_. slice sync_info 2 4)) p)
           in if enable = 0 then Some (0, p)
              else if enable = 1 then Some (0, p1)
              else Option.bind (find_nearest_index (sint (ff_mod (isp_tunning_settings p1))) (sint (sync_info ! 6))) (\<lambda>lsc_ind.
                   map_option (\<lambda>l. (0, put_tunning (lsc_tbl_update (\<lambda>_. l)) p1))
                     (sync_lsc sync_info (sint (ff_mod (isp_tunning_settings p1))) lsc_ind
                        (lsc_tbl (isp_tunning_settings p1))))))"

definition parser_ini_info ::
  "(isp_cfg_pt \<Rightarrow> isp_param_config) \<Rightarrow> (string \<Rightarrow> u32 list option) \<Rightarrow> u32 list \<Rightarrow> string \<Rightarrow> int \<Rightarrow> int \<Rightarrow> int \<Rightarrow> int \<Rightarrow> int \<Rightarrow>
     int \<Rightarrow> int \<Rightarrow> isp_param_config \<Rightarrow> (int \<times> isp_param_config) option" where
  "parser_ini_info tables files stack sensor_name w h fps wdr ir sync_mode isp_id param =
     (let e = select_cfg cfg_arr sensor_name w h fps wdr;
          p = param\<lparr>isp_test_settings := isp_test_settings (tables (ca_cfg e)),
                isp_3a_settings := isp_3a_settings (tables (ca_cfg e)),
                isp_iso_settings := isp_iso_settings (tables (ca_cfg e)),
                isp_tunning_settings := isp_tunning_settings (tables (ca_cfg e))\<rparr>
      in if sync_mode = 0 then Some (0, p)
         else map_option (\<lambda>(_, p'). (0, p')) (parser_sync_info files stack (ca_isp_cfg_name e) isp_id p))"

section \<open>Saving tables\<close>

definition save_file :: "string \<Rightarrow> byte list \<Rightarrow> bool \<Rightarrow> (string \<rightharpoonup> byte list) \<Rightarrow> (string \<rightharpoonup> byte list) option" where
  "save_file name content open_ok fs = (if open_ok then Some (fs(name \<mapsto> content)) else None)"

text \<open>
  Six times \<open>fopen(..., "wb")\<close>, which empties the file; the last three of them write nothing. A failed open
  returns -1 and leaves the remaining files alone.
\<close>

fun save_tables :: "bool list \<Rightarrow> (string \<times> byte list) list \<Rightarrow> (string \<rightharpoonup> byte list) \<Rightarrow> int \<times> (string \<rightharpoonup> byte list)" where
  "save_tables opens [] fs = (0, fs)"
| "save_tables opens ((name, content) # rest) fs =
     (case save_file name content (opens \<noteq> [] \<and> hd opens) fs of
        None \<Rightarrow> (- 1, fs)
      | Some fs' \<Rightarrow> save_tables (tl opens) rest fs')"

definition tbl_files :: "isp_param_config \<Rightarrow> string \<Rightarrow> (string \<times> byte list) list" where
  "tbl_files p tbl_patch =
     (let t = isp_tunning_settings p in
      [(tbl_patch @ ''/gamma_tbl.bin'', take (5 * 1024 * 3 * 2) (enc16s (gamma_tbl_ini t))),
       (tbl_patch @ ''/lsc_tbl.bin'', take (12 * 768 * 2) (enc16s (lsc_tbl t))),
       (tbl_patch @ ''/cem_tbl.bin'', take 5888 (isp_cem_table t)),
       (tbl_patch @ ''/cem_tbl.bin'', []),
       (tbl_patch @ ''/pltm_tbl.bin'', []),
       (tbl_patch @ ''/wdr_tbl.bin'', [])])"

definition isp_save_tbl ::
  "bool list \<Rightarrow> isp_param_config \<Rightarrow> string \<Rightarrow> (string \<rightharpoonup> byte list) \<Rightarrow> (int \<times> (string \<rightharpoonup> byte list)) option" where
  "isp_save_tbl opens p tbl_patch fs =
     (if length (tbl_patch @ ''/gamma_tbl.bin'') \<ge> 50 then None else Some (save_tables opens (tbl_files p tbl_patch) fs))"


section \<open>The choice of a configuration\<close>

lemma find_SomeD: "find P xs = Some x \<Longrightarrow> x \<in> set xs \<and> P x"
  by (induction xs) (auto split: if_splits)

lemma select_cfg_cases:
  assumes "arr \<noteq> []"
  obtains (exact) "select_cfg arr n w h fps wdr \<in> set arr" "cfg_matches n w h fps wdr (select_cfg arr n w h fps wdr)"
  | (fallback) "\<forall>e \<in> set arr. \<not> cfg_matches n w h fps wdr e" "select_cfg arr n w h fps wdr \<in> set arr"
      "cfg_falls_back n (select_cfg arr n w h fps wdr)"
  | (last) "\<forall>e \<in> set arr. \<not> cfg_matches n w h fps wdr e" "\<forall>e \<in> set arr. \<not> cfg_falls_back n e"
      "select_cfg arr n w h fps wdr = last arr"
proof (cases "find (cfg_matches n w h fps wdr) arr")
  case (Some e)
  with that(1) show thesis using find_SomeD[OF Some] by (simp add: select_cfg_def)
next
  case None
  show thesis
  proof (cases "find (cfg_falls_back n) arr")
    case (Some e)
    with that(2) show thesis using None find_SomeD[OF Some] by (simp add: select_cfg_def find_None_iff)
  next
    case None2: None
    with that(3) show thesis using None by (simp add: select_cfg_def find_None_iff)
  qed
qed

lemma cfg_arr_nonempty [simp]: "cfg_arr \<noteq> []"
  by (simp add: cfg_arr_def)

lemma cfg_arr_entries: "e \<in> set cfg_arr \<Longrightarrow> ca_wdr e = 0 \<and> length (ca_isp_cfg_name e) \<le> 23 \<and> length (ca_sensor_name e) \<le> 11"
  by (auto simp: cfg_arr_def)

text \<open>
  The configuration of a sensor: it is an entry of the table; an entry for the very sensor, size, rate and WDR mode wins; without
  one an entry for the sensor is taken, whatever its size; an unknown sensor runs with the last entry. No entry of this build is for WDR, so a sensor
  in WDR mode runs with parameters for linear mode.
\<close>

theorem sensor_config_choice:
  "let e = select_cfg cfg_arr n w h fps wdr in
    e \<in> set cfg_arr \<and> ca_wdr e = 0 \<and>
    ((\<exists>x \<in> set cfg_arr. cfg_matches n w h fps wdr x) \<longrightarrow> cfg_matches n w h fps wdr e) \<and>
    ((\<exists>x \<in> set cfg_arr. name_eq_n n (ca_sensor_name x) 18) \<longrightarrow> name_eq_n n (ca_sensor_name e) 18) \<and>
    (\<not> (\<exists>x \<in> set cfg_arr. name_eq_n n (ca_sensor_name x) 18) \<longrightarrow> ca_cfg e = sp5409_mipi_isp_cfg)"
proof -
  have f: "cfg_falls_back n x \<longleftrightarrow> name_eq_n n (ca_sensor_name x) 18" if "x \<in> set cfg_arr" for x
    using cfg_arr_entries[OF that] by (simp add: cfg_falls_back_def)
  have l: "last cfg_arr \<in> set cfg_arr" "ca_cfg (last cfg_arr) = sp5409_mipi_isp_cfg"
    by (simp, simp add: cfg_arr_def)
  show ?thesis
    by (rule select_cfg_cases[OF cfg_arr_nonempty, of n w h fps wdr])
      (use f l cfg_arr_entries in \<open>auto simp: Let_def cfg_matches_def\<close>)
qed

theorem sensor_config_choice_witness:
  "ca_cfg (select_cfg cfg_arr ''ov5640'' 640 480 30 0) = sp5409_mipi_isp_cfg \<and>
   name_eq_n ''gc5025_mipi'' (ca_sensor_name (select_cfg cfg_arr ''gc5025_mipi'' 1280 720 60 1)) 18"
proof -
  have "\<not> (\<exists>x \<in> set cfg_arr. name_eq_n ''ov5640'' (ca_sensor_name x) 18)"
    "\<exists>x \<in> set cfg_arr. name_eq_n ''gc5025_mipi'' (ca_sensor_name x) 18"
    by (simp_all add: cfg_arr_def name_eq_n_def)
  then show ?thesis
    using sensor_config_choice[of "''ov5640''" 640 480 30 0] sensor_config_choice[of "''gc5025_mipi''" 1280 720 60 1]
    unfolding Let_def by blast
qed

text \<open>The names of the calibration files fit their buffer for every entry and every ISP.\<close>

lemma sync_path_fits:
  assumes "e \<in> set cfg_arr" "0 \<le> isp_id" "isp_id < 10 ^ 9"
  shows "length (sync_path (ca_isp_cfg_name e) isp_id) < 50"
proof -
  have "length (dec_string (nat isp_id)) \<le> Suc 8" using assms(2,3) by (intro length_dec_string) auto
  then show ?thesis using cfg_arr_entries[OF assms(1)] assms(2) by (simp add: sync_path_def fmt_d_def)
qed

section \<open>The nearest colour temperature\<close>

lemma nearest_loop_min:
  assumes "\<forall>(i, a) \<in> set as. \<bar>a - temp\<bar> < 2 ^ 31"
  shows "\<exists>j m. nearest_loop temp as m0 j0 = Some j \<and> m \<le> m0 \<and> (\<forall>(i, a) \<in> set as. m \<le> \<bar>a - temp\<bar>) \<and>
    (m = m0 \<and> j = j0 \<or> m < m0 \<and> (\<exists>a. (j, a) \<in> set as \<and> \<bar>a - temp\<bar> = m))"
  using assms
proof (induction as arbitrary: m0 j0)
  case (Cons ia as)
  obtain i a where ia: "ia = (i, a)" by force
  have d: "s32 (a - temp) = Some (a - temp)" "s32 \<bar>a - temp\<bar> = Some \<bar>a - temp\<bar>"
    using Cons.prems ia by (auto simp: s32_def)
  show ?case
  proof (cases "\<bar>a - temp\<bar> < m0")
    case True
    obtain j m where "nearest_loop temp as \<bar>a - temp\<bar> i = Some j" "m \<le> \<bar>a - temp\<bar>" "\<forall>(i, a) \<in> set as. m \<le> \<bar>a - temp\<bar>"
      "m = \<bar>a - temp\<bar> \<and> j = i \<or> m < \<bar>a - temp\<bar> \<and> (\<exists>a. (j, a) \<in> set as \<and> \<bar>a - temp\<bar> = m)"
      using Cons.IH[of "\<bar>a - temp\<bar>" i] Cons.prems by auto
    then show ?thesis
      using True ia by (intro exI[of _ j] exI[of _ m]) (auto simp: d)
  next
    case False
    obtain j m where "nearest_loop temp as m0 j0 = Some j" "m \<le> m0" "\<forall>(i, a) \<in> set as. m \<le> \<bar>a - temp\<bar>"
      "m = m0 \<and> j = j0 \<or> m < m0 \<and> (\<exists>a. (j, a) \<in> set as \<and> \<bar>a - temp\<bar> = m)"
      using Cons.IH[of m0 j0] Cons.prems by auto
    then show ?thesis using False ia by (intro exI[of _ j] exI[of _ m]) (auto simp: d)
  qed
qed auto

lemma nearest_index:
  assumes "\<forall>a \<in> set as. \<bar>a - temp\<bar> < 2 ^ 30" "as \<noteq> []"
  shows "\<exists>j < length as. nearest_loop temp (enumerate 0 as) (2 ^ 30) 0 = Some j \<and>
    (\<forall>a \<in> set as. \<bar>as ! j - temp\<bar> \<le> \<bar>a - temp\<bar>)"
proof -
  have "\<forall>(i, a) \<in> set (enumerate 0 as). \<bar>a - temp\<bar> < 2 ^ 31"
    using assms(1) by (auto simp: enumerate_eq_zip dest!: set_zip_rightD)
  from nearest_loop_min[OF this, of "2 ^ 30" 0] obtain j m where
    j: "nearest_loop temp (enumerate 0 as) (2 ^ 30) 0 = Some j" "\<forall>(i, a) \<in> set (enumerate 0 as). m \<le> \<bar>a - temp\<bar>"
      "m = 2 ^ 30 \<and> j = 0 \<or> m < 2 ^ 30 \<and> (\<exists>a. (j, a) \<in> set (enumerate 0 as) \<and> \<bar>a - temp\<bar> = m)" by blast
  have all: "\<forall>a \<in> set as. m \<le> \<bar>a - temp\<bar>"
    using j(2) by (auto simp: in_set_conv_nth enumerate_eq_zip set_zip) (metis nth_upt add_0)
  obtain a0 where "a0 \<in> set as" using assms(2) by (cases as) auto
  with all assms(1) j(3) obtain a where a: "(j, a) \<in> set (enumerate 0 as)" "\<bar>a - temp\<bar> = m" by fastforce
  then have "j < length as" "a = as ! j" by (auto simp: enumerate_eq_zip set_zip)
  then show ?thesis using a all j(1) by auto
qed

text \<open>
  The table that is corrected directly is one for the colour temperature nearest to the one of the calibration: for temperatures that an \<open>int\<close> can
  be compared with, the index is inside the array and no other entry is nearer.
\<close>

theorem nearest_temperature:
  assumes "md = 1 \<or> md = 2" "\<bar>temp\<bar> < 2 ^ 29"
  shows "\<exists>j. find_nearest_index md temp = Some j \<and> j < (if md = 1 then 4 else 6) \<and>
    (\<forall>a \<in> set (if md = 1 then temp_array1 else temp_array2).
       \<bar>(if md = 1 then temp_array1 else temp_array2) ! j - temp\<bar> \<le> \<bar>a - temp\<bar>)"
proof -
  let ?as = "if md = 1 then temp_array1 else temp_array2"
  have "\<forall>a \<in> set ?as. \<bar>a - temp\<bar> < 2 ^ 30" "?as \<noteq> []" "length ?as = (if md = 1 then 4 else 6)"
    using assms(2) by (auto simp: temp_array1_def temp_array2_def)
  with nearest_index[of ?as temp] show ?thesis
    using assms(1) by (auto simp: find_nearest_index_def)
qed

theorem nearest_temperature_witness:
  "\<exists>j. find_nearest_index 2 5200 = Some j \<and> j < 6 \<and> \<bar>temp_array2 ! j - 5200\<bar> \<le> 200"
  using nearest_temperature[of 2 5200] by (auto simp: temp_array2_def)


section \<open>The correction of the shading tables\<close>

definition lsc_value :: "u32 \<Rightarrow> u16 \<Rightarrow> u16 \<Rightarrow> u16" where
  "lsc_value s v r = word_of_int ((sint s * uint v) sdiv uint r)"

definition prod_ok :: "u32 \<Rightarrow> u16 \<Rightarrow> bool" where
  "prod_ok s v \<longleftrightarrow> s32 (sint s * uint v) \<noteq> None"

lemma cell_inject:
  assumes "c < 768" "c' < (768 :: nat)"
  shows "t * 768 + c = t' * 768 + c' \<longleftrightarrow> t = t' \<and> c = c'"
proof
  assume "t * 768 + c = t' * 768 + c'"
  then have "(t * 768 + c) div 768 = (t' * 768 + c') div 768" "(t * 768 + c) mod 768 = (t' * 768 + c') mod 768" by simp_all
  then show "t = t' \<and> c = c'" using assms by simp
qed auto

lemma lsc_at_cell: "length l = 9216 \<Longrightarrow> t < 12 \<Longrightarrow> c < 768 \<Longrightarrow> lsc_at l t c = Some (l ! (t * 768 + c))"
  by (simp add: lsc_at_def)

lemma set_lsc_cells [simp]: "(t, c) \<in> set (lsc_cells a b skip) \<longleftrightarrow> a \<le> t \<and> t < b \<and> t \<noteq> skip \<and> c < 768"
  by (auto simp: lsc_cells_def)

lemma distinct_lsc_cells [simp]: "distinct (lsc_cells a b skip)"
  by (simp add: lsc_cells_def distinct_product)

lemma lsc_entry_step:
  assumes "length l = 9216" "t < 12" "c < 768" "ref < 12" "guard = None \<and> l ! (ref * 768 + c) \<noteq> 0 \<or> guard = Some ref"
    and "l ! (ref * 768 + c) \<noteq> 0 \<Longrightarrow> prod_ok (sync ! (7 + c)) (l ! (t * 768 + c))"
  shows "lsc_entry guard ref sync (t, c) l = Some (if l ! (ref * 768 + c) = 0 then l
    else l[t * 768 + c := lsc_value (sync ! (7 + c)) (l ! (t * 768 + c)) (l ! (ref * 768 + c))])"
  using assms(5,6) lsc_at_cell[OF assms(1-3)] lsc_at_cell[OF assms(1,4,3)]
  by (auto simp: lsc_entry_def lsc_scaled_def lsc_value_def prod_ok_def s32_def split: if_splits)

text \<open>A loop over distinct entries outside the reference row scales each of them by the original contents.\<close>

lemma lsc_loop_scales:
  assumes "distinct tcs" "\<forall>(t, c) \<in> set tcs. t < 12 \<and> c < 768 \<and> t \<noteq> ref" "ref < 12" "length l = 9216"
    and "guard = None \<and> (\<forall>c < 768. l ! (ref * 768 + c) \<noteq> 0) \<or> guard = Some ref"
    and "\<forall>(t, c) \<in> set tcs. l ! (ref * 768 + c) \<noteq> 0 \<longrightarrow> prod_ok (sync ! (7 + c)) (l ! (t * 768 + c))"
  shows "\<exists>l'. lsc_loop (lsc_entry guard ref sync) tcs l = Some l' \<and> length l' = 9216 \<and>
    (\<forall>t < 12. \<forall>c < 768. l' ! (t * 768 + c) =
       (if (t, c) \<in> set tcs \<and> l ! (ref * 768 + c) \<noteq> 0
        then lsc_value (sync ! (7 + c)) (l ! (t * 768 + c)) (l ! (ref * 768 + c)) else l ! (t * 768 + c)))"
  using assms
proof (induction tcs arbitrary: l)
  case (Cons tc tcs)
  obtain t c where tc: "tc = (t, c)" by force
  have t: "t < 12" "c < 768" "t \<noteq> ref" "(t, c) \<notin> set tcs" using Cons.prems(1,2) tc by auto
  define l1 where "l1 = (if l ! (ref * 768 + c) = 0 then l
    else l[t * 768 + c := lsc_value (sync ! (7 + c)) (l ! (t * 768 + c)) (l ! (ref * 768 + c))])"
  have step: "lsc_entry guard ref sync (t, c) l = Some l1"
    unfolding l1_def using Cons.prems(3-6) t tc by (intro lsc_entry_step) auto
  have l1: "length l1 = 9216" "\<And>t' c'. t' < 12 \<Longrightarrow> c' < 768 \<Longrightarrow> (t', c') \<noteq> (t, c) \<Longrightarrow> l1 ! (t' * 768 + c') = l ! (t' * 768 + c')"
    "l1 ! (t * 768 + c) = (if l ! (ref * 768 + c) = 0 then l ! (t * 768 + c)
      else lsc_value (sync ! (7 + c)) (l ! (t * 768 + c)) (l ! (ref * 768 + c)))"
    using Cons.prems(4) t(1,2) cell_inject by (auto simp: l1_def nth_list_update)
  have ref: "l1 ! (ref * 768 + c') = l ! (ref * 768 + c')" if "c' < 768" for c'
    using l1(2)[OF Cons.prems(3) that] t(3) by auto
  have "\<exists>l'. lsc_loop (lsc_entry guard ref sync) tcs l1 = Some l' \<and> length l' = 9216 \<and>
    (\<forall>t < 12. \<forall>c < 768. l' ! (t * 768 + c) =
       (if (t, c) \<in> set tcs \<and> l1 ! (ref * 768 + c) \<noteq> 0
        then lsc_value (sync ! (7 + c)) (l1 ! (t * 768 + c)) (l1 ! (ref * 768 + c)) else l1 ! (t * 768 + c)))"
  proof (rule Cons.IH)
    show "\<forall>(t, c) \<in> set tcs. l1 ! (ref * 768 + c) \<noteq> 0 \<longrightarrow> prod_ok (sync ! (7 + c)) (l1 ! (t * 768 + c))"
    proof clarify
      fix t' c' assume tc': "(t', c') \<in> set tcs" "l1 ! (ref * 768 + c') \<noteq> 0"
      then have r: "t' < 12" "c' < 768" "(t', c') \<noteq> (t, c)" using Cons.prems(2) t(4) by auto
      have "case (t', c') of (t, c) \<Rightarrow> l ! (ref * 768 + c) \<noteq> 0 \<longrightarrow> prod_ok (sync ! (7 + c)) (l ! (t * 768 + c))"
        using tc'(1) by (intro bspec[OF Cons.prems(6)]) simp
      then show "prod_ok (sync ! (7 + c')) (l1 ! (t' * 768 + c'))"
        using tc'(2) unfolding l1(2)[OF r] ref[OF r(2)] by simp
    qed
  qed (use Cons.prems l1(1) ref in auto)
  then obtain l' where l': "lsc_loop (lsc_entry guard ref sync) tcs l1 = Some l'" "length l' = 9216"
    "\<And>t c. t < 12 \<Longrightarrow> c < 768 \<Longrightarrow> l' ! (t * 768 + c) =
       (if (t, c) \<in> set tcs \<and> l1 ! (ref * 768 + c) \<noteq> 0
        then lsc_value (sync ! (7 + c)) (l1 ! (t * 768 + c)) (l1 ! (ref * 768 + c)) else l1 ! (t * 768 + c))"
    by blast
  have "l' ! (t' * 768 + c') = (if (t', c') \<in> set (tc # tcs) \<and> l ! (ref * 768 + c') \<noteq> 0
        then lsc_value (sync ! (7 + c')) (l ! (t' * 768 + c')) (l ! (ref * 768 + c')) else l ! (t' * 768 + c'))"
    if "t' < 12" "c' < 768" for t' c'
    using l'(3)[OF that] l1(2)[OF that] l1(3) ref[OF that(2)] t(4) tc by (cases "(t', c') = (t, c)") auto
  then show ?case using step l' tc by auto
qed auto

lemma lsc_store_loop:
  assumes "distinct cs" "\<forall>c \<in> set cs. c < 768" "ind < 12" "ind2 < 12" "length l = 9216"
  shows "\<exists>l'. lsc_loop (lsc_store ind ind2 sync) (List.product [ind] cs) l = Some l' \<and> length l' = 9216 \<and>
    (\<forall>t < 12. \<forall>c < 768. l' ! (t * 768 + c) =
       (if (t = ind \<or> t = ind2) \<and> c \<in> set cs then ucast (sync ! (7 + c)) else l ! (t * 768 + c)))"
  using assms
proof (induction cs arbitrary: l)
  case (Cons c cs)
  define l1 where "l1 = l[ind2 * 768 + c := ucast (sync ! (7 + c)), ind * 768 + c := ucast (sync ! (7 + c))]"
  have c: "c < 768" "c \<notin> set cs" "length l1 = 9216" using Cons.prems by (auto simp: l1_def)
  have step: "lsc_store ind ind2 sync (ind, c) l = Some l1"
    using lsc_at_cell[OF Cons.prems(5,3) c(1)] lsc_at_cell[OF Cons.prems(5,4) c(1)] by (simp add: lsc_store_def l1_def)
  have pos: "ind * 768 + c < 9216" "ind2 * 768 + c < 9216" using Cons.prems(3,4) c(1) by simp_all
  have l1: "l1 ! (t * 768 + c') = (if (t = ind \<or> t = ind2) \<and> c' = c then ucast (sync ! (7 + c')) else l ! (t * 768 + c'))"
    if "t < 12" "c' < 768" for t c'
  proof -
    have eq: "ind * 768 + c = t * 768 + c' \<longleftrightarrow> ind = t \<and> c = c'" "ind2 * 768 + c = t * 768 + c' \<longleftrightarrow> ind2 = t \<and> c = c'"
      using cell_inject[OF c(1) that(2)] by blast+
    show ?thesis
      unfolding l1_def by (simp only: nth_list_update length_list_update Cons.prems(5) pos eq if_True simp_thms) auto
  qed
  obtain l' where "lsc_loop (lsc_store ind ind2 sync) (List.product [ind] cs) l1 = Some l'" "length l' = 9216"
    "\<And>t c. t < 12 \<Longrightarrow> c < 768 \<Longrightarrow> l' ! (t * 768 + c) =
       (if (t = ind \<or> t = ind2) \<and> c \<in> set cs then ucast (sync ! (7 + c)) else l1 ! (t * 768 + c))"
    using Cons.IH[of l1] Cons.prems c(3) by auto
  then show ?case using step l1 by auto
qed auto


text \<open>The table corrected in mode 1, seen entry by entry.\<close>

lemma sync_lsc_mode1:
  assumes "length l = 9216" "ind < 4"
    and "\<forall>c < 768. l ! (ind * 768 + c) \<noteq> 0 \<and> l ! ((ind + 4) * 768 + c) \<noteq> 0"
    and "\<forall>t < 8. \<forall>c < 768. prod_ok (sync ! (7 + c)) (l ! (t * 768 + c))"
  shows "\<exists>l'. sync_lsc sync 1 ind l = Some l' \<and> length l' = 9216 \<and>
    (\<forall>t < 12. \<forall>c < 768. l' ! (t * 768 + c) =
       (if t = ind \<or> t = ind + 4 then ucast (sync ! (7 + c))
        else if t < 4 then lsc_value (sync ! (7 + c)) (l ! (t * 768 + c)) (l ! (ind * 768 + c))
        else if t < 8 then lsc_value (sync ! (7 + c)) (l ! (t * 768 + c)) (l ! ((ind + 4) * 768 + c))
        else l ! (t * 768 + c)))"
proof -
  obtain l1 where l1: "lsc_loop (lsc_entry None ind sync) (lsc_cells 0 4 ind) l = Some l1" "length l1 = 9216"
    "\<And>t c. t < 12 \<Longrightarrow> c < 768 \<Longrightarrow> l1 ! (t * 768 + c) = (if t < 4 \<and> t \<noteq> ind
       then lsc_value (sync ! (7 + c)) (l ! (t * 768 + c)) (l ! (ind * 768 + c)) else l ! (t * 768 + c))"
  proof -
    have "\<exists>l1. lsc_loop (lsc_entry None ind sync) (lsc_cells 0 4 ind) l = Some l1 \<and> length l1 = 9216 \<and>
      (\<forall>t < 12. \<forall>c < 768. l1 ! (t * 768 + c) = (if (t, c) \<in> set (lsc_cells 0 4 ind) \<and> l ! (ind * 768 + c) \<noteq> 0
        then lsc_value (sync ! (7 + c)) (l ! (t * 768 + c)) (l ! (ind * 768 + c)) else l ! (t * 768 + c)))"
      using assms by (intro lsc_loop_scales) auto
    then show ?thesis using that assms(3) by auto
  qed
  have high: "l1 ! (t * 768 + c) = l ! (t * 768 + c)" if "4 \<le> t" "t < 12" "c < 768" for t c
    using l1(3)[OF that(2,3)] that(1) by simp
  have r4: "\<forall>c < 768. l1 ! ((ind + 4) * 768 + c) \<noteq> 0" using high[of "ind + 4"] assms(2,3) by simp
  have "\<exists>l2. lsc_loop (lsc_entry None (ind + 4) sync) (lsc_cells 4 8 (ind + 4)) l1 = Some l2 \<and> length l2 = 9216 \<and>
    (\<forall>t < 12. \<forall>c < 768. l2 ! (t * 768 + c) =
       (if (t, c) \<in> set (lsc_cells 4 8 (ind + 4)) \<and> l1 ! ((ind + 4) * 768 + c) \<noteq> 0
        then lsc_value (sync ! (7 + c)) (l1 ! (t * 768 + c)) (l1 ! ((ind + 4) * 768 + c)) else l1 ! (t * 768 + c)))"
    using assms high r4 by (intro lsc_loop_scales) (auto simp: l1(2))
  then obtain l2 where l2': "lsc_loop (lsc_entry None (ind + 4) sync) (lsc_cells 4 8 (ind + 4)) l1 = Some l2" "length l2 = 9216"
    "\<And>t c. t < 12 \<Longrightarrow> c < 768 \<Longrightarrow> l2 ! (t * 768 + c) =
       (if (t, c) \<in> set (lsc_cells 4 8 (ind + 4)) \<and> l1 ! ((ind + 4) * 768 + c) \<noteq> 0
        then lsc_value (sync ! (7 + c)) (l1 ! (t * 768 + c)) (l1 ! ((ind + 4) * 768 + c)) else l1 ! (t * 768 + c))"
    by blast
  have l2: "l2 ! (t * 768 + c) = (if 4 \<le> t \<and> t < 8 \<and> t \<noteq> ind + 4
       then lsc_value (sync ! (7 + c)) (l ! (t * 768 + c)) (l ! ((ind + 4) * 768 + c)) else l1 ! (t * 768 + c))"
    if "t < 12" "c < 768" for t c
    using l2'(3)[OF that] high[of t c] high[of "ind + 4" c] r4 assms(2) that by auto
  obtain l3 where l3: "lsc_loop (lsc_store ind (ind + 4) sync) (List.product [ind] [0..<768]) l2 = Some l3" "length l3 = 9216"
    "\<And>t c. t < 12 \<Longrightarrow> c < 768 \<Longrightarrow> l3 ! (t * 768 + c) =
       (if t = ind \<or> t = ind + 4 then ucast (sync ! (7 + c)) else l2 ! (t * 768 + c))"
    using lsc_store_loop[of "[0..<768]" ind "ind + 4" l2 sync] assms(2) l2'(2) by auto
  have "sync_lsc sync 1 ind l = Some l3" using l1(1) l2'(1) l3(1) by (simp add: sync_lsc_def)
  moreover have "l3 ! (t * 768 + c) = (if t = ind \<or> t = ind + 4 then ucast (sync ! (7 + c))
        else if t < 4 then lsc_value (sync ! (7 + c)) (l ! (t * 768 + c)) (l ! (ind * 768 + c))
        else if t < 8 then lsc_value (sync ! (7 + c)) (l ! (t * 768 + c)) (l ! ((ind + 4) * 768 + c))
        else l ! (t * 768 + c))" if "t < 12" "c < 768" for t c
    unfolding l3(3)[OF that] l2[OF that] l1(3)[OF that] by simp
  ultimately show ?thesis using l3(2) by blast
qed



definition demo_params :: isp_param_config where
  "demo_params = put_tunning (\<lambda>t. t\<lparr>ff_mod := 1, lsc_tbl := replicate 9216 1024\<rparr>) zero_params"

definition demo_sync :: "u32 list" where
  "demo_sync = [1, 3, 256, 256, 256, 256, 4000] @ replicate 768 2048"

lemma demo_sync_nth [simp]: "c < 768 \<Longrightarrow> demo_sync ! (7 + c) = 2048"
  by (simp add: demo_sync_def nth_append)



section \<open>Where the correction is undefined\<close>

lemma lsc_loop_append: "lsc_loop f (xs @ ys) l = Option.bind (lsc_loop f xs l) (lsc_loop f ys)"
proof (induction xs arbitrary: l)
  case (Cons x xs)
  show ?case by (cases "f x l") (simp_all add: Cons.IH)
qed simp

lemma lsc_entry_frame:
  assumes "lsc_entry guard ref sync (t, c) l = Some l'"
  shows "length l' = length l" "i \<noteq> t * 768 + c \<Longrightarrow> l' ! i = l ! i"
  using assms by (auto simp: lsc_entry_def bind_eq_Some_conv split: if_splits)

lemma lsc_loop_frame:
  assumes "lsc_loop (lsc_entry guard ref sync) tcs l = Some l'"
  shows "length l' = length l \<and> ((\<forall>(t, c) \<in> set tcs. i \<noteq> t * 768 + c) \<longrightarrow> l' ! i = l ! i)"
  using assms
proof (induction tcs arbitrary: l)
  case (Cons tc tcs)
  obtain t c where tc: "tc = (t, c)" by force
  from Cons.prems obtain l1 where l1: "lsc_entry guard ref sync (t, c) l = Some l1" "lsc_loop (lsc_entry guard ref sync) tcs l1 = Some l'"
    by (auto simp: tc bind_eq_Some_conv)
  show ?case using Cons.IH[OF l1(2)] lsc_entry_frame[OF l1(1)] tc by auto
qed simp

text \<open>The first row of the second half that is visited, and the entries before column \<open>c\<close> of it.\<close>

lemma lsc_cells_split:
  assumes "ind < 6" "c < 768"
  defines "t \<equiv> if ind = 0 then 7 else 6"
  shows "\<exists>rest. lsc_cells 6 12 (ind + 6) = map (Pair t) [0..<c] @ (t, c) # rest"
proof -
  have "filter (\<lambda>x. x \<noteq> ind + 6) [6..<12] = t # filter (\<lambda>x. x \<noteq> ind + 6) (if ind = 0 then [8..<12] else [7..<12])"
    using assms(1) by (simp add: t_def upt_conv_Cons)
  then obtain ts where "lsc_cells 6 12 (ind + 6) = map (Pair t) [0..<768] @ List.product ts [0..<768]"
    by (simp add: lsc_cells_def del: upt_Suc)
  moreover have "[0..<768] = [0..<c] @ c # [Suc c..<768]"
    using assms(2) by (metis le_add1 add_0 less_imp_add_positive upt_add_eq_append upt_conv_Cons less_imp_le)
  ultimately show ?thesis by simp
qed

lemma lsc_second_half_undefined:
  assumes "length l = 9216" "ind < 6"
    and "ind = 5 \<or> (\<exists>c < 768. l ! ((ind + 6) * 768 + c) = 0 \<and> l ! ((ind + 7) * 768 + c) \<noteq> 0)"
  shows "lsc_loop (lsc_entry (Some (ind + 7)) (ind + 6) sync) (lsc_cells 6 12 (ind + 6)) l = None"
proof -
  define t :: nat where "t = (if ind = 0 then 7 else 6)"
  obtain c where c: "c < 768" "ind = 5 \<or> l ! ((ind + 6) * 768 + c) = 0 \<and> l ! ((ind + 7) * 768 + c) \<noteq> 0"
    using assms(3) by (metis zero_less_numeral)
  obtain rest where cells: "lsc_cells 6 12 (ind + 6) = map (Pair t) [0..<c] @ (t, c) # rest"
    using lsc_cells_split[OF assms(2) c(1)] unfolding t_def by blast
  have "lsc_entry (Some (ind + 7)) (ind + 6) sync (t, c) l1 = None"
    if l1: "lsc_loop (lsc_entry (Some (ind + 7)) (ind + 6) sync) (map (Pair t) [0..<c]) l = Some l1" for l1
  proof -
    have len: "length l1 = 9216" using lsc_loop_frame[OF l1] assms(1) by simp
    have same: "l1 ! (t' * 768 + c) = l ! (t' * 768 + c)" for t'
    proof -
      have "\<forall>(u, d) \<in> set (map (Pair t) [0..<c]). t' * 768 + c \<noteq> u * 768 + d"
        using cell_inject[OF c(1)] c(1) by (auto simp: less_le_trans)
      then show ?thesis using lsc_loop_frame[OF l1] by blast
    qed
    show ?thesis
    proof (cases "ind = 5")
      case True
      then show ?thesis by (simp add: lsc_entry_def lsc_at_def)
    next
      case False
      then have r: "ind + 7 < 12" "ind + 6 < 12" "t < 12" using assms(2) by (auto simp: t_def)
      show ?thesis
        using False c(2) lsc_at_cell[OF len r(1) c(1)] lsc_at_cell[OF len r(2) c(1)] lsc_at_cell[OF len r(3) c(1)]
        unfolding same by (auto simp: lsc_entry_def lsc_scaled_def s32_def split: option.splits)
    qed
  qed
  then show ?thesis
    unfolding cells lsc_loop_append by (auto simp: bind_eq_None_conv split: bind_splits)
qed

text \<open>
  C30. With the six-temperature tables (\<open>ff_mod\<close> 2) the second half is guarded by the wrong row: the code tests row \<open>lsc_ind + 7\<close> for zero and
  divides by row \<open>lsc_ind + 6\<close>. For a calibration at the highest temperature (6500) it reads behind the twelve tables whatever they hold, and
  otherwise it divides by zero wherever only the tested row is nonzero, which is what the test is there to avoid.
\<close>

theorem calibration_guard_wrong_row:
  assumes fl: "files (sync_path name isp_id) = Some f" "length f = 775" "length stack = 775"
    and mode: "f ! 1 \<notin> {0, 1}" "ff_mod (isp_tunning_settings p) = 2" "find_nearest_index 2 (sint (f ! 6)) = Some ind" "ind < 6"
    and table: "l = lsc_tbl (isp_tunning_settings p)" "length l = 9216"
    and bad: "ind = 5 \<or> (\<exists>c < 768. l ! ((ind + 6) * 768 + c) = 0 \<and> l ! ((ind + 7) * 768 + c) \<noteq> 0)"
  shows "parser_sync_info files stack name isp_id p = None"
proof -
  have ov: "overlay stack f = f" using fl(2,3) by (simp add: overlay_full)
  have "sync_lsc f 2 ind l = None"
  proof (cases "lsc_loop (lsc_entry (Some ind) ind f) (lsc_cells 0 6 ind) l")
    case (Some l1)
    have high: "l1 ! (t * 768 + c) = l ! (t * 768 + c)" if "6 \<le> t" "c < 768" for t c
    proof -
      have "\<forall>(u, d) \<in> set (lsc_cells 0 6 ind). t * 768 + c \<noteq> u * 768 + d" using that cell_inject by auto
      then show ?thesis using lsc_loop_frame[OF Some] by blast
    qed
    have "ind = 5 \<or> (\<exists>c < 768. l1 ! ((ind + 6) * 768 + c) = 0 \<and> l1 ! ((ind + 7) * 768 + c) \<noteq> 0)"
      using bad high[of "ind + 6"] high[of "ind + 7"] by auto
    moreover have "length l1 = 9216" using lsc_loop_frame[OF Some] table(2) by simp
    ultimately have "lsc_loop (lsc_entry (Some (ind + 7)) (ind + 6) f) (lsc_cells 6 12 (ind + 6)) l1 = None"
      using mode(4) by (intro lsc_second_half_undefined)
    then show ?thesis using Some by (simp add: sync_lsc_def)
  qed (simp add: sync_lsc_def)
  then show ?thesis using fl(1,2) mode ov table(1) by (auto simp: parser_sync_info_def put_tunning_def Let_def)
qed

theorem calibration_guard_wrong_row_witness:
  "parser_sync_info (\<lambda>_. Some (demo_sync[6 := 6500])) (replicate 775 0) ''ar0238_default_ini_a100'' 0
     (put_tunning (ff_mod_update (\<lambda>_. 2)) demo_params) = None"
proof (rule calibration_guard_wrong_row[of _ _ _ "demo_sync[6 := 6500]" _ _ 5 "replicate 9216 1024"])
  show "find_nearest_index 2 (sint (demo_sync[6 := 6500] ! 6)) = Some 5"
    by (simp add: find_nearest_index_def demo_sync_def temp_array2_def s32_def)
qed (simp_all add: demo_sync_def demo_params_def put_tunning_def)

section \<open>Saved tables\<close>

text \<open>
  \<open>isp_save_tbl\<close> reports success, and the gamma and shading tables are in their files byte by byte, but the colour enhancement table is lost: its file is
  opened for writing a second time and left empty.
\<close>

theorem saved_cem_table_lost:
  assumes "length path + 14 < 50" "list_all (\<lambda>b. b) opens" "length opens = 6" "wf_params p"
  shows "\<exists>fs'. isp_save_tbl opens p path fs = Some (0, fs') \<and>
    fs' (path @ ''/gamma_tbl.bin'') = Some (enc16s (gamma_tbl_ini (isp_tunning_settings p))) \<and>
    fs' (path @ ''/lsc_tbl.bin'') = Some (enc16s (lsc_tbl (isp_tunning_settings p))) \<and>
    fs' (path @ ''/cem_tbl.bin'') = Some [] \<and> length (isp_cem_table (isp_tunning_settings p)) = 5888"
proof -
  have "opens = [True, True, True, True, True, True]"
    using assms(2,3) by (auto simp: length_Suc_conv numeral_eq_Suc)
  then show ?thesis
    using assms(1,4) by (simp add: isp_save_tbl_def tbl_files_def save_file_def Let_def wf_params_def wf_tunning_def)
qed

theorem saved_cem_table_lost_witness:
  "\<exists>fs'. isp_save_tbl [True, True, True, True, True, True] zero_params ''/mnt/extsd'' Map.empty = Some (0, fs') \<and>
    fs' ''/mnt/extsd/cem_tbl.bin'' = Some []"
  using saved_cem_table_lost[of "''/mnt/extsd''" "[True, True, True, True, True, True]" zero_params Map.empty] wf_zero_params by auto


section \<open>The parameters of a fresh device\<close>

lemma all_parts_replaced:
  "p\<lparr>isp_test_settings := isp_test_settings q, isp_3a_settings := isp_3a_settings q,
     isp_iso_settings := isp_iso_settings q, isp_tunning_settings := isp_tunning_settings q\<rparr> = (q :: isp_param_config)"
  by simp

lemma parser_ini_info_plain:
  "parser_ini_info tables files stack n w h fps wdr ir 0 isp_id p = Some (0, tables (ca_cfg (select_cfg cfg_arr n w h fps wdr)))"
  by (simp add: parser_ini_info_def Let_def)

lemma parser_ini_info_ret: "parser_ini_info tables files stack n w h fps wdr ir m isp_id p = Some (r, q) \<Longrightarrow> r = 0"
  by (auto simp: parser_ini_info_def Let_def split: if_splits)



end
