(* ===== verification/MediaGraph.thy ===== *)
theory MediaGraph
  imports IspDevice CText
begin

text \<open>
  \<open>isp_dev/media.c\<close>: the graph of media entities that the driver exports, its enumeration, the walks from a video node up to the ISP and to the
  sensor, and the configuration of links. Entities are numbered by their place in \<open>media->entities\<close>; a pointer to a pad is the number of the
  entity and of the pad, a pointer to a link the number of the entity and of the link, so the fix-up of twin pointers after a \<open>realloc\<close> is the identity. What the
  driver answers to an \<open>ioctl\<close> is an argument, a list with one entry per call.
\<close>

section \<open>Entities, pads and links\<close>

record media_entity_desc =
  desc_id :: u32
  desc_name :: string
  desc_type :: u32
  desc_pads :: nat
  desc_links :: nat
  desc_major :: u32
  desc_minor :: u32

type_synonym pad_ptr = "nat \<times> nat"

record media_entity_pad =
  pad_entity :: nat
  pad_index :: u32
  pad_flags :: u32

record media_entity_link =
  link_source :: pad_ptr
  link_sink :: pad_ptr
  link_reverse :: "nat \<times> nat"
  link_flags :: u32

record media_entity =
  ent_info :: media_entity_desc
  ent_pads :: "media_entity_pad list"
  ent_links :: "media_entity_link list"
  max_links :: nat
  ent_devname :: string
  ent_fd :: int

record media_device =
  media_fd :: int
  entities :: "media_entity list"

definition MEDIA_LNK_FL_ENABLED :: u32 where "MEDIA_LNK_FL_ENABLED = 1"
definition MEDIA_LNK_FL_IMMUTABLE :: u32 where "MEDIA_LNK_FL_IMMUTABLE = 2"
definition MEDIA_PAD_FL_SOURCE :: u32 where "MEDIA_PAD_FL_SOURCE = 2"
definition MEDIA_ENT_T_DEVNODE :: u32 where "MEDIA_ENT_T_DEVNODE = 0x10000"
definition MEDIA_ENT_T_V4L2_SUBDEV :: u32 where "MEDIA_ENT_T_V4L2_SUBDEV = 0x20000"
definition MEDIA_ENT_T_V4L2_SUBDEV_SENSOR :: u32 where "MEDIA_ENT_T_V4L2_SUBDEV_SENSOR = 0x20001"

definition link_on :: "media_entity_link \<Rightarrow> bool" where
  "link_on l \<longleftrightarrow> link_flags l AND MEDIA_LNK_FL_ENABLED \<noteq> 0"

definition link_fixed :: "media_entity_link \<Rightarrow> bool" where
  "link_fixed l \<longleftrightarrow> link_flags l AND MEDIA_LNK_FL_IMMUTABLE \<noteq> 0"

definition pad_is_source :: "media_entity_pad \<Rightarrow> bool" where
  "pad_is_source p \<longleftrightarrow> pad_flags p AND MEDIA_PAD_FL_SOURCE \<noteq> 0"

definition media_entity_type :: "media_entity_desc \<Rightarrow> u32" where
  "media_entity_type d = desc_type d AND 0x00ff0000"

definition pad_at :: "media_device \<Rightarrow> pad_ptr \<Rightarrow> media_entity_pad option" where
  "pad_at md q = (case q of (e, p) \<Rightarrow>
     if e < length (entities md) \<and> p < length (ent_pads (entities md ! e)) then Some (ent_pads (entities md ! e) ! p) else None)"

section \<open>Looking up and walking\<close>

fun remote_in :: "pad_ptr \<Rightarrow> media_entity_link list \<Rightarrow> pad_ptr option" where
  "remote_in q [] = None"
| "remote_in q (l # ls) =
     (if \<not> link_on l then remote_in q ls
      else if link_source l = q then Some (link_sink l)
      else if link_sink l = q then Some (link_source l)
      else remote_in q ls)"

definition media_entity_remote_source :: "media_device \<Rightarrow> pad_ptr \<Rightarrow> pad_ptr option outcome" where
  "media_entity_remote_source md q =
     (case pad_at md q of
        None \<Rightarrow> Ub
      | Some pd \<Rightarrow> if pad_entity pd < length (entities md)
                   then Ret (remote_in q (ent_links (entities md ! pad_entity pd))) else Ub)"

fun find_index :: "('a \<Rightarrow> bool) \<Rightarrow> 'a list \<Rightarrow> nat option" where
  "find_index P [] = None"
| "find_index P (x # xs) = (if P x then Some 0 else map_option Suc (find_index P xs))"

definition media_get_entity_by_name :: "media_device \<Rightarrow> string \<Rightarrow> nat option" where
  "media_get_entity_by_name md name = find_index (\<lambda>e. desc_name (ent_info e) = name) (entities md)"

definition media_get_entity_by_id :: "media_device \<Rightarrow> u32 \<Rightarrow> nat option" where
  "media_get_entity_by_id md i = find_index (\<lambda>e. desc_id (ent_info e) = i) (entities md)"

text \<open>
  The loop of the three walks: as long as the first pad of the entity is not a source, go to the entity at the other end of its link. \<open>stop\<close> is
  the early return inside the loop, \<open>at_source\<close> and \<open>at_end\<close> the two ways out of it. The loop keeps no other state than the entity, so with one round per entity
  it has ended or runs forever (\<open>Blocks\<close>).
\<close>

fun walk_up :: "(media_entity \<Rightarrow> 'r outcome option) \<Rightarrow> (nat \<Rightarrow> 'r) \<Rightarrow> (nat \<Rightarrow> 'r) \<Rightarrow> media_device \<Rightarrow> nat \<Rightarrow> nat \<Rightarrow> 'r outcome" where
  "walk_up stop at_source at_end md 0 e = Blocks"
| "walk_up stop at_source at_end md (Suc n) e =
     (case pad_at md (e, 0) of
        None \<Rightarrow> Ub
      | Some pd \<Rightarrow>
          if pad_is_source pd then Ret (at_source e)
          else case media_entity_remote_source md (e, 0) of
            Ub \<Rightarrow> Ub
          | Blocks \<Rightarrow> Blocks
          | Ret None \<Rightarrow> Ret (at_end e)
          | Ret (Some q) \<Rightarrow>
              (case pad_at md q of
                 None \<Rightarrow> Ub
               | Some pd' \<Rightarrow>
                   if pad_entity pd' < length (entities md)
                   then (case stop (entities md ! pad_entity pd') of
                           Some r \<Rightarrow> r
                         | None \<Rightarrow> walk_up stop at_source at_end md n (pad_entity pd'))
                   else Ub))"

definition media_pipeline_get_head :: "media_device \<Rightarrow> nat \<Rightarrow> nat option outcome" where
  "media_pipeline_get_head md me =
     (case walk_up (\<lambda>_. None) (\<lambda>e. e) (\<lambda>e. e) md (length (entities md)) me of
        Ret e \<Rightarrow> Ret (if desc_type (ent_info (entities md ! e)) = MEDIA_ENT_T_V4L2_SUBDEV_SENSOR then Some e else None)
      | Ub \<Rightarrow> Ub
      | Blocks \<Rightarrow> Blocks)"

text \<open>
  \<open>strncmp(name, "sunxi_isp.", 9)\<close> leaves the dot out; a name without it is not scanned and gives -1. A number outside the range of \<open>int\<close> is undefined in \<open>sscanf\<close>.
\<close>

definition id_in_name :: "string \<Rightarrow> media_entity \<Rightarrow> int outcome option" where
  "id_in_name pre e =
     (if take 9 (desc_name (ent_info e)) = take 9 pre
      then Some (case (if take (length pre) (desc_name (ent_info e)) = pre
                       then scan_d (drop (length pre) (desc_name (ent_info e))) else None) of
                   None \<Rightarrow> Ret (- 1)
                 | Some i \<Rightarrow> if - (2 ^ 31) \<le> i \<and> i < 2 ^ 31 then Ret i else Ub)
      else None)"

definition media_video_to_isp_id :: "media_device \<Rightarrow> nat \<Rightarrow> int outcome" where
  "media_video_to_isp_id md me = walk_up (id_in_name ''sunxi_isp.'') (\<lambda>_. - 1) (\<lambda>_. - 1) md (length (entities md)) me"

definition media_video_to_csi_id :: "media_device \<Rightarrow> nat \<Rightarrow> int outcome" where
  "media_video_to_csi_id md me = walk_up (id_in_name ''sunxi_csi.'') (\<lambda>_. - 1) (\<lambda>_. - 1) md (length (entities md)) me"

section \<open>Configuring links\<close>

definition upd_entity :: "nat \<Rightarrow> (media_entity \<Rightarrow> media_entity) \<Rightarrow> media_device \<Rightarrow> media_device" where
  "upd_entity e f md = md\<lparr>entities := (entities md)[e := f (entities md ! e)]\<rparr>"

text \<open>The test of \<open>media_setup_link\<close> on one link; it reads the pads behind the link.\<close>

definition link_joins :: "media_device \<Rightarrow> media_entity_pad \<Rightarrow> media_entity_pad \<Rightarrow> media_entity_link \<Rightarrow> bool" where
  "link_joins md sp sk l =
     (case (pad_at md (link_source l), pad_at md (link_sink l)) of
        (Some a, Some b) \<Rightarrow> pad_entity a = pad_entity sp \<and> pad_index a = pad_index sp \<and>
                            pad_entity b = pad_entity sk \<and> pad_index b = pad_index sk
      | _ \<Rightarrow> False)"

record media_link_desc =
  ld_source :: "u32 \<times> u32" \<comment> \<open>entity id, pad index\<close>
  ld_sink :: "u32 \<times> u32"
  ld_flags :: u32

definition media_setup_link ::
  "int \<Rightarrow> pad_ptr \<Rightarrow> pad_ptr \<Rightarrow> u32 \<Rightarrow> media_device \<Rightarrow> (int \<times> media_link_desc option \<times> media_device) outcome" where
  "media_setup_link ioctl_ret source sink flags md =
     (case (pad_at md source, pad_at md sink) of
        (Some sp, Some sk) \<Rightarrow>
          (let e = pad_entity sp; links = ent_links (entities md ! e) in
           case find_index (link_joins md sp sk) links of
             None \<Rightarrow> Ret (- 22, None, md)
           | Some i \<Rightarrow>
               (let ulink = \<lparr>ld_source = (desc_id (ent_info (entities md ! e)), pad_index sp),
                        ld_sink = (desc_id (ent_info (entities md ! pad_entity sk)), pad_index sk),
                        ld_flags = flags OR (link_flags (links ! i) AND MEDIA_LNK_FL_IMMUTABLE)\<rparr>
                in if ioctl_ret < 0 then Ret (ioctl_ret, Some ulink, md)
                   else Ret (0, Some ulink,
                     upd_entity e (\<lambda>en. en\<lparr>ent_links := (ent_links en)[i := (ent_links en ! i)\<lparr>link_flags := flags\<rparr>]\<rparr>) md)))
      | _ \<Rightarrow> Ub)"

fun reset_loop :: "int list \<Rightarrow> (nat \<times> nat) list \<Rightarrow> media_device \<Rightarrow> (int \<times> media_device) outcome" where
  "reset_loop rets [] md = Ret (0, md)"
| "reset_loop rets ((e, j) # ejs) md =
     (let l = ent_links (entities md ! e) ! j in
      case pad_at md (link_source l) of
        None \<Rightarrow> Ub
      | Some sp \<Rightarrow>
          if link_fixed l \<or> pad_entity sp \<noteq> e then reset_loop rets ejs md
          else case rets of
            [] \<Rightarrow> Blocks
          | r # rs \<Rightarrow>
              (case media_setup_link r (link_source l) (link_sink l) (link_flags l AND NOT MEDIA_LNK_FL_ENABLED) md of
                 Ret (ret, _, md') \<Rightarrow> if ret < 0 then Ret (ret, md') else reset_loop rs ejs md'
               | Ub \<Rightarrow> Ub
               | Blocks \<Rightarrow> Blocks))"

definition link_ptrs :: "media_device \<Rightarrow> (nat \<times> nat) list" where
  "link_ptrs md = concat (map (\<lambda>e. map (Pair e) [0..<length (ent_links (entities md ! e))]) [0..<length (entities md)])"

definition media_reset_links :: "int list \<Rightarrow> media_device \<Rightarrow> (int \<times> media_device) outcome" where
  "media_reset_links rets md = reset_loop rets (link_ptrs md) md"

section \<open>Enumeration\<close>

text \<open>
  \<open>media_entity_add_link\<close>: \<open>None\<close> is the null pointer of a failed \<open>realloc\<close>, which every caller follows.
\<close>

definition media_entity_add_link :: "bool \<Rightarrow> media_entity \<Rightarrow> media_entity option" where
  "media_entity_add_link realloc_ok en =
     (if length (ent_links en) \<ge> max_links en
      then if realloc_ok \<and> max_links en > 0 then Some (en\<lparr>max_links := max_links en * 2\<rparr>) else None
      else Some en)"

definition push_link :: "media_entity_link \<Rightarrow> media_entity \<Rightarrow> media_entity" where
  "push_link l en = en\<lparr>ent_links := ent_links en @ [l]\<rparr>"

text \<open>
  One link of the driver becomes two: one at the source, one at the sink. An unknown entity is only reported and then followed
  as a null pointer. When both ends are one entity, growing its array for the second link reads the twin pointer of the first before it is set.
\<close>

definition add_links :: "bool \<Rightarrow> media_link_desc \<Rightarrow> media_device \<Rightarrow> media_device outcome" where
  "add_links realloc_ok d md =
     (case (media_get_entity_by_id md (fst (ld_source d)), media_get_entity_by_id md (fst (ld_sink d))) of
        (Some s, Some k) \<Rightarrow>
          (let sp = (s, unat (snd (ld_source d))); kp = (k, unat (snd (ld_sink d))) in
           if pad_at md sp = None \<or> pad_at md kp = None then Ub
           else case media_entity_add_link realloc_ok (entities md ! s) of
             None \<Rightarrow> Ub
           | Some en \<Rightarrow>
               (let i = length (ent_links en);
                    md1 = upd_entity s (\<lambda>_. push_link \<lparr>link_source = sp, link_sink = kp, link_reverse = (s, i), link_flags = ld_flags d\<rparr> en) md;
                    en2 = entities md1 ! k
                in if s = k \<and> length (ent_links en2) \<ge> max_links en2 then Ub
                   else case media_entity_add_link realloc_ok en2 of
                     None \<Rightarrow> Ub
                   | Some en3 \<Rightarrow>
                       (let j = length (ent_links en3);
                            md2 = upd_entity k (\<lambda>_. push_link \<lparr>link_source = sp, link_sink = kp, link_reverse = (s, i), link_flags = ld_flags d\<rparr> en3) md1
                        in Ret (upd_entity s (\<lambda>en. en\<lparr>ent_links := (ent_links en)[i := (ent_links en ! i)\<lparr>link_reverse := (k, j)\<rparr>]\<rparr>) md2))))
      | _ \<Rightarrow> Ub)"

fun add_all_links :: "bool \<Rightarrow> media_link_desc list \<Rightarrow> media_device \<Rightarrow> media_device outcome" where
  "add_all_links realloc_ok [] md = Ret md"
| "add_all_links realloc_ok (d # ds) md =
     (case add_links realloc_ok d md of
        Ret md' \<Rightarrow> add_all_links realloc_ok ds md'
      | Ub \<Rightarrow> Ub
      | Blocks \<Rightarrow> Blocks)"

text \<open>An answer of \<open>MEDIA_IOC_ENUM_LINKS\<close>: the pads (index and flags) and the outgoing links, or an error number.\<close>

type_synonym links_answer = "int + (u32 \<times> u32) list \<times> media_link_desc list"

definition fill_pads :: "nat \<Rightarrow> (u32 \<times> u32) list \<Rightarrow> media_entity \<Rightarrow> media_entity" where
  "fill_pads e ps en = en\<lparr>ent_pads := map (\<lambda>i. case (ps @ replicate (desc_pads (ent_info en)) (0, 0)) ! i of
      (ix, fl) \<Rightarrow> \<lparr>pad_entity = e, pad_index = ix, pad_flags = fl\<rparr>) [0..<desc_pads (ent_info en)]\<rparr>"

definition zero_link_desc :: media_link_desc where
  "zero_link_desc = \<lparr>ld_source = (0, 0), ld_sink = (0, 0), ld_flags = 0\<rparr>"

definition out_links :: "media_entity \<Rightarrow> media_link_desc list \<Rightarrow> media_link_desc list" where
  "out_links en ls = take (desc_links (ent_info en)) (ls @ replicate (desc_links (ent_info en)) zero_link_desc)"

fun enum_links_loop :: "bool \<Rightarrow> links_answer list \<Rightarrow> nat list \<Rightarrow> media_device \<Rightarrow> (int \<times> media_device) outcome" where
  "enum_links_loop realloc_ok answers [] md = Ret (0, md)"
| "enum_links_loop realloc_ok [] (e # es) md = Blocks"
| "enum_links_loop realloc_ok (Inl errno # as) (e # es) md = Ret (- errno, md)"
| "enum_links_loop realloc_ok (Inr (ps, ls) # as) (e # es) md =
     (case add_all_links realloc_ok (out_links (entities md ! e) ls) (upd_entity e (fill_pads e ps) md) of
        Ret md' \<Rightarrow> enum_links_loop realloc_ok as es md'
      | Ub \<Rightarrow> Ub
      | Blocks \<Rightarrow> Blocks)"

definition media_enum_links :: "bool \<Rightarrow> links_answer list \<Rightarrow> media_device \<Rightarrow> (int \<times> media_device) outcome" where
  "media_enum_links realloc_ok answers md = enum_links_loop realloc_ok answers [0..<length (entities md)] md"

text \<open>The device node of an entity: the target of a link in \<open>/sys\<close>, checked against the numbers of the node in \<open>/dev\<close>.\<close>

record media_env =
  sys_readlink :: "string \<Rightarrow> string option"
  dev_stat :: "string \<Rightarrow> (u32 \<times> u32) option" \<comment> \<open>major and minor\<close>
  media_malloc_ok :: bool
  media_open_ret :: int
  media_info_ret :: int
  ent_answers :: "(int + media_entity_desc \<times> bool) list" \<comment> \<open>an error number, or a description and whether \<open>malloc\<close> succeeds\<close>
  link_answers :: "links_answer list"
  media_realloc_ok :: bool

definition after_slash :: "string \<Rightarrow> string option" where
  "after_slash s = (if CHR ''/'' \<in> set s then Some (rev (takeWhile (\<lambda>c. c \<noteq> CHR ''/'') (rev s))) else None)"

definition entity_devname :: "media_env \<Rightarrow> media_entity_desc \<Rightarrow> string outcome" where
  "entity_devname env d =
     (if media_entity_type d \<noteq> MEDIA_ENT_T_DEVNODE \<and> media_entity_type d \<noteq> MEDIA_ENT_T_V4L2_SUBDEV then Ret []
      else let sysname = ''/sys/dev/char/'' @ fmt_u (desc_major d) @ '':'' @ fmt_u (desc_minor d) in
        if length sysname \<ge> 32 then Ub
        else case sys_readlink env sysname of
          None \<Rightarrow> Ret []
        | Some target \<Rightarrow>
            if length target \<ge> 1024 then Ub
            else case after_slash target of
              None \<Rightarrow> Ret []
            | Some p \<Rightarrow>
                (let devname = ''/dev/'' @ p in
                 if length devname \<ge> 32 then Ub
                 else case dev_stat env devname of
                   None \<Rightarrow> Ret []
                 | Some (ma, mi) \<Rightarrow> Ret (if ma = desc_major d \<and> mi = desc_minor d then devname else [])))"

definition new_entity :: "media_entity_desc \<Rightarrow> string \<Rightarrow> media_entity" where
  "new_entity d devname =
     \<lparr>ent_info = d, ent_pads = replicate (desc_pads d) \<lparr>pad_entity = 0, pad_index = 0, pad_flags = 0\<rparr>, ent_links = [],
      max_links = desc_pads d + desc_links d, ent_devname = devname, ent_fd = - 1\<rparr>"

fun media_enum_entities :: "media_env \<Rightarrow> (int + media_entity_desc \<times> bool) list \<Rightarrow> media_device \<Rightarrow> (int \<times> media_device) outcome" where
  "media_enum_entities env [] md = Blocks"
| "media_enum_entities env (Inl errno # as) md = Ret (if errno = 22 then 0 else - errno, md)"
| "media_enum_entities env (Inr (d, malloc_ok) # as) md =
     (if \<not> malloc_ok then Ret (- 12, md)
      else case entity_devname env d of
        Ret devname \<Rightarrow> media_enum_entities env as (md\<lparr>entities := entities md @ [new_entity d devname]\<rparr>)
      | Ub \<Rightarrow> Ub
      | Blocks \<Rightarrow> Blocks)"

section \<open>Opening and closing\<close>

text \<open>\<open>fds\<close> are the media descriptors the process has open.\<close>

definition media_close :: "media_device \<Rightarrow> int list \<Rightarrow> int list" where
  "media_close md fds =
     fold (\<lambda>e fds. if ent_fd e \<noteq> - 1 then remove1 (ent_fd e) fds else fds) (entities md)
       (if media_fd md \<noteq> - 1 then remove1 (media_fd md) fds else fds)"

definition media_open :: "media_env \<Rightarrow> int list \<Rightarrow> (media_device option \<times> int list) outcome" where
  "media_open env fds =
     (if \<not> media_malloc_ok env then Ret (None, fds)
      else let md = \<lparr>media_fd = media_open_ret env, entities = []\<rparr> in
        if media_fd md < 0 then Ret (None, media_close md fds)
        else let fds1 = media_fd md # fds in
          if media_info_ret env < 0 then Ret (None, media_close md fds1)
          else case media_enum_entities env (ent_answers env) md of
            Ub \<Rightarrow> Ub
          | Blocks \<Rightarrow> Blocks
          | Ret (ret, md1) \<Rightarrow>
              if ret < 0 then Ret (None, media_close md1 fds1)
              else case media_enum_links (media_realloc_ok env) (link_answers env) md1 of
                Ub \<Rightarrow> Ub
              | Blocks \<Rightarrow> Blocks
              | Ret (ret, md2) \<Rightarrow> if ret < 0 then Ret (None, media_close md2 fds1) else Ret (Some md2, fds1))"

section \<open>The walks end or run forever\<close>

text \<open>One round of the loop that goes on: the entity it goes on with.\<close>

definition next_up :: "(media_entity \<Rightarrow> 'r outcome option) \<Rightarrow> media_device \<Rightarrow> nat \<Rightarrow> nat option" where
  "next_up stop md e =
     (case pad_at md (e, 0) of
        None \<Rightarrow> None
      | Some pd \<Rightarrow>
          if pad_is_source pd then None
          else case media_entity_remote_source md (e, 0) of
            Ret (Some q) \<Rightarrow>
              (case pad_at md q of
                 None \<Rightarrow> None
               | Some pd' \<Rightarrow> if pad_entity pd' < length (entities md) \<and> stop (entities md ! pad_entity pd') = None
                            then Some (pad_entity pd') else None)
          | _ \<Rightarrow> None)"

fun iter_up :: "(media_entity \<Rightarrow> 'r outcome option) \<Rightarrow> media_device \<Rightarrow> nat \<Rightarrow> nat \<Rightarrow> nat option" where
  "iter_up stop md 0 e = Some e"
| "iter_up stop md (Suc k) e = Option.bind (next_up stop md e) (iter_up stop md k)"

lemma remote_not_Blocks [simp]: "media_entity_remote_source md q \<noteq> Blocks"
  by (simp add: media_entity_remote_source_def split: option.splits)

lemma walk_up_goes_on: "next_up stop md e = Some e' \<Longrightarrow> walk_up stop f g md (Suc n) e = walk_up stop f g md n e'"
  by (auto simp: next_up_def split: option.splits outcome.splits if_splits)

lemma walk_up_ends:
  "next_up stop md e = None \<Longrightarrow> (\<And>x. stop x \<noteq> Some Blocks) \<Longrightarrow> walk_up stop f g md (Suc n) e \<noteq> Blocks"
  "next_up stop md e = None \<Longrightarrow> walk_up stop f g md (Suc n) e = walk_up stop f g md (Suc m) e"
  by (auto simp: next_up_def split: option.splits outcome.splits if_splits)

lemma next_up_range: "next_up stop md e = Some e' \<Longrightarrow> e < length (entities md) \<and> e' < length (entities md)"
  by (auto simp: next_up_def pad_at_def split: option.splits outcome.splits if_splits)

lemma walk_up_Blocks:
  assumes "\<And>x. stop x \<noteq> Some Blocks"
  shows "walk_up stop f g md n e = Blocks \<longleftrightarrow> iter_up stop md n e \<noteq> None"
proof (induction n arbitrary: e)
  case (Suc n)
  show ?case
  proof (cases "next_up stop md e")
    case None
    then show ?thesis using walk_up_ends(1)[OF None assms, of f g n] by (simp del: walk_up.simps)
  next
    case (Some e')
    then show ?thesis using Suc by (simp add: walk_up_goes_on[OF Some] del: walk_up.simps)
  qed
qed simp

lemma iter_up_add: "iter_up stop md (a + b) e = Option.bind (iter_up stop md a e) (iter_up stop md b)"
proof (induction a arbitrary: e)
  case (Suc a)
  then show ?case by (cases "next_up stop md e") simp_all
qed simp

lemma iter_up_prefix: "iter_up stop md (a + b) e \<noteq> None \<Longrightarrow> iter_up stop md a e \<noteq> None"
  by (cases "iter_up stop md a e") (auto simp: iter_up_add)

lemma iter_up_range:
  assumes "iter_up stop md n e \<noteq> None" "i \<le> n" "0 < n"
  shows "\<exists>x < length (entities md). iter_up stop md i e = Some x"
  using assms
proof (induction n arbitrary: e i)
  case (Suc n)
  then obtain e' where e': "next_up stop md e = Some e'" by (cases "next_up stop md e") auto
  note r = next_up_range[OF e']
  show ?case
  proof (cases i)
    case (Suc i')
    show ?thesis
    proof (cases "n = 0")
      case False
      then show ?thesis using Suc.IH[of e' i'] Suc.prems \<open>i = Suc i'\<close> e' by simp
    qed (use r e' Suc.prems \<open>i = Suc i'\<close> in simp)
  qed (use r in simp)
qed simp

lemma iter_up_cycle:
  assumes "iter_up stop md p x = Some x"
  shows "iter_up stop md (p * m) x = Some x"
  by (induction m) (simp_all add: iter_up_add assms)

lemma iter_up_forever:
  assumes "iter_up stop md (length (entities md)) e \<noteq> None" "entities md \<noteq> []"
  shows "iter_up stop md k e \<noteq> None"
proof -
  let ?n = "length (entities md)"
  have n: "0 < ?n" using assms(2) by simp
  define v where "v i = the (iter_up stop md i e)" for i
  have v: "iter_up stop md i e = Some (v i)" "v i < ?n" if "i \<le> ?n" for i
    using iter_up_range[OF assms(1) that n] by (auto simp: v_def)
  have "v ` {..?n} \<subseteq> {..<?n}" using v(2) by auto
  then have "card (v ` {..?n}) \<le> ?n" by (metis card_lessThan card_mono finite_lessThan)
  then have "\<not> inj_on v {..?n}" by (intro pigeonhole) simp
  then obtain a b where ab: "a \<le> ?n" "b \<le> ?n" "a < b" "v a = v b"
    by (auto simp: inj_on_def) (metis linorder_neqE_nat)
  have "iter_up stop md (a + (b - a)) e = Some (v b)" using v(1)[OF ab(2)] ab(3) by simp
  then have "iter_up stop md (b - a) (v a) = Some (v a)"
    using v(1)[OF ab(1)] ab(4) by (simp only: iter_up_add) simp
  then have c: "iter_up stop md ((b - a) * k) (v a) = Some (v a)" by (rule iter_up_cycle)
  have "k \<le> a + (b - a) * k" using mult_le_mono1[of 1 "b - a" k] ab(3) by linarith
  then obtain l where "a + (b - a) * k = k + l" using le_Suc_ex by blast
  moreover have "iter_up stop md (a + (b - a) * k) e \<noteq> None" using v(1)[OF ab(1)] c by (simp add: iter_up_add)
  ultimately show ?thesis using iter_up_prefix by metis
qed

lemma walk_up_fuel:
  assumes "walk_up stop f g md n e = r" "r \<noteq> Blocks" "n \<le> m" "\<And>x. stop x \<noteq> Some Blocks"
  shows "walk_up stop f g md m e = r"
  using assms(1,3)
proof (induction n arbitrary: e m)
  case 0
  then show ?case using assms(2) by simp
next
  case (Suc n)
  then obtain m' where m: "m = Suc m'" "n \<le> m'" by (cases m) auto
  show ?case
  proof (cases "next_up stop md e")
    case None
    then show ?thesis using walk_up_ends(2)[OF None] Suc.prems(1) m by blast
  next
    case (Some e')
    then show ?thesis using Suc.IH[of e' m'] Suc.prems(1) m walk_up_goes_on[OF Some] by metis
  qed
qed

text \<open>
  One round per entity is enough: when the walk has not ended by then, it goes round in a cycle of enabled links and never ends, whatever the bound; and a walk that ended
  gives the same answer under every larger bound.
\<close>

lemma walk_up_bound:
  assumes stop: "\<And>x. stop x \<noteq> Some Blocks" and ne: "entities md \<noteq> []"
  shows "walk_up stop f g md (length (entities md)) e = Blocks \<Longrightarrow> walk_up stop f g md k e = Blocks"
    and "walk_up stop f g md (length (entities md)) e \<noteq> Blocks \<Longrightarrow> length (entities md) \<le> k \<Longrightarrow>
      walk_up stop f g md k e = walk_up stop f g md (length (entities md)) e"
proof -
  have b: "walk_up stop f g md n e = Blocks \<longleftrightarrow> iter_up stop md n e \<noteq> None" for n e using stop by (rule walk_up_Blocks)
  show "walk_up stop f g md k e = Blocks" if "walk_up stop f g md (length (entities md)) e = Blocks"
    using that iter_up_forever[OF _ ne] unfolding b by blast
  show "walk_up stop f g md k e = walk_up stop f g md (length (entities md)) e"
    if "walk_up stop f g md (length (entities md)) e \<noteq> Blocks" "length (entities md) \<le> k"
    using that stop by (intro walk_up_fuel[OF refl]) auto
qed

section \<open>What the enumeration builds\<close>

abbreviation lnk :: "media_device \<Rightarrow> nat \<Rightarrow> media_entity_link list" where
  "lnk md e \<equiv> ent_links (entities md ! e)"

definition links_paired :: "media_device \<Rightarrow> bool" where
  "links_paired md \<longleftrightarrow>
     (\<forall>e < length (entities md). \<forall>i < length (lnk md e).
        let l = lnk md e ! i; (e', i') = link_reverse l in
        e' < length (entities md) \<and> i' < length (lnk md e') \<and>
        lnk md e' ! i' = l\<lparr>link_reverse := (e, i)\<rparr> \<and>
        (e = fst (link_source l) \<and> e' = fst (link_sink l) \<or> e = fst (link_sink l) \<and> e' = fst (link_source l)))"

lemma links_pairedD:
  assumes "links_paired md" "e < length (entities md)" "i < length (lnk md e)" "link_reverse (lnk md e ! i) = (e', i')"
  shows "e' < length (entities md)" "i' < length (lnk md e')" "lnk md e' ! i' = (lnk md e ! i)\<lparr>link_reverse := (e, i)\<rparr>"
    "e = fst (link_source (lnk md e ! i)) \<and> e' = fst (link_sink (lnk md e ! i)) \<or>
     e = fst (link_sink (lnk md e ! i)) \<and> e' = fst (link_source (lnk md e ! i))"
proof -
  have "let l = lnk md e ! i; (e', i') = link_reverse l in
        e' < length (entities md) \<and> i' < length (lnk md e') \<and>
        lnk md e' ! i' = l\<lparr>link_reverse := (e, i)\<rparr> \<and>
        (e = fst (link_source l) \<and> e' = fst (link_sink l) \<or> e = fst (link_sink l) \<and> e' = fst (link_source l))"
    using assms(1-3) unfolding links_paired_def by blast
  then show "e' < length (entities md)" "i' < length (lnk md e')" "lnk md e' ! i' = (lnk md e ! i)\<lparr>link_reverse := (e, i)\<rparr>"
    "e = fst (link_source (lnk md e ! i)) \<and> e' = fst (link_sink (lnk md e ! i)) \<or>
     e = fst (link_sink (lnk md e ! i)) \<and> e' = fst (link_source (lnk md e ! i))"
    unfolding Let_def assms(4) by simp_all
qed

lemma find_index_Some: "find_index P xs = Some i \<Longrightarrow> i < length xs \<and> P (xs ! i)"
  by (induction xs arbitrary: i) (auto split: if_splits)

lemma find_index_cong: "map f xs = map f ys \<Longrightarrow> find_index (\<lambda>x. Q (f x)) xs = find_index (\<lambda>x. Q (f x)) ys"
proof (induction xs arbitrary: ys)
  case (Cons x xs)
  then obtain y ys' where "ys = y # ys'" "f x = f y" "map f xs = map f ys'" by (cases ys) auto
  then show ?case using Cons.IH by simp
qed simp

lemma entities_upd_entity [simp]: "length (entities (upd_entity e f md)) = length (entities md)"
  by (simp add: upd_entity_def)

lemma nth_upd_entity: "e < length (entities md) \<Longrightarrow> entities (upd_entity e f md) ! x = (if x = e then f (entities md ! e) else entities md ! x)"
  by (simp add: upd_entity_def nth_list_update)

lemma add_link_keeps:
  assumes "media_entity_add_link ok en = Some en'"
  shows "ent_links en' = ent_links en" "ent_info en' = ent_info en" "ent_pads en' = ent_pads en" "ent_fd en' = ent_fd en"
  using assms by (auto simp: media_entity_add_link_def split: if_splits)

definition fwd_link :: "media_device \<Rightarrow> nat \<Rightarrow> nat \<Rightarrow> media_link_desc \<Rightarrow> media_entity_link" where
  "fwd_link md s k d = \<lparr>link_source = (s, unat (snd (ld_source d))), link_sink = (k, unat (snd (ld_sink d))),
     link_reverse = (k, length (lnk md k) + (if s = k then 1 else 0)), link_flags = ld_flags d\<rparr>"

definition back_link :: "media_device \<Rightarrow> nat \<Rightarrow> nat \<Rightarrow> media_link_desc \<Rightarrow> media_entity_link" where
  "back_link md s k d = \<lparr>link_source = (s, unat (snd (ld_source d))), link_sink = (k, unat (snd (ld_sink d))),
     link_reverse = (s, length (lnk md s)), link_flags = ld_flags d\<rparr>"

definition same_nodes :: "media_device \<Rightarrow> media_device \<Rightarrow> bool" where
  "same_nodes md md' \<longleftrightarrow> media_fd md' = media_fd md \<and>
     map (\<lambda>e. (ent_info e, ent_pads e, ent_fd e)) (entities md') = map (\<lambda>e. (ent_info e, ent_pads e, ent_fd e)) (entities md)"

lemma same_nodes_upd:
  assumes "e < length (entities md)" "ent_info (f (entities md ! e)) = ent_info (entities md ! e)"
    "ent_pads (f (entities md ! e)) = ent_pads (entities md ! e)" "ent_fd (f (entities md ! e)) = ent_fd (entities md ! e)"
  shows "same_nodes md (upd_entity e f md)"
  using assms by (auto simp: same_nodes_def upd_entity_def nth_list_update intro!: nth_equalityI)

lemma same_nodes_trans: "same_nodes a b \<Longrightarrow> same_nodes b c \<Longrightarrow> same_nodes a c"
  by (simp add: same_nodes_def)

lemma same_nodes_length: "same_nodes a b \<Longrightarrow> length (entities b) = length (entities a)"
  by (drule arg_cong[of _ _ length, OF conjunct2[OF iffD1[OF same_nodes_def]]]) simp

lemma same_nodes_nth:
  assumes "same_nodes a b" "e < length (entities a)"
  shows "ent_info (entities b ! e) = ent_info (entities a ! e)" "ent_pads (entities b ! e) = ent_pads (entities a ! e)"
    "ent_fd (entities b ! e) = ent_fd (entities a ! e)"
proof -
  have l: "length (entities b) = length (entities a)" using assms(1) by (rule same_nodes_length)
  have "map (\<lambda>e. (ent_info e, ent_pads e, ent_fd e)) (entities b) ! e = map (\<lambda>e. (ent_info e, ent_pads e, ent_fd e)) (entities a) ! e"
    using assms(1) by (simp add: same_nodes_def)
  then show "ent_info (entities b ! e) = ent_info (entities a ! e)" "ent_pads (entities b ! e) = ent_pads (entities a ! e)"
    "ent_fd (entities b ! e) = ent_fd (entities a ! e)"
    using assms(2) l by simp_all
qed

lemma same_nodes_pad_at: "same_nodes a b \<Longrightarrow> pad_at b q = pad_at a q"
  using same_nodes_length[of a b] same_nodes_nth[of a b] by (cases q) (auto simp: pad_at_def)

lemma same_nodes_by_id: "same_nodes a b \<Longrightarrow> media_get_entity_by_id b i = media_get_entity_by_id a i"
proof -
  assume a: "same_nodes a b"
  have "map ent_info (entities b) = map ent_info (entities a)"
    using same_nodes_length[OF a] same_nodes_nth(1)[OF a] by (intro nth_equalityI) auto
  from find_index_cong[OF this, of "\<lambda>d. desc_id d = i"] show ?thesis by (simp add: media_get_entity_by_id_def)
qed

text \<open>The effect of one link of the driver on the graph.\<close>

lemma add_links_result:
  assumes "add_links ok d md = Ret md'"
  obtains s k where "media_get_entity_by_id md (fst (ld_source d)) = Some s" "media_get_entity_by_id md (fst (ld_sink d)) = Some k"
    "s < length (entities md)" "k < length (entities md)"
    "pad_at md (s, unat (snd (ld_source d))) \<noteq> None" "pad_at md (k, unat (snd (ld_sink d))) \<noteq> None"
    "same_nodes md md'"
    "\<And>e. e < length (entities md) \<Longrightarrow>
       lnk md' e = lnk md e @ (if e = s then [fwd_link md s k d] else []) @ (if e = k then [back_link md s k d] else [])"
proof -
  from assms obtain s k where sk: "media_get_entity_by_id md (fst (ld_source d)) = Some s"
    "media_get_entity_by_id md (fst (ld_sink d)) = Some k"
    by (auto simp: add_links_def split: option.splits)
  then have r: "s < length (entities md)" "k < length (entities md)"
    by (auto simp: media_get_entity_by_id_def dest: find_index_Some)
  define sp kp where "sp = (s, unat (snd (ld_source d)))" and "kp = (k, unat (snd (ld_sink d)))"
  define L where "L = \<lparr>link_source = sp, link_sink = kp, link_reverse = (s, length (lnk md s)), link_flags = ld_flags d\<rparr>"
  from assms obtain en where en: "media_entity_add_link ok (entities md ! s) = Some en" and pads: "pad_at md sp \<noteq> None" "pad_at md kp \<noteq> None"
    by (auto simp: add_links_def sk Let_def sp_def kp_def split: option.splits if_splits)
  note k1 = add_link_keeps[OF en]
  define md1 where "md1 = upd_entity s (\<lambda>_. push_link L en) md"
  from assms obtain en3 where en3: "media_entity_add_link ok (entities md1 ! k) = Some en3"
    and res: "md' = upd_entity s (\<lambda>en. en\<lparr>ent_links := (ent_links en)[length (lnk md s) := (ent_links en ! length (lnk md s))\<lparr>link_reverse := (k, length (ent_links en3))\<rparr>]\<rparr>)
        (upd_entity k (\<lambda>_. push_link L en3) md1)"
    unfolding md1_def L_def sp_def kp_def
    by (auto simp: add_links_def sk Let_def en k1 split: option.splits if_splits)
  note k3 = add_link_keeps[OF en3]
  have n1: "same_nodes md md1" unfolding md1_def using r(1) by (intro same_nodes_upd) (simp_all add: push_link_def k1)
  have n2: "same_nodes md1 (upd_entity k (\<lambda>_. push_link L en3) md1)"
    using r(2) by (intro same_nodes_upd) (simp_all add: push_link_def k3 md1_def)
  have n3: "same_nodes (upd_entity k (\<lambda>_. push_link L en3) md1) md'"
    unfolding res using r(1) by (intro same_nodes_upd) (simp_all add: md1_def)
  have links: "lnk md' e = lnk md e @ (if e = s then [fwd_link md s k d] else []) @ (if e = k then [back_link md s k d] else [])"
    if "e < length (entities md)" for e
    unfolding res md1_def using r that
    by (cases "s = k"; cases "e = s"; cases "e = k")
      (simp_all add: nth_upd_entity push_link_def k1 k3 md1_def fwd_link_def back_link_def L_def sp_def kp_def list_update_append)
  show thesis
    using that[OF sk r] pads n1 n2 n3 links unfolding sp_def kp_def by (blast intro: same_nodes_trans)
qed

lemma add_links_paired:
  assumes "add_links ok d md = Ret md'" "links_paired md"
  shows "links_paired md'"
proof -
  obtain s k where r: "s < length (entities md)" "k < length (entities md)" and nodes: "same_nodes md md'"
    and links: "\<And>e. e < length (entities md) \<Longrightarrow>
       lnk md' e = lnk md e @ (if e = s then [fwd_link md s k d] else []) @ (if e = k then [back_link md s k d] else [])"
    using add_links_result[OF assms(1)] by metis
  note n = same_nodes_length[OF nodes]
  have old: "lnk md' e ! i = lnk md e ! i" "i < length (lnk md' e)" if "e < length (entities md)" "i < length (lnk md e)" for e i
    using links[OF that(1)] that(2) by (simp_all add: nth_append)
  have fwd: "lnk md' s ! length (lnk md s) = fwd_link md s k d" "length (lnk md s) < length (lnk md' s)"
    using links[OF r(1)] by simp_all
  have bwd: "lnk md' k ! (length (lnk md k) + (if s = k then 1 else 0)) = back_link md s k d"
    "length (lnk md k) + (if s = k then 1 else 0) < length (lnk md' k)"
    using links[OF r(2)] by (auto simp: nth_append)
  show ?thesis
    unfolding links_paired_def
  proof (intro allI impI)
    fix e i assume e: "e < length (entities md')" and i: "i < length (lnk md' e)"
    have e0: "e < length (entities md)" using e n by simp
    consider (o) "i < length (lnk md e)" | (f) "e = s" "i = length (lnk md s)"
      | (b) "e = k" "i = length (lnk md k) + (if s = k then 1 else 0)"
      using i links[OF e0] by (fastforce split: if_splits)
    then show "let l = lnk md' e ! i; (e', i') = link_reverse l in
        e' < length (entities md') \<and> i' < length (lnk md' e') \<and>
        lnk md' e' ! i' = l\<lparr>link_reverse := (e, i)\<rparr> \<and>
        (e = fst (link_source l) \<and> e' = fst (link_sink l) \<or> e = fst (link_sink l) \<and> e' = fst (link_source l))"
    proof cases
      case o
      obtain e' i' where rev: "link_reverse (lnk md e ! i) = (e', i')" by force
      note p = links_pairedD[OF assms(2) e0 o rev]
      show ?thesis
        using p(1,4) old[OF e0 o] old[OF p(1,2)] p(3) rev n by (auto simp: Let_def)
    next
      case f
      then show ?thesis using fwd bwd r n by (auto simp: Let_def fwd_link_def back_link_def)
    next
      case b
      then show ?thesis using fwd bwd r n by (auto simp: Let_def fwd_link_def back_link_def)
    qed
  qed
qed

definition strip_link :: "media_entity_link \<Rightarrow> pad_ptr \<times> pad_ptr \<times> u32" where
  "strip_link l = (link_source l, link_sink l, link_flags l)"

text \<open>What a link of the driver adds to the links of entity \<open>e\<close>.\<close>

definition link_share :: "media_device \<Rightarrow> nat \<Rightarrow> media_link_desc \<Rightarrow> (pad_ptr \<times> pad_ptr \<times> u32) list" where
  "link_share md e d =
     (case (media_get_entity_by_id md (fst (ld_source d)), media_get_entity_by_id md (fst (ld_sink d))) of
        (Some s, Some k) \<Rightarrow>
          (let x = ((s, unat (snd (ld_source d))), (k, unat (snd (ld_sink d))), ld_flags d)
           in (if e = s then [x] else []) @ (if e = k then [x] else []))
      | _ \<Rightarrow> [])"

definition ends_ok :: "media_device \<Rightarrow> bool" where
  "ends_ok md \<longleftrightarrow> (\<forall>e < length (entities md). \<forall>l \<in> set (lnk md e). pad_at md (link_source l) \<noteq> None \<and> pad_at md (link_sink l) \<noteq> None)"

definition graph_ok :: "media_device \<Rightarrow> bool" where
  "graph_ok md \<longleftrightarrow> links_paired md \<and> ends_ok md"

lemma add_links_graph:
  assumes "add_links ok d md = Ret md'" "graph_ok md"
  shows "graph_ok md' \<and> same_nodes md md' \<and>
    (\<forall>e < length (entities md). map strip_link (lnk md' e) = map strip_link (lnk md e) @ link_share md e d)"
proof -
  obtain s k where a: "media_get_entity_by_id md (fst (ld_source d)) = Some s" "media_get_entity_by_id md (fst (ld_sink d)) = Some k"
    "pad_at md (s, unat (snd (ld_source d))) \<noteq> None" "pad_at md (k, unat (snd (ld_sink d))) \<noteq> None" "same_nodes md md'"
    "\<And>e. e < length (entities md) \<Longrightarrow>
       lnk md' e = lnk md e @ (if e = s then [fwd_link md s k d] else []) @ (if e = k then [back_link md s k d] else [])"
    using add_links_result[OF assms(1)] by metis
  have "ends_ok md'"
    using assms(2) a(3-6) same_nodes_length[OF a(5)]
    by (auto simp: ends_ok_def graph_ok_def same_nodes_pad_at[OF a(5)] fwd_link_def back_link_def split: if_splits)
  moreover have "links_paired md'" using add_links_paired[OF assms(1)] assms(2) by (simp add: graph_ok_def)
  ultimately show ?thesis
    using a by (auto simp: graph_ok_def link_share_def strip_link_def fwd_link_def back_link_def Let_def)
qed

lemma link_share_same: "same_nodes a b \<Longrightarrow> link_share b e d = link_share a e d"
  by (simp add: link_share_def same_nodes_by_id)

lemma add_all_links_graph:
  assumes "add_all_links ok ds md = Ret md'" "graph_ok md"
  shows "graph_ok md' \<and> same_nodes md md' \<and>
    (\<forall>e < length (entities md). map strip_link (lnk md' e) = map strip_link (lnk md e) @ concat (map (link_share md e) ds))"
  using assms
proof (induction ds arbitrary: md)
  case (Cons d ds)
  then obtain md1 where m: "add_links ok d md = Ret md1" "add_all_links ok ds md1 = Ret md'" by (auto split: outcome.splits)
  note g = add_links_graph[OF m(1) Cons.prems(2)]
  then show ?case
    using Cons.IH[OF m(2)] same_nodes_trans[of md md1 md'] same_nodes_length[of md md1] link_share_same[of md md1] by auto
qed (simp add: same_nodes_def)

definition same_infos :: "media_device \<Rightarrow> media_device \<Rightarrow> bool" where
  "same_infos md md' \<longleftrightarrow> media_fd md' = media_fd md \<and>
     map (\<lambda>e. (ent_info e, length (ent_pads e), ent_fd e)) (entities md') = map (\<lambda>e. (ent_info e, length (ent_pads e), ent_fd e)) (entities md)"

lemma same_infosD:
  assumes "same_infos a b"
  shows "length (entities b) = length (entities a)"
    "e < length (entities a) \<Longrightarrow> ent_info (entities b ! e) = ent_info (entities a ! e) \<and>
      length (ent_pads (entities b ! e)) = length (ent_pads (entities a ! e)) \<and> ent_fd (entities b ! e) = ent_fd (entities a ! e)"
proof -
  have m: "map (\<lambda>e. (ent_info e, length (ent_pads e), ent_fd e)) (entities b) = map (\<lambda>e. (ent_info e, length (ent_pads e), ent_fd e)) (entities a)"
    using assms by (simp add: same_infos_def)
  from arg_cong[OF m, of length] show l: "length (entities b) = length (entities a)" by simp
  show "e < length (entities a) \<Longrightarrow> ent_info (entities b ! e) = ent_info (entities a ! e) \<and>
      length (ent_pads (entities b ! e)) = length (ent_pads (entities a ! e)) \<and> ent_fd (entities b ! e) = ent_fd (entities a ! e)"
    using arg_cong[OF m, of "\<lambda>xs. xs ! e"] l by simp
qed

lemma same_nodes_infos: "same_nodes a b \<Longrightarrow> same_infos a b"
  using same_nodes_length[of a b] same_nodes_nth[of a b] by (auto simp: same_infos_def same_nodes_def intro!: nth_equalityI)

lemma same_infos_trans: "same_infos a b \<Longrightarrow> same_infos b c \<Longrightarrow> same_infos a c"
  by (simp add: same_infos_def)

lemma same_infos_by_id: "same_infos a b \<Longrightarrow> media_get_entity_by_id b i = media_get_entity_by_id a i"
proof -
  assume a: "same_infos a b"
  have "map ent_info (entities b) = map ent_info (entities a)"
    using same_infosD[OF a] by (intro nth_equalityI) auto
  from find_index_cong[OF this, of "\<lambda>d. desc_id d = i"] show ?thesis by (simp add: media_get_entity_by_id_def)
qed

lemma same_infos_pad_at: "same_infos a b \<Longrightarrow> pad_at b q \<noteq> None \<longleftrightarrow> pad_at a q \<noteq> None"
  using same_infosD[of a b] by (cases q) (auto simp: pad_at_def)

lemma link_share_infos: "same_infos a b \<Longrightarrow> link_share b = link_share a"
  by (intro ext) (simp add: link_share_def same_infos_by_id)

lemma fill_pads_graph:
  assumes "e < length (entities md)" "length (ent_pads (entities md ! e)) = desc_pads (ent_info (entities md ! e))" "graph_ok md"
  shows "graph_ok (upd_entity e (fill_pads e ps) md) \<and> same_infos md (upd_entity e (fill_pads e ps) md) \<and>
    (\<forall>x < length (entities md). lnk (upd_entity e (fill_pads e ps) md) x = lnk md x)"
proof -
  let ?md = "upd_entity e (fill_pads e ps) md"
  have l: "lnk ?md x = lnk md x" for x
    using assms(1) by (simp add: nth_upd_entity fill_pads_def)
  have s: "same_infos md ?md"
    using assms(1,2) by (auto simp: same_infos_def upd_entity_def fill_pads_def nth_list_update intro!: nth_equalityI)
  have "links_paired ?md" using assms(3) by (simp add: links_paired_def graph_ok_def l)
  moreover have "ends_ok ?md" using assms(3) same_infos_pad_at[OF s] by (simp add: ends_ok_def graph_ok_def l)
  ultimately show ?thesis using s l by (simp add: graph_ok_def)
qed

definition pads_own :: "media_device \<Rightarrow> nat \<Rightarrow> bool" where
  "pads_own md e \<longleftrightarrow> (\<forall>p \<in> set (ent_pads (entities md ! e)). pad_entity p = e)"

definition kernel_links :: "media_device \<Rightarrow> nat list \<Rightarrow> links_answer list \<Rightarrow> media_link_desc list" where
  "kernel_links md es as = concat (map (\<lambda>(e, a). out_links (entities md ! e) (snd (projr a))) (zip es as))"

definition pads_sized :: "media_device \<Rightarrow> bool" where
  "pads_sized md \<longleftrightarrow> (\<forall>e < length (entities md). length (ent_pads (entities md ! e)) = desc_pads (ent_info (entities md ! e)))"

definition errno_pos :: "int + 'a \<Rightarrow> bool" where
  "errno_pos a = (case a of Inl n \<Rightarrow> 0 < n | Inr _ \<Rightarrow> True)"

lemma same_infos_sized: "same_infos a b \<Longrightarrow> pads_sized a \<Longrightarrow> pads_sized b"
  using same_infosD[of a b] by (simp add: pads_sized_def)

lemma kernel_links_same:
  assumes "same_infos a b" "set es \<subseteq> {..<length (entities a)}"
  shows "kernel_links b es as = kernel_links a es as"
proof -
  have "out_links (entities b ! e) ls = out_links (entities a ! e) ls" if "e \<in> set es" for e ls
    using same_infosD(2)[OF assms(1), of e] assms(2) that by (auto simp: out_links_def)
  then show ?thesis
    unfolding kernel_links_def by (intro arg_cong[of _ _ concat] map_cong) (auto dest: set_zip_leftD)
qed

lemma enum_links_loop_graph:
  assumes "enum_links_loop ok as es md = Ret (r, md')" "0 \<le> r" "\<forall>a \<in> set as. errno_pos a"
    "set es \<subseteq> {..<length (entities md)}" "pads_sized md" "graph_ok md"
  shows "r = 0 \<and> graph_ok md' \<and> same_infos md md' \<and>
    (\<forall>e < length (entities md). map strip_link (lnk md' e) =
       map strip_link (lnk md e) @ concat (map (link_share md e) (kernel_links md es as))) \<and>
    (\<forall>e < length (entities md). e \<in> set es \<or> pads_own md e \<longrightarrow> pads_own md' e)"
  using assms
proof (induction ok as es md rule: enum_links_loop.induct)
  case (4 ok ps ls as e es md)
  let ?md0 = "upd_entity e (fill_pads e ps) md"
  from "4.prems"(1) obtain md1 where m: "add_all_links ok (out_links (entities md ! e) ls) ?md0 = Ret md1"
    "enum_links_loop ok as es md1 = Ret (r, md')" by (auto split: outcome.splits)
  have e: "e < length (entities md)" using "4.prems"(4) by simp
  have f: "graph_ok ?md0" "same_infos md ?md0" "\<And>x. x < length (entities md) \<Longrightarrow> lnk ?md0 x = lnk md x"
    using fill_pads_graph[OF e _ "4.prems"(6)] "4.prems"(5) e by (auto simp: pads_sized_def)
  have a: "graph_ok md1" "same_nodes ?md0 md1" "\<And>x. x < length (entities md) \<Longrightarrow> map strip_link (lnk md1 x) =
      map strip_link (lnk md x) @ concat (map (link_share md x) (out_links (entities md ! e) ls))"
    using add_all_links_graph[OF m(1) f(1)] f(3) link_share_infos[OF f(2)] by auto
  have s1: "same_infos md md1" using f(2) same_nodes_infos[OF a(2)] by (rule same_infos_trans)
  note n1 = same_infosD(1)[OF s1]
  have IH: "r = 0 \<and> graph_ok md' \<and> same_infos md1 md' \<and>
    (\<forall>e < length (entities md1). map strip_link (lnk md' e) =
       map strip_link (lnk md1 e) @ concat (map (link_share md1 e) (kernel_links md1 es as))) \<and>
    (\<forall>e < length (entities md1). e \<in> set es \<or> pads_own md1 e \<longrightarrow> pads_own md' e)"
    using "4.IH"[OF m(1,2)] "4.prems" same_infos_sized[OF s1] a(1) n1 by auto
  have es: "set es \<subseteq> {..<length (entities md)}" using "4.prems"(4) by simp
  have k: "kernel_links md (e # es) (Inr (ps, ls) # as) = out_links (entities md ! e) ls @ kernel_links md es as"
    by (simp add: kernel_links_def)
  have own: "pads_own md1 x" if "x < length (entities md)" "x = e \<or> pads_own md x" for x
  proof -
    have "ent_pads (entities md1 ! x) = ent_pads (entities ?md0 ! x)"
      using same_nodes_nth(2)[OF a(2)] that(1) by simp
    then show ?thesis using that e by (auto simp: pads_own_def nth_upd_entity fill_pads_def split: prod.splits)
  qed
  show ?case
    using IH own a(3) n1 kernel_links_same[OF s1 es] link_share_infos[OF s1] same_infos_trans[OF s1]
    by (auto simp: k)
qed (auto simp: kernel_links_def errno_pos_def same_infos_def)

lemma enum_entities_result:
  assumes "media_enum_entities env as md = Ret (r, md')" "0 \<le> r" "\<forall>a \<in> set as. errno_pos a"
  shows "r = 0 \<and> media_fd md' = media_fd md \<and> (\<exists>new. entities md' = entities md @ new \<and>
    map ent_info new = map (\<lambda>a. fst (projr a)) (takeWhile (\<lambda>a. \<not> isl a) as) \<and>
    (\<forall>en \<in> set new. ent_links en = [] \<and> length (ent_pads en) = desc_pads (ent_info en) \<and> ent_fd en = - 1))"
  using assms
proof (induction env as md rule: media_enum_entities.induct)
  case (3 env d malloc_ok as md)
  from "3.prems"(1,2) obtain devname where d: "malloc_ok" "entity_devname env d = Ret devname"
    "media_enum_entities env as (md\<lparr>entities := entities md @ [new_entity d devname]\<rparr>) = Ret (r, md')"
    by (auto split: if_splits outcome.splits)
  obtain new where "r = 0" "media_fd md' = media_fd md" "entities md' = entities md @ new_entity d devname # new"
    "map ent_info new = map (\<lambda>a. fst (projr a)) (takeWhile (\<lambda>a. \<not> isl a) as)"
    "\<forall>en \<in> set new. ent_links en = [] \<and> length (ent_pads en) = desc_pads (ent_info en) \<and> ent_fd en = - 1"
    using "3.IH"[of devname] d "3.prems" by (auto simp: errno_pos_def)
  then show ?case by (intro conjI exI[of _ "new_entity d devname # new"]) (auto simp: new_entity_def)
qed (auto simp: errno_pos_def split: if_splits)

lemma close_unopened: "\<forall>en \<in> set (entities md). ent_fd en = - 1 \<Longrightarrow> media_fd md \<noteq> - 1 \<Longrightarrow> media_close md fds = remove1 (media_fd md) fds"
proof -
  assume a: "\<forall>en \<in> set (entities md). ent_fd en = - 1" "media_fd md \<noteq> - 1"
  have "fold (\<lambda>e fds. if ent_fd e \<noteq> - 1 then remove1 (ent_fd e) fds else fds) ens fds' = fds'"
    if "\<forall>en \<in> set ens. ent_fd en = - 1" for ens and fds' :: "int list"
    using that by (induction ens arbitrary: fds') auto
  with a show ?thesis by (simp add: media_close_def)
qed

definition all_pads_own :: "media_device \<Rightarrow> bool" where
  "all_pads_own md \<longleftrightarrow> (\<forall>e < length (entities md). pads_own md e)"

definition unopened :: "media_device \<Rightarrow> bool" where
  "unopened md \<longleftrightarrow> (\<forall>en \<in> set (entities md). ent_fd en = - 1)"

lemma unopened_infos: "same_infos a b \<Longrightarrow> unopened a \<Longrightarrow> unopened b"
  using same_infosD[of a b] by (metis in_set_conv_nth unopened_def)

lemma add_all_links_unopened: "add_all_links ok ds md = Ret md' \<Longrightarrow> unopened md \<Longrightarrow> unopened md' \<and> media_fd md' = media_fd md"
proof (induction ds arbitrary: md)
  case (Cons d ds)
  then obtain md1 where m: "add_links ok d md = Ret md1" "add_all_links ok ds md1 = Ret md'" by (auto split: outcome.splits)
  have "same_nodes md md1" using add_links_result[OF m(1)] by metis
  then show ?case using Cons.IH[OF m(2)] Cons.prems(2) unopened_infos[OF same_nodes_infos] by (auto simp: same_nodes_def)
qed simp

lemma unopened_upd: "unopened md \<Longrightarrow> unopened (upd_entity e (fill_pads e ps) md)"
proof (cases "e < length (entities md)")
  case True
  moreover assume "unopened md"
  ultimately show ?thesis
    using set_update_subset_insert[of "entities md" e] by (fastforce simp: unopened_def upd_entity_def fill_pads_def)
qed (simp add: unopened_def upd_entity_def list_update_beyond)

lemma enum_links_unopened: "enum_links_loop ok as es md = Ret (r, md') \<Longrightarrow> unopened md \<Longrightarrow> unopened md' \<and> media_fd md' = media_fd md"
proof (induction ok as es md rule: enum_links_loop.induct)
  case (4 ok ps ls as e es md)
  then obtain md1 where m: "add_all_links ok (out_links (entities md ! e) ls) (upd_entity e (fill_pads e ps) md) = Ret md1"
    "enum_links_loop ok as es md1 = Ret (r, md')" by (auto split: outcome.splits)
  show ?case
    using "4.IH"[OF m] add_all_links_unopened[OF m(1) unopened_upd[OF "4.prems"(2)]] by (simp add: upd_entity_def)
qed auto

lemma enum_entities_unopened: "media_enum_entities env as md = Ret (r, md') \<Longrightarrow> unopened md \<Longrightarrow> unopened md' \<and> media_fd md' = media_fd md"
proof (induction env as md rule: media_enum_entities.induct)
  case (3 env d malloc_ok as md)
  show ?case
  proof (cases "malloc_ok")
    case True
    then obtain devname where "entity_devname env d = Ret devname"
      "media_enum_entities env as (md\<lparr>entities := entities md @ [new_entity d devname]\<rparr>) = Ret (r, md')"
      using "3.prems"(1) by (auto split: outcome.splits)
    then show ?thesis using "3.IH"[of devname] "3.prems"(2) True by (auto simp: unopened_def new_entity_def)
  qed (use "3.prems" in auto)
qed auto

lemma media_open_builds:
  assumes "media_open env fds = Ret (res, fds')" "- 1 \<le> media_open_ret env"
    "\<forall>a \<in> set (ent_answers env). errno_pos a" "\<forall>a \<in> set (link_answers env). errno_pos a"
  shows "case res of
      None \<Rightarrow> fds' = fds
    | Some md \<Rightarrow> fds' = media_open_ret env # fds \<and> media_fd md = media_open_ret env \<and>
        map ent_info (entities md) = map (\<lambda>a. fst (projr a)) (takeWhile (\<lambda>a. \<not> isl a) (ent_answers env)) \<and>
        graph_ok md \<and> all_pads_own md \<and> pads_sized md \<and>
        (\<forall>e < length (entities md). map strip_link (lnk md e) =
           concat (map (link_share md e) (kernel_links md [0..<length (entities md)] (link_answers env))))"
proof (cases "media_malloc_ok env \<and> \<not> media_open_ret env < 0 \<and> \<not> media_info_ret env < 0")
  case False
  then show ?thesis using assms(1,2) by (auto simp: media_open_def media_close_def Let_def split: if_splits)
next
  case True
  let ?md = "\<lparr>media_fd = media_open_ret env, entities = []\<rparr>"
  from assms(1) True obtain r1 md1 where e: "media_enum_entities env (ent_answers env) ?md = Ret (r1, md1)"
    by (auto simp: media_open_def Let_def split: outcome.splits)
  have u1: "unopened md1 \<and> media_fd md1 = media_open_ret env" using enum_entities_unopened[OF e] by (simp add: unopened_def)
  show ?thesis
  proof (cases "r1 < 0")
    case neg: True
    then show ?thesis
      using assms(1) True e u1 close_unopened[of md1] by (auto simp: media_open_def Let_def unopened_def)
  next
    case r1: False
    from assms(1) True e r1 obtain r2 md2 where l: "media_enum_links (media_realloc_ok env) (link_answers env) md1 = Ret (r2, md2)"
      by (auto simp: media_open_def Let_def split: outcome.splits)
    have u2: "unopened md2 \<and> media_fd md2 = media_open_ret env"
      using enum_links_unopened[OF l[unfolded media_enum_links_def]] u1 by simp
    have res: "res = (if r2 < 0 then None else Some md2)" "fds' = (if r2 < 0 then fds else media_open_ret env # fds)"
      using assms(1) True e r1 l u2 close_unopened[of md2] by (auto simp: media_open_def Let_def unopened_def split: if_splits)
    have m1: "map ent_info (entities md1) = map (\<lambda>a. fst (projr a)) (takeWhile (\<lambda>a. \<not> isl a) (ent_answers env))"
      "pads_sized md1" "\<forall>e < length (entities md1). lnk md1 e = []" "graph_ok md1"
      using enum_entities_result[OF e _ assms(3)] r1
      by (auto simp: pads_sized_def graph_ok_def links_paired_def ends_ok_def)
    show ?thesis
    proof (cases "r2 < 0")
      case False
      have "r2 = 0 \<and> graph_ok md2 \<and> same_infos md1 md2 \<and>
        (\<forall>e < length (entities md1). map strip_link (lnk md2 e) = map strip_link (lnk md1 e) @
           concat (map (link_share md1 e) (kernel_links md1 [0..<length (entities md1)] (link_answers env)))) \<and>
        (\<forall>e < length (entities md1). e \<in> set [0..<length (entities md1)] \<or> pads_own md1 e \<longrightarrow> pads_own md2 e)"
        using l False assms(4) m1(2,4) by (intro enum_links_loop_graph[of "media_realloc_ok env"]) (auto simp: media_enum_links_def)
      then have g: "graph_ok md2" "same_infos md1 md2" "\<And>e. e < length (entities md1) \<Longrightarrow> map strip_link (lnk md2 e) =
           concat (map (link_share md1 e) (kernel_links md1 [0..<length (entities md1)] (link_answers env)))"
        "\<And>e. e < length (entities md1) \<Longrightarrow> pads_own md2 e" using m1(3) by auto
      have i: "map ent_info (entities md2) = map ent_info (entities md1)"
        using same_infosD[OF g(2)] by (intro nth_equalityI) auto
      have k: "kernel_links md2 [0..<length (entities md1)] (link_answers env) = kernel_links md1 [0..<length (entities md1)] (link_answers env)"
        by (intro kernel_links_same[OF g(2)]) auto
      show ?thesis
        using False res u2 g i k m1(1) same_infosD(1)[OF g(2)] same_infos_sized[OF g(2) m1(2)] link_share_infos[OF g(2)]
        by (auto simp: all_pads_own_def)
    qed (use res in simp)
  qed
qed


definition demo_media_env :: media_env where
  "demo_media_env =
     \<lparr>sys_readlink = (\<lambda>_. Some ''../../video0''), dev_stat = (\<lambda>_. Some (81, 0)), media_malloc_ok = True, media_open_ret = 7, media_info_ret = 0,
      ent_answers = [
        Inr (\<lparr>desc_id = 1, desc_name = ''gc5025_mipi'', desc_type = 0x20001, desc_pads = 1, desc_links = 1, desc_major = 81, desc_minor = 1\<rparr>, True),
        Inr (\<lparr>desc_id = 2, desc_name = ''sunxi_isp.0'', desc_type = 0x20000, desc_pads = 2, desc_links = 1, desc_major = 81, desc_minor = 2\<rparr>, True),
        Inr (\<lparr>desc_id = 3, desc_name = ''vin_video0'', desc_type = 0x10001, desc_pads = 1, desc_links = 0, desc_major = 81, desc_minor = 0\<rparr>, True),
        Inl 22],
      link_answers = [
        Inr ([(0, 2)], [\<lparr>ld_source = (1, 0), ld_sink = (2, 0), ld_flags = 3\<rparr>]),
        Inr ([(0, 1), (1, 2)], [\<lparr>ld_source = (2, 1), ld_sink = (3, 0), ld_flags = 1\<rparr>]),
        Inr ([(0, 1)], [])],
      media_realloc_ok = True\<rparr>"

definition demo_media :: media_device where
  "demo_media = (case media_open demo_media_env [] of Ret (Some md, _) \<Rightarrow> md | _ \<Rightarrow> \<lparr>media_fd = - 1, entities = []\<rparr>)"

lemma demo_media_open: "media_open demo_media_env [] = Ret (Some demo_media, [7])"
  by code_simp


section \<open>From a node to its ISP and its sensor\<close>

text \<open>\<open>feeds md e e'\<close>: the first pad of \<open>e\<close> is a sink, and an enabled link brings it the data of \<open>e'\<close>.\<close>

definition feeds :: "media_device \<Rightarrow> nat \<Rightarrow> nat \<Rightarrow> bool" where
  "feeds md e e' \<longleftrightarrow> e < length (entities md) \<and> (case pad_at md (e, 0) of None \<Rightarrow> False | Some pd \<Rightarrow> \<not> pad_is_source pd) \<and>
     (\<exists>l \<in> set (lnk md e). link_on l \<and> link_sink l = (e, 0) \<and> fst (link_source l) = e')"

text \<open>What the header of \<open>media.c\<close> relies on: at most one enabled link at the first pad of an entity.\<close>

definition one_link_on :: "media_device \<Rightarrow> bool" where
  "one_link_on md \<longleftrightarrow> (\<forall>e < length (entities md).
     length (filter (\<lambda>l. link_on l \<and> (link_source l = (e, 0) \<or> link_sink l = (e, 0))) (lnk md e)) \<le> 1)"

lemma remote_in_unique:
  assumes "length (filter (\<lambda>l. link_on l \<and> (link_source l = q \<or> link_sink l = q)) ls) \<le> 1"
    "l \<in> set ls" "link_on l" "link_sink l = q" "link_source l \<noteq> q"
  shows "remote_in q ls = Some (link_source l)"
  using assms
proof (induction ls)
  case (Cons x xs)
  show ?case
  proof (cases "link_on x \<and> (link_source x = q \<or> link_sink x = q)")
    case True
    then have "filter (\<lambda>l. link_on l \<and> (link_source l = q \<or> link_sink l = q)) xs = []" using Cons.prems(1) by simp
    then have "l = x" using Cons.prems by (auto simp: filter_empty_conv)
    then show ?thesis using Cons.prems by simp
  next
    case False
    then have "remote_in q (x # xs) = remote_in q xs" by auto
    moreover have "l \<noteq> x" using False Cons.prems by auto
    ultimately show ?thesis using Cons False by auto
  qed
qed simp

lemma feeds_remote:
  assumes "graph_ok md" "all_pads_own md" "one_link_on md" "feeds md e e'" "e \<noteq> e'"
  obtains pd q p where "pad_at md (e, 0) = Some pd" "\<not> pad_is_source pd" "media_entity_remote_source md (e, 0) = Ret (Some q)"
    "pad_at md q = Some p" "pad_entity p = e'" "e' < length (entities md)"
proof -
  from assms(4) obtain pd l where f: "e < length (entities md)" "pad_at md (e, 0) = Some pd" "\<not> pad_is_source pd"
    "l \<in> set (lnk md e)" "link_on l" "link_sink l = (e, 0)" "fst (link_source l) = e'" by (auto simp: feeds_def split: option.splits)
  have own: "pad_entity p = x" if "pad_at md (x, i) = Some p" for x i p
    using assms(2) that by (auto simp: all_pads_own_def pads_own_def pad_at_def split: if_splits)
  have "remote_in (e, 0) (lnk md e) = Some (link_source l)"
    using assms(3,5) f by (intro remote_in_unique) (auto simp: one_link_on_def)
  then have r: "media_entity_remote_source md (e, 0) = Ret (Some (link_source l))"
    using f(1,2) own[OF f(2)] by (simp add: media_entity_remote_source_def)
  obtain p where p: "pad_at md (link_source l) = Some p" using assms(1) f(1,4) by (auto simp: graph_ok_def ends_ok_def)
  then have "pad_entity p = e'" "e' < length (entities md)"
    using own[of e' "snd (link_source l)" p] f(7) by (auto simp: pad_at_def split: if_splits prod.splits)
  then show thesis using that f r p by blast
qed

lemma next_up_feeds:
  assumes "graph_ok md" "all_pads_own md" "one_link_on md" "feeds md e e'" "e \<noteq> e'" "stop (entities md ! e') = None"
  shows "next_up stop md e = Some e'"
  by (rule feeds_remote[OF assms(1-5)]) (simp add: next_up_def assms(6))

lemma walk_up_stops:
  assumes "graph_ok md" "all_pads_own md" "one_link_on md" "feeds md e e'" "e \<noteq> e'" "stop (entities md ! e') = Some r"
  shows "walk_up stop f g md (Suc n) e = r"
  by (rule feeds_remote[OF assms(1-5)]) (simp add: assms(6))

lemma walk_up_path:
  assumes g: "graph_ok md" "all_pads_own md" "one_link_on md" and stop: "\<And>x. stop x \<noteq> Some Blocks"
    and path: "(\<lambda>a b. feeds md a b \<and> a \<noteq> b \<and> stop (entities md ! b) = None)\<^sup>*\<^sup>* e s"
    and last: "walk_up stop f g' md 1 s = Ret r" and ne: "entities md \<noteq> []"
  shows "walk_up stop f g' md (length (entities md)) e = Ret r"
proof -
  have "\<exists>k. walk_up stop f g' md k e = Ret r"
    using path
  proof (induction rule: converse_rtranclp_induct)
    case base
    then show ?case using last by blast
  next
    case (step a b)
    then obtain k where "walk_up stop f g' md k b = Ret r" by blast
    moreover have "next_up stop md a = Some b"
      by (rule next_up_feeds[OF g]) (use step(1) in auto)
    ultimately have "walk_up stop f g' md (Suc k) a = Ret r" using walk_up_goes_on by metis
    then show ?case by blast
  qed
  then obtain k where k: "walk_up stop f g' md k e = Ret r" by blast
  have nb: "walk_up stop f g' md (length (entities md)) e \<noteq> Blocks"
    using walk_up_bound(1)[of stop md f g' e k] stop ne k by (metis outcome.distinct(3))
  show ?thesis
  proof (cases "k \<le> length (entities md)")
    case True
    then show ?thesis using walk_up_fuel[OF k _ True stop] by simp
  next
    case False
    then show ?thesis using walk_up_bound(2)[of stop md f g' e k] stop ne nb k by simp
  qed
qed

lemma pipeline_head:
  assumes "graph_ok md" "all_pads_own md" "one_link_on md"
    and "(\<lambda>a b. feeds md a b \<and> a \<noteq> b)\<^sup>*\<^sup>* e s" "pad_at md (s, 0) = Some pd" "pad_is_source pd"
    and "desc_type (ent_info (entities md ! s)) = MEDIA_ENT_T_V4L2_SUBDEV_SENSOR"
  shows "media_pipeline_get_head md e = Ret (Some s)"
proof -
  have ne: "entities md \<noteq> []" using assms(5) by (auto simp: pad_at_def split: if_splits)
  have "walk_up (\<lambda>_. None) (\<lambda>e. e) (\<lambda>e. e) md (length (entities md)) e = Ret s"
    using assms(4-6) ne by (intro walk_up_path[OF assms(1-3), where s = s]) simp_all
  then show ?thesis using assms(7) by (simp add: media_pipeline_get_head_def)
qed

text \<open>
  C24. The sensor of a pipeline: if data comes to a node from entity to entity and its first producer is a sensor, whose first pad is a source, then \<open>media_pipeline_get_head\<close> finds
  that sensor and no other, however long the pipeline is.
\<close>

theorem pipeline_head_found:
  assumes "graph_ok md" "all_pads_own md" "one_link_on md"
    and "(\<lambda>a b. feeds md a b \<and> a \<noteq> b)\<^sup>*\<^sup>* e s" "pad_at md (s, 0) = Some pd" "pad_is_source pd"
    and "desc_type (ent_info (entities md ! s)) = MEDIA_ENT_T_V4L2_SUBDEV_SENSOR"
  shows "media_pipeline_get_head md e = Ret (Some s)"
  using assms by (rule pipeline_head)

lemma demo_media_ok: "graph_ok demo_media \<and> all_pads_own demo_media"
  using media_open_builds[OF demo_media_open] by (simp add: demo_media_env_def errno_pos_def)

lemma demo_feeds: "feeds demo_media 2 1" "feeds demo_media 1 0"
  by code_simp+

theorem pipeline_head_found_witness: "media_pipeline_get_head demo_media 2 = Ret (Some 0)"
proof (rule pipeline_head_found[where pd = "\<lparr>pad_entity = 0, pad_index = 0, pad_flags = 2\<rparr>"])
  show "(\<lambda>a b. feeds demo_media a b \<and> a \<noteq> b)\<^sup>*\<^sup>* 2 0"
    using demo_feeds by (intro converse_rtranclp_into_rtranclp[of _ 2 1] r_into_rtranclp) simp_all
  show "one_link_on demo_media" "pad_at demo_media (0, 0) = Some \<lparr>pad_entity = 0, pad_index = 0, pad_flags = 2\<rparr>"
    "desc_type (ent_info (entities demo_media ! 0)) = MEDIA_ENT_T_V4L2_SUBDEV_SENSOR"
    by code_simp+
qed (use demo_media_ok in \<open>simp_all add: pad_is_source_def MEDIA_PAD_FL_SOURCE_def\<close>)


definition demo_ring :: media_device where
  "demo_ring = \<lparr>media_fd = 3, entities = map (\<lambda>(i, j). \<lparr>ent_info = \<lparr>desc_id = of_nat i + 1, desc_name = ''scaler'', desc_type = 0x20000,
       desc_pads = 2, desc_links = 1, desc_major = 81, desc_minor = of_nat i\<rparr>,
     ent_pads = [\<lparr>pad_entity = i, pad_index = 0, pad_flags = 1\<rparr>, \<lparr>pad_entity = i, pad_index = 1, pad_flags = 2\<rparr>],
     ent_links = [\<lparr>link_source = (i, 1), link_sink = (j, 0), link_reverse = (j, 1), link_flags = 1\<rparr>,
       \<lparr>link_source = (j, 1), link_sink = (i, 0), link_reverse = (j, 0), link_flags = 1\<rparr>],
     max_links = 3, ent_devname = [], ent_fd = - 1\<rparr>) [(0, 1), (1, 0)]\<rparr>"


lemma video_isp:
  assumes "graph_ok md" "all_pads_own md" "one_link_on md"
    and "(\<lambda>a b. feeds md a b \<and> a \<noteq> b \<and> take 9 (desc_name (ent_info (entities md ! b))) \<noteq> ''sunxi_isp'')\<^sup>*\<^sup>* v a"
    and "feeds md a i" "a \<noteq> i" "desc_name (ent_info (entities md ! i)) = ''sunxi_isp.'' @ fmt_u w" "uint w < 2 ^ 31"
  shows "media_video_to_isp_id md v = Ret (uint w)"
proof -
  let ?stop = "id_in_name ''sunxi_isp.''"
  have none: "?stop x = None \<longleftrightarrow> take 9 (desc_name (ent_info x)) \<noteq> ''sunxi_isp''" for x
    by (simp add: id_in_name_def)
  have "scan_d (fmt_u w) = Some (uint w)" using scan_d_fmt_d[of "[]" "int (unat w)"] by (simp add: fmt_d_def fmt_u_def)
  moreover have r: "- (2 ^ 31) \<le> uint w" by (rule order_trans[OF _ uint_ge_0]) simp
  ultimately have found: "?stop (entities md ! i) = Some (Ret (uint w))" using assms(7,8) r by (simp add: id_in_name_def)
  have nb: "?stop x \<noteq> Some Blocks" for x by (auto simp: id_in_name_def split: option.splits)
  have ne: "entities md \<noteq> []" using assms(5) by (auto simp: feeds_def)
  have one: "walk_up ?stop (\<lambda>_. - 1) (\<lambda>_. - 1) md 1 a = Ret (uint w)"
    using walk_up_stops[where stop = ?stop and n = 0, OF assms(1-3,5,6) found] by (simp only: One_nat_def)
  show ?thesis
    unfolding media_video_to_isp_id_def using assms(4)
    by (intro walk_up_path[OF assms(1-3) nb _ one ne]) (simp only: none)
qed

text \<open>
  The ISP of a video node: the first entity on the way up whose name is that of an ISP gives the number in its name, the number
  under which \<open>isp_subdev_open\<close> and \<open>isp_stat_open\<close> look for the device.
\<close>

theorem video_isp_number:
  assumes "graph_ok md" "all_pads_own md" "one_link_on md"
    and "(\<lambda>a b. feeds md a b \<and> a \<noteq> b \<and> take 9 (desc_name (ent_info (entities md ! b))) \<noteq> ''sunxi_isp'')\<^sup>*\<^sup>* v a"
    and "feeds md a i" "a \<noteq> i" "desc_name (ent_info (entities md ! i)) = ''sunxi_isp.'' @ fmt_u w" "uint w < 2 ^ 31"
  shows "media_video_to_isp_id md v = Ret (uint w)"
  using assms by (rule video_isp)

theorem video_isp_number_witness: "media_video_to_isp_id demo_media 2 = Ret 0"
proof -
  have "one_link_on demo_media" "desc_name (ent_info (entities demo_media ! 1)) = ''sunxi_isp.'' @ fmt_u 0"
    by code_simp+
  then show ?thesis
    using video_isp_number[of demo_media 2 2 1 0] demo_media_ok demo_feeds(1) by simp
qed

section \<open>Resetting the links\<close>

lemma setup_link_frame:
  assumes "media_setup_link r q k f md = Ret (ret, u, md')" "all_pads_own md" "e < length (entities md)" "j < length (lnk md e)"
    "fst (link_source (lnk md e ! j)) \<noteq> e"
  shows "lnk md' e ! j = lnk md e ! j"
proof -
  from assms(1) obtain sp sk where p: "pad_at md q = Some sp" "pad_at md k = Some sk"
    by (auto simp: media_setup_link_def split: option.splits prod.splits)
  consider "md' = md" | i where "find_index (link_joins md sp sk) (lnk md (pad_entity sp)) = Some i"
    "md' = upd_entity (pad_entity sp) (\<lambda>en. en\<lparr>ent_links := (ent_links en)[i := (ent_links en ! i)\<lparr>link_flags := f\<rparr>]\<rparr>) md"
    using assms(1) p by (auto simp: media_setup_link_def Let_def split: option.splits if_splits)
  then show ?thesis
  proof cases
    case 2
    have "pad_entity sp < length (entities md)"
      using assms(2) p(1) by (cases q) (auto simp: all_pads_own_def pads_own_def pad_at_def split: if_splits)
    moreover have "pad_entity sp \<noteq> e \<or> i \<noteq> j"
    proof (rule ccontr)
      assume "\<not> (pad_entity sp \<noteq> e \<or> i \<noteq> j)"
      with find_index_Some[OF 2(1)] have "link_joins md sp sk (lnk md e ! j)" "pad_entity sp = e" by auto
      then have "fst (link_source (lnk md e ! j)) = e"
        using assms(2) by (cases "link_source (lnk md e ! j)")
          (auto simp: link_joins_def all_pads_own_def pads_own_def pad_at_def split: option.splits if_splits)
      then show False using assms(5) by simp
    qed
    ultimately show ?thesis using 2(2) by (auto simp: nth_upd_entity nth_list_update)
  qed simp
qed

lemma setup_link_keeps:
  assumes "media_setup_link r q k f md = Ret (ret, u, md')" "all_pads_own md"
  shows "same_nodes md md' \<and> (\<forall>e. length (lnk md' e) = length (lnk md e)) \<and>
    (\<forall>e < length (entities md). \<forall>j. link_source (lnk md' e ! j) = link_source (lnk md e ! j) \<and> link_sink (lnk md' e ! j) = link_sink (lnk md e ! j))"
proof -
  from assms(1) obtain sp sk where p: "pad_at md q = Some sp" "pad_at md k = Some sk"
    by (auto simp: media_setup_link_def split: option.splits prod.splits)
  have s: "pad_entity sp < length (entities md)"
    using assms(2) p(1) by (cases q) (auto simp: all_pads_own_def pads_own_def pad_at_def split: if_splits)
  consider "md' = md" | i where "find_index (link_joins md sp sk) (lnk md (pad_entity sp)) = Some i"
    "md' = upd_entity (pad_entity sp) (\<lambda>en. en\<lparr>ent_links := (ent_links en)[i := (ent_links en ! i)\<lparr>link_flags := f\<rparr>]\<rparr>) md"
    using assms(1) p by (auto simp: media_setup_link_def Let_def split: option.splits if_splits)
  then show ?thesis
  proof cases
    case 2
    have "same_nodes md md'" unfolding 2(2) using s by (intro same_nodes_upd) simp_all
    then show ?thesis using s find_index_Some[OF 2(1)] by (auto simp: 2(2) nth_upd_entity nth_list_update)
  qed (simp add: same_nodes_def)
qed

lemma all_pads_own_same: "same_nodes a b \<Longrightarrow> all_pads_own a \<Longrightarrow> all_pads_own b"
  using same_nodes_length[of a b] same_nodes_nth(2)[of a b] by (simp add: all_pads_own_def pads_own_def)

lemma reset_loop_frame:
  assumes "reset_loop rets ejs md = Ret (r, md')" "all_pads_own md"
  shows "same_nodes md md' \<and> (\<forall>e. length (lnk md' e) = length (lnk md e)) \<and>
    (\<forall>e < length (entities md). \<forall>j < length (lnk md e). fst (link_source (lnk md e ! j)) \<noteq> e \<longrightarrow> lnk md' e ! j = lnk md e ! j)"
  using assms
proof (induction ejs arbitrary: rets md)
  case (Cons ej ejs)
  obtain e j where ej: "ej = (e, j)" by force
  let ?l = "lnk md e ! j"
  obtain sp where sp: "pad_at md (link_source ?l) = Some sp" using Cons.prems(1) ej by (auto simp: Let_def split: option.splits)
  show ?case
  proof (cases "link_fixed ?l \<or> pad_entity sp \<noteq> e")
    case True
    then have "reset_loop rets ejs md = Ret (r, md')" using Cons.prems(1) ej sp by (simp add: Let_def)
    then show ?thesis using Cons.IH Cons.prems(2) by blast
  next
    case False
    then obtain r1 rs r2 u md1 where m: "rets = r1 # rs"
      "media_setup_link r1 (link_source ?l) (link_sink ?l) (link_flags ?l AND NOT MEDIA_LNK_FL_ENABLED) md = Ret (r2, u, md1)"
      "r2 < 0 \<and> md' = md1 \<or> reset_loop rs ejs md1 = Ret (r, md')"
      using Cons.prems(1) ej sp by (auto simp: Let_def split: list.splits outcome.splits if_splits)
    note k = setup_link_keeps[OF m(2) Cons.prems(2)]
    have fr: "lnk md1 x ! y = lnk md x ! y" if "x < length (entities md)" "y < length (lnk md x)" "fst (link_source (lnk md x ! y)) \<noteq> x" for x y
      using setup_link_frame[OF m(2) Cons.prems(2) that] .
    from m(3) show ?thesis
    proof
      assume "r2 < 0 \<and> md' = md1"
      then show ?thesis using k fr by auto
    next
      assume "reset_loop rs ejs md1 = Ret (r, md')"
      from Cons.IH[OF this all_pads_own_same[OF _ Cons.prems(2)]] k
      show ?thesis using fr same_nodes_length[of md md1] same_nodes_trans[of md md1 md'] by auto
    qed
  qed
qed (simp add: same_nodes_def)

text \<open>
  \<open>media_reset_links\<close> does not disconnect a node from what feeds it: the flags are cleared in the link at the source and not in its twin at the sink, so a node with
  incoming links only, such as a video node, is still shown its producer after a successful reset (and after \<open>media_setup_link\<close> has switched the link off).
\<close>

theorem reset_leaves_incoming_links:
  assumes "media_reset_links rets md = Ret (r, md')" "all_pads_own md" "e < length (entities md)"
    "\<forall>l \<in> set (lnk md e). fst (link_source l) \<noteq> e"
  shows "media_entity_remote_source md' (e, p) = media_entity_remote_source md (e, p)"
proof -
  have f: "same_nodes md md'" "length (lnk md' e) = length (lnk md e)" "\<And>j. j < length (lnk md e) \<Longrightarrow> lnk md' e ! j = lnk md e ! j"
    using reset_loop_frame[OF assms(1)[unfolded media_reset_links_def] assms(2)] assms(3,4) by auto
  have l: "lnk md' e = lnk md e" using f(2,3) by (intro nth_equalityI) auto
  show ?thesis
  proof (cases "pad_at md (e, p)")
    case (Some pd)
    then have "pad_entity pd = e" using assms(2) by (auto simp: all_pads_own_def pads_own_def pad_at_def split: if_splits)
    then show ?thesis using Some l same_nodes_pad_at[OF f(1)] same_nodes_length[OF f(1)] by (simp add: media_entity_remote_source_def)
  qed (simp add: media_entity_remote_source_def same_nodes_pad_at[OF f(1)])
qed

theorem reset_leaves_incoming_links_witness:
  "\<exists>md'. media_reset_links [0] demo_media = Ret (0, md') \<and>
     media_entity_remote_source md' (2, 0) = media_entity_remote_source demo_media (2, 0) \<and>
     media_entity_remote_source demo_media (2, 0) = Ret (Some (1, 1))"
proof -
  define md' where "md' = (case media_reset_links [0] demo_media of Ret (_, m) \<Rightarrow> m | _ \<Rightarrow> demo_media)"
  have r: "media_reset_links [0] demo_media = Ret (0, md')" unfolding md'_def by code_simp
  have "2 < length (entities demo_media)" "\<forall>l \<in> set (lnk demo_media 2). fst (link_source l) \<noteq> 2"
    "media_entity_remote_source demo_media (2, 0) = Ret (Some (1, 1))"
    by code_simp+
  then show ?thesis
    using r reset_leaves_incoming_links[OF r _ _ , of 2 0] demo_media_ok by blast
qed

end
