(* ===== verification/DeviceNodes.thy ===== *)
theory DeviceNodes
  imports MediaGraph
begin

text \<open>
  The device nodes of \<open>isp_dev/isp_dev.c\<close> and \<open>isp_dev/isp_v4l2_helper.c\<close> on the media graph: finding and opening the nodes of an ISP (statistics, ISP, sensor), the
  questions about a video node (its ISP, its sensor), and what the two callbacks make of a dequeued event. \<open>open_of\<close> answers \<open>open\<close> on a device name: a descriptor, or the negative
  error number. The theory fills in the results that the life cycle in \<open>IspDevice\<close> takes from its environment.
\<close>

section \<open>Subdevices\<close>

definition v4l2_subdev_open :: "(string \<Rightarrow> int) \<Rightarrow> media_entity \<Rightarrow> int \<times> media_entity" where
  "v4l2_subdev_open open_of en =
     (if ent_fd en \<noteq> - 1 then (0, en)
      else if open_of (ent_devname en) < 0 then (open_of (ent_devname en), en)
      else (0, en\<lparr>ent_fd := open_of (ent_devname en)\<rparr>))"

definition v4l2_subdev_close :: "media_entity \<Rightarrow> int list \<Rightarrow> media_entity \<times> int list" where
  "v4l2_subdev_close en fds = (if ent_fd en = - 1 then (en, fds) else (en\<lparr>ent_fd := - 1\<rparr>, remove1 (ent_fd en) fds))"

text \<open>Controls: \<open>ans\<close> is what the \<open>ioctl\<close> answers for a control \<open>cid\<close>, an error number or the values it leaves behind.\<close>

definition v4l2_get_control :: "(u32 \<Rightarrow> int + int) \<Rightarrow> media_entity \<Rightarrow> u32 \<Rightarrow> int \<Rightarrow> int \<times> int" where
  "v4l2_get_control ans en cid val =
     (if ent_fd en = - 1 then (- 1, val) else case ans cid of Inl errno \<Rightarrow> (- errno, val) | Inr v \<Rightarrow> (0, v))"

definition v4l2_set_control :: "(u32 \<Rightarrow> int \<Rightarrow> int + int) \<Rightarrow> media_entity \<Rightarrow> u32 \<Rightarrow> int \<Rightarrow> int \<times> int" where
  "v4l2_set_control ans en cid val =
     (if ent_fd en = - 1 then (- 1, val) else case ans cid val of Inl errno \<Rightarrow> (- errno, val) | Inr v \<Rightarrow> (0, v))"

definition v4l2_get_controls :: "int \<times> 'c list \<Rightarrow> media_entity \<Rightarrow> 'c list \<Rightarrow> int \<times> 'c list" where
  "v4l2_get_controls ans en ctrls = (if ent_fd en = - 1 then (- 1, ctrls) else ans)"

definition v4l2_set_controls :: "('c list \<Rightarrow> int \<times> 'c list) \<Rightarrow> media_entity \<Rightarrow> 'c list \<Rightarrow> int \<times> 'c list" where
  "v4l2_set_controls ans en ctrls = (if ent_fd en = - 1 then (- 1, ctrls) else ans ctrls)"

section \<open>The nodes of an ISP\<close>

definition snprintf32 :: "string \<Rightarrow> string" where
  "snprintf32 s = take 31 s"

definition open_by_name :: "(string \<Rightarrow> int) \<Rightarrow> media_device \<Rightarrow> string \<Rightarrow> int \<times> (nat \<times> media_entity) option" where
  "open_by_name open_of md name =
     (case media_get_entity_by_name md name of
        None \<Rightarrow> (- 2, None)
      | Some e \<Rightarrow> (case v4l2_subdev_open open_of (entities md ! e) of (ret, en) \<Rightarrow> (ret, Some (e, en))))"

definition isp_subdev_open :: "(string \<Rightarrow> int) \<Rightarrow> media_device \<Rightarrow> u32 \<Rightarrow> int \<times> (nat \<times> media_entity) option" where
  "isp_subdev_open open_of md i = open_by_name open_of md (snprintf32 (''sunxi_isp.'' @ fmt_u i))"

definition isp_stat_open :: "(string \<Rightarrow> int) \<Rightarrow> media_device \<Rightarrow> u32 \<Rightarrow> int \<times> (nat \<times> media_entity) option" where
  "isp_stat_open open_of md i = open_by_name open_of md (snprintf32 (''sunxi_h3a.'' @ fmt_u i))"

text \<open>\<open>isp->subdev\<close> is a copy of the entity that shares its pads, so the walk starts at the entity.\<close>

definition isp_sensor_open :: "(string \<Rightarrow> int) \<Rightarrow> media_device \<Rightarrow> nat \<Rightarrow> (int \<times> (nat \<times> media_entity) option) outcome" where
  "isp_sensor_open open_of md subdev =
     (case media_pipeline_get_head md subdev of
        Ub \<Rightarrow> Ub
      | Blocks \<Rightarrow> Blocks
      | Ret None \<Rightarrow> Ret (- 2, None)
      | Ret (Some s) \<Rightarrow> (case v4l2_subdev_open open_of (entities md ! s) of (ret, en) \<Rightarrow> Ret (ret, Some (s, en))))"

definition isp_stat_req_buffers :: "int + nat \<Rightarrow> bool \<Rightarrow> int \<times> nat \<times> bool" where
  "isp_stat_req_buffers cfg_ans malloc_ok =
     (case cfg_ans of
        Inl errno \<Rightarrow> (- errno, 0, False)
      | Inr buf_size \<Rightarrow> if malloc_ok then (0, buf_size, True) else (- 12, buf_size, False))"

text \<open>What the three nodes answer, as the environment of \<open>isp_dev_open\<close>: a descriptor, or what is negative.\<close>

definition node_ret :: "int \<times> (nat \<times> media_entity) option \<Rightarrow> int" where
  "node_ret r = (case r of (ret, None) \<Rightarrow> ret | (ret, Some (_, en)) \<Rightarrow> if ret < 0 then ret else ent_fd en)"

definition graph_env :: "(string \<Rightarrow> int) \<Rightarrow> media_device \<Rightarrow> u32 \<Rightarrow> 'm isp_env \<Rightarrow> 'm isp_env outcome" where
  "graph_env open_of md i env =
     (let env1 = env\<lparr>stat_ret := node_ret (isp_stat_open open_of md i), subdev_ret := node_ret (isp_subdev_open open_of md i)\<rparr> in
      case snd (isp_subdev_open open_of md i) of
        None \<Rightarrow> Ret (env1\<lparr>sensor_ret := - 2\<rparr>)
      | Some (e, _) \<Rightarrow>
          (case isp_sensor_open open_of md e of
             Ret r \<Rightarrow> Ret (env1\<lparr>sensor_ret := node_ret r\<rparr>)
           | Ub \<Rightarrow> Ub
           | Blocks \<Rightarrow> Blocks))"

section \<open>Questions about a video node\<close>

definition HW_VIDEO_NUM :: int where
  "HW_VIDEO_NUM = 4"

definition isp_md_open :: "bool \<Rightarrow> media_env \<Rightarrow> int list \<Rightarrow> (media_device option \<times> int list) outcome" where
  "isp_md_open md_malloc_ok menv fds = (if \<not> md_malloc_ok then Ret (None, fds) else media_open menv fds)"

definition isp_md_close :: "media_device option \<Rightarrow> int list \<Rightarrow> int list" where
  "isp_md_close isp_md fds = (case isp_md of None \<Rightarrow> fds | Some md \<Rightarrow> media_close md fds)"

text \<open>
  \<open>isp_get_isp_id\<close>: the array of video devices is fresh from \<open>isp_md_open\<close>, so it is empty; a negative number reads before it. Only the last return closes the media device.
\<close>

definition isp_get_isp_id :: "bool \<Rightarrow> bool \<Rightarrow> media_env \<Rightarrow> int \<Rightarrow> int list \<Rightarrow> (int \<times> int list) outcome" where
  "isp_get_isp_id md_malloc_ok video_malloc_ok menv video_id fds =
     (case isp_md_open md_malloc_ok menv fds of
        Ub \<Rightarrow> Ub
      | Blocks \<Rightarrow> Blocks
      | Ret (None, fds1) \<Rightarrow> Ret (- 1, fds1)
      | Ret (Some md, fds1) \<Rightarrow>
          if video_id \<ge> HW_VIDEO_NUM then Ret (- 1, fds1)
          else if video_id < 0 then Ub
          else if \<not> video_malloc_ok then Ret (- 1, fds1)
          else case media_get_entity_by_name md (snprintf32 (''vin_video'' @ fmt_u (word_of_int video_id))) of
            None \<Rightarrow> Ret (- 2, fds1)
          | Some v \<Rightarrow>
              (case media_video_to_isp_id md v of
                 Ret isp_id \<Rightarrow> Ret (isp_id, isp_md_close (Some md) fds1)
               | Ub \<Rightarrow> Ub
               | Blocks \<Rightarrow> Blocks))"

definition isp_video_to_isp_id :: "media_env \<Rightarrow> int \<Rightarrow> int list \<Rightarrow> (int \<times> int list) outcome" where
  "isp_video_to_isp_id menv video_id fds =
     (if video_id \<ge> HW_VIDEO_NUM then Ret (- 1, fds)
      else case media_open menv fds of
        Ub \<Rightarrow> Ub
      | Blocks \<Rightarrow> Blocks
      | Ret (None, fds1) \<Rightarrow> Ret (- 1, fds1)
      | Ret (Some md, fds1) \<Rightarrow>
          (case media_get_entity_by_name md (snprintf32 (''vin_video'' @ fmt_d video_id)) of
             None \<Rightarrow> Ret (- 2, fds1)
           | Some v \<Rightarrow>
               (case media_video_to_isp_id md v of
                  Ret isp_id \<Rightarrow> Ret (isp_id, media_close md fds1)
                | Ub \<Rightarrow> Ub
                | Blocks \<Rightarrow> Blocks)))"

definition isp_video_to_sensor_name :: "media_env \<Rightarrow> int \<Rightarrow> int list \<Rightarrow> (int \<times> string option \<times> int list) outcome" where
  "isp_video_to_sensor_name menv video_id fds =
     (if video_id \<ge> HW_VIDEO_NUM then Ret (- 1, None, fds)
      else case media_open menv fds of
        Ub \<Rightarrow> Ub
      | Blocks \<Rightarrow> Blocks
      | Ret (None, fds1) \<Rightarrow> Ret (- 19, None, fds1)
      | Ret (Some md, fds1) \<Rightarrow>
          (case media_get_entity_by_name md (snprintf32 (''vin_video'' @ fmt_d video_id)) of
             None \<Rightarrow> Ret (- 2, None, fds1)
           | Some v \<Rightarrow>
               (case media_pipeline_get_head md v of
                  Ub \<Rightarrow> Ub
                | Blocks \<Rightarrow> Blocks
                | Ret None \<Rightarrow> Ret (- 2, None, fds1)
                | Ret (Some s) \<Rightarrow> Ret (0, Some (desc_name (ent_info (entities md ! s))), media_close md fds1))))"

section \<open>Dequeued events\<close>

text \<open>
  \<open>VIDIOC_DQEVENT\<close> on the ISP node gives an event or fails; the kinds of event are those of the switch of \<open>isp_subdev_handle_event\<close>. \<open>load_type\<close> is the member it sets.
\<close>

datatype subdev_dq = DqFails | DqCtrl u32 int | DqFrameSync "byte list" | DqIspOff | DqOther

datatype dev_call = CallCtrl u32 int | CallFsync "byte list" | CallStreamOff | CallStats "byte list"

definition isp_subdev_dispatch :: "subdev_dq \<Rightarrow> byte \<Rightarrow> byte \<times> dev_call option" where
  "isp_subdev_dispatch dq load_type =
     (case dq of
        DqFails \<Rightarrow> (load_type, None)
      | DqCtrl i v \<Rightarrow> (load_type, Some (CallCtrl i v))
      | DqFrameSync data \<Rightarrow> (data ! 0, Some (CallFsync data))
      | DqIspOff \<Rightarrow> (load_type, Some CallStreamOff)
      | DqOther \<Rightarrow> (load_type, None))"

text \<open>
  The statistics node: the event may fail or carry the error flag of its buffer; the request for the buffer may fail.
\<close>

definition isp_stat_dispatch :: "bool option \<Rightarrow> byte list option \<Rightarrow> dev_call option" where
  "isp_stat_dispatch dq_buf_err req =
     (case dq_buf_err of
        None \<Rightarrow> None
      | Some True \<Rightarrow> None
      | Some False \<Rightarrow> map_option CallStats req)"

section \<open>Opening on a complete graph\<close>

lemma find_index_first: "i < length xs \<Longrightarrow> P (xs ! i) \<Longrightarrow> \<forall>j < i. \<not> P (xs ! j) \<Longrightarrow> find_index P xs = Some i"
proof (induction xs arbitrary: i)
  case (Cons x xs)
  show ?case
  proof (cases i)
    case (Suc i')
    then have "\<not> P x" using Cons.prems(3)[rule_format, of 0] by simp
    moreover have "\<not> P (xs ! j)" if "j < i'" for j using Cons.prems(3)[rule_format, of "Suc j"] that Suc by simp
    ultimately show ?thesis using Cons.IH[of i'] Cons.prems(1,2) Suc by simp
  qed (use Cons.prems in simp)
qed simp

definition names_distinct :: "media_device \<Rightarrow> bool" where
  "names_distinct md \<longleftrightarrow> distinct (map (\<lambda>en. desc_name (ent_info en)) (entities md))"

lemma by_name_unique:
  assumes "names_distinct md" "i < length (entities md)" "desc_name (ent_info (entities md ! i)) = name"
  shows "media_get_entity_by_name md name = Some i"
proof -
  have "desc_name (ent_info (entities md ! j)) \<noteq> name" if "j < i" for j
    using assms that nth_eq_iff_index_eq[OF assms(1)[unfolded names_distinct_def], of i j] by auto
  then show ?thesis using assms(2,3) unfolding media_get_entity_by_name_def by (intro find_index_first) auto
qed

lemma fmt_u_length: "length (fmt_u w) \<le> 10"
proof -
  have "unat w < 2 ^ LENGTH(32)" by (rule unsigned_less)
  then have "unat w < 10 ^ Suc 9" by simp
  then show ?thesis using length_dec_string[of "unat w" 9] by (simp add: fmt_u_def)
qed

lemma snprintf32_short: "length s \<le> 31 \<Longrightarrow> snprintf32 s = s"
  by (simp add: snprintf32_def)

lemma isp_name_fits: "length pre = 10 \<Longrightarrow> snprintf32 (pre @ fmt_u w) = pre @ fmt_u w"
  using fmt_u_length[of w] by (intro snprintf32_short) simp

lemma open_by_name_found:
  assumes "names_distinct md" "unopened md" "i < length (entities md)" "desc_name (ent_info (entities md ! i)) = name"
    "0 \<le> open_of (ent_devname (entities md ! i))"
  shows "open_by_name open_of md name =
    (0, Some (i, (entities md ! i)\<lparr>ent_fd := open_of (ent_devname (entities md ! i))\<rparr>))"
  using assms(2,3,5) by_name_unique[OF assms(1,3,4)]
  by (auto simp: open_by_name_def v4l2_subdev_open_def unopened_def)

text \<open>A graph with the nodes of ISP \<open>w\<close>: the ISP \<open>i\<close>, its statistics \<open>h\<close>, and a sensor \<open>s\<close> whose data reach the ISP.\<close>

definition complete_for :: "(string \<Rightarrow> int) \<Rightarrow> media_device \<Rightarrow> u32 \<Rightarrow> nat \<Rightarrow> nat \<Rightarrow> nat \<Rightarrow> bool" where
  "complete_for open_of md w i h s \<longleftrightarrow>
     graph_ok md \<and> all_pads_own md \<and> one_link_on md \<and> names_distinct md \<and> unopened md \<and>
     i < length (entities md) \<and> h < length (entities md) \<and> s < length (entities md) \<and>
     desc_name (ent_info (entities md ! i)) = ''sunxi_isp.'' @ fmt_u w \<and>
     desc_name (ent_info (entities md ! h)) = ''sunxi_h3a.'' @ fmt_u w \<and>
     (case pad_at md (s, 0) of None \<Rightarrow> False | Some pd \<Rightarrow> pad_is_source pd) \<and>
     desc_type (ent_info (entities md ! s)) = MEDIA_ENT_T_V4L2_SUBDEV_SENSOR \<and>
     list_all (\<lambda>e. 0 \<le> open_of (ent_devname (entities md ! e))) [i, h, s]"

lemma graph_env_complete:
  assumes "complete_for open_of md w i h s" "(\<lambda>a b. feeds md a b \<and> a \<noteq> b)\<^sup>*\<^sup>* i s"
  shows "graph_env open_of md w env = Ret (env\<lparr>stat_ret := open_of (ent_devname (entities md ! h)),
    subdev_ret := open_of (ent_devname (entities md ! i)), sensor_ret := open_of (ent_devname (entities md ! s))\<rparr>)"
proof -
  note c = assms(1)[unfolded complete_for_def]
  have nh: "snprintf32 (''sunxi_h3a.'' @ fmt_u w) = ''sunxi_h3a.'' @ fmt_u w" and ni: "snprintf32 (''sunxi_isp.'' @ fmt_u w) = ''sunxi_isp.'' @ fmt_u w"
    by (rule isp_name_fits; simp)+
  have st: "isp_stat_open open_of md w = (0, Some (h, (entities md ! h)\<lparr>ent_fd := open_of (ent_devname (entities md ! h))\<rparr>))"
    unfolding isp_stat_open_def nh using c by (intro open_by_name_found) auto
  have sd: "isp_subdev_open open_of md w = (0, Some (i, (entities md ! i)\<lparr>ent_fd := open_of (ent_devname (entities md ! i))\<rparr>))"
    unfolding isp_subdev_open_def ni using c by (intro open_by_name_found) auto
  obtain pd where pd: "pad_at md (s, 0) = Some pd" "pad_is_source pd" using c by (auto split: option.splits)
  have "media_pipeline_get_head md i = Ret (Some s)"
    using c assms(2) pd by (intro pipeline_head) auto
  moreover have "v4l2_subdev_open open_of (entities md ! s) = (0, (entities md ! s)\<lparr>ent_fd := open_of (ent_devname (entities md ! s))\<rparr>)"
    using c by (auto simp: v4l2_subdev_open_def unopened_def)
  ultimately have se: "isp_sensor_open open_of md i = Ret (0, Some (s, (entities md ! s)\<lparr>ent_fd := open_of (ent_devname (entities md ! s))\<rparr>))"
    by (simp add: isp_sensor_open_def)
  show ?thesis using st sd se by (simp add: graph_env_def node_ret_def Let_def)
qed

lemma isp_init_fds:
  assumes "media_inv st" "isp_key d" "healthy_env env" "isp_use_cnt (isp_slot_at st d) = 0"
  shows "\<exists>st'. isp_init env d st = Ret (0, st') \<and> isp_use_cnt (isp_slot_at st' d) = 1 \<and>
    open_fds (isp_slot_at st' d) = [stat_ret env, subdev_ret env, sensor_ret env]"
proof -
  have d: "0 \<le> d" "d < 2" "length (isp_slots st) = 2" using assms(1,2) by (auto simp: media_inv_def HW_ISP_DEVICE_NUM_def)
  have sl: "slot_inv (isp_slot_at st d)" by (rule media_inv_slot[OF assms(1,2)])
  obtain hw where cf: "isp_configure env d (upd_slot d (\<lambda>_. snd (isp_dev_open env (isp_slot_at (upd_slot d (\<lambda>sl. sl\<lparr>isp_use_cnt := 1\<rparr>) st) d)))
      ((upd_slot d (\<lambda>sl. sl\<lparr>isp_use_cnt := 1\<rparr>) st)\<lparr>isp_mdev := True\<rparr>)) = (True, hw)"
    using isp_configure_healthy assms(3) unfolding healthy_env_def by blast
  show ?thesis
    using d assms(3,4) sl cf
    by (simp add: isp_init_def isp_dev_open_def HW_ISP_DEVICE_NUM_def healthy_env_def slot_inv_def Let_def)
qed

text \<open>
  C12. From the driver's graph to a running device: an idle ISP \<open>d\<close> whose own node, statistics node and sensor are in the media graph starts, and it runs on the
  descriptors of exactly these nodes: the statistics and ISP nodes that carry its number, and the sensor at the head of its pipeline.
\<close>

theorem complete_graph_starts:
  assumes "media_inv st" "isp_key d" "isp_use_cnt (isp_slot_at st d) = 0"
    and "complete_for open_of md (word_of_int d) i h s" "(\<lambda>a b. feeds md a b \<and> a \<noteq> b)\<^sup>*\<^sup>* i s"
    and "healthy_env (env\<lparr>stat_ret := 0, subdev_ret := 0, sensor_ret := 0\<rparr>)"
  shows "\<exists>env' st'. graph_env open_of md (word_of_int d) env = Ret env' \<and> isp_init env' d st = Ret (0, st') \<and>
    isp_use_cnt (isp_slot_at st' d) = 1 \<and>
    open_fds (isp_slot_at st' d) = [open_of (ent_devname (entities md ! h)), open_of (ent_devname (entities md ! i)), open_of (ent_devname (entities md ! s))]"
proof -
  let ?env = "env\<lparr>stat_ret := open_of (ent_devname (entities md ! h)), subdev_ret := open_of (ent_devname (entities md ! i)),
    sensor_ret := open_of (ent_devname (entities md ! s))\<rparr>"
  have "healthy_env ?env" using assms(4,6) by (simp add: healthy_env_def complete_for_def)
  from isp_init_fds[OF assms(1,2) this assms(3)] show ?thesis
    using graph_env_complete[OF assms(4,5), of env] by (intro exI[of _ ?env]) simp
qed

definition demo_nodes_env :: media_env where
  "demo_nodes_env = demo_media_env\<lparr>
     sys_readlink := (\<lambda>s. Some (''x/'' @ drop 14 s)), dev_stat := (\<lambda>s. Some (81, of_nat (dec_value (drop 8 s)))),
     ent_answers := take 3 (ent_answers demo_media_env) @
       [Inr (\<lparr>desc_id = 4, desc_name = ''sunxi_h3a.0'', desc_type = 0x20000, desc_pads = 0, desc_links = 0, desc_major = 81, desc_minor = 3\<rparr>, True), Inl 22],
     link_answers := link_answers demo_media_env @ [Inr ([], [])]\<rparr>"

definition demo_nodes :: media_device where
  "demo_nodes = (case media_open demo_nodes_env [] of Ret (Some md, _) \<Rightarrow> md | _ \<Rightarrow> demo_media)"

definition demo_opens :: "string \<Rightarrow> int" where
  "demo_opens s = int (dec_value (drop 8 s)) + 20"

lemma demo_nodes_complete: "complete_for demo_opens demo_nodes 0 1 3 0"
proof -
  have o: "media_open demo_nodes_env [] = Ret (Some demo_nodes, [7])" by code_simp
  have g: "graph_ok demo_nodes" "all_pads_own demo_nodes"
    using media_open_builds[OF o] by (simp_all add: demo_nodes_env_def demo_media_env_def errno_pos_def)
  have "one_link_on demo_nodes" "names_distinct demo_nodes" "unopened demo_nodes" "length (entities demo_nodes) = 4"
    "desc_name (ent_info (entities demo_nodes ! 1)) = ''sunxi_isp.'' @ fmt_u 0" "desc_name (ent_info (entities demo_nodes ! 3)) = ''sunxi_h3a.'' @ fmt_u 0"
    "case pad_at demo_nodes (0, 0) of None \<Rightarrow> False | Some pd \<Rightarrow> pad_is_source pd"
    "desc_type (ent_info (entities demo_nodes ! 0)) = MEDIA_ENT_T_V4L2_SUBDEV_SENSOR"
    "list_all (\<lambda>e. 0 \<le> demo_opens (ent_devname (entities demo_nodes ! e))) [1, 3, 0]"
    by code_simp+
  with g show ?thesis by (simp add: complete_for_def)
qed

theorem complete_graph_starts_witness:
  "\<exists>env' st'. graph_env demo_opens demo_nodes 0 good_env = Ret env' \<and> isp_init env' 0 idle_media = Ret (0, st') \<and>
     open_fds (isp_slot_at st' 0) = [23, 22, 21]"
proof -
  have "feeds demo_nodes 1 0" "map (\<lambda>e. demo_opens (ent_devname (entities demo_nodes ! e))) [3, 1, 0] = [23, 22, 21]"
    by code_simp+
  moreover have "healthy_env (good_env\<lparr>stat_ret := 0, subdev_ret := 0, sensor_ret := 0\<rparr>)" by (simp add: healthy_env_def good_env_def)
  ultimately show ?thesis
    using complete_graph_starts[OF idle_media_inv, of 0 demo_opens demo_nodes 1 3 0 good_env] demo_nodes_complete
    by (auto simp: HW_ISP_DEVICE_NUM_def idle_media_def idle_slot_def isp_slot_at_def)
qed

text \<open>
  A query for the ISP of a video node answers and leaves no descriptor behind when the node is in the graph; for a node that is not, it
  answers \<open>-ENOENT\<close> and keeps the media device open, one descriptor more with every call.
\<close>

theorem video_query_descriptors:
  assumes "media_open menv fds = Ret (Some md, media_fd md # fds)" "unopened md" "media_fd md \<noteq> - 1" "v < HW_VIDEO_NUM"
  shows "(case media_get_entity_by_name md (snprintf32 (''vin_video'' @ fmt_d v)) of
      None \<Rightarrow> isp_video_to_isp_id menv v fds = Ret (- 2, media_fd md # fds)
    | Some e \<Rightarrow> \<forall>k. media_video_to_isp_id md e = Ret k \<longrightarrow> isp_video_to_isp_id menv v fds = Ret (k, fds))"
  using assms close_unopened[of md] by (auto simp: isp_video_to_isp_id_def unopened_def split: option.split)

theorem video_query_descriptors_witness:
  "isp_video_to_isp_id demo_media_env 1 [] = Ret (- 2, [7]) \<and> isp_video_to_isp_id demo_media_env 0 [] = Ret (0, [])"
proof -
  have "media_fd demo_media = 7" "unopened demo_media" "media_get_entity_by_name demo_media (snprintf32 (''vin_video'' @ fmt_d 1)) = None"
    "media_get_entity_by_name demo_media (snprintf32 (''vin_video'' @ fmt_d 0)) = Some 2" "media_video_to_isp_id demo_media 2 = Ret 0"
    by code_simp+
  then show ?thesis
    using video_query_descriptors[of demo_media_env "[]" demo_media 1] video_query_descriptors[of demo_media_env "[]" demo_media 0] demo_media_open
    by (simp add: HW_VIDEO_NUM_def)
qed

end
