(* ===== verification/Spec2Isabelle.thy ===== *)
theory Spec2Isabelle
  imports ServerApi ThreadPool IspMath IspSession SensorConfig DeviceNodes
begin

text \<open>
  \<^bold>\<open>The camera ISP tuning stack of the Allwinner hardware abstraction layer.\<close>

  The repository holds the Android HALs of the Allwinner SoCs. This development verifies the part that is C
  code with state and a protocol of its own: the user-space driver of the image signal processor
  (\<open>src/camera/3_4/allwinnertech/libAWIspApi/libisp_new\<close>) and the tuning server that edits its
  parameters over the network (\<open>.../libAWIspApi/awTunningApp/tuning_app\<close>). Paths below are relative to
  \<open>libAWIspApi\<close>; the configuration is \<open>ISP_VERSION\<close> 522 with \<open>HW_ISP_DEVICE_NUM\<close> 2, on a little-endian core.

  \<^bold>\<open>How the parts interact.\<close> \<open>awIspStart\<close> (the camera HAL's entry) opens a device through \<open>isp_init\<close>, loads its
  parameters into a tuning object and starts a server thread with \<open>isp_run\<close>; the thread runs an event loop over
  the descriptors of the ISP and its statistics node, whose callbacks apply control events, drive the flash and
  run the 3A libraries. A PC tool connects to the tuning server, which asks for a password and hands the connection to a worker of the
  thread pool. The worker runs the thread for the type of the connection: the tuning thread selects an ISP (starting the device when it is not running),
  reads parameters with \<open>isp_get_cfg\<close> or writes them with \<open>isp_set_cfg\<close> and \<open>isp_update\<close>, and converts every
  configuration buffer between host and network byte order on the way; other threads fetch frames from the capture module, run shell scripts or access
  sensor registers.

  \<^bold>\<open>Theories, in the order of their imports.\<close>

  \<^item> \<open>Prelude\<close>: the C integer types as words, their little-endian images, slices and partial overwriting
    of buffers, byte swaps, the shared collections of rewrite rules. The locale \<open>invariant_system\<close> (a start and a step that
    keep an invariant) carries the invariants of the transition systems below; \<open>IspHandle\<close>, \<open>ThreadPool\<close> and \<open>CaptureImage\<close> interpret it.

  \<^item> \<open>CfgItems\<close>: the walk over the selected items of a configuration group, shared by reading and writing.
    The locale \<open>cfg_group\<close> states what a table of items promises (sizes, disjointness, a write
    that is read back); its lemmas give round trips, bounds and frame conditions of whole groups.

  \<^item> \<open>IspParams\<close>: \<open>struct isp_param_config\<close> and its parts (\<open>libisp_new/isp_tuning/isp_tuning_priv.h\<close>) field by
    field, with the declared array lengths as well-formedness predicates.

  \<^item> \<open>Tuning3A\<close>, \<open>TuningBasic\<close>, \<open>TuningTables\<close>, \<open>TuningDynamic\<close>: the four configuration groups of
    \<open>isp_tuning_get_cfg\<close> and \<open>isp_tuning_set_cfg\<close> (\<open>isp_tuning.c\<close>), block by block, each interpreting \<open>cfg_group\<close>.

  \<^item> \<open>IspTuning\<close>: the tuning object: creation, reading, writing, publication by \<open>isp_tuning_update\<close>. What is
    written is read back, writing back what was read changes nothing, items that were not selected stay
    as they are, accesses stay within the buffer exactly when it is large enough, every
    error branch.

  \<^item> \<open>IspEvents\<close>: \<open>isp_events/events.c\<close>. The descriptor sets always equal the registered list; the
    loop returns when it is stopped, when \<open>select\<close> times out and when it fails.

  \<^item> \<open>IspDevice\<close>: \<open>isp.c\<close>, \<open>isp_dev/isp_dev.c\<close>, \<open>AWIspApi.cpp\<close>. Use counts under every interleaving of
    starts and stops (through the locale \<open>counted_use\<close>), the parameters a fresh device runs with, what the
    thread leaves behind, what a failed start leaves behind. The outcome type of calls (\<open>Ret\<close>, \<open>Ub\<close>, \<open>Blocks\<close>) is declared here.

  \<^item> \<open>IspHandle\<close>: the ISP selection of the server (\<open>server/isp_handle.c\<close>) as a step relation whose
    reachable states keep an invariant between the server's flags and the device slots.

  \<^item> \<open>TuningConvert\<close>, \<open>Stats3A\<close>: the byte-order conversions of \<open>server/isp_handle.c\<close>. The locale \<open>byte_order\<close>
    (a pair of inverse conversions) is interpreted in both directions; conversions are inverse to each other
    on every group and on the statistics.

  \<^item> \<open>SockProtocol\<close>: \<open>socket_protocol.c\<close>. Transfers deliver the bytes in order under every chunking by the
    kernel; a packet that arrives is classified by its header.

  \<^item> \<open>TuningServer\<close>: the tuning and heart-beat threads of \<open>server/server_core.c\<close>. What a client sets over the
    network is what it later gets; the sizes of requests, refusals and time-outs.

  \<^item> \<open>RawFlow\<close>: \<open>server/raw_flow_opt.c\<close>, the ring buffer of raw frames; the locale \<open>bounded_fifo\<close> is the
    abstract queue that it refines.

  \<^item> \<open>VideoDevice\<close>: \<open>isp_dev/video.c\<close> and the opening and closing of a video node in \<open>isp_dev/isp_dev.c\<close>: format, buffer pool,
    mappings, the exchange of buffers with the driver, streaming.

  \<^item> \<open>CaptureImage\<close>: \<open>server/capture_image.c\<close>, the video channels with their frame threads and the calls of the module, as a
    transition system over critical sections. Flags, threads and nodes agree in every reachable state, a frame arrives byte by byte
    and its buffer goes back, a thread that gets no frames ends, \<open>stop_raw_flow\<close> can hang.

  \<^item> \<open>RegisterOpt\<close>: \<open>server/register_opt.c\<close>, sensor registers through printed commands and a parsed file: what is written can be
    decoded, what is shown is read back.

  \<^item> \<open>ServerThreads\<close>: the other connection threads of \<open>server/server_core.c\<close> (preview, capture, statistics, script, register, light value,
    sensor input, raw flow, version), on top of the modules they call. The locale \<open>timed_loop\<close> is what all loops share (a stop flag ends them, a
    timeout is counted) and is interpreted by each of them. Frames, script output and register values arrive at the client; the blocks
    that a client can overflow.

  \<^item> \<open>ServerApi\<close>: \<open>server/server_api.c\<close> and the descriptors of \<open>server/mini_shell.c\<close>: handshake and dispatch of a connection, the
    accept loop, start and end of the server. No thread without the right answer; every thread gives up a silent client; the loop ends when it is told to.

  \<^item> \<open>ThreadPool\<close>: \<open>thread_pool.c\<close> as a transition system of the workers and of the holder of the global mutex.
    Every accepted work is run once, pending or dropped; no worker touches a released node.

  \<^item> \<open>IspMath\<close>: the integer routines of \<open>isp_math/isp_math_util.c\<close>: the shell sort sorts, \<open>SqrtM\<close> is the nearest
    square root, \<open>Conv\<close> is the convolution.

  \<^item> \<open>IspControls\<close>: the control setters of \<open>isp_manage/isp_helper.c\<close>, their dispatch, the attribute interface and the
    flash state machine of \<open>isp.c\<close>. The locale \<open>ctrl_setting\<close> (a setting, its setter and its change
    flag) is interpreted once per control.

  \<^item> \<open>IspModules\<close>: the hardware side of \<open>isp_manage/isp_manage.c\<close>: the word of module flags, the block of registers and
    tables that the driver loads, interval and saturation tables. Every flag equals its switch; the tables fill the block without overlap; the interval tables
    equal their meaning but for one entry.

  \<^item> \<open>IspContext\<close>: the context of the pipeline manager, the parameter blocks and results of the algorithm libraries (\<open>include/isp_3a_ae.h\<close> and its
    siblings), and the libraries themselves as a record of functions. It fills the part of the context that \<open>IspTuning\<close> leaves open.

  \<^item> \<open>IspPipeline\<close>: the operations of \<open>isp_manage/isp_manage.c\<close>: configuration and update, the frame (\<open>isp_ctx_algo_run\<close>), set-up and release,
    exposure tables. \<open>None\<close> stands for a null pointer that is followed, a division by zero, an index outside an array or a lock taken twice.

  \<^item> \<open>IspFrames\<close>: the timing of a frame and its bounds; any number of frames runs after a set-up, through the locale \<open>ticking\<close> (a step that keeps an
    invariant and advances a counter) interpreted on the frame; the first frame after a failed set-up follows a null pointer.

  \<^item> \<open>IspUpdate\<close>: the exposure tables under a new frame rate, and the way of a tuning update from the tuning object into the parameter blocks of the libraries. The locale \<open>iso_blind\<close> is what both views of the context promise about the ISO library.

  \<^item> \<open>IspSession\<close>: the callbacks of \<open>isp.c\<close> on the whole context: a statistics buffer with its commands to lens, LED, sensor and ISP, and the controls and
    the flash of \<open>IspControls\<close> on the same context. In the transition system of all events (an interpretation of \<open>invariant_system\<close>) every reachable device handles the next
    event; the sensor follows the exposure of the libraries.

  \<^bold>\<open>Conventions.\<close> Members of a struct are fields of a record, at their width where the code compares, shifts or
  truncates them. Undefined behaviour (an access outside an array, a null pointer, an overflowing \<open>int\<close>) is
  \<open>None\<close> or \<open>Ub\<close>; a call that never returns is \<open>Blocks\<close>. What the kernel answers (results of \<open>select\<close>, \<open>recv\<close>,
  \<open>send\<close>, \<open>open\<close>, \<open>ioctl\<close>, \<open>malloc\<close>, \<open>pthread_create\<close>) is an argument: a record of results for calls made once, a
  script (a list with one entry per call) for loops. A loop over a script ends when it returns or
  blocks; a script that is too short shows as \<open>None\<close> or \<open>Blocks\<close>, and the theorems that
  promise a result state how long it has to be: \<open>events_loop\<close> needs one entry per round up to the one that ends it, a transfer
  of \<open>n\<close> bytes at most \<open>n\<close> successful entries. Threads interleave between critical sections; a section is one step.

  \<^bold>\<open>Assumptions about code without source.\<close> The algorithm libraries (\<open>libisp_ae\<close>, \<open>libisp_awb\<close>, ...) and the \<open>config_...\<close> routines are prebuilt
  archives. They are arguments (\<open>isp_libs\<close>), and what the theorems rely on are named predicates: \<open>libs_keep\<close> (a routine that gets the whole context leaves
  counters, lock, objects, memory and sensor timing alone), \<open>exposure_bounded\<close> (the exposure library stays below a given exposure),
  \<open>libs_available\<close> (every library gives an object), \<open>libs_transparent\<close> and \<open>reads_params\<close> (an update reads parameters and does not write them),
  \<open>session_keep\<close> (the same for the routines of other events) and \<open>green_gains\<close> (the white balance library answers with green gains above 0).
  \<open>idle_libs\<close> and \<open>live_libs\<close> are instances on which they hold.

  \<^bold>\<open>Not modelled.\<close> The device life cycle (\<open>IspDevice\<close>) still takes the configuration functions as parameters (\<open>config_of\<close>); \<open>IspUpdate\<close>
  instantiates them. Motion detection and roll-off are switched off in this configuration. Routines on \<open>float\<close> and \<open>double\<close> are left out, or parameters where integer code calls them.
  Of the server, the log and the process entry are left out, and what a worker of the pool does between its critical sections is one connection thread run alone:
  two threads that use the same module at the same time are interleaved only inside \<open>CaptureImage\<close> and \<open>ThreadPool\<close>.
  \<open>isp_cfg\<close> holds sensor tables and the mapping of ini keys to parameters; what it parses is a
  parameter of the device life cycle. The directory \<open>libisp\<close> is an earlier version of \<open>libisp_new\<close>. The
  HALs outside \<open>libAWIspApi\<close> are mostly C++ glue to Android interfaces or copies of vendor code.
\<close>

end
